(* ===== verification/Prelude.thy ===== *)
theory Prelude
  imports Complex_Main "HOL-Library.AList" "HOL-Library.List_Lexorder" "HOL-Library.Char_ord"
begin

text \<open>
  Shared vocabulary of the development: the Python values the Control Plane keeps in its JSON
  authority files, the dictionary operations it applies to them, floating point timestamps, and
  results that are either an exception or a value.

  \<^item> A Python dict is an association list in insertion order.  \<open>dget\<close> is \<open>d.get(k)\<close> (a missing
    key reads as None), \<open>dhas\<close> is \<open>k in d\<close>, \<open>dset\<close> is \<open>d[k] = v\<close>, \<open>dupdate\<close> is \<open>d.update(...)\<close>
    and \<open>dpop\<close> is \<open>d.pop(k, None)\<close>.
  \<^item> A Python float is a rational, one of the two infinities or NaN.  Arithmetic on rationals is
    exact, with the IEEE double overflow threshold to infinity; rounding to 53 bits is not modelled.
  \<^item> Characters are code points up to 255.
\<close>

named_theorems dict_simps \<open>lookups in updated dictionaries\<close>
named_theorems value_simps \<open>evaluation of the Python value operations\<close>

section \<open>Floating point numbers\<close>

datatype pyfloat = Fin rat | PosInf | NegInf | NaN

text \<open>The least magnitude that rounds to infinity in IEEE double precision.\<close>

definition float_overflow :: rat where
  "float_overflow = 2 ^ 1024 - 2 ^ 970"

definition mk_float :: "rat \<Rightarrow> pyfloat" where
  "mk_float x = (if float_overflow \<le> x then PosInf else if x \<le> - float_overflow then NegInf else Fin x)"

fun fadd :: "pyfloat \<Rightarrow> pyfloat \<Rightarrow> pyfloat" where
  "fadd (Fin a) (Fin b) = mk_float (a + b)"
| "fadd NaN _ = NaN"
| "fadd _ NaN = NaN"
| "fadd PosInf NegInf = NaN"
| "fadd NegInf PosInf = NaN"
| "fadd PosInf _ = PosInf"
| "fadd NegInf _ = NegInf"
| "fadd _ PosInf = PosInf"
| "fadd _ NegInf = NegInf"

text \<open>Multiplication by a positive constant.\<close>

fun fscale :: "pyfloat \<Rightarrow> rat \<Rightarrow> pyfloat" where
  "fscale (Fin a) c = mk_float (a * c)"
| "fscale f c = f"

text \<open>\<open>float(n)\<close> of an int raises OverflowError (here None) when it does not fit.\<close>

definition float_of_int :: "int \<Rightarrow> pyfloat option" where
  "float_of_int n = (if \<bar>of_int n\<bar> < float_overflow then Some (Fin (of_int n)) else None)"

definition isfinite :: "pyfloat \<Rightarrow> bool" where
  "isfinite f = (case f of Fin _ \<Rightarrow> True | _ \<Rightarrow> False)"

lemma isfinite_simps [simp]:
  "isfinite (Fin x)" "\<not> isfinite PosInf" "\<not> isfinite NegInf" "\<not> isfinite NaN"
  by (simp_all add: isfinite_def)

lemma float_overflow_code [code]:
  "float_overflow = of_int 179769313486231580793728971405303415079934132710037826936173778980444968292764750946649017977587207096330286416692887910946555547851940402630657488671505820681908902000708383676273854845817711531764475730270069855571366959622842914819860834936475292719074168444365510704342711559699508093042880177904174497792"
  by (simp add: float_overflow_def)

lemma float_overflow_pos: "0 < float_overflow"
  by (simp add: float_overflow_def)

lemma float_overflow_large: "10 ^ 300 < float_overflow"
  by (simp add: float_overflow_def)

lemma mk_float_Fin: "\<bar>x\<bar> < float_overflow \<Longrightarrow> mk_float x = Fin x"
  by (auto simp: mk_float_def)

lemma mk_float_eq_Fin: "mk_float x = Fin y \<longleftrightarrow> x = y \<and> \<bar>x\<bar> < float_overflow"
  by (auto simp: mk_float_def abs_if split: if_splits)

section \<open>JSON values\<close>

datatype json =
    JNull
  | JBool bool
  | JInt int
  | JFloat pyfloat
  | JStr string
  | JList "json list"
  | JObj "(string \<times> json) list"

type_synonym dict = "(string \<times> json) list"

abbreviation JTime :: "rat \<Rightarrow> json" where
  "JTime t \<equiv> JFloat (Fin t)"

section \<open>Exceptions and results\<close>

text \<open>
  One constructor per exception class the modelled code raises.  Messages are not kept: several
  validators iterate over a frozenset, so which message is raised first is not determined.
\<close>

datatype err =
    InvalidTransition
  | EntitlementExceeded
  | SessionStateError
  | MediaControlIdempotencyConflict
  | MediaControlVersionConflict dict
  | MediaControlNotRunning
  | ProvisioningInProgress
  | OrphanCleanupInProgress
  | IngestCredentialError
  | IngestAuthGuardStateError
  | AuthRateLimitExceeded int
  | AuthRateLimitUnavailable
  | KeyError
  | RuntimeError
  | ValueError
  | TypeError
  | OSError
  | OverflowError
  | FakeProviderStateError
  | IngestObservationClockError
  | UserEventTypeError
  | UserEventPayloadError
  | EntitlementStateError
  | ControlStateError
  | ControlIdempotencyConflict
  | ControlVersionConflict dict
  | NodeStateError
  | HTTPException int
  | DestinationUrlSafetyError
  | DestinationProbeError
  | AssetUploadIntentError
  | CatalogStateError
  | CatalogValidationError
  | CatalogNotFound
  | CatalogVerifyFailed
  | DestinationSecretError
  | DestinationSecretNotFound
  | EgressDestinationError
  | DestinationGuardError string bool
  | AuthError
  | EmailAlreadyRegistered
  | InvalidCredentials
  | AuthStateError
  | AssetProcessingError
  | AuthKdfAdmissionBusy
  | AuthKdfAdmissionUnavailable
  | DestinationProbeAdmissionBusy
  | DestinationProbeAdmissionUnavailable
  | OperationsAlertCatalogError
  | OperationsAlertError
  | DeadlineClockError
  | ControlPlaneHTTPError int
  | ControlPlaneUnavailable
  | AttemptSupervisorError
  | InvalidAttemptResult
  | InvalidChildMessage

text \<open>\<open>Inl\<close> is a raised exception, \<open>Inr\<close> a normal return.\<close>

definition is_ok :: "'e + 'a \<Rightarrow> bool" where
  "is_ok r = (case r of Inl _ \<Rightarrow> False | Inr _ \<Rightarrow> True)"

lemma is_ok_simps [simp]: "\<not> is_ok (Inl e)" "is_ok (Inr x)"
  by (simp_all add: is_ok_def)

lemma is_ok_iff: "is_ok r \<longleftrightarrow> (\<exists>x. r = Inr x)"
  by (cases r) auto

definition rbind :: "'e + 'a \<Rightarrow> ('a \<Rightarrow> 'e + 'b) \<Rightarrow> 'e + 'b" where
  "rbind r f = (case r of Inl e \<Rightarrow> Inl e | Inr x \<Rightarrow> f x)"

lemma rbind_simps [simp]:
  "rbind (Inl e) f = Inl e"
  "rbind (Inr x) f = f x"
  by (simp_all add: rbind_def)

lemma rbind_eq_Inr: "rbind r f = Inr y \<longleftrightarrow> (\<exists>x. r = Inr x \<and> f x = Inr y)"
  by (cases r) auto

lemma rbind_eq_Inl: "rbind r f = Inl e \<longleftrightarrow> r = Inl e \<or> (\<exists>x. r = Inr x \<and> f x = Inl e)"
  by (cases r) auto

lemma is_ok_rbind: "is_ok (rbind r f) \<longleftrightarrow> (\<exists>x. r = Inr x \<and> is_ok (f x))"
  by (cases r) auto

lemma rbind_split: "P (rbind r f) \<longleftrightarrow> (\<forall>e. r = Inl e \<longrightarrow> P (Inl e)) \<and> (\<forall>x. r = Inr x \<longrightarrow> P (f x))"
  by (cases r) auto

text \<open>\<open>if not test: raise e\<close>\<close>

definition require :: "err \<Rightarrow> bool \<Rightarrow> err + unit" where
  "require e test = (if test then Inr () else Inl e)"

lemma require_simps [simp]:
  "require e True = Inr ()" "require e False = Inl e" "is_ok (require e b) \<longleftrightarrow> b"
  "require e b = Inr u \<longleftrightarrow> b" "require e b = Inl e' \<longleftrightarrow> \<not> b \<and> e' = e"
  by (auto simp: require_def)

definition from_some :: "err \<Rightarrow> 'a option \<Rightarrow> err + 'a" where
  "from_some e x = (case x of None \<Rightarrow> Inl e | Some v \<Rightarrow> Inr v)"

lemma from_some_simps [simp]:
  "from_some e None = Inl e" "from_some e (Some v) = Inr v"
  "from_some e x = Inr v \<longleftrightarrow> x = Some v" "from_some e x = Inl e' \<longleftrightarrow> x = None \<and> e' = e"
  by (auto simp: from_some_def split: option.splits)

section \<open>Operations on values\<close>

text \<open>Truth value of an object, as in \<open>bool(x)\<close> and in a condition.\<close>

fun truthy :: "json \<Rightarrow> bool" where
  "truthy JNull = False"
| "truthy (JBool b) = b"
| "truthy (JInt n) = (n \<noteq> 0)"
| "truthy (JFloat f) = (f \<noteq> Fin 0)"
| "truthy (JStr s) = (s \<noteq> [])"
| "truthy (JList xs) = (xs \<noteq> [])"
| "truthy (JObj d) = (d \<noteq> [])"

text \<open>Type tests: \<open>isinstance(v, dict)\<close> and its kin, with the value on success.\<close>

fun as_obj :: "json \<Rightarrow> dict option" where
  "as_obj (JObj d) = Some d"
| "as_obj _ = None"

fun as_list :: "json \<Rightarrow> json list option" where
  "as_list (JList xs) = Some xs"
| "as_list _ = None"

fun as_str :: "json \<Rightarrow> string option" where
  "as_str (JStr s) = Some s"
| "as_str _ = None"

fun as_int :: "json \<Rightarrow> int option" where
  "as_int (JInt n) = Some n"
| "as_int _ = None"

fun as_bool :: "json \<Rightarrow> bool option" where
  "as_bool (JBool b) = Some b"
| "as_bool _ = None"

lemma as_eq_Some [simp]:
  "as_obj v = Some d \<longleftrightarrow> v = JObj d"
  "as_list v = Some xs \<longleftrightarrow> v = JList xs"
  "as_str v = Some s \<longleftrightarrow> v = JStr s"
  "as_int v = Some n \<longleftrightarrow> v = JInt n"
  "as_bool v = Some b \<longleftrightarrow> v = JBool b"
  by (cases v; simp)+

definition null_or_str :: "json \<Rightarrow> bool" where
  "null_or_str v = (v = JNull \<or> as_str v \<noteq> None)"

lemma null_or_str_iff: "null_or_str v \<longleftrightarrow> v = JNull \<or> (\<exists>s. v = JStr s)"
  by (auto simp: null_or_str_def)

definition jopt :: "string option \<Rightarrow> json" where
  "jopt x = (case x of None \<Rightarrow> JNull | Some s \<Rightarrow> JStr s)"

lemma jopt_simps [simp]: "jopt None = JNull" "jopt (Some s) = JStr s"
  by (simp_all add: jopt_def)

text \<open>Numeric reading of a value in a comparison: bool and int compare by value with floats.\<close>

fun num_of :: "json \<Rightarrow> pyfloat option" where
  "num_of (JBool b) = Some (Fin (if b then 1 else 0))"
| "num_of (JInt n) = Some (Fin (of_int n))"
| "num_of (JFloat f) = Some f"
| "num_of _ = None"

definition float_eq :: "pyfloat \<Rightarrow> pyfloat \<Rightarrow> bool" where
  "float_eq a b = (a \<noteq> NaN \<and> b \<noteq> NaN \<and> a = b)"

text \<open>Python's \<open>==\<close>: numbers by value, lists elementwise, dicts as sets of bindings.\<close>

function (sequential) py_eq :: "json \<Rightarrow> json \<Rightarrow> bool" where
  "py_eq (JStr a) (JStr b) = (a = b)"
| "py_eq JNull JNull = True"
| "py_eq (JList xs) (JList ys) = list_all2 py_eq xs ys"
| "py_eq (JObj a) (JObj b) =
     (length a = length b \<and>
      list_all (\<lambda>(k, v). case map_of b k of None \<Rightarrow> False | Some w \<Rightarrow> py_eq v w) a)"
| "py_eq x y = (case (num_of x, num_of y) of (Some a, Some b) \<Rightarrow> float_eq a b | _ \<Rightarrow> False)"
  by pat_completeness auto
termination
proof (relation "measure (size \<circ> fst)", goal_cases)
  case 1 show ?case by simp
next
  case (2 xs ys z za)
  then show ?case
    by (auto simp: less_Suc_eq_le intro: size_list_estimation')
next
  case (3 a b z x y)
  then have "size y \<le> size_list (size_prod (\<lambda>x. 0) size) a"
    by (intro size_list_estimation' [of z]) (auto)
  then show ?case by simp
qed

section \<open>Dictionaries\<close>

definition dget :: "(string \<times> json) list \<Rightarrow> string \<Rightarrow> json" where
  "dget d k = (case map_of d k of None \<Rightarrow> JNull | Some v \<Rightarrow> v)"

definition dhas :: "(string \<times> json) list \<Rightarrow> string \<Rightarrow> bool" where
  "dhas d k = (map_of d k \<noteq> None)"

definition dget_or :: "(string \<times> json) list \<Rightarrow> string \<Rightarrow> json \<Rightarrow> json" where
  "dget_or d k v = (case map_of d k of None \<Rightarrow> v | Some w \<Rightarrow> w)"

definition dset :: "(string \<times> 'v) list \<Rightarrow> string \<Rightarrow> 'v \<Rightarrow> (string \<times> 'v) list" where
  "dset d k v = AList.update k v d"

primrec dupdate :: "(string \<times> 'v) list \<Rightarrow> (string \<times> 'v) list \<Rightarrow> (string \<times> 'v) list" where
  "dupdate d [] = d"
| "dupdate d (c # cs) = dupdate (dset d (fst c) (snd c)) cs"

definition dpop :: "(string \<times> 'v) list \<Rightarrow> string \<Rightarrow> (string \<times> 'v) list" where
  "dpop d k = AList.delete k d"

lemma map_of_dset [simp, dict_simps]: "map_of (dset d k v) k' = (if k' = k then Some v else map_of d k')"
  by (simp add: dset_def update_conv)

lemma map_of_dpop [simp, dict_simps]: "map_of (dpop d k) k' = (if k' = k then None else map_of d k')"
  by (simp add: dpop_def delete_conv)

lemma dget_dset [simp, dict_simps]: "dget (dset d k v) k' = (if k' = k then v else dget d k')"
  by (simp add: dget_def)

lemma dget_or_dset [simp, dict_simps]: "dget_or (dset d k v) k' w = (if k' = k then v else dget_or d k' w)"
  by (simp add: dget_or_def)

lemma dhas_dset [simp, dict_simps]: "dhas (dset d k v) k' \<longleftrightarrow> k' = k \<or> dhas d k'"
  by (simp add: dhas_def)

lemma map_of_dupdate_notin:
  "k \<notin> fst ` set cs \<Longrightarrow> map_of (dupdate d cs) k = map_of d k"
  by (induction cs arbitrary: d) auto

lemma map_of_dupdate:
  "map_of (dupdate d cs) k = (case map_of (rev cs) k of None \<Rightarrow> map_of d k | Some v \<Rightarrow> Some v)"
  by (induction cs arbitrary: d) (auto simp: map_add_def split: option.splits)

lemma dget_dupdate_notin: "k \<notin> fst ` set cs \<Longrightarrow> dget (dupdate d cs) k = dget d k"
  by (simp add: dget_def map_of_dupdate_notin)

lemma dset_new: "map_of d k = None \<Longrightarrow> dset d k v = d @ [(k, v)]"
  by (induction d) (auto simp: dset_def split: if_splits)

lemma dset_same: "map_of d k = Some v \<Longrightarrow> dset d k v = d"
  by (simp add: dset_def update_triv)

lemma keys_dset: "fst ` set (dset d k v) = insert k (fst ` set d)"
  by (simp add: dset_def dom_update flip: image_set)

lemma distinct_dset [simp]: "distinct (map fst d) \<Longrightarrow> distinct (map fst (dset d k v))"
  by (simp add: dset_def distinct_update)

lemma distinct_dpop [simp]: "distinct (map fst d) \<Longrightarrow> distinct (map fst (dpop d k))"
  by (simp add: dpop_def distinct_delete)

lemma set_dset:
  "distinct (map fst d) \<Longrightarrow> set (dset d k v) = {(k, v)} \<union> {p \<in> set d. fst p \<noteq> k}"
proof (induction d)
  case Nil
  then show ?case by (simp add: dset_def)
next
  case (Cons p d)
  then show ?case
    by (cases p) (auto simp: dset_def image_iff)
qed

lemma set_dset_subset: "set (dset d k v) \<subseteq> insert (k, v) (set d)"
  by (induction d) (auto simp: dset_def)

lemma length_filter_all: "length (filter P xs) = length xs \<Longrightarrow> filter P xs = xs"
proof (induction xs)
  case (Cons x xs)
  then show ?case using length_filter_le [of P xs] by (cases "P x") simp_all
qed simp

lemma set_dpop: "set (dpop d k) = {p \<in> set d. fst p \<noteq> k}"
  by (auto simp: dpop_def AList.delete_eq)

lemma dget_in: "map_of d k = Some v \<Longrightarrow> (k, v) \<in> set d"
  by (rule map_of_SomeD)

section \<open>Well-formed documents\<close>

text \<open>
  A document an authority file may hold: every number is finite and no object repeats a key.
\<close>

fun json_ok :: "json \<Rightarrow> bool" where
  "json_ok (JFloat f) = isfinite f"
| "json_ok (JList xs) = list_all json_ok xs"
| "json_ok (JObj d) = (distinct (map fst d) \<and> list_all (\<lambda>(k, v). json_ok v) d)"
| "json_ok _ = True"

lemma json_ok_JObj_iff: "json_ok (JObj d) \<longleftrightarrow> distinct (map fst d) \<and> (\<forall>(k, v) \<in> set d. json_ok v)"
  by (simp add: list_all_iff case_prod_beta)

declare json_ok.simps(3) [simp del]

lemma json_ok_JObj_simps [simp]:
  "json_ok (JObj [])"
  "json_ok (JObj (p # d)) \<longleftrightarrow> fst p \<notin> fst ` set d \<and> json_ok (snd p) \<and> json_ok (JObj d)"
  by (auto simp: json_ok_JObj_iff)

lemma json_ok_dset:
  assumes "json_ok (JObj d)" and "json_ok v"
  shows "json_ok (JObj (dset d k v))"
  using assms set_dset_subset [of d k v] unfolding json_ok_JObj_iff by auto

lemma json_ok_dget: "json_ok (JObj d) \<Longrightarrow> json_ok (dget d k)"
  unfolding json_ok_JObj_iff dget_def by (auto split: option.split dest: map_of_SomeD)

lemma json_ok_jopt [simp]: "json_ok (jopt x)"
  by (cases x) simp_all

end
