(* ===== verification/State_Safety.thy ===== *)
theory State_Safety
  imports Prelude
begin

text \<open>
  Durable JSON authority files (\<open>apps/control-api/state_safety.py\<close>) and the load / modify / publish
  cycle every store runs under its lock.

  An authority path is a payload file, a sibling initialization marker (the fuse) and, during a
  commit, a temporary file.  The payload holds JSON text; the text is kept as its syntax tree, in
  which a numeric literal and the constants NaN and Infinity are different things, as they are for
  the decoder.  \<open>auth_load\<close>, \<open>auth_persist\<close> and \<open>auth_locked\<close> are the cycle, parametric in the
  store's decoder and encoder; the locale \<open>authority_codec\<close> states what a codec promises and proves
  the facts all stores share.
\<close>

section \<open>JSON text\<close>

datatype jtext =
    TNull
  | TBool bool
  | TInt int
  | TNum pyfloat       \<comment> \<open>a numeric literal, with the value \<open>float\<close> gives it\<close>
  | TConst string      \<comment> \<open>NaN, Infinity or -Infinity\<close>
  | TStr string
  | TList "jtext list"
  | TObj "(string \<times> jtext) list"

text \<open>The hook the decoder calls with the members of every object.\<close>

fun reject_duplicate_json_object_pairs :: "dict \<Rightarrow> dict \<Rightarrow> dict option" where
  "reject_duplicate_json_object_pairs result [] = Some result"
| "reject_duplicate_json_object_pairs result ((key, value) # pairs) =
     (if dhas result key then None
      else reject_duplicate_json_object_pairs (dset result key value) pairs)"

function load_json_authority :: "jtext \<Rightarrow> json option" where
  "load_json_authority TNull = Some JNull"
| "load_json_authority (TBool b) = Some (JBool b)"
| "load_json_authority (TInt n) = Some (JInt n)"
| "load_json_authority (TNum f) = Some (JFloat f)"
| "load_json_authority (TConst c) = None"
| "load_json_authority (TStr s) = Some (JStr s)"
| "load_json_authority (TList xs) = map_option JList (those (map load_json_authority xs))"
| "load_json_authority (TObj ps) =
     (case those (map (\<lambda>p. map_option (Pair (fst p)) (load_json_authority (snd p))) ps) of
        None \<Rightarrow> None
      | Some pairs \<Rightarrow> map_option JObj (reject_duplicate_json_object_pairs [] pairs))"
  by pat_completeness auto
termination
proof (relation "measure size", goal_cases)
  case 1 show ?case by simp
next
  case (2 xs x)
  then show ?case by (auto simp: less_Suc_eq_le intro: size_list_estimation')
next
  case (3 ps p)
  then have "size (snd p) \<le> size_list (size_prod (\<lambda>x. 0) size) ps"
    by (intro size_list_estimation' [of p]) (auto simp: size_prod_simp)
  then show ?case by simp
qed

text \<open>
  \<open>json.dump(..., allow_nan=False)\<close>: a non-finite number has no text.  A list of pairs that repeats
  a key is not a dict, so it has none either.
\<close>

function text_of :: "json \<Rightarrow> jtext" where
  "text_of JNull = TNull"
| "text_of (JBool b) = TBool b"
| "text_of (JInt n) = TInt n"
| "text_of (JFloat f) = TNum f"
| "text_of (JStr s) = TStr s"
| "text_of (JList xs) = TList (map text_of xs)"
| "text_of (JObj d) = TObj (map (\<lambda>p. (fst p, text_of (snd p))) d)"
  by pat_completeness auto
termination
proof (relation "measure size", goal_cases)
  case 1 show ?case by simp
next
  case (2 xs x)
  then show ?case by (auto simp: less_Suc_eq_le intro: size_list_estimation')
next
  case (3 d p)
  then have "size (snd p) \<le> size_list (size_prod (\<lambda>x. 0) size) d"
    by (intro size_list_estimation' [of p]) (auto simp: size_prod_simp)
  then show ?case by simp
qed

definition json_dump :: "json \<Rightarrow> jtext option" where
  "json_dump v = (if json_ok v then Some (text_of v) else None)"

lemma reject_duplicates_gen:
  "reject_duplicate_json_object_pairs r ps =
     (if distinct (map fst ps) \<and> (\<forall>k \<in> fst ` set ps. \<not> dhas r k) then Some (r @ ps) else None)"
proof (induction r ps rule: reject_duplicate_json_object_pairs.induct)
  case (1 result)
  then show ?case by simp
next
  case (2 result key "value" pairs)
  show ?case
  proof (cases "dhas result key")
    case False
    then have "dset result key value = result @ [(key, value)]"
      by (simp add: dset_new dhas_def)
    with False "2.IH" [OF False] show ?thesis by (auto simp: dhas_def)
  qed simp
qed

lemma reject_duplicates_eq:
  "reject_duplicate_json_object_pairs [] ps = (if distinct (map fst ps) then Some ps else None)"
  by (simp add: reject_duplicates_gen dhas_def)

lemma those_map_Some: "(\<And>x. x \<in> set xs \<Longrightarrow> f x = Some (g x)) \<Longrightarrow> those (map f xs) = Some (map g xs)"
  by (induction xs) auto

lemma load_text_of: "json_ok v \<Longrightarrow> load_json_authority (text_of v) = Some v"
proof (induction v rule: text_of.induct)
  case (6 xs)
  then have "those (map (load_json_authority \<circ> text_of) xs) = Some (map id xs)"
    by (intro those_map_Some) (auto simp: list_all_iff)
  then show ?case by simp
next
  case (7 d)
  then have ok: "\<And>p. p \<in> set d \<Longrightarrow> load_json_authority (text_of (snd p)) = Some (snd p)"
    and d: "distinct (map fst d)"
    by (auto simp: json_ok_JObj_iff)
  have "those (map (\<lambda>p. map_option (Pair (fst p)) (load_json_authority (text_of (snd p)))) d) = Some (map id d)"
    by (rule those_map_Some) (simp add: ok)
  with d show ?case by (simp add: comp_def reject_duplicates_eq)
qed auto

lemma those_eq_Some: "those ys = Some zs \<longleftrightarrow> ys = map Some zs"
  by (induction ys arbitrary: zs) (auto split: option.splits)

text \<open>No object of a document repeats a key, at any depth.\<close>

fun unique_keys :: "json \<Rightarrow> bool" where
  "unique_keys (JList xs) = list_all unique_keys xs"
| "unique_keys (JObj d) = (distinct (map fst d) \<and> list_all (\<lambda>p. unique_keys (snd p)) d)"
| "unique_keys _ = True"

lemma load_unique_keys: "load_json_authority t = Some v \<Longrightarrow> unique_keys v"
proof (induction t arbitrary: v rule: load_json_authority.induct)
  case (7 xs)
  then obtain vs where "map load_json_authority xs = map Some vs" "v = JList vs"
    by (auto simp: those_eq_Some)
  moreover have "unique_keys w" if "w \<in> set vs" for w
  proof -
    have "Some w \<in> set (map load_json_authority xs)" using that calculation by simp
    then show ?thesis using 7(1) by auto
  qed
  ultimately show ?case by (simp add: list_all_iff)
next
  case (8 ps)
  then obtain d where d: "map (\<lambda>p. map_option (Pair (fst p)) (load_json_authority (snd p))) ps = map Some d"
    "reject_duplicate_json_object_pairs [] d = Some d" "v = JObj d"
    by (auto simp: those_eq_Some reject_duplicates_eq split: option.splits if_splits)
  have "unique_keys (snd q)" if "q \<in> set d" for q
  proof -
    have "Some q \<in> set (map (\<lambda>p. map_option (Pair (fst p)) (load_json_authority (snd p))) ps)"
      using that d(1) by simp
    then show ?thesis using 8(1) by (auto simp: map_option_case split: option.splits)
  qed
  then show ?case using d by (auto simp: reject_duplicates_eq list_all_iff split: if_splits)
qed auto

text \<open>Authority text round trip: whatever the dumper writes, the loader reads back as the same
  value; only documents with a non-finite number (or no dict) have no text; and whatever text the
  loader accepts, no object in the result had a repeated key.\<close>

theorem authority_text_roundtrip:
  "(\<forall>t. json_dump v = Some t \<longrightarrow> load_json_authority t = Some v) \<and>
   (json_dump v = None \<longleftrightarrow> \<not> json_ok v) \<and>
   (load_json_authority u = Some w \<longrightarrow> unique_keys w)"
  by (auto simp: json_dump_def load_text_of load_unique_keys)

theorem authority_text_roundtrip_witness:
  "json_dump (JObj [(''a'', JTime 1)]) = Some (TObj [(''a'', TNum (Fin 1))]) \<and>
   load_json_authority (TObj [(''a'', TNum (Fin 1))]) = Some (JObj [(''a'', JTime 1)]) \<and>
   load_json_authority (TObj [(''a'', TNull), (''a'', TNull)]) = None"
  using authority_text_roundtrip [of "JObj [(''a'', JTime 1)]"] by (simp add: json_dump_def dhas_def dset_def)

section \<open>Authority files\<close>

datatype file_state = Missing | Unreadable | Text jtext

datatype marker_state = NoMarker | RegularMarker | OtherMarker

record authority =
  payload_file :: file_state
  marker :: marker_state
  temporary :: "jtext option"

definition fresh_authority :: authority where
  "fresh_authority = \<lparr>payload_file = Missing, marker = NoMarker, temporary = None\<rparr>"

definition was_initialized :: "authority \<Rightarrow> bool" where
  "was_initialized fs = (marker fs \<noteq> NoMarker)"

definition mark_initialized :: "authority \<Rightarrow> err + authority" where
  "mark_initialized fs =
     (case marker fs of
        NoMarker \<Rightarrow> Inr (fs\<lparr>marker := RegularMarker\<rparr>)
      | RegularMarker \<Rightarrow> Inr fs
      | OtherMarker \<Rightarrow> Inl OSError)"

datatype reading = Pristine | Loaded json | Refused

text \<open>What opening and decoding the payload gives a store, before it validates the document.\<close>

definition read_authority :: "authority \<Rightarrow> reading" where
  "read_authority fs =
     (case payload_file fs of
        Missing \<Rightarrow> if was_initialized fs then Refused else Pristine
      | Unreadable \<Rightarrow> Refused
      | Text t \<Rightarrow> (case load_json_authority t of None \<Rightarrow> Refused | Some v \<Rightarrow> Loaded v))"

subsection \<open>Commit as a sequence of durable steps\<close>

datatype commit_step = WriteTemporary | ArmFuse | Publish | SyncDirectory

fun run_commit_step :: "jtext \<Rightarrow> commit_step \<Rightarrow> authority \<Rightarrow> err + authority" where
  "run_commit_step t WriteTemporary fs = Inr (fs\<lparr>temporary := Some t\<rparr>)"
| "run_commit_step t ArmFuse fs = mark_initialized fs"
| "run_commit_step t Publish fs =
     (case temporary fs of
        None \<Rightarrow> Inl OSError
      | Some u \<Rightarrow> Inr (fs\<lparr>payload_file := Text u, temporary := None\<rparr>))"
| "run_commit_step t SyncDirectory fs = Inr fs"

fun run_commit_steps :: "jtext \<Rightarrow> commit_step list \<Rightarrow> authority \<Rightarrow> err + authority" where
  "run_commit_steps t [] fs = Inr fs"
| "run_commit_steps t (s # ss) fs = rbind (run_commit_step t s fs) (run_commit_steps t ss)"

text \<open>The order of \<open>_persist\<close>: the payload is fsynced first, then the fuse, then the rename.\<close>

definition commit_steps :: "commit_step list" where
  "commit_steps = [WriteTemporary, ArmFuse, Publish, SyncDirectory]"

text \<open>A commit that runs to its end; on an exception the \<open>finally\<close> clause unlinks the temporary.\<close>

definition commit :: "jtext \<Rightarrow> authority \<Rightarrow> (err + unit) \<times> authority" where
  "commit t fs =
     (case run_commit_steps t commit_steps fs of
        Inl e \<Rightarrow> (Inl e, fs\<lparr>temporary := None\<rparr>)
      | Inr fs' \<Rightarrow> (Inr (), fs'))"

lemma commit_eq:
  "commit t fs =
     (if marker fs = OtherMarker then (Inl OSError, fs\<lparr>temporary := None\<rparr>)
      else (Inr (), fs\<lparr>payload_file := Text t, marker := RegularMarker, temporary := None\<rparr>))"
  by (cases "marker fs") (simp_all add: commit_def commit_steps_def mark_initialized_def)

lemma take_commit_steps:
  "take n commit_steps = (if n = 0 then [] else if n = 1 then [WriteTemporary]
     else if n = 2 then [WriteTemporary, ArmFuse] else if n = 3 then [WriteTemporary, ArmFuse, Publish]
     else commit_steps)"
  by (auto simp: commit_steps_def numeral_eq_Suc take_Cons' )

text \<open>C1. Crash safety of a commit: stopping after any number of its durable steps leaves the old
  payload in place, and then the authority reads as it did before or refuses to be read (never as
  an empty store where there was one, and never as a mixture); from the rename on it reads as the new
  document, and even losing the payload file then is refused instead of recreating an empty store.\<close>

theorem commit_crash_safe:
  assumes "marker fs \<noteq> OtherMarker" and "json_dump v = Some t"
  shows "\<exists>fs'. run_commit_steps t (take n commit_steps) fs = Inr fs' \<and>
    (if n < 3
     then payload_file fs' = payload_file fs \<and>
          (read_authority fs' = read_authority fs \<or> payload_file fs = Missing \<and> read_authority fs' = Refused)
     else read_authority fs' = Loaded v \<and> read_authority (fs'\<lparr>payload_file := Missing\<rparr>) = Refused)"
proof -
  have l: "load_json_authority t = Some v"
    using assms(2) by (auto simp: json_dump_def load_text_of split: if_splits)
  show ?thesis
    using assms(1) l unfolding take_commit_steps
    by (cases "marker fs"; cases "payload_file fs")
      (auto simp: commit_steps_def mark_initialized_def read_authority_def was_initialized_def)
qed

theorem commit_crash_safe_witness:
  "marker fresh_authority \<noteq> OtherMarker \<and> json_dump (JObj []) = Some (TObj []) \<and>
   run_commit_steps (TObj []) (take 2 commit_steps) fresh_authority =
     Inr \<lparr>payload_file = Missing, marker = RegularMarker, temporary = Some (TObj [])\<rparr> \<and>
   read_authority \<lparr>payload_file = Missing, marker = RegularMarker, temporary = Some (TObj [])\<rparr> = Refused"
  using commit_crash_safe [of fresh_authority "JObj []" "TObj []" 2]
  by (simp add: fresh_authority_def json_dump_def commit_steps_def mark_initialized_def read_authority_def
      was_initialized_def)

section \<open>Load, modify, publish\<close>

definition auth_load ::
  "err \<Rightarrow> bool \<Rightarrow> 'm \<Rightarrow> (json \<Rightarrow> 'm option) \<Rightarrow> authority \<Rightarrow> (err + 'm) \<times> authority" where
  "auth_load e arm pristine decode fs =
     (case read_authority fs of
        Refused \<Rightarrow> (Inl e, fs)
      | Pristine \<Rightarrow> (Inr pristine, fs)
      | Loaded raw \<Rightarrow>
          (case decode raw of
             None \<Rightarrow> (Inl e, fs)
           | Some m \<Rightarrow>
               if arm then (case mark_initialized fs of Inl _ \<Rightarrow> (Inl e, fs) | Inr fs' \<Rightarrow> (Inr m, fs'))
               else (Inr m, fs)))"

definition auth_persist ::
  "err \<Rightarrow> ('m \<Rightarrow> json option) \<Rightarrow> 'm \<Rightarrow> authority \<Rightarrow> (err + unit) \<times> authority" where
  "auth_persist e encode m fs =
     (case encode m of
        None \<Rightarrow> (Inl e, fs)
      | Some doc \<Rightarrow>
          (case json_dump doc of
             None \<Rightarrow> (Inl e, fs)
           | Some t \<Rightarrow>
               (case commit t fs of
                  (Inl _, fs') \<Rightarrow> (Inl e, fs')
                | (Inr _, fs') \<Rightarrow> (Inr (), fs'))))"

text \<open>
  A method body under \<open>_state_lock\<close>: it sees the freshly loaded state and either raises, returns
  without writing (\<open>None\<close>), or returns and hands over the state to persist (\<open>Some\<close>).  The lock is
  exclusive for every writer, so a whole cycle is one atomic step of the authority.
\<close>

definition auth_locked ::
  "err \<Rightarrow> bool \<Rightarrow> 'm \<Rightarrow> (json \<Rightarrow> 'm option) \<Rightarrow> ('m \<Rightarrow> json option)
    \<Rightarrow> ('m \<Rightarrow> err + ('r \<times> 'm option)) \<Rightarrow> authority \<Rightarrow> (err + 'r) \<times> authority" where
  "auth_locked e arm pristine decode encode body fs =
     (case auth_load e arm pristine decode fs of
        (Inl x, fs1) \<Rightarrow> (Inl x, fs1)
      | (Inr m, fs1) \<Rightarrow>
          (case body m of
             Inl x \<Rightarrow> (Inl x, fs1)
           | Inr (r, None) \<Rightarrow> (Inr r, fs1)
           | Inr (r, Some m') \<Rightarrow>
               (case auth_persist e encode m' fs1 of
                  (Inl x, fs2) \<Rightarrow> (Inl x, fs2)
                | (Inr _, fs2) \<Rightarrow> (Inr r, fs2))))"

text \<open>The state a load would give a store, without the side effect of arming the fuse.\<close>

definition auth_contents :: "'m \<Rightarrow> (json \<Rightarrow> 'm option) \<Rightarrow> authority \<Rightarrow> 'm option" where
  "auth_contents pristine decode fs =
     (case read_authority fs of Refused \<Rightarrow> None | Pristine \<Rightarrow> Some pristine | Loaded raw \<Rightarrow> decode raw)"

text \<open>
  What a codec promises: a document it produces decodes to the state it came from (up to \<open>norm\<close>,
  which fills in what the document does not hold).
\<close>

locale authority_codec =
  fixes e :: err
    and pristine :: 'm
    and decode :: "json \<Rightarrow> 'm option"
    and encode :: "'m \<Rightarrow> json option"
    and norm :: "'m \<Rightarrow> 'm"
  assumes decode_encode: "encode m = Some doc \<Longrightarrow> decode doc = Some (norm m)"
begin

lemma load_contents:
  "marker fs \<noteq> OtherMarker \<Longrightarrow>
   fst (auth_load e arm pristine decode fs) = (case auth_contents pristine decode fs of None \<Rightarrow> Inl e | Some m \<Rightarrow> Inr m)"
  by (cases "marker fs")
    (auto simp: auth_load_def auth_contents_def mark_initialized_def split: reading.splits option.splits)

lemma load_keeps_contents: "auth_contents pristine decode (snd (auth_load e arm pristine decode fs)) = auth_contents pristine decode fs"
  by (cases "payload_file fs"; cases "marker fs")
    (auto simp: auth_load_def auth_contents_def read_authority_def mark_initialized_def was_initialized_def
       split: reading.splits option.splits if_splits)

lemma load_keeps_marker:
  "marker fs \<noteq> OtherMarker \<Longrightarrow> marker (snd (auth_load e arm pristine decode fs)) \<noteq> OtherMarker"
  by (auto simp: auth_load_def mark_initialized_def split: reading.splits option.splits marker_state.splits)

lemma persist_contents:
  assumes "fst (auth_persist e encode m fs) = Inr ()"
  shows "auth_contents pristine decode (snd (auth_persist e encode m fs)) = Some (norm m)"
  using assms
  by (auto simp: auth_persist_def commit_eq json_dump_def auth_contents_def read_authority_def load_text_of
      dest: decode_encode split: option.splits if_splits)

lemma persist_failed_contents:
  assumes "fst (auth_persist e encode m fs) = Inl x"
  shows "auth_contents pristine decode (snd (auth_persist e encode m fs)) = auth_contents pristine decode fs"
  using assms
  by (auto simp: auth_persist_def commit_eq auth_contents_def read_authority_def was_initialized_def
      split: option.splits if_splits)

lemma persist_keeps_marker:
  "marker fs \<noteq> OtherMarker \<Longrightarrow> marker (snd (auth_persist e encode m fs)) \<noteq> OtherMarker"
  by (auto simp: auth_persist_def commit_eq split: option.splits)

lemma persist_ok:
  "marker fs \<noteq> OtherMarker \<Longrightarrow>
   fst (auth_persist e encode m fs) = Inr () \<longleftrightarrow> (\<exists>doc. encode m = Some doc \<and> json_ok doc)"
  by (auto simp: auth_persist_def commit_eq json_dump_def split: option.splits)

lemma persist_error: "fst (auth_persist e encode m fs) = Inl x \<Longrightarrow> x = e"
  by (auto simp: auth_persist_def split: option.splits prod.splits sum.splits)

text \<open>The three outcomes of a locked method, in terms of the contents alone.\<close>

lemma locked_unreadable:
  "marker fs \<noteq> OtherMarker \<Longrightarrow> auth_contents pristine decode fs = None \<Longrightarrow>
   fst (auth_locked e arm pristine decode encode body fs) = Inl e"
  using load_contents [of fs arm] by (auto simp: auth_locked_def split: prod.splits)

lemma locked_cases:
  assumes mk: "marker fs \<noteq> OtherMarker" and c: "auth_contents pristine decode fs = Some m"
  shows "(\<exists>x. body m = Inl x \<and> fst (auth_locked e arm pristine decode encode body fs) = Inl x \<and>
            auth_contents pristine decode (snd (auth_locked e arm pristine decode encode body fs)) = Some m) \<or>
         (\<exists>r. body m = Inr (r, None) \<and> fst (auth_locked e arm pristine decode encode body fs) = Inr r \<and>
            auth_contents pristine decode (snd (auth_locked e arm pristine decode encode body fs)) = Some m) \<or>
         (\<exists>r m'. body m = Inr (r, Some m') \<and> (\<exists>doc. encode m' = Some doc \<and> json_ok doc) \<and>
            fst (auth_locked e arm pristine decode encode body fs) = Inr r \<and>
            auth_contents pristine decode (snd (auth_locked e arm pristine decode encode body fs)) = Some (norm m')) \<or>
         (\<exists>r m'. body m = Inr (r, Some m') \<and> \<not> (\<exists>doc. encode m' = Some doc \<and> json_ok doc) \<and>
            fst (auth_locked e arm pristine decode encode body fs) = Inl e \<and>
            auth_contents pristine decode (snd (auth_locked e arm pristine decode encode body fs)) = Some m)"
proof -
  obtain fs1 where ld: "auth_load e arm pristine decode fs = (Inr m, fs1)"
    using load_contents [OF mk, of arm] c by (cases "auth_load e arm pristine decode fs") auto
  have c1: "auth_contents pristine decode fs1 = Some m"
    using load_keeps_contents [of arm fs] c ld by simp
  have mk1: "marker fs1 \<noteq> OtherMarker"
    using load_keeps_marker [OF mk, of arm] ld by simp
  show ?thesis
  proof (cases "body m")
    case (Inl x)
    then show ?thesis using ld c1 by (simp add: auth_locked_def)
  next
    case (Inr p)
    obtain r w where p: "p = (r, w)" by (cases p)
    show ?thesis
    proof (cases w)
      case None
      then show ?thesis using Inr p ld c1 by (simp add: auth_locked_def)
    next
      case (Some m')
      obtain o2 fs2 where ps: "auth_persist e encode m' fs1 = (o2, fs2)"
        by (cases "auth_persist e encode m' fs1")
      show ?thesis
      proof (cases o2)
        case (Inl x)
        then have "x = e" "auth_contents pristine decode fs2 = Some m" "\<not> (\<exists>doc. encode m' = Some doc \<and> json_ok doc)"
          using persist_error [of m' fs1 x] persist_failed_contents [of m' fs1 x] persist_ok [OF mk1, of m'] ps c1
          by auto
        then show ?thesis using Inr p Some ld ps \<open>o2 = Inl x\<close> by (simp add: auth_locked_def \<open>body m = Inr p\<close>)
      next
        case (Inr u)
        then have "auth_contents pristine decode fs2 = Some (norm m')" "\<exists>doc. encode m' = Some doc \<and> json_ok doc"
          using persist_contents [of m' fs1] persist_ok [OF mk1, of m'] ps by auto
        then show ?thesis using p Some ld ps \<open>o2 = Inr u\<close> by (simp add: auth_locked_def \<open>body m = Inr p\<close>)
      qed
    qed
  qed
qed

lemma locked_keeps_marker:
  "marker fs \<noteq> OtherMarker \<Longrightarrow> marker (snd (auth_locked e arm pristine decode encode body fs)) \<noteq> OtherMarker"
  using load_keeps_marker [of fs arm] persist_keeps_marker
  by (auto simp: auth_locked_def split: prod.splits sum.splits option.splits)
    (metis snd_conv)+

text \<open>The same outcomes for one call, by what its body returns on the contents.\<close>

lemma locked_reads:
  assumes mk: "marker fs \<noteq> OtherMarker" and c: "auth_contents pristine decode fs = Some m"
    and call: "auth_locked e arm pristine decode encode body fs = (r, fs')"
    and body: "body m = (case r0 of Inl x \<Rightarrow> Inl x | Inr v \<Rightarrow> Inr (v, None))"
  shows "r = r0 \<and> auth_contents pristine decode fs' = Some m \<and> marker fs' \<noteq> OtherMarker"
  using locked_cases [OF mk c, of body arm] locked_keeps_marker [OF mk, of arm body] call body
  by (cases r0) auto

lemma locked_writes:
  assumes mk: "marker fs \<noteq> OtherMarker" and c: "auth_contents pristine decode fs = Some m"
    and call: "auth_locked e arm pristine decode encode body fs = (r, fs')"
    and body: "body m = Inr (v, Some n)" and ok: "encode n = Some doc" "json_ok doc"
  shows "r = Inr v \<and> auth_contents pristine decode fs' = Some (norm n) \<and> marker fs' \<noteq> OtherMarker"
  using locked_cases [OF mk c, of body arm] locked_keeps_marker [OF mk, of arm body] call body ok by auto

lemma locked_rel:
  assumes mk: "marker fs \<noteq> OtherMarker" and c: "auth_contents pristine decode fs = Some m"
    and call: "auth_locked e arm pristine decode encode body fs = (r, fs')" and stay: "R m"
    and upd: "\<And>v n doc. body m = Inr (v, Some n) \<Longrightarrow> encode n = Some doc \<Longrightarrow> json_ok doc \<Longrightarrow> R (norm n)"
  shows "marker fs' \<noteq> OtherMarker \<and> (\<exists>m'. auth_contents pristine decode fs' = Some m' \<and> R m')"
  using locked_cases [OF mk c, of body arm] locked_keeps_marker [OF mk, of arm body] call stay upd by auto

end

section \<open>Keys and encoders\<close>

lemma read_authority_unique: "read_authority fs = Loaded v \<Longrightarrow> unique_keys v"
  by (auto simp: read_authority_def intro: load_unique_keys split: file_state.splits option.splits if_splits)

lemma unique_keys_dget: "unique_keys (JObj d) \<Longrightarrow> dget d k = JObj e \<Longrightarrow> distinct (map fst e)"
  by (auto simp: dget_def list_all_iff split: option.splits dest!: map_of_SomeD)

lemma auth_locked_encode_cong:
  assumes "\<And>m r m'. auth_contents pristine decode fs = Some m \<Longrightarrow> body m = Inr (r, Some m') \<Longrightarrow> encode m' = encode' m'"
  shows "auth_locked e arm pristine decode encode body fs = auth_locked e arm pristine decode encode' body fs"
  using assms
  by (auto simp: auth_locked_def auth_load_def auth_persist_def auth_contents_def split: reading.splits option.splits sum.splits prod.splits)

end
