(* ===== verification/Session_State.thy ===== *)
theory Session_State
  imports State_Safety
begin

text \<open>
  The persisted Session document of \<open>apps/control-api/session_store.py\<close>: the state machine tables,
  the validators that every load and every persist run, the record \<open>new_session\<close> builds, and the
  codec between the authority document and the in-memory state.

  A Session is a dict.  The validators raise \<open>SessionStateError\<close>; here they return \<open>Inl\<close>.
  \<open>session_wf\<close> restates what the validator accepts field by field, and \<open>session_wf_dset\<close> says which
  single field writes keep a record acceptable: the store's writers are proved against it.
\<close>

section \<open>Tables\<close>

definition SESSION_STATES :: "string set" where
  "SESSION_STATES =
     {''STOPPED'', ''PROVISIONING'', ''BOOTSTRAPPING'', ''READY_WAIT_INGEST'', ''LIVE'', ''DEGRADED'',
      ''HOLDING'', ''STOPPING'', ''FINISHED'', ''FAILED_CLEANUP'', ''FAILED''}"

definition ACTIVE_STATES :: "string set" where
  "ACTIVE_STATES =
     {''PROVISIONING'', ''BOOTSTRAPPING'', ''READY_WAIT_INGEST'', ''LIVE'', ''DEGRADED'', ''HOLDING''}"

definition TERMINAL_STATES :: "string set" where
  "TERMINAL_STATES = {''STOPPED'', ''FINISHED'', ''FAILED''}"

definition CAPACITY_STATES :: "string set" where
  "CAPACITY_STATES = ACTIVE_STATES \<union> {''STOPPING'', ''FAILED_CLEANUP''}"

definition SESSION_EVENT_LIMIT :: nat where
  "SESSION_EVENT_LIMIT = 1000"

definition MEDIA_CONTROL_AUDIO_DESIRED_MODES :: "string set" where
  "MEDIA_CONTROL_AUDIO_DESIRED_MODES = {''LIVE'', ''MUTED''}"

definition MEDIA_CONTROL_AUDIO_ACTUAL_MODES :: "string set" where
  "MEDIA_CONTROL_AUDIO_ACTUAL_MODES = {''LIVE'', ''MUTED'', ''SILENT_FALLBACK'', ''APPLYING'', ''FAILED''}"

definition UNUSABLE_MEDIA_REASONS :: "string set" where
  "UNUSABLE_MEDIA_REASONS = {''VIDEO_TIMEOUT'', ''AUDIO_TIMEOUT''}"

definition FORMAT_REJECTION_REASONS :: "string set" where
  "FORMAT_REJECTION_REASONS =
     {''VIDEO_CODEC_UNSUPPORTED'', ''AUDIO_CODEC_UNSUPPORTED'', ''RESOLUTION_UNSUPPORTED'',
      ''AUDIO_CHANNELS_UNSUPPORTED''}"

definition SESSION_REQUIRED_TIMESTAMPS :: "string list" where
  "SESSION_REQUIRED_TIMESTAMPS = [''created_at'', ''updated_at'']"

definition SESSION_OPTIONAL_TIMESTAMPS :: "string list" where
  "SESSION_OPTIONAL_TIMESTAMPS =
     [''relay_client_updated_at'', ''node_registered_at'', ''node_last_heartbeat_at'',
      ''provisioning_started_at'', ''ready_at'', ''first_ingest_at'', ''last_ingest_at'',
      ''hold_deadline_at'', ''recovery_candidate_since'', ''absolute_deadline_at'']"

definition SESSION_TIMESTAMP_FIELDS :: "string list" where
  "SESSION_TIMESTAMP_FIELDS = SESSION_REQUIRED_TIMESTAMPS @ SESSION_OPTIONAL_TIMESTAMPS"

definition TRANSITIONS :: "(string \<times> string set) list" where
  "TRANSITIONS =
     [(''STOPPED'', {''PROVISIONING''}),
      (''PROVISIONING'', {''BOOTSTRAPPING'', ''STOPPING'', ''FAILED_CLEANUP''}),
      (''BOOTSTRAPPING'', {''READY_WAIT_INGEST'', ''STOPPING'', ''FAILED_CLEANUP''}),
      (''READY_WAIT_INGEST'', {''LIVE'', ''DEGRADED'', ''STOPPING'', ''FAILED_CLEANUP''}),
      (''LIVE'', {''DEGRADED'', ''HOLDING'', ''STOPPING'', ''FAILED_CLEANUP''}),
      (''DEGRADED'', {''LIVE'', ''HOLDING'', ''STOPPING'', ''FAILED_CLEANUP''}),
      (''HOLDING'', {''LIVE'', ''DEGRADED'', ''STOPPING'', ''FAILED_CLEANUP''}),
      (''STOPPING'', {''FINISHED'', ''FAILED_CLEANUP''}),
      (''FAILED_CLEANUP'', {''FAILED'', ''STOPPING''}),
      (''FINISHED'', {}),
      (''FAILED'', {})]"

text \<open>\<open>TRANSITIONS.get(current, set())\<close>\<close>

definition transitions_from :: "string \<Rightarrow> string set" where
  "transitions_from current = (case map_of TRANSITIONS current of None \<Rightarrow> {} | Some s \<Rightarrow> s)"

lemmas state_set_defs =
  SESSION_STATES_def ACTIVE_STATES_def TERMINAL_STATES_def CAPACITY_STATES_def

section \<open>Timestamps\<close>

definition finite_nonnegative :: "pyfloat \<Rightarrow> err + rat" where
  "finite_nonnegative f =
     (case f of Fin x \<Rightarrow> if x < 0 then Inl SessionStateError else Inr x | _ \<Rightarrow> Inl SessionStateError)"

definition validated_timestamp :: "json \<Rightarrow> err + rat" where
  "validated_timestamp value =
     (case value of
        JInt n \<Rightarrow>
          (case float_of_int n of
             None \<Rightarrow> Inl SessionStateError
           | Some f \<Rightarrow> finite_nonnegative f)
      | JFloat f \<Rightarrow> finite_nonnegative f
      | _ \<Rightarrow> Inl SessionStateError)"

text \<open>\<open>time.time()\<close> is an argument: the reading of the clock at that call.\<close>

definition validated_now :: "pyfloat \<Rightarrow> err + rat" where
  "validated_now clock = validated_timestamp (JFloat clock)"

definition validated_derived_timestamp :: "rat \<Rightarrow> json \<Rightarrow> err + rat" where
  "validated_derived_timestamp base offset =
     (case offset of
        JFloat f \<Rightarrow> validated_timestamp (JFloat (fadd (Fin base) f))
      | JInt n \<Rightarrow>
          (case float_of_int n of
             None \<Rightarrow> Inl SessionStateError
           | Some f \<Rightarrow> validated_timestamp (JFloat (fadd (Fin base) f)))
      | JBool b \<Rightarrow> validated_timestamp (JFloat (fadd (Fin base) (Fin (if b then 1 else 0))))
      | _ \<Rightarrow> Inl SessionStateError)"

definition validate_timestamp_changes :: "dict \<Rightarrow> err + unit" where
  "validate_timestamp_changes changes =
     require SessionStateError
       (\<forall>field \<in> set SESSION_TIMESTAMP_FIELDS.
          dhas changes field \<longrightarrow>
          (if dget changes field = JNull then field \<notin> set SESSION_REQUIRED_TIMESTAMPS
           else is_ok (validated_timestamp (dget changes field))))"

lemma validated_timestamp_JTime [simp]:
  "validated_timestamp (JTime x) = (if x < 0 then Inl SessionStateError else Inr x)"
  by (simp add: validated_timestamp_def finite_nonnegative_def)

lemma validated_now_Fin [simp]:
  "validated_now (Fin x) = (if x < 0 then Inl SessionStateError else Inr x)"
  by (simp add: validated_now_def)

lemma validated_timestamp_nonneg: "validated_timestamp v = Inr x \<Longrightarrow> 0 \<le> x"
  by (auto simp: validated_timestamp_def finite_nonnegative_def
      split: json.splits pyfloat.splits option.splits if_splits)

lemma validated_now_nonneg: "validated_now c = Inr x \<Longrightarrow> 0 \<le> x"
  by (simp add: validated_now_def validated_timestamp_nonneg)

lemma validated_now_Inl: "validated_now c = Inl e \<Longrightarrow> e = SessionStateError"
  by (auto simp: validated_now_def validated_timestamp_def finite_nonnegative_def
      split: pyfloat.splits if_splits)

section \<open>Field validators\<close>

definition require_nonempty_string :: "dict \<Rightarrow> string \<Rightarrow> err + string" where
  "require_nonempty_string record field =
     rbind (from_some SessionStateError (as_str (dget record field))) (\<lambda>value.
     rbind (require SessionStateError (value \<noteq> [])) (\<lambda>_. Inr value))"

definition require_finite_number :: "dict \<Rightarrow> string \<Rightarrow> bool \<Rightarrow> err + rat option" where
  "require_finite_number record field optional =
     (if dget record field = JNull \<and> optional then Inr None
      else rbind (validated_timestamp (dget record field)) (\<lambda>x. Inr (Some x)))"

definition require_bool :: "dict \<Rightarrow> string \<Rightarrow> bool \<Rightarrow> err + bool option" where
  "require_bool record field optional =
     (if \<not> dhas record field \<and> optional then Inr None
      else rbind (from_some SessionStateError (as_bool (dget record field))) (\<lambda>b. Inr (Some b)))"

definition require_nonnegative_int :: "dict \<Rightarrow> string \<Rightarrow> bool \<Rightarrow> err + int option" where
  "require_nonnegative_int record field optional =
     (if \<not> dhas record field \<and> optional then Inr None
      else rbind (from_some SessionStateError (as_int (dget record field))) (\<lambda>value.
           rbind (require SessionStateError (0 \<le> value)) (\<lambda>_. Inr (Some value))))"

section \<open>Session records\<close>

text \<open>One retained event; the result is the sequence number the next one has to exceed.\<close>

definition validate_event :: "int \<Rightarrow> json \<Rightarrow> err + int" where
  "validate_event previous_event_sequence ev =
     rbind (from_some SessionStateError (as_obj ev)) (\<lambda>event.
     rbind (require_nonnegative_int event ''sequence'' False) (\<lambda>sequence.
     rbind (from_some SessionStateError sequence) (\<lambda>event_sequence.
     rbind (require SessionStateError
              (event_sequence \<noteq> 0 \<and> previous_event_sequence < event_sequence)) (\<lambda>_.
     rbind (require_nonempty_string event ''type'') (\<lambda>_.
     rbind (require_nonempty_string event ''origin'') (\<lambda>_.
     rbind (require_finite_number event ''occurred_at'' False) (\<lambda>_.
     rbind (require SessionStateError (null_or_str (dget event ''reason_code''))) (\<lambda>_.
     rbind (from_some SessionStateError (as_obj (dget event ''payload''))) (\<lambda>_.
     Inr event_sequence)))))))))"

primrec validate_events :: "int \<Rightarrow> json list \<Rightarrow> err + int" where
  "validate_events previous [] = Inr previous"
| "validate_events previous (ev # evs) = rbind (validate_event previous ev) (\<lambda>p. validate_events p evs)"

text \<open>An idempotency key in the media-control record: absent, or 1 to 200 characters.\<close>

definition media_control_key_ok :: "json \<Rightarrow> bool" where
  "media_control_key_ok v =
     (v = JNull \<or> (case as_str v of None \<Rightarrow> False | Some k \<Rightarrow> k \<noteq> [] \<and> length k \<le> 200))"

definition validate_media_control_audio :: "dict \<Rightarrow> err + unit" where
  "validate_media_control_audio audio =
     rbind (require_nonempty_string audio ''desired_mode'') (\<lambda>desired_mode.
     rbind (require SessionStateError (desired_mode \<in> MEDIA_CONTROL_AUDIO_DESIRED_MODES)) (\<lambda>_.
     rbind (require_nonempty_string audio ''actual_mode'') (\<lambda>actual_mode.
     rbind (require SessionStateError (actual_mode \<in> MEDIA_CONTROL_AUDIO_ACTUAL_MODES)) (\<lambda>_.
     rbind (require_nonnegative_int audio ''version'' False) (\<lambda>_.
     rbind (require SessionStateError (null_or_str (dget audio ''command_id''))) (\<lambda>_.
     rbind (require SessionStateError (media_control_key_ok (dget audio ''idempotency_key''))) (\<lambda>_.
     rbind (require_finite_number audio ''updated_at'' False) (\<lambda>_. Inr ()))))))))"

definition validate_media_control :: "json \<Rightarrow> err + unit" where
  "validate_media_control media_control =
     (if media_control = JNull then Inr () else
      rbind (from_some SessionStateError (as_obj media_control)) (\<lambda>mc.
      rbind (from_some SessionStateError (as_obj (dget mc ''audio''))) validate_media_control_audio))"

definition optional_booleans :: "string list" where
  "optional_booleans =
     [''entitlement_reserved'', ''provisioning_in_progress'', ''provisioning_cancel_requested'',
      ''relay_client_connected'']"

definition validate_next_event_seq :: "dict \<Rightarrow> err + int option" where
  "validate_next_event_seq record =
     (if \<not> dhas record ''next_event_seq'' then Inr None
      else rbind (require_nonnegative_int record ''next_event_seq'' True) (\<lambda>n.
           rbind (require SessionStateError (n \<noteq> Some 0)) (\<lambda>_. Inr n)))"

text \<open>The counter has to be beyond the newest retained event.\<close>

definition next_event_seq_advances :: "int option \<Rightarrow> int \<Rightarrow> bool" where
  "next_event_seq_advances next_event_seq previous_event_sequence =
     (case next_event_seq of
        None \<Rightarrow> True
      | Some n \<Rightarrow> \<not> (0 < previous_event_sequence \<and> n \<le> previous_event_sequence))"

definition validate_session :: "string \<Rightarrow> json \<Rightarrow> err + unit" where
  "validate_session session_id value =
     rbind (require SessionStateError (session_id \<noteq> [])) (\<lambda>_.
     rbind (from_some SessionStateError (as_obj value)) (\<lambda>record.
     rbind (require_nonempty_string record ''session_id'') (\<lambda>stored_id.
     rbind (require_nonempty_string record ''user_id'') (\<lambda>_.
     rbind (require_nonempty_string record ''status'') (\<lambda>status.
     rbind (require SessionStateError (stored_id = session_id)) (\<lambda>_.
     rbind (require SessionStateError (status \<in> SESSION_STATES)) (\<lambda>_.
     rbind (require_nonnegative_int record ''version'' False) (\<lambda>_.
     rbind (require_bool record ''cleanup_pending'' False) (\<lambda>_.
     rbind (require SessionStateError
              (\<forall>field \<in> set SESSION_REQUIRED_TIMESTAMPS. is_ok (require_finite_number record field False))) (\<lambda>_.
     rbind (require SessionStateError
              (\<forall>field \<in> set SESSION_OPTIONAL_TIMESTAMPS.
                 dhas record field \<longrightarrow> is_ok (require_finite_number record field True))) (\<lambda>_.
     rbind (require SessionStateError
              (\<forall>field \<in> set optional_booleans.
                 dhas record field \<longrightarrow> is_ok (require_bool record field True))) (\<lambda>_.
     rbind (require SessionStateError
              (dhas record ''relay_client_reader_count'' \<longrightarrow>
                 is_ok (require_nonnegative_int record ''relay_client_reader_count'' True))) (\<lambda>_.
     rbind (validate_next_event_seq record) (\<lambda>next_event_seq.
     rbind (from_some SessionStateError (as_list (dget_or record ''events'' (JList [])))) (\<lambda>events.
     rbind (validate_events 0 events) (\<lambda>previous_event_sequence.
     rbind (require SessionStateError
              (next_event_seq_advances next_event_seq previous_event_sequence)) (\<lambda>_.
     validate_media_control (dget record ''media_control''))))))))))))))))))"

primrec validate_sessions :: "dict \<Rightarrow> err + unit" where
  "validate_sessions [] = Inr ()"
| "validate_sessions (p # ps) = rbind (validate_session (fst p) (snd p)) (\<lambda>_. validate_sessions ps)"

section \<open>Cleanup leases\<close>

definition is_state_name :: "json \<Rightarrow> bool" where
  "is_state_name v = (case as_str v of None \<Rightarrow> False | Some s \<Rightarrow> s \<in> SESSION_STATES)"

definition validate_cleanup_lease :: "string \<Rightarrow> json \<Rightarrow> err + unit" where
  "validate_cleanup_lease session_id value =
     rbind (require SessionStateError (session_id \<noteq> [])) (\<lambda>_.
     rbind (from_some SessionStateError (as_obj value)) (\<lambda>lease.
     rbind (require_nonempty_string lease ''lease_id'') (\<lambda>_.
     rbind (require_nonempty_string lease ''scope'') (\<lambda>scope.
     rbind (require SessionStateError (scope \<in> {''orphan'', ''session''})) (\<lambda>_.
     rbind (require_finite_number lease ''created_at'' False) (\<lambda>created.
     rbind (require_finite_number lease ''expires_at'' False) (\<lambda>expires.
     rbind (from_some SessionStateError created) (\<lambda>created_at.
     rbind (from_some SessionStateError expires) (\<lambda>expires_at.
     rbind (require SessionStateError (created_at < expires_at)) (\<lambda>_.
     if scope = ''orphan'' then
       rbind (require_nonempty_string lease ''resource_id'') (\<lambda>_.
       rbind (require_nonempty_string lease ''resource_kind'') (\<lambda>_. Inr ()))
     else
       rbind (from_some SessionStateError (as_list (dget lease ''expected_states''))) (\<lambda>expected_states.
       require SessionStateError (expected_states \<noteq> [] \<and> list_all is_state_name expected_states))))))))))))"

primrec validate_cleanup_leases :: "dict \<Rightarrow> err + unit" where
  "validate_cleanup_leases [] = Inr ()"
| "validate_cleanup_leases (p # ps) =
     rbind (validate_cleanup_lease (fst p) (snd p)) (\<lambda>_. validate_cleanup_leases ps)"

section \<open>The store's document\<close>

record store_state =
  sessions :: "(string \<times> dict) list"
  leases :: "(string \<times> dict) list"
  authoritative :: bool

definition pristine_store :: store_state where
  "pristine_store = \<lparr>sessions = [], leases = [], authoritative = False\<rparr>"

definition as_object :: "(string \<times> dict) list \<Rightarrow> dict" where
  "as_object xs = map (\<lambda>p. (fst p, JObj (snd p))) xs"

definition obj_of :: "json \<Rightarrow> dict" where
  "obj_of v = (case as_obj v of None \<Rightarrow> [] | Some d \<Rightarrow> d)"

lemma obj_of_JObj [simp]: "obj_of (JObj d) = d"
  by (simp add: obj_of_def)

definition of_object :: "dict \<Rightarrow> (string \<times> dict) list" where
  "of_object d = map (\<lambda>p. (fst p, obj_of (snd p))) d"

text \<open>The part of \<open>_load\<close> after the file is decoded; None stands for SessionStateError.\<close>

definition session_decode :: "json \<Rightarrow> store_state option" where
  "session_decode raw =
     Option.bind (as_obj raw) (\<lambda>doc.
     Option.bind (as_obj (dget doc ''sessions'')) (\<lambda>ss.
     if \<not> is_ok (validate_sessions ss) then None else
     Option.bind (as_obj (dget_or doc ''orphan_cleanup_leases'' (JObj []))) (\<lambda>ls.
     if \<not> is_ok (validate_cleanup_leases ls) then None else
     Some \<lparr>sessions = of_object ss, leases = of_object ls, authoritative = True\<rparr>)))"

text \<open>The part of \<open>_persist\<close> before the file is written: both validators, then the document.\<close>

definition session_encode :: "store_state \<Rightarrow> json option" where
  "session_encode m =
     (if is_ok (validate_sessions (as_object (sessions m))) \<and>
         is_ok (validate_cleanup_leases (as_object (leases m)))
      then Some (JObj [(''sessions'', JObj (as_object (sessions m))),
                       (''orphan_cleanup_leases'', JObj (as_object (leases m)))])
      else None)"

lemma of_object_as_object [simp]: "of_object (as_object xs) = xs"
  by (simp add: of_object_def as_object_def comp_def)

lemma session_decode_encode:
  "session_encode m = Some doc \<Longrightarrow> session_decode doc = Some (m\<lparr>authoritative := True\<rparr>)"
  by (auto simp: session_encode_def session_decode_def dget_def dget_or_def split: if_splits)

interpretation ss: authority_codec SessionStateError pristine_store session_decode session_encode
  "\<lambda>m. m\<lparr>authoritative := True\<rparr>"
  by unfold_locales (rule session_decode_encode)

text \<open>Every \<open>SessionStore\<close> method runs its body under this lock.\<close>

definition state_lock ::
  "(store_state \<Rightarrow> err + ('r \<times> store_state option)) \<Rightarrow> authority \<Rightarrow> (err + 'r) \<times> authority" where
  "state_lock body = auth_locked SessionStateError True pristine_store session_decode session_encode body"

end
