(* ===== verification/Session_Wf.thy ===== *)
theory Session_Wf
  imports Session_State
begin

text \<open>
  What the Session validators accept, restated as a predicate on the fields of a record, and the
  field writes that keep a record acceptable.  The store theory proves from these that its writers
  never publish a document the next load would refuse.
\<close>

section \<open>Field predicates\<close>

definition ts_ok :: "json \<Rightarrow> bool" where
  "ts_ok v = is_ok (validated_timestamp v)"

definition nonneg_int :: "json \<Rightarrow> bool" where
  "nonneg_int v = (case v of JInt n \<Rightarrow> 0 \<le> n | _ \<Rightarrow> False)"

definition is_bool :: "json \<Rightarrow> bool" where
  "is_bool v = (case v of JBool _ \<Rightarrow> True | _ \<Rightarrow> False)"

definition is_name :: "json \<Rightarrow> bool" where
  "is_name v = (case v of JStr s \<Rightarrow> s \<noteq> [] | _ \<Rightarrow> False)"

lemma is_name_iff: "is_name v \<longleftrightarrow> (\<exists>s. v = JStr s \<and> s \<noteq> [])"
  by (auto simp: is_name_def split: json.splits)

lemma field_pred_simps [simp]:
  "ts_ok (JTime x) \<longleftrightarrow> 0 \<le> x" "\<not> ts_ok JNull" "\<not> ts_ok (JStr s)" "\<not> ts_ok (JBool b)"
  "\<not> ts_ok (JObj d)" "\<not> ts_ok (JList l)"
  "nonneg_int (JInt n) \<longleftrightarrow> 0 \<le> n"
  "is_bool (JBool b)" "\<not> is_bool JNull"
  "is_name (JStr s) \<longleftrightarrow> s \<noteq> []" "\<not> is_name JNull"
  by (simp_all add: ts_ok_def nonneg_int_def is_bool_def is_name_def validated_timestamp_def
      finite_nonnegative_def)

lemma require_nonempty_string_Inr:
  "require_nonempty_string d f = Inr s \<longleftrightarrow> dget d f = JStr s \<and> s \<noteq> []"
  by (auto simp: require_nonempty_string_def rbind_eq_Inr)

lemma require_finite_number_Inr:
  "(\<exists>x. require_finite_number d f opt = Inr x) \<longleftrightarrow> (opt \<and> dget d f = JNull) \<or> ts_ok (dget d f)"
  by (auto simp: require_finite_number_def ts_ok_def is_ok_iff rbind_eq_Inr)

lemma require_bool_Inr:
  "(\<exists>x. require_bool d f opt = Inr x) \<longleftrightarrow> (opt \<and> \<not> dhas d f) \<or> is_bool (dget d f)"
  by (auto simp: require_bool_def rbind_eq_Inr is_bool_def split: option.splits json.splits)

lemma require_int_Inr:
  "(\<exists>x. require_nonnegative_int d f opt = Inr x) \<longleftrightarrow> (opt \<and> \<not> dhas d f) \<or> nonneg_int (dget d f)"
  by (auto simp: require_nonnegative_int_def rbind_eq_Inr nonneg_int_def split: json.splits)

lemma require_int_False:
  "require_nonnegative_int d f False = Inr x \<longleftrightarrow> (\<exists>n. x = Some n \<and> dget d f = JInt n \<and> 0 \<le> n)"
  by (auto simp: require_nonnegative_int_def rbind_eq_Inr)

lemmas require_Inr =
  require_nonempty_string_Inr require_finite_number_Inr require_bool_Inr require_int_Inr

section \<open>Events\<close>

definition event_wf :: "json \<Rightarrow> int \<Rightarrow> bool" where
  "event_wf ev n =
     (\<exists>event. ev = JObj event \<and>
        dget event ''sequence'' = JInt n \<and> 0 < n \<and> is_name (dget event ''type'') \<and>
        is_name (dget event ''origin'') \<and> ts_ok (dget event ''occurred_at'') \<and>
        null_or_str (dget event ''reason_code'') \<and>
        (\<exists>p. dget event ''payload'' = JObj p))"

lemma validate_event_iff:
  "validate_event p ev = Inr n \<longleftrightarrow> event_wf ev n \<and> p < n"
  using require_finite_number_Inr [of _ "''occurred_at''" False]
  by (auto simp: validate_event_def event_wf_def rbind_eq_Inr require_int_False
      require_nonempty_string_Inr is_name_iff null_or_str_iff)

lemma validate_event_mono: "validate_event p ev = Inr n \<Longrightarrow> p < n"
  by (simp add: validate_event_iff)

lemma validate_events_append:
  "validate_events p (xs @ ys) = rbind (validate_events p xs) (\<lambda>q. validate_events q ys)"
  by (induction xs arbitrary: p) (auto simp: rbind_def split: sum.splits)

lemma validate_events_ge: "validate_events p es = Inr q \<Longrightarrow> p \<le> q"
proof (induction es arbitrary: p)
  case (Cons e es)
  then obtain r where "validate_event p e = Inr r" "validate_events r es = Inr q"
    by (auto simp: rbind_eq_Inr)
  then show ?case using Cons.IH [of r] validate_event_mono [of p e r] by simp
qed simp

lemma validate_events_weaken:
  "validate_events p es = Inr q \<Longrightarrow> p' \<le> p \<Longrightarrow> es \<noteq> [] \<Longrightarrow> validate_events p' es = Inr q"
  by (cases es) (auto simp: rbind_eq_Inr validate_event_iff intro: order.strict_trans1)

lemma validate_events_weaken_ex:
  "validate_events p es = Inr q \<Longrightarrow> p' \<le> p \<Longrightarrow> \<exists>q' \<le> q. validate_events p' es = Inr q'"
  using validate_events_weaken [of p es q p'] validate_events_ge [of p es q]
  by (cases "es = []") auto

lemma validate_events_drop:
  assumes "validate_events p es = Inr q"
  shows "\<exists>q' \<le> q. validate_events p (drop n es) = Inr q'"
proof -
  have "validate_events p (take n es @ drop n es) = Inr q" using assms by simp
  then obtain r where "validate_events p (take n es) = Inr r" "validate_events r (drop n es) = Inr q"
    unfolding validate_events_append rbind_eq_Inr by blast
  then show ?thesis
    by (intro validate_events_weaken_ex [of r]) (auto dest: validate_events_ge)
qed

text \<open>The sequence numbers of retained events, in order.\<close>

fun event_seq :: "json \<Rightarrow> int" where
  "event_seq (JObj d) = (case dget d ''sequence'' of JInt n \<Rightarrow> n | _ \<Rightarrow> 0)"
| "event_seq _ = 0"

lemma event_wf_seq: "event_wf ev n \<Longrightarrow> event_seq ev = n"
  by (cases ev) (auto simp: event_wf_def)

lemma validate_events_sorted:
  "validate_events p es = Inr q \<Longrightarrow>
   sorted_wrt (<) (map event_seq es) \<and> (\<forall>e \<in> set es. p < event_seq e \<and> event_seq e \<le> q)"
proof (induction es arbitrary: p)
  case (Cons e es)
  then obtain r where r: "validate_event p e = Inr r" and rest: "validate_events r es = Inr q"
    by (auto simp: rbind_eq_Inr)
  from r have e: "event_seq e = r" "p < r" by (auto simp: validate_event_iff dest: event_wf_seq)
  have "r \<le> q" using rest by (rule validate_events_ge)
  with Cons.IH [OF rest] e show ?case by fastforce
qed simp

section \<open>Records\<close>

definition seq_wf :: "dict \<Rightarrow> bool" where
  "seq_wf d =
     ((dhas d ''next_event_seq'' \<longrightarrow> (\<exists>n. dget d ''next_event_seq'' = JInt n \<and> 0 < n)) \<and>
      (\<exists>es q. dget_or d ''events'' (JList []) = JList es \<and> validate_events 0 es = Inr q \<and>
         (\<forall>n. dhas d ''next_event_seq'' \<longrightarrow> dget d ''next_event_seq'' = JInt n \<longrightarrow> q < n)))"

definition session_wf :: "string \<Rightarrow> dict \<Rightarrow> bool" where
  "session_wf sid d \<longleftrightarrow>
     sid \<noteq> [] \<and> dget d ''session_id'' = JStr sid \<and> is_name (dget d ''user_id'') \<and>
     (\<exists>st \<in> SESSION_STATES. dget d ''status'' = JStr st) \<and>
     nonneg_int (dget d ''version'') \<and> is_bool (dget d ''cleanup_pending'') \<and>
     (\<forall>f \<in> set SESSION_REQUIRED_TIMESTAMPS. ts_ok (dget d f)) \<and>
     (\<forall>f \<in> set SESSION_OPTIONAL_TIMESTAMPS. dget d f = JNull \<or> ts_ok (dget d f)) \<and>
     (\<forall>f \<in> set optional_booleans. dhas d f \<longrightarrow> is_bool (dget d f)) \<and>
     (dhas d ''relay_client_reader_count'' \<longrightarrow> nonneg_int (dget d ''relay_client_reader_count'')) \<and>
     seq_wf d \<and> is_ok (validate_media_control (dget d ''media_control''))"

lemma not_dhas_dget: "\<not> dhas d k \<Longrightarrow> dget d k = JNull"
  by (auto simp: dhas_def dget_def split: option.splits)

lemma validate_next_event_seq_iff:
  "validate_next_event_seq d = Inr x \<longleftrightarrow>
     (if dhas d ''next_event_seq'' then (\<exists>n. x = Some n \<and> dget d ''next_event_seq'' = JInt n \<and> 0 < n)
      else x = None)"
  by (auto simp: validate_next_event_seq_def rbind_eq_Inr require_nonnegative_int_def)

lemma SESSION_STATES_nonempty: "st \<in> SESSION_STATES \<Longrightarrow> st \<noteq> []"
  by (auto simp: SESSION_STATES_def)

lemma seq_wf_validated:
  "(\<exists>nx. validate_next_event_seq d = Inr nx \<and>
     (\<exists>es. as_list (dget_or d ''events'' (JList [])) = Some es \<and>
       (\<exists>q. validate_events 0 es = Inr q \<and> next_event_seq_advances nx q \<and> P))) \<longleftrightarrow> seq_wf d \<and> P"
  (is "?L \<longleftrightarrow> ?R")
proof
  assume ?L
  then show ?R
    by (auto simp: seq_wf_def validate_next_event_seq_iff next_event_seq_advances_def split: if_splits)
next
  assume ?R
  then obtain es q where es: "dget_or d ''events'' (JList []) = JList es" "validate_events 0 es = Inr q"
    and n1: "dhas d ''next_event_seq'' \<Longrightarrow> \<exists>n. dget d ''next_event_seq'' = JInt n \<and> 0 < n"
    and n2: "\<And>n. dhas d ''next_event_seq'' \<Longrightarrow> dget d ''next_event_seq'' = JInt n \<Longrightarrow> q < n" and P
    by (auto simp: seq_wf_def)
  show ?L
  proof (cases "dhas d ''next_event_seq''")
    case True
    then obtain n where n: "dget d ''next_event_seq'' = JInt n" "0 < n" using n1 by blast
    with True n2 [of n] have "validate_next_event_seq d = Inr (Some n)" "next_event_seq_advances (Some n) q"
      by (auto simp: validate_next_event_seq_iff next_event_seq_advances_def)
    with es \<open>P\<close> show ?thesis by auto
  next
    case False
    then have "validate_next_event_seq d = Inr None" "next_event_seq_advances None q"
      by (auto simp: validate_next_event_seq_iff next_event_seq_advances_def)
    with es \<open>P\<close> show ?thesis by auto
  qed
qed

lemma optional_timestamps_iff:
  "(\<forall>f \<in> set fs. dhas d f \<longrightarrow> is_ok (require_finite_number d f True)) \<longleftrightarrow>
   (\<forall>f \<in> set fs. dget d f = JNull \<or> ts_ok (dget d f))"
  by (auto simp: is_ok_iff require_finite_number_Inr dest: not_dhas_dget)

lemma validate_session_iff:
  "is_ok (validate_session sid v) \<longleftrightarrow> (\<exists>d. v = JObj d \<and> session_wf sid d)"
proof -
  have "is_ok (validate_session sid v) \<longleftrightarrow>
    (\<exists>d. v = JObj d \<and> sid \<noteq> [] \<and> dget d ''session_id'' = JStr sid \<and> is_name (dget d ''user_id'') \<and>
     (\<exists>st \<in> SESSION_STATES. dget d ''status'' = JStr st) \<and>
     nonneg_int (dget d ''version'') \<and> is_bool (dget d ''cleanup_pending'') \<and>
     (\<forall>f \<in> set SESSION_REQUIRED_TIMESTAMPS. is_ok (require_finite_number d f False)) \<and>
     (\<forall>f \<in> set SESSION_OPTIONAL_TIMESTAMPS. dhas d f \<longrightarrow> is_ok (require_finite_number d f True)) \<and>
     (\<forall>f \<in> set optional_booleans. dhas d f \<longrightarrow> is_ok (require_bool d f True)) \<and>
     (dhas d ''relay_client_reader_count'' \<longrightarrow> is_ok (require_nonnegative_int d ''relay_client_reader_count'' True)) \<and>
     seq_wf d \<and> is_ok (validate_media_control (dget d ''media_control'')))"
    unfolding validate_session_def is_ok_rbind require_simps from_some_simps as_eq_Some
      require_nonempty_string_Inr seq_wf_validated [symmetric]
    using require_int_Inr [of _ "''version''" False] require_bool_Inr [of _ "''cleanup_pending''" False]
    by (auto simp: is_name_iff dest: SESSION_STATES_nonempty)
  then show ?thesis
    by (simp add: session_wf_def optional_timestamps_iff)
      (simp add: is_ok_iff require_Inr)
qed

section \<open>Writes that keep a record acceptable\<close>

definition field_ok :: "string \<Rightarrow> string \<Rightarrow> json \<Rightarrow> bool" where
  "field_ok sid k v \<longleftrightarrow>
     (k = ''session_id'' \<longrightarrow> v = JStr sid) \<and> (k = ''user_id'' \<longrightarrow> is_name v) \<and>
     (k = ''status'' \<longrightarrow> is_state_name v) \<and> (k = ''version'' \<longrightarrow> nonneg_int v) \<and>
     (k = ''cleanup_pending'' \<longrightarrow> is_bool v) \<and>
     (k \<in> set SESSION_REQUIRED_TIMESTAMPS \<longrightarrow> ts_ok v) \<and>
     (k \<in> set SESSION_OPTIONAL_TIMESTAMPS \<longrightarrow> v = JNull \<or> ts_ok v) \<and>
     (k \<in> set optional_booleans \<longrightarrow> is_bool v) \<and>
     (k = ''relay_client_reader_count'' \<longrightarrow> nonneg_int v) \<and>
     k \<noteq> ''events'' \<and> k \<noteq> ''next_event_seq'' \<and>
     (k = ''media_control'' \<longrightarrow> is_ok (validate_media_control v))"

lemmas field_defs =
  field_ok_def SESSION_REQUIRED_TIMESTAMPS_def SESSION_OPTIONAL_TIMESTAMPS_def optional_booleans_def

lemma is_state_name_JStr [simp]: "is_state_name (JStr s) \<longleftrightarrow> s \<in> SESSION_STATES"
  by (simp add: is_state_name_def)

lemma is_state_name_iff: "is_state_name v \<longleftrightarrow> (\<exists>s \<in> SESSION_STATES. v = JStr s)"
  by (auto simp: is_state_name_def split: option.splits)

lemma seq_wf_dset: "k \<noteq> ''events'' \<Longrightarrow> k \<noteq> ''next_event_seq'' \<Longrightarrow> seq_wf (dset d k v) = seq_wf d"
  by (simp add: seq_wf_def)

lemma dget_dset_keep: "P (dget d f) \<Longrightarrow> (f = k \<Longrightarrow> P v) \<Longrightarrow> P (dget (dset d k v) f)"
  by simp

lemma session_wf_dset:
  assumes wf: "session_wf sid d" and ok: "field_ok sid k v"
  shows "session_wf sid (dset d k v)"
  unfolding session_wf_def
proof (intro conjI ballI impI)
  note wf' = wf [unfolded session_wf_def] and ok' = ok [unfolded field_ok_def]
  show "sid \<noteq> []" using wf' by simp
  show "dget (dset d k v) ''session_id'' = JStr sid" using wf' ok' by simp
  show "is_name (dget (dset d k v) ''user_id'')" using wf' ok' by simp
  show "\<exists>st \<in> SESSION_STATES. dget (dset d k v) ''status'' = JStr st"
    using wf' ok' unfolding is_state_name_iff by simp
  show "nonneg_int (dget (dset d k v) ''version'')" using wf' ok' by simp
  show "is_bool (dget (dset d k v) ''cleanup_pending'')" using wf' ok' by simp
  show "ts_ok (dget (dset d k v) f)" if "f \<in> set SESSION_REQUIRED_TIMESTAMPS" for f
    using wf' ok' that by (cases "f = k") simp_all
  show "dget (dset d k v) f = JNull \<or> ts_ok (dget (dset d k v) f)"
    if "f \<in> set SESSION_OPTIONAL_TIMESTAMPS" for f
    using wf' ok' that by (cases "f = k") simp_all
  show "is_bool (dget (dset d k v) f)" if "f \<in> set optional_booleans" "dhas (dset d k v) f" for f
    using wf' ok' that by (cases "f = k") simp_all
  show "nonneg_int (dget (dset d k v) ''relay_client_reader_count'')"
    if "dhas (dset d k v) ''relay_client_reader_count''"
    using wf' ok' that by (cases "k = ''relay_client_reader_count''") simp_all
  show "seq_wf (dset d k v)" using wf' ok' by (simp add: seq_wf_dset)
  show "is_ok (validate_media_control (dget (dset d k v) ''media_control''))" using wf' ok' by simp
qed

lemma session_wf_dupdate:
  "session_wf sid d \<Longrightarrow> list_all (\<lambda>p. field_ok sid (fst p) (snd p)) cs \<Longrightarrow> session_wf sid (dupdate d cs)"
  by (induction cs arbitrary: d) (simp_all add: session_wf_dset)

lemma json_ok_dupdate:
  "json_ok (JObj d) \<Longrightarrow> list_all (\<lambda>p. json_ok (snd p)) cs \<Longrightarrow> json_ok (JObj (dupdate d cs))"
  by (induction cs arbitrary: d) (simp_all add: json_ok_dset)

text \<open>Replacing the retained events and the counter together.\<close>

lemma session_wf_events:
  assumes wf: "session_wf sid d" and es: "validate_events 0 es = Inr q" and n: "q < n" "0 < n"
  shows "session_wf sid (dset (dset d ''events'' (JList es)) ''next_event_seq'' (JInt n))"
proof -
  have "seq_wf (dset (dset d ''events'' (JList es)) ''next_event_seq'' (JInt n))"
    using es n by (auto simp: seq_wf_def)
  then show ?thesis
    using wf unfolding session_wf_def
    by (simp add: SESSION_REQUIRED_TIMESTAMPS_def SESSION_OPTIONAL_TIMESTAMPS_def optional_booleans_def)
qed

section \<open>Whole documents\<close>

definition lease_wf :: "string \<Rightarrow> dict \<Rightarrow> bool" where
  "lease_wf sid d = is_ok (validate_cleanup_lease sid (JObj d))"

definition store_ok :: "store_state \<Rightarrow> bool" where
  "store_ok m \<longleftrightarrow>
     distinct (map fst (sessions m)) \<and> distinct (map fst (leases m)) \<and>
     (\<forall>(sid, d) \<in> set (sessions m). session_wf sid d \<and> json_ok (JObj d)) \<and>
     (\<forall>(sid, d) \<in> set (leases m). lease_wf sid d \<and> json_ok (JObj d))"

lemma validate_sessions_ok:
  "is_ok (validate_sessions ps) \<longleftrightarrow> (\<forall>p \<in> set ps. is_ok (validate_session (fst p) (snd p)))"
  by (induction ps) (auto simp: is_ok_rbind, auto simp: is_ok_iff)

lemma validate_cleanup_leases_ok:
  "is_ok (validate_cleanup_leases ps) \<longleftrightarrow> (\<forall>p \<in> set ps. is_ok (validate_cleanup_lease (fst p) (snd p)))"
  by (induction ps) (auto simp: is_ok_rbind, auto simp: is_ok_iff)

lemma json_ok_as_object:
  "json_ok (JObj (as_object xs)) \<longleftrightarrow> distinct (map fst xs) \<and> (\<forall>p \<in> set xs. json_ok (JObj (snd p)))"
  unfolding json_ok_JObj_iff [of "as_object xs"] by (simp add: as_object_def comp_def)

lemma session_encode_ok: "(\<exists>doc. session_encode m = Some doc \<and> json_ok doc) \<longleftrightarrow> store_ok m"
proof -
  have "is_ok (validate_sessions (as_object (sessions m))) \<longleftrightarrow> (\<forall>p \<in> set (sessions m). session_wf (fst p) (snd p))"
    by (simp add: validate_sessions_ok validate_session_iff as_object_def)
  moreover have "is_ok (validate_cleanup_leases (as_object (leases m))) \<longleftrightarrow> (\<forall>p \<in> set (leases m). lease_wf (fst p) (snd p))"
    by (simp add: validate_cleanup_leases_ok lease_wf_def as_object_def)
  ultimately show ?thesis
    by (simp add: session_encode_def store_ok_def json_ok_as_object case_prod_beta) blast
qed

text \<open>An authority whose contents are a state the store may have written.\<close>

definition stored :: "authority \<Rightarrow> store_state \<Rightarrow> bool" where
  "stored fs m \<longleftrightarrow>
     marker fs \<noteq> OtherMarker \<and> auth_contents pristine_store session_decode fs = Some m \<and> store_ok m"

lemma stored_fresh: "stored fresh_authority pristine_store"
  by (simp add: stored_def fresh_authority_def auth_contents_def read_authority_def was_initialized_def
      store_ok_def pristine_store_def)

lemma stored_unique: "stored fs m \<Longrightarrow> stored fs m' \<Longrightarrow> m' = m"
  by (simp add: stored_def)

text \<open>The outcomes of a locked body on a stored state.\<close>

lemma state_lock_raise:
  assumes "stored fs m" and "body m = Inl x"
  shows "fst (state_lock body fs) = Inl x \<and> stored (snd (state_lock body fs)) m"
  using assms ss.locked_cases [of fs m body True] ss.locked_keeps_marker [of fs True body]
  by (auto simp: stored_def state_lock_def)

lemma state_lock_read:
  assumes "stored fs m" and "body m = Inr (r, None)"
  shows "fst (state_lock body fs) = Inr r \<and> stored (snd (state_lock body fs)) m"
  using assms ss.locked_cases [of fs m body True] ss.locked_keeps_marker [of fs True body]
  by (auto simp: stored_def state_lock_def)

lemma store_ok_authoritative [simp]: "store_ok (m\<lparr>authoritative := b\<rparr>) = store_ok m"
  by (simp add: store_ok_def)

lemma state_lock_write:
  assumes "stored fs m" and "body m = Inr (r, Some m')" and "store_ok m'"
  shows "fst (state_lock body fs) = Inr r \<and> stored (snd (state_lock body fs)) (m'\<lparr>authoritative := True\<rparr>)"
  using assms ss.locked_cases [of fs m body True] ss.locked_keeps_marker [of fs True body]
  by (auto simp: stored_def state_lock_def session_encode_ok)

lemma state_lock_refused:
  assumes "stored fs m" and "body m = Inr (r, Some m')" and "\<not> store_ok m'"
  shows "fst (state_lock body fs) = Inl SessionStateError \<and> stored (snd (state_lock body fs)) m"
  using assms ss.locked_cases [of fs m body True] ss.locked_keeps_marker [of fs True body]
  by (auto simp: stored_def state_lock_def session_encode_ok)

lemma state_lock_stored:
  assumes "stored fs m"
  shows "\<exists>m'. stored (snd (state_lock body fs)) m'"
  using assms state_lock_raise [of fs m body] state_lock_read [of fs m body]
    state_lock_write [of fs m body] state_lock_refused [of fs m body]
  by (cases "body m") (metis option.exhaust surj_pair)+

lemma state_lock_Inr:
  assumes "stored fs m" and "fst (state_lock body fs) = Inr r"
  shows "(body m = Inr (r, None) \<and> stored (snd (state_lock body fs)) m) \<or>
    (\<exists>m'. body m = Inr (r, Some m') \<and> store_ok m' \<and> stored (snd (state_lock body fs)) (m'\<lparr>authoritative := True\<rparr>))"
proof (cases "body m")
  case (Inl x)
  then show ?thesis using assms state_lock_raise [of fs m body x] by simp
next
  case (Inr p)
  obtain r' w where p: "p = (r', w)" by (cases p)
  show ?thesis
  proof (cases w)
    case None
    then show ?thesis using assms Inr p state_lock_read [of fs m body r'] by simp
  next
    case (Some m')
    then show ?thesis
      using assms Inr p state_lock_write [of fs m body r' m'] state_lock_refused [of fs m body r' m'] by fastforce
  qed
qed

lemma state_lock_Inl:
  assumes "stored fs m" and "fst (state_lock body fs) = Inl x"
  shows "stored (snd (state_lock body fs)) m \<and>
    (body m = Inl x \<or> x = SessionStateError \<and> (\<exists>r m'. body m = Inr (r, Some m') \<and> \<not> store_ok m'))"
proof (cases "body m")
  case (Inl y)
  then show ?thesis using assms state_lock_raise [of fs m body y] by simp
next
  case (Inr p)
  obtain r' w where p: "p = (r', w)" by (cases p)
  show ?thesis
  proof (cases w)
    case None
    then show ?thesis using assms Inr p state_lock_read [of fs m body r'] by simp
  next
    case (Some m')
    then show ?thesis
      using assms Inr p state_lock_write [of fs m body r' m'] state_lock_refused [of fs m body r' m'] by fastforce
  qed
qed

lemma state_lock_result:
  assumes "stored fs m" and "state_lock body fs = (Inr r, fs')" and "stored fs' m'"
  shows "(body m = Inr (r, None) \<and> m' = m) \<or>
    (\<exists>n. body m = Inr (r, Some n) \<and> store_ok n \<and> m' = n\<lparr>authoritative := True\<rparr>)"
  using state_lock_Inr [OF assms(1), of body r] assms(2,3) stored_unique by fastforce

lemma state_lock_reads:
  assumes "stored fs m" and "state_lock body fs = (r, fs')"
    and "body m = (case r0 of Inl e \<Rightarrow> Inl e | Inr x \<Rightarrow> Inr (x, None))"
  shows "stored fs' m \<and> r = r0"
proof (cases r0)
  case (Inl e)
  then show ?thesis using state_lock_raise [OF assms(1), of body e] assms(2,3) by simp
next
  case (Inr x)
  then show ?thesis using state_lock_read [OF assms(1), of body x] assms(2,3) by simp
qed

lemma state_lock_writes:
  assumes "stored fs m" and "state_lock body fs = (r, fs')"
    and "body m = Inr (x, Some n)" and "store_ok n"
  shows "stored fs' (n\<lparr>authoritative := True\<rparr>) \<and> r = Inr x"
  using state_lock_write [of fs m body x n] assms by simp

lemma state_lock_writes_surj:
  assumes "stored fs m" and "body m = Inr (x, Some n)" and "store_ok n"
  shows "fst (state_lock body fs) = Inr x \<and> stored (snd (state_lock body fs)) (n\<lparr>authoritative := True\<rparr>)"
  using state_lock_write [of fs m body x n] assms by simp

section \<open>Updating one Session\<close>

definition put_session :: "store_state \<Rightarrow> string \<Rightarrow> dict \<Rightarrow> store_state" where
  "put_session m sid d = m\<lparr>sessions := dset (sessions m) sid d\<rparr>"

definition put_lease :: "store_state \<Rightarrow> string \<Rightarrow> dict \<Rightarrow> store_state" where
  "put_lease m sid d = m\<lparr>leases := dset (leases m) sid d\<rparr>"

definition drop_lease :: "store_state \<Rightarrow> string \<Rightarrow> store_state" where
  "drop_lease m sid = m\<lparr>leases := dpop (leases m) sid\<rparr>"

lemma put_simps [simp]:
  "sessions (put_session m sid d) = dset (sessions m) sid d" "leases (put_session m sid d) = leases m"
  "sessions (put_lease m sid d) = sessions m" "leases (put_lease m sid d) = dset (leases m) sid d"
  "sessions (drop_lease m sid) = sessions m" "leases (drop_lease m sid) = dpop (leases m) sid"
  by (simp_all add: put_session_def put_lease_def drop_lease_def)

lemma store_ok_session:
  "store_ok m \<Longrightarrow> map_of (sessions m) sid = Some d \<Longrightarrow> session_wf sid d \<and> json_ok (JObj d)"
  by (auto simp: store_ok_def dest!: map_of_SomeD)

lemma store_ok_lease:
  "store_ok m \<Longrightarrow> map_of (leases m) sid = Some d \<Longrightarrow> lease_wf sid d \<and> json_ok (JObj d)"
  by (auto simp: store_ok_def dest!: map_of_SomeD)

lemma store_ok_put_session:
  assumes "store_ok m"
  shows "store_ok (put_session m sid d) \<longleftrightarrow> session_wf sid d \<and> json_ok (JObj d)"
  using assms by (auto simp: store_ok_def set_dset)

lemma store_ok_put_lease:
  assumes "store_ok m"
  shows "store_ok (put_lease m sid d) \<longleftrightarrow> lease_wf sid d \<and> json_ok (JObj d)"
  using assms by (auto simp: store_ok_def set_dset)

lemma store_ok_drop_lease: "store_ok m \<Longrightarrow> store_ok (drop_lease m sid)"
  by (auto simp: store_ok_def set_dpop)

end
