(* ===== verification/Session_Store.thy ===== *)
theory Session_Store
  imports Session_Wf
begin

text \<open>
  The methods of \<open>SessionStore\<close> (\<open>apps/control-api/session_store.py\<close>), each as one body under the
  store's lock.  A method takes the readings of \<open>time.time()\<close> and the fresh UUIDs it uses as
  arguments, one per call in the source, and maps an authority to an outcome and a new authority.
\<close>

section \<open>Reading a record\<close>

text \<open>
  \<open>str(session.get("status"))\<close>.  A loaded record always has a string there; the text Python makes of
  anything else is never the name of a state, and neither is the empty string used here.
\<close>

definition status_of :: "dict \<Rightarrow> string" where
  "status_of session = (case as_str (dget session ''status'') of None \<Rightarrow> [] | Some s \<Rightarrow> s)"

text \<open>\<open>_matches_fields\<close>\<close>

definition matches_fields :: "dict \<Rightarrow> dict \<Rightarrow> bool" where
  "matches_fields session expected_fields =
     list_all (\<lambda>p. py_eq (dget session (fst p)) (snd p)) expected_fields"

definition clear_recovery_candidate :: "dict \<Rightarrow> dict" where
  "clear_recovery_candidate session =
     dset (dset session ''recovery_candidate_since'' JNull) ''recovery_candidate_source_id'' JNull"

section \<open>Session events\<close>

text \<open>
  \<open>_next_event_sequence\<close>.  In a loaded record the counter is a positive int or absent, so
  \<open>int(...)\<close> is the identity on what it can be given.
\<close>

definition next_event_sequence :: "dict \<Rightarrow> int" where
  "next_event_sequence session =
     (let configured = (case as_int (dget_or session ''next_event_seq'' (JInt 0)) of None \<Rightarrow> 0 | Some n \<Rightarrow> n) in
      if 0 < configured then configured
      else
        (case as_list (dget_or session ''events'' (JList [])) of
           None \<Rightarrow> 0
         | Some events \<Rightarrow>
             foldl (\<lambda>maximum event.
                 case as_obj event of
                   None \<Rightarrow> maximum
                 | Some ev \<Rightarrow>
                     (case as_int (dget_or ev ''sequence'' (JInt 0)) of
                        None \<Rightarrow> maximum
                      | Some n \<Rightarrow> max maximum n))
               0 events) + 1)"

definition last_n :: "nat \<Rightarrow> 'a list \<Rightarrow> 'a list" where
  "last_n n xs = drop (length xs - n) xs"

definition new_event :: "int \<Rightarrow> string \<Rightarrow> string option \<Rightarrow> dict \<Rightarrow> string \<Rightarrow> rat \<Rightarrow> dict" where
  "new_event sequence event_type reason_code payload origin occurred_at =
     [(''sequence'', JInt sequence),
      (''type'', JStr (take 100 event_type)),
      (''reason_code'', case reason_code of None \<Rightarrow> JNull | Some r \<Rightarrow> if r = [] then JNull else JStr (take 100 r)),
      (''payload'', JObj payload),
      (''occurred_at'', JTime occurred_at),
      (''origin'', JStr (take 50 origin))]"

text \<open>\<open>_append_event_locked\<close>: the event and the Session with it.\<close>

definition append_event_locked ::
  "dict \<Rightarrow> string \<Rightarrow> string option \<Rightarrow> dict \<Rightarrow> string \<Rightarrow> rat \<Rightarrow> err + (dict \<times> dict)" where
  "append_event_locked session event_type reason_code payload origin occurred_at =
     rbind (validated_timestamp (JTime occurred_at)) (\<lambda>occurred_at.
     rbind (from_some TypeError (as_list (dget_or session ''events'' (JList [])))) (\<lambda>events.
     let sequence = next_event_sequence session;
         event = new_event sequence event_type reason_code payload origin occurred_at;
         session = dset session ''events'' (JList (last_n SESSION_EVENT_LIMIT (events @ [JObj event])));
         session = dset session ''next_event_seq'' (JInt (sequence + 1))
     in Inr (event, session)))"

section \<open>Creating Sessions\<close>

definition default_media_control :: "rat \<Rightarrow> json" where
  "default_media_control now =
     JObj [(''audio'',
        JObj [(''desired_mode'', JStr ''LIVE''),
              (''actual_mode'', JStr ''LIVE''),
              (''version'', JInt 0),
              (''command_id'', JNull),
              (''idempotency_key'', JNull),
              (''updated_at'', JTime now)])]"

text \<open>
  \<open>absolute_deadline_hours * 3600\<close>.  A product that is not a number makes the addition that follows
  raise TypeError, which the code turns into SessionStateError as well.
\<close>

definition deadline_offset :: "json \<Rightarrow> err + json" where
  "deadline_offset hours =
     (case hours of
        JFloat f \<Rightarrow> Inr (JFloat (fscale f 3600))
      | JInt n \<Rightarrow> Inr (JInt (n * 3600))
      | JBool b \<Rightarrow> Inr (JInt (if b then 3600 else 0))
      | _ \<Rightarrow> Inl SessionStateError)"

text \<open>The dict \<open>new_session\<close> returns.\<close>

definition fresh_record :: "string \<Rightarrow> string \<Rightarrow> string \<Rightarrow> string \<Rightarrow> json \<Rightarrow> rat \<Rightarrow> dict" where
  "fresh_record new_session_id user_id environment egress_mode absolute_deadline_at now =
     [(''session_id'', JStr new_session_id),
      (''user_id'', JStr user_id),
      (''environment'', JStr environment),
      (''egress_mode'', JStr egress_mode),
      (''status'', JStr ''STOPPED''),
      (''relay_client_status'', JNull),
      (''relay_client_connected'', JBool False),
      (''relay_client_reader_count'', JInt 0),
      (''relay_client_last_reason'', JNull),
      (''relay_client_updated_at'', JNull),
      (''idempotency_key'', JNull),
      (''prepare_request'', JNull),
      (''version'', JInt 0),
      (''destination_id'', JNull),
      (''provider'', JNull),
      (''provider_volume_id'', JNull),
      (''provider_server_id'', JNull),
      (''provider_public_ipv4'', JNull),
      (''node_id'', JNull),
      (''node_boot_id'', JNull),
      (''node_registered_at'', JNull),
      (''node_last_heartbeat_at'', JNull),
      (''provisioning_started_at'', JNull),
      (''provisioning_operation_id'', JNull),
      (''provisioning_in_progress'', JBool False),
      (''provisioning_cancel_requested'', JBool False),
      (''ready_at'', JNull),
      (''first_ingest_at'', JNull),
      (''last_ingest_at'', JNull),
      (''hold_deadline_at'', JNull),
      (''recovery_candidate_since'', JNull),
      (''recovery_candidate_source_id'', JNull),
      (''absolute_deadline_at'', absolute_deadline_at),
      (''entitlement_id'', JNull),
      (''entitlement_reserved'', JBool False),
      (''cleanup_pending'', JBool False),
      (''failure_reason'', JNull),
      (''events'', JList []),
      (''next_event_seq'', JInt 1),
      (''media_control'', default_media_control now),
      (''created_at'', JTime now),
      (''updated_at'', JTime now)]"

definition new_session ::
  "string \<Rightarrow> string \<Rightarrow> string \<Rightarrow> string \<Rightarrow> json \<Rightarrow> pyfloat \<Rightarrow> err + dict" where
  "new_session new_session_id user_id environment egress_mode absolute_deadline_hours clock =
     rbind (validated_now clock) (\<lambda>now.
     rbind (if truthy absolute_deadline_hours
            then rbind (deadline_offset absolute_deadline_hours) (\<lambda>offset.
                 rbind (validated_derived_timestamp now offset) (\<lambda>t. Inr (JTime t)))
            else Inr JNull) (\<lambda>absolute_deadline_at.
     Inr (fresh_record new_session_id user_id environment egress_mode absolute_deadline_at now)))"

section \<open>Cleanup leases\<close>

text \<open>\<open>_active_cleanup_lease_locked\<close>: the lease if it has not expired.  No lease, no clock reading.\<close>

definition active_cleanup_lease_locked :: "store_state \<Rightarrow> string \<Rightarrow> pyfloat \<Rightarrow> err + dict option" where
  "active_cleanup_lease_locked m session_id clock =
     (case map_of (leases m) session_id of
        None \<Rightarrow> Inr None
      | Some lease \<Rightarrow>
          rbind (validated_now clock) (\<lambda>now.
          rbind (validated_timestamp (dget lease ''expires_at'')) (\<lambda>expires_at.
          if expires_at \<le> now then Inr None else Inr (Some lease))))"

definition reject_active_cleanup_lease_locked :: "store_state \<Rightarrow> string \<Rightarrow> pyfloat \<Rightarrow> err + unit" where
  "reject_active_cleanup_lease_locked m session_id clock =
     rbind (active_cleanup_lease_locked m session_id clock) (\<lambda>lease.
     require OrphanCleanupInProgress (lease = None))"

text \<open>\<open>max(1.0, lease_seconds)\<close>, which is 1.0 for NaN.\<close>

definition lease_offset :: "pyfloat \<Rightarrow> pyfloat" where
  "lease_offset lease_seconds =
     (case lease_seconds of
        Fin x \<Rightarrow> if 1 < x then Fin x else Fin 1
      | PosInf \<Rightarrow> PosInf
      | _ \<Rightarrow> Fin 1)"

definition claim_orphan_cleanup ::
  "string \<Rightarrow> string \<Rightarrow> string \<Rightarrow> pyfloat \<Rightarrow> string \<Rightarrow> pyfloat \<Rightarrow> pyfloat
    \<Rightarrow> authority \<Rightarrow> (err + string option) \<times> authority" where
  "claim_orphan_cleanup session_id resource_id resource_kind lease_seconds uuid t_lease t_now =
     state_lock (\<lambda>m.
       if (case map_of (sessions m) session_id of
             None \<Rightarrow> False
           | Some session \<Rightarrow> status_of session \<notin> TERMINAL_STATES)
       then Inr (None, None) else
       rbind (active_cleanup_lease_locked m session_id t_lease) (\<lambda>active.
       if active \<noteq> None then Inr (None, None) else
       rbind (validated_now t_now) (\<lambda>now.
       rbind (validated_derived_timestamp now (JFloat (lease_offset lease_seconds))) (\<lambda>expires_at.
       Inr (Some uuid,
            Some (put_lease m session_id
              [(''lease_id'', JStr uuid),
               (''scope'', JStr ''orphan''),
               (''resource_id'', JStr resource_id),
               (''resource_kind'', JStr resource_kind),
               (''created_at'', JTime now),
               (''expires_at'', JTime expires_at)]))))))"

definition orphan_cleanup_still_owned ::
  "string \<Rightarrow> string \<Rightarrow> pyfloat \<Rightarrow> authority \<Rightarrow> (err + bool) \<times> authority" where
  "orphan_cleanup_still_owned session_id lease_id t_lease =
     state_lock (\<lambda>m.
       rbind (active_cleanup_lease_locked m session_id t_lease) (\<lambda>active.
       Inr (case active of
              None \<Rightarrow> False
            | Some lease \<Rightarrow>
                dget lease ''lease_id'' = JStr lease_id \<and>
                dget_or lease ''scope'' (JStr ''orphan'') = JStr ''orphan'' \<and>
                (case map_of (sessions m) session_id of
                   None \<Rightarrow> True
                 | Some session \<Rightarrow> status_of session \<in> TERMINAL_STATES),
            None)))"

definition release_orphan_cleanup ::
  "string \<Rightarrow> string \<Rightarrow> authority \<Rightarrow> (err + unit) \<times> authority" where
  "release_orphan_cleanup session_id lease_id =
     state_lock (\<lambda>m.
       case map_of (leases m) session_id of
         None \<Rightarrow> Inr ((), None)
       | Some lease \<Rightarrow>
           if dget lease ''lease_id'' \<noteq> JStr lease_id then Inr ((), None)
           else Inr ((), Some (drop_lease m session_id)))"

definition claim_session_cleanup ::
  "string \<Rightarrow> string list \<Rightarrow> pyfloat \<Rightarrow> string \<Rightarrow> pyfloat \<Rightarrow> pyfloat
    \<Rightarrow> authority \<Rightarrow> (err + string option) \<times> authority" where
  "claim_session_cleanup session_id expected_states lease_seconds uuid t_lease t_now =
     (let allowed = (if expected_states = [] then [''STOPPING'', ''FAILED_CLEANUP''] else expected_states) in
      state_lock (\<lambda>m.
        if (case map_of (sessions m) session_id of
              None \<Rightarrow> True
            | Some session \<Rightarrow> status_of session \<notin> set allowed)
        then Inr (None, None) else
        rbind (active_cleanup_lease_locked m session_id t_lease) (\<lambda>active.
        if active \<noteq> None then Inr (None, None) else
        rbind (validated_now t_now) (\<lambda>now.
        rbind (validated_derived_timestamp now (JFloat (lease_offset lease_seconds))) (\<lambda>expires_at.
        Inr (Some uuid,
             Some (put_lease m session_id
               [(''lease_id'', JStr uuid),
                (''scope'', JStr ''session''),
                (''expected_states'', JList (map JStr (sort (remdups allowed)))),
                (''created_at'', JTime now),
                (''expires_at'', JTime expires_at)])))))))"

definition session_cleanup_still_owned ::
  "string \<Rightarrow> string \<Rightarrow> pyfloat \<Rightarrow> authority \<Rightarrow> (err + bool) \<times> authority" where
  "session_cleanup_still_owned session_id lease_id t_lease =
     state_lock (\<lambda>m.
       rbind (active_cleanup_lease_locked m session_id t_lease) (\<lambda>active.
       Inr (case (map_of (sessions m) session_id, active) of
              (Some session, Some lease) \<Rightarrow>
                dget lease ''lease_id'' = JStr lease_id \<and>
                dget lease ''scope'' = JStr ''session'' \<and>
                (case as_list (dget_or lease ''expected_states'' (JList [])) of
                   None \<Rightarrow> False
                 | Some expected_states \<Rightarrow> JStr (status_of session) \<in> set expected_states)
            | _ \<Rightarrow> False,
            None)))"

definition release_session_cleanup ::
  "string \<Rightarrow> string \<Rightarrow> authority \<Rightarrow> (err + unit) \<times> authority" where
  "release_session_cleanup session_id lease_id =
     state_lock (\<lambda>m.
       case map_of (leases m) session_id of
         None \<Rightarrow> Inr ((), None)
       | Some lease \<Rightarrow>
           if dget lease ''lease_id'' \<noteq> JStr lease_id \<or> dget lease ''scope'' \<noteq> JStr ''session''
           then Inr ((), None)
           else Inr ((), Some (drop_lease m session_id)))"

section \<open>Creation and capacity\<close>

definition create ::
  "string option \<Rightarrow> string \<Rightarrow> string \<Rightarrow> string \<Rightarrow> json \<Rightarrow> string \<Rightarrow> pyfloat \<Rightarrow> pyfloat
    \<Rightarrow> authority \<Rightarrow> (err + dict) \<times> authority" where
  "create session_id user_id environment egress_mode absolute_deadline_hours uuid t_new t_lease =
     state_lock (\<lambda>m.
       rbind (new_session uuid user_id environment egress_mode absolute_deadline_hours t_new) (\<lambda>session.
       case session_id of
         None \<Rightarrow> Inr (session, Some (put_session m uuid session))
       | Some sid \<Rightarrow>
           rbind (reject_active_cleanup_lease_locked m sid t_lease) (\<lambda>_.
           case map_of (sessions m) sid of
             Some existing \<Rightarrow> Inr (existing, None)
           | None \<Rightarrow>
               let session = dset session ''session_id'' (JStr sid)
               in Inr (session, Some (put_session m sid session)))))"

text \<open>The Sessions of a user, other than this one, that hold a slot.\<close>

definition holds_slot :: "dict \<Rightarrow> bool" where
  "holds_slot session =
     (truthy (dget session ''entitlement_reserved'') \<or> status_of session \<in> CAPACITY_STATES)"

definition occupied :: "store_state \<Rightarrow> string \<Rightarrow> string \<Rightarrow> nat" where
  "occupied m session_id user_id =
     length (filter (\<lambda>p. fst p \<noteq> session_id \<and> dget (snd p) ''user_id'' = JStr user_id \<and> holds_slot (snd p))
       (sessions m))"

definition reserve_prepare_slot ::
  "string \<Rightarrow> string \<Rightarrow> string \<Rightarrow> string \<Rightarrow> int \<Rightarrow> string \<Rightarrow> pyfloat \<Rightarrow> pyfloat \<Rightarrow> pyfloat
    \<Rightarrow> authority \<Rightarrow> (err + dict) \<times> authority" where
  "reserve_prepare_slot session_id user_id environment entitlement_id max_concurrent_sessions uuid
     t_lease t_new t_upd fs =
     (if max_concurrent_sessions < 1 then (Inl EntitlementExceeded, fs) else
      state_lock (\<lambda>m.
        rbind (reject_active_cleanup_lease_locked m session_id t_lease) (\<lambda>_.
        let reserve = (\<lambda>session.
              rbind (validated_now t_upd) (\<lambda>updated_at.
              let session = dset session ''entitlement_id'' (JStr entitlement_id);
                  session = dset session ''entitlement_reserved'' (JBool True);
                  session = dset session ''updated_at'' (JTime updated_at)
              in Inr (session, Some (put_session m session_id session))));
            count = int (occupied m session_id user_id)
        in
        case map_of (sessions m) session_id of
          Some existing \<Rightarrow>
            if dget existing ''user_id'' \<noteq> JStr user_id then Inl KeyError else
            if status_of existing \<in> {''FINISHED'', ''FAILED''} then Inr (existing, None) else
            if holds_slot existing then reserve existing else
            if max_concurrent_sessions \<le> count then Inl EntitlementExceeded else
            reserve existing
        | None \<Rightarrow>
            if max_concurrent_sessions \<le> count then Inl EntitlementExceeded else
            rbind (new_session uuid user_id environment ''DIRECT_PUSH'' (JTime 12) t_new) (\<lambda>session.
            reserve (dset session ''session_id'' (JStr session_id))))) fs)"

definition prepare_request :: "string \<Rightarrow> string option \<Rightarrow> string \<Rightarrow> dict" where
  "prepare_request environment destination_id egress_mode =
     [(''environment'', JStr environment),
      (''destination_id'', jopt destination_id),
      (''egress_mode'', JStr egress_mode)]"

text \<open>The request a Session is bound to; legacy records have it in their own fields.\<close>

definition configured_request :: "dict \<Rightarrow> dict" where
  "configured_request existing =
     (case as_obj (dget existing ''prepare_request'') of
        Some configured \<Rightarrow> configured
      | None \<Rightarrow>
          [(''environment'', dget existing ''environment''),
           (''destination_id'', dget existing ''destination_id''),
           (''egress_mode'', dget_or existing ''egress_mode'' (JStr ''DIRECT_PUSH''))])"

text \<open>The binding of a Session to its accepted prepare request.\<close>

definition bound_session ::
  "string \<Rightarrow> string option \<Rightarrow> string \<Rightarrow> string \<Rightarrow> string \<Rightarrow> rat \<Rightarrow> dict \<Rightarrow> dict" where
  "bound_session environment destination_id egress_mode idempotency_key entitlement_id updated_at session =
     dupdate session
       [(''environment'', JStr environment),
        (''destination_id'', jopt destination_id),
        (''egress_mode'', JStr egress_mode),
        (''prepare_request'', JObj (prepare_request environment destination_id egress_mode)),
        (''idempotency_key'', JStr idempotency_key),
        (''entitlement_id'', JStr entitlement_id),
        (''entitlement_reserved'', JBool True),
        (''updated_at'', JTime updated_at)]"

definition begin_prepare ::
  "string \<Rightarrow> string \<Rightarrow> string \<Rightarrow> string \<Rightarrow> int \<Rightarrow> string option \<Rightarrow> string \<Rightarrow> string \<Rightarrow> string
    \<Rightarrow> pyfloat \<Rightarrow> pyfloat \<Rightarrow> pyfloat \<Rightarrow> authority \<Rightarrow> (err + dict \<times> bool) \<times> authority" where
  "begin_prepare session_id user_id environment entitlement_id max_concurrent_sessions destination_id
     egress_mode idempotency_key uuid t_lease t_new t_upd fs =
     (if max_concurrent_sessions < 1 then (Inl EntitlementExceeded, fs) else
      let request = prepare_request environment destination_id egress_mode in
      state_lock (\<lambda>m.
        rbind (reject_active_cleanup_lease_locked m session_id t_lease) (\<lambda>_.
        let count = int (occupied m session_id user_id);
            bind = (\<lambda>session.
              rbind (validated_now t_upd) (\<lambda>updated_at.
              let session = bound_session environment destination_id egress_mode idempotency_key
                    entitlement_id updated_at session
              in Inr ((session, False), Some (put_session m session_id session))))
        in
        case map_of (sessions m) session_id of
          Some existing \<Rightarrow>
            if dget existing ''user_id'' \<noteq> JStr user_id then Inl KeyError else
            if status_of existing \<in> {''FINISHED'', ''FAILED''} then Inl InvalidTransition else
            if dget existing ''idempotency_key'' \<noteq> JNull then
              if \<not> py_eq (JObj (configured_request existing)) (JObj request) then Inl InvalidTransition else
              if dget existing ''idempotency_key'' \<noteq> JStr idempotency_key then Inl InvalidTransition else
              Inr ((existing, True), None)
            else
            if max_concurrent_sessions \<le> count then Inl EntitlementExceeded else
            bind existing
        | None \<Rightarrow>
            if max_concurrent_sessions \<le> count then Inl EntitlementExceeded else
            rbind (new_session uuid user_id environment egress_mode (JTime 12) t_new) (\<lambda>session.
            bind (dset session ''session_id'' (JStr session_id))))) fs)"

definition get_prepare_replay ::
  "string \<Rightarrow> string \<Rightarrow> string \<Rightarrow> string option \<Rightarrow> string \<Rightarrow> string
    \<Rightarrow> authority \<Rightarrow> (err + dict option) \<times> authority" where
  "get_prepare_replay session_id user_id environment destination_id egress_mode idempotency_key =
     state_lock (\<lambda>m.
       case map_of (sessions m) session_id of
         None \<Rightarrow> Inr (None, None)
       | Some existing \<Rightarrow>
           if dget existing ''user_id'' \<noteq> JStr user_id then Inl KeyError else
           if dget existing ''idempotency_key'' \<noteq> JStr idempotency_key then Inr (None, None) else
           if \<not> py_eq (JObj (configured_request existing))
                 (JObj (prepare_request environment destination_id egress_mode))
           then Inl InvalidTransition else
           Inr (Some existing, None))"

section \<open>Reads\<close>

text \<open>\<open>get\<close>\<close>

definition get_session :: "string \<Rightarrow> authority \<Rightarrow> (err + dict option) \<times> authority" where
  "get_session session_id = state_lock (\<lambda>m. Inr (map_of (sessions m) session_id, None))"

text \<open>\<open>list\<close>\<close>

definition list_sessions :: "authority \<Rightarrow> (err + dict list) \<times> authority" where
  "list_sessions = state_lock (\<lambda>m. Inr (map snd (sessions m), None))"

definition authoritative_snapshot :: "authority \<Rightarrow> (err + dict list) \<times> authority" where
  "authoritative_snapshot =
     state_lock (\<lambda>m.
       if \<not> authoritative m then Inl SessionStateError else Inr (map snd (sessions m), None))"

definition find_by_provider_server_id ::
  "string \<Rightarrow> string set option \<Rightarrow> authority \<Rightarrow> (err + dict list) \<times> authority" where
  "find_by_provider_server_id provider_server_id states =
     state_lock (\<lambda>m.
       Inr (filter (\<lambda>session.
              dget session ''provider_server_id'' = JStr provider_server_id \<and>
              (case states of None \<Rightarrow> True | Some s \<Rightarrow> status_of session \<in> s))
            (map snd (sessions m)), None))"

definition sessions_in_states :: "string set \<Rightarrow> authority \<Rightarrow> (err + dict list) \<times> authority" where
  "sessions_in_states states =
     state_lock (\<lambda>m. Inr (filter (\<lambda>session. status_of session \<in> states) (map snd (sessions m)), None))"

definition is_authoritative :: "authority \<Rightarrow> (err + bool) \<times> authority" where
  "is_authoritative = state_lock (\<lambda>m. Inr (authoritative m, None))"

section \<open>Updates and the provisioning lease\<close>

text \<open>\<open>update\<close>\<close>

definition update_session ::
  "string \<Rightarrow> dict \<Rightarrow> pyfloat \<Rightarrow> authority \<Rightarrow> (err + dict) \<times> authority" where
  "update_session session_id changes t_upd fs =
     (case validate_timestamp_changes changes of
        Inl e \<Rightarrow> (Inl e, fs)
      | Inr _ \<Rightarrow>
          state_lock (\<lambda>m.
            rbind (from_some KeyError (map_of (sessions m) session_id)) (\<lambda>session.
            rbind (validated_now t_upd) (\<lambda>updated_at.
            let session = dset (dupdate session changes) ''updated_at'' (JTime updated_at)
            in Inr (session, Some (put_session m session_id session))))) fs)"

definition claim_provisioning ::
  "string \<Rightarrow> string \<Rightarrow> json \<Rightarrow> pyfloat \<Rightarrow> pyfloat \<Rightarrow> authority \<Rightarrow> (err + dict) \<times> authority" where
  "claim_provisioning session_id operation_id started_at t_lease t_upd fs =
     (case validated_timestamp started_at of
        Inl e \<Rightarrow> (Inl e, fs)
      | Inr started \<Rightarrow>
          state_lock (\<lambda>m.
            rbind (reject_active_cleanup_lease_locked m session_id t_lease) (\<lambda>_.
            rbind (from_some KeyError (map_of (sessions m) session_id)) (\<lambda>session.
            let current = status_of session;
                existing = dget session ''provisioning_operation_id''
            in
            if current \<notin> {''STOPPED'', ''PROVISIONING'', ''BOOTSTRAPPING''} then Inl InvalidTransition else
            if truthy existing \<and> existing \<noteq> JStr operation_id then Inl ProvisioningInProgress else
            rbind (validated_now t_upd) (\<lambda>updated_at.
            let session = dupdate session
                  [(''status'', JStr ''PROVISIONING''),
                   (''provisioning_operation_id'', JStr operation_id),
                   (''provisioning_in_progress'', JBool True),
                   (''provisioning_cancel_requested'', JBool False),
                   (''provisioning_started_at'', JTime started),
                   (''cleanup_pending'', JBool False),
                   (''updated_at'', JTime updated_at)]
            in Inr (session, Some (put_session m session_id session)))))) fs)"

definition provisioning_checkpoint ::
  "string \<Rightarrow> string \<Rightarrow> string option \<Rightarrow> bool \<Rightarrow> dict \<Rightarrow> pyfloat
    \<Rightarrow> authority \<Rightarrow> (err + dict) \<times> authority" where
  "provisioning_checkpoint session_id operation_id next_state completes changes t_upd fs =
     (case validate_timestamp_changes changes of
        Inl e \<Rightarrow> (Inl e, fs)
      | Inr _ \<Rightarrow>
          state_lock (\<lambda>m.
            rbind (from_some KeyError (map_of (sessions m) session_id)) (\<lambda>session.
            if dget session ''provisioning_operation_id'' \<noteq> JStr operation_id
            then Inl ProvisioningInProgress else
            rbind (validated_now t_upd) (\<lambda>updated_at.
            let session = dupdate session changes;
                current = status_of session;
                cancelled = (truthy (dget session ''provisioning_cancel_requested'') \<or>
                  current \<in> {''STOPPING'', ''FAILED_CLEANUP'', ''FINISHED'', ''FAILED''})
            in
            rbind (case next_state of
                     None \<Rightarrow> Inr session
                   | Some new_state \<Rightarrow>
                       if cancelled then Inr session else
                       if new_state \<notin> transitions_from current then Inl InvalidTransition else
                       Inr (clear_recovery_candidate (dset session ''status'' (JStr new_state)))) (\<lambda>session.
            let session = (if completes \<and> \<not> cancelled then
                  dupdate session
                    [(''provisioning_operation_id'', JNull),
                     (''provisioning_in_progress'', JBool False),
                     (''provisioning_cancel_requested'', JBool False)]
                  else session);
                session = dset session ''updated_at'' (JTime updated_at)
            in Inr (session, Some (put_session m session_id session)))))) fs)"

section \<open>Stopping\<close>

definition stopping_record :: "dict \<Rightarrow> rat \<Rightarrow> dict" where
  "stopping_record session updated_at =
     clear_recovery_candidate (dupdate session
       [(''status'', JStr ''STOPPING''),
        (''provisioning_cancel_requested'', JBool True),
        (''cleanup_pending'', JBool True),
        (''updated_at'', JTime updated_at)])"

definition request_stop :: "string \<Rightarrow> pyfloat \<Rightarrow> authority \<Rightarrow> (err + dict) \<times> authority" where
  "request_stop session_id t_upd =
     state_lock (\<lambda>m.
       rbind (from_some KeyError (map_of (sessions m) session_id)) (\<lambda>session.
       let current = status_of session in
       if current \<in> TERMINAL_STATES then Inr (session, None) else
       if current \<notin> ACTIVE_STATES \<union> {''STOPPING'', ''FAILED_CLEANUP''} then Inl InvalidTransition else
       rbind (validated_now t_upd) (\<lambda>updated_at.
       let session = stopping_record session updated_at
       in Inr (session, Some (put_session m session_id session)))))"

definition request_stop_if_current ::
  "string \<Rightarrow> string \<Rightarrow> dict \<Rightarrow> pyfloat \<Rightarrow> authority \<Rightarrow> (err + dict option) \<times> authority" where
  "request_stop_if_current session_id expected_status expected_fields t_upd =
     state_lock (\<lambda>m.
       case map_of (sessions m) session_id of
         None \<Rightarrow> Inr (None, None)
       | Some session \<Rightarrow>
           if status_of session \<noteq> expected_status \<or> \<not> matches_fields session expected_fields
           then Inr (None, None) else
           rbind (validated_now t_upd) (\<lambda>updated_at.
           let session = stopping_record session updated_at
           in Inr (Some session, Some (put_session m session_id session))))"

section \<open>Events and media control\<close>

text \<open>The clock is read only when the caller gives no time.\<close>

definition effective_time :: "json option \<Rightarrow> pyfloat \<Rightarrow> err + rat" where
  "effective_time occurred_at clock =
     (case occurred_at of None \<Rightarrow> validated_now clock | Some v \<Rightarrow> validated_timestamp v)"

definition append_event ::
  "string \<Rightarrow> string \<Rightarrow> string option \<Rightarrow> dict \<Rightarrow> string \<Rightarrow> json option \<Rightarrow> pyfloat
    \<Rightarrow> authority \<Rightarrow> (err + dict) \<times> authority" where
  "append_event session_id event_type reason_code payload origin occurred_at clock fs =
     (case effective_time occurred_at clock of
        Inl e \<Rightarrow> (Inl e, fs)
      | Inr current \<Rightarrow>
          state_lock (\<lambda>m.
            rbind (from_some KeyError (map_of (sessions m) session_id)) (\<lambda>session.
            rbind (append_event_locked session event_type reason_code payload origin current) (\<lambda>r.
            let session = dset (snd r) ''updated_at'' (JTime current)
            in Inr (fst r, Some (put_session m session_id session))))) fs)"

definition audio_response :: "dict \<Rightarrow> dict" where
  "audio_response audio =
     [(''desired_mode'', dget audio ''desired_mode''),
      (''actual_mode'', dget audio ''actual_mode''),
      (''version'', dget audio ''version''),
      (''command_id'', dget audio ''command_id'')]"

text \<open>The fields the code subscripts: a missing one raises KeyError.\<close>

definition audio_fields :: "string list" where
  "audio_fields = [''desired_mode'', ''actual_mode'', ''version'', ''command_id'', ''idempotency_key'']"

text \<open>The media-control record and its audio part, with defaults for a legacy Session.\<close>

definition audio_state :: "dict \<Rightarrow> rat \<Rightarrow> dict \<times> dict" where
  "audio_state session current =
     (let media_control = (case as_obj (dget session ''media_control'') of
            Some mc \<Rightarrow> mc
          | None \<Rightarrow> obj_of (default_media_control current))
      in case as_obj (dget media_control ''audio'') of
           Some audio \<Rightarrow> (media_control, audio)
         | None \<Rightarrow> (media_control, obj_of (dget (obj_of (default_media_control current)) ''audio'')))"

definition audio_command :: "dict \<Rightarrow> string \<Rightarrow> int \<Rightarrow> string \<Rightarrow> string \<Rightarrow> rat \<Rightarrow> dict" where
  "audio_command audio mode version command_id idempotency_key current =
     (let audio = dupdate audio
            [(''desired_mode'', JStr mode),
             (''version'', JInt (version + 1)),
             (''command_id'', JStr command_id),
             (''idempotency_key'', JStr idempotency_key),
             (''updated_at'', JTime current)]
      in if dget audio ''actual_mode'' \<noteq> JStr mode then dset audio ''actual_mode'' (JStr ''APPLYING'') else audio)"

text \<open>
  The part of \<open>set_audio_desired\<close> that works on the Session found: the response and, when a command was
  accepted, the Session to store.
\<close>

definition accept_audio_command ::
  "dict \<Rightarrow> string \<Rightarrow> int \<Rightarrow> string \<Rightarrow> string \<Rightarrow> string \<Rightarrow> rat \<Rightarrow> err + (dict \<times> dict option)" where
  "accept_audio_command session mode expected_version idempotency_key operator uuid current =
     (if status_of session \<in> TERMINAL_STATES then Inl MediaControlNotRunning else
      let (media_control, audio) = audio_state session current in
      if \<not> list_all (dhas audio) audio_fields then Inl KeyError else
      if dget audio ''idempotency_key'' = JStr idempotency_key then
        if dget audio ''desired_mode'' \<noteq> JStr mode then Inl MediaControlIdempotencyConflict
        else Inr (audio_response audio, None)
      else
      if dget audio ''version'' \<noteq> JInt expected_version
      then Inl (MediaControlVersionConflict (audio_response audio)) else
      let audio = audio_command audio mode expected_version uuid idempotency_key current;
          session = dset session ''media_control'' (JObj (dset media_control ''audio'' (JObj audio)));
          session = dset session ''updated_at'' (JTime current)
      in
      rbind (append_event_locked session ''media_control.audio.requested'' None
               [(''command_id'', dget audio ''command_id''),
                (''desired_mode'', JStr mode),
                (''version'', dget audio ''version''),
                (''operator_user_id'', JStr operator)]
               ''control-api'' current) (\<lambda>r.
      Inr (audio_response audio, Some (snd r))))"

definition set_audio_desired ::
  "string \<Rightarrow> string \<Rightarrow> int \<Rightarrow> string \<Rightarrow> string \<Rightarrow> json option \<Rightarrow> string \<Rightarrow> pyfloat
    \<Rightarrow> authority \<Rightarrow> (err + dict) \<times> authority" where
  "set_audio_desired session_id mode expected_version idempotency_key operator occurred_at uuid clock fs =
     (if mode \<notin> MEDIA_CONTROL_AUDIO_DESIRED_MODES then (Inl ValueError, fs) else
      if expected_version < 0 then (Inl ValueError, fs) else
      if idempotency_key = [] \<or> 200 < length idempotency_key then (Inl ValueError, fs) else
      (case effective_time occurred_at clock of
         Inl e \<Rightarrow> (Inl e, fs)
       | Inr current \<Rightarrow>
           state_lock (\<lambda>m.
             rbind (from_some KeyError (map_of (sessions m) session_id)) (\<lambda>session.
             rbind (accept_audio_command session mode expected_version idempotency_key operator uuid current) (\<lambda>r.
             Inr (fst r, map_option (put_session m session_id) (snd r))))) fs))"

section \<open>Nodes\<close>

definition bind_node ::
  "string \<Rightarrow> string \<Rightarrow> string \<Rightarrow> string \<Rightarrow> json option \<Rightarrow> pyfloat
    \<Rightarrow> authority \<Rightarrow> (err + dict) \<times> authority" where
  "bind_node session_id node_id boot_id provider_server_id registered_at clock fs =
     (case effective_time registered_at clock of
        Inl e \<Rightarrow> (Inl e, fs)
      | Inr current \<Rightarrow>
          state_lock (\<lambda>m.
            rbind (from_some KeyError (map_of (sessions m) session_id)) (\<lambda>session.
            if dget session ''provider_server_id'' \<noteq> JStr provider_server_id then Inl RuntimeError else
            if status_of session \<notin> ACTIVE_STATES then Inl RuntimeError else
            let session = dupdate session
                  [(''node_id'', JStr node_id),
                   (''node_boot_id'', JStr boot_id),
                   (''node_registered_at'', JTime current),
                   (''node_last_heartbeat_at'', JNull),
                   (''updated_at'', JTime current)]
            in Inr (session, Some (put_session m session_id session)))) fs)"

definition record_node_heartbeat ::
  "string \<Rightarrow> string \<Rightarrow> string \<Rightarrow> json \<Rightarrow> bool \<Rightarrow> authority \<Rightarrow> (err + bool) \<times> authority" where
  "record_node_heartbeat session_id node_id boot_id observed_at node_ready fs =
     (case validated_timestamp observed_at of
        Inl e \<Rightarrow> (Inl e, fs)
      | Inr observed \<Rightarrow>
          state_lock (\<lambda>m.
            case map_of (sessions m) session_id of
              None \<Rightarrow> Inr (False, None)
            | Some session \<Rightarrow>
                if status_of session \<notin> ACTIVE_STATES \<or>
                   dget session ''node_id'' \<noteq> JStr node_id \<or>
                   dget session ''node_boot_id'' \<noteq> JStr boot_id
                then Inr (False, None) else
                let previous = dget session ''node_last_heartbeat_at'' in
                if (if previous = JNull then False
                    else case validated_timestamp previous of Inl _ \<Rightarrow> True | Inr p \<Rightarrow> observed < p)
                then Inr (False, None) else
                let session = dset session ''node_last_heartbeat_at'' (JTime observed);
                    session = (if node_ready \<and> status_of session = ''BOOTSTRAPPING'' then
                      dset (dset session ''status'' (JStr ''READY_WAIT_INGEST'')) ''ready_at'' (JTime observed)
                      else session)
                in Inr (True, Some (put_session m session_id session))) fs)"

section \<open>Conditional updates\<close>

text \<open>The audit event a conditional update may carry; \<open>None\<close> fields take the code's defaults.\<close>

record event_request =
  er_event_type :: string
  er_reason_code :: "string option"
  er_payload :: dict
  er_origin :: string
  er_occurred_at :: "json option"

definition update_if_current ::
  "string \<Rightarrow> string \<Rightarrow> dict \<Rightarrow> event_request option \<Rightarrow> dict \<Rightarrow> pyfloat
    \<Rightarrow> authority \<Rightarrow> (err + dict option) \<times> authority" where
  "update_if_current session_id expected_status expected_fields event changes t_upd fs =
     (case validate_timestamp_changes changes of
        Inl e \<Rightarrow> (Inl e, fs)
      | Inr _ \<Rightarrow>
          state_lock (\<lambda>m.
            case map_of (sessions m) session_id of
              None \<Rightarrow> Inr (None, None)
            | Some session \<Rightarrow>
                if status_of session \<noteq> expected_status \<or> \<not> matches_fields session expected_fields
                then Inr (None, None) else
                rbind (validated_now t_upd) (\<lambda>current.
                case event of
                  None \<Rightarrow>
                    let session = dset (dupdate session changes) ''updated_at'' (JTime current)
                    in Inr (Some session, Some (put_session m session_id session))
                | Some ev \<Rightarrow>
                    rbind (validated_timestamp
                             (case er_occurred_at ev of None \<Rightarrow> JTime current | Some v \<Rightarrow> v)) (\<lambda>occurred_at.
                    rbind (append_event_locked (dupdate session changes) (er_event_type ev)
                             (er_reason_code ev) (er_payload ev) (er_origin ev) occurred_at) (\<lambda>r.
                    let session = dset (snd r) ''updated_at'' (JTime occurred_at)
                    in Inr (Some session, Some (put_session m session_id session)))))) fs)"

section \<open>Ingest observations\<close>

text \<open>\<open>IngestObservationRequest.model_dump()\<close>, as the heartbeat endpoint passes it on.\<close>

record ingest_observation =
  io_status :: string
  io_path :: string
  io_online :: bool
  io_source_type :: "string option"
  io_source_id :: "string option"
  io_bitrate_bps :: json
  io_max_bitrate_bps :: json
  io_tracks :: json
  io_quality :: json
  io_reasons :: "string list"
  io_warnings :: "string list"
  io_enforced :: bool
  io_observed_at :: json

definition ingest_payload :: "string \<Rightarrow> ingest_observation \<Rightarrow> dict" where
  "ingest_payload node_id ob =
     [(''node_id'', JStr node_id),
      (''status'', JStr (io_status ob)),
      (''path'', JStr (io_path ob)),
      (''online'', JBool (io_online ob)),
      (''source_type'', jopt (io_source_type ob)),
      (''source_id'', jopt (io_source_id ob)),
      (''bitrate_bps'', io_bitrate_bps ob),
      (''max_bitrate_bps'', io_max_bitrate_bps ob),
      (''tracks'', io_tracks ob),
      (''quality'', io_quality ob),
      (''reasons'', JList (map JStr (io_reasons ob))),
      (''warnings'', JList (map JStr (io_warnings ob))),
      (''enforced'', JBool (io_enforced ob)),
      (''observed_at'', io_observed_at ob)]"

primrec append_ingest_events ::
  "dict \<Rightarrow> string list \<Rightarrow> string list \<Rightarrow> dict \<Rightarrow> rat \<Rightarrow> err + dict" where
  "append_ingest_events session reasons [] payload current = Inr session"
| "append_ingest_events session reasons (event_type # event_types) payload current =
     rbind (append_event_locked session event_type
              (if event_type \<in> {''ingest.rejected'', ''ingest.degraded''} \<and> reasons \<noteq> []
               then Some (take 100 (hd reasons)) else None)
              payload ''node-agent'' current) (\<lambda>r.
     append_ingest_events (snd r) reasons event_types payload current)"

text \<open>\<open>_recovery_candidate_ready\<close>: the answer and the Session with its candidate noted.\<close>

definition recovery_candidate_ready :: "rat \<Rightarrow> dict \<Rightarrow> json \<Rightarrow> rat \<Rightarrow> bool \<times> dict" where
  "recovery_candidate_ready recovery_stable_seconds session source_id current =
     (let raw = dget session ''recovery_candidate_since'';
          candidate_since = (if raw = JNull then None
            else case validated_timestamp raw of Inl _ \<Rightarrow> None | Inr t \<Rightarrow> Some t);
          restart = (recovery_stable_seconds \<le> 0,
            dset (dset session ''recovery_candidate_since'' (JTime current))
              ''recovery_candidate_source_id'' source_id)
      in case candidate_since of
           None \<Rightarrow> restart
         | Some since \<Rightarrow>
             if \<not> py_eq (dget session ''recovery_candidate_source_id'') source_id \<or> current < since then restart
             else (recovery_stable_seconds \<le> current - since, session))"

text \<open>
  The lifecycle decision: the Session (its recovery candidate may have changed) and, when there is a
  target, the target state, the lifecycle event and its reason.
\<close>

definition ingest_decision ::
  "rat \<Rightarrow> dict \<Rightarrow> ingest_observation \<Rightarrow> rat \<Rightarrow> dict \<times> (string \<times> string \<times> string option) option" where
  "ingest_decision recovery_stable_seconds session ob current =
     (let online = io_online ob;
          ingest_status = io_status ob;
          state = status_of session;
          reasons = map (take 100) (io_reasons ob);
          degraded_reason = (case reasons of [] \<Rightarrow> None | r # _ \<Rightarrow> Some r);
          unusable_reason = List.find (\<lambda>r. r \<in> UNUSABLE_MEDIA_REASONS) reasons;
          format_changed = (\<exists>r \<in> set reasons. r \<in> FORMAT_REJECTION_REASONS)
      in
      if state = ''HOLDING'' then
        let recovery =
          (if online \<and> ingest_status \<in> {''ACCEPTED'', ''WARNING''} then Some (''LIVE'', None)
           else if online \<and> ingest_status = ''DEGRADED'' \<and> unusable_reason = None
           then Some (''DEGRADED'', degraded_reason)
           else None)
        in (case recovery of
              None \<Rightarrow> (clear_recovery_candidate session, None)
            | Some (target, reason) \<Rightarrow>
                (case recovery_candidate_ready recovery_stable_seconds session (jopt (io_source_id ob)) current of
                   (ready, session) \<Rightarrow>
                     (session, if ready then Some (target, ''session.recovered'', reason) else None)))
      else if online \<and> ingest_status = ''DEGRADED'' \<and> state \<in> {''READY_WAIT_INGEST'', ''LIVE'', ''DEGRADED''} then
        (session,
         if unusable_reason \<noteq> None \<and> state \<in> {''LIVE'', ''DEGRADED''}
         then Some (''HOLDING'', ''session.holding'', unusable_reason)
         else if unusable_reason = None then Some (''DEGRADED'', ''session.degraded'', degraded_reason)
         else None)
      else if online \<and> ingest_status = ''REJECTED'' \<and> state \<in> {''LIVE'', ''DEGRADED''} then
        (session,
         Some (''HOLDING'', ''session.holding'',
           if format_changed then Some ''FORMAT_CHANGED''
           else if degraded_reason \<noteq> None \<and> degraded_reason \<noteq> Some [] then degraded_reason
           else Some ''INGEST_REJECTED''))
      else if online \<and> ingest_status \<in> {''ACCEPTED'', ''WARNING''} \<and> state \<in> {''READY_WAIT_INGEST'', ''DEGRADED''} then
        (session,
         Some (''LIVE'',
           if state = ''READY_WAIT_INGEST'' then ''session.live'' else ''session.recovered'', None))
      else if \<not> online \<and> state \<in> {''LIVE'', ''DEGRADED''} then
        (session, Some (''HOLDING'', ''session.holding'', Some ''INGEST_DISCONNECTED''))
      else (session, None))"

text \<open>Entering \<open>target_state\<close>: timestamps, then the lifecycle event.\<close>

definition enter_ingest_state ::
  "dict \<Rightarrow> string \<Rightarrow> bool \<Rightarrow> string \<Rightarrow> string \<Rightarrow> string option \<Rightarrow> dict \<Rightarrow> rat \<Rightarrow> err + dict" where
  "enter_ingest_state session state online target_state lifecycle_event lifecycle_reason payload current =
     (let session = clear_recovery_candidate (dset session ''status'' (JStr target_state));
          session =
            (if target_state = ''HOLDING'' then dset session ''last_ingest_at'' (JTime current)
             else if online then
               let session = (if dget session ''first_ingest_at'' = JNull
                     then dset session ''first_ingest_at'' (JTime current) else session)
               in dset (dset session ''last_ingest_at'' (JTime current)) ''hold_deadline_at'' JNull
             else dset session ''last_ingest_at'' (JTime current));
          lifecycle_payload = dset (dset payload ''from_state'' (JStr state)) ''to_state'' (JStr target_state)
      in rbind (append_event_locked session lifecycle_event lifecycle_reason lifecycle_payload
                  ''node-agent'' current) (\<lambda>r. Inr (snd r)))"

definition settle_ingest_state ::
  "rat \<Rightarrow> dict \<Rightarrow> ingest_observation \<Rightarrow> dict \<Rightarrow> rat \<Rightarrow> err + dict" where
  "settle_ingest_state recovery_stable_seconds session ob payload current =
     (let state = status_of session;
          (session, decision) = ingest_decision recovery_stable_seconds session ob current;
          stay = (if state \<noteq> ''HOLDING'' then clear_recovery_candidate session else session)
      in case decision of
           None \<Rightarrow> Inr stay
         | Some (target_state, lifecycle_event, lifecycle_reason) \<Rightarrow>
             if target_state \<noteq> state then
               enter_ingest_state session state (io_online ob) target_state lifecycle_event
                 lifecycle_reason payload current
             else Inr stay)"

definition apply_ingest_observation ::
  "rat \<Rightarrow> string \<Rightarrow> string \<Rightarrow> string list \<Rightarrow> ingest_observation \<Rightarrow> json option \<Rightarrow> pyfloat
    \<Rightarrow> authority \<Rightarrow> (err + dict) \<times> authority" where
  "apply_ingest_observation recovery_stable_seconds session_id node_id event_types ob occurred_at clock fs =
     (case effective_time occurred_at clock of
        Inl e \<Rightarrow> (Inl e, fs)
      | Inr current \<Rightarrow>
          state_lock (\<lambda>m.
            rbind (from_some KeyError (map_of (sessions m) session_id)) (\<lambda>session.
            if dget session ''node_id'' \<notin> {JNull, JStr node_id} then Inl RuntimeError else
            if status_of session \<notin> ACTIVE_STATES then Inr (session, None) else
            let payload = ingest_payload node_id ob in
            rbind (append_ingest_events session (io_reasons ob) event_types payload current) (\<lambda>session.
            rbind (settle_ingest_state recovery_stable_seconds session ob payload current) (\<lambda>session.
            let session = dset (dset session ''node_id'' (JStr node_id)) ''updated_at'' (JTime current)
            in Inr (session, Some (put_session m session_id session)))))) fs)"

section \<open>Relay client observations\<close>

text \<open>\<open>RelayClientObservationRequest.model_dump()\<close>\<close>

record relay_observation =
  ro_status :: string
  ro_connected :: bool
  ro_reader_count :: int
  ro_reason_code :: "string option"
  ro_observed_at :: json

primrec append_relay_events ::
  "dict \<Rightarrow> string list \<Rightarrow> string option \<Rightarrow> dict \<Rightarrow> rat \<Rightarrow> err + dict" where
  "append_relay_events session [] reason_code payload current = Inr session"
| "append_relay_events session (event_type # event_types) reason_code payload current =
     rbind (append_event_locked session event_type
              (case reason_code of None \<Rightarrow> None | Some r \<Rightarrow> if r = [] then None else Some (take 100 r))
              payload ''node-agent'' current) (\<lambda>r.
     append_relay_events (snd r) event_types reason_code payload current)"

definition apply_relay_client_observation ::
  "string \<Rightarrow> string \<Rightarrow> string list \<Rightarrow> relay_observation \<Rightarrow> pyfloat
    \<Rightarrow> authority \<Rightarrow> (err + dict) \<times> authority" where
  "apply_relay_client_observation session_id node_id event_types ob clock fs =
     (case rbind (validated_now clock) (\<lambda>current.
           rbind (if ro_observed_at ob = JNull then Inr JNull
                  else rbind (validated_timestamp (ro_observed_at ob)) (\<lambda>t. Inr (JTime t))) (\<lambda>observed_at.
           Inr (current, observed_at))) of
        Inl e \<Rightarrow> (Inl e, fs)
      | Inr (current, observed_at) \<Rightarrow>
          state_lock (\<lambda>m.
            rbind (from_some KeyError (map_of (sessions m) session_id)) (\<lambda>session.
            if dget session ''node_id'' \<notin> {JNull, JStr node_id} then Inl RuntimeError else
            if status_of session \<notin> ACTIVE_STATES then Inr (session, None) else
            let reader_count = JInt (max 0 (ro_reader_count ob));
                payload =
                  [(''node_id'', JStr node_id),
                   (''status'', JStr (ro_status ob)),
                   (''connected'', JBool (ro_connected ob)),
                   (''reader_count'', reader_count),
                   (''reason_code'', jopt (ro_reason_code ob)),
                   (''observed_at'', observed_at)]
            in
            rbind (append_relay_events session event_types (ro_reason_code ob) payload current) (\<lambda>session.
            let session = dupdate session
                  [(''relay_client_status'', JStr (ro_status ob)),
                   (''relay_client_connected'', JBool (ro_connected ob)),
                   (''relay_client_reader_count'', reader_count),
                   (''relay_client_last_reason'', jopt (ro_reason_code ob)),
                   (''relay_client_updated_at'', observed_at),
                   (''node_id'', JStr node_id),
                   (''updated_at'', JTime current)]
            in Inr (session, Some (put_session m session_id session))))) fs)"

section \<open>Transitions\<close>

definition transitioned_record :: "dict \<Rightarrow> dict \<Rightarrow> string \<Rightarrow> rat \<Rightarrow> dict" where
  "transitioned_record session changes new_state updated_at =
     (let session = clear_recovery_candidate (dset (dupdate session changes) ''status'' (JStr new_state));
          session = (if new_state \<in> {''FINISHED'', ''FAILED''}
            then dset session ''entitlement_reserved'' (JBool False) else session)
      in dset session ''updated_at'' (JTime updated_at))"

definition transition ::
  "string \<Rightarrow> string \<Rightarrow> string set option \<Rightarrow> dict \<Rightarrow> pyfloat
    \<Rightarrow> authority \<Rightarrow> (err + dict) \<times> authority" where
  "transition session_id new_state allow_from changes t_upd fs =
     (if new_state \<notin> SESSION_STATES then (Inl InvalidTransition, fs) else
      case validate_timestamp_changes changes of
        Inl e \<Rightarrow> (Inl e, fs)
      | Inr _ \<Rightarrow>
          state_lock (\<lambda>m.
            rbind (from_some KeyError (map_of (sessions m) session_id)) (\<lambda>session.
            let current = status_of session in
            rbind (case allow_from of
                     Some allowed \<Rightarrow> require InvalidTransition (current \<in> allowed)
                   | None \<Rightarrow> require InvalidTransition (new_state \<in> transitions_from current)) (\<lambda>_.
            rbind (validated_now t_upd) (\<lambda>updated_at.
            let session = transitioned_record session changes new_state updated_at
            in Inr (session, Some (put_session m session_id session)))))) fs)"

definition transition_if_current ::
  "string \<Rightarrow> string \<Rightarrow> string set \<Rightarrow> dict \<Rightarrow> dict \<Rightarrow> pyfloat
    \<Rightarrow> authority \<Rightarrow> (err + dict option) \<times> authority" where
  "transition_if_current session_id new_state allow_from expected_fields changes t_upd fs =
     (if new_state \<notin> SESSION_STATES then (Inl InvalidTransition, fs) else
      case validate_timestamp_changes changes of
        Inl e \<Rightarrow> (Inl e, fs)
      | Inr _ \<Rightarrow>
          state_lock (\<lambda>m.
            case map_of (sessions m) session_id of
              None \<Rightarrow> Inr (None, None)
            | Some session \<Rightarrow>
                if status_of session \<notin> allow_from \<or> \<not> matches_fields session expected_fields
                then Inr (None, None) else
                rbind (validated_now t_upd) (\<lambda>updated_at.
                let session = transitioned_record session changes new_state updated_at
                in Inr (Some session, Some (put_session m session_id session)))) fs)"

end
