(* ===== verification/Session_Events.thy ===== *)
theory Session_Events
  imports Session_Store
begin

text \<open>
  The event log of a Session: numbering, retention, and the fact that appending keeps a record
  acceptable to the validator.
\<close>

section \<open>Status lookups\<close>

lemma status_of_dset [simp]:
  "status_of (dset d k v) =
     (if k = ''status'' then (case as_str v of None \<Rightarrow> [] | Some s \<Rightarrow> s) else status_of d)"
  by (auto simp: status_of_def)

lemma status_of_clear [simp]: "status_of (clear_recovery_candidate d) = status_of d"
  by (simp add: clear_recovery_candidate_def)

lemma status_of_wf:
  assumes "session_wf sid d"
  shows "status_of d \<in> SESSION_STATES \<and> dget d ''status'' = JStr (status_of d)"
  using assms by (auto simp: session_wf_def status_of_def)

lemma status_of_dupdate_notin: "''status'' \<notin> fst ` set cs \<Longrightarrow> status_of (dupdate d cs) = status_of d"
  by (simp add: status_of_def dget_dupdate_notin)

section \<open>Numbering\<close>

lemma max_event_sequence:
  assumes "validate_events p es = Inr q" and "0 \<le> p"
  shows "foldl (\<lambda>maximum event. case as_obj event of None \<Rightarrow> maximum
           | Some ev \<Rightarrow> (case as_int (dget_or ev ''sequence'' (JInt 0)) of None \<Rightarrow> maximum | Some n \<Rightarrow> max maximum n))
         p es = q"
  using assms
proof (induction es arbitrary: p)
  case (Cons e es)
  then obtain r where r: "validate_event p e = Inr r" and rest: "validate_events r es = Inr q"
    by (auto simp: rbind_eq_Inr)
  from r obtain ev where ev: "e = JObj ev" "dget ev ''sequence'' = JInt r" "p < r"
    by (auto simp: validate_event_iff event_wf_def)
  then have "dget_or ev ''sequence'' (JInt 0) = JInt r"
    by (auto simp: dget_def dget_or_def split: option.splits)
  with ev Cons.IH [OF rest] Cons.prems show ?case by (simp add: max_def)
qed simp

lemma next_event_sequence_wf:
  assumes "seq_wf d"
  obtains es q where "dget_or d ''events'' (JList []) = JList es" "validate_events 0 es = Inr q"
    "q < next_event_sequence d" "0 < next_event_sequence d"
proof -
  from assms obtain es q where es: "dget_or d ''events'' (JList []) = JList es" "validate_events 0 es = Inr q"
    and n1: "dhas d ''next_event_seq'' \<Longrightarrow> \<exists>n. dget d ''next_event_seq'' = JInt n \<and> 0 < n"
    and n2: "\<And>n. dhas d ''next_event_seq'' \<Longrightarrow> dget d ''next_event_seq'' = JInt n \<Longrightarrow> q < n"
    by (auto simp: seq_wf_def)
  have q0: "0 \<le> q" using es(2) by (rule validate_events_ge)
  have "q < next_event_sequence d"
  proof (cases "dhas d ''next_event_seq''")
    case True
    then obtain n where n: "dget d ''next_event_seq'' = JInt n" "0 < n" "q < n" using n1 n2 by blast
    with True have "dget_or d ''next_event_seq'' (JInt 0) = JInt n"
      by (auto simp: dget_def dget_or_def dhas_def split: option.splits)
    with n show ?thesis by (simp add: next_event_sequence_def)
  next
    case False
    then have "dget_or d ''next_event_seq'' (JInt 0) = JInt 0"
      by (auto simp: dget_or_def dhas_def)
    then show ?thesis
      using es max_event_sequence [OF es(2)] by (simp add: next_event_sequence_def)
  qed
  with es q0 show ?thesis by (intro that) auto
qed

section \<open>Appending\<close>

lemma length_last_n: "length (last_n n xs) = min n (length xs)"
  by (simp add: last_n_def)

lemma new_event_wf:
  assumes "0 < n" and "ty \<noteq> []" and "org \<noteq> []" and "0 \<le> t"
  shows "event_wf (JObj (new_event n ty rc pl org t)) n"
  using assms
  by (auto simp: event_wf_def new_event_def dget_def null_or_str_iff split: option.splits)

lemma json_ok_new_event: "json_ok (JObj pl) \<Longrightarrow> json_ok (JObj (new_event n ty rc pl org t))"
  by (simp add: new_event_def split: option.split)

text \<open>The record after an append, for a well-formed record.\<close>

lemma append_event_locked_wf:
  assumes wf: "session_wf sid s" and t: "0 \<le> t" and ty: "ty \<noteq> []" and org: "org \<noteq> []"
  obtains es where
    "dget_or s ''events'' (JList []) = JList es"
    "append_event_locked s ty rc pl org t =
       Inr (new_event (next_event_sequence s) ty rc pl org t,
            dset (dset s ''events'' (JList (last_n SESSION_EVENT_LIMIT
                 (es @ [JObj (new_event (next_event_sequence s) ty rc pl org t)]))))
              ''next_event_seq'' (JInt (next_event_sequence s + 1)))"
    "session_wf sid (dset (dset s ''events'' (JList (last_n SESSION_EVENT_LIMIT
                 (es @ [JObj (new_event (next_event_sequence s) ty rc pl org t)]))))
              ''next_event_seq'' (JInt (next_event_sequence s + 1)))"
    "\<And>e. e \<in> set es \<Longrightarrow> event_seq e < next_event_sequence s"
proof -
  let ?n = "next_event_sequence s"
  let ?e = "JObj (new_event ?n ty rc pl org t)"
  from wf have "seq_wf s" by (simp add: session_wf_def)
  then obtain es q where es: "dget_or s ''events'' (JList []) = JList es" "validate_events 0 es = Inr q"
    and n: "q < ?n" "0 < ?n"
    by (rule next_event_sequence_wf)
  have "validate_events 0 (es @ [?e]) = Inr ?n"
    using es(2) n new_event_wf [OF n(2) ty org t] by (simp add: validate_events_append rbind_eq_Inr validate_event_iff)
  then obtain q' where "q' \<le> ?n" "validate_events 0 (last_n SESSION_EVENT_LIMIT (es @ [?e])) = Inr q'"
    unfolding last_n_def using validate_events_drop by blast
  then have "session_wf sid (dset (dset s ''events'' (JList (last_n SESSION_EVENT_LIMIT (es @ [?e]))))
      ''next_event_seq'' (JInt (?n + 1)))"
    using n by (intro session_wf_events [OF wf]) auto
  moreover have "append_event_locked s ty rc pl org t =
       Inr (new_event ?n ty rc pl org t,
            dset (dset s ''events'' (JList (last_n SESSION_EVENT_LIMIT (es @ [?e]))))
              ''next_event_seq'' (JInt (?n + 1)))"
    using t es(1) by (simp add: append_event_locked_def Let_def not_less)
  moreover have "\<And>e. e \<in> set es \<Longrightarrow> event_seq e < ?n"
    using validate_events_sorted [OF es(2)] n by force
  ultimately show ?thesis using es(1) by (intro that) auto
qed

lemma append_event_locked_Inr:
  assumes "append_event_locked s ty rc pl org t = Inr (ev, s')"
  shows "\<exists>es. as_list (dget_or s ''events'' (JList [])) = Some es \<and>
     ev = new_event (next_event_sequence s) ty rc pl org t \<and>
     s' = dset (dset s ''events'' (JList (last_n SESSION_EVENT_LIMIT (es @ [JObj ev]))))
            ''next_event_seq'' (JInt (next_event_sequence s + 1))"
  using assms by (auto simp: append_event_locked_def rbind_eq_Inr Let_def split: if_splits)

lemma append_event_locked_frame:
  assumes "append_event_locked s ty rc pl org t = Inr (ev, s')" and "k \<noteq> ''events''" and "k \<noteq> ''next_event_seq''"
  shows "dget s' k = dget s k"
  using append_event_locked_Inr [OF assms(1)] assms(2,3) by auto

lemma append_event_locked_status:
  "append_event_locked s ty rc pl org t = Inr (ev, s') \<Longrightarrow> status_of s' = status_of s"
  using append_event_locked_frame [of s ty rc pl org t ev s' "''status''"] by (simp add: status_of_def)

lemma json_ok_dget_or: "json_ok (JObj d) \<Longrightarrow> json_ok v \<Longrightarrow> json_ok (dget_or d k v)"
  by (auto simp: json_ok_JObj_iff dget_or_def split: option.split dest: map_of_SomeD)

lemma append_event_locked_json_ok:
  assumes "append_event_locked s ty rc pl org t = Inr (ev, s')" and "json_ok (JObj s)" and "json_ok (JObj pl)"
  shows "json_ok (JObj s')"
proof -
  from append_event_locked_Inr [OF assms(1)] obtain es where
    es: "dget_or s ''events'' (JList []) = JList es"
    and ev: "ev = new_event (next_event_sequence s) ty rc pl org t"
    and s': "s' = dset (dset s ''events'' (JList (last_n SESSION_EVENT_LIMIT (es @ [JObj ev]))))
            ''next_event_seq'' (JInt (next_event_sequence s + 1))"
    by auto
  have "list_all json_ok es" using json_ok_dget_or [OF assms(2), of "JList []" "''events''"] es by simp
  moreover have "json_ok (JObj ev)" using assms(3) ev by (simp add: json_ok_new_event)
  ultimately have "list_all json_ok (last_n SESSION_EVENT_LIMIT (es @ [JObj ev]))"
    by (auto simp: list_all_iff last_n_def dest: in_set_dropD)
  then show ?thesis using assms(2) s' by (simp add: json_ok_dset)
qed

text \<open>Appending always succeeds on a well-formed record.\<close>

lemma append_event_locked_obtain:
  assumes wf: "session_wf sid s" and js: "json_ok (JObj s)" and t: "0 \<le> t"
    and names: "ty \<noteq> []" "org \<noteq> []" and pl: "json_ok (JObj pl)"
  obtains ev s' where "append_event_locked s ty rc pl org t = Inr (ev, s')"
    "session_wf sid s'" "json_ok (JObj s')" "next_event_sequence s' = next_event_sequence s + 1"
    "\<And>k. k \<noteq> ''events'' \<Longrightarrow> k \<noteq> ''next_event_seq'' \<Longrightarrow> dget s' k = dget s k"
    "status_of s' = status_of s"
proof -
  obtain ev s' where ap: "append_event_locked s ty rc pl org t = Inr (ev, s')" and wf': "session_wf sid s'"
    using append_event_locked_wf [OF wf t names, of rc pl] by metis
  have pos: "0 < next_event_sequence s"
    using wf by (auto simp: session_wf_def elim: next_event_sequence_wf)
  then have "next_event_sequence s' = next_event_sequence s + 1"
    using append_event_locked_Inr [OF ap] by (auto simp: next_event_sequence_def [of "dset _ _ _"])
  then show ?thesis
    using that [OF ap wf' append_event_locked_json_ok [OF ap js pl]] append_event_locked_frame [OF ap]
      append_event_locked_status [OF ap] by blast
qed

end
