(* ===== verification/Session_Fresh.thy ===== *)
theory Session_Fresh
  imports Session_Events
begin

text \<open>
  A new Session is acceptable to the validator, and small concrete authorities built from one, on
  which the theorems about the store are instantiated.
\<close>

section \<open>The record of a new Session\<close>

lemma fresh_record_fields:
  "dget (fresh_record nid u env eg dl now) ''user_id'' = JStr u"
  "dget (fresh_record nid u env eg dl now) ''idempotency_key'' = JNull"
  "status_of (fresh_record nid u env eg dl now) = ''STOPPED''"
  by (simp_all add: fresh_record_def dget_def status_of_def)

lemma fresh_record_keys: "distinct (map fst (fresh_record nid u env eg dl now))"
proof -
  have "distinct (map fst (fresh_record [] [] [] [] JNull 0))" by code_simp
  then show ?thesis by (simp only: fresh_record_def list.map prod.sel)
qed

lemma fresh_record_json_ok: "json_ok dl \<Longrightarrow> json_ok (JObj (fresh_record nid u env eg dl now))"
  unfolding json_ok_JObj_iff
  by (intro conjI fresh_record_keys) (simp add: fresh_record_def default_media_control_def)

lemma default_media_control_ok: "0 \<le> now \<Longrightarrow> is_ok (validate_media_control (default_media_control now))"
  by (simp add: validate_media_control_def default_media_control_def validate_media_control_audio_def
      is_ok_rbind require_nonempty_string_Inr require_int_False require_finite_number_def dget_def
      media_control_key_ok_def null_or_str_def MEDIA_CONTROL_AUDIO_DESIRED_MODES_def
      MEDIA_CONTROL_AUDIO_ACTUAL_MODES_def rbind_eq_Inr not_less)

lemma fresh_record_lookups:
  "map (dget (fresh_record sid u env eg dl now))
     [''session_id'', ''user_id'', ''status'', ''version'', ''cleanup_pending'', ''relay_client_reader_count'', ''next_event_seq'', ''media_control''] =
   [JStr sid, JStr u, JStr ''STOPPED'', JInt 0, JBool False, JInt 0, JInt 1, default_media_control now]"
  "map (dget (fresh_record sid u env eg dl now)) SESSION_REQUIRED_TIMESTAMPS = [JTime now, JTime now]"
  "map (dget (fresh_record sid u env eg dl now)) SESSION_OPTIONAL_TIMESTAMPS = replicate 9 JNull @ [dl]"
  "map (dget (fresh_record sid u env eg dl now)) optional_booleans = replicate 4 (JBool False)"
  "dget_or (fresh_record sid u env eg dl now) ''events'' (JList []) = JList []"
  by code_simp+

lemma fresh_record_wf:
  assumes "u \<noteq> []" and "sid \<noteq> []" and "0 \<le> now" and "dl = JNull \<or> ts_ok dl"
  shows "session_wf sid (fresh_record sid u env eg dl now)"
proof -
  let ?r = "fresh_record sid u env eg dl now"
  note one = fresh_record_lookups(1) [of sid u env eg dl now, simplified list.map list.inject]
  have opt: "list_all P (map (dget ?r) SESSION_OPTIONAL_TIMESTAMPS) \<longleftrightarrow> P dl \<and> P JNull" for P
    unfolding fresh_record_lookups(3) by (simp add: list_all_iff)
  have stamps: "\<forall>f \<in> set SESSION_OPTIONAL_TIMESTAMPS. dget ?r f = JNull \<or> ts_ok (dget ?r f)"
    using opt [of "\<lambda>v. v = JNull \<or> ts_ok v"] assms(4) by (simp add: list_all_iff)
  have req: "\<forall>f \<in> set SESSION_REQUIRED_TIMESTAMPS. ts_ok (dget ?r f)"
    using arg_cong [OF fresh_record_lookups(2), of "list_all ts_ok" sid u env eg dl now] assms(3) by (simp add: list_all_iff)
  have bools: "\<forall>f \<in> set optional_booleans. is_bool (dget ?r f)"
    using arg_cong [OF fresh_record_lookups(4), of "list_all is_bool" sid u env eg dl now] by (simp add: list_all_iff)
  have "seq_wf ?r" using one fresh_record_lookups(5) [of sid u env eg dl now] by (simp add: seq_wf_def)
  with one stamps req bools assms default_media_control_ok [OF assms(3)] show ?thesis
    by (simp add: session_wf_def SESSION_STATES_def)
qed

section \<open>Concrete authorities\<close>

text \<open>The authority a commit of a state leaves behind, and a small concrete one for the witnesses.\<close>

definition authority_of :: "store_state \<Rightarrow> authority" where
  "authority_of m =
     \<lparr>payload_file = (case session_encode m of None \<Rightarrow> Unreadable | Some doc \<Rightarrow> Text (text_of doc)),
      marker = RegularMarker, temporary = None\<rparr>"

lemma stored_authority_of:
  assumes "store_ok m" and "authoritative m"
  shows "stored (authority_of m) m"
proof -
  obtain doc where doc: "session_encode m = Some doc" "json_ok doc"
    using assms(1) session_encode_ok [of m] by blast
  have "session_decode doc = Some m"
    using session_decode_encode [OF doc(1)] assms(2) by simp
  with doc assms(1) show ?thesis
    by (simp add: stored_def authority_of_def auth_contents_def read_authority_def load_text_of)
qed

definition demo_session :: "string \<Rightarrow> dict \<Rightarrow> dict" where
  "demo_session status changes =
     dupdate (dset (fresh_record ''s1'' ''u1'' ''production'' ''DIRECT_PUSH'' JNull 5) ''status'' (JStr status)) changes"

definition demo_store :: "string \<Rightarrow> dict \<Rightarrow> store_state" where
  "demo_store status changes =
     \<lparr>sessions = [(''s1'', demo_session status changes)], leases = [], authoritative = True\<rparr>"

lemma demo_session_wf:
  assumes "status \<in> SESSION_STATES" and "list_all (\<lambda>p. field_ok ''s1'' (fst p) (snd p)) changes"
  shows "session_wf ''s1'' (demo_session status changes)"
  unfolding demo_session_def
  using assms by (intro session_wf_dupdate session_wf_dset fresh_record_wf) (simp_all add: field_defs)

lemma stored_demo:
  assumes "status \<in> SESSION_STATES"
    and "list_all (\<lambda>p. field_ok ''s1'' (fst p) (snd p) \<and> json_ok (snd p)) changes"
  shows "stored (authority_of (demo_store status changes)) (demo_store status changes)"
proof (rule stored_authority_of)
  have "json_ok (JObj (demo_session status changes))"
    unfolding demo_session_def
    using assms by (intro json_ok_dupdate json_ok_dset fresh_record_json_ok) (auto simp: list_all_iff)
  moreover have "session_wf ''s1'' (demo_session status changes)"
    using assms by (intro demo_session_wf) (auto simp: list_all_iff)
  ultimately show "store_ok (demo_store status changes)"
    by (simp add: store_ok_def demo_store_def)
qed (simp add: demo_store_def)

lemma demo_lookup [simp]: "map_of (sessions (demo_store st ch)) ''s1'' = Some (demo_session st ch)"
  "leases (demo_store st ch) = []"
  by (simp_all add: demo_store_def)

lemma demo_status: "''status'' \<notin> fst ` set ch \<Longrightarrow> status_of (demo_session st ch) = st"
  by (simp add: demo_session_def status_of_dupdate_notin)

end
