(* ===== verification/Session_Lifecycle.thy ===== *)
theory Session_Lifecycle
  imports Session_Fresh
begin

text \<open>
  The state machine of a Session as the store's methods really run it.  A \<open>store_op\<close> is one call of
  a state-changing \<open>SessionStore\<close> method with its arguments; \<open>run_op\<close> gives the authority after it,
  \<open>reachable\<close> the authorities any sequence of calls can produce from a fresh state directory.
\<close>

datatype (plugins only: code) store_op =
    OpCreate "string option" string string string json string pyfloat pyfloat
  | OpReservePrepareSlot string string string string int string pyfloat pyfloat pyfloat
  | OpBeginPrepare string string string string int "string option" string string string pyfloat pyfloat pyfloat
  | OpUpdate string dict pyfloat
  | OpClaimProvisioning string string json pyfloat pyfloat
  | OpClaimOrphanCleanup string string string pyfloat string pyfloat pyfloat
  | OpReleaseOrphanCleanup string string
  | OpClaimSessionCleanup string "string list" pyfloat string pyfloat pyfloat
  | OpReleaseSessionCleanup string string
  | OpProvisioningCheckpoint string string "string option" bool dict pyfloat
  | OpRequestStop string pyfloat
  | OpRequestStopIfCurrent string string dict pyfloat
  | OpAppendEvent string string "string option" dict string "json option" pyfloat
  | OpSetAudioDesired string string int string string "json option" string pyfloat
  | OpBindNode string string string string "json option" pyfloat
  | OpRecordNodeHeartbeat string string string json bool
  | OpUpdateIfCurrent string string dict "event_request option" dict pyfloat
  | OpApplyIngestObservation rat string string "string list" ingest_observation "json option" pyfloat
  | OpApplyRelayClientObservation string string "string list" relay_observation pyfloat
  | OpTransition string string "string set option" dict pyfloat
  | OpTransitionIfCurrent string string "string set" dict dict pyfloat

fun run_op :: "store_op \<Rightarrow> authority \<Rightarrow> authority" where
  "run_op (OpCreate a b c d e f g h) fs = snd (create a b c d e f g h fs)"
| "run_op (OpReservePrepareSlot a b c d e f g h i) fs = snd (reserve_prepare_slot a b c d e f g h i fs)"
| "run_op (OpBeginPrepare a b c d e f g h i j k l) fs = snd (begin_prepare a b c d e f g h i j k l fs)"
| "run_op (OpUpdate a b c) fs = snd (update_session a b c fs)"
| "run_op (OpClaimProvisioning a b c d e) fs = snd (claim_provisioning a b c d e fs)"
| "run_op (OpClaimOrphanCleanup a b c d e f g) fs = snd (claim_orphan_cleanup a b c d e f g fs)"
| "run_op (OpReleaseOrphanCleanup a b) fs = snd (release_orphan_cleanup a b fs)"
| "run_op (OpClaimSessionCleanup a b c d e f) fs = snd (claim_session_cleanup a b c d e f fs)"
| "run_op (OpReleaseSessionCleanup a b) fs = snd (release_session_cleanup a b fs)"
| "run_op (OpProvisioningCheckpoint a b c d e f) fs = snd (provisioning_checkpoint a b c d e f fs)"
| "run_op (OpRequestStop a b) fs = snd (request_stop a b fs)"
| "run_op (OpRequestStopIfCurrent a b c d) fs = snd (request_stop_if_current a b c d fs)"
| "run_op (OpAppendEvent a b c d e f g) fs = snd (append_event a b c d e f g fs)"
| "run_op (OpSetAudioDesired a b c d e f g h) fs = snd (set_audio_desired a b c d e f g h fs)"
| "run_op (OpBindNode a b c d e f) fs = snd (bind_node a b c d e f fs)"
| "run_op (OpRecordNodeHeartbeat a b c d e) fs = snd (record_node_heartbeat a b c d e fs)"
| "run_op (OpUpdateIfCurrent a b c d e f) fs = snd (update_if_current a b c d e f fs)"
| "run_op (OpApplyIngestObservation a b c d e f g) fs = snd (apply_ingest_observation a b c d e f g fs)"
| "run_op (OpApplyRelayClientObservation a b c d e) fs = snd (apply_relay_client_observation a b c d e fs)"
| "run_op (OpTransition a b c d e) fs = snd (transition a b c d e fs)"
| "run_op (OpTransitionIfCurrent a b c d e f) fs = snd (transition_if_current a b c d e f fs)"

lemmas store_op_defs =
  create_def reserve_prepare_slot_def begin_prepare_def update_session_def claim_provisioning_def
  claim_orphan_cleanup_def release_orphan_cleanup_def claim_session_cleanup_def
  release_session_cleanup_def provisioning_checkpoint_def request_stop_def request_stop_if_current_def
  append_event_def set_audio_desired_def bind_node_def record_node_heartbeat_def update_if_current_def
  apply_ingest_observation_def apply_relay_client_observation_def transition_def transition_if_current_def

inductive reachable :: "authority \<Rightarrow> bool" where
  fresh: "reachable fresh_authority"
| step: "reachable fs \<Longrightarrow> reachable (run_op op fs)"

section \<open>Every reachable authority can be loaded\<close>

lemma run_op_stored:
  assumes "stored fs m"
  shows "\<exists>m'. stored (run_op op fs) m'"
  using assms
  by (cases op) (auto simp: store_op_defs Let_def intro: state_lock_stored [OF assms] split: sum.split)

lemma reachable_stored: "reachable fs \<Longrightarrow> \<exists>m. stored fs m"
proof (induction rule: reachable.induct)
  case fresh
  show ?case using stored_fresh by blast
next
  case (step fs op)
  then show ?case using run_op_stored by blast
qed

section \<open>What one call does to the status of a Session\<close>

text \<open>A relation between the state before and after a call follows from its body.\<close>

lemma state_lock_rel:
  assumes "stored fs m" and "stored (snd (state_lock body fs)) m'" and "R m"
    and "\<And>r n. body m = Inr (r, Some n) \<Longrightarrow> store_ok n \<Longrightarrow> R (n\<lparr>authoritative := True\<rparr>)"
  shows "R m'"
proof (cases "fst (state_lock body fs)")
  case (Inl x)
  then show ?thesis using state_lock_Inl [OF assms(1)] assms(2,3) stored_unique by blast
next
  case (Inr r)
  then show ?thesis using state_lock_Inr [OF assms(1)] assms(2-4) stored_unique by metis
qed

text \<open>
  The moves a call may make.  The table of the module is one source of them; taking the provisioning
  lease again moves a BOOTSTRAPPING Session back to PROVISIONING, which the table does not list.
\<close>

definition lifecycle_edge :: "string \<Rightarrow> string \<Rightarrow> bool" where
  "lifecycle_edge a b \<longleftrightarrow>
     b = a \<or> b \<in> transitions_from a \<or> (a = ''BOOTSTRAPPING'' \<and> b = ''PROVISIONING'')"

lemma lifecycle_edge_refl [simp]: "lifecycle_edge a a"
  by (simp add: lifecycle_edge_def)

definition sessions_step :: "store_state \<Rightarrow> store_state \<Rightarrow> bool" where
  "sessions_step m m' \<longleftrightarrow>
     (\<forall>sid s. map_of (sessions m) sid = Some s \<longrightarrow>
        (\<exists>s'. map_of (sessions m') sid = Some s' \<and> lifecycle_edge (status_of s) (status_of s')))"

lemma sessions_step_refl [simp]: "sessions_step m m"
  by (simp add: sessions_step_def)

lemma sessions_step_leases [simp]:
  "sessions_step m ((put_lease m sid d)\<lparr>authoritative := b\<rparr>)"
  "sessions_step m ((drop_lease m sid)\<lparr>authoritative := b\<rparr>)"
  by (simp_all add: sessions_step_def)

lemma sessions_step_put:
  "(\<And>s. map_of (sessions m) sid = Some s \<Longrightarrow> lifecycle_edge (status_of s) (status_of s')) \<Longrightarrow>
   sessions_step m ((put_session m sid s')\<lparr>authoritative := b\<rparr>)"
  by (auto simp: sessions_step_def)

lemma sessions_step_put_existing:
  "map_of (sessions m) sid = Some s \<Longrightarrow> lifecycle_edge (status_of s) (status_of s') \<Longrightarrow>
   sessions_step m ((put_session m sid s')\<lparr>authoritative := b\<rparr>)"
  by (rule sessions_step_put) simp

text \<open>
  The callers of the store use the general purpose writers within these limits: changes do not carry
  a status, \<open>allow_from\<close> names predecessors of the new state, and a conditional stop expects a
  status that may be stopped.
\<close>

fun lifecycle_op :: "store_op \<Rightarrow> bool" where
  "lifecycle_op (OpUpdate sid changes t) = (''status'' \<notin> fst ` set changes)"
| "lifecycle_op (OpProvisioningCheckpoint sid op ns c changes t) = (''status'' \<notin> fst ` set changes)"
| "lifecycle_op (OpUpdateIfCurrent sid st flds ev changes t) = (''status'' \<notin> fst ` set changes)"
| "lifecycle_op (OpRequestStopIfCurrent sid st flds t) = (''STOPPING'' \<in> transitions_from st \<or> st = ''STOPPING'')"
| "lifecycle_op (OpTransition sid ns af changes t) =
     (case af of None \<Rightarrow> True | Some allowed \<Rightarrow> \<forall>a \<in> allowed. ns \<in> transitions_from a)"
| "lifecycle_op (OpTransitionIfCurrent sid ns allowed flds changes t) = (\<forall>a \<in> allowed. ns \<in> transitions_from a)"
| "lifecycle_op (OpCreate sid a b c d e f g) = (sid \<noteq> None)"
| "lifecycle_op _ = True"

subsection \<open>Status after each record update\<close>

lemma status_stopping_record [simp]: "status_of (stopping_record s t) = ''STOPPING''"
  by (simp add: stopping_record_def)

lemma status_transitioned_record [simp]: "status_of (transitioned_record s ch ns t) = ns"
  by (simp add: transitioned_record_def Let_def)

lemma transitions_from_simps:
  "transitions_from ''STOPPED'' = {''PROVISIONING''}"
  "transitions_from ''PROVISIONING'' = {''BOOTSTRAPPING'', ''STOPPING'', ''FAILED_CLEANUP''}"
  "transitions_from ''BOOTSTRAPPING'' = {''READY_WAIT_INGEST'', ''STOPPING'', ''FAILED_CLEANUP''}"
  "transitions_from ''READY_WAIT_INGEST'' = {''LIVE'', ''DEGRADED'', ''STOPPING'', ''FAILED_CLEANUP''}"
  "transitions_from ''LIVE'' = {''DEGRADED'', ''HOLDING'', ''STOPPING'', ''FAILED_CLEANUP''}"
  "transitions_from ''DEGRADED'' = {''LIVE'', ''HOLDING'', ''STOPPING'', ''FAILED_CLEANUP''}"
  "transitions_from ''HOLDING'' = {''LIVE'', ''DEGRADED'', ''STOPPING'', ''FAILED_CLEANUP''}"
  "transitions_from ''STOPPING'' = {''FINISHED'', ''FAILED_CLEANUP''}"
  "transitions_from ''FAILED_CLEANUP'' = {''FAILED'', ''STOPPING''}"
  "transitions_from ''FINISHED'' = {}"
  "transitions_from ''FAILED'' = {}"
  by (simp_all add: transitions_from_def TRANSITIONS_def)

lemma stop_edge:
  "a \<in> ACTIVE_STATES \<union> {''STOPPING'', ''FAILED_CLEANUP''} \<Longrightarrow> lifecycle_edge a ''STOPPING''"
  by (auto simp: lifecycle_edge_def ACTIVE_STATES_def transitions_from_simps)

lemma append_ingest_events_status:
  "append_ingest_events s rs tys pl t = Inr s' \<Longrightarrow> status_of s' = status_of s"
  by (induction tys arbitrary: s) (auto simp: rbind_eq_Inr dest!: append_event_locked_status)

lemma append_relay_events_status:
  "append_relay_events s tys rc pl t = Inr s' \<Longrightarrow> status_of s' = status_of s"
  by (induction tys arbitrary: s) (auto simp: rbind_eq_Inr dest!: append_event_locked_status)

lemma enter_ingest_state_status:
  "enter_ingest_state s st on target ev rc pl t = Inr s' \<Longrightarrow> status_of s' = target"
  by (auto simp: enter_ingest_state_def rbind_eq_Inr Let_def dest!: append_event_locked_status split: if_splits)

lemma recovery_candidate_ready_status [simp]:
  "status_of (snd (recovery_candidate_ready st s src t)) = status_of s"
  by (auto simp: recovery_candidate_ready_def Let_def split: option.splits)

text \<open>The decision follows the transition table from every state.\<close>

lemma ingest_decision_edge:
  assumes "ingest_decision st s ob t = (s', d)"
  shows "status_of s' = status_of s \<and>
    (case d of None \<Rightarrow> True | Some (target, ev, rc) \<Rightarrow> target = status_of s \<or> target \<in> transitions_from (status_of s))"
proof (cases "status_of s = ''HOLDING''")
  case True
  then show ?thesis using assms
    by (auto simp: ingest_decision_def Let_def transitions_from_simps split: if_splits prod.splits option.splits
        dest!: arg_cong [where f = "\<lambda>x. status_of (snd x)"])
next
  case False
  then show ?thesis using assms
    by (auto simp: ingest_decision_def Let_def transitions_from_simps split: if_splits)
qed

section \<open>Status moves of each method\<close>

lemma state_lock_sessions_step:
  assumes "stored fs m" and "stored (snd (state_lock body fs)) m'"
    and "\<And>r n. body m = Inr (r, Some n) \<Longrightarrow> sessions_step m (n\<lparr>authoritative := True\<rparr>)"
  shows "sessions_step m m'"
  using assms by (intro state_lock_rel [where R = "sessions_step m", OF assms(1,2)]) auto

lemma transition_step:
  assumes "stored fs m" and "stored (snd (transition sid ns af ch t fs)) m'"
    and "case af of None \<Rightarrow> True | Some allowed \<Rightarrow> \<forall>a \<in> allowed. ns \<in> transitions_from a"
  shows "sessions_step m m'"
  using assms(2,3) stored_unique [OF assms(1)] unfolding transition_def
  by (auto simp: rbind_eq_Inr Let_def lifecycle_edge_def split: if_splits sum.splits option.splits
      elim!: state_lock_sessions_step [OF assms(1)] intro!: sessions_step_put_existing)

lemma transition_if_current_step:
  assumes "stored fs m" and "stored (snd (transition_if_current sid ns allowed flds ch t fs)) m'"
    and "\<forall>a \<in> allowed. ns \<in> transitions_from a"
  shows "sessions_step m m'"
  using assms(2,3) stored_unique [OF assms(1)] unfolding transition_if_current_def
  by (auto simp: rbind_eq_Inr Let_def lifecycle_edge_def split: if_splits sum.splits option.splits
      elim!: state_lock_sessions_step [OF assms(1)] intro!: sessions_step_put_existing)

lemma request_stop_step:
  assumes "stored fs m" and "stored (snd (request_stop sid t fs)) m'"
  shows "sessions_step m m'"
  using assms(2) stored_unique [OF assms(1)] unfolding request_stop_def
  by (auto simp: rbind_eq_Inr Let_def split: if_splits sum.splits option.splits
      elim!: state_lock_sessions_step [OF assms(1)] intro!: sessions_step_put_existing stop_edge)

lemma request_stop_if_current_step:
  assumes "stored fs m" and "stored (snd (request_stop_if_current sid st flds t fs)) m'"
    and "''STOPPING'' \<in> transitions_from st \<or> st = ''STOPPING''"
  shows "sessions_step m m'"
  using assms(2,3) stored_unique [OF assms(1)] unfolding request_stop_if_current_def
  by (auto simp: rbind_eq_Inr Let_def lifecycle_edge_def split: if_splits sum.splits option.splits
      elim!: state_lock_sessions_step [OF assms(1)] intro!: sessions_step_put_existing)

lemma create_step:
  assumes "stored fs m" and "stored (snd (create a b c d e f g h fs)) m'" and "a \<noteq> None"
  shows "sessions_step m m'"
proof -
  obtain sid where a: "a = Some sid" using assms(3) by auto
  show ?thesis
    using assms(2) unfolding create_def a
    by (rule state_lock_sessions_step [OF assms(1)])
      (auto simp: rbind_eq_Inr Let_def split: option.splits intro!: sessions_step_put)
qed

lemma reserve_prepare_slot_step:
  assumes "stored fs m" and "stored (snd (reserve_prepare_slot a b c d e f g h i fs)) m'"
  shows "sessions_step m m'"
  using assms(2) stored_unique [OF assms(1)] unfolding reserve_prepare_slot_def Let_def
  by (auto simp: rbind_eq_Inr split: if_splits sum.splits option.splits
      elim!: state_lock_sessions_step [OF assms(1)] intro!: sessions_step_put_existing sessions_step_put)

lemma status_bound_session [simp]: "status_of (bound_session env dst eg key ent t s) = status_of s"
  by (simp add: bound_session_def)

lemma begin_prepare_step:
  assumes "stored fs m" and "stored (snd (begin_prepare a b c d e f g h i j k l fs)) m'"
  shows "sessions_step m m'"
  using assms(2) stored_unique [OF assms(1)] unfolding begin_prepare_def Let_def
  by (auto simp: rbind_eq_Inr split: if_splits sum.splits option.splits
      elim!: state_lock_sessions_step [OF assms(1)] intro!: sessions_step_put_existing sessions_step_put)

lemma update_session_step:
  assumes "stored fs m" and "stored (snd (update_session sid ch t fs)) m'" and "''status'' \<notin> fst ` set ch"
  shows "sessions_step m m'"
  using assms(2,3) stored_unique [OF assms(1)] unfolding update_session_def
  by (auto simp: rbind_eq_Inr Let_def status_of_dupdate_notin split: if_splits sum.splits option.splits
      elim!: state_lock_sessions_step [OF assms(1)] intro!: sessions_step_put_existing)

lemma claim_provisioning_step:
  assumes "stored fs m" and "stored (snd (claim_provisioning a b c d e fs)) m'"
  shows "sessions_step m m'"
  using assms(2) stored_unique [OF assms(1)] unfolding claim_provisioning_def
  by (auto simp: rbind_eq_Inr Let_def lifecycle_edge_def transitions_from_simps split: if_splits sum.splits option.splits
      elim!: state_lock_sessions_step [OF assms(1)] intro!: sessions_step_put_existing)

lemma provisioning_checkpoint_step:
  assumes "stored fs m" and "stored (snd (provisioning_checkpoint a b c d ch f fs)) m'"
    and "''status'' \<notin> fst ` set ch"
  shows "sessions_step m m'"
  using assms(2,3) stored_unique [OF assms(1)] unfolding provisioning_checkpoint_def
  by (auto simp: rbind_eq_Inr Let_def lifecycle_edge_def status_of_dupdate_notin split: if_splits sum.splits option.splits
      elim!: state_lock_sessions_step [OF assms(1)] intro!: sessions_step_put_existing)

lemma append_event_step:
  assumes "stored fs m" and "stored (snd (append_event a b c d e f g fs)) m'"
  shows "sessions_step m m'"
  using assms(2) stored_unique [OF assms(1)] unfolding append_event_def
  by (auto simp: rbind_eq_Inr Let_def split: if_splits sum.splits option.splits
      elim!: state_lock_sessions_step [OF assms(1)] intro!: sessions_step_put_existing dest!: append_event_locked_status)

lemma accept_audio_command_status:
  "accept_audio_command s mode v key op cid t = Inr (r, Some s') \<Longrightarrow> status_of s' = status_of s"
  by (auto simp: accept_audio_command_def rbind_eq_Inr Let_def dest!: append_event_locked_status
      split: if_splits prod.splits)

lemma set_audio_desired_step:
  assumes "stored fs m" and "stored (snd (set_audio_desired a b c d e f g h fs)) m'"
  shows "sessions_step m m'"
  using assms(2) stored_unique [OF assms(1)] unfolding set_audio_desired_def
  by (auto simp: rbind_eq_Inr Let_def split: if_splits sum.splits option.splits prod.splits
      elim!: state_lock_sessions_step [OF assms(1)] intro!: sessions_step_put_existing
      dest!: accept_audio_command_status)

lemma bind_node_step:
  assumes "stored fs m" and "stored (snd (bind_node a b c d e f fs)) m'"
  shows "sessions_step m m'"
  using assms(2) stored_unique [OF assms(1)] unfolding bind_node_def
  by (auto simp: rbind_eq_Inr Let_def split: if_splits sum.splits option.splits
      elim!: state_lock_sessions_step [OF assms(1)] intro!: sessions_step_put_existing)

lemma record_node_heartbeat_step:
  assumes "stored fs m" and "stored (snd (record_node_heartbeat a b c d e fs)) m'"
  shows "sessions_step m m'"
  using assms(2) stored_unique [OF assms(1)] unfolding record_node_heartbeat_def
  by (auto simp: rbind_eq_Inr Let_def lifecycle_edge_def transitions_from_simps split: if_splits sum.splits option.splits
      elim!: state_lock_sessions_step [OF assms(1)] intro!: sessions_step_put_existing)

lemma update_if_current_step:
  assumes "stored fs m" and "stored (snd (update_if_current a b c d ch f fs)) m'" and "''status'' \<notin> fst ` set ch"
  shows "sessions_step m m'"
  using assms(2,3) stored_unique [OF assms(1)] unfolding update_if_current_def
  by (cases d; cases "er_occurred_at (the d)") (auto simp: rbind_eq_Inr Let_def status_of_dupdate_notin split: if_splits sum.splits option.splits
      elim!: state_lock_sessions_step [OF assms(1)] intro!: sessions_step_put_existing dest!: append_event_locked_status)

lemma apply_relay_step:
  assumes "stored fs m" and "stored (snd (apply_relay_client_observation a b c d e fs)) m'"
  shows "sessions_step m m'"
  using assms(2) stored_unique [OF assms(1)] unfolding apply_relay_client_observation_def
  by (auto simp: rbind_eq_Inr Let_def split: if_splits sum.splits option.splits prod.splits
      elim!: state_lock_sessions_step [OF assms(1)] intro!: sessions_step_put_existing dest!: append_relay_events_status)

lemma settle_ingest_state_edge:
  assumes "settle_ingest_state st s ob pl t = Inr s'"
  shows "status_of s' = status_of s \<or> status_of s' \<in> transitions_from (status_of s)"
proof -
  obtain s1 d where dec: "ingest_decision st s ob t = (s1, d)" by (cases "ingest_decision st s ob t")
  note edge = ingest_decision_edge [OF dec]
  show ?thesis
  proof (cases d)
    case None
    then show ?thesis using assms dec edge by (auto simp: settle_ingest_state_def Let_def)
  next
    case (Some p)
    obtain target ev rc where p: "p = (target, ev, rc)" by (cases p)
    show ?thesis
      using assms dec edge Some p
      by (auto simp: settle_ingest_state_def Let_def dest: enter_ingest_state_status split: if_splits)
  qed
qed

lemma apply_ingest_step:
  assumes "stored fs m" and "stored (snd (apply_ingest_observation a b c d ob f g fs)) m'"
  shows "sessions_step m m'"
  using assms(2) stored_unique [OF assms(1)] unfolding apply_ingest_observation_def
  by (auto simp: rbind_eq_Inr Let_def lifecycle_edge_def split: if_splits sum.splits option.splits
      elim!: state_lock_sessions_step [OF assms(1)] intro!: sessions_step_put_existing
      dest!: append_ingest_events_status settle_ingest_state_edge)

lemma lease_op_step:
  assumes "stored fs m"
  shows "stored (snd (claim_orphan_cleanup a b c d e f g fs)) m' \<Longrightarrow> sessions_step m m'"
    and "stored (snd (release_orphan_cleanup a b fs)) m' \<Longrightarrow> sessions_step m m'"
    and "stored (snd (claim_session_cleanup a xs t u v w fs)) m' \<Longrightarrow> sessions_step m m'"
    and "stored (snd (release_session_cleanup a b fs)) m' \<Longrightarrow> sessions_step m m'"
  unfolding claim_orphan_cleanup_def release_orphan_cleanup_def claim_session_cleanup_def release_session_cleanup_def Let_def
  by (auto simp: rbind_eq_Inr split: if_splits option.splits elim!: state_lock_sessions_step [OF assms])

lemmas op_steps =
  create_step reserve_prepare_slot_step begin_prepare_step update_session_step claim_provisioning_step
  lease_op_step provisioning_checkpoint_step request_stop_step request_stop_if_current_step
  append_event_step set_audio_desired_step bind_node_step record_node_heartbeat_step
  update_if_current_step apply_ingest_step apply_relay_step transition_step transition_if_current_step

lemma run_op_step:
  assumes "stored fs m" and "stored (run_op op fs) m'" and "lifecycle_op op"
  shows "sessions_step m m'"
  using assms by (cases op) (auto intro: op_steps)

section \<open>Runs\<close>

primrec run_ops :: "store_op list \<Rightarrow> authority \<Rightarrow> authority" where
  "run_ops [] fs = fs"
| "run_ops (op # ops) fs = run_ops ops (run_op op fs)"

lemma run_ops_stored: "stored fs m \<Longrightarrow> \<exists>m'. stored (run_ops ops fs) m'"
proof (induction ops arbitrary: fs m)
  case (Cons op ops)
  then obtain m1 where "stored (run_op op fs) m1" using run_op_stored by blast
  then show ?case using Cons.IH by simp
qed auto

lemma run_ops_closed:
  assumes closed: "\<And>a b. a \<in> S \<Longrightarrow> lifecycle_edge a b \<Longrightarrow> b \<in> S"
    and "stored fs m" and "stored (run_ops ops fs) m'" and "list_all lifecycle_op ops"
    and "map_of (sessions m) sid = Some s" and "status_of s \<in> S"
  shows "\<exists>s'. map_of (sessions m') sid = Some s' \<and> status_of s' \<in> S"
  using assms(2-)
proof (induction ops arbitrary: fs m s)
  case Nil
  then show ?case using stored_unique by fastforce
next
  case (Cons op ops)
  obtain m1 where m1: "stored (run_op op fs) m1" using run_op_stored [OF Cons.prems(1)] by blast
  have "sessions_step m m1" using run_op_step [OF Cons.prems(1) m1] Cons.prems(3) by simp
  then obtain s1 where s1: "map_of (sessions m1) sid = Some s1" "lifecycle_edge (status_of s) (status_of s1)"
    using Cons.prems(4) by (auto simp: sessions_step_def)
  have "status_of s1 \<in> S" using closed s1(2) Cons.prems(5) by blast
  with Cons.IH [OF m1 _ _ s1(1)] Cons.prems(2,3) show ?case by simp
qed

section \<open>Properties\<close>

text \<open>C2. Every authority any sequence of store calls can produce from an empty state directory can be
  loaded again, and every Session and every cleanup lease in it passes the store's own validators: no
  writer can publish a document the next load refuses.\<close>

theorem reachable_authority_loads:
  assumes "reachable fs"
  shows "\<exists>m. stored fs m \<and> fst (list_sessions fs) = Inr (map snd (sessions m)) \<and>
    (\<forall>(sid, s) \<in> set (sessions m). is_ok (validate_session sid (JObj s))) \<and>
    (\<forall>(sid, l) \<in> set (leases m). is_ok (validate_cleanup_lease sid (JObj l)))"
proof -
  obtain m where m: "stored fs m" using reachable_stored [OF assms] by blast
  then have "fst (list_sessions fs) = Inr (map snd (sessions m))"
    unfolding list_sessions_def by (intro state_lock_read [THEN conjunct1]) simp_all
  moreover have "store_ok m" using m by (simp add: stored_def)
  ultimately show ?thesis
    using m by (auto simp: store_ok_def validate_session_iff lease_wf_def intro!: exI [of _ m])
qed

theorem reachable_authority_loads_witness:
  "reachable (run_op (OpRequestStop ''s1'' (Fin 1)) fresh_authority) \<and>
   (\<exists>m. stored (run_op (OpRequestStop ''s1'' (Fin 1)) fresh_authority) m)"
  using reachable_authority_loads [of "run_op (OpRequestStop ''s1'' (Fin 1)) fresh_authority"]
    reachable.step [OF reachable.fresh] by blast



text \<open>The states a Session can be in once it is being stopped.\<close>

definition stop_path :: "string set" where
  "stop_path = {''STOPPING'', ''FAILED_CLEANUP'', ''FINISHED'', ''FAILED''}"

lemma stop_path_transitions:
  "transitions_from ''STOPPING'' \<subseteq> stop_path" "transitions_from ''FAILED_CLEANUP'' \<subseteq> stop_path"
  "transitions_from ''FINISHED'' \<subseteq> stop_path" "transitions_from ''FAILED'' \<subseteq> stop_path"
  by (simp_all add: transitions_from_simps stop_path_def)

lemma stop_path_closed:
  assumes "a \<in> stop_path" and e: "lifecycle_edge a b" shows "b \<in> stop_path"
proof -
  have a: "a = ''STOPPING'' \<or> a = ''FAILED_CLEANUP'' \<or> a = ''FINISHED'' \<or> a = ''FAILED''"
    using assms(1) unfolding stop_path_def by blast
  then have "a \<noteq> ''BOOTSTRAPPING''" by (elim disjE) simp_all
  moreover have "transitions_from a \<subseteq> stop_path" using a stop_path_transitions by (elim disjE) simp_all
  ultimately show ?thesis using e assms(1) unfolding lifecycle_edge_def by blast
qed

lemma released_closed:
  "x \<in> {''FINISHED'', ''FAILED''} \<Longrightarrow> a \<in> {x} \<Longrightarrow> lifecycle_edge a b \<Longrightarrow> b \<in> {x}"
  by (auto simp: lifecycle_edge_def transitions_from_simps)



end
