(* ===== verification/Session_Prepare.thy ===== *)
theory Session_Prepare
  imports Session_Lifecycle
begin

text \<open>
  Preparing a Session: the per-user capacity that \<open>begin_prepare\<close> and \<open>reserve_prepare_slot\<close> keep,
  and the idempotency of a prepare request.
\<close>

section \<open>Capacity\<close>

text \<open>The slots a user's Sessions hold.\<close>

definition slots_used :: "store_state \<Rightarrow> string \<Rightarrow> nat" where
  "slots_used m user_id =
     length (filter (\<lambda>p. dget (snd p) ''user_id'' = JStr user_id \<and> holds_slot (snd p)) (sessions m))"

lemma length_filter_dset:
  "length (filter P (dset xs k v)) \<le> length (filter (\<lambda>p. fst p \<noteq> k \<and> P p) xs) + 1"
  if "distinct (map fst xs)"
  using that
proof (induction xs)
  case (Cons p xs)
  obtain k' v' where p: "p = (k', v')" by (cases p)
  show ?case
  proof (cases "k' = k")
    case True
    then have "filter (\<lambda>p. fst p \<noteq> k \<and> P p) xs = filter P xs"
      using Cons.prems p by (intro filter_cong) (auto simp: image_iff)
    then show ?thesis using True p by (simp add: dset_def)
  next
    case False
    then show ?thesis using Cons p by (simp add: dset_def)
  qed
qed (simp add: dset_def)

lemma slots_used_put:
  assumes "store_ok m"
  shows "slots_used ((put_session m sid s)\<lparr>authoritative := b\<rparr>) u \<le> occupied m sid u + 1"
  using length_filter_dset [of "sessions m"] assms
  by (simp add: slots_used_def occupied_def store_ok_def)

lemma new_session_fields:
  assumes "new_session nid u env eg h t = Inr s"
  shows "dget s ''user_id'' = JStr u" "dget s ''idempotency_key'' = JNull" "status_of s = ''STOPPED''"
  using assms by (auto simp: new_session_def rbind_eq_Inr fresh_record_fields)

lemma bound_session_fields:
  "dget (bound_session env dst eg key ent t s) ''user_id'' = dget s ''user_id''"
  "dget (bound_session env dst eg key ent t s) ''idempotency_key'' = JStr key"
  "configured_request (bound_session env dst eg key ent t s) = prepare_request env dst eg"
  "dget (bound_session env dst eg key ent t s) ''entitlement_reserved'' = JBool True"
  by (simp_all add: bound_session_def configured_request_def)

lemma bound_existsI:
  "dget s0 ''user_id'' = JStr u \<Longrightarrow> status_of s0 \<notin> {''FINISHED'', ''FAILED''} \<Longrightarrow>
   \<exists>s1 t1. bound_session env dst eg key ent t s0 = bound_session env dst eg key ent t1 s1 \<and>
     dget s1 ''user_id'' = JStr u \<and> status_of s1 \<notin> {''FINISHED'', ''FAILED''}"
  by blast

lemma begin_prepare_new:
  assumes st: "stored fs m"
    and call: "begin_prepare sid u env ent mx dst eg key uuid t1 t2 t3 fs = (Inr (s, False), fs')"
    and st': "stored fs' m'"
  shows "1 \<le> mx \<and> int (occupied m sid u) < mx \<and> store_ok m \<and>
    m' = (put_session m sid s)\<lparr>authoritative := True\<rparr> \<and>
    (\<exists>s0 t. s = bound_session env dst eg key ent t s0 \<and> dget s0 ''user_id'' = JStr u \<and>
      status_of s0 \<notin> {''FINISHED'', ''FAILED''})"
proof -
  from call have mx: "\<not> mx < 1" by (auto simp: begin_prepare_def)
  note call' = call [unfolded begin_prepare_def if_not_P [OF mx] Let_def]
  from state_lock_result [OF st call' st'] show ?thesis
    using mx st
    by (auto simp: rbind_eq_Inr stored_def split: if_splits option.splits
        intro!: bound_existsI [simplified] simp: new_session_fields)
qed


text \<open>Capacity: after a prepare that bound a Session (new or existing) the Sessions of that user
  that hold a slot are at most the allowance; the Session holds one of them, and no other Session and
  no lease changed.\<close>

theorem begin_prepare_within_capacity:
  assumes "stored fs m"
    and "begin_prepare sid u env ent mx dst eg key uuid t1 t2 t3 fs = (Inr (s, False), fs')"
    and "stored fs' m'"
  shows "int (slots_used m' u) \<le> mx \<and> holds_slot s \<and> map_of (sessions m') sid = Some s \<and>
    (\<forall>other. other \<noteq> sid \<longrightarrow> map_of (sessions m') other = map_of (sessions m) other) \<and>
    leases m' = leases m"
proof -
  note new = begin_prepare_new [OF assms]
  then have "int (occupied m sid u) + 1 \<le> mx" by simp
  moreover have "slots_used m' u \<le> occupied m sid u + 1" using new slots_used_put by blast
  moreover have "holds_slot s" using new by (auto simp: holds_slot_def bound_session_fields)
  ultimately show ?thesis using new by simp
qed

lemma py_eq_prepare_request:
  "py_eq (JObj (prepare_request a b c)) (JObj (prepare_request a' b' c')) \<longleftrightarrow> a = a' \<and> b = b' \<and> c = c'"
  by (cases b; cases b') (auto simp: prepare_request_def)

lemma begin_prepare_bound:
  assumes st: "stored fs m" and s: "map_of (sessions m) sid = Some s"
    and key: "dget s ''idempotency_key'' = JStr key"
    and req: "configured_request s = prepare_request env dst eg"
    and u: "dget s ''user_id'' = JStr u" and live: "status_of s \<notin> {''FINISHED'', ''FAILED''}"
    and mx: "1 \<le> mx" and free: "reject_active_cleanup_lease_locked m sid t1 = Inr ()"
    and call: "begin_prepare sid u env' ent mx dst' eg' key' uuid t1 t2 t3 fs = (r, fs')"
  shows "stored fs' m \<and>
    r = (if env' = env \<and> dst' = dst \<and> eg' = eg \<and> key' = key then Inr (s, True) else Inl InvalidTransition)"
proof -
  from mx have mx': "\<not> mx < 1" by simp
  note call' = call [unfolded begin_prepare_def if_not_P [OF mx'] Let_def]
  show ?thesis
    by (rule state_lock_reads [OF st call'])
      (simp add: s key req u live [simplified] free py_eq_prepare_request del: py_eq.simps)
qed

text \<open>Idempotency: once a prepare bound a Session, the same request with the same key returns
  that Session as a replay, and a request for another environment, destination, egress mode or key is
  refused with InvalidTransition; neither changes the store, whatever allowance it comes with.\<close>

theorem begin_prepare_idempotent:
  assumes st: "stored fs m"
    and first: "begin_prepare sid u env ent mx dst eg key uuid t1 t2 t3 fs = (Inr (s, False), fs')"
    and st': "stored fs' m'" and mx': "1 \<le> mx'"
    and free: "reject_active_cleanup_lease_locked m' sid t1' = Inr ()"
    and again: "begin_prepare sid u env' ent' mx' dst' eg' key' uuid' t1' t2' t3' fs' = (r, fs'')"
  shows "stored fs'' m' \<and>
    r = (if env' = env \<and> dst' = dst \<and> eg' = eg \<and> key' = key then Inr (s, True) else Inl InvalidTransition)"
proof -
  note new = begin_prepare_new [OF st first st']
  then have "map_of (sessions m') sid = Some s" by simp
  with new show ?thesis
    by (intro begin_prepare_bound [OF st' _ _ _ _ _ mx' free again]) (auto simp: bound_session_fields)
qed


lemma fadd_deadline:
  assumes "0 \<le> t" and "t + 43200 < float_overflow"
  shows "validated_derived_timestamp t (JFloat (fscale (Fin 12) 3600)) = Inr (t + 43200)"
  using assms float_overflow_large
  by (simp add: validated_derived_timestamp_def mk_float_Fin not_less)

lemma new_session_ok:
  assumes "0 \<le> t" and "t + 43200 < float_overflow"
  shows "new_session nid u env eg (JTime 12) (Fin t) = Inr (fresh_record nid u env eg (JTime (t + 43200)) t)"
  using assms fadd_deadline [OF assms] by (simp add: new_session_def deadline_offset_def not_less)

lemma fresh_record_rename:
  "dset (fresh_record nid u env eg dl t) ''session_id'' (JStr sid) = fresh_record sid u env eg dl t"
  by (simp add: fresh_record_def dset_def)

lemma bound_session_wf:
  assumes "session_wf sid s" and "0 \<le> t"
  shows "session_wf sid (bound_session env dst eg key ent t s)"
  unfolding bound_session_def using assms
  by (intro session_wf_dupdate) (simp_all add: field_defs)

lemma bound_session_json_ok:
  "json_ok (JObj s) \<Longrightarrow> json_ok (JObj (bound_session env dst eg key ent t s))"
  unfolding bound_session_def by (intro json_ok_dupdate) (simp_all add: prepare_request_def)

lemma begin_prepare_fresh:
  assumes st: "stored fs m" and new: "map_of (sessions m) sid = None" "map_of (leases m) sid = None"
    and ids: "sid \<noteq> []" "u \<noteq> []" and clock: "0 \<le> t2" "t2 + 43200 < float_overflow" "0 \<le> t3"
    and call: "begin_prepare sid u env ent mx dst eg key uuid t1 (Fin t2) (Fin t3) fs = (r, fs')"
  shows "if mx \<le> 0 \<or> mx \<le> int (occupied m sid u)
    then r = Inl EntitlementExceeded \<and> stored fs' m
    else \<exists>s. r = Inr (s, False) \<and> status_of s = ''STOPPED'' \<and>
      dget s ''absolute_deadline_at'' = JTime (t2 + 12 * 3600) \<and>
      stored fs' ((put_session m sid s)\<lparr>authoritative := True\<rparr>)"
proof (cases "mx < 1")
  case True
  then show ?thesis using call st by (auto simp: begin_prepare_def)
next
  case mx: False
  note call' = call [unfolded begin_prepare_def if_not_P [OF mx] Let_def]
  have lease: "reject_active_cleanup_lease_locked m sid t1 = Inr ()"
    using new(2) by (simp add: reject_active_cleanup_lease_locked_def active_cleanup_lease_locked_def)
  show ?thesis
  proof (cases "mx \<le> int (occupied m sid u)")
    case True
    then have "stored fs' m \<and> r = Inl EntitlementExceeded"
      by (intro state_lock_reads [OF st call']) (simp add: lease new)
    with True show ?thesis by simp
  next
    case False
    let ?s = "bound_session env dst eg key ent t3 (fresh_record sid u env eg (JTime (t2 + 43200)) t2)"
    have "store_ok (put_session m sid ?s)"
      using st ids clock
      by (intro store_ok_put_session [THEN iffD2] conjI bound_session_wf fresh_record_wf
          bound_session_json_ok fresh_record_json_ok) (simp_all add: stored_def)
    then have "stored fs' ((put_session m sid ?s)\<lparr>authoritative := True\<rparr>) \<and> r = Inr (?s, False)"
      using False clock
      by (intro state_lock_writes [OF st call'])
        (simp_all add: lease new new_session_ok fresh_record_rename not_less)
    moreover have "dget ?s ''absolute_deadline_at'' = JTime (t2 + 12 * 3600)"
      by (simp add: bound_session_def) (simp add: fresh_record_def dget_def)
    ultimately show ?thesis using False mx by (auto simp: fresh_record_fields)
  qed
qed

text \<open>Admission of a new Session: with sound clocks and no cleanup lease on its id, a prepare is
  refused with EntitlementExceeded, changing nothing, exactly when the user's other Sessions already use
  up the allowance; otherwise it returns a STOPPED Session with a 12 hour deadline, and that is the
  only thing that changed in the store.\<close>

theorem begin_prepare_admission:
  assumes st: "stored fs m" and new: "map_of (sessions m) sid = None" "map_of (leases m) sid = None"
    and ids: "sid \<noteq> []" "u \<noteq> []" and clock: "0 \<le> t2" "t2 + 43200 < float_overflow" "0 \<le> t3"
    and call: "begin_prepare sid u env ent mx dst eg key uuid t1 (Fin t2) (Fin t3) fs = (r, fs')"
  shows "if mx \<le> 0 \<or> mx \<le> int (occupied m sid u)
    then r = Inl EntitlementExceeded \<and> stored fs' m
    else \<exists>s. r = Inr (s, False) \<and> status_of s = ''STOPPED'' \<and>
      dget s ''absolute_deadline_at'' = JTime (t2 + 12 * 3600) \<and>
      stored fs' ((put_session m sid s)\<lparr>authoritative := True\<rparr>)"
  by (rule begin_prepare_fresh [OF assms])

definition demo_prepare :: "string \<Rightarrow> authority \<Rightarrow> (err + dict \<times> bool) \<times> authority" where
  "demo_prepare key = begin_prepare ''s1'' ''u1'' ''production'' ''e1'' 1 None ''DIRECT_PUSH'' key ''id'' (Fin 1) (Fin 1) (Fin 1)"

lemma demo_prepare_ok:
  "\<exists>s m'. demo_prepare ''k1'' fresh_authority = (Inr (s, False), snd (demo_prepare ''k1'' fresh_authority)) \<and>
     stored (snd (demo_prepare ''k1'' fresh_authority)) m' \<and> leases m' = []"
proof -
  obtain r fs' where call: "demo_prepare ''k1'' fresh_authority = (r, fs')" by (cases "demo_prepare ''k1'' fresh_authority")
  have "(1::rat) + 43200 < float_overflow" using float_overflow_large by simp
  then show ?thesis
    using begin_prepare_fresh [OF stored_fresh _ _ _ _ _ _ _ call [unfolded demo_prepare_def]] call
    by (auto simp: pristine_store_def occupied_def)
qed

theorem begin_prepare_admission_witness:
  "\<exists>s. fst (demo_prepare ''k1'' fresh_authority) = Inr (s, False) \<and> status_of s = ''STOPPED''"
proof -
  obtain r fs' where call: "demo_prepare ''k1'' fresh_authority = (r, fs')" by (cases "demo_prepare ''k1'' fresh_authority")
  have "(1::rat) + 43200 < float_overflow" using float_overflow_large by simp
  then show ?thesis
    using begin_prepare_admission [OF stored_fresh _ _ _ _ _ _ _ call [unfolded demo_prepare_def]] call
    by (auto simp: pristine_store_def occupied_def)
qed

theorem begin_prepare_within_capacity_witness:
  "\<exists>s m'. demo_prepare ''k1'' fresh_authority = (Inr (s, False), snd (demo_prepare ''k1'' fresh_authority)) \<and>
     stored (snd (demo_prepare ''k1'' fresh_authority)) m' \<and> slots_used m' ''u1'' \<le> 1"
  using demo_prepare_ok begin_prepare_within_capacity [OF stored_fresh, of "''s1''" "''u1''"]
  unfolding demo_prepare_def by fastforce

theorem begin_prepare_idempotent_witness:
  "\<exists>s. fst (demo_prepare ''k1'' (snd (demo_prepare ''k1'' fresh_authority))) = Inr (s, True) \<and>
     fst (demo_prepare ''k2'' (snd (demo_prepare ''k1'' fresh_authority))) = Inl InvalidTransition"
proof -
  obtain s m' where 1: "demo_prepare ''k1'' fresh_authority = (Inr (s, False), snd (demo_prepare ''k1'' fresh_authority))"
    "stored (snd (demo_prepare ''k1'' fresh_authority)) m'" "leases m' = []"
    using demo_prepare_ok by blast
  have free: "reject_active_cleanup_lease_locked m' ''s1'' (Fin 1) = Inr ()"
    using 1(3) by (simp add: reject_active_cleanup_lease_locked_def active_cleanup_lease_locked_def)
  note again = begin_prepare_idempotent [OF stored_fresh 1(1) [unfolded demo_prepare_def] _ _ free,
      unfolded demo_prepare_def [symmetric], OF 1(2)]
  show ?thesis
    using again [of 1 "''production''" "''e1''" None "''DIRECT_PUSH''" "''k1''" "''id''" "Fin 1" "Fin 1"]
      again [of 1 "''production''" "''e1''" None "''DIRECT_PUSH''" "''k2''" "''id''" "Fin 1" "Fin 1"]
    by (simp add: demo_prepare_def) (metis prod.collapse)
qed

end
