(* ===== verification/Session_Leases.thy ===== *)
theory Session_Leases
  imports Session_Prepare
begin

text \<open>
  Cleanup leases: the tombstones that keep provisioning and cleanup of one Session id apart.
\<close>

section \<open>When a lease is active\<close>

lemma active_lease_fin:
  assumes "store_ok m" and "map_of (leases m) sid = Some l"
  obtains t where "0 \<le> t" and "validated_timestamp (dget l ''expires_at'') = Inr t"
  using store_ok_lease [OF assms] that
  by (auto simp: lease_wf_def validate_cleanup_lease_def is_ok_rbind require_finite_number_def rbind_eq_Inr
      dest: validated_timestamp_nonneg)

text \<open>A lease blocks a call made at time \<open>now\<close> when it expires after it.\<close>

definition lease_active :: "store_state \<Rightarrow> string \<Rightarrow> rat \<Rightarrow> bool" where
  "lease_active m session_id now =
     (case map_of (leases m) session_id of
        None \<Rightarrow> False
      | Some lease \<Rightarrow> (case validated_timestamp (dget lease ''expires_at'') of Inl _ \<Rightarrow> False | Inr t \<Rightarrow> now < t))"

lemma active_cleanup_lease_eq:
  assumes "store_ok m" and "0 \<le> now"
  shows "active_cleanup_lease_locked m sid (Fin now) =
    Inr (if lease_active m sid now then map_of (leases m) sid else None)"
proof (cases "map_of (leases m) sid")
  case None
  then show ?thesis by (simp add: active_cleanup_lease_locked_def lease_active_def)
next
  case (Some l)
  obtain t where "validated_timestamp (dget l ''expires_at'') = Inr t"
    by (rule active_lease_fin [OF assms(1) Some])
  with Some assms(2) show ?thesis by (simp add: active_cleanup_lease_locked_def lease_active_def not_less)
qed

lemma reject_active_lease_eq:
  assumes "store_ok m" and "0 \<le> now"
  shows "reject_active_cleanup_lease_locked m sid (Fin now) =
    (if lease_active m sid now then Inl OrphanCleanupInProgress else Inr ())"
  using active_cleanup_lease_eq [OF assms, of sid]
  by (auto simp: reject_active_cleanup_lease_locked_def lease_active_def split: option.splits)

lemma lease_blocks:
  assumes st: "stored fs m" and act: "lease_active m sid now" and now: "0 \<le> now"
  shows "claim_orphan_cleanup sid rid rk ls uuid (Fin now) t fs = (r1, fs1) \<Longrightarrow> r1 = Inr None \<and> stored fs1 m"
    and "claim_session_cleanup sid ex ls uuid (Fin now) t fs = (r2, fs2) \<Longrightarrow> r2 = Inr None \<and> stored fs2 m"
    and "claim_provisioning sid opid (JTime st0) (Fin now) t fs = (r3, fs3) \<Longrightarrow> 0 \<le> st0 \<Longrightarrow>
       r3 = Inl OrphanCleanupInProgress \<and> stored fs3 m"
    and "begin_prepare sid u env ent mx dst eg key uuid (Fin now) t t' fs = (r4, fs4) \<Longrightarrow> 1 \<le> mx \<Longrightarrow>
       r4 = Inl OrphanCleanupInProgress \<and> stored fs4 m"
    and "reserve_prepare_slot sid u env ent mx uuid (Fin now) t t' fs = (r5, fs5) \<Longrightarrow> 1 \<le> mx \<Longrightarrow>
       r5 = Inl OrphanCleanupInProgress \<and> stored fs5 m"
proof -
  have ok: "store_ok m" using st by (simp add: stored_def)
  note lease = active_cleanup_lease_eq [OF ok now, of sid] reject_active_lease_eq [OF ok now, of sid] act
  obtain l where l: "map_of (leases m) sid = Some l" using act by (auto simp: lease_active_def split: option.splits)
  show "r1 = Inr None \<and> stored fs1 m" if "claim_orphan_cleanup sid rid rk ls uuid (Fin now) t fs = (r1, fs1)"
    using state_lock_reads [OF st that [unfolded claim_orphan_cleanup_def], of "Inr None"] lease l
    by (auto split: option.splits)
  show "r2 = Inr None \<and> stored fs2 m" if "claim_session_cleanup sid ex ls uuid (Fin now) t fs = (r2, fs2)"
    using state_lock_reads [OF st that [unfolded claim_session_cleanup_def Let_def], of "Inr None"] lease l
    by (auto split: option.splits)
  show "r3 = Inl OrphanCleanupInProgress \<and> stored fs3 m"
    if "claim_provisioning sid opid (JTime st0) (Fin now) t fs = (r3, fs3)" "0 \<le> st0"
  proof -
    from that(2) have v: "validated_timestamp (JTime st0) = Inr st0" by (simp add: not_less)
    show ?thesis
      using state_lock_reads [OF st that(1) [unfolded claim_provisioning_def v sum.case], of "Inl OrphanCleanupInProgress"]
        lease by simp
  qed
  show "r4 = Inl OrphanCleanupInProgress \<and> stored fs4 m"
    if "begin_prepare sid u env ent mx dst eg key uuid (Fin now) t t' fs = (r4, fs4)" "1 \<le> mx"
  proof -
    from that(2) have v: "\<not> mx < 1" by simp
    show ?thesis
      using state_lock_reads [OF st that(1) [unfolded begin_prepare_def if_not_P [OF v] Let_def], of "Inl OrphanCleanupInProgress"]
        lease by simp
  qed
  show "r5 = Inl OrphanCleanupInProgress \<and> stored fs5 m"
    if "reserve_prepare_slot sid u env ent mx uuid (Fin now) t t' fs = (r5, fs5)" "1 \<le> mx"
  proof -
    from that(2) have v: "\<not> mx < 1" by simp
    show ?thesis
      using state_lock_reads [OF st that(1) [unfolded reserve_prepare_slot_def if_not_P [OF v] Let_def], of "Inl OrphanCleanupInProgress"]
        lease by simp
  qed
qed


lemma lease_offset_ge: "\<exists>d. 1 \<le> d \<and> lease_offset (Fin x) = Fin d \<and> (1 \<le> x \<longrightarrow> d = x)"
  by (cases "1 < x") (auto simp: lease_offset_def)

lemma lease_expiry:
  assumes "0 \<le> now" and "1 \<le> x" and "now + x < float_overflow"
  shows "validated_derived_timestamp now (JFloat (lease_offset (Fin x))) = Inr (now + x)"
  using assms by (auto simp: validated_derived_timestamp_def lease_offset_def mk_float_Fin not_less)

definition orphan_lease :: "string \<Rightarrow> string \<Rightarrow> string \<Rightarrow> rat \<Rightarrow> rat \<Rightarrow> dict" where
  "orphan_lease lease_id resource_id resource_kind now expires_at =
     [(''lease_id'', JStr lease_id), (''scope'', JStr ''orphan''), (''resource_id'', JStr resource_id),
      (''resource_kind'', JStr resource_kind), (''created_at'', JTime now), (''expires_at'', JTime expires_at)]"

lemma orphan_lease_wf:
  assumes "sid \<noteq> []" "lid \<noteq> []" "rid \<noteq> []" "rk \<noteq> []" "0 \<le> now" "now < ex"
  shows "lease_wf sid (orphan_lease lid rid rk now ex)" "json_ok (JObj (orphan_lease lid rid rk now ex))"
  using assms
  by (simp_all add: lease_wf_def validate_cleanup_lease_def orphan_lease_def is_ok_rbind
      require_nonempty_string_Inr require_finite_number_def dget_def rbind_eq_Inr not_less)

lemma claim_orphan_granted:
  assumes st: "stored fs m" and free: "\<not> lease_active m sid now" and now: "0 \<le> now"
    and idle: "case map_of (sessions m) sid of None \<Rightarrow> True | Some s \<Rightarrow> status_of s \<in> TERMINAL_STATES"
    and ids: "sid \<noteq> []" "lid \<noteq> []" "rid \<noteq> []" "rk \<noteq> []"
    and x: "1 \<le> x" "now + x < float_overflow"
    and call: "claim_orphan_cleanup sid rid rk (Fin x) lid (Fin now) (Fin now) fs = (r, fs')"
  shows "r = Inr (Some lid) \<and>
    stored fs' ((put_lease m sid (orphan_lease lid rid rk now (now + x)))\<lparr>authoritative := True\<rparr>)"
proof -
  have ok: "store_ok m" using st by (simp add: stored_def)
  note lease = active_cleanup_lease_eq [OF ok now, of sid] free
  have "store_ok (put_lease m sid (orphan_lease lid rid rk now (now + x)))"
    using orphan_lease_wf [OF ids now, of "now + x"] x by (simp add: store_ok_put_lease [OF ok])
  from state_lock_writes [OF st call [unfolded claim_orphan_cleanup_def] _ this, of "Some lid"]
  show ?thesis using lease now idle lease_expiry [OF now x]
    by (simp add: orphan_lease_def not_less split: option.splits)
qed


text \<open>C5. A cleanup lease is exclusive: while a lease on a Session id has not expired, no second
  orphan or session cleanup can be claimed, and no prepare, slot reservation or provisioner can start
  on that id; each of them is turned away with OrphanCleanupInProgress.\<close>

theorem cleanup_lease_excludes:
  assumes st: "stored fs m" and act: "lease_active m sid now" and now: "0 \<le> now"
    and mx: "1 \<le> mx" and started: "0 \<le> started"
  shows "fst (claim_orphan_cleanup sid rid rk ls uuid (Fin now) t fs) = Inr None \<and>
    fst (claim_session_cleanup sid ex ls uuid (Fin now) t fs) = Inr None \<and>
    fst (claim_provisioning sid opid (JTime started) (Fin now) t fs) = Inl OrphanCleanupInProgress \<and>
    fst (begin_prepare sid u env ent mx dst eg key uuid (Fin now) t t' fs) = Inl OrphanCleanupInProgress \<and>
    fst (reserve_prepare_slot sid u env ent mx uuid (Fin now) t t' fs) = Inl OrphanCleanupInProgress"
  using lease_blocks [OF st act now] mx started by (metis prod.collapse)

lemma release_orphan_other:
  assumes st: "stored fs m" and l: "map_of (leases m) sid = Some l" and ne: "dget l ''lease_id'' \<noteq> JStr other"
  shows "stored (snd (release_orphan_cleanup sid other fs)) m"
  using state_lock_reads [OF st, of _ "fst (release_orphan_cleanup sid other fs)" _ "Inr ()"] l ne
  unfolding release_orphan_cleanup_def by (simp add: prod_eq_iff)

lemma release_orphan_own:
  assumes st: "stored fs m" and l: "map_of (leases m) sid = Some l" and eq: "dget l ''lease_id'' = JStr lid"
  shows "stored (snd (release_orphan_cleanup sid lid fs)) ((drop_lease m sid)\<lparr>authoritative := True\<rparr>)"
proof -
  have "store_ok (drop_lease m sid)" using st store_ok_drop_lease by (auto simp: stored_def)
  from state_lock_writes [OF st _ _ this, of _ "fst (release_orphan_cleanup sid lid fs)" _ "()"] l eq
  show ?thesis unfolding release_orphan_cleanup_def by (simp add: prod_eq_iff)
qed

lemma orphan_still_owned_eq:
  assumes st: "stored fs m" and t: "0 \<le> t" and l: "map_of (leases m) sid = Some l"
    and scope: "dget_or l ''scope'' (JStr ''orphan'') = JStr ''orphan''"
    and idle: "case map_of (sessions m) sid of None \<Rightarrow> True | Some s \<Rightarrow> status_of s \<in> TERMINAL_STATES"
  shows "fst (orphan_cleanup_still_owned sid other (Fin t) fs) =
    Inr (lease_active m sid t \<and> dget l ''lease_id'' = JStr other)"
proof -
  have "store_ok m" using st by (simp add: stored_def)
  note lease = active_cleanup_lease_eq [OF this t, of sid]
  show ?thesis
    unfolding orphan_cleanup_still_owned_def
    by (rule state_lock_read [OF st, THEN conjunct1])
      (use lease l scope idle in \<open>simp split: option.splits\<close>)
qed

text \<open>The orphan cleanup protocol: a claim on an id with no Session in service is granted and
  touches no Session; the lease is active exactly until its expiry; until then exactly its holder is
  told that it still owns the cleanup; a release with another lease id changes nothing and the
  holder's release removes the lease.\<close>

theorem orphan_cleanup_protocol:
  assumes st: "stored fs m" and free: "\<not> lease_active m sid now" and now: "0 \<le> now"
    and idle: "case map_of (sessions m) sid of None \<Rightarrow> True | Some s \<Rightarrow> status_of s \<in> TERMINAL_STATES"
    and ids: "sid \<noteq> []" "lid \<noteq> []" "rid \<noteq> []" "rk \<noteq> []"
    and x: "1 \<le> x" "now + x < float_overflow"
    and call: "claim_orphan_cleanup sid rid rk (Fin x) lid (Fin now) (Fin now) fs = (r, fs')"
  shows "r = Inr (Some lid) \<and> (\<exists>m'. stored fs' m' \<and> sessions m' = sessions m \<and>
    (\<forall>t. lease_active m' sid t \<longleftrightarrow> t < now + x) \<and>
    (\<forall>t other. 0 \<le> t \<longrightarrow>
       fst (orphan_cleanup_still_owned sid other (Fin t) fs') = Inr (t < now + x \<and> other = lid)) \<and>
    (\<forall>other. other \<noteq> lid \<longrightarrow> stored (snd (release_orphan_cleanup sid other fs')) m') \<and>
    (\<exists>m2. stored (snd (release_orphan_cleanup sid lid fs')) m2 \<and> sessions m2 = sessions m \<and>
       map_of (leases m2) sid = None))"
proof -
  define l where "l = orphan_lease lid rid rk now (now + x)"
  define m' where "m' = (put_lease m sid l)\<lparr>authoritative := True\<rparr>"
  have r: "r = Inr (Some lid)" and st': "stored fs' m'"
    using claim_orphan_granted [OF st free now idle ids x call] by (simp_all add: m'_def l_def)
  have l: "map_of (leases m') sid = Some l" and ss: "sessions m' = sessions m"
    by (simp_all add: m'_def)
  have f: "dget l ''lease_id'' = JStr lid" "dget_or l ''scope'' (JStr ''orphan'') = JStr ''orphan''"
    "dget l ''expires_at'' = JTime (now + x)"
    by (simp_all add: l_def orphan_lease_def dget_def dget_or_def)
  have act: "\<And>t. lease_active m' sid t \<longleftrightarrow> t < now + x"
    using l f now x by (simp add: lease_active_def)
  have idle': "case map_of (sessions m') sid of None \<Rightarrow> True | Some s \<Rightarrow> status_of s \<in> TERMINAL_STATES"
    using idle ss by simp
  have own: "fst (orphan_cleanup_still_owned sid other (Fin t) fs') = Inr (t < now + x \<and> other = lid)"
    if "0 \<le> t" for t other
    using orphan_still_owned_eq [OF st' that l f(2) idle', of other] act f(1) by auto
  have rel: "stored (snd (release_orphan_cleanup sid other fs')) m'" if "other \<noteq> lid" for other
    using release_orphan_other [OF st' l] f(1) that by simp
  have "stored (snd (release_orphan_cleanup sid lid fs')) ((drop_lease m' sid)\<lparr>authoritative := True\<rparr>)"
    by (rule release_orphan_own [OF st' l f(1)])
  moreover have "sessions ((drop_lease m' sid)\<lparr>authoritative := True\<rparr>) = sessions m"
    "map_of (leases ((drop_lease m' sid)\<lparr>authoritative := True\<rparr>)) sid = None"
    using ss by simp_all
  ultimately show ?thesis using r st' ss act own rel by blast
qed

definition demo_claim :: "(err + string option) \<times> authority" where
  "demo_claim = claim_orphan_cleanup ''s1'' ''vm1'' ''server'' (Fin 60) ''l1'' (Fin 5) (Fin 5) fresh_authority"

lemma demo_claim_ok:
  "\<exists>m'. stored (snd demo_claim) m' \<and> lease_active m' ''s1'' 10"
proof -
  have call: "demo_claim = (fst demo_claim, snd demo_claim)" by simp
  have "(5::rat) + 60 < float_overflow" using float_overflow_large by simp
  then have "stored (snd demo_claim) ((put_lease pristine_store ''s1'' (orphan_lease ''l1'' ''vm1'' ''server'' 5 (5 + 60)))\<lparr>authoritative := True\<rparr>)"
    using claim_orphan_granted [OF stored_fresh _ _ _ _ _ _ _ _ _ call [unfolded demo_claim_def]]
    by (simp add: pristine_store_def lease_active_def demo_claim_def)
  then show ?thesis
    by (intro exI conjI) (assumption, simp add: lease_active_def orphan_lease_def dget_def)
qed

theorem cleanup_lease_excludes_witness:
  "\<exists>m'. stored (snd demo_claim) m' \<and> lease_active m' ''s1'' 10 \<and>
    fst (claim_orphan_cleanup ''s1'' ''vm2'' ''server'' (Fin 60) ''l2'' (Fin 10) (Fin 10) (snd demo_claim)) = Inr None"
  using demo_claim_ok cleanup_lease_excludes [of "snd demo_claim" _ "''s1''" 10 1 0] by fastforce

theorem orphan_cleanup_protocol_witness:
  "fst demo_claim = Inr (Some ''l1'') \<and>
   fst (orphan_cleanup_still_owned ''s1'' ''l1'' (Fin 20) (snd demo_claim)) = Inr True \<and>
   fst (orphan_cleanup_still_owned ''s1'' ''l1'' (Fin 65) (snd demo_claim)) = Inr False"
proof -
  have call: "demo_claim = (fst demo_claim, snd demo_claim)" by simp
  have "(5::rat) + 60 < float_overflow" using float_overflow_large by simp
  then show ?thesis
    using orphan_cleanup_protocol [OF stored_fresh _ _ _ _ _ _ _ _ _ call [unfolded demo_claim_def]]
    by (auto simp: pristine_store_def lease_active_def demo_claim_def)
qed

end
