(* ===== verification/Session_Stop.thy ===== *)
theory Session_Stop
  imports Session_Leases
begin

text \<open>
  Stopping a Session, the checkpoints of a provisioner that races with a stop, and transitions on all
  their branches.
\<close>

section \<open>Stopping and checkpoints\<close>

lemma known_state_cases:
  "st \<in> SESSION_STATES \<Longrightarrow> st \<in> TERMINAL_STATES \<or> st \<in> ACTIVE_STATES \<union> {''STOPPING'', ''FAILED_CLEANUP''}"
  by (auto simp: SESSION_STATES_def TERMINAL_STATES_def ACTIVE_STATES_def)

lemma clear_recovery_wf:
  "session_wf sid s \<Longrightarrow> session_wf sid (clear_recovery_candidate s)"
  unfolding clear_recovery_candidate_def by (intro session_wf_dset) (simp_all add: field_defs)

lemma clear_recovery_json_ok:
  "json_ok (JObj s) \<Longrightarrow> json_ok (JObj (clear_recovery_candidate s))"
  unfolding clear_recovery_candidate_def by (intro json_ok_dset) simp_all

lemma stopping_record_wf:
  "session_wf sid s \<Longrightarrow> 0 \<le> t \<Longrightarrow> session_wf sid (stopping_record s t)"
  unfolding stopping_record_def
  by (intro clear_recovery_wf session_wf_dupdate) (simp_all add: field_defs SESSION_STATES_def)

lemma stopping_record_json_ok: "json_ok (JObj s) \<Longrightarrow> json_ok (JObj (stopping_record s t))"
  unfolding stopping_record_def by (intro clear_recovery_json_ok json_ok_dupdate) simp_all

text \<open>A stop request always succeeds on a known Session: in STOPPED, FINISHED or FAILED it changes
  nothing; from any other state the Session becomes STOPPING with cancellation and cleanup flagged, and
  it keeps its provisioning operation and provider resource ids so that cleanup can find them.\<close>

theorem request_stop_outcome:
  assumes st: "stored fs m" and t: "0 \<le> t" and s: "map_of (sessions m) sid = Some s"
  shows "if status_of s \<in> TERMINAL_STATES
    then fst (request_stop sid (Fin t) fs) = Inr s \<and> stored (snd (request_stop sid (Fin t) fs)) m
    else \<exists>s'. fst (request_stop sid (Fin t) fs) = Inr s' \<and>
      stored (snd (request_stop sid (Fin t) fs)) ((put_session m sid s')\<lparr>authoritative := True\<rparr>) \<and>
      status_of s' = ''STOPPING'' \<and> dget s' ''provisioning_cancel_requested'' = JBool True \<and>
      dget s' ''cleanup_pending'' = JBool True \<and>
      dget s' ''provisioning_operation_id'' = dget s ''provisioning_operation_id'' \<and>
      dget s' ''provider_server_id'' = dget s ''provider_server_id'' \<and>
      dget s' ''provider_volume_id'' = dget s ''provider_volume_id''"
proof -
  have ok: "store_ok m" using st by (simp add: stored_def)
  from store_ok_session [OF ok s] have wf: "session_wf sid s" "json_ok (JObj s)" by simp_all
  show ?thesis
  proof (cases "status_of s \<in> TERMINAL_STATES")
    case True
    then show ?thesis
      using state_lock_read [OF st, of _ s] unfolding request_stop_def by (simp add: s)
  next
    case False
    then have act: "status_of s \<in> ACTIVE_STATES \<union> {''STOPPING'', ''FAILED_CLEANUP''}"
      using known_state_cases status_of_wf [OF wf(1)] by blast
    have "store_ok (put_session m sid (stopping_record s t))"
      using wf t by (simp add: store_ok_put_session [OF ok] stopping_record_wf stopping_record_json_ok)
    from state_lock_writes_surj [OF st _ this, of _ "stopping_record s t"]
    have "fst (request_stop sid (Fin t) fs) = Inr (stopping_record s t) \<and>
      stored (snd (request_stop sid (Fin t) fs)) ((put_session m sid (stopping_record s t))\<lparr>authoritative := True\<rparr>)"
      unfolding request_stop_def using s False act t by (simp add: Let_def not_less)
    with False show ?thesis
      by (auto simp: stopping_record_def clear_recovery_candidate_def)
  qed
qed

theorem request_stop_outcome_witness:
  "stored (authority_of (demo_store ''LIVE'' [])) (demo_store ''LIVE'' []) \<and>
   (\<exists>s'. fst (request_stop ''s1'' (Fin 9) (authority_of (demo_store ''LIVE'' []))) = Inr s' \<and>
     status_of s' = ''STOPPING'')"
proof -
  have st: "stored (authority_of (demo_store ''LIVE'' [])) (demo_store ''LIVE'' [])"
    by (rule stored_demo) (simp_all add: SESSION_STATES_def)
  show ?thesis
    using request_stop_outcome [OF st, of 9 "''s1''" "demo_session ''LIVE'' []"] st
    by (auto simp: demo_status TERMINAL_STATES_def)
qed

lemma checkpoint_cancelled:
  assumes st: "stored fs m" and t: "0 \<le> t" and s: "map_of (sessions m) sid = Some s"
    and opid: "dget s ''provisioning_operation_id'' = JStr opid"
    and stop: "status_of s \<in> stop_path"
    and ch: "validate_timestamp_changes ch = Inr ()"
      "list_all (\<lambda>p. field_ok sid (fst p) (snd p) \<and> json_ok (snd p)) ch" "''status'' \<notin> fst ` set ch"
  defines "s' \<equiv> dset (dupdate s ch) ''updated_at'' (JTime t)"
  shows "fst (provisioning_checkpoint sid opid ns completes ch (Fin t) fs) = Inr s' \<and>
    stored (snd (provisioning_checkpoint sid opid ns completes ch (Fin t) fs))
      ((put_session m sid s')\<lparr>authoritative := True\<rparr>)"
proof -
  have ok: "store_ok m" using st by (simp add: stored_def)
  from store_ok_session [OF ok s] have wf: "session_wf sid s" "json_ok (JObj s)" by simp_all
  have "session_wf sid s'"
    unfolding s'_def using wf(1) ch(2) t
    by (intro session_wf_dset session_wf_dupdate) (auto simp: field_defs list_all_iff)
  moreover have "json_ok (JObj s')"
    unfolding s'_def using wf(2) ch(2) by (intro json_ok_dset json_ok_dupdate) (auto simp: list_all_iff)
  ultimately have ok': "store_ok (put_session m sid s')" by (simp add: store_ok_put_session [OF ok])
  show ?thesis
    unfolding provisioning_checkpoint_def ch(1) sum.case
    by (rule state_lock_writes_surj [OF st _ ok'])
      (use stop t in \<open>cases ns; auto simp: s opid s'_def Let_def not_less status_of_dupdate_notin [OF ch(3)] stop_path_def\<close>)
qed

text \<open>A stop wins over a provisioner that is still running: a checkpoint of the operation that holds
  the lease stores the ids the provider returned, whatever state it asks for and even if it says it is
  complete, but leaves the status of a Session that is being stopped as it is and keeps the lease.\<close>

theorem checkpoint_after_stop:
  assumes "stored fs m" and "0 \<le> t" and "map_of (sessions m) sid = Some s"
    and "dget s ''provisioning_operation_id'' = JStr opid" and "status_of s \<in> stop_path"
    and "validate_timestamp_changes ch = Inr ()"
    and "list_all (\<lambda>p. field_ok sid (fst p) (snd p) \<and> json_ok (snd p)) ch"
    and "fst ` set ch \<inter> {''status'', ''updated_at'', ''provisioning_operation_id''} = {}"
    and "distinct (map fst ch)"
  shows "\<exists>s'. fst (provisioning_checkpoint sid opid next_state completes ch (Fin t) fs) = Inr s' \<and>
    stored (snd (provisioning_checkpoint sid opid next_state completes ch (Fin t) fs))
      ((put_session m sid s')\<lparr>authoritative := True\<rparr>) \<and>
    status_of s' = status_of s \<and> dget s' ''provisioning_operation_id'' = JStr opid \<and>
    (\<forall>(k, v) \<in> set ch. dget s' k = v)"
proof -
  have "dget (dset (dupdate s ch) ''updated_at'' (JTime t)) k = v" if "(k, v) \<in> set ch" for k v
  proof -
    have "map_of (rev ch) k = Some v" using that assms(9) by (intro map_of_is_SomeI) (simp_all flip: rev_map)
    moreover have "k \<noteq> ''updated_at''" using that assms(8) by force
    ultimately show ?thesis by (simp add: dget_def map_of_dupdate)
  qed
  moreover have "''status'' \<notin> fst ` set ch" "''provisioning_operation_id'' \<notin> fst ` set ch" using assms(8) by auto
  ultimately show ?thesis
    using checkpoint_cancelled [OF assms(1-7)] assms(4)
    by (auto simp: status_of_dupdate_notin dget_dupdate_notin)
qed


theorem checkpoint_after_stop_witness:
  "\<exists>s'. fst (provisioning_checkpoint ''s1'' ''op1'' (Some ''BOOTSTRAPPING'') True
       [(''provider_server_id'', JStr ''vm1'')] (Fin 9)
       (authority_of (demo_store ''STOPPING'' [(''provisioning_operation_id'', JStr ''op1'')]))) = Inr s' \<and>
     status_of s' = ''STOPPING'' \<and> dget s' ''provider_server_id'' = JStr ''vm1''"
proof -
  let ?ch = "[(''provisioning_operation_id'', JStr ''op1'')]"
  have st: "stored (authority_of (demo_store ''STOPPING'' ?ch)) (demo_store ''STOPPING'' ?ch)"
    by (rule stored_demo) (simp_all add: SESSION_STATES_def field_defs)
  have status: "status_of (demo_session ''STOPPING'' ?ch) = ''STOPPING''" by (simp add: demo_status)
  show ?thesis
    using checkpoint_after_stop [OF st, of 9 "''s1''" "demo_session ''STOPPING'' ?ch" "''op1''"
        "[(''provider_server_id'', JStr ''vm1'')]" "Some ''BOOTSTRAPPING''" True] status
    by (auto simp: stop_path_def demo_session_def field_defs validate_timestamp_changes_def
        SESSION_TIMESTAMP_FIELDS_def dhas_def)
qed

section \<open>Transitions\<close>

lemma transitioned_record_wf:
  assumes "session_wf sid s" and "list_all (\<lambda>p. field_ok sid (fst p) (snd p)) ch" and "ns \<in> SESSION_STATES" and "0 \<le> t"
  shows "session_wf sid (transitioned_record s ch ns t)"
  unfolding transitioned_record_def Let_def using assms
  by (auto intro!: session_wf_dset session_wf_dupdate clear_recovery_wf simp: field_defs)

lemma transitioned_record_json_ok:
  assumes "json_ok (JObj s)" and "list_all (\<lambda>p. json_ok (snd p)) ch"
  shows "json_ok (JObj (transitioned_record s ch ns t))"
  unfolding transitioned_record_def Let_def using assms
  by (auto intro!: json_ok_dset json_ok_dupdate clear_recovery_json_ok)

lemma transitioned_record_released:
  "ns \<in> {''FINISHED'', ''FAILED''} \<Longrightarrow> \<not> holds_slot (transitioned_record s ch ns t)"
  by (auto simp: holds_slot_def transitioned_record_def Let_def CAPACITY_STATES_def ACTIVE_STATES_def)

definition transition_allowed :: "string \<Rightarrow> string set option \<Rightarrow> dict \<Rightarrow> bool" where
  "transition_allowed ns af s \<longleftrightarrow> (case af of None \<Rightarrow> ns \<in> transitions_from (status_of s) | Some allowed \<Rightarrow> status_of s \<in> allowed)"

lemma transition_locked:
  "validate_timestamp_changes ch = Inr () \<Longrightarrow> ns \<in> SESSION_STATES \<Longrightarrow> 0 \<le> t \<Longrightarrow>
   transition sid ns af ch (Fin t) = state_lock (\<lambda>m.
      rbind (from_some KeyError (map_of (sessions m) sid)) (\<lambda>s.
      rbind (require InvalidTransition (transition_allowed ns af s)) (\<lambda>_.
      Inr (transitioned_record s ch ns t, Some (put_session m sid (transitioned_record s ch ns t))))))"
  unfolding transition_def transition_allowed_def by (intro ext, cases af) (simp_all add: Let_def not_less)

lemma transition_granted:
  assumes st: "stored fs m" and t: "0 \<le> t" and ns: "ns \<in> SESSION_STATES"
    and ch: "validate_timestamp_changes ch = Inr ()"
      "list_all (\<lambda>p. field_ok sid (fst p) (snd p) \<and> json_ok (snd p)) ch"
    and s: "map_of (sessions m) sid = Some s" and "transition_allowed ns af s"
  shows "fst (transition sid ns af ch (Fin t) fs) = Inr (transitioned_record s ch ns t) \<and>
    stored (snd (transition sid ns af ch (Fin t) fs)) ((put_session m sid (transitioned_record s ch ns t))\<lparr>authoritative := True\<rparr>)"
proof -
  have ok: "store_ok m" using st by (simp add: stored_def)
  from store_ok_session [OF ok s] have wf: "session_wf sid s" "json_ok (JObj s)" by simp_all
  let ?s = "transitioned_record s ch ns t"
  have ok': "store_ok (put_session m sid ?s)"
    using wf ch(2) ns t transitioned_record_wf [of sid s ch ns t] transitioned_record_json_ok [of s ch ns t]
    by (simp add: store_ok_put_session [OF ok] list_all_iff)
  show ?thesis
    unfolding transition_locked [OF ch(1) ns t] by (rule state_lock_writes_surj [OF st _ ok']) (simp add: s assms(7))
qed

text \<open>A transition on every branch: unknown states and moves the table (or the explicit list of predecessors) does not
  allow raise InvalidTransition and change nothing, an unknown Session raises KeyError, and an allowed
  move sets the status, clears the recovery candidate and, into FINISHED or FAILED, gives back the
  capacity slot.\<close>

theorem transition_outcome:
  assumes st: "stored fs m" and t: "0 \<le> t"
    and ch: "validate_timestamp_changes ch = Inr ()"
      "list_all (\<lambda>p. field_ok sid (fst p) (snd p) \<and> json_ok (snd p)) ch"
  shows "case map_of (sessions m) sid of
      None \<Rightarrow> fst (transition sid ns af ch (Fin t) fs) = Inl (if ns \<in> SESSION_STATES then KeyError else InvalidTransition)
    | Some s \<Rightarrow>
        if ns \<notin> SESSION_STATES \<or>
           (case af of None \<Rightarrow> ns \<notin> transitions_from (status_of s) | Some allowed \<Rightarrow> status_of s \<notin> allowed)
        then fst (transition sid ns af ch (Fin t) fs) = Inl InvalidTransition \<and>
             stored (snd (transition sid ns af ch (Fin t) fs)) m
        else \<exists>s'. fst (transition sid ns af ch (Fin t) fs) = Inr s' \<and>
             stored (snd (transition sid ns af ch (Fin t) fs)) ((put_session m sid s')\<lparr>authoritative := True\<rparr>) \<and>
             status_of s' = ns \<and> dget s' ''updated_at'' = JTime t \<and>
             dget s' ''recovery_candidate_since'' = JNull \<and>
             (ns \<in> {''FINISHED'', ''FAILED''} \<longrightarrow> \<not> holds_slot s')"
proof (cases "ns \<in> SESSION_STATES")
  case False
  then show ?thesis using st by (simp add: transition_def split: option.split)
next
  case ns: True
  note tr = transition_locked [OF ch(1) ns t, of sid af]
  show ?thesis
  proof (cases "map_of (sessions m) sid")
    case None
    then have "fst (transition sid ns af ch (Fin t) fs) = Inl KeyError"
      unfolding tr by (intro state_lock_raise [OF st, THEN conjunct1]) simp
    with None ns show ?thesis by simp
  next
    case (Some s)
    show ?thesis
    proof (cases "transition_allowed ns af s")
      case True
      let ?s = "transitioned_record s ch ns t"
      have "dget ?s ''updated_at'' = JTime t" "dget ?s ''recovery_candidate_since'' = JNull"
        by (simp_all add: transitioned_record_def clear_recovery_candidate_def Let_def)
      then show ?thesis
        using Some True ns transition_granted [OF st t ns ch Some True] transitioned_record_released [of ns s ch t]
        by (auto simp: transition_allowed_def split: option.splits)
    next
      case False
      have "fst (transition sid ns af ch (Fin t) fs) = Inl InvalidTransition \<and> stored (snd (transition sid ns af ch (Fin t) fs)) m"
        unfolding tr by (rule state_lock_raise [OF st]) (simp add: Some False)
      with False Some show ?thesis by (auto simp: transition_allowed_def split: option.splits)
    qed
  qed
qed

theorem transition_outcome_witness:
  "fst (transition ''s1'' ''LIVE'' None [] (Fin 9) (authority_of (demo_store ''STOPPED'' []))) = Inl InvalidTransition \<and>
   (\<exists>s'. fst (transition ''s1'' ''FINISHED'' None [] (Fin 9) (authority_of (demo_store ''STOPPING'' []))) = Inr s' \<and>
     status_of s' = ''FINISHED'' \<and> \<not> holds_slot s')"
proof -
  have st: "stored (authority_of (demo_store x [])) (demo_store x [])" if "x \<in> {''STOPPED'', ''STOPPING''}" for x
    by (rule stored_demo) (use that in \<open>auto simp: SESSION_STATES_def\<close>)
  have v: "validate_timestamp_changes [] = Inr ()" by (simp add: validate_timestamp_changes_def dhas_def)
  have d: "status_of (demo_session x []) = x" for x by (rule demo_status) simp
  show ?thesis
    using transition_outcome [OF st, of "''STOPPED''" 9 "[]" "''s1''" "''LIVE''" None]
      transition_outcome [OF st, of "''STOPPING''" 9 "[]" "''s1''" "''FINISHED''" None] v
    by (simp add: d transitions_from_simps SESSION_STATES_def) blast
qed

end
