(* ===== verification/Session_Observations.thy ===== *)
theory Session_Observations
  imports Session_Stop
begin

text \<open>
  What a Media Node reports about a Session: heartbeats and ingest observations.
\<close>

section \<open>Heartbeats\<close>

text \<open>Heartbeats: one is recorded exactly when the Session is active, comes from the node and boot it
  is bound to and is not older than the last one; then a ready node moves BOOTSTRAPPING to
  READY_WAIT_INGEST and nothing else changes the status.  Any other heartbeat returns False and leaves
  the store as it was.\<close>

theorem heartbeat_outcome:
  assumes st: "stored fs m" and t: "0 \<le> t" and s: "map_of (sessions m) sid = Some s"
  shows "if status_of s \<in> ACTIVE_STATES \<and> dget s ''node_id'' = JStr node \<and> dget s ''node_boot_id'' = JStr boot \<and>
       (\<forall>p. validated_timestamp (dget s ''node_last_heartbeat_at'') = Inr p \<longrightarrow> p \<le> t)
    then \<exists>s'. fst (record_node_heartbeat sid node boot (JTime t) ready fs) = Inr True \<and>
      stored (snd (record_node_heartbeat sid node boot (JTime t) ready fs)) ((put_session m sid s')\<lparr>authoritative := True\<rparr>) \<and>
      dget s' ''node_last_heartbeat_at'' = JTime t \<and>
      status_of s' = (if ready \<and> status_of s = ''BOOTSTRAPPING'' then ''READY_WAIT_INGEST'' else status_of s) \<and>
      dget s' ''updated_at'' = dget s ''updated_at''
    else fst (record_node_heartbeat sid node boot (JTime t) ready fs) = Inr False \<and>
      stored (snd (record_node_heartbeat sid node boot (JTime t) ready fs)) m"
proof -
  have ok: "store_ok m" using st by (simp add: stored_def)
  from store_ok_session [OF ok s] have wf: "session_wf sid s" and js: "json_ok (JObj s)" by simp_all
  have v: "validated_timestamp (JTime t) = Inr t" using t by (simp add: not_less)
  have hb: "dget s ''node_last_heartbeat_at'' = JNull \<or> (\<exists>p. validated_timestamp (dget s ''node_last_heartbeat_at'') = Inr p)"
    using wf by (auto simp: session_wf_def SESSION_OPTIONAL_TIMESTAMPS_def ts_ok_def is_ok_iff)
  let ?s1 = "dset s ''node_last_heartbeat_at'' (JTime t)"
  let ?s' = "if ready \<and> status_of s = ''BOOTSTRAPPING''
    then dset (dset ?s1 ''status'' (JStr ''READY_WAIT_INGEST'')) ''ready_at'' (JTime t) else ?s1"
  show ?thesis
  proof (cases "status_of s \<in> ACTIVE_STATES \<and> dget s ''node_id'' = JStr node \<and> dget s ''node_boot_id'' = JStr boot \<and>
       (\<forall>p. validated_timestamp (dget s ''node_last_heartbeat_at'') = Inr p \<longrightarrow> p \<le> t)")
    case True
    have "session_wf sid ?s'"
      using wf t by (auto intro!: session_wf_dset simp: field_defs SESSION_STATES_def)
    moreover have "json_ok (JObj ?s')" using js by (auto intro!: json_ok_dset)
    ultimately have ok': "store_ok (put_session m sid ?s')" by (simp add: store_ok_put_session [OF ok])
    have "fst (record_node_heartbeat sid node boot (JTime t) ready fs) = Inr True \<and>
      stored (snd (record_node_heartbeat sid node boot (JTime t) ready fs)) ((put_session m sid ?s')\<lparr>authoritative := True\<rparr>)"
      unfolding record_node_heartbeat_def v sum.case
      by (rule state_lock_writes_surj [OF st _ ok']) (use True hb in \<open>auto simp: s Let_def split: sum.splits\<close>)
    moreover have "dget ?s' ''node_last_heartbeat_at'' = JTime t \<and> dget ?s' ''updated_at'' = dget s ''updated_at'' \<and>
      status_of ?s' = (if ready \<and> status_of s = ''BOOTSTRAPPING'' then ''READY_WAIT_INGEST'' else status_of s)"
      by simp
    ultimately show ?thesis unfolding if_P [OF True] by blast
  next
    case False
    have "fst (record_node_heartbeat sid node boot (JTime t) ready fs) = Inr False \<and>
      stored (snd (record_node_heartbeat sid node boot (JTime t) ready fs)) m"
      unfolding record_node_heartbeat_def v sum.case
      by (rule state_lock_read [OF st]) (use False in \<open>auto simp: s Let_def validated_timestamp_def [of JNull] split: sum.splits\<close>)
    then show ?thesis unfolding if_not_P [OF False] .
  qed
qed

theorem heartbeat_outcome_witness:
  "\<exists>s'. fst (record_node_heartbeat ''s1'' ''n1'' ''b1'' (JTime 9) True
      (authority_of (demo_store ''BOOTSTRAPPING'' [(''node_id'', JStr ''n1''), (''node_boot_id'', JStr ''b1'')]))) = Inr True \<and>
    stored (snd (record_node_heartbeat ''s1'' ''n1'' ''b1'' (JTime 9) True
      (authority_of (demo_store ''BOOTSTRAPPING'' [(''node_id'', JStr ''n1''), (''node_boot_id'', JStr ''b1'')]))))
      ((put_session (demo_store ''BOOTSTRAPPING'' [(''node_id'', JStr ''n1''), (''node_boot_id'', JStr ''b1'')]) ''s1'' s')
        \<lparr>authoritative := True\<rparr>) \<and>
    status_of s' = ''READY_WAIT_INGEST''"
proof -
  let ?ch = "[(''node_id'', JStr ''n1''), (''node_boot_id'', JStr ''b1'')]"
  have st: "stored (authority_of (demo_store ''BOOTSTRAPPING'' ?ch)) (demo_store ''BOOTSTRAPPING'' ?ch)"
    by (rule stored_demo) (simp_all add: SESSION_STATES_def field_defs)
  have status: "status_of (demo_session ''BOOTSTRAPPING'' ?ch) = ''BOOTSTRAPPING''" by (simp add: demo_status)
  have "dget (demo_session ''BOOTSTRAPPING'' ?ch) ''node_last_heartbeat_at'' = JNull"
    by (simp add: demo_session_def) (simp add: fresh_record_def dget_def)
  then have "\<nexists>p. validated_timestamp (dget (demo_session ''BOOTSTRAPPING'' ?ch) ''node_last_heartbeat_at'') = Inr p"
    by (simp add: validated_timestamp_def)
  then show ?thesis
    using heartbeat_outcome [OF st, of 9 "''s1''" "demo_session ''BOOTSTRAPPING'' ?ch" "''n1''" "''b1''" True] status
    by (auto simp: ACTIVE_STATES_def demo_session_def)
qed

section \<open>Recovery from HOLDING\<close>

text \<open>An observation of usable media.\<close>

definition media_accepted :: "ingest_observation \<Rightarrow> bool" where
  "media_accepted ob = (io_online ob \<and> io_status ob \<in> {''ACCEPTED'', ''WARNING''})"

lemma py_eq_jopt: "py_eq (jopt a) (jopt b) \<longleftrightarrow> a = b"
  by (cases a; cases b) simp_all

lemma holding_decision:
  assumes "status_of s = ''HOLDING''" and "media_accepted ob"
  shows "ingest_decision w s ob t =
    (case recovery_candidate_ready w s (jopt (io_source_id ob)) t of
       (ready, s1) \<Rightarrow> (s1, if ready then Some (''LIVE'', ''session.recovered'', None) else None))"
  using assms by (simp add: ingest_decision_def media_accepted_def Let_def)

lemma enter_ingest_state_ok:
  assumes wf: "session_wf sid s" and js: "json_ok (JObj s)" and t: "0 \<le> t" and tgt: "target \<in> SESSION_STATES"
    and ev: "ev \<noteq> []" and pl: "json_ok (JObj pl)"
  shows "\<exists>s'. enter_ingest_state s st on target ev rc pl t = Inr s' \<and> session_wf sid s' \<and> json_ok (JObj s')"
proof -
  let ?s0 = "clear_recovery_candidate (dset s ''status'' (JStr target))"
  let ?s1 = "if target = ''HOLDING'' then dset ?s0 ''last_ingest_at'' (JTime t)
             else if on then
               let session = (if dget ?s0 ''first_ingest_at'' = JNull
                     then dset ?s0 ''first_ingest_at'' (JTime t) else ?s0)
               in dset (dset session ''last_ingest_at'' (JTime t)) ''hold_deadline_at'' JNull
             else dset ?s0 ''last_ingest_at'' (JTime t)"
  have wf0: "session_wf sid ?s0" using wf tgt by (intro clear_recovery_wf session_wf_dset) (simp_all add: field_defs)
  have js0: "json_ok (JObj ?s0)" using js by (intro clear_recovery_json_ok json_ok_dset) simp_all
  have wf1: "session_wf sid ?s1" using wf0 t by (auto intro!: session_wf_dset simp: field_defs Let_def)
  have js1: "json_ok (JObj ?s1)" using js0 by (auto intro!: json_ok_dset simp: Let_def)
  have "json_ok (JObj (dset (dset pl ''from_state'' (JStr st)) ''to_state'' (JStr target)))"
    using pl by (intro json_ok_dset) simp_all
  then obtain e s' where "append_event_locked ?s1 ev rc
      (dset (dset pl ''from_state'' (JStr st)) ''to_state'' (JStr target)) ''node-agent'' t = Inr (e, s')"
    "session_wf sid s'" "json_ok (JObj s')"
    using append_event_locked_obtain [OF wf1 js1 t ev, of "''node-agent''"] by blast
  then show ?thesis unfolding enter_ingest_state_def Let_def by simp
qed

lemma settle_holding:
  assumes wf: "session_wf sid s" and js: "json_ok (JObj s)" and t: "0 \<le> t" and pl: "json_ok (JObj pl)"
    and hold: "status_of s = ''HOLDING''" and ob: "media_accepted ob"
    and rdy: "recovery_candidate_ready w s (jopt (io_source_id ob)) t = (ready, s1)"
    and s1: "session_wf sid s1" "json_ok (JObj s1)"
  shows "\<exists>s'. settle_ingest_state w s ob pl t = Inr s' \<and> session_wf sid s' \<and> json_ok (JObj s') \<and>
    status_of s' = (if ready then ''LIVE'' else ''HOLDING'') \<and> (\<not> ready \<longrightarrow> s' = s1)"
proof (cases ready)
  case True
  obtain s' where s': "enter_ingest_state s1 ''HOLDING'' (io_online ob) ''LIVE'' ''session.recovered'' None pl t = Inr s'"
    "session_wf sid s'" "json_ok (JObj s')"
    using enter_ingest_state_ok [OF s1 t _ _ pl, of "''LIVE''" "''session.recovered''" "''HOLDING''" "io_online ob" None]
    by (auto simp: SESSION_STATES_def)
  have "settle_ingest_state w s ob pl t = Inr s'"
    using True s'(1) by (simp add: settle_ingest_state_def holding_decision [OF hold ob] rdy hold)
  with s' True enter_ingest_state_status [OF s'(1)] show ?thesis by simp
next
  case False
  have "settle_ingest_state w s ob pl t = Inr s1"
    using False by (simp add: settle_ingest_state_def holding_decision [OF hold ob] rdy hold)
  moreover have "status_of s1 = ''HOLDING''"
    using recovery_candidate_ready_status [of w s "jopt (io_source_id ob)" t] rdy hold by simp
  ultimately show ?thesis using s1 False by simp
qed

text \<open>Recovery from HOLDING is debounced: the first usable media only notes a candidate; a later
  observation brings the Session back to LIVE exactly when it comes from the same source and the stable
  window has passed since, and otherwise leaves it HOLDING.\<close>

theorem holding_recovery_window:
  assumes wf: "session_wf sid s" and js: "json_ok (JObj s)" and hold: "status_of s = ''HOLDING''"
    and none: "dget s ''recovery_candidate_since'' = JNull" and w: "0 < w" and t: "0 \<le> t0" "t0 \<le> t1"
    and pl: "json_ok (JObj pl)" and ob: "media_accepted ob0" "media_accepted ob1"
  shows "\<exists>s1 s2. settle_ingest_state w s ob0 pl t0 = Inr s1 \<and> status_of s1 = ''HOLDING'' \<and>
    settle_ingest_state w s1 ob1 pl t1 = Inr s2 \<and>
    status_of s2 = (if io_source_id ob1 = io_source_id ob0 \<and> w \<le> t1 - t0 then ''LIVE'' else ''HOLDING'')"
proof -
  let ?s1 = "dset (dset s ''recovery_candidate_since'' (JTime t0)) ''recovery_candidate_source_id'' (jopt (io_source_id ob0))"
  have r0: "recovery_candidate_ready w s (jopt (io_source_id ob0)) t0 = (False, ?s1)"
    using none w by (simp add: recovery_candidate_ready_def)
  have wf1: "session_wf sid ?s1" using wf t by (intro session_wf_dset) (simp_all add: field_defs)
  have js1: "json_ok (JObj ?s1)" using js by (intro json_ok_dset) simp_all
  have first: "settle_ingest_state w s ob0 pl t0 = Inr ?s1"
    using settle_holding [OF wf js t(1) pl hold ob(1) r0 wf1 js1] by blast
  let ?same = "io_source_id ob1 = io_source_id ob0"
  let ?s2 = "if ?same then ?s1 else dset (dset ?s1 ''recovery_candidate_since'' (JTime t1))
      ''recovery_candidate_source_id'' (jopt (io_source_id ob1))"
  have r1: "recovery_candidate_ready w ?s1 (jopt (io_source_id ob1)) t1 = (?same \<and> w \<le> t1 - t0, ?s2)"
    using w t by (auto simp: recovery_candidate_ready_def py_eq_jopt)
  have wf2: "session_wf sid ?s2" using wf1 t by (auto intro!: session_wf_dset simp: field_defs)
  have js2: "json_ok (JObj ?s2)" using js1 by (auto intro!: json_ok_dset)
  have hold1: "status_of ?s1 = ''HOLDING''" using hold by simp
  from settle_holding [OF wf1 js1 _ pl hold1 ob(2) r1 wf2 js2] t first hold1 show ?thesis by auto
qed

definition demo_observation :: "string option \<Rightarrow> ingest_observation" where
  "demo_observation src = \<lparr>io_status = ''ACCEPTED'', io_path = ''live'', io_online = True, io_source_type = None,
     io_source_id = src, io_bitrate_bps = JNull, io_max_bitrate_bps = JNull, io_tracks = JList [], io_quality = JNull,
     io_reasons = [], io_warnings = [], io_enforced = False, io_observed_at = JNull\<rparr>"

theorem holding_recovery_window_witness:
  "\<exists>s1 s2. settle_ingest_state 3 (demo_session ''HOLDING'' []) (demo_observation (Some ''a'')) [] 10 = Inr s1 \<and>
    settle_ingest_state 3 s1 (demo_observation (Some ''a'')) [] 14 = Inr s2 \<and> status_of s2 = ''LIVE''"
proof -
  have "session_wf ''s1'' (demo_session ''HOLDING'' [])" by (rule demo_session_wf) (simp_all add: SESSION_STATES_def)
  moreover have "json_ok (JObj (demo_session ''HOLDING'' []))"
    by (simp add: demo_session_def json_ok_dset fresh_record_json_ok)
  moreover have "dget (demo_session ''HOLDING'' []) ''recovery_candidate_since'' = JNull"
    by (simp add: demo_session_def) (simp add: fresh_record_def dget_def)
  moreover have "media_accepted (demo_observation (Some ''a''))" by (simp add: media_accepted_def demo_observation_def)
  ultimately show ?thesis
    using holding_recovery_window [of "''s1''" "demo_session ''HOLDING'' []" 3 10 14 "[]" "demo_observation (Some ''a'')"
        "demo_observation (Some ''a'')"]
    by (auto simp: demo_status)
qed

end
