(* ===== verification/Session_Media.thy ===== *)
theory Session_Media
  imports Session_Stop
begin

text \<open>
  The event log seen from the store's interface, and the audio commands of the media-control record.
\<close>

section \<open>Appending events\<close>

text \<open>Event numbering: appending to a known Session always succeeds; the new event gets a number
  above every retained one and the next event one more, the log keeps the newest 1000 events in strictly
  increasing order, and the status does not change.\<close>

theorem append_event_numbering:
  assumes st: "stored fs m" and s: "map_of (sessions m) sid = Some s"
    and ty: "ty \<noteq> []" and org: "org \<noteq> []" and pl: "json_ok (JObj pl)" and t: "0 \<le> t"
  shows "\<exists>ev es es' s'. fst (append_event sid ty rc pl org (Some (JTime t)) clock fs) = Inr ev \<and>
    stored (snd (append_event sid ty rc pl org (Some (JTime t)) clock fs)) ((put_session m sid s')\<lparr>authoritative := True\<rparr>) \<and>
    dget_or s ''events'' (JList []) = JList es \<and> dget s' ''events'' = JList es' \<and>
    es' = last_n SESSION_EVENT_LIMIT (es @ [JObj ev]) \<and> length es' \<le> 1000 \<and>
    event_seq (JObj ev) = next_event_sequence s \<and>
    (\<forall>e \<in> set es. event_seq e < event_seq (JObj ev)) \<and> sorted_wrt (<) (map event_seq es') \<and>
    next_event_sequence s' = next_event_sequence s + 1 \<and> status_of s' = status_of s"
proof -
  have ok: "store_ok m" using st by (simp add: stored_def)
  from store_ok_session [OF ok s] have wf: "session_wf sid s" and js: "json_ok (JObj s)" by simp_all
  let ?ev = "new_event (next_event_sequence s) ty rc pl org t"
  let ?s1 = "\<lambda>es. dset (dset s ''events'' (JList (last_n SESSION_EVENT_LIMIT (es @ [JObj ?ev]))))
    ''next_event_seq'' (JInt (next_event_sequence s + 1))"
  obtain es where es: "dget_or s ''events'' (JList []) = JList es"
    and ap: "append_event_locked s ty rc pl org t = Inr (?ev, ?s1 es)"
    and wf1: "session_wf sid (?s1 es)" and lt: "\<And>e. e \<in> set es \<Longrightarrow> event_seq e < next_event_sequence s"
    by (rule append_event_locked_wf [OF wf t ty org, of rc pl]) blast
  let ?es = "last_n SESSION_EVENT_LIMIT (es @ [JObj ?ev])"
  let ?s' = "dset (?s1 es) ''updated_at'' (JTime t)"
  have wf': "session_wf sid ?s'" using t by (intro session_wf_dset [OF wf1]) (simp add: field_defs)
  have "json_ok (JObj ?s')" by (rule json_ok_dset [OF append_event_locked_json_ok [OF ap js pl]]) simp
  with wf' have ok': "store_ok (put_session m sid ?s')" by (simp add: store_ok_put_session [OF ok])
  have call: "fst (append_event sid ty rc pl org (Some (JTime t)) clock fs) = Inr ?ev \<and>
    stored (snd (append_event sid ty rc pl org (Some (JTime t)) clock fs)) ((put_session m sid ?s')\<lparr>authoritative := True\<rparr>)"
    using t unfolding append_event_def effective_time_def
    by (simp add: not_less) (rule state_lock_writes_surj [OF st _ ok'], simp add: s ap)
  have pos: "0 < next_event_sequence s"
    using wf by (auto simp: session_wf_def elim: next_event_sequence_wf)
  have "sorted_wrt (<) (map event_seq ?es)"
  proof -
    have "seq_wf ?s'" using wf' by (simp add: session_wf_def)
    then show ?thesis by (auto simp: seq_wf_def dest!: validate_events_sorted)
  qed
  moreover have "next_event_sequence ?s' = next_event_sequence s + 1"
    using pos by (simp add: next_event_sequence_def [of ?s'])
  moreover have "event_seq (JObj ?ev) = next_event_sequence s" by (simp add: new_event_def dget_def)
  moreover have "length ?es \<le> 1000" by (simp add: length_last_n SESSION_EVENT_LIMIT_def)
  moreover have "dget ?s' ''events'' = JList ?es" "status_of ?s' = status_of s" by simp_all
  ultimately show ?thesis
    using call es lt by (intro exI [of _ ?ev] exI [of _ es] exI [of _ ?es] exI [of _ ?s']) simp
qed

theorem append_event_numbering_witness:
  "\<exists>ev. fst (append_event ''s1'' ''session.note'' None [] ''control-api'' (Some (JTime 7)) (Fin 0)
       (authority_of (demo_store ''LIVE'' []))) = Inr ev \<and> event_seq (JObj ev) = 1"
proof -
  have st: "stored (authority_of (demo_store ''LIVE'' [])) (demo_store ''LIVE'' [])"
    by (rule stored_demo) (simp_all add: SESSION_STATES_def)
  have "next_event_sequence (demo_session ''LIVE'' []) = 1"
    by (simp add: next_event_sequence_def demo_session_def) (simp add: fresh_record_def dget_or_def)
  then show ?thesis
    using append_event_numbering [OF st, of "''s1''" "demo_session ''LIVE'' []" "''session.note''" "''control-api''" "[]" 7 None "Fin 0"]
    by auto
qed

section \<open>Audio commands\<close>

lemma validate_audio_iff:
  "is_ok (validate_media_control_audio a) \<longleftrightarrow>
     (\<exists>d \<in> MEDIA_CONTROL_AUDIO_DESIRED_MODES. d \<noteq> [] \<and> dget a ''desired_mode'' = JStr d) \<and>
     (\<exists>d \<in> MEDIA_CONTROL_AUDIO_ACTUAL_MODES. d \<noteq> [] \<and> dget a ''actual_mode'' = JStr d) \<and>
     nonneg_int (dget a ''version'') \<and> null_or_str (dget a ''command_id'') \<and>
     media_control_key_ok (dget a ''idempotency_key'') \<and> ts_ok (dget a ''updated_at'')"
  unfolding validate_media_control_audio_def is_ok_rbind require_nonempty_string_Inr require_simps
  using require_int_Inr [of a "''version''" False] require_finite_number_Inr [of a "''updated_at''" False]
  by auto

lemma audio_command_ok:
  assumes "is_ok (validate_media_control_audio a)" and "mode \<in> MEDIA_CONTROL_AUDIO_DESIRED_MODES" and "0 \<le> v"
    and "key \<noteq> []" and "length key \<le> 200" and "0 \<le> t"
  shows "is_ok (validate_media_control_audio (audio_command a mode v cid key t))"
proof -
  have "mode \<noteq> []" using assms(2) by (auto simp: MEDIA_CONTROL_AUDIO_DESIRED_MODES_def)
  moreover have "''APPLYING'' \<in> MEDIA_CONTROL_AUDIO_ACTUAL_MODES" by (simp add: MEDIA_CONTROL_AUDIO_ACTUAL_MODES_def)
  ultimately show ?thesis
    using assms unfolding validate_audio_iff audio_command_def Let_def
    by (auto simp: null_or_str_def media_control_key_ok_def MEDIA_CONTROL_AUDIO_DESIRED_MODES_def
        MEDIA_CONTROL_AUDIO_ACTUAL_MODES_def)
qed

lemma audio_command_fields:
  "dget (audio_command a mode v cid key t) ''desired_mode'' = JStr mode"
  "dget (audio_command a mode v cid key t) ''version'' = JInt (v + 1)"
  "dget (audio_command a mode v cid key t) ''command_id'' = JStr cid"
  "dget (audio_command a mode v cid key t) ''idempotency_key'' = JStr key"
  "dget (audio_command a mode v cid key t) ''actual_mode'' =
     (if dget a ''actual_mode'' = JStr mode then JStr mode else JStr ''APPLYING'')"
  "list_all (dhas a) audio_fields \<Longrightarrow> list_all (dhas (audio_command a mode v cid key t)) audio_fields"
  by (auto simp: audio_command_def Let_def audio_fields_def)

lemma audio_command_json_ok: "json_ok (JObj a) \<Longrightarrow> json_ok (JObj (audio_command a mode v cid key t))"
  unfolding audio_command_def Let_def
  by (auto intro!: json_ok_dset json_ok_dupdate simp del: dupdate.simps)

lemma accept_audio_replay:
  assumes run: "status_of s \<notin> TERMINAL_STATES" and mc: "dget s ''media_control'' = JObj mc" and audio: "dget mc ''audio'' = JObj a"
    and fields: "list_all (dhas a) audio_fields"
  shows "dget a ''idempotency_key'' = JStr key \<Longrightarrow> accept_audio_command s mode v key op cid t =
      (if dget a ''desired_mode'' = JStr mode then Inr (audio_response a, None) else Inl MediaControlIdempotencyConflict)"
    and "dget a ''idempotency_key'' \<noteq> JStr key \<Longrightarrow> dget a ''version'' \<noteq> JInt v \<Longrightarrow>
      accept_audio_command s mode v key op cid t = Inl (MediaControlVersionConflict (audio_response a))"
  using assms by (auto simp: accept_audio_command_def audio_state_def)

lemma accept_audio_new:
  assumes wf: "session_wf sid s" and js: "json_ok (JObj s)" and run: "status_of s \<notin> TERMINAL_STATES"
    and args: "mode \<in> MEDIA_CONTROL_AUDIO_DESIRED_MODES" "0 \<le> v" "key \<noteq> []" "length key \<le> 200" "0 \<le> t"
    and mc: "dget s ''media_control'' = JObj mc" and audio: "dget mc ''audio'' = JObj a"
    and fields: "list_all (dhas a) audio_fields"
    and new: "dget a ''idempotency_key'' \<noteq> JStr key" "dget a ''version'' = JInt v"
  obtains s' where
    "accept_audio_command s mode v key op cid t = Inr (audio_response (audio_command a mode v cid key t), Some s')"
    "session_wf sid s'" "json_ok (JObj s')" "status_of s' = status_of s"
    "dget s' ''media_control'' = JObj (dset mc ''audio'' (JObj (audio_command a mode v cid key t)))"
    "next_event_sequence s' = next_event_sequence s + 1"
proof -
  let ?a = "audio_command a mode v cid key t"
  let ?mc = "dset mc ''audio'' (JObj ?a)"
  let ?s1 = "dset (dset s ''media_control'' (JObj ?mc)) ''updated_at'' (JTime t)"
  let ?pl = "[(''command_id'', dget ?a ''command_id''), (''desired_mode'', JStr mode),
    (''version'', dget ?a ''version''), (''operator_user_id'', JStr op)]"
  have "is_ok (validate_media_control_audio a)"
    using wf mc audio by (simp add: session_wf_def validate_media_control_def)
  then have "is_ok (validate_media_control (JObj ?mc))"
    using audio_command_ok [OF _ args, of a cid] by (simp add: validate_media_control_def)
  then have wf1: "session_wf sid ?s1"
    using args(5) by (intro session_wf_dset wf) (simp_all add: field_defs)
  have "json_ok (JObj mc)" "json_ok (JObj a)"
    using json_ok_dget [OF js, of "''media_control''"] json_ok_dget [of mc "''audio''"] mc audio by simp_all
  then have js1: "json_ok (JObj ?s1)" by (intro json_ok_dset js audio_command_json_ok) simp_all
  have pl: "json_ok (JObj ?pl)" by (simp add: audio_command_fields)
  obtain ev s' where ap: "append_event_locked ?s1 ''media_control.audio.requested'' None ?pl ''control-api'' t = Inr (ev, s')"
    and s': "session_wf sid s'" "json_ok (JObj s')" "next_event_sequence s' = next_event_sequence ?s1 + 1"
      "\<And>k. k \<noteq> ''events'' \<Longrightarrow> k \<noteq> ''next_event_seq'' \<Longrightarrow> dget s' k = dget ?s1 k" "status_of s' = status_of ?s1"
    by (rule append_event_locked_obtain [OF wf1 js1 args(5) _ _ pl, of "''media_control.audio.requested''" "''control-api''" None])
      (simp_all)
  have "accept_audio_command s mode v key op cid t = Inr (audio_response ?a, Some s')"
    using run mc audio fields new ap by (simp add: accept_audio_command_def audio_state_def Let_def)
  moreover have "next_event_sequence ?s1 = next_event_sequence s" by (simp add: next_event_sequence_def Let_def)
  ultimately show ?thesis using s' by (intro that) simp_all
qed

text \<open>Audio commands: the key of the last command replays its response or, for another mode, is
  refused as a conflict; a new key with a stale version is refused with the current state; otherwise the
  command gets the next version, the mode reads APPLYING unless it is already in effect, the response
  is what a replay returns, and exactly one event is logged.\<close>

theorem audio_command_outcome:
  assumes st: "stored fs m" and s: "map_of (sessions m) sid = Some s" and run: "status_of s \<notin> TERMINAL_STATES"
    and args: "mode \<in> MEDIA_CONTROL_AUDIO_DESIRED_MODES" "0 \<le> v" "key \<noteq> []" "length key \<le> 200" "0 \<le> t"
    and mc: "dget s ''media_control'' = JObj mc" and audio: "dget mc ''audio'' = JObj a"
    and fields: "list_all (dhas a) audio_fields"
    and call: "set_audio_desired sid mode v key op (Some (JTime t)) cid clock fs = (r, fs')"
  shows "if dget a ''idempotency_key'' = JStr key then
      stored fs' m \<and>
      r = (if dget a ''desired_mode'' = JStr mode then Inr (audio_response a) else Inl MediaControlIdempotencyConflict)
    else if dget a ''version'' \<noteq> JInt v then
      stored fs' m \<and> r = Inl (MediaControlVersionConflict (audio_response a))
    else \<exists>s' mc' a'. r = Inr (audio_response a') \<and>
      stored fs' ((put_session m sid s')\<lparr>authoritative := True\<rparr>) \<and> status_of s' = status_of s \<and>
      dget s' ''media_control'' = JObj mc' \<and> dget mc' ''audio'' = JObj a' \<and> list_all (dhas a') audio_fields \<and>
      dget a' ''desired_mode'' = JStr mode \<and> dget a' ''version'' = JInt (v + 1) \<and>
      dget a' ''command_id'' = JStr cid \<and> dget a' ''idempotency_key'' = JStr key \<and>
      dget a' ''actual_mode'' = (if dget a ''actual_mode'' = JStr mode then JStr mode else JStr ''APPLYING'') \<and>
      next_event_sequence s' = next_event_sequence s + 1"
proof -
  have ok: "store_ok m" using st by (simp add: stored_def)
  from store_ok_session [OF ok s] have wf: "session_wf sid s" and js: "json_ok (JObj s)" by simp_all
  have "effective_time (Some (JTime t)) clock = Inr t"
    using args(5) by (simp add: effective_time_def not_less)
  then have call': "state_lock (\<lambda>m.
      rbind (from_some KeyError (map_of (sessions m) sid)) (\<lambda>session.
      rbind (accept_audio_command session mode v key op cid t) (\<lambda>r.
      Inr (fst r, map_option (put_session m sid) (snd r))))) fs = (r, fs')"
    using call args unfolding set_audio_desired_def by simp
  consider (same) "dget a ''idempotency_key'' = JStr key"
    | (stale) "dget a ''idempotency_key'' \<noteq> JStr key" "dget a ''version'' \<noteq> JInt v"
    | (new) "dget a ''idempotency_key'' \<noteq> JStr key" "dget a ''version'' = JInt v" by blast
  then show ?thesis
  proof cases
    case same
    have "stored fs' m \<and>
      r = (if dget a ''desired_mode'' = JStr mode then Inr (audio_response a) else Inl MediaControlIdempotencyConflict)"
      by (rule state_lock_reads [OF st call']) (simp add: s accept_audio_replay(1) [OF run mc audio fields same])
    with same show ?thesis by simp
  next
    case stale
    have "stored fs' m \<and> r = Inl (MediaControlVersionConflict (audio_response a))"
      by (rule state_lock_reads [OF st call']) (simp add: s accept_audio_replay(2) [OF run mc audio fields stale])
    with stale show ?thesis by simp
  next
    case new
    let ?a = "audio_command a mode v cid key t"
    obtain s' where acc: "accept_audio_command s mode v key op cid t = Inr (audio_response ?a, Some s')"
      and s': "session_wf sid s'" "json_ok (JObj s')" "status_of s' = status_of s"
        "dget s' ''media_control'' = JObj (dset mc ''audio'' (JObj ?a))" "next_event_sequence s' = next_event_sequence s + 1"
      by (rule accept_audio_new [OF wf js run args mc audio fields new])
    then have ok': "store_ok (put_session m sid s')" by (simp add: store_ok_put_session [OF ok])
    have "stored fs' ((put_session m sid s')\<lparr>authoritative := True\<rparr>) \<and> r = Inr (audio_response ?a)"
      by (rule state_lock_writes [OF st call' _ ok']) (simp add: s acc)
    with new s' fields show ?thesis
      unfolding if_not_P [OF new(1)]
      by (simp only: new(2) simp_thms if_False, intro exI [of _ ?a] exI [of _ "dset mc ''audio'' (JObj ?a)"] exI [of _ s'],
          simp add: audio_command_fields)
  qed
qed

theorem audio_command_outcome_witness:
  "\<exists>a'. fst (set_audio_desired ''s1'' ''MUTED'' 0 ''k1'' ''u1'' (Some (JTime 9)) ''c1'' (Fin 0)
      (authority_of (demo_store ''LIVE'' []))) = Inr (audio_response a') \<and>
    dget a' ''desired_mode'' = JStr ''MUTED'' \<and> dget a' ''version'' = JInt 1 \<and> dget a' ''actual_mode'' = JStr ''APPLYING''"
proof -
  have st: "stored (authority_of (demo_store ''LIVE'' [])) (demo_store ''LIVE'' [])"
    by (rule stored_demo) (simp_all add: SESSION_STATES_def)
  let ?audio = "[(''desired_mode'', JStr ''LIVE''), (''actual_mode'', JStr ''LIVE''), (''version'', JInt 0),
     (''command_id'', JNull), (''idempotency_key'', JNull), (''updated_at'', JTime 5)]"
  have mc: "dget (demo_session ''LIVE'' []) ''media_control'' = JObj [(''audio'', JObj ?audio)]"
    by (simp add: demo_session_def) (simp add: fresh_record_def dget_def default_media_control_def)
  show ?thesis
    using audio_command_outcome [OF st, of "''s1''" "demo_session ''LIVE'' []" "''MUTED''" 0 "''k1''" 9
        "[(''audio'', JObj ?audio)]" ?audio "''u1''" "''c1''" "Fin 0", OF _ _ _ _ _ _ _ mc _ _ prod.collapse [symmetric]]
    by (auto simp: demo_status TERMINAL_STATES_def MEDIA_CONTROL_AUDIO_DESIRED_MODES_def dget_def dhas_def audio_fields_def)
qed

end
