(* ===== verification/Session_Frames.thy ===== *)
theory Session_Frames
  imports Session_Stop Session_Media
begin

text \<open>
  What a store call may do to the Sessions of the authority, call by call: which Session can change its
  status, and to which statuses.  Programs that make many calls are reasoned about with these frames.
\<close>


section \<open>What a store call may do to the Sessions\<close>

text \<open>
  Only the named Session may change its status, and only to a status in \<open>T\<close>; no Session appears or
  disappears.
\<close>

definition touch :: "string set \<Rightarrow> string \<Rightarrow> store_state \<Rightarrow> store_state \<Rightarrow> bool" where
  "touch T sid m m' \<longleftrightarrow>
     (\<forall>k. map_option status_of (map_of (sessions m') k) = map_option status_of (map_of (sessions m) k) \<or>
        k = sid \<and> (\<exists>s s'. map_of (sessions m) k = Some s \<and> map_of (sessions m') k = Some s' \<and> status_of s' \<in> T))"

lemma touch_refl [simp]: "touch T sid m m"
  by (simp add: touch_def)

lemma touch_leases [simp]:
  "touch T sid m ((put_lease m k d)\<lparr>authoritative := b\<rparr>)" "touch T sid m ((drop_lease m k)\<lparr>authoritative := b\<rparr>)"
  by (simp_all add: touch_def)

lemma touch_put:
  "map_of (sessions m) sid = Some s \<Longrightarrow> status_of s' = status_of s \<or> status_of s' \<in> T \<Longrightarrow>
   touch T sid m ((put_session m sid s')\<lparr>authoritative := b\<rparr>)"
  by (auto simp: touch_def)

definition op_touch :: "string set \<Rightarrow> string \<Rightarrow> (authority \<Rightarrow> (err + 'r) \<times> authority) \<Rightarrow> bool" where
  "op_touch T sid f \<longleftrightarrow> (\<forall>fs m. stored fs m \<longrightarrow> (\<exists>m'. stored (snd (f fs)) m' \<and> touch T sid m m'))"

lemma op_touch_lock:
  assumes "\<And>m r n. body m = Inr (r, Some n) \<Longrightarrow> touch T sid m (n\<lparr>authoritative := True\<rparr>)"
  shows "op_touch T sid (state_lock body)"
  unfolding op_touch_def
proof (intro allI impI)
  fix fs m assume st: "stored fs m"
  obtain m' where m': "stored (snd (state_lock body fs)) m'" using state_lock_stored [OF st] by blast
  have "touch T sid m m'" by (rule state_lock_rel [OF st m']) (simp_all add: assms)
  with m' show "\<exists>m'. stored (snd (state_lock body fs)) m' \<and> touch T sid m m'" by blast
qed

lemma op_touch_raise: "op_touch T sid (\<lambda>fs. (Inl e, fs))"
  by (auto simp: op_touch_def)

lemma op_touch_case:
  "(\<And>x. v = Inr x \<Longrightarrow> op_touch T sid (g x)) \<Longrightarrow>
   op_touch T sid (\<lambda>fs. case v of Inl e \<Rightarrow> (Inl e, fs) | Inr x \<Rightarrow> g x fs)"
  using op_touch_raise by (cases v) simp_all

lemma op_touch_reads:
  "op_touch T sid (get_session k)" "op_touch T sid (sessions_in_states S)" "op_touch T sid authoritative_snapshot"
  "op_touch T sid (session_cleanup_still_owned k l t)" "op_touch T sid (orphan_cleanup_still_owned k l t)"
  unfolding get_session_def sessions_in_states_def authoritative_snapshot_def session_cleanup_still_owned_def
    orphan_cleanup_still_owned_def
  by (rule op_touch_lock, auto simp: rbind_eq_Inr split: if_splits)+

lemma op_touch_leases:
  "op_touch T sid (claim_session_cleanup k xs ls u t t')" "op_touch T sid (release_session_cleanup k l)"
  "op_touch T sid (claim_orphan_cleanup k ri rk ls u t t')" "op_touch T sid (release_orphan_cleanup k l)"
  unfolding claim_session_cleanup_def release_session_cleanup_def claim_orphan_cleanup_def release_orphan_cleanup_def Let_def
  by (rule op_touch_lock, auto simp: rbind_eq_Inr split: if_splits option.splits)+

lemma op_touch_request_stop: "op_touch {''STOPPING''} sid (request_stop sid t)"
  unfolding request_stop_def
  by (rule op_touch_lock) (auto simp: rbind_eq_Inr Let_def split: if_splits intro!: touch_put)

lemma op_touch_request_stop_if_current: "op_touch {''STOPPING''} sid (request_stop_if_current sid st ef t)"
  unfolding request_stop_if_current_def
  by (rule op_touch_lock) (auto simp: rbind_eq_Inr Let_def split: if_splits option.splits intro!: touch_put)

lemma op_touch_append_event: "op_touch {} sid (append_event sid ty rc pl org oc t)"
  unfolding append_event_def
  by (rule op_touch_case, rule op_touch_lock)
    (auto simp: rbind_eq_Inr Let_def intro!: touch_put dest!: append_event_locked_status)

lemma op_touch_update:
  assumes "''status'' \<notin> fst ` set ch"
  shows "op_touch {} sid (update_session sid ch t)"
  unfolding update_session_def
  by (rule op_touch_case, rule op_touch_lock)
    (auto simp: rbind_eq_Inr Let_def status_of_dupdate_notin [OF assms] intro!: touch_put)

lemma op_touch_update_if_current:
  assumes "''status'' \<notin> fst ` set ch"
  shows "op_touch {} sid (update_if_current sid st ef ev ch t)"
  unfolding update_if_current_def
  by (rule op_touch_case, rule op_touch_lock, cases ev)
    (auto simp: rbind_eq_Inr Let_def status_of_dupdate_notin [OF assms] split: if_splits option.split_asm
      intro!: touch_put dest!: append_event_locked_status)

lemma op_touch_transition: "op_touch {ns} sid (transition sid ns af ch t)"
proof -
  have "op_touch {ns} sid (\<lambda>fs. case validate_timestamp_changes ch of
        Inl e \<Rightarrow> (Inl e, fs)
      | Inr _ \<Rightarrow>
          state_lock (\<lambda>m.
            rbind (from_some KeyError (map_of (sessions m) sid)) (\<lambda>session.
            let current = status_of session in
            rbind (case af of
                     Some allowed \<Rightarrow> require InvalidTransition (current \<in> allowed)
                   | None \<Rightarrow> require InvalidTransition (ns \<in> transitions_from current)) (\<lambda>_.
            rbind (validated_now t) (\<lambda>updated_at.
            let session = transitioned_record session ch ns updated_at
            in Inr (session, Some (put_session m sid session)))))) fs)"
    by (rule op_touch_case, rule op_touch_lock)
      (auto simp: rbind_eq_Inr Let_def intro!: touch_put)
  then show ?thesis using op_touch_raise unfolding transition_def by (cases "ns \<in> SESSION_STATES") simp_all
qed

lemma op_touch_transition_if_current: "op_touch {ns} sid (transition_if_current sid ns af ef ch t)"
proof -
  have "op_touch {ns} sid (\<lambda>fs. case validate_timestamp_changes ch of
        Inl e \<Rightarrow> (Inl e, fs)
      | Inr _ \<Rightarrow>
          state_lock (\<lambda>m.
            case map_of (sessions m) sid of
              None \<Rightarrow> Inr (None, None)
            | Some session \<Rightarrow>
                if status_of session \<notin> af \<or> \<not> matches_fields session ef
                then Inr (None, None) else
                rbind (validated_now t) (\<lambda>updated_at.
                let session = transitioned_record session ch ns updated_at
                in Inr (Some session, Some (put_session m sid session)))) fs)"
    by (rule op_touch_case, rule op_touch_lock)
      (auto simp: rbind_eq_Inr Let_def split: option.splits if_splits intro!: touch_put)
  then show ?thesis using op_touch_raise unfolding transition_if_current_def by (cases "ns \<in> SESSION_STATES") simp_all
qed

end
