(* ===== verification/Ingest_Store.thy ===== *)
theory Ingest_Store
  imports State_Safety
begin

text \<open>
  Ingest credentials (\<open>apps/control-api/ingest_store.py\<close>): issue with rotation, verification at publish
  time, revocation, and the authority file that holds them.

  The SHA-256 hex digest is a parameter \<open>digest\<close>: the theorems that need it assume what it is used
  for, namely that it yields 64 lower-case hex digits and, where two secrets are compared, that they do
  not collide.  Secrets, ids and clock readings are arguments.
\<close>

section \<open>Arguments\<close>

definition CREDENTIAL_SCOPES :: "string set" where
  "CREDENTIAL_SCOPES = {''INGEST'', ''RELAY_CLIENT''}"

definition SUPPORTED_PROTOCOLS :: "string set" where
  "SUPPORTED_PROTOCOLS = {''rtmp'', ''srt''}"

text \<open>\<open>_finite_argument\<close>: an int or a float (not a bool) with a finite value.\<close>

definition finite_argument :: "json \<Rightarrow> err + rat" where
  "finite_argument value =
     (case value of
        JInt n \<Rightarrow> (case float_of_int n of Some (Fin x) \<Rightarrow> Inr x | _ \<Rightarrow> Inl ValueError)
      | JFloat (Fin x) \<Rightarrow> Inr x
      | _ \<Rightarrow> Inl ValueError)"

text \<open>\<open>_runtime_timestamp\<close>: the caller's value or the clock, finite and not negative.\<close>

definition runtime_timestamp :: "json option \<Rightarrow> pyfloat \<Rightarrow> err + rat" where
  "runtime_timestamp value clock =
     rbind (finite_argument (case value of None \<Rightarrow> JFloat clock | Some v \<Rightarrow> v)) (\<lambda>number.
     rbind (require ValueError (0 \<le> number)) (\<lambda>_. Inr number))"

definition cred_nonempty_string :: "dict \<Rightarrow> string \<Rightarrow> err + string" where
  "cred_nonempty_string record field =
     rbind (from_some IngestCredentialError (as_str (dget record field))) (\<lambda>value.
     rbind (require IngestCredentialError (value \<noteq> [])) (\<lambda>_. Inr value))"

definition cred_finite_number :: "dict \<Rightarrow> string \<Rightarrow> err + rat" where
  "cred_finite_number record field =
     (case finite_argument (dget record field) of Inl _ \<Rightarrow> Inl IngestCredentialError | Inr x \<Rightarrow> Inr x)"

definition cred_optional_finite_number :: "dict \<Rightarrow> string \<Rightarrow> err + rat option" where
  "cred_optional_finite_number record field =
     (if dget record field = JNull then Inr None
      else rbind (cred_finite_number record field) (\<lambda>x. Inr (Some x)))"

section \<open>The document\<close>

definition is_hex_digit :: "char \<Rightarrow> bool" where
  "is_hex_digit c = (c \<in> set ''0123456789abcdef'')"

definition is_digest :: "string \<Rightarrow> bool" where
  "is_digest d = (length d = 64 \<and> list_all is_hex_digit d)"

text \<open>A list of supported protocol names, each once and in order.\<close>

definition protocols_ok :: "json \<Rightarrow> bool" where
  "protocols_ok v =
     (case as_list v of
        None \<Rightarrow> False
      | Some ps \<Rightarrow>
          ps \<noteq> [] \<and>
          (case those (map as_str ps) of
             None \<Rightarrow> False
           | Some names \<Rightarrow> list_all (\<lambda>p. p \<in> SUPPORTED_PROTOCOLS) names \<and> names = sort (remdups names)))"

definition cred_scope :: "dict \<Rightarrow> json" where
  "cred_scope record = dget_or record ''scope'' (JStr ''INGEST'')"

definition validate_credential :: "string \<Rightarrow> json \<Rightarrow> err + unit" where
  "validate_credential credential_id value =
     rbind (require IngestCredentialError (credential_id \<noteq> [])) (\<lambda>_.
     rbind (from_some IngestCredentialError (as_obj value)) (\<lambda>record.
     rbind (cred_nonempty_string record ''id'') (\<lambda>stored_id.
     rbind (cred_nonempty_string record ''session_id'') (\<lambda>session_id.
     rbind (cred_nonempty_string record ''user_id'') (\<lambda>_.
     rbind (cred_nonempty_string record ''username'') (\<lambda>username.
     rbind (cred_nonempty_string record ''secret_sha256'') (\<lambda>digest.
     rbind (require IngestCredentialError (stored_id = credential_id)) (\<lambda>_.
     rbind (require IngestCredentialError (username = session_id)) (\<lambda>_.
     rbind (require IngestCredentialError (is_digest digest)) (\<lambda>_.
     rbind (require IngestCredentialError
              (case as_str (cred_scope record) of None \<Rightarrow> False | Some s \<Rightarrow> s \<in> CREDENTIAL_SCOPES)) (\<lambda>_.
     rbind (require IngestCredentialError (protocols_ok (dget record ''protocols''))) (\<lambda>_.
     rbind (cred_finite_number record ''created_at'') (\<lambda>created_at.
     rbind (cred_finite_number record ''expires_at'') (\<lambda>expires_at.
     rbind (require IngestCredentialError (0 \<le> created_at)) (\<lambda>_.
     rbind (require IngestCredentialError (created_at < expires_at)) (\<lambda>_.
     rbind (cred_optional_finite_number record ''revoked_at'') (\<lambda>revoked_at.
     rbind (require IngestCredentialError (case revoked_at of None \<Rightarrow> True | Some t \<Rightarrow> 0 \<le> t)) (\<lambda>_.
     rbind (cred_optional_finite_number record ''last_authenticated_at'') (\<lambda>last_authenticated_at.
     require IngestCredentialError (case last_authenticated_at of None \<Rightarrow> True | Some t \<Rightarrow> 0 \<le> t))))))))))))))))))))"

primrec validate_credentials :: "dict \<Rightarrow> err + unit" where
  "validate_credentials [] = Inr ()"
| "validate_credentials (p # ps) = rbind (validate_credential (fst p) (snd p)) (\<lambda>_. validate_credentials ps)"

type_synonym cred_table = "(string \<times> dict) list"

definition credential_decode :: "json \<Rightarrow> cred_table option" where
  "credential_decode raw =
     Option.bind (as_obj raw) (\<lambda>doc.
     Option.bind (as_obj (dget doc ''credentials'')) (\<lambda>cs.
     if \<not> is_ok (validate_credentials cs) then None
     else Some (map (\<lambda>p. (fst p, case as_obj (snd p) of None \<Rightarrow> [] | Some d \<Rightarrow> d)) cs)))"

definition credential_encode :: "cred_table \<Rightarrow> json option" where
  "credential_encode cs =
     (let doc = map (\<lambda>p. (fst p, JObj (snd p))) cs in
      if is_ok (validate_credentials doc) then Some (JObj [(''credentials'', JObj doc)]) else None)"

lemma credential_decode_encode: "credential_encode cs = Some doc \<Longrightarrow> credential_decode doc = Some (id cs)"
  by (auto simp: credential_encode_def credential_decode_def dget_def Let_def comp_def split: if_splits)

interpretation ic: authority_codec IngestCredentialError "[]" credential_decode credential_encode id
  by unfold_locales (rule credential_decode_encode)

definition cred_lock ::
  "(cred_table \<Rightarrow> err + ('r \<times> cred_table option)) \<Rightarrow> authority \<Rightarrow> (err + 'r) \<times> authority" where
  "cred_lock body = auth_locked IngestCredentialError True [] credential_decode credential_encode body"

section \<open>Operations\<close>

text \<open>\<open>str.lower\<close> on code points up to 255.\<close>

definition lower_char :: "char \<Rightarrow> char" where
  "lower_char c =
     (let n = of_char c :: nat in
      if 65 \<le> n \<and> n \<le> 90 \<or> 192 \<le> n \<and> n \<le> 222 \<and> n \<noteq> 215 then char_of (n + 32) else c)"

definition py_lower :: "string \<Rightarrow> string" where
  "py_lower s = map lower_char s"

definition normalize_protocols :: "string list \<Rightarrow> err + string list" where
  "normalize_protocols protocols =
     (let values = sort (remdups (map py_lower protocols)) in
      if values = [] \<or> (\<exists>v \<in> set values. v \<notin> SUPPORTED_PROTOCOLS) then Inl ValueError else Inr values)"

definition public_record :: "dict \<Rightarrow> dict" where
  "public_record record = filter (\<lambda>p. fst p \<noteq> ''secret_sha256'') record"

definition new_credential ::
  "string \<Rightarrow> string \<Rightarrow> string \<Rightarrow> string \<Rightarrow> string \<Rightarrow> string list \<Rightarrow> rat \<Rightarrow> rat \<Rightarrow> dict" where
  "new_credential credential_id session_id user_id scope secret_sha256 protocols issued_at expires_at =
     [(''id'', JStr credential_id),
      (''session_id'', JStr session_id),
      (''user_id'', JStr user_id),
      (''scope'', JStr scope),
      (''username'', JStr session_id),
      (''secret_sha256'', JStr secret_sha256),
      (''protocols'', JList (map JStr protocols)),
      (''created_at'', JTime issued_at),
      (''expires_at'', JTime expires_at),
      (''revoked_at'', JNull),
      (''last_authenticated_at'', JNull)]"

text \<open>Revoking the unrevoked credentials a predicate selects.\<close>

definition revoke_where :: "(dict \<Rightarrow> bool) \<Rightarrow> rat \<Rightarrow> cred_table \<Rightarrow> cred_table" where
  "revoke_where selected revoked_at cs =
     map (\<lambda>p. if selected (snd p) \<and> dget (snd p) ''revoked_at'' = JNull
               then (fst p, dset (snd p) ''revoked_at'' (JTime revoked_at)) else p) cs"

definition issue ::
  "(string \<Rightarrow> string) \<Rightarrow> string \<Rightarrow> string \<Rightarrow> string \<Rightarrow> string list \<Rightarrow> json \<Rightarrow> json option \<Rightarrow> pyfloat \<Rightarrow> string \<Rightarrow> string
    \<Rightarrow> authority \<Rightarrow> (err + dict \<times> string) \<times> authority" where
  "issue digest session_id user_id scope protocols ttl_seconds now clock secret uuid fs =
     (case
        rbind (finite_argument ttl_seconds) (\<lambda>ttl.
        rbind (require ValueError (0 < ttl)) (\<lambda>_.
        rbind (require ValueError (scope \<in> CREDENTIAL_SCOPES)) (\<lambda>_.
        rbind (normalize_protocols protocols) (\<lambda>normalized.
        rbind (runtime_timestamp now clock) (\<lambda>issued_at.
        rbind (runtime_timestamp (Some (JFloat (fadd (Fin issued_at) (Fin ttl)))) clock) (\<lambda>expires_at.
        Inr (issued_at,
             new_credential uuid session_id user_id scope (digest secret) normalized issued_at expires_at))))))) of
        Inl e \<Rightarrow> (Inl e, fs)
      | Inr (issued_at, record) \<Rightarrow>
          cred_lock (\<lambda>cs.
            let cs = revoke_where (\<lambda>existing.
                  dget existing ''session_id'' = JStr session_id \<and> cred_scope existing = JStr scope) issued_at cs
            in Inr ((public_record record, secret), Some (dset cs uuid record))) fs)"

text \<open>Whether a stored credential authenticates a publisher.\<close>

definition credential_matches :: "string \<Rightarrow> string \<Rightarrow> string \<Rightarrow> string \<Rightarrow> rat \<Rightarrow> dict \<Rightarrow> bool" where
  "credential_matches username scope protocol candidate current record \<longleftrightarrow>
     dget record ''username'' = JStr username \<and>
     cred_scope record = JStr scope \<and>
     dget record ''revoked_at'' = JNull \<and>
     (case finite_argument (dget record ''expires_at'') of Inl _ \<Rightarrow> False | Inr t \<Rightarrow> \<not> t \<le> current) \<and>
     (case as_list (dget record ''protocols'') of None \<Rightarrow> False | Some ps \<Rightarrow> JStr protocol \<in> set ps) \<and>
     dget record ''secret_sha256'' = JStr candidate"

definition verify ::
  "(string \<Rightarrow> string) \<Rightarrow> string \<Rightarrow> string \<Rightarrow> string \<Rightarrow> json option \<Rightarrow> string \<Rightarrow> pyfloat
    \<Rightarrow> authority \<Rightarrow> (err + dict option) \<times> authority" where
  "verify digest username secret protocol now scope clock fs =
     (case runtime_timestamp now clock of
        Inl e \<Rightarrow> (Inl e, fs)
      | Inr current \<Rightarrow>
          let protocol = py_lower protocol in
          if protocol \<notin> SUPPORTED_PROTOCOLS \<or> scope \<notin> CREDENTIAL_SCOPES \<or> username = [] \<or> secret = []
          then (Inr None, fs) else
          cred_lock (\<lambda>cs.
            case List.find (\<lambda>p. credential_matches username scope protocol (digest secret) current (snd p)) cs of
              None \<Rightarrow> Inr (None, None)
            | Some (credential_id, record) \<Rightarrow>
                let record = dset record ''last_authenticated_at'' (JTime current)
                in Inr (Some (public_record record), Some (dset cs credential_id record))) fs)"

definition revoke ::
  "string \<Rightarrow> string option \<Rightarrow> pyfloat \<Rightarrow> authority \<Rightarrow> (err + dict) \<times> authority" where
  "revoke credential_id user_id clock =
     cred_lock (\<lambda>cs.
       case map_of cs credential_id of
         None \<Rightarrow> Inl KeyError
       | Some record \<Rightarrow>
           if (case user_id of None \<Rightarrow> False | Some u \<Rightarrow> dget record ''user_id'' \<noteq> JStr u) then Inl KeyError else
           if dget record ''revoked_at'' = JNull then
             rbind (runtime_timestamp None clock) (\<lambda>revoked_at.
             let record = dset record ''revoked_at'' (JTime revoked_at)
             in Inr (public_record record, Some (dset cs credential_id record)))
           else Inr (public_record record, None))"

definition revoke_session ::
  "string \<Rightarrow> json option \<Rightarrow> pyfloat \<Rightarrow> authority \<Rightarrow> (err + nat) \<times> authority" where
  "revoke_session session_id now clock fs =
     (case runtime_timestamp now clock of
        Inl e \<Rightarrow> (Inl e, fs)
      | Inr revoked_at \<Rightarrow>
          cred_lock (\<lambda>cs.
            let changed = length (filter (\<lambda>p. dget (snd p) ''session_id'' = JStr session_id \<and>
                            dget (snd p) ''revoked_at'' = JNull) cs)
            in Inr (changed,
                    if changed = 0 then None
                    else Some (revoke_where (\<lambda>r. dget r ''session_id'' = JStr session_id) revoked_at cs))) fs)"

definition active_for_session ::
  "string \<Rightarrow> json option \<Rightarrow> string \<Rightarrow> pyfloat \<Rightarrow> authority \<Rightarrow> (err + dict option) \<times> authority" where
  "active_for_session session_id now scope clock fs =
     (case runtime_timestamp now clock of
        Inl e \<Rightarrow> (Inl e, fs)
      | Inr current \<Rightarrow>
          cred_lock (\<lambda>cs.
            Inr (map_option (public_record \<circ> snd)
                   (List.find (\<lambda>p. dget (snd p) ''session_id'' = JStr session_id \<and>
                        cred_scope (snd p) = JStr scope \<and> dget (snd p) ''revoked_at'' = JNull \<and>
                        (case finite_argument (dget (snd p) ''expires_at'') of Inl _ \<Rightarrow> False | Inr t \<Rightarrow> \<not> t \<le> current))
                      (rev cs)),
                 None)) fs)"

definition get_credential :: "string \<Rightarrow> authority \<Rightarrow> (err + dict option) \<times> authority" where
  "get_credential credential_id =
     cred_lock (\<lambda>cs. Inr (map_option public_record (map_of cs credential_id), None))"

end
