(* ===== verification/Provider.thy ===== *)
theory Provider
  imports Ingest_Store
begin

text \<open>
  The cloud provider as the Control Plane sees it: resource types and tags (\<open>provider/conoha.py\<close>), the
  operations of the \<open>Provider\<close> protocol of \<open>session_workflow.py\<close> as a record of functions on a
  provider state, the in-memory provider (\<open>provider/fake_provider.py\<close>), and the locale
  \<open>provider_contract\<close> with the laws its clients rely on, interpreted on the in-memory provider.

  Formatting and parsing a timestamp tag (\<open>time.strftime\<close>, \<open>time.strptime\<close>) are parameters.
\<close>

section \<open>Resources and tags\<close>

type_synonym tags = "(string \<times> string) list"

record provider_volume =
  pv_volume_id :: string
  pv_name :: string
  pv_size_gb :: int
  pv_status :: string
  pv_tags :: tags

record provider_server =
  ps_server_id :: string
  ps_name :: string
  ps_status :: string
  ps_public_ipv4 :: "string option"
  ps_tags :: tags

record managed_resource =
  mr_kind :: string
  mr_provider_id :: string
  mr_session_id :: "string option"
  mr_user_id :: "string option"
  mr_created_at :: "rat option"
  mr_delete_after :: "rat option"
  mr_details :: dict

definition ENVIRONMENT_VALUES :: "string set" where
  "ENVIRONMENT_VALUES = {''dev'', ''beta'', ''prod''}"

text \<open>
  The canonical text of a version 4 UUID: what \<open>str(uuid.UUID(v)) == v\<close> and \<open>version == 4\<close> (which
  needs the RFC 4122 variant) mean for lower-case \<open>v\<close>.
\<close>

definition is_uuid4_text :: "string \<Rightarrow> bool" where
  "is_uuid4_text v \<longleftrightarrow>
     length v = 36 \<and>
     list_all (\<lambda>i. if i \<in> {8, 13, 18, 23} then v ! i = CHR ''-'' else is_hex_digit (v ! i)) [0..<36] \<and>
     v ! 14 = CHR ''4'' \<and> v ! 19 \<in> set ''89ab''"

definition is_safe_session_id :: "string \<Rightarrow> bool" where
  "is_safe_session_id v = is_uuid4_text (py_lower v)"

definition is_safe_user_id :: "string \<Rightarrow> bool" where
  "is_safe_user_id v \<longleftrightarrow>
     v \<noteq> [] \<and> length v \<le> 128 \<and> (is_uuid4_text (py_lower v) \<or> list_all is_hex_digit v)"

text \<open>\<open>SessionMetadata(...).as_tags()\<close> with the default \<open>delete_after\<close>.\<close>

definition session_tags :: "(pyfloat \<Rightarrow> string) \<Rightarrow> string \<Rightarrow> string \<Rightarrow> string \<Rightarrow> pyfloat \<Rightarrow> err + tags" where
  "session_tags format_timestamp session_id user_id environment created_at =
     rbind (require ValueError (is_safe_session_id session_id)) (\<lambda>_.
     rbind (require ValueError (is_safe_user_id user_id)) (\<lambda>_.
     rbind (require ValueError (environment \<in> ENVIRONMENT_VALUES)) (\<lambda>_.
     Inr [(''irlight-managed'', ''true''),
          (''irlight-session-id'', session_id),
          (''irlight-user-id'', user_id),
          (''irlight-environment'', environment),
          (''irlight-created-at'', format_timestamp created_at)])))"

text \<open>A timestamp tag, if it is there and can be parsed.\<close>

definition tag_time :: "(string \<Rightarrow> rat option) \<Rightarrow> tags \<Rightarrow> string \<Rightarrow> rat option" where
  "tag_time parse_timestamp ts key =
     (case map_of ts key of
        None \<Rightarrow> None
      | Some raw \<Rightarrow> if raw = [] then None else parse_timestamp raw)"

section \<open>The provider protocol\<close>

record 'p provider_ops =
  op_list_volumes :: "'p \<Rightarrow> (err + provider_volume list) \<times> 'p"
  op_list_servers :: "'p \<Rightarrow> (err + provider_server list) \<times> 'p"
  op_create_volume :: "string \<Rightarrow> int \<Rightarrow> tags \<Rightarrow> 'p \<Rightarrow> (err + provider_volume) \<times> 'p"
  op_create_server :: "string \<Rightarrow> string \<Rightarrow> string \<Rightarrow> string \<Rightarrow> tags \<Rightarrow> 'p \<Rightarrow> (err + provider_server) \<times> 'p"
  op_delete_volume :: "string \<Rightarrow> 'p \<Rightarrow> (err + unit) \<times> 'p"
  op_delete_server :: "string \<Rightarrow> 'p \<Rightarrow> (err + unit) \<times> 'p"
  op_list_managed_resources :: "'p \<Rightarrow> (err + managed_resource list) \<times> 'p"

section \<open>The in-memory provider\<close>

text \<open>The tables of \<open>FakeProvider\<close>, and the supply of UUIDs its creations draw from.\<close>

record fake_provider =
  fk_volumes :: "(string \<times> provider_volume) list"
  fk_servers :: "(string \<times> provider_server) list"
  fk_server_volume_links :: "(string \<times> string) list"
  fk_uuid :: "nat \<Rightarrow> string"
  fk_issued :: nat

definition fake_list_volumes :: "fake_provider \<Rightarrow> (err + provider_volume list) \<times> fake_provider" where
  "fake_list_volumes p = (Inr (map snd (fk_volumes p)), p)"

definition fake_list_servers :: "fake_provider \<Rightarrow> (err + provider_server list) \<times> fake_provider" where
  "fake_list_servers p = (Inr (map snd (fk_servers p)), p)"

definition fake_get_volume :: "string \<Rightarrow> fake_provider \<Rightarrow> (err + provider_volume) \<times> fake_provider" where
  "fake_get_volume volume_id p = (from_some KeyError (map_of (fk_volumes p) volume_id), p)"

definition fake_get_server :: "string \<Rightarrow> fake_provider \<Rightarrow> (err + provider_server) \<times> fake_provider" where
  "fake_get_server server_id p = (from_some KeyError (map_of (fk_servers p) server_id), p)"

definition fake_create_volume ::
  "string \<Rightarrow> int \<Rightarrow> tags \<Rightarrow> fake_provider \<Rightarrow> (err + provider_volume) \<times> fake_provider" where
  "fake_create_volume name size_gb metadata p =
     (let volume = \<lparr>pv_volume_id = fk_uuid p (fk_issued p), pv_name = name, pv_size_gb = size_gb,
            pv_status = ''available'', pv_tags = metadata\<rparr>
      in (Inr volume,
          p\<lparr>fk_volumes := dset (fk_volumes p) (pv_volume_id volume) volume, fk_issued := fk_issued p + 1\<rparr>))"

definition fake_delete_volume :: "string \<Rightarrow> fake_provider \<Rightarrow> (err + unit) \<times> fake_provider" where
  "fake_delete_volume volume_id p =
     (if map_of (fk_volumes p) volume_id = None then (Inl KeyError, p) else
      if map_of (fk_server_volume_links p) volume_id \<noteq> None then (Inl RuntimeError, p) else
      (Inr (), p\<lparr>fk_volumes := dpop (fk_volumes p) volume_id\<rparr>))"

definition fake_create_server ::
  "string \<Rightarrow> string \<Rightarrow> string \<Rightarrow> string \<Rightarrow> tags \<Rightarrow> fake_provider \<Rightarrow> (err + provider_server) \<times> fake_provider" where
  "fake_create_server name image_ref flavor_ref volume_id metadata p =
     (if map_of (fk_volumes p) volume_id = None then (Inl KeyError, p) else
      let server = \<lparr>ps_server_id = fk_uuid p (fk_issued p), ps_name = name, ps_status = ''ACTIVE'',
            ps_public_ipv4 = Some ''198.51.100.7'', ps_tags = metadata\<rparr>
      in (Inr server,
          p\<lparr>fk_servers := dset (fk_servers p) (ps_server_id server) server,
            fk_server_volume_links := dset (fk_server_volume_links p) volume_id (ps_server_id server),
            fk_issued := fk_issued p + 1\<rparr>))"

definition fake_delete_server :: "string \<Rightarrow> fake_provider \<Rightarrow> (err + unit) \<times> fake_provider" where
  "fake_delete_server server_id p =
     (if map_of (fk_servers p) server_id = None then (Inl KeyError, p) else
      (Inr (),
       p\<lparr>fk_servers := dpop (fk_servers p) server_id,
         fk_server_volume_links := filter (\<lambda>l. snd l \<noteq> server_id) (fk_server_volume_links p)\<rparr>))"

definition managed_volume :: "(string \<Rightarrow> rat option) \<Rightarrow> provider_volume \<Rightarrow> managed_resource" where
  "managed_volume parse v =
     \<lparr>mr_kind = ''volume'', mr_provider_id = pv_volume_id v,
      mr_session_id = map_of (pv_tags v) ''irlight-session-id'',
      mr_user_id = map_of (pv_tags v) ''irlight-user-id'',
      mr_created_at = tag_time parse (pv_tags v) ''irlight-created-at'',
      mr_delete_after = tag_time parse (pv_tags v) ''irlight-delete-after'',
      mr_details = [(''name'', JStr (pv_name v)), (''size_gb'', JInt (pv_size_gb v)), (''status'', JStr (pv_status v))]\<rparr>"

definition managed_server :: "(string \<Rightarrow> rat option) \<Rightarrow> provider_server \<Rightarrow> managed_resource" where
  "managed_server parse s =
     \<lparr>mr_kind = ''server'', mr_provider_id = ps_server_id s,
      mr_session_id = map_of (ps_tags s) ''irlight-session-id'',
      mr_user_id = map_of (ps_tags s) ''irlight-user-id'',
      mr_created_at = tag_time parse (ps_tags s) ''irlight-created-at'',
      mr_delete_after = tag_time parse (ps_tags s) ''irlight-delete-after'',
      mr_details = [(''name'', JStr (ps_name s)), (''status'', JStr (ps_status s)), (''public_ipv4'', jopt (ps_public_ipv4 s))]\<rparr>"

definition fake_inventory :: "(string \<Rightarrow> rat option) \<Rightarrow> fake_provider \<Rightarrow> managed_resource list" where
  "fake_inventory parse p =
     map (managed_volume parse)
       (filter (\<lambda>v. map_of (pv_tags v) ''irlight-managed'' = Some ''true'') (map snd (fk_volumes p))) @
     map (managed_server parse)
       (filter (\<lambda>s. map_of (ps_tags s) ''irlight-managed'' = Some ''true'') (map snd (fk_servers p)))"

definition fake_list_managed_resources ::
  "(string \<Rightarrow> rat option) \<Rightarrow> fake_provider \<Rightarrow> (err + managed_resource list) \<times> fake_provider" where
  "fake_list_managed_resources parse p = (Inr (fake_inventory parse p), p)"

definition fake_ops :: "(string \<Rightarrow> rat option) \<Rightarrow> fake_provider provider_ops" where
  "fake_ops parse =
     \<lparr>op_list_volumes = fake_list_volumes, op_list_servers = fake_list_servers,
      op_create_volume = fake_create_volume, op_create_server = fake_create_server,
      op_delete_volume = fake_delete_volume, op_delete_server = fake_delete_server,
      op_list_managed_resources = fake_list_managed_resources parse\<rparr>"

text \<open>Every table is keyed by the id of its entries.\<close>

definition fake_wf :: "fake_provider \<Rightarrow> bool" where
  "fake_wf p \<longleftrightarrow>
     distinct (map fst (fk_volumes p)) \<and> distinct (map fst (fk_servers p)) \<and>
     (\<forall>(i, v) \<in> set (fk_volumes p). pv_volume_id v = i) \<and> (\<forall>(i, s) \<in> set (fk_servers p). ps_server_id s = i)"

section \<open>What clients rely on\<close>

text \<open>
  \<open>inventory\<close> is the inventory of managed resources and \<open>good\<close> the states the provider keeps to.  Listing is
  exact and changes nothing; a delete that succeeds removes exactly the resource it names, and one that
  fails removes nothing else.
\<close>

definition is_resource :: "string \<Rightarrow> string \<Rightarrow> managed_resource \<Rightarrow> bool" where
  "is_resource kind i r \<longleftrightarrow> mr_kind r = kind \<and> mr_provider_id r = i"

locale provider_contract =
  fixes ops :: "'p provider_ops" and inventory :: "'p \<Rightarrow> managed_resource list" and good :: "'p \<Rightarrow> bool"
  assumes list_managed: "good p \<Longrightarrow> op_list_managed_resources ops p = (r, p') \<Longrightarrow>
      good p' \<and> inventory p' = inventory p \<and> (\<forall>rs. r = Inr rs \<longrightarrow> rs = inventory p)"
    and list_servers: "good p \<Longrightarrow> op_list_servers ops p = (r1, p') \<Longrightarrow> good p' \<and> inventory p' = inventory p"
    and list_volumes: "good p \<Longrightarrow> op_list_volumes ops p = (r2, p') \<Longrightarrow> good p' \<and> inventory p' = inventory p"
    and delete_server: "good p \<Longrightarrow> op_delete_server ops i p = (r3, p') \<Longrightarrow>
      good p' \<and> (inventory p' = filter (\<lambda>x. \<not> is_resource ''server'' i x) (inventory p) \<or> r3 \<noteq> Inr () \<and> inventory p' = inventory p)"
    and delete_volume: "good p \<Longrightarrow> op_delete_volume ops i p = (r3, p') \<Longrightarrow>
      good p' \<and> (inventory p' = filter (\<lambda>x. \<not> is_resource ''volume'' i x) (inventory p) \<or> r3 \<noteq> Inr () \<and> inventory p' = inventory p)"
    and kinds: "good p \<Longrightarrow> x \<in> set (inventory p) \<Longrightarrow> mr_kind x \<in> {''server'', ''volume''}"
    and unique_ids: "good p \<Longrightarrow> x \<in> set (inventory p) \<Longrightarrow> y \<in> set (inventory p) \<Longrightarrow>
      is_resource (mr_kind x) (mr_provider_id x) y \<Longrightarrow> y = x"

lemma fake_wf_dpop_volume:
  assumes "fake_wf p"
  shows "fake_inventory parse (p\<lparr>fk_volumes := dpop (fk_volumes p) i\<rparr>) =
    filter (\<lambda>x. \<not> is_resource ''volume'' i x) (fake_inventory parse p)"
proof -
  have "map snd (dpop (fk_volumes p) i) = filter (\<lambda>v. pv_volume_id v \<noteq> i) (map snd (fk_volumes p))"
    using assms unfolding fake_wf_def dpop_def AList.delete_eq filter_map
    by (intro arg_cong [where f = "map snd"] filter_cong) auto
  then show ?thesis
    by (auto simp: fake_inventory_def is_resource_def managed_volume_def managed_server_def filter_map comp_def
        intro!: arg_cong [where f = "map _"] filter_cong)
qed

lemma fake_wf_dpop_server:
  assumes "fake_wf p"
  shows "fake_inventory parse (p\<lparr>fk_servers := dpop (fk_servers p) i, fk_server_volume_links := ls\<rparr>) =
    filter (\<lambda>x. \<not> is_resource ''server'' i x) (fake_inventory parse p)"
proof -
  have "map snd (dpop (fk_servers p) i) = filter (\<lambda>v. ps_server_id v \<noteq> i) (map snd (fk_servers p))"
    using assms unfolding fake_wf_def dpop_def AList.delete_eq filter_map
    by (intro arg_cong [where f = "map snd"] filter_cong) auto
  then show ?thesis
    by (auto simp: fake_inventory_def is_resource_def managed_volume_def managed_server_def filter_map comp_def
        intro!: arg_cong [where f = "map _"] filter_cong)
qed

lemma managed_simps [simp]:
  "mr_kind (managed_volume parse v) = ''volume''" "mr_provider_id (managed_volume parse v) = pv_volume_id v"
  "mr_kind (managed_server parse s) = ''server''" "mr_provider_id (managed_server parse s) = ps_server_id s"
  by (simp_all add: managed_volume_def managed_server_def)

lemma fake_unique_ids:
  assumes wf: "fake_wf p" and x: "x \<in> set (fake_inventory parse p)" and y: "y \<in> set (fake_inventory parse p)"
    and eq: "mr_kind y = mr_kind x" "mr_provider_id y = mr_provider_id x"
  shows "y = x"
proof -
  have "\<exists>v. (mr_provider_id z, v) \<in> set (fk_volumes p) \<and> z = managed_volume parse v"
    if "z \<in> set (fake_inventory parse p)" "mr_kind z = ''volume''" for z
    using that wf by (fastforce simp: fake_inventory_def fake_wf_def)
  moreover have "\<exists>v. (mr_provider_id z, v) \<in> set (fk_servers p) \<and> z = managed_server parse v"
    if "z \<in> set (fake_inventory parse p)" "mr_kind z = ''server''" for z
    using that wf by (fastforce simp: fake_inventory_def fake_wf_def)
  moreover have "mr_kind x = ''volume'' \<or> mr_kind x = ''server''"
    using x by (auto simp: fake_inventory_def)
  moreover have "v = u" if "(i, v) \<in> set (fk_volumes p)" "(i, u) \<in> set (fk_volumes p)" for i u v
    using that wf by (auto simp: fake_wf_def dest: eq_key_imp_eq_value)
  moreover have "v = u" if "(i, v) \<in> set (fk_servers p)" "(i, u) \<in> set (fk_servers p)" for i u v
    using that wf by (auto simp: fake_wf_def dest: eq_key_imp_eq_value)
  ultimately show ?thesis using x y eq by metis
qed

interpretation fake: provider_contract "fake_ops parse" "fake_inventory parse" fake_wf
proof unfold_locales
  fix p p' :: fake_provider and r3 :: "err + unit" and i
  assume wf: "fake_wf p" and del: "op_delete_volume (fake_ops parse) i p = (r3, p')"
  have "fake_wf (p\<lparr>fk_volumes := dpop (fk_volumes p) i\<rparr>)"
    using wf by (auto simp: fake_wf_def set_dpop)
  with wf del show "fake_wf p' \<and> (fake_inventory parse p' = filter (\<lambda>x. \<not> is_resource ''volume'' i x) (fake_inventory parse p) \<or>
      r3 \<noteq> Inr () \<and> fake_inventory parse p' = fake_inventory parse p)"
    by (auto simp: fake_ops_def fake_delete_volume_def fake_wf_dpop_volume split: if_splits)
next
  fix p p' :: fake_provider and r3 :: "err + unit" and i
  assume wf: "fake_wf p" and del: "op_delete_server (fake_ops parse) i p = (r3, p')"
  have "fake_wf (p\<lparr>fk_servers := dpop (fk_servers p) i, fk_server_volume_links := ls\<rparr>)" for ls
    using wf by (auto simp: fake_wf_def set_dpop)
  with wf del show "fake_wf p' \<and> (fake_inventory parse p' = filter (\<lambda>x. \<not> is_resource ''server'' i x) (fake_inventory parse p) \<or>
      r3 \<noteq> Inr () \<and> fake_inventory parse p' = fake_inventory parse p)"
    by (auto simp: fake_ops_def fake_delete_server_def fake_wf_dpop_server split: if_splits)
next
  fix p :: fake_provider and x y
  assume "fake_wf p" "x \<in> set (fake_inventory parse p)" "y \<in> set (fake_inventory parse p)"
    "is_resource (mr_kind x) (mr_provider_id x) y"
  then show "y = x" unfolding is_resource_def by (intro fake_unique_ids) auto
qed (auto simp: fake_ops_def fake_list_managed_resources_def fake_list_servers_def fake_list_volumes_def
    fake_inventory_def managed_volume_def managed_server_def)

end
