(* ===== verification/Effects.thy ===== *)
theory Effects
  imports Session_Store Provider
begin

text \<open>
  Programs that use the Session store, the credential store and the provider together: actions on a
  world.  An action returns a value or an exception, and the world after it; the world holds the two
  authorities, the provider's state, and the readings of \<open>time.time()\<close> and \<open>uuid.uuid4()\<close> that later
  calls will see, as functions of a counter.  A store method that may read the clock takes its reading
  from the supply whether or not it uses it.

  An action is one worker's run.  Another process acts only between store calls; since every store call
  is atomic, what it can do there is any sequence of the same calls, which the theorems about
  \<open>run_ops\<close> cover.
\<close>

record 'p world =
  w_sessions :: authority
  w_credentials :: authority
  w_provider :: 'p
  w_clock :: "nat \<Rightarrow> pyfloat"
  w_uuid :: "nat \<Rightarrow> string"
  w_ticks :: nat
  w_drawn :: nat

type_synonym ('p, 'a) act = "'p world \<Rightarrow> (err + 'a) \<times> 'p world"

definition ret :: "'a \<Rightarrow> ('p, 'a) act" where
  "ret x w = (Inr x, w)"

definition throw :: "err \<Rightarrow> ('p, 'a) act" where
  "throw e w = (Inl e, w)"

definition andthen :: "('p, 'a) act \<Rightarrow> ('a \<Rightarrow> ('p, 'b) act) \<Rightarrow> ('p, 'b) act" where
  "andthen m f w = (case m w of (Inl e, w') \<Rightarrow> (Inl e, w') | (Inr x, w') \<Rightarrow> f x w')"

text \<open>\<open>try: m / except Exception as e: h e\<close>, then \<open>try: m / except: h / else: k\<close>, then \<open>finally\<close>.\<close>

definition try_except :: "('p, 'a) act \<Rightarrow> (err \<Rightarrow> ('p, 'a) act) \<Rightarrow> ('p, 'a) act" where
  "try_except m h w = (case m w of (Inl e, w') \<Rightarrow> h e w' | (Inr x, w') \<Rightarrow> (Inr x, w'))"

definition try_else :: "('p, 'a) act \<Rightarrow> (err \<Rightarrow> ('p, 'b) act) \<Rightarrow> ('a \<Rightarrow> ('p, 'b) act) \<Rightarrow> ('p, 'b) act" where
  "try_else m h k w = (case m w of (Inl e, w') \<Rightarrow> h e w' | (Inr x, w') \<Rightarrow> k x w')"

definition try_finally :: "('p, 'a) act \<Rightarrow> ('p, 'b) act \<Rightarrow> ('p, 'a) act" where
  "try_finally m f w = (case m w of (r, w') \<Rightarrow> (case f w' of (Inl e, w'') \<Rightarrow> (Inl e, w'') | (Inr _, w'') \<Rightarrow> (r, w'')))"

definition lift :: "err + 'a \<Rightarrow> ('p, 'a) act" where
  "lift r w = (r, w)"

definition read_clock :: "('p, pyfloat) act" where
  "read_clock w = (Inr (w_clock w (w_ticks w)), w\<lparr>w_ticks := w_ticks w + 1\<rparr>)"

definition draw_uuid :: "('p, string) act" where
  "draw_uuid w = (Inr (w_uuid w (w_drawn w)), w\<lparr>w_drawn := w_drawn w + 1\<rparr>)"

definition on_sessions :: "(authority \<Rightarrow> (err + 'a) \<times> authority) \<Rightarrow> ('p, 'a) act" where
  "on_sessions f w = (case f (w_sessions w) of (r, fs) \<Rightarrow> (r, w\<lparr>w_sessions := fs\<rparr>))"

definition on_credentials :: "(authority \<Rightarrow> (err + 'a) \<times> authority) \<Rightarrow> ('p, 'a) act" where
  "on_credentials f w = (case f (w_credentials w) of (r, fs) \<Rightarrow> (r, w\<lparr>w_credentials := fs\<rparr>))"

definition on_provider :: "('p \<Rightarrow> (err + 'a) \<times> 'p) \<Rightarrow> ('p, 'a) act" where
  "on_provider f w = (case f (w_provider w) of (r, p) \<Rightarrow> (r, w\<lparr>w_provider := p\<rparr>))"

text \<open>Loops over a list that was read before the loop, carrying a value.\<close>

primrec for_each :: "('a \<Rightarrow> 's \<Rightarrow> ('p, 's) act) \<Rightarrow> 'a list \<Rightarrow> 's \<Rightarrow> ('p, 's) act" where
  "for_each f [] s = ret s"
| "for_each f (x # xs) s = andthen (f x s) (for_each f xs)"

text \<open>A comprehension whose condition performs calls.\<close>

primrec filter_act :: "('a \<Rightarrow> ('p, bool) act) \<Rightarrow> 'a list \<Rightarrow> ('p, 'a list) act" where
  "filter_act f [] = ret []"
| "filter_act f (x # xs) =
     andthen (f x) (\<lambda>b. andthen (filter_act f xs) (\<lambda>ys. ret (if b then x # ys else ys)))"

section \<open>Store methods as actions\<close>

definition get_act :: "string \<Rightarrow> ('p, dict option) act" where
  "get_act sid = on_sessions (get_session sid)"

definition create_act :: "string \<Rightarrow> string \<Rightarrow> string \<Rightarrow> json \<Rightarrow> ('p, dict) act" where
  "create_act sid user_id environment hours =
     andthen draw_uuid (\<lambda>u. andthen read_clock (\<lambda>t1. andthen read_clock (\<lambda>t2.
     on_sessions (create (Some sid) user_id environment ''DIRECT_PUSH'' hours u t1 t2))))"

definition update_act :: "string \<Rightarrow> dict \<Rightarrow> ('p, dict) act" where
  "update_act sid changes = andthen read_clock (\<lambda>t. on_sessions (update_session sid changes t))"

definition claim_provisioning_act :: "string \<Rightarrow> string \<Rightarrow> json \<Rightarrow> ('p, dict) act" where
  "claim_provisioning_act sid operation_id started_at =
     andthen read_clock (\<lambda>t1. andthen read_clock (\<lambda>t2.
     on_sessions (claim_provisioning sid operation_id started_at t1 t2)))"

definition checkpoint_act :: "string \<Rightarrow> string \<Rightarrow> string option \<Rightarrow> bool \<Rightarrow> dict \<Rightarrow> ('p, dict) act" where
  "checkpoint_act sid operation_id next_state completes changes =
     andthen read_clock (\<lambda>t. on_sessions (provisioning_checkpoint sid operation_id next_state completes changes t))"

definition request_stop_act :: "string \<Rightarrow> ('p, dict) act" where
  "request_stop_act sid = andthen read_clock (\<lambda>t. on_sessions (request_stop sid t))"

definition request_stop_if_current_act :: "string \<Rightarrow> string \<Rightarrow> dict \<Rightarrow> ('p, dict option) act" where
  "request_stop_if_current_act sid expected_status expected_fields =
     andthen read_clock (\<lambda>t. on_sessions (request_stop_if_current sid expected_status expected_fields t))"

definition transition_act :: "string \<Rightarrow> string \<Rightarrow> string set option \<Rightarrow> dict \<Rightarrow> ('p, dict) act" where
  "transition_act sid new_state allow_from changes =
     andthen read_clock (\<lambda>t. on_sessions (transition sid new_state allow_from changes t))"

definition transition_if_current_act ::
  "string \<Rightarrow> string \<Rightarrow> string set \<Rightarrow> dict \<Rightarrow> dict \<Rightarrow> ('p, dict option) act" where
  "transition_if_current_act sid new_state allow_from expected_fields changes =
     andthen read_clock (\<lambda>t. on_sessions (transition_if_current sid new_state allow_from expected_fields changes t))"

definition update_if_current_act ::
  "string \<Rightarrow> string \<Rightarrow> dict \<Rightarrow> event_request option \<Rightarrow> dict \<Rightarrow> ('p, dict option) act" where
  "update_if_current_act sid expected_status expected_fields event changes =
     andthen read_clock (\<lambda>t. on_sessions (update_if_current sid expected_status expected_fields event changes t))"

definition append_event_act ::
  "string \<Rightarrow> string \<Rightarrow> string option \<Rightarrow> dict \<Rightarrow> string \<Rightarrow> json option \<Rightarrow> ('p, dict) act" where
  "append_event_act sid event_type reason_code payload origin occurred_at =
     andthen read_clock (\<lambda>t. on_sessions (append_event sid event_type reason_code payload origin occurred_at t))"

text \<open>\<open>claim_session_cleanup(session_id)\<close> with its default states and lease time.\<close>

definition claim_session_cleanup_act :: "string \<Rightarrow> ('p, string option) act" where
  "claim_session_cleanup_act sid =
     andthen draw_uuid (\<lambda>u. andthen read_clock (\<lambda>t1. andthen read_clock (\<lambda>t2.
     on_sessions (claim_session_cleanup sid [] (Fin 900) u t1 t2))))"

definition session_cleanup_still_owned_act :: "string \<Rightarrow> string \<Rightarrow> ('p, bool) act" where
  "session_cleanup_still_owned_act sid lease_id =
     andthen read_clock (\<lambda>t. on_sessions (session_cleanup_still_owned sid lease_id t))"

definition release_session_cleanup_act :: "string \<Rightarrow> string \<Rightarrow> ('p, unit) act" where
  "release_session_cleanup_act sid lease_id = on_sessions (release_session_cleanup sid lease_id)"

definition claim_orphan_cleanup_act :: "string \<Rightarrow> string \<Rightarrow> string \<Rightarrow> ('p, string option) act" where
  "claim_orphan_cleanup_act sid resource_id resource_kind =
     andthen draw_uuid (\<lambda>u. andthen read_clock (\<lambda>t1. andthen read_clock (\<lambda>t2.
     on_sessions (claim_orphan_cleanup sid resource_id resource_kind (Fin 900) u t1 t2))))"

definition orphan_cleanup_still_owned_act :: "string \<Rightarrow> string \<Rightarrow> ('p, bool) act" where
  "orphan_cleanup_still_owned_act sid lease_id =
     andthen read_clock (\<lambda>t. on_sessions (orphan_cleanup_still_owned sid lease_id t))"

definition release_orphan_cleanup_act :: "string \<Rightarrow> string \<Rightarrow> ('p, unit) act" where
  "release_orphan_cleanup_act sid lease_id = on_sessions (release_orphan_cleanup sid lease_id)"

definition revoke_session_act :: "string \<Rightarrow> ('p, nat) act" where
  "revoke_session_act sid = andthen read_clock (\<lambda>t. on_credentials (revoke_session sid None t))"

section \<open>Reasoning about actions\<close>

lemma andthen_Inr:
  "andthen m f w = (Inr y, w') \<longleftrightarrow> (\<exists>x w1. m w = (Inr x, w1) \<and> f x w1 = (Inr y, w'))"
  by (cases "m w"; cases "fst (m w)") (auto simp: andthen_def)

lemma andthen_Inl:
  "andthen m f w = (Inl e, w') \<longleftrightarrow> m w = (Inl e, w') \<or> (\<exists>x w1. m w = (Inr x, w1) \<and> f x w1 = (Inl e, w'))"
  by (cases "m w"; cases "fst (m w)") (auto simp: andthen_def)

lemma ret_eq [simp]: "ret x w = (r, w') \<longleftrightarrow> r = Inr x \<and> w' = w"
  by (auto simp: ret_def)

lemma throw_eq [simp]: "throw e w = (r, w') \<longleftrightarrow> r = Inl e \<and> w' = w"
  by (auto simp: throw_def)

lemma lift_eq [simp]: "lift x w = (r, w') \<longleftrightarrow> r = x \<and> w' = w"
  by (auto simp: lift_def)

text \<open>A property of worlds that an action keeps, whatever it returns.\<close>

definition keeps :: "('p world \<Rightarrow> bool) \<Rightarrow> ('p, 'a) act \<Rightarrow> bool" where
  "keeps I m \<longleftrightarrow> (\<forall>w. I w \<longrightarrow> I (snd (m w)))"

named_theorems keeps_intros \<open>actions that keep an invariant\<close>

lemma keepsD: "keeps I m \<Longrightarrow> I w \<Longrightarrow> m w = (r, w') \<Longrightarrow> I w'"
  by (auto simp: keeps_def dest!: spec [of _ w])

lemma keepsI: "(\<And>w r w'. I w \<Longrightarrow> m w = (r, w') \<Longrightarrow> I w') \<Longrightarrow> keeps I m"
  unfolding keeps_def by (metis prod.collapse)

lemma keeps_ret [keeps_intros]: "keeps I (ret x)"
  by (simp add: keeps_def ret_def)

lemma keeps_throw [keeps_intros]: "keeps I (throw e)"
  by (simp add: keeps_def throw_def)

lemma keeps_lift [keeps_intros]: "keeps I (lift r)"
  by (simp add: keeps_def lift_def)

lemma keeps_andthen [keeps_intros]: "keeps I m \<Longrightarrow> (\<And>x. keeps I (f x)) \<Longrightarrow> keeps I (andthen m f)"
  unfolding keeps_def andthen_def by (auto split: prod.splits sum.splits)

lemma keeps_try_except [keeps_intros]: "keeps I m \<Longrightarrow> (\<And>e. keeps I (h e)) \<Longrightarrow> keeps I (try_except m h)"
  unfolding keeps_def try_except_def by (auto split: prod.splits sum.splits)

lemma keeps_try_else [keeps_intros]:
  "keeps I m \<Longrightarrow> (\<And>e. keeps I (h e)) \<Longrightarrow> (\<And>x. keeps I (k x)) \<Longrightarrow> keeps I (try_else m h k)"
  unfolding keeps_def try_else_def by (auto split: prod.splits sum.splits)

lemma keeps_try_finally [keeps_intros]: "keeps I m \<Longrightarrow> keeps I f \<Longrightarrow> keeps I (try_finally m f)"
  unfolding keeps_def try_finally_def by (auto split: prod.splits sum.splits)

lemma keeps_if [keeps_intros]: "(b \<Longrightarrow> keeps I m) \<Longrightarrow> (\<not> b \<Longrightarrow> keeps I m') \<Longrightarrow> keeps I (if b then m else m')"
  by simp

lemma keeps_option [keeps_intros]:
  "(x = None \<Longrightarrow> keeps I m) \<Longrightarrow> (\<And>y. x = Some y \<Longrightarrow> keeps I (f y)) \<Longrightarrow> keeps I (case x of None \<Rightarrow> m | Some y \<Rightarrow> f y)"
  by (cases x) simp_all

lemma keeps_prod [keeps_intros]: "(\<And>a b. p = (a, b) \<Longrightarrow> keeps I (f a b)) \<Longrightarrow> keeps I (case p of (a, b) \<Rightarrow> f a b)"
  by (cases p) simp

lemma keeps_Let [keeps_intros]: "keeps I (f x) \<Longrightarrow> keeps I (let y = x in f y)"
  by simp

lemma keeps_for_each [keeps_intros]: "(\<And>x s. x \<in> set xs \<Longrightarrow> keeps I (f x s)) \<Longrightarrow> keeps I (for_each f xs s)"
proof (induction xs arbitrary: s)
  case (Cons x xs)
  then show ?case by (simp add: keeps_andthen)
qed (simp add: keeps_ret)

lemma keeps_filter_act [keeps_intros]: "(\<And>x. keeps I (f x)) \<Longrightarrow> keeps I (filter_act f xs)"
  by (induction xs) (auto intro!: keeps_intros)

lemmas act_defs =
  get_act_def create_act_def update_act_def claim_provisioning_act_def checkpoint_act_def request_stop_act_def
  request_stop_if_current_act_def transition_act_def transition_if_current_act_def update_if_current_act_def
  append_event_act_def claim_session_cleanup_act_def session_cleanup_still_owned_act_def
  release_session_cleanup_act_def claim_orphan_cleanup_act_def orphan_cleanup_still_owned_act_def
  release_orphan_cleanup_act_def

end
