(* ===== verification/Session_Workflow.thy ===== *)
theory Session_Workflow
  imports Effects
begin

text \<open>
  The provisioning workflow (\<open>apps/control-api/session_workflow.py\<close>): preparing a Session's provider
  resources and stopping a Session, as actions on the two stores and the provider.

  Parameters: the provider's operations \<open>ops\<close>, the text \<open>str(exc)\<close> of an exception, the formatting of
  timestamp tags, and whether the node handshake is required (an environment variable).
\<close>

record workflow_config =
  wc_size_gb :: int
  wc_image_ref :: string
  wc_flavor_ref :: string

text \<open>\<open>_provisioning_cancelled\<close>\<close>

definition provisioning_cancelled :: "dict \<Rightarrow> bool" where
  "provisioning_cancelled session \<longleftrightarrow>
     truthy (dget session ''provisioning_cancel_requested'') \<or>
     status_of session \<in> {''STOPPING'', ''FAILED_CLEANUP'', ''FINISHED'', ''FAILED''}"

section \<open>Finding and deleting resources\<close>

text \<open>
  The search of \<open>_find_managed\<close> over the tags of the listed resources, in the way \<open>prepare\<close> calls it:
  with the Session id only, so that \<open>expected\<close> repeats the test already made.
\<close>

fun find_managed :: "('r \<Rightarrow> tags) \<Rightarrow> tags \<Rightarrow> string \<Rightarrow> 'r list \<Rightarrow> err + 'r option" where
  "find_managed tags_of expected session_id [] = Inr None"
| "find_managed tags_of expected session_id (resource # resources) =
     (let ts = tags_of resource in
      if map_of ts ''irlight-session-id'' \<noteq> Some session_id then find_managed tags_of expected session_id resources else
      if map_of ts ''irlight-managed'' \<noteq> Some ''true'' then find_managed tags_of expected session_id resources else
      if list_ex (\<lambda>e. map_of ts (fst e) \<noteq> Some (snd e)) expected then Inl RuntimeError else
      Inr (Some resource))"

definition expected_tags :: "string \<Rightarrow> string option \<Rightarrow> string option \<Rightarrow> tags" where
  "expected_tags session_id user_id environment =
     [(''irlight-session-id'', session_id)] @
     (case user_id of None \<Rightarrow> [] | Some u \<Rightarrow> [(''irlight-user-id'', u)]) @
     (case environment of None \<Rightarrow> [] | Some e \<Rightarrow> [(''irlight-environment'', e)])"

definition find_managed_volume ::
  "'p provider_ops \<Rightarrow> string \<Rightarrow> string option \<Rightarrow> string option \<Rightarrow> ('p, provider_volume option) act" where
  "find_managed_volume ops session_id user_id environment =
     andthen (on_provider (op_list_volumes ops)) (\<lambda>resources.
     lift (find_managed pv_tags (expected_tags session_id user_id environment) session_id resources))"

definition find_managed_server ::
  "'p provider_ops \<Rightarrow> string \<Rightarrow> string option \<Rightarrow> string option \<Rightarrow> ('p, provider_server option) act" where
  "find_managed_server ops session_id user_id environment =
     andthen (on_provider (op_list_servers ops)) (\<lambda>resources.
     lift (find_managed ps_tags (expected_tags session_id user_id environment) session_id resources))"

text \<open>\<open>_resource_environment\<close>: the environment tag of the concrete resource behind an inventory row.\<close>

definition resource_environment :: "'p provider_ops \<Rightarrow> managed_resource \<Rightarrow> string \<Rightarrow> ('p, bool) act" where
  "resource_environment ops resource expected =
     (if expected = [] then ret False else
      andthen (on_provider (op_list_servers ops)) (\<lambda>servers.
      andthen (on_provider (op_list_volumes ops)) (\<lambda>volumes.
      let candidates = map (\<lambda>s. (ps_server_id s, ps_tags s)) servers @ map (\<lambda>v. (pv_volume_id v, pv_tags v)) volumes
      in ret (case List.find (\<lambda>c. fst c = mr_provider_id resource) candidates of
                None \<Rightarrow> False
              | Some c \<Rightarrow> map_of (snd c) ''irlight-environment'' = Some expected))))"

text \<open>
  One deletion loop of \<open>_cleanup_resources\<close>: ownership of the lease is checked before every delete; a
  lost lease ends the loop with False, a failed delete makes the result False but the loop goes on.
\<close>

primrec delete_loop ::
  "(string \<Rightarrow> 'p \<Rightarrow> (err + unit) \<times> 'p) \<Rightarrow> string \<Rightarrow> string option \<Rightarrow> managed_resource list \<Rightarrow> bool \<Rightarrow> ('p, bool) act" where
  "delete_loop delete session_id lease_id [] ok = ret ok"
| "delete_loop delete session_id lease_id (r # rs) ok =
     andthen (case lease_id of None \<Rightarrow> ret True | Some l \<Rightarrow> session_cleanup_still_owned_act session_id l) (\<lambda>owned.
     if \<not> owned then ret False else
     andthen (try_except (andthen (on_provider (delete (mr_provider_id r))) (\<lambda>_. ret ok)) (\<lambda>_. ret False)) (\<lambda>ok.
     delete_loop delete session_id lease_id rs ok))"

definition owned_resources ::
  "'p provider_ops \<Rightarrow> string \<Rightarrow> string \<Rightarrow> string \<Rightarrow> ('p, managed_resource list) act" where
  "owned_resources ops session_id expected_user expected_environment =
     andthen (on_provider (op_list_managed_resources ops)) (\<lambda>resources.
     filter_act (\<lambda>r.
       if mr_session_id r = Some session_id \<and> mr_user_id r = Some expected_user
       then resource_environment ops r expected_environment else ret False) resources)"

definition json_text :: "json \<Rightarrow> string" where
  "json_text v = (case as_str v of None \<Rightarrow> [] | Some s \<Rightarrow> s)"

text \<open>\<open>ProvisioningWorkflow._cleanup_resources\<close>\<close>

definition workflow_cleanup_resources ::
  "'p provider_ops \<Rightarrow> string \<Rightarrow> string option \<Rightarrow> ('p, bool) act" where
  "workflow_cleanup_resources ops session_id lease_id =
     andthen (get_act session_id) (\<lambda>found.
     let current = (case found of None \<Rightarrow> [] | Some s \<Rightarrow> s);
         expected_user = json_text (dget current ''user_id'');
         expected_environment = json_text (dget current ''environment'')
     in
     andthen (owned_resources ops session_id expected_user expected_environment) (\<lambda>resources.
     andthen (delete_loop (op_delete_server ops) session_id lease_id
                (filter (\<lambda>r. mr_kind r = ''server'') resources) True) (\<lambda>ok.
     if \<not> ok then ret False else
     andthen (owned_resources ops session_id expected_user expected_environment) (\<lambda>remaining.
     if list_ex (\<lambda>r. mr_kind r = ''server'') remaining then ret False else
     delete_loop (op_delete_volume ops) session_id lease_id
       (filter (\<lambda>r. mr_kind r = ''volume'') remaining) True))))"

section \<open>Stopping\<close>

definition released_fields :: dict where
  "released_fields = [(''provisioning_in_progress'', JBool False), (''provisioning_operation_id'', JNull)]"

definition workflow_stop :: "'p provider_ops \<Rightarrow> string \<Rightarrow> ('p, dict) act" where
  "workflow_stop ops session_id =
     andthen (get_act session_id) (\<lambda>found.
     case found of
       None \<Rightarrow> throw KeyError
     | Some session \<Rightarrow>
         if status_of session \<in> {''STOPPED'', ''FINISHED'', ''FAILED''} then
           andthen (revoke_session_act session_id) (\<lambda>_. ret session)
         else
         andthen (request_stop_act session_id) (\<lambda>session.
         andthen (revoke_session_act session_id) (\<lambda>_.
         if truthy (dget session ''provisioning_in_progress'') then ret session else
         andthen (claim_session_cleanup_act session_id) (\<lambda>lease.
         case lease of
           None \<Rightarrow> andthen (get_act session_id) (\<lambda>latest. ret (case latest of None \<Rightarrow> session | Some s \<Rightarrow> if s = [] then session else s))
         | Some lease_id \<Rightarrow>
             try_finally
               (andthen (workflow_cleanup_resources ops session_id (Some lease_id)) (\<lambda>cleaned.
                if \<not> cleaned then
                  transition_act session_id ''FAILED_CLEANUP'' (Some {''STOPPING''})
                    ([(''cleanup_pending'', JBool True), (''failure_reason'', JStr ''resource cleanup failed'')] @ released_fields)
                else
                  transition_act session_id ''FINISHED'' (Some {''STOPPING''})
                    ([(''cleanup_pending'', JBool False)] @ released_fields @
                     [(''provisioning_cancel_requested'', JBool False)])))
               (release_session_cleanup_act session_id lease_id)))))"

section \<open>Preparing\<close>

definition cancelled_fields :: dict where
  "cancelled_fields = released_fields @ [(''provisioning_cancel_requested'', JBool False)]"

text \<open>\<open>_finish_cancelled_provisioning\<close>\<close>

definition finish_cancelled_provisioning :: "'p provider_ops \<Rightarrow> string \<Rightarrow> ('p, dict) act" where
  "finish_cancelled_provisioning ops session_id =
     andthen (get_act session_id) (\<lambda>found.
     case found of
       None \<Rightarrow> throw KeyError
     | Some current \<Rightarrow>
         if status_of current \<notin> {''STOPPING'', ''FAILED_CLEANUP''} then ret current else
         andthen (revoke_session_act session_id) (\<lambda>_.
         andthen (claim_session_cleanup_act session_id) (\<lambda>lease.
         case lease of
           None \<Rightarrow> ret current
         | Some lease_id \<Rightarrow>
             try_finally
               (andthen (workflow_cleanup_resources ops session_id (Some lease_id)) (\<lambda>cleaned.
                andthen (get_act session_id) (\<lambda>again.
                case again of
                  None \<Rightarrow> throw KeyError
                | Some current \<Rightarrow>
                    if status_of current = ''STOPPING'' then
                      if cleaned then
                        transition_act session_id ''FINISHED'' (Some {''STOPPING''})
                          ([(''cleanup_pending'', JBool False)] @ cancelled_fields)
                      else
                        transition_act session_id ''FAILED_CLEANUP'' (Some {''STOPPING''})
                          ([(''cleanup_pending'', JBool True),
                            (''failure_reason'', JStr ''resource cleanup failed after provisioning cancellation'')] @ cancelled_fields)
                    else if status_of current = ''FAILED_CLEANUP'' \<and> cleaned then
                      transition_act session_id ''FAILED'' (Some {''FAILED_CLEANUP''})
                        ([(''cleanup_pending'', JBool False)] @ cancelled_fields)
                    else if status_of current = ''FAILED_CLEANUP'' then
                      update_act session_id ([(''cleanup_pending'', JBool True)] @ cancelled_fields)
                    else ret current)))
               (release_session_cleanup_act session_id lease_id))))"

text \<open>The handler for any exception but \<open>ProvisioningInProgress\<close>; the exception is raised again.\<close>

definition provisioning_failed :: "'p provider_ops \<Rightarrow> (err \<Rightarrow> string) \<Rightarrow> string \<Rightarrow> err \<Rightarrow> ('p, dict) act" where
  "provisioning_failed ops message session_id exc =
     andthen (get_act session_id) (\<lambda>current.
     if (case current of None \<Rightarrow> False | Some s \<Rightarrow> provisioning_cancelled s)
     then finish_cancelled_provisioning ops session_id else
     andthen (try_except
        (andthen (transition_act session_id ''FAILED_CLEANUP'' (Some {''PROVISIONING'', ''BOOTSTRAPPING''})
           ([(''cleanup_pending'', JBool True), (''failure_reason'', JStr (take 500 (message exc)))] @ released_fields))
         (\<lambda>s. ret (Some s)))
        (\<lambda>_. ret None)) (\<lambda>failed.
     andthen
       (if failed = None then ret () else
        andthen (try_except (andthen (revoke_session_act session_id) (\<lambda>_. ret ())) (\<lambda>_. ret ())) (\<lambda>_.
        andthen (claim_session_cleanup_act session_id) (\<lambda>lease.
        case lease of
          None \<Rightarrow> ret ()
        | Some lease_id \<Rightarrow>
            try_finally
              (andthen (workflow_cleanup_resources ops session_id (Some lease_id)) (\<lambda>cleaned.
               if cleaned then
                 try_except
                   (andthen (transition_act session_id ''FAILED'' (Some {''FAILED_CLEANUP''})
                      [(''cleanup_pending'', JBool False)]) (\<lambda>_. ret ()))
                   (\<lambda>_. ret ())
               else ret ()))
              (release_session_cleanup_act session_id lease_id))))
       (\<lambda>_. throw exc)))"

definition handle_provisioning_error ::
  "'p provider_ops \<Rightarrow> (err \<Rightarrow> string) \<Rightarrow> string \<Rightarrow> bool \<Rightarrow> err \<Rightarrow> ('p, dict) act" where
  "handle_provisioning_error ops message session_id claimed exc =
     (if exc = ProvisioningInProgress then
        if claimed then
          andthen (get_act session_id) (\<lambda>current.
          if (case current of None \<Rightarrow> False | Some s \<Rightarrow> provisioning_cancelled s)
          then finish_cancelled_provisioning ops session_id else throw exc)
        else throw exc
      else provisioning_failed ops message session_id exc)"

text \<open>Continue only while provisioning is not cancelled.\<close>

definition unless_cancelled :: "'p provider_ops \<Rightarrow> string \<Rightarrow> dict \<Rightarrow> ('p, dict) act \<Rightarrow> ('p, dict) act" where
  "unless_cancelled ops session_id session continue =
     (if provisioning_cancelled session then finish_cancelled_provisioning ops session_id else continue)"

definition ensure_volume ::
  "'p provider_ops \<Rightarrow> workflow_config \<Rightarrow> (pyfloat \<Rightarrow> string) \<Rightarrow> string \<Rightarrow> string \<Rightarrow> string \<Rightarrow> ('p, provider_volume) act" where
  "ensure_volume ops config fmt session_id user_id environment =
     andthen (find_managed_volume ops session_id None None) (\<lambda>volume.
     case volume of
       Some v \<Rightarrow> ret v
     | None \<Rightarrow>
         andthen read_clock (\<lambda>t.
         andthen (lift (session_tags fmt session_id user_id environment t)) (\<lambda>ts.
         on_provider (op_create_volume ops (''irlight-'' @ session_id @ ''-boot'') (wc_size_gb config) ts))))"

definition ensure_server ::
  "'p provider_ops \<Rightarrow> workflow_config \<Rightarrow> (pyfloat \<Rightarrow> string) \<Rightarrow> string \<Rightarrow> string \<Rightarrow> string \<Rightarrow> string \<Rightarrow> ('p, provider_server) act" where
  "ensure_server ops config fmt session_id user_id environment volume_id =
     andthen (find_managed_server ops session_id None None) (\<lambda>server.
     case server of
       Some s \<Rightarrow> ret s
     | None \<Rightarrow>
         andthen read_clock (\<lambda>t.
         andthen (lift (session_tags fmt session_id user_id environment t)) (\<lambda>ts.
         on_provider (op_create_server ops (''irlight-'' @ session_id @ ''-node'') (wc_image_ref config)
           (wc_flavor_ref config) volume_id ts))))"

text \<open>
  \<open>_ensure_resources\<close>, which checks the owner of what it finds; \<open>prepare\<close> does not use it.  The
  metadata is built once, before the provider is asked.
\<close>

definition ensure_resources ::
  "'p provider_ops \<Rightarrow> workflow_config \<Rightarrow> (pyfloat \<Rightarrow> string) \<Rightarrow> string \<Rightarrow> string \<Rightarrow> string
    \<Rightarrow> ('p, provider_volume \<times> provider_server) act" where
  "ensure_resources ops config fmt session_id user_id environment =
     andthen read_clock (\<lambda>t.
     andthen (lift (session_tags fmt session_id user_id environment t)) (\<lambda>ts.
     andthen (andthen (find_managed_volume ops session_id (Some user_id) (Some environment)) (\<lambda>volume.
              case volume of
                Some v \<Rightarrow> ret v
              | None \<Rightarrow> on_provider (op_create_volume ops (''irlight-'' @ session_id @ ''-boot'') (wc_size_gb config) ts))) (\<lambda>volume.
     andthen (andthen (find_managed_server ops session_id (Some user_id) (Some environment)) (\<lambda>server.
              case server of
                Some s \<Rightarrow> ret s
              | None \<Rightarrow> on_provider (op_create_server ops (''irlight-'' @ session_id @ ''-node'') (wc_image_ref config)
                  (wc_flavor_ref config) (pv_volume_id volume) ts))) (\<lambda>server.
     ret (volume, server)))))"

definition provision_claimed ::
  "'p provider_ops \<Rightarrow> workflow_config \<Rightarrow> (pyfloat \<Rightarrow> string) \<Rightarrow> bool \<Rightarrow> string \<Rightarrow> string \<Rightarrow> string \<Rightarrow> string \<Rightarrow> ('p, dict) act" where
  "provision_claimed ops config fmt handshake session_id user_id environment operation_id =
     andthen (ensure_volume ops config fmt session_id user_id environment) (\<lambda>volume.
     andthen (checkpoint_act session_id operation_id None False
                [(''provider_volume_id'', JStr (pv_volume_id volume))]) (\<lambda>session.
     unless_cancelled ops session_id session (
     andthen (ensure_server ops config fmt session_id user_id environment (pv_volume_id volume)) (\<lambda>server.
     andthen (checkpoint_act session_id operation_id None False
                [(''provider_server_id'', JStr (ps_server_id server)),
                 (''provider_public_ipv4'', jopt (ps_public_ipv4 server))]) (\<lambda>session.
     unless_cancelled ops session_id session (
     andthen (checkpoint_act session_id operation_id (Some ''BOOTSTRAPPING'') False []) (\<lambda>session.
     unless_cancelled ops session_id session (
     if environment = ''prod'' \<and> handshake then ret session else
     andthen read_clock (\<lambda>ready_at.
     checkpoint_act session_id operation_id (Some ''READY_WAIT_INGEST'') True
       [(''ready_at'', JFloat ready_at)])))))))))"

definition workflow_prepare ::
  "'p provider_ops \<Rightarrow> workflow_config \<Rightarrow> (pyfloat \<Rightarrow> string) \<Rightarrow> (err \<Rightarrow> string) \<Rightarrow> bool \<Rightarrow> string \<Rightarrow> string option \<Rightarrow> string \<Rightarrow> ('p, dict) act" where
  "workflow_prepare ops config fmt message handshake session_id user_id environment =
     (let user = (case user_id of None \<Rightarrow> ''unknown'' | Some u \<Rightarrow> if u = [] then ''unknown'' else u) in
      andthen (get_act session_id) (\<lambda>found.
      andthen (case found of
                 None \<Rightarrow> create_act session_id user environment (JTime 12)
               | Some s \<Rightarrow> ret s) (\<lambda>session.
      if status_of session \<in> {''READY_WAIT_INGEST'', ''LIVE'', ''DEGRADED'', ''HOLDING''} then ret session else
      if status_of session \<in> {''FINISHED'', ''FAILED''} then throw RuntimeError else
      if status_of session \<in> {''STOPPING'', ''FAILED_CLEANUP''} then throw RuntimeError else
      andthen draw_uuid (\<lambda>operation_id.
      try_else
        (andthen read_clock (\<lambda>started_at. claim_provisioning_act session_id operation_id (JFloat started_at)))
        (handle_provisioning_error ops message session_id False)
        (\<lambda>_. try_except
           (provision_claimed ops config fmt handshake session_id user environment operation_id)
           (handle_provisioning_error ops message session_id True))))))"

end
