(* ===== verification/Reaper.thy ===== *)
theory Reaper
  imports Session_Workflow
begin

text \<open>
  The reaper (\<open>apps/control-api/reaper.py\<close>): one sweep that fails stuck Sessions, stops expired ones,
  retries cleanups and deletes orphaned provider resources, as an action on the stores and the provider.

  Parameters: the provider's operations, the validated configuration, the sweep's time, and the Node
  registry snapshot (None when it cannot be trusted).
\<close>

section \<open>Configuration\<close>

definition validated_reaper_number :: "json \<Rightarrow> err + rat" where
  "validated_reaper_number value =
     rbind (finite_argument value) (\<lambda>number.
     rbind (require ValueError (0 \<le> number)) (\<lambda>_. Inr number))"

record reaper_config =
  rc_provisioning_timeout_seconds :: rat
  rc_no_ingest_timeout_seconds :: rat
  rc_hold_timeout_seconds :: rat
  rc_heartbeat_grace_seconds :: rat
  rc_orphan_grace_seconds :: rat

definition make_reaper_config :: "json \<Rightarrow> json \<Rightarrow> json \<Rightarrow> json \<Rightarrow> json \<Rightarrow> err + reaper_config" where
  "make_reaper_config provisioning no_ingest hold heartbeat orphan =
     rbind (validated_reaper_number provisioning) (\<lambda>a.
     rbind (validated_reaper_number no_ingest) (\<lambda>b.
     rbind (validated_reaper_number hold) (\<lambda>c.
     rbind (validated_reaper_number heartbeat) (\<lambda>d.
     rbind (validated_reaper_number orphan) (\<lambda>e.
     Inr \<lparr>rc_provisioning_timeout_seconds = a, rc_no_ingest_timeout_seconds = b, rc_hold_timeout_seconds = c,
          rc_heartbeat_grace_seconds = d, rc_orphan_grace_seconds = e\<rparr>)))))"

text \<open>
  \<open>float(v)\<close> of a value read from a validated document: a number.  None is the case in which the code
  sees TypeError or ValueError.
\<close>

definition py_float :: "json \<Rightarrow> rat option" where
  "py_float v = (case num_of v of Some (Fin x) \<Rightarrow> Some x | _ \<Rightarrow> None)"

section \<open>Baselines\<close>

definition has_holding_event_since :: "dict \<Rightarrow> rat \<Rightarrow> bool" where
  "has_holding_event_since session started \<longleftrightarrow>
     (case as_list (dget_or session ''events'' (JList [])) of
        None \<Rightarrow> False
      | Some events \<Rightarrow>
          list_ex (\<lambda>e. case as_obj e of
               None \<Rightarrow> False
             | Some event \<Rightarrow>
                 dget event ''type'' = JStr ''session.holding'' \<and>
                 (case py_float (dget event ''occurred_at'') of None \<Rightarrow> False | Some t \<Rightarrow> started \<le> t))
            (rev events))"

text \<open>The last heartbeat and the time a missing one is measured from.\<close>

definition heartbeat_baseline :: "dict \<Rightarrow> dict \<Rightarrow> rat option \<times> rat option" where
  "heartbeat_baseline session node_state =
     (let node_id = json_text (dget session ''node_id'') in
      if node_id = [] then (None, None) else
      let session_last = (if dget session ''node_last_heartbeat_at'' = JNull then None
            else py_float (dget session ''node_last_heartbeat_at''));
          registry_last =
            (case as_obj (dget_or node_state ''nodes'' (JObj [])) of
               None \<Rightarrow> None
             | Some nodes \<Rightarrow>
                 (case as_obj (dget nodes node_id) of
                    None \<Rightarrow> None
                  | Some node \<Rightarrow>
                      if json_text (dget node ''session_id'') = json_text (dget session ''session_id'') \<and>
                         dget node ''last_heartbeat_at'' \<noteq> JNull
                      then py_float (dget node ''last_heartbeat_at'') else None));
          last_heartbeat = (if session_last \<noteq> None then session_last else registry_last);
          registered_at = (if dget session ''node_registered_at'' = JNull then None
            else py_float (dget session ''node_registered_at''))
      in (if last_heartbeat \<noteq> None then last_heartbeat else registered_at, last_heartbeat))"

definition jtime_opt :: "rat option \<Rightarrow> json" where
  "jtime_opt t = (case t of None \<Rightarrow> JNull | Some x \<Rightarrow> JTime x)"

section \<open>Cleanup\<close>

text \<open>\<open>Reaper._cleanup_resources\<close>: every server of the Session, then, once no server is left, its volumes.\<close>

definition reaper_cleanup_resources :: "'p provider_ops \<Rightarrow> string \<Rightarrow> string option \<Rightarrow> ('p, bool) act" where
  "reaper_cleanup_resources ops session_id lease_id =
     andthen (on_provider (op_list_managed_resources ops)) (\<lambda>resources.
     andthen (delete_loop (op_delete_server ops) session_id lease_id
                (filter (\<lambda>r. mr_session_id r = Some session_id \<and> mr_kind r = ''server'') resources) True) (\<lambda>ok.
     if \<not> ok then ret False else
     andthen (on_provider (op_list_managed_resources ops)) (\<lambda>remaining.
     if list_ex (\<lambda>r. mr_session_id r = Some session_id \<and> mr_kind r = ''server'') remaining then ret False else
     delete_loop (op_delete_volume ops) session_id lease_id
       (filter (\<lambda>r. mr_session_id r = Some session_id \<and> mr_kind r = ''volume'') remaining) True)))"

definition failed_event :: "string \<Rightarrow> string \<Rightarrow> json \<Rightarrow> rat \<Rightarrow> ('p, dict) act" where
  "failed_event session_id reason_code failure_reason sweep_now =
     append_event_act session_id ''session.failed'' (Some reason_code)
       [(''failure_reason'', failure_reason), (''cleanup_pending'', JBool False)] ''reaper'' (Some (JTime sweep_now))"

text \<open>\<open>_fail_missing_heartbeat\<close>\<close>

definition fail_missing_heartbeat ::
  "reaper_config \<Rightarrow> dict \<Rightarrow> rat option \<Rightarrow> rat \<Rightarrow> ('p, bool) act" where
  "fail_missing_heartbeat config session last_heartbeat_at detected_at =
     (let session_id = json_text (dget session ''session_id'') in
      try_else
        (transition_if_current_act session_id ''FAILED_CLEANUP'' ACTIVE_STATES
           [(''node_id'', dget session ''node_id''),
            (''node_boot_id'', dget session ''node_boot_id''),
            (''node_registered_at'', dget session ''node_registered_at''),
            (''node_last_heartbeat_at'', dget session ''node_last_heartbeat_at'')]
           [(''cleanup_pending'', JBool True),
            (''failure_reason'', JStr ''node heartbeat timed out''),
            (''failure_reason_code'', JStr ''NODE_SHUTDOWN'')])
        (\<lambda>_. ret False)
        (\<lambda>transitioned.
          if transitioned = None then ret False else
          andthen (append_event_act session_id ''session.failure_detected'' (Some ''NODE_SHUTDOWN'')
             [(''node_id'', dget session ''node_id''),
              (''from_state'', dget session ''status''),
              (''to_state'', JStr ''FAILED_CLEANUP''),
              (''cleanup_pending'', JBool True),
              (''last_heartbeat_at'', jtime_opt last_heartbeat_at),
              (''node_registered_at'', dget session ''node_registered_at''),
              (''heartbeat_grace_seconds'', JTime (max 0 (rc_heartbeat_grace_seconds config)))]
             ''reaper'' (Some (JTime detected_at))) (\<lambda>_.
          try_except (andthen (revoke_session_act session_id) (\<lambda>_. ret True)) (\<lambda>_. ret False))))"

text \<open>\<open>_fail_and_cleanup\<close>, as the sweep calls it: against the snapshot it looked at.\<close>

definition fail_and_cleanup ::
  "'p provider_ops \<Rightarrow> string \<Rightarrow> string \<Rightarrow> string \<Rightarrow> string \<Rightarrow> dict \<Rightarrow> rat \<Rightarrow> ('p, bool) act" where
  "fail_and_cleanup ops session_id reason reason_code expected_status expected_fields sweep_now =
     try_else
       (transition_if_current_act session_id ''FAILED_CLEANUP'' {expected_status} expected_fields
          ([(''cleanup_pending'', JBool True),
            (''failure_reason'', JStr reason),
            (''failure_reason_code'', JStr reason_code),
            (''provisioning_cancel_requested'', JBool True)] @ released_fields))
       (\<lambda>_. ret False)
       (\<lambda>failed.
         if failed = None then ret False else
         try_else (revoke_session_act session_id) (\<lambda>_. ret True) (\<lambda>_.
         andthen (claim_session_cleanup_act session_id) (\<lambda>lease.
         case lease of
           None \<Rightarrow> ret True
         | Some lease_id \<Rightarrow>
             try_finally
               (andthen (reaper_cleanup_resources ops session_id (Some lease_id)) (\<lambda>cleaned.
                if \<not> cleaned then ret True else
                andthen (transition_act session_id ''FAILED'' (Some {''FAILED_CLEANUP''}) [(''cleanup_pending'', JBool False)]) (\<lambda>_.
                andthen (failed_event session_id reason_code (JStr reason) sweep_now) (\<lambda>_. ret True))))
               (release_session_cleanup_act session_id lease_id))))"

text \<open>\<open>_stop_and_cleanup\<close>; without an expected status it stops whatever the Session is in.\<close>

definition stop_and_cleanup ::
  "'p provider_ops \<Rightarrow> reaper_config \<Rightarrow> string \<Rightarrow> string \<Rightarrow> (string \<times> dict) option \<Rightarrow> rat \<Rightarrow> ('p, bool) act" where
  "stop_and_cleanup ops config session_id reason_code expected sweep_now =
     andthen (case expected of
                Some (st, _) \<Rightarrow> ret (JStr st)
              | None \<Rightarrow> andthen (get_act session_id) (\<lambda>before.
                  ret (case before of None \<Rightarrow> JNull | Some b \<Rightarrow> if b = [] then JNull else JStr (status_of b)))) (\<lambda>from_state.
     try_else
       (case expected of
          None \<Rightarrow> andthen (request_stop_act session_id) (\<lambda>s. ret (Some s))
        | Some (st, expected_fields) \<Rightarrow> request_stop_if_current_act session_id st expected_fields)
       (\<lambda>_. ret False)
       (\<lambda>stop.
         case stop of
           None \<Rightarrow> ret False
         | Some stopping \<Rightarrow>
             if status_of stopping \<in> TERMINAL_STATES then ret False else
             try_else (revoke_session_act session_id) (\<lambda>_. ret True) (\<lambda>_.
             andthen
               (if from_state \<noteq> JStr ''STOPPING'' then
                  andthen (append_event_act session_id ''session.stopping'' (Some reason_code)
                    [(''from_state'', from_state), (''to_state'', JStr ''STOPPING'')] ''reaper'' (Some (JTime sweep_now)))
                    (\<lambda>_. ret ())
                else ret ()) (\<lambda>_.
             andthen
               (if truthy (dget stopping ''provisioning_in_progress'') then
                  let started =
                    (let a = dget stopping ''provisioning_started_at''; b = dget stopping ''updated_at'' in
                     case py_float (if truthy a then a else if truthy b then b else JTime sweep_now) of
                       None \<Rightarrow> sweep_now | Some t \<Rightarrow> t)
                  in if sweep_now - started \<le> rc_provisioning_timeout_seconds config then ret True
                     else andthen (update_act session_id released_fields) (\<lambda>_. ret False)
                else ret False) (\<lambda>wait.
             if wait then ret True else
             andthen (claim_session_cleanup_act session_id) (\<lambda>lease.
             case lease of
               None \<Rightarrow> ret True
             | Some lease_id \<Rightarrow>
                 try_finally
                   (andthen (reaper_cleanup_resources ops session_id (Some lease_id)) (\<lambda>cleaned.
                    if \<not> cleaned then
                      andthen (transition_act session_id ''FAILED_CLEANUP'' (Some {''STOPPING''})
                        ([(''cleanup_pending'', JBool True),
                          (''failure_reason'', JStr ''resource cleanup failed''),
                          (''failure_reason_code'', JStr ''RESOURCE_CLEANUP_FAILED'')] @ released_fields)) (\<lambda>_. ret True)
                    else
                    andthen (transition_act session_id ''FINISHED'' (Some {''STOPPING''})
                        ([(''cleanup_pending'', JBool False)] @ released_fields @
                         [(''provisioning_cancel_requested'', JBool False)])) (\<lambda>_.
                    andthen (append_event_act session_id ''session.finished'' (Some reason_code)
                      [(''from_state'', JStr ''STOPPING''), (''to_state'', JStr ''FINISHED'')] ''reaper''
                      (Some (JTime sweep_now))) (\<lambda>_. ret True))))
                   (release_session_cleanup_act session_id lease_id)))))))"

section \<open>Orphans\<close>

text \<open>
  \<open>_orphan_delete_allowed\<close>: no Session in service owns the id, and the resource is past its deletion
  time or older than the grace period.
\<close>

definition orphan_delete_allowed ::
  "reaper_config \<Rightarrow> managed_resource \<Rightarrow> (string \<times> dict) list \<Rightarrow> rat \<Rightarrow> bool" where
  "orphan_delete_allowed config resource known sweep_now =
     (case mr_session_id resource of
        None \<Rightarrow> False
      | Some session_id \<Rightarrow>
          if (case map_of known session_id of None \<Rightarrow> False | Some s \<Rightarrow> status_of s \<notin> TERMINAL_STATES) then False else
          if (case mr_delete_after resource of None \<Rightarrow> False | Some t \<Rightarrow> t \<le> sweep_now) then True else
          (case mr_created_at resource of
             None \<Rightarrow> False
           | Some created_at \<Rightarrow> rc_orphan_grace_seconds config \<le> sweep_now - created_at))"

text \<open>\<open>str(resource.session_id)\<close>\<close>

definition session_text :: "managed_resource \<Rightarrow> string" where
  "session_text resource = (case mr_session_id resource of None \<Rightarrow> ''None'' | Some s \<Rightarrow> s)"

text \<open>\<open>_cleanup_orphan_resource\<close>: claim the id, look again, delete, release.\<close>

definition cleanup_orphan_resource :: "'p provider_ops \<Rightarrow> managed_resource \<Rightarrow> ('p, bool) act" where
  "cleanup_orphan_resource ops resource =
     (let session_id = session_text resource;
          release = (\<lambda>lease_id. try_except (release_orphan_cleanup_act session_id lease_id)
            (\<lambda>e. if e = SessionStateError then ret () else throw e))
      in
      try_else
        (claim_orphan_cleanup_act session_id (mr_provider_id resource) (mr_kind resource))
        (\<lambda>e. if e = SessionStateError then ret False else throw e)
        (\<lambda>lease.
          case lease of
            None \<Rightarrow> ret False
          | Some lease_id \<Rightarrow>
              try_finally
                (try_except
                  (andthen (on_provider (op_list_managed_resources ops)) (\<lambda>latest_resources.
                   let same_session = (\<lambda>c. session_text c = session_id) in
                   if \<not> list_ex (\<lambda>c. mr_provider_id c = mr_provider_id resource \<and> mr_kind c = mr_kind resource \<and>
                          same_session c) latest_resources
                   then ret False else
                   andthen (orphan_cleanup_still_owned_act session_id lease_id) (\<lambda>owned.
                   if \<not> owned then ret False else
                   if mr_kind resource = ''volume'' \<and>
                      list_ex (\<lambda>c. same_session c \<and> mr_kind c = ''server'') latest_resources then ret False else
                   if mr_kind resource = ''server'' then
                     andthen (on_provider (op_delete_server ops (mr_provider_id resource))) (\<lambda>_. ret True)
                   else if mr_kind resource = ''volume'' then
                     andthen (on_provider (op_delete_volume ops (mr_provider_id resource))) (\<lambda>_. ret True)
                   else ret False)))
                  (\<lambda>_. ret False))
                (release lease_id)))"

definition cleanup_orphans :: "'p provider_ops \<Rightarrow> reaper_config \<Rightarrow> rat \<Rightarrow> ('p, nat) act" where
  "cleanup_orphans ops config sweep_now =
     try_else (on_sessions authoritative_snapshot)
       (\<lambda>e. if e = SessionStateError then ret 0 else throw e)
       (\<lambda>sessions.
         let known = map (\<lambda>s. (json_text (dget s ''session_id''), s)) sessions;
             sweep = (\<lambda>kind resource cleaned.
               if mr_kind resource \<noteq> kind \<or> \<not> orphan_delete_allowed config resource known sweep_now then ret cleaned
               else andthen (cleanup_orphan_resource ops resource) (\<lambda>ok. ret (if ok then cleaned + 1 else cleaned)))
         in
         andthen (on_provider (op_list_managed_resources ops)) (\<lambda>resources.
         andthen (for_each (sweep ''server'') resources 0) (\<lambda>cleaned.
         for_each (sweep ''volume'') resources cleaned)))"

text \<open>\<open>_orphan_still_unowned\<close>, which no caller uses.\<close>

definition orphan_still_unowned :: "string \<Rightarrow> ('p, bool) act" where
  "orphan_still_unowned session_id =
     try_else (on_sessions authoritative_snapshot)
       (\<lambda>e. if e = SessionStateError then ret False else throw e)
       (\<lambda>sessions.
         let latest = map (\<lambda>s. (json_text (dget s ''session_id''), s)) sessions
         in ret (case map_of latest session_id of
                   None \<Rightarrow> True
                 | Some session \<Rightarrow> status_of session \<in> TERMINAL_STATES))"

section \<open>The sweep\<close>

record sweep_result =
  sr_timeout_failures :: nat
  sr_heartbeat_failures :: nat
  sr_deadline_stops :: nat
  sr_hold_deadlines_recovered :: nat
  sr_orphan_cleanup :: nat
  sr_failed_cleanup_retries :: nat

definition in_states :: "string set \<Rightarrow> ('p, dict list) act" where
  "in_states states = on_sessions (sessions_in_states states)"

text \<open>The number a loop reads from a Session field: None falls back to the sweep's time.\<close>

definition field_time :: "dict \<Rightarrow> string \<Rightarrow> rat \<Rightarrow> rat" where
  "field_time session field fallback = (case py_float (dget session field) of None \<Rightarrow> fallback | Some t \<Rightarrow> t)"

definition sweep_provisioning ::
  "'p provider_ops \<Rightarrow> reaper_config \<Rightarrow> rat \<Rightarrow> dict \<Rightarrow> sweep_result \<Rightarrow> ('p, sweep_result) act" where
  "sweep_provisioning ops config now session result =
     (let started = field_time session
            (if dget session ''provisioning_started_at'' \<noteq> JNull then ''provisioning_started_at'' else ''created_at'') now in
      if rc_provisioning_timeout_seconds config < now - started then
        andthen (fail_and_cleanup ops (json_text (dget session ''session_id'')) ''provisioning timeout'' ''PROVISIONING_TIMEOUT''
          (status_of session)
          [(''provisioning_started_at'', dget session ''provisioning_started_at''),
           (''provisioning_operation_id'', dget session ''provisioning_operation_id'')] now) (\<lambda>ok.
        ret (if ok then result\<lparr>sr_timeout_failures := sr_timeout_failures result + 1\<rparr> else result))
      else ret result)"

definition count_stop :: "sweep_result \<Rightarrow> bool \<Rightarrow> sweep_result" where
  "count_stop result ok = (if ok then result\<lparr>sr_deadline_stops := sr_deadline_stops result + 1\<rparr> else result)"

definition sweep_deadline ::
  "'p provider_ops \<Rightarrow> reaper_config \<Rightarrow> rat \<Rightarrow> dict \<Rightarrow> sweep_result \<Rightarrow> ('p, sweep_result) act" where
  "sweep_deadline ops config now session result =
     (let deadline = dget session ''absolute_deadline_at'' in
      if deadline = JNull then ret result else
      if (case py_float deadline of None \<Rightarrow> False | Some d \<Rightarrow> d \<le> now) then
        andthen (stop_and_cleanup ops config (json_text (dget session ''session_id'')) ''ABSOLUTE_DEADLINE_EXCEEDED''
          (Some (status_of session, [(''absolute_deadline_at'', deadline)])) now) (\<lambda>ok. ret (count_stop result ok))
      else ret result)"

definition sweep_heartbeat ::
  "reaper_config \<Rightarrow> dict \<Rightarrow> rat \<Rightarrow> dict \<Rightarrow> sweep_result \<Rightarrow> ('p, sweep_result) act" where
  "sweep_heartbeat config node_state now session result =
     (case heartbeat_baseline session node_state of
        (None, _) \<Rightarrow> ret result
      | (Some baseline, last_heartbeat) \<Rightarrow>
          if now < baseline \<or> now - baseline < max 0 (rc_heartbeat_grace_seconds config) then ret result else
          andthen (fail_missing_heartbeat config session last_heartbeat now) (\<lambda>ok.
          ret (if ok then result\<lparr>sr_heartbeat_failures := sr_heartbeat_failures result + 1\<rparr> else result)))"

definition sweep_no_ingest ::
  "'p provider_ops \<Rightarrow> reaper_config \<Rightarrow> rat \<Rightarrow> dict \<Rightarrow> sweep_result \<Rightarrow> ('p, sweep_result) act" where
  "sweep_no_ingest ops config now session result =
     (if rc_no_ingest_timeout_seconds config < now - field_time session ''ready_at'' now then
        andthen (stop_and_cleanup ops config (json_text (dget session ''session_id'')) ''NO_INGEST_TIMEOUT''
          (Some (''READY_WAIT_INGEST'', [(''ready_at'', dget session ''ready_at'')])) now) (\<lambda>ok. ret (count_stop result ok))
      else ret result)"

text \<open>The deadline of a HOLDING Session, computed and stored first if it has none.\<close>

definition hold_start :: "dict \<Rightarrow> rat \<Rightarrow> rat" where
  "hold_start session now =
     field_time session (if dget session ''last_ingest_at'' \<noteq> JNull then ''last_ingest_at'' else ''updated_at'') now"

definition sweep_hold_expired ::
  "'p provider_ops \<Rightarrow> reaper_config \<Rightarrow> rat \<Rightarrow> json \<Rightarrow> dict \<Rightarrow> sweep_result \<Rightarrow> ('p, sweep_result) act" where
  "sweep_hold_expired ops config now hold_deadline session result =
     (if (case py_float hold_deadline of None \<Rightarrow> False | Some d \<Rightarrow> d < now) then
        andthen (stop_and_cleanup ops config (json_text (dget session ''session_id'')) ''HOLD_TIMEOUT''
          (Some (''HOLDING'', [(''hold_deadline_at'', hold_deadline), (''last_ingest_at'', dget session ''last_ingest_at'')]))
          now) (\<lambda>ok. ret (count_stop result ok))
      else ret result)"

definition sweep_holding ::
  "'p provider_ops \<Rightarrow> reaper_config \<Rightarrow> rat \<Rightarrow> dict \<Rightarrow> sweep_result \<Rightarrow> ('p, sweep_result) act" where
  "sweep_holding ops config now session result =
     (if dget session ''hold_deadline_at'' \<noteq> JNull
      then sweep_hold_expired ops config now (dget session ''hold_deadline_at'') session result
      else
        let started = hold_start session now;
            hold_deadline = JFloat (fadd (Fin started) (Fin (rc_hold_timeout_seconds config)));
            event = (if has_holding_event_since session started then None
              else Some \<lparr>er_event_type = ''session.holding'', er_reason_code = Some ''INGEST_DISCONNECTED'',
                     er_payload = [(''hold_started_at'', JTime started), (''hold_deadline_at'', hold_deadline)],
                     er_origin = ''reaper'', er_occurred_at = Some (JTime now)\<rparr>)
        in
        andthen (update_if_current_act (json_text (dget session ''session_id'')) ''HOLDING''
          [(''hold_deadline_at'', JNull), (''last_ingest_at'', dget session ''last_ingest_at''),
           (''updated_at'', dget session ''updated_at'')] event [(''hold_deadline_at'', hold_deadline)]) (\<lambda>recovered.
        case recovered of
          None \<Rightarrow> ret result
        | Some session \<Rightarrow>
            sweep_hold_expired ops config now hold_deadline session
              (result\<lparr>sr_hold_deadlines_recovered := sr_hold_deadlines_recovered result + 1\<rparr>)))"

definition sweep_stopping ::
  "'p provider_ops \<Rightarrow> reaper_config \<Rightarrow> rat \<Rightarrow> dict \<Rightarrow> sweep_result \<Rightarrow> ('p, sweep_result) act" where
  "sweep_stopping ops config now session result =
     andthen (stop_and_cleanup ops config (json_text (dget session ''session_id'')) ''STOP_REQUESTED'' None now)
       (\<lambda>_. ret result)"

definition sweep_failed_cleanup ::
  "'p provider_ops \<Rightarrow> rat \<Rightarrow> dict \<Rightarrow> sweep_result \<Rightarrow> ('p, sweep_result) act" where
  "sweep_failed_cleanup ops now session result0 =
     (let result = result0\<lparr>sr_failed_cleanup_retries := sr_failed_cleanup_retries result0 + 1\<rparr>;
          session_id = json_text (dget session ''session_id'');
          code = json_text (dget session ''failure_reason_code'')
      in
      try_else (revoke_session_act session_id) (\<lambda>_. ret result) (\<lambda>_.
      andthen (claim_session_cleanup_act session_id) (\<lambda>lease.
      case lease of
        None \<Rightarrow> ret result
      | Some lease_id \<Rightarrow>
          try_finally
            (andthen (reaper_cleanup_resources ops session_id (Some lease_id)) (\<lambda>cleaned.
             if \<not> cleaned then ret result else
             andthen (transition_act session_id ''FAILED'' (Some {''FAILED_CLEANUP''}) [(''cleanup_pending'', JBool False)]) (\<lambda>_.
             andthen (failed_event session_id (take 100 (if code = [] then ''RESOURCE_CLEANUP_FAILED'' else code))
                        (dget session ''failure_reason'') now) (\<lambda>_. ret result))))
            (release_session_cleanup_act session_id lease_id))))"

definition empty_result :: sweep_result where
  "empty_result = \<lparr>sr_timeout_failures = 0, sr_heartbeat_failures = 0, sr_deadline_stops = 0,
     sr_hold_deadlines_recovered = 0, sr_orphan_cleanup = 0, sr_failed_cleanup_retries = 0\<rparr>"

text \<open>\<open>Reaper.run\<close>\<close>

definition reaper_run ::
  "'p provider_ops \<Rightarrow> reaper_config \<Rightarrow> json \<Rightarrow> dict option \<Rightarrow> ('p, sweep_result) act" where
  "reaper_run ops config clock node_registry =
     andthen (lift (validated_reaper_number clock)) (\<lambda>now.
     andthen (in_states {''PROVISIONING'', ''BOOTSTRAPPING''}) (\<lambda>s1.
     andthen (for_each (sweep_provisioning ops config now) s1 empty_result) (\<lambda>result.
     andthen (in_states ACTIVE_STATES) (\<lambda>s2.
     andthen (for_each (sweep_deadline ops config now) s2 result) (\<lambda>result.
     andthen (case node_registry of
                None \<Rightarrow> ret result
              | Some node_state \<Rightarrow>
                  andthen (in_states ACTIVE_STATES) (\<lambda>s3.
                  for_each (sweep_heartbeat config node_state now) s3 result)) (\<lambda>result.
     andthen (in_states {''READY_WAIT_INGEST''}) (\<lambda>s4.
     andthen (for_each (sweep_no_ingest ops config now) s4 result) (\<lambda>result.
     andthen (in_states {''HOLDING''}) (\<lambda>s5.
     andthen (for_each (sweep_holding ops config now) s5 result) (\<lambda>result.
     andthen (in_states {''STOPPING''}) (\<lambda>s6.
     andthen (for_each (sweep_stopping ops config now) s6 result) (\<lambda>result.
     andthen (in_states {''FAILED_CLEANUP''}) (\<lambda>s7.
     andthen (for_each (sweep_failed_cleanup ops now) s7 result) (\<lambda>result.
     andthen (cleanup_orphans ops config now) (\<lambda>n.
     ret (result\<lparr>sr_orphan_cleanup := n\<rparr>))))))))))))))))"

end
