(* ===== verification/Ingest_Credentials.thy ===== *)
theory Ingest_Credentials
  imports Ingest_Store
begin

text \<open>
  What the ingest credential store promises: one unrevoked credential per Session and scope, exact
  authentication, and revocation that takes effect at once.
\<close>

section \<open>Well-formed tables\<close>

definition cred_wf :: "string \<Rightarrow> dict \<Rightarrow> bool" where
  "cred_wf cid d = is_ok (validate_credential cid (JObj d))"

definition creds_ok :: "cred_table \<Rightarrow> bool" where
  "creds_ok cs \<longleftrightarrow> distinct (map fst cs) \<and> (\<forall>(cid, d) \<in> set cs. cred_wf cid d \<and> json_ok (JObj d))"

lemma validate_credentials_ok:
  "is_ok (validate_credentials ps) \<longleftrightarrow> (\<forall>p \<in> set ps. is_ok (validate_credential (fst p) (snd p)))"
  by (induction ps) (auto simp: is_ok_rbind, auto simp: is_ok_iff)

lemma credential_encode_ok: "(\<exists>doc. credential_encode cs = Some doc \<and> json_ok doc) \<longleftrightarrow> creds_ok cs"
proof -
  have "json_ok (JObj (map (\<lambda>p. (fst p, JObj (snd p))) cs)) \<longleftrightarrow> distinct (map fst cs) \<and> (\<forall>p \<in> set cs. json_ok (JObj (snd p)))"
    unfolding json_ok_JObj_iff [of "map _ cs"] by (simp add: comp_def)
  then show ?thesis
    by (auto simp: credential_encode_def creds_ok_def cred_wf_def validate_credentials_ok Let_def case_prod_beta)
qed

definition cstored :: "authority \<Rightarrow> cred_table \<Rightarrow> bool" where
  "cstored fs cs \<longleftrightarrow> marker fs \<noteq> OtherMarker \<and> auth_contents [] credential_decode fs = Some cs \<and> creds_ok cs"

lemma cstored_fresh: "cstored fresh_authority []"
  by (simp add: cstored_def fresh_authority_def auth_contents_def read_authority_def was_initialized_def creds_ok_def)

lemma cstored_unique: "cstored fs a \<Longrightarrow> cstored fs b \<Longrightarrow> b = a"
  by (simp add: cstored_def)

lemma cred_lock_reads:
  assumes "cstored fs cs" and "cred_lock body fs = (r, fs')"
    and "body cs = (case r0 of Inl x \<Rightarrow> Inl x | Inr v \<Rightarrow> Inr (v, None))"
  shows "r = r0 \<and> cstored fs' cs"
  using ic.locked_reads [of fs cs True body r fs' r0] assms by (simp add: cstored_def cred_lock_def)

lemma cred_lock_writes:
  assumes "cstored fs cs" and "cred_lock body fs = (r, fs')" and "body cs = Inr (v, Some cs')" and "creds_ok cs'"
  shows "r = Inr v \<and> cstored fs' cs'"
proof -
  obtain doc where "credential_encode cs' = Some doc" "json_ok doc" using assms(4) credential_encode_ok by blast
  then show ?thesis
    using ic.locked_writes [of fs cs True body r fs' v cs' doc] assms by (simp add: cstored_def cred_lock_def)
qed

lemma cred_lock_returned:
  assumes "cstored fs cs" and "cred_lock body fs = (Inr r, fs')"
  shows "\<exists>q. body cs = Inr (r, q) \<and> cstored fs' (case q of None \<Rightarrow> cs | Some cs' \<Rightarrow> cs')"
  using assms ic.locked_cases [of fs cs body True] ic.locked_keeps_marker [of fs True body] credential_encode_ok
  by (auto simp: cred_lock_def cstored_def)

lemma cred_lock_rel:
  assumes "cstored fs cs" and "cred_lock body fs = (r, fs')" and "R cs"
    and "\<And>v cs'. body cs = Inr (v, Some cs') \<Longrightarrow> creds_ok cs' \<Longrightarrow> R cs'"
  shows "\<exists>cs'. cstored fs' cs' \<and> R cs'"
proof -
  have "marker fs' \<noteq> OtherMarker \<and> (\<exists>m'. auth_contents [] credential_decode fs' = Some m' \<and> creds_ok m' \<and> R m')"
    using assms credential_encode_ok
    by (intro ic.locked_rel [of fs cs True body r fs' "\<lambda>m. creds_ok m \<and> R m"]) (auto simp: cstored_def cred_lock_def)
  then show ?thesis by (auto simp: cstored_def)
qed

subsection \<open>Fields of a valid record\<close>

definition stamp_ok :: "json \<Rightarrow> bool" where
  "stamp_ok v = (v = JNull \<or> (\<exists>t. finite_argument v = Inr t \<and> 0 \<le> t))"

lemma cred_string_Inr: "cred_nonempty_string d f = Inr s \<longleftrightarrow> dget d f = JStr s \<and> s \<noteq> []"
  by (auto simp: cred_nonempty_string_def rbind_eq_Inr)

lemma cred_number_Inr: "cred_finite_number d f = Inr x \<longleftrightarrow> finite_argument (dget d f) = Inr x"
  by (auto simp: cred_finite_number_def split: sum.splits)

lemma finite_argument_JNull [simp]: "finite_argument JNull = Inl ValueError"
  by (simp add: finite_argument_def)

lemma finite_argument_JTime [simp]: "finite_argument (JTime t) = Inr t"
  by (simp add: finite_argument_def)

lemma cred_optional_ok:
  "(\<exists>x. cred_optional_finite_number d f = Inr x \<and> (case x of None \<Rightarrow> True | Some t \<Rightarrow> 0 \<le> t)) \<longleftrightarrow> stamp_ok (dget d f)"
  by (auto simp: cred_optional_finite_number_def stamp_ok_def rbind_eq_Inr cred_number_Inr)

lemma cred_wf_iff:
  "cred_wf cid d \<longleftrightarrow>
     cid \<noteq> [] \<and> dget d ''id'' = JStr cid \<and>
     (\<exists>sid. sid \<noteq> [] \<and> dget d ''session_id'' = JStr sid \<and> dget d ''username'' = JStr sid) \<and>
     (\<exists>u. u \<noteq> [] \<and> dget d ''user_id'' = JStr u) \<and>
     (\<exists>h. h \<noteq> [] \<and> dget d ''secret_sha256'' = JStr h \<and> is_digest h) \<and>
     (\<exists>s \<in> CREDENTIAL_SCOPES. cred_scope d = JStr s) \<and> protocols_ok (dget d ''protocols'') \<and>
     (\<exists>c x. finite_argument (dget d ''created_at'') = Inr c \<and> finite_argument (dget d ''expires_at'') = Inr x \<and>
        0 \<le> c \<and> c < x) \<and>
     stamp_ok (dget d ''revoked_at'') \<and> stamp_ok (dget d ''last_authenticated_at'')"
proof -
  have scope: "(case as_str v of None \<Rightarrow> False | Some s \<Rightarrow> s \<in> CREDENTIAL_SCOPES) \<longleftrightarrow> (\<exists>s \<in> CREDENTIAL_SCOPES. v = JStr s)" for v
    by (auto split: option.splits)
  show ?thesis
    unfolding cred_wf_def validate_credential_def is_ok_rbind require_simps from_some_simps as_eq_Some
      cred_string_Inr cred_number_Inr scope cred_optional_ok [symmetric]
    by auto
qed

lemma cred_wf_stamp:
  assumes "cred_wf cid d" and "0 \<le> t" and "k \<in> {''revoked_at'', ''last_authenticated_at''}"
  shows "cred_wf cid (dset d k (JTime t))"
proof -
  have st: "stamp_ok (JTime t)" using assms(2) by (simp add: stamp_ok_def)
  from assms(3) consider "k = ''revoked_at''" | "k = ''last_authenticated_at''" by blast
  then show ?thesis
  proof cases
    case 1
    then show ?thesis using assms(1) st unfolding cred_wf_iff cred_scope_def by simp
  next
    case 2
    then show ?thesis using assms(1) st unfolding cred_wf_iff cred_scope_def by simp
  qed
qed

lemma creds_ok_lookup: "creds_ok cs \<Longrightarrow> map_of cs cid = Some d \<Longrightarrow> cred_wf cid d \<and> json_ok (JObj d)"
  by (auto simp: creds_ok_def dest!: map_of_SomeD)

lemma creds_ok_dset: "creds_ok cs \<Longrightarrow> cred_wf cid d \<Longrightarrow> json_ok (JObj d) \<Longrightarrow> creds_ok (dset cs cid d)"
  by (auto simp: creds_ok_def set_dset)

lemma creds_ok_revoke_where:
  assumes "creds_ok cs" and "0 \<le> t"
  shows "creds_ok (revoke_where P t cs)"
proof -
  have "map fst (revoke_where P t cs) = map fst cs" by (auto simp: revoke_where_def)
  moreover have "\<forall>(cid, d) \<in> set (revoke_where P t cs). cred_wf cid d \<and> json_ok (JObj d)"
    using assms cred_wf_stamp [of _ _ t "''revoked_at''"]
    by (auto simp: creds_ok_def revoke_where_def json_ok_dset)
  ultimately show ?thesis using assms(1) by (simp add: creds_ok_def)
qed

section \<open>Unrevoked credentials\<close>

definition unrevoked :: "cred_table \<Rightarrow> string \<Rightarrow> string \<Rightarrow> string set" where
  "unrevoked cs session_id scope =
     {cid. \<exists>d. (cid, d) \<in> set cs \<and> dget d ''session_id'' = JStr session_id \<and> cred_scope d = JStr scope \<and>
        dget d ''revoked_at'' = JNull}"

definition single_active :: "cred_table \<Rightarrow> bool" where
  "single_active cs \<longleftrightarrow>
     (\<forall>sid scope a b. a \<in> unrevoked cs sid scope \<longrightarrow> b \<in> unrevoked cs sid scope \<longrightarrow> a = b)"

lemma unrevoked_revoke_where:
  "unrevoked (revoke_where P t cs) sid scope \<subseteq> unrevoked cs sid scope"
  by (auto simp: unrevoked_def revoke_where_def cred_scope_def split: if_splits)

lemma unrevoked_after_rotation:
  "unrevoked (revoke_where (\<lambda>d. dget d ''session_id'' = JStr sid \<and> cred_scope d = JStr scope) t cs) sid scope = {}"
  by (auto simp: unrevoked_def revoke_where_def cred_scope_def split: if_splits)

lemma unrevoked_after_session:
  "unrevoked (revoke_where (\<lambda>d. dget d ''session_id'' = JStr sid) t cs) sid scope = {}"
  by (auto simp: unrevoked_def revoke_where_def cred_scope_def split: if_splits)

lemma unrevoked_dset_new:
  assumes "distinct (map fst cs)"
  shows "unrevoked (dset cs cid d) sid scope \<subseteq> unrevoked cs sid scope \<union>
    (if dget d ''session_id'' = JStr sid \<and> cred_scope d = JStr scope \<and> dget d ''revoked_at'' = JNull then {cid} else {})"
  using set_dset_subset [of cs cid d] by (auto simp: unrevoked_def)

lemma unrevoked_dset_same:
  assumes "distinct (map fst cs)" and "map_of cs cid = Some d0"
    and "dget d ''session_id'' = dget d0 ''session_id''" "cred_scope d = cred_scope d0"
    and "dget d ''revoked_at'' = JNull \<Longrightarrow> dget d0 ''revoked_at'' = JNull"
  shows "unrevoked (dset cs cid d) sid scope \<subseteq> unrevoked cs sid scope"
  using assms map_of_SomeD [OF assms(2)] by (auto simp: unrevoked_def set_dset)

lemma single_active_mono:
  "single_active cs \<Longrightarrow> (\<And>sid scope. unrevoked cs' sid scope \<subseteq> unrevoked cs sid scope) \<Longrightarrow> single_active cs'"
  unfolding single_active_def by blast


section \<open>Operations keep the table\<close>

datatype cred_op =
    OpIssue "string \<Rightarrow> string" string string string "string list" json "json option" pyfloat string string
  | OpVerify "string \<Rightarrow> string" string string string "json option" string pyfloat
  | OpRevoke string "string option" pyfloat
  | OpRevokeSession string "json option" pyfloat

fun run_cred_op :: "cred_op \<Rightarrow> authority \<Rightarrow> authority" where
  "run_cred_op (OpIssue a b c d e f g h i j) fs = snd (issue a b c d e f g h i j fs)"
| "run_cred_op (OpVerify a b c d e f g) fs = snd (verify a b c d e f g fs)"
| "run_cred_op (OpRevoke a b c) fs = snd (revoke a b c fs)"
| "run_cred_op (OpRevokeSession a b c) fs = snd (revoke_session a b c fs)"

inductive cred_reachable :: "authority \<Rightarrow> bool" where
  fresh: "cred_reachable fresh_authority"
| step: "cred_reachable fs \<Longrightarrow> cred_reachable (run_cred_op op fs)"

lemma runtime_timestamp_nonneg: "runtime_timestamp v c = Inr t \<Longrightarrow> 0 \<le> t"
  by (auto simp: runtime_timestamp_def rbind_eq_Inr)

lemma new_credential_fields:
  "dget (new_credential cid sid u sc h ps t x) ''session_id'' = JStr sid"
  "dget (new_credential cid sid u sc h ps t x) ''username'' = JStr sid"
  "cred_scope (new_credential cid sid u sc h ps t x) = JStr sc"
  "dget (new_credential cid sid u sc h ps t x) ''revoked_at'' = JNull"
  "dget (new_credential cid sid u sc h ps t x) ''expires_at'' = JTime x"
  "dget (new_credential cid sid u sc h ps t x) ''protocols'' = JList (map JStr ps)"
  "dget (new_credential cid sid u sc h ps t x) ''secret_sha256'' = JStr h"
  by (simp_all add: new_credential_def dget_def cred_scope_def dget_or_def)

lemma single_active_issue:
  assumes "distinct (map fst cs)" and "single_active cs"
  shows "single_active (dset (revoke_where (\<lambda>d. dget d ''session_id'' = JStr sid \<and> cred_scope d = JStr scope) t cs)
    cid (new_credential cid sid u scope h ps t x))"
proof -
  let ?cs = "revoke_where (\<lambda>d. dget d ''session_id'' = JStr sid \<and> cred_scope d = JStr scope) t cs"
  have d: "distinct (map fst ?cs)"
  proof -
    have "map fst ?cs = map fst cs" by (auto simp: revoke_where_def)
    with assms(1) show ?thesis by simp
  qed
  have sub: "unrevoked (dset ?cs cid (new_credential cid sid u scope h ps t x)) s sc \<subseteq>
      (if s = sid \<and> sc = scope then {cid} else unrevoked cs s sc)" for s sc
    using unrevoked_dset_new [OF d, of cid "new_credential cid sid u scope h ps t x" s sc]
      unrevoked_after_rotation [of sid scope t cs] unrevoked_revoke_where [of _ t cs s sc]
    by (fastforce simp: new_credential_fields)
  show ?thesis
    unfolding single_active_def
  proof (intro allI impI)
    fix s sc a b
    assume "a \<in> unrevoked (dset ?cs cid (new_credential cid sid u scope h ps t x)) s sc"
      and "b \<in> unrevoked (dset ?cs cid (new_credential cid sid u scope h ps t x)) s sc"
    then have "a \<in> (if s = sid \<and> sc = scope then {cid} else unrevoked cs s sc)"
      "b \<in> (if s = sid \<and> sc = scope then {cid} else unrevoked cs s sc)" using sub by blast+
    then show "a = b" using assms(2) unfolding single_active_def by (auto split: if_splits)
  qed
qed

lemma cred_lock_single:
  assumes "cstored fs cs" and "single_active cs" and "\<And>v cs'. body cs = Inr (v, Some cs') \<Longrightarrow> single_active cs'"
  shows "\<exists>cs'. cstored (snd (cred_lock body fs)) cs' \<and> single_active cs'"
  using cred_lock_rel [of fs cs body "fst (cred_lock body fs)" "snd (cred_lock body fs)" single_active] assms by auto

lemma run_cred_op_single:
  assumes st: "cstored fs cs" and one: "single_active cs"
  shows "\<exists>cs'. cstored (run_cred_op op fs) cs' \<and> single_active cs'"
proof -
  have keys: "distinct (map fst cs)" using st by (simp add: cstored_def creds_ok_def)
  note lock = cred_lock_single [OF st one]
  show ?thesis
  proof (cases op)
    case (OpIssue a b c d e f g h i j)
    then show ?thesis
      using st one single_active_issue [OF keys one]
      by (auto simp: issue_def Let_def rbind_eq_Inr split: sum.split intro!: lock)
  next
    case (OpVerify a b c d e f g)
    have "single_active cs'"
      if "List.find P cs = Some (cid, r)" "cs' = dset cs cid (dset r ''last_authenticated_at'' v)" for P cid r v cs'
    proof -
      have "(cid, r) \<in> set cs" using that(1) by (auto simp: find_Some_iff)
      then have r: "map_of cs cid = Some r" using keys by simp
      show ?thesis
        unfolding that(2)
        by (rule single_active_mono [OF one], rule unrevoked_dset_same [OF keys r]) (simp_all add: cred_scope_def)
    qed
    then show ?thesis
      using OpVerify st one by (auto simp: verify_def Let_def split: sum.split option.splits intro!: lock)
  next
    case (OpRevoke a b c)
    have "single_active (dset cs a (dset r ''revoked_at'' (JTime t)))" if "map_of cs a = Some r" for r t
      by (rule single_active_mono [OF one], rule unrevoked_dset_same [OF keys that]) (simp_all add: cred_scope_def)
    then show ?thesis
      using OpRevoke by (auto simp: revoke_def rbind_eq_Inr Let_def split: option.splits if_splits intro!: lock)
  next
    case (OpRevokeSession a b c)
    have "single_active (revoke_where P t cs)" for P t
      by (rule single_active_mono [OF one unrevoked_revoke_where])
    then show ?thesis
      using OpRevokeSession st one by (auto simp: revoke_session_def Let_def split: sum.split if_splits intro!: lock)
  qed
qed

text \<open>At most one ingest credential per Session and scope is unrevoked, in every authority that any
  sequence of issue, verify and revoke calls can produce; and every such authority can be loaded.\<close>

theorem single_active_credential:
  assumes "cred_reachable fs"
  shows "\<exists>cs. cstored fs cs \<and>
    (\<forall>sid scope a b. a \<in> unrevoked cs sid scope \<longrightarrow> b \<in> unrevoked cs sid scope \<longrightarrow> a = b)"
  using assms
proof (induction rule: cred_reachable.induct)
  case fresh
  show ?case using cstored_fresh by (auto simp: unrevoked_def)
next
  case (step fs op)
  then show ?case using run_cred_op_single [of fs _ op] by (auto simp: single_active_def)
qed

theorem single_active_credential_witness:
  "cred_reachable (run_cred_op (OpRevokeSession ''s1'' None (Fin 1)) fresh_authority) \<and>
   (\<exists>cs. cstored (run_cred_op (OpRevokeSession ''s1'' None (Fin 1)) fresh_authority) cs)"
  using single_active_credential [of "run_cred_op (OpRevokeSession ''s1'' None (Fin 1)) fresh_authority"]
    cred_reachable.step [OF cred_reachable.fresh] by blast


section \<open>Issue, verify, revoke\<close>

lemma credential_matches_unrevoked:
  assumes "creds_ok cs" and "(cid, d) \<in> set cs" and "credential_matches u sc p h t d"
  shows "cid \<in> unrevoked cs u sc"
proof -
  have "cred_wf cid d" using assms(1,2) by (auto simp: creds_ok_def)
  then show ?thesis using assms(2,3) by (auto simp: unrevoked_def credential_matches_def cred_wf_iff)
qed

lemma verify_none:
  assumes st: "cstored fs cs" and t: "0 \<le> t"
    and no: "\<And>cid d. (cid, d) \<in> set cs \<Longrightarrow> \<not> credential_matches u sc (py_lower p) (digest secret) t d"
    and call: "verify digest u secret p (Some (JTime t)) sc clock fs = (r, fs')"
  shows "r = Inr None \<and> cstored fs' cs"
proof -
  have "List.find (\<lambda>q. credential_matches u sc (py_lower p) (digest secret) t (snd q)) cs = None"
    using no by (force simp: find_None_iff)
  note found = this
  show ?thesis
  proof (cases "py_lower p \<notin> SUPPORTED_PROTOCOLS \<or> sc \<notin> CREDENTIAL_SCOPES \<or> u = [] \<or> secret = []")
    case True
    then show ?thesis using t call st by (auto simp: verify_def runtime_timestamp_def)
  next
    case False
    have "cred_lock (\<lambda>cs.
            case List.find (\<lambda>q. credential_matches u sc (py_lower p) (digest secret) t (snd q)) cs of
              None \<Rightarrow> Inr (None, None)
            | Some (credential_id, record) \<Rightarrow>
                let record = dset record ''last_authenticated_at'' (JTime t)
                in Inr (Some (public_record record), Some (dset cs credential_id record))) fs = (r, fs')"
      using t call False by (simp add: verify_def runtime_timestamp_def)
    then show ?thesis by (rule cred_lock_reads [OF st]) (simp add: found)
  qed
qed

text \<open>Revoking a Session's credentials, at a given time or at the clock's.\<close>

lemma revoke_session_unrevoked:
  assumes st: "cstored fs cs" and call: "revoke_session sid now clock fs = (r, fs')"
  shows "\<exists>cs'. cstored fs' cs' \<and> (\<forall>n. r = Inr n \<longrightarrow> (\<forall>sc. unrevoked cs' sid sc = {})) \<and>
    (\<forall>t. runtime_timestamp now clock = Inr t \<longrightarrow> (\<exists>n. r = Inr n)) \<and>
    (\<forall>sc. unrevoked cs sid sc = {} \<longrightarrow> unrevoked cs' sid sc = {})"
proof (cases "runtime_timestamp now clock")
  case (Inl e)
  then show ?thesis using st call by (auto simp: revoke_session_def)
next
  case (Inr t)
  then have t: "0 \<le> t" by (rule runtime_timestamp_nonneg)
  define P :: "dict \<Rightarrow> bool" where "P = (\<lambda>d. dget d ''session_id'' = JStr sid)"
  define n where "n = length (filter (\<lambda>p. P (snd p) \<and> dget (snd p) ''revoked_at'' = JNull) cs)"
  have body: "cred_lock (\<lambda>cs. let changed = length (filter (\<lambda>p. P (snd p) \<and> dget (snd p) ''revoked_at'' = JNull) cs)
      in Inr (changed, if changed = 0 then None else Some (revoke_where P t cs))) fs = (r, fs')"
    using call Inr unfolding P_def by (simp add: revoke_session_def)
  have "\<exists>cs'. r = Inr n \<and> cstored fs' cs' \<and> (\<forall>sc. unrevoked cs' sid sc = {})"
  proof (cases "n = 0")
    case True
    then have "r = Inr n \<and> cstored fs' cs" by (intro cred_lock_reads [OF st body]) (simp add: n_def)
    moreover have "unrevoked cs sid sc = {}" for sc
      using True by (auto simp: n_def unrevoked_def filter_empty_conv P_def)
    ultimately show ?thesis by blast
  next
    case False
    have ok: "creds_ok (revoke_where P t cs)" using st t by (simp add: cstored_def creds_ok_revoke_where)
    have "r = Inr n \<and> cstored fs' (revoke_where P t cs)"
      by (rule cred_lock_writes [OF st body _ ok]) (use False in \<open>simp add: n_def\<close>)
    then show ?thesis using unrevoked_after_session [of sid t cs] unfolding P_def by blast
  qed
  then show ?thesis by blast
qed

lemma verify_unrevoked:
  assumes "cstored fs cs" and "unrevoked cs sid scope = {}" and "0 \<le> t"
  shows "fst (verify digest sid secret protocol (Some (JTime t)) scope clock fs) = Inr None"
proof -
  have "\<not> credential_matches sid scope (py_lower protocol) (digest secret) t d" if "(cid, d) \<in> set cs" for cid d
    using credential_matches_unrevoked [OF _ that, of sid scope "py_lower protocol" "digest secret" t] assms(1,2)
    by (auto simp: cstored_def)
  then show ?thesis
    using verify_none [OF assms(1,3), of sid scope protocol digest secret clock] by (metis prod.collapse)
qed

text \<open>After the credentials of a Session were revoked, no secret authenticates a publisher of that
  Session in any scope, protocol or at any later time.\<close>

theorem revoke_session_blocks:
  assumes st: "cstored fs cs" and t: "0 \<le> t" "0 \<le> t'"
    and call: "revoke_session sid (Some (JTime t)) clock fs = (r, fs')"
  shows "(\<exists>n. r = Inr n) \<and>
    fst (verify digest sid secret protocol (Some (JTime t')) scope clock' fs') = Inr None"
proof -
  obtain cs' where cs': "cstored fs' cs'" "\<forall>n. r = Inr n \<longrightarrow> (\<forall>sc. unrevoked cs' sid sc = {})"
    "\<forall>u. runtime_timestamp (Some (JTime t)) clock = Inr u \<longrightarrow> (\<exists>n. r = Inr n)"
    using revoke_session_unrevoked [OF st call] by blast
  moreover have "runtime_timestamp (Some (JTime t)) clock = Inr t" using t by (simp add: runtime_timestamp_def)
  ultimately show ?thesis using verify_unrevoked [OF cs'(1) _ t(2), of sid scope digest secret protocol clock'] by blast
qed

lemma sorted_protocols:
  assumes "normalize_protocols ps = Inr ns"
  shows "protocols_ok (JList (map JStr ns))" "set ns = py_lower ` set ps"
proof -
  have ns: "ns = sort (remdups (map py_lower ps))" "ns \<noteq> []" "\<forall>p \<in> set ns. p \<in> SUPPORTED_PROTOCOLS"
    using assms by (auto simp: normalize_protocols_def Let_def split: if_splits)
  have "those (map as_str (map JStr ns)) = Some (map id ns)" by (simp only: map_map) (rule those_map_Some, simp)
  moreover have "distinct ns" using ns(1) by simp
  then have "sort (remdups ns) = ns" using ns(1) by (simp add: distinct_remdups_id sort_key_id_if_sorted)
  ultimately show "protocols_ok (JList (map JStr ns))"
    using ns(2,3) by (simp add: protocols_ok_def list_all_iff)
  show "set ns = py_lower ` set ps" by (simp add: ns(1))
qed

lemma new_credential_wf:
  assumes "cid \<noteq> []" "sid \<noteq> []" "u \<noteq> []" "is_digest h" "sc \<in> CREDENTIAL_SCOPES" "protocols_ok (JList (map JStr ps))" "0 \<le> t" "t < x"
  shows "cred_wf cid (new_credential cid sid u sc h ps t x)" "json_ok (JObj (new_credential cid sid u sc h ps t x))"
proof -
  have "h \<noteq> []" using assms(4) by (auto simp: is_digest_def)
  then show "cred_wf cid (new_credential cid sid u sc h ps t x)"
    using assms unfolding cred_wf_iff by (simp add: new_credential_fields) (simp add: new_credential_def dget_def stamp_ok_def)
  show "json_ok (JObj (new_credential cid sid u sc h ps t x))"
    by (simp add: new_credential_def list_all_iff)
qed

lemma issue_ok:
  assumes st: "cstored fs cs" and t: "0 \<le> t" and ttl: "0 < ttl" "t + ttl < float_overflow"
    and sc: "sc \<in> CREDENTIAL_SCOPES" and ps: "normalize_protocols ps = Inr ns"
    and ids: "sid \<noteq> []" "u \<noteq> []" "cid \<noteq> []" and h: "is_digest (digest secret)"
    and call: "issue digest sid u sc ps (JTime ttl) (Some (JTime t)) clock secret cid fs = (r, fs')"
  defines "d \<equiv> new_credential cid sid u sc (digest secret) ns t (t + ttl)"
  defines "cs' \<equiv> dset (revoke_where (\<lambda>x. dget x ''session_id'' = JStr sid \<and> cred_scope x = JStr sc) t cs) cid d"
  shows "r = Inr (public_record d, secret) \<and> cstored fs' cs'"
proof -
  have lock: "cred_lock (\<lambda>cs. let cs = revoke_where (\<lambda>x. dget x ''session_id'' = JStr sid \<and> cred_scope x = JStr sc) t cs
      in Inr ((public_record d, secret), Some (dset cs cid d))) fs = (r, fs')"
    using call t ttl sc ps
    by (simp add: issue_def runtime_timestamp_def mk_float_Fin d_def)
  have "cred_wf cid d" "json_ok (JObj d)"
    unfolding d_def using new_credential_wf [OF ids(3,1,2) h sc sorted_protocols(1) [OF ps] t] ttl by simp_all
  then have "creds_ok cs'"
    unfolding cs'_def using st t by (intro creds_ok_dset creds_ok_revoke_where) (auto simp: cstored_def)
  then show ?thesis
    using cred_lock_writes [OF st lock, of "(public_record d, secret)" cs'] by (simp add: cs'_def Let_def)
qed

text \<open>Issuing succeeds and hands out the secret but not its digest; from then on, for that Session
  and scope, exactly that secret authenticates, exactly until it expires and exactly for the protocols it
  was issued for.  Every earlier secret of the Session in that scope has stopped working.\<close>

theorem issued_credential_authenticates:
  assumes st: "cstored fs cs" and t: "0 \<le> t" and ttl: "0 < ttl" "t + ttl < float_overflow"
    and sc: "sc \<in> CREDENTIAL_SCOPES" and ps: "normalize_protocols ps = Inr ns"
    and ids: "sid \<noteq> []" "u \<noteq> []" "cid \<noteq> []" and h: "is_digest (digest secret)"
    and call: "issue digest sid u sc ps (JTime ttl) (Some (JTime t)) clock secret cid fs = (r, fs')"
    and t': "0 \<le> t'" and other: "other \<noteq> []" "digest other = digest secret \<longrightarrow> other = secret" and p: "py_lower p \<in> SUPPORTED_PROTOCOLS"
  shows "(\<exists>d. r = Inr (d, secret) \<and> \<not> dhas d ''secret_sha256'') \<and>
    (fst (verify digest sid other p (Some (JTime t')) sc clock' fs') = Inr None \<longleftrightarrow>
       \<not> (other = secret \<and> t' < t + ttl \<and> py_lower p \<in> py_lower ` set ps))"
proof -
  define d where "d = new_credential cid sid u sc (digest secret) ns t (t + ttl)"
  define old where "old = revoke_where (\<lambda>x. dget x ''session_id'' = JStr sid \<and> cred_scope x = JStr sc) t cs"
  have r: "r = Inr (public_record d, secret)" and st': "cstored fs' (dset old cid d)"
    using issue_ok [OF st t ttl sc ps ids h call] by (simp_all add: d_def old_def)
  have ok: "creds_ok (dset old cid d)" using st' by (simp add: cstored_def)
  have old_ok: "creds_ok old" using st t by (auto simp: old_def cstored_def creds_ok_revoke_where)
  have new: "(cid, d) \<in> set (dset old cid d)" using old_ok by (auto simp: set_dset creds_ok_def)
  have only: "x = d" if "(k, x) \<in> set (dset old cid d)" "credential_matches sid sc q c t' x" for k x q c
  proof (rule ccontr)
    assume "x \<noteq> d"
    then have "(k, x) \<in> set old" using that(1) old_ok by (auto simp: set_dset creds_ok_def)
    then have "k \<in> unrevoked old sid sc" by (rule credential_matches_unrevoked [OF old_ok _ that(2)])
    then show False unfolding old_def unrevoked_after_rotation by simp
  qed
  have m: "credential_matches sid sc (py_lower p) (digest other) t' d \<longleftrightarrow>
      other = secret \<and> t' < t + ttl \<and> py_lower p \<in> py_lower ` set ps"
    using other(2) sorted_protocols(2) [OF ps]
    by (auto simp: credential_matches_def d_def new_credential_fields)
  let ?P = "\<lambda>q. credential_matches sid sc (py_lower p) (digest other) t' (snd q)"
  have "fst (verify digest sid other p (Some (JTime t')) sc clock' fs') = Inr None \<longleftrightarrow>
      \<not> credential_matches sid sc (py_lower p) (digest other) t' d"
  proof (cases "credential_matches sid sc (py_lower p) (digest other) t' d")
    case False
    have "fst (verify digest sid other p (Some (JTime t')) sc clock' fs') = Inr None"
      using verify_none [OF st' t', of sid sc p digest other clock'] only False by (metis prod.collapse)
    with False show ?thesis by simp
  next
    case True
    then obtain k x where f: "List.find ?P (dset old cid d) = Some (k, x)"
      using new by (cases "List.find ?P (dset old cid d)") (auto simp: find_None_iff)
    then have kx: "(k, x) \<in> set (dset old cid d)" by (auto simp: find_Some_iff)
    let ?x = "dset x ''last_authenticated_at'' (JTime t')"
    have "cred_wf k x" "json_ok (JObj x)" using ok kx by (auto simp: creds_ok_def)
    then have ok': "creds_ok (dset (dset old cid d) k ?x)"
      using t' by (intro creds_ok_dset ok cred_wf_stamp json_ok_dset) simp_all
    have "verify digest sid other p (Some (JTime t')) sc clock' fs' = cred_lock (\<lambda>cs.
            case List.find ?P cs of
              None \<Rightarrow> Inr (None, None)
            | Some (credential_id, record) \<Rightarrow>
                let record = dset record ''last_authenticated_at'' (JTime t')
                in Inr (Some (public_record record), Some (dset cs credential_id record))) fs'"
      using t' ids(1) other(1) sc p by (simp add: verify_def runtime_timestamp_def)
    then have "fst (verify digest sid other p (Some (JTime t')) sc clock' fs') = Inr (Some (public_record ?x))"
      using cred_lock_writes [OF st' prod.collapse [symmetric] _ ok', where v = "Some (public_record ?x)"] f
      by (simp add: Let_def)
    with True show ?thesis by simp
  qed
  with m r show ?thesis by (auto simp: public_record_def dhas_def map_of_eq_None_iff)
qed

definition demo_digest :: "string \<Rightarrow> string" where
  "demo_digest s = replicate 63 (CHR ''0'') @ [if s = ''x'' then CHR ''1'' else CHR ''2'']"

definition demo_issue :: "(err + dict \<times> string) \<times> authority" where
  "demo_issue = issue demo_digest ''s1'' ''u1'' ''INGEST'' [''SRT''] (JTime 60) (Some (JTime 5)) (Fin 0) ''x'' ''c1'' fresh_authority"

theorem issued_credential_authenticates_witness:
  "fst (verify demo_digest ''s1'' ''x'' ''srt'' (Some (JTime 9)) ''INGEST'' (Fin 0) (snd demo_issue)) \<noteq> Inr None \<and>
   fst (verify demo_digest ''s1'' ''y'' ''srt'' (Some (JTime 9)) ''INGEST'' (Fin 0) (snd demo_issue)) = Inr None \<and>
   fst (verify demo_digest ''s1'' ''x'' ''srt'' (Some (JTime 65)) ''INGEST'' (Fin 0) (snd demo_issue)) = Inr None"
proof -
  have call: "issue demo_digest ''s1'' ''u1'' ''INGEST'' [''SRT''] (JTime 60) (Some (JTime 5)) (Fin 0) ''x'' ''c1'' fresh_authority
      = (fst demo_issue, snd demo_issue)" by (simp add: demo_issue_def)
  have ps: "normalize_protocols [''SRT''] = Inr [''srt'']" by code_simp
  have h: "is_digest (demo_digest ''x'')" by code_simp
  have low: "py_lower ''srt'' = ''srt''" "py_lower ''SRT'' = ''srt''" by code_simp+
  have ov: "(5::rat) + 60 < float_overflow" using float_overflow_large by simp
  note issued = issued_credential_authenticates [OF cstored_fresh _ _ ov _ ps _ _ _ h call]
  show ?thesis
    using issued [of 9 "''x''" "''srt''" "Fin 0"] issued [of 9 "''y''" "''srt''" "Fin 0"] issued [of 65 "''x''" "''srt''" "Fin 0"]
    by (simp add: low CREDENTIAL_SCOPES_def SUPPORTED_PROTOCOLS_def demo_digest_def)
qed

theorem revoke_session_blocks_witness:
  "(\<exists>cs. cstored (snd demo_issue) cs) \<and>
   fst (verify demo_digest ''s1'' ''x'' ''srt'' (Some (JTime 9)) ''INGEST'' (Fin 0)
     (snd (revoke_session ''s1'' (Some (JTime 7)) (Fin 0) (snd demo_issue)))) = Inr None"
proof -
  obtain cs where cs: "cstored (snd demo_issue) cs"
    using run_cred_op_single [OF cstored_fresh, of "OpIssue demo_digest ''s1'' ''u1'' ''INGEST'' [''SRT''] (JTime 60) (Some (JTime 5)) (Fin 0) ''x'' ''c1''"]
    by (auto simp: demo_issue_def single_active_def unrevoked_def)
  then show ?thesis
    using revoke_session_blocks [OF cs, of 7 9 "''s1''" "Fin 0"] by (metis prod.collapse zero_le_numeral)
qed

end
