(* ===== verification/Cleanup.thy ===== *)
theory Cleanup
  imports Session_Frames Session_Fresh Reaper Ingest_Credentials
begin

text \<open>
  What the reaper's sweep does to the provider's inventory, proved against the laws of
  \<open>provider_contract\<close>: a Session reaches a final state only once its resources are gone, and the orphan
  sweep spares the resources of Sessions in service.
\<close>


section \<open>Released Sessions hold no resources\<close>

definition clean :: "('p \<Rightarrow> managed_resource list) \<Rightarrow> string \<Rightarrow> 'p world \<Rightarrow> bool" where
  "clean inventory sid w \<longleftrightarrow> (\<forall>x \<in> set (inventory (w_provider w)). mr_session_id x \<noteq> Some sid)"

definition session_status :: "string \<Rightarrow> 'p world \<Rightarrow> string option \<Rightarrow> bool" where
  "session_status sid w st \<longleftrightarrow>
     (\<exists>m. stored (w_sessions w) m \<and> map_option status_of (map_of (sessions m) sid) = st)"

definition released :: "string \<Rightarrow> 'p world \<Rightarrow> bool" where
  "released sid w \<longleftrightarrow> session_status sid w (Some ''FINISHED'') \<or> session_status sid w (Some ''FAILED'')"

definition clean_inv :: "('p \<Rightarrow> managed_resource list) \<Rightarrow> ('p \<Rightarrow> bool) \<Rightarrow> string \<Rightarrow> 'p world \<Rightarrow> bool" where
  "clean_inv inventory good sid w \<longleftrightarrow>
     good (w_provider w) \<and> (\<exists>m. stored (w_sessions w) m) \<and> (released sid w \<longrightarrow> clean inventory sid w)"

lemma session_status_iff:
  "stored (w_sessions w) m \<Longrightarrow> session_status sid w st \<longleftrightarrow> map_option status_of (map_of (sessions m) sid) = st"
  unfolding session_status_def using stored_unique by metis

lemma on_sessions_frame:
  "on_sessions f w = (r, w') \<Longrightarrow>
   w_provider w' = w_provider w \<and> w_credentials w' = w_credentials w \<and> w_sessions w' = snd (f (w_sessions w)) \<and>
   r = fst (f (w_sessions w))"
  by (auto simp: on_sessions_def split: prod.splits)

lemma on_provider_frame:
  "on_provider f w = (r, w') \<Longrightarrow>
   w_sessions w' = w_sessions w \<and> w_credentials w' = w_credentials w \<and> f (w_provider w) = (r, w_provider w')"
  by (auto simp: on_provider_def split: prod.splits)

lemma on_credentials_frame:
  "on_credentials f w = (r, w') \<Longrightarrow>
   w_sessions w' = w_sessions w \<and> w_provider w' = w_provider w \<and> f (w_credentials w) = (r, w_credentials w')"
  by (auto simp: on_credentials_def split: prod.splits)

lemma released_touch:
  assumes st: "stored (w_sessions w) m" "stored (w_sessions w') m'" and t: "touch T k m m'" and rel: "released sid w'"
  shows "released sid w \<or> sid = k \<and> T \<inter> {''FINISHED'', ''FAILED''} \<noteq> {}"
proof -
  obtain x where x: "x \<in> {''FINISHED'', ''FAILED''}" "map_option status_of (map_of (sessions m') sid) = Some x"
    using rel stored_unique [OF st(2)] by (auto simp: released_def session_status_def)
  from t have "map_option status_of (map_of (sessions m') sid) = map_option status_of (map_of (sessions m) sid) \<or>
      sid = k \<and> x \<in> T"
    using x(2) by (auto simp: touch_def dest!: spec [of _ sid])
  then have "map_option status_of (map_of (sessions m) sid) = Some x \<or> sid = k \<and> x \<in> T"
    using x(2) by (elim disjE) (simp_all only: simp_thms)
  then show ?thesis
  proof
    assume "map_option status_of (map_of (sessions m) sid) = Some x"
    then have "session_status sid w (Some x)" using st(1) unfolding session_status_def by blast
    then show ?thesis using x(1) unfolding released_def by blast
  qed (use x(1) in blast)
qed

lemma keeps_on_sessions:
  assumes "op_touch T k f" and "T \<inter> {''FINISHED'', ''FAILED''} = {}"
  shows "keeps (clean_inv inventory good sid) (on_sessions f)"
proof (rule keepsI)
  fix w r w' assume I: "clean_inv inventory good sid w" and step: "on_sessions f w = (r, w')"
  note fr = on_sessions_frame [OF step]
  obtain m m' where m: "stored (w_sessions w) m" "stored (w_sessions w') m'" "touch T k m m'"
    using I assms(1) fr unfolding clean_inv_def op_touch_def by metis
  then have "released sid w' \<Longrightarrow> released sid w" using released_touch [OF m] assms(2) by blast
  then show "clean_inv inventory good sid w'" using I m(2) fr by (auto simp: clean_inv_def clean_def)
qed

lemma on_sessions_clean:
  assumes "op_touch T k f" and I: "clean_inv inventory good sid w" and "clean inventory k w" and step: "on_sessions f w = (r, w')"
  shows "clean_inv inventory good sid w' \<and> clean inventory k w'"
proof -
  note fr = on_sessions_frame [OF step]
  obtain m m' where m: "stored (w_sessions w) m" "stored (w_sessions w') m'" "touch T k m m'"
    using I assms(1) fr unfolding clean_inv_def op_touch_def by metis
  then have "released sid w' \<Longrightarrow> released sid w \<or> sid = k" using released_touch [OF m] by blast
  then show ?thesis using I m(2) fr assms(3) by (auto simp: clean_inv_def clean_def)
qed

lemma clean_inv_ticks [simp]:
  "clean_inv inventory good sid (w\<lparr>w_ticks := n\<rparr>) = clean_inv inventory good sid w"
  "clean_inv inventory good sid (w\<lparr>w_drawn := n\<rparr>) = clean_inv inventory good sid w"
  by (simp_all add: clean_inv_def clean_def released_def session_status_def)

lemma keeps_supply [keeps_intros]:
  "keeps (clean_inv inventory good sid) read_clock" "keeps (clean_inv inventory good sid) draw_uuid"
  by (simp_all add: keeps_def read_clock_def draw_uuid_def)

lemma keeps_on_credentials [keeps_intros]: "keeps (clean_inv inventory good sid) (on_credentials f)"
  by (auto simp: keeps_def on_credentials_def clean_inv_def clean_def released_def session_status_def split: prod.splits)

lemma keeps_reads [keeps_intros]:
  "keeps (clean_inv inventory good sid) (on_sessions (get_session k))"
  "keeps (clean_inv inventory good sid) (on_sessions (sessions_in_states S))"
  "keeps (clean_inv inventory good sid) (on_sessions authoritative_snapshot)"
  "keeps (clean_inv inventory good sid) (on_sessions (session_cleanup_still_owned k l t))"
  "keeps (clean_inv inventory good sid) (on_sessions (orphan_cleanup_still_owned k l t))"
  "keeps (clean_inv inventory good sid) (on_sessions (claim_session_cleanup k xs ls u t t'))"
  "keeps (clean_inv inventory good sid) (on_sessions (release_session_cleanup k l))"
  "keeps (clean_inv inventory good sid) (on_sessions (claim_orphan_cleanup k ri rk ls u t t'))"
  "keeps (clean_inv inventory good sid) (on_sessions (release_orphan_cleanup k l))"
  "keeps (clean_inv inventory good sid) (on_sessions (append_event k ty rc pl org oc t))"
  by (rule keeps_on_sessions [where T = "{}"], rule op_touch_reads op_touch_leases op_touch_append_event, simp)+

lemma keeps_moves [keeps_intros]:
  "keeps (clean_inv inventory good sid) (on_sessions (request_stop k t))"
  "keeps (clean_inv inventory good sid) (on_sessions (request_stop_if_current k st ef t))"
  by (rule keeps_on_sessions, rule op_touch_request_stop op_touch_request_stop_if_current, simp)+

lemma keeps_updates [keeps_intros]:
  "''status'' \<notin> fst ` set ch \<Longrightarrow> keeps (clean_inv inventory good sid) (on_sessions (update_session k ch t))"
  "''status'' \<notin> fst ` set ch \<Longrightarrow> keeps (clean_inv inventory good sid) (on_sessions (update_if_current k st ef ev ch t))"
  by (rule keeps_on_sessions [where T = "{}"], erule op_touch_update op_touch_update_if_current, simp)+

lemma keeps_transitions [keeps_intros]:
  "ns \<notin> {''FINISHED'', ''FAILED''} \<Longrightarrow> keeps (clean_inv inventory good sid) (on_sessions (transition k ns af ch t))"
  "ns \<notin> {''FINISHED'', ''FAILED''} \<Longrightarrow>
   keeps (clean_inv inventory good sid) (on_sessions (transition_if_current k ns al ef ch t))"
  by (rule keeps_on_sessions, rule op_touch_transition op_touch_transition_if_current, simp)+

lemma keeps_store_acts [keeps_intros]:
  "keeps (clean_inv inventory good sid) (get_act k)"
  "keeps (clean_inv inventory good sid) (request_stop_act k)"
  "keeps (clean_inv inventory good sid) (request_stop_if_current_act k st ef)"
  "keeps (clean_inv inventory good sid) (append_event_act k ty rc pl org oc)"
  "keeps (clean_inv inventory good sid) (claim_session_cleanup_act k)"
  "keeps (clean_inv inventory good sid) (session_cleanup_still_owned_act k l)"
  "keeps (clean_inv inventory good sid) (release_session_cleanup_act k l)"
  "keeps (clean_inv inventory good sid) (claim_orphan_cleanup_act k ri rk)"
  "keeps (clean_inv inventory good sid) (orphan_cleanup_still_owned_act k l)"
  "keeps (clean_inv inventory good sid) (release_orphan_cleanup_act k l)"
  "keeps (clean_inv inventory good sid) (revoke_session_act k)"
  "keeps (clean_inv inventory good sid) (in_states S)"
  "keeps (clean_inv inventory good sid) (failed_event k code fr now)"
  unfolding act_defs revoke_session_act_def in_states_def failed_event_def
  by (intro keeps_intros)+

lemma keeps_update_acts [keeps_intros]:
  "''status'' \<notin> fst ` set ch \<Longrightarrow> keeps (clean_inv inventory good sid) (update_act k ch)"
  "''status'' \<notin> fst ` set ch \<Longrightarrow> keeps (clean_inv inventory good sid) (update_if_current_act k st ef ev ch)"
  "ns \<notin> {''FINISHED'', ''FAILED''} \<Longrightarrow> keeps (clean_inv inventory good sid) (transition_act k ns af ch)"
  "ns \<notin> {''FINISHED'', ''FAILED''} \<Longrightarrow> keeps (clean_inv inventory good sid) (transition_if_current_act k ns al ef ch)"
  unfolding act_defs by (intro keeps_intros, assumption)+


lemma keeps_after:
  assumes A: "\<And>w r w'. I w \<Longrightarrow> A w = (r, w') \<Longrightarrow> I w' \<and> (r = Inr True \<longrightarrow> J w')"
    and m: "keeps I m" and n: "\<And>w r w'. I w \<Longrightarrow> J w \<Longrightarrow> n w = (r, w') \<Longrightarrow> I w'"
  shows "keeps I (andthen A (\<lambda>c. if \<not> c then m else n))"
proof (rule keepsI)
  fix w r w' assume I: "I w" and run: "andthen A (\<lambda>c. if \<not> c then m else n) w = (r, w')"
  obtain a w1 where a: "A w = (a, w1)" by fastforce
  note w1 = A [OF I a]
  consider e where "a = Inl e" | "a = Inr False" | "a = Inr True" by (metis (full_types) sum.exhaust)
  then show "I w'"
  proof cases
    case 1
    then show ?thesis using w1 a run by (auto simp: andthen_def)
  next
    case 2
    then show ?thesis using w1 a run keepsD [OF m, of w1] by (auto simp: andthen_def)
  next
    case 3
    then show ?thesis using w1 a run n [of w1] by (auto simp: andthen_def)
  qed
qed

text \<open>Once the Session's resources are gone, its own transitions are safe.\<close>

lemma clean_transition:
  assumes "clean_inv inventory good sid w" "clean inventory k w" and step: "transition_act k ns af ch w = (r, w')"
  shows "clean_inv inventory good sid w' \<and> clean inventory k w'"
proof -
  have step': "on_sessions (transition k ns af ch (w_clock w (w_ticks w))) (w\<lparr>w_ticks := w_ticks w + 1\<rparr>) = (r, w')"
    using step by (simp add: transition_act_def andthen_def read_clock_def)
  show ?thesis by (rule on_sessions_clean [OF op_touch_transition _ _ step']) (use assms in \<open>simp_all add: clean_def\<close>)
qed

lemma clean_then:
  assumes "clean_inv inventory good sid w" "clean inventory k w" and "\<And>x. keeps (clean_inv inventory good sid) (f x)"
    and "andthen (transition_act k ns af ch) f w = (r, w')"
  shows "clean_inv inventory good sid w'"
proof -
  obtain a w1 where a: "transition_act k ns af ch w = (a, w1)" by fastforce
  note I = clean_transition [OF assms(1,2) a, THEN conjunct1]
  show ?thesis using assms(4) a I assms(3) [THEN keepsD, OF I] by (cases a) (auto simp: andthen_def)
qed

section \<open>Deleting through the contract\<close>

context provider_contract
begin

lemma keeps_provider:
  assumes "\<And>p r p'. good p \<Longrightarrow> f p = (r, p') \<Longrightarrow> good p' \<and> set (inventory p') \<subseteq> set (inventory p)"
  shows "keeps (clean_inv inventory good sid) (on_provider f)"
proof (rule keepsI)
  fix w r w' assume I: "clean_inv inventory good sid w" and "on_provider f w = (r, w')"
  note fr = on_provider_frame [OF this(2)]
  have "good (w_provider w') \<and> set (inventory (w_provider w')) \<subseteq> set (inventory (w_provider w))"
    using assms fr I by (auto simp: clean_inv_def)
  then show "clean_inv inventory good sid w'"
    using I fr by (auto simp: clean_inv_def clean_def released_def session_status_def)
qed

lemma keeps_provider_ops [keeps_intros]:
  "keeps (clean_inv inventory good sid) (on_provider (op_list_managed_resources ops))"
  "keeps (clean_inv inventory good sid) (on_provider (op_delete_server ops i))"
  "keeps (clean_inv inventory good sid) (on_provider (op_delete_volume ops i))"
  by (rule keeps_provider, frule (1) list_managed delete_server delete_volume, force)+

definition deletes :: "string \<Rightarrow> (string \<Rightarrow> 'p \<Rightarrow> (err + unit) \<times> 'p) \<Rightarrow> bool" where
  "deletes kind d \<longleftrightarrow> (\<forall>p i r p'. good p \<longrightarrow> d i p = (r, p') \<longrightarrow> good p' \<and>
     (inventory p' = filter (\<lambda>x. \<not> is_resource kind i x) (inventory p) \<or> r \<noteq> Inr () \<and> inventory p' = inventory p))"

lemma deletes_ops: "deletes ''server'' (op_delete_server ops)" "deletes ''volume'' (op_delete_volume ops)"
  unfolding deletes_def by (intro allI impI, erule (1) delete_server delete_volume)+

lemma keeps_delete_loop:
  assumes "deletes kind d"
  shows "keeps (clean_inv inventory good sid) (delete_loop d k lease rs ok)"
proof -
  have "keeps (clean_inv inventory good sid) (on_provider (d i))" for i
    by (rule keeps_provider) (use assms in \<open>force simp: deletes_def\<close>)
  then show ?thesis by (induction rs arbitrary: ok) (auto intro!: keeps_intros)
qed

lemma delete_loop_gone:
  assumes "deletes kind d" "good (w_provider w)" "delete_loop d k lease rs ok w = (Inr True, w')"
  shows "ok \<and> set (inventory (w_provider w')) \<subseteq>
    {x \<in> set (inventory (w_provider w)). \<forall>r \<in> set rs. \<not> is_resource kind (mr_provider_id r) x}"
  using assms
proof (induction rs arbitrary: ok w)
  case (Cons r rs)
  obtain w1 b w2 where w1: "w_provider w1 = w_provider w"
    and del: "try_except (andthen (on_provider (d (mr_provider_id r))) (\<lambda>_. ret ok)) (\<lambda>_. ret False) w1 = (Inr b, w2)"
    and rest: "delete_loop d k lease rs b w2 = (Inr True, w')"
    using Cons.prems(3)
    by (auto simp: andthen_Inr session_cleanup_still_owned_act_def read_clock_def split: option.splits if_splits
        dest!: on_sessions_frame)
  obtain e w3 where e: "on_provider (d (mr_provider_id r)) w1 = (e, w3)" by fastforce
  have b: "w2 = w3 \<and> (b \<longrightarrow> e = Inr () \<and> ok)"
    using del e by (cases e) (auto simp: try_except_def andthen_def ret_def)
  have step: "good (w_provider w2) \<and>
      (inventory (w_provider w2) = filter (\<lambda>x. \<not> is_resource kind (mr_provider_id r) x) (inventory (w_provider w)) \<or>
       e \<noteq> Inr ())"
    using Cons.prems(1,2) on_provider_frame [OF e] w1 b by (auto simp: deletes_def)
  then show ?case using Cons.IH [OF Cons.prems(1) _ rest] b by auto
qed simp

lemma reaper_cleanup:
  assumes I: "clean_inv inventory good sid w" and run: "reaper_cleanup_resources ops k lease w = (r, w')"
  shows "clean_inv inventory good sid w' \<and> (r = Inr True \<longrightarrow> clean inventory k w')"
proof -
  have keep: "keeps (clean_inv inventory good sid) (reaper_cleanup_resources ops k lease)"
    unfolding reaper_cleanup_resources_def by (intro keeps_intros keeps_delete_loop [OF deletes_ops(1)] keeps_delete_loop [OF deletes_ops(2)])
  have "clean inventory k w'" if r: "r = Inr True"
  proof -
    obtain ss w1 w2 rs w3 where w1: "on_provider (op_list_managed_resources ops) w = (Inr ss, w1)"
      and w2: "delete_loop (op_delete_server ops) k lease
          (filter (\<lambda>r. mr_session_id r = Some k \<and> mr_kind r = ''server'') ss) True w1 = (Inr True, w2)"
      and w3: "on_provider (op_list_managed_resources ops) w2 = (Inr rs, w3)"
      and no: "\<not> list_ex (\<lambda>r. mr_session_id r = Some k \<and> mr_kind r = ''server'') rs"
      and w4: "delete_loop (op_delete_volume ops) k lease
          (filter (\<lambda>r. mr_session_id r = Some k \<and> mr_kind r = ''volume'') rs) True w3 = (Inr True, w')"
      using run r by (auto simp: reaper_cleanup_resources_def andthen_Inr split: if_splits)
    have "clean_inv inventory good sid w2"
      using keepsD [OF keeps_delete_loop [OF deletes_ops(1)] _ w2] keepsD [OF keeps_provider_ops(1) I w1] by blast
    then have rs: "good (w_provider w3)" "rs = inventory (w_provider w3)"
      using on_provider_frame [OF w3] list_managed [of "w_provider w2" "Inr rs"] by (auto simp: clean_inv_def)
    note gone = delete_loop_gone [OF deletes_ops(2) rs(1) w4, THEN conjunct2]
    show ?thesis unfolding clean_def
    proof (intro ballI notI)
      fix x assume x: "x \<in> set (inventory (w_provider w'))" "mr_session_id x = Some k"
      then have "x \<in> set rs" using gone rs(2) by blast
      then have "x \<in> set (filter (\<lambda>r. mr_session_id r = Some k \<and> mr_kind r = ''volume'') rs)"
        using kinds [OF rs(1), of x] no x(2) rs(2) by (auto simp: list_ex_iff)
      moreover from this have "is_resource ''volume'' (mr_provider_id x) x" by (simp add: is_resource_def)
      ultimately show False using gone x(1) by blast
    qed
  qed
  then show ?thesis using keepsD [OF keep I run] by blast
qed

lemma keeps_cleanup_step:
  assumes "keeps (clean_inv inventory good sid) m" "\<And>x. keeps (clean_inv inventory good sid) (f x)"
  shows "keeps (clean_inv inventory good sid)
    (andthen (reaper_cleanup_resources ops k lease) (\<lambda>c. if \<not> c then m else andthen (transition_act k ns af ch) f))"
  by (rule keeps_after [where J = "clean inventory k"])
    (use reaper_cleanup assms clean_then in blast)+

lemma keeps_fail_and_cleanup [keeps_intros]:
  "keeps (clean_inv inventory good sid) (fail_and_cleanup ops k reason code st ef now)"
  unfolding fail_and_cleanup_def
  by (rule keeps_cleanup_step keeps_intros | simp add: released_fields_def)+

lemma keeps_stop_and_cleanup [keeps_intros]:
  "keeps (clean_inv inventory good sid) (stop_and_cleanup ops config k code expected now)"
  unfolding stop_and_cleanup_def
  by (rule keeps_cleanup_step keeps_intros | simp add: released_fields_def)+

lemma keeps_sweeps [keeps_intros]:
  "keeps (clean_inv inventory good sid) (sweep_provisioning ops config now session result)"
  "keeps (clean_inv inventory good sid) (sweep_deadline ops config now session result)"
  "keeps (clean_inv inventory good sid) (fail_missing_heartbeat config session lh now)"
  "keeps (clean_inv inventory good sid) (sweep_no_ingest ops config now session result)"
  "keeps (clean_inv inventory good sid) (sweep_hold_expired ops config now hdl session result)"
  "keeps (clean_inv inventory good sid) (sweep_stopping ops config now session result)"
  "keeps (clean_inv inventory good sid) (sweep_failed_cleanup ops now session result)"
  unfolding sweep_provisioning_def sweep_deadline_def fail_missing_heartbeat_def sweep_no_ingest_def
    sweep_hold_expired_def sweep_stopping_def sweep_failed_cleanup_def
  by (rule keeps_cleanup_step keeps_intros | simp)+

lemma keeps_sweeps2 [keeps_intros]:
  "keeps (clean_inv inventory good sid) (sweep_heartbeat config ns now session result)"
  "keeps (clean_inv inventory good sid) (sweep_holding ops config now session result)"
  unfolding sweep_heartbeat_def sweep_holding_def
  by (rule keeps_intros | simp)+

lemma keeps_cleanup_orphan_resource [keeps_intros]:
  "keeps (clean_inv inventory good sid) (cleanup_orphan_resource ops resource)"
  unfolding cleanup_orphan_resource_def Let_def by (rule keeps_intros)+

lemma keeps_cleanup_orphans [keeps_intros]: "keeps (clean_inv inventory good sid) (cleanup_orphans ops config now)"
  unfolding cleanup_orphans_def Let_def by (rule keeps_intros)+

lemma keeps_reaper_run: "keeps (clean_inv inventory good sid) (reaper_run ops config clock registry)"
  unfolding reaper_run_def by (rule keeps_intros)+

end


section \<open>The orphan sweep spares Sessions in service\<close>

definition in_service :: "('p \<Rightarrow> managed_resource list) \<Rightarrow> ('p \<Rightarrow> bool) \<Rightarrow> string \<Rightarrow> managed_resource set \<Rightarrow> 'p world \<Rightarrow> bool" where
  "in_service inventory good sid X w \<longleftrightarrow>
     good (w_provider w) \<and> X \<subseteq> set (inventory (w_provider w)) \<and>
     (\<exists>m s. stored (w_sessions w) m \<and> map_of (sessions m) sid = Some s \<and> status_of s \<notin> TERMINAL_STATES)"

lemma in_service_on_sessions:
  assumes "op_touch {} k f"
  shows "keeps (in_service inventory good sid X) (on_sessions f)"
proof (rule keepsI)
  fix w r w' assume I: "in_service inventory good sid X w" and step: "on_sessions f w = (r, w')"
  note fr = on_sessions_frame [OF step]
  obtain m s where m: "stored (w_sessions w) m" "map_of (sessions m) sid = Some s" "status_of s \<notin> TERMINAL_STATES"
    using I by (auto simp: in_service_def)
  obtain m' where m': "stored (w_sessions w') m'" "touch {} k m m'"
    using m(1) assms fr unfolding op_touch_def by metis
  have "map_option status_of (map_of (sessions m') sid) = Some (status_of s)"
    using m'(2) m(2) by (auto simp: touch_def dest!: spec [of _ sid])
  then show "in_service inventory good sid X w'" using I m(3) m'(1) fr by (auto simp: in_service_def)
qed

lemma in_service_supply:
  "keeps (in_service inventory good sid X) read_clock" "keeps (in_service inventory good sid X) draw_uuid"
  by (simp_all add: keeps_def read_clock_def draw_uuid_def in_service_def)

lemma in_service_acts:
  "keeps (in_service inventory good sid X) (claim_orphan_cleanup_act k ri rk)"
  "keeps (in_service inventory good sid X) (orphan_cleanup_still_owned_act k l)"
  "keeps (in_service inventory good sid X) (release_orphan_cleanup_act k l)"
  "keeps (in_service inventory good sid X) (on_sessions authoritative_snapshot)"
  unfolding act_defs
  by (rule keeps_andthen in_service_supply | rule in_service_on_sessions, rule op_touch_reads op_touch_leases)+

lemma claim_orphan_in_service:
  assumes "in_service inventory good sid X w" and "claim_orphan_cleanup_act sid ri rk w = (Inr l, w')"
  shows "l = None"
proof -
  obtain m s where m: "stored (w_sessions w) m" "map_of (sessions m) sid = Some s" "status_of s \<notin> TERMINAL_STATES"
    using assms(1) by (auto simp: in_service_def)
  obtain u t t' fs where "claim_orphan_cleanup sid ri rk (Fin 900) u t t' (w_sessions w) = (Inr l, fs)"
    using assms(2)
    by (auto simp: claim_orphan_cleanup_act_def andthen_Inr draw_uuid_def read_clock_def on_sessions_def split: prod.splits)
  from state_lock_reads [OF m(1) this [unfolded claim_orphan_cleanup_def], of "Inr None"]
  show ?thesis using m by simp
qed

context provider_contract
begin

lemma in_service_list: "keeps (in_service inventory good sid X) (on_provider (op_list_managed_resources ops))"
proof (rule keepsI)
  fix w r w' assume I: "in_service inventory good sid X w" and "on_provider (op_list_managed_resources ops) w = (r, w')"
  note fr = on_provider_frame [OF this(2)]
  then show "in_service inventory good sid X w'" using I list_managed [of "w_provider w"] by (auto simp: in_service_def)
qed

lemma in_service_delete:
  assumes del: "deletes kind d" and I: "in_service inventory good sid X w" and run: "on_provider (d i) w = (r, w')"
    and X: "\<forall>x \<in> X. \<not> is_resource kind i x"
  shows "in_service inventory good sid X w'"
proof -
  note fr = on_provider_frame [OF run]
  have "good (w_provider w') \<and> X \<subseteq> set (inventory (w_provider w'))"
    using I X fr del [unfolded deletes_def, rule_format, of "w_provider w" i r "w_provider w'"]
    by (auto simp: in_service_def)
  then show ?thesis using I fr by (auto simp: in_service_def)
qed

text \<open>Once the claim is granted for another Session's id, only a resource of that id is deleted.\<close>

lemma in_service_guarded_delete:
  assumes I: "in_service inventory good sid X w" and X: "\<forall>x \<in> X. mr_session_id x = Some sid" and k: "k \<noteq> sid"
    and run: "andthen (on_provider (op_list_managed_resources ops)) (\<lambda>latest.
        if \<not> list_ex (\<lambda>c. mr_provider_id c = i \<and> mr_kind c = kind \<and> session_text c = k) latest then ret False else
        andthen (orphan_cleanup_still_owned_act k l) (\<lambda>owned.
        if \<not> owned then ret False else
        if kind = ''volume'' \<and> list_ex (\<lambda>c. session_text c = k \<and> mr_kind c = ''server'') latest then ret False else
        if kind = ''server'' then andthen (on_provider (op_delete_server ops i)) (\<lambda>_. ret True)
        else if kind = ''volume'' then andthen (on_provider (op_delete_volume ops i)) (\<lambda>_. ret True)
        else ret False)) w = (r, w')"
  shows "in_service inventory good sid X w'"
proof -
  obtain a w1 where a: "on_provider (op_list_managed_resources ops) w = (a, w1)" by fastforce
  note I1 = keepsD [OF in_service_list I a]
  have inv: "inventory (w_provider w1) = inventory (w_provider w)" "a = Inr rs \<longrightarrow> rs = inventory (w_provider w)" for rs
    using I on_provider_frame [OF a] list_managed [of "w_provider w"] by (auto simp: in_service_def)
  have spare: "\<forall>x \<in> X. \<not> is_resource kind i x"
    if ex: "list_ex (\<lambda>c. mr_provider_id c = i \<and> mr_kind c = kind \<and> session_text c = k) (inventory (w_provider w))"
  proof (intro ballI notI)
    fix x assume x: "x \<in> X" "is_resource kind i x"
    obtain c where c: "c \<in> set (inventory (w_provider w))" "mr_provider_id c = i" "mr_kind c = kind" "session_text c = k"
      using ex by (auto simp: list_ex_iff)
    have "x = c" using unique_ids [of "w_provider w" c x] I x c by (auto simp: in_service_def)
    then show False using X x(1) c(4) k by (auto simp: session_text_def)
  qed
  show ?thesis
  proof (cases a)
    case (Inl e)
    then show ?thesis using run a I1 by (auto simp: andthen_def)
  next
    case (Inr rs)
    obtain b w2 where b: "orphan_cleanup_still_owned_act k l w1 = (b, w2)" by fastforce
    note I2 = keepsD [OF in_service_acts(2) I1 b]
    obtain c w3 where c: "on_provider (op_delete_server ops i) w2 = (c, w3)" by fastforce
    obtain d w4 where d: "on_provider (op_delete_volume ops i) w2 = (d, w4)" by fastforce
    have "in_service inventory good sid X w3" if "kind = ''server''" "\<forall>x \<in> X. \<not> is_resource kind i x"
      using in_service_delete [OF deletes_ops(1) I2 c] that by simp
    moreover have "in_service inventory good sid X w4" if "kind = ''volume''" "\<forall>x \<in> X. \<not> is_resource kind i x"
      using in_service_delete [OF deletes_ops(2) I2 d] that by simp
    ultimately show ?thesis
      using run Inr a b c d I1 I2 spare inv(2)
      by (cases b; cases c; cases d) (auto simp: andthen_def ret_def split: if_splits)
  qed
qed

lemma in_service_cleanup_orphan:
  assumes X: "\<forall>x \<in> X. mr_session_id x = Some sid"
  shows "keeps (in_service inventory good sid X) (cleanup_orphan_resource ops resource)"
proof (rule keepsI)
  fix w r w' assume I: "in_service inventory good sid X w" and run: "cleanup_orphan_resource ops resource w = (r, w')"
  define k where "k = session_text resource"
  note k = this [symmetric]
  obtain a w1 where a: "claim_orphan_cleanup_act k (mr_provider_id resource) (mr_kind resource) w = (a, w1)" by fastforce
  note I1 = keepsD [OF in_service_acts(1) I a]
  show "in_service inventory good sid X w'"
  proof (cases "\<exists>l. a = Inr (Some l)")
    case False
    then show ?thesis using run a k I1
      by (cases a) (auto simp: cleanup_orphan_resource_def Let_def try_else_def split: option.splits if_splits)
  next
    case True
    then obtain l where l: "a = Inr (Some l)" by blast
    then have "k \<noteq> sid" using claim_orphan_in_service [OF I] a by blast
    note del = in_service_guarded_delete [OF _ X this]
    show ?thesis
      using run a k l unfolding cleanup_orphan_resource_def Let_def try_else_def
      apply (simp only: option.case sum.case prod.case)
      apply (erule keepsD [rotated 2])
       apply (rule keeps_try_finally keeps_try_except keeps_ret keeps_throw keeps_if in_service_acts | (rule keepsI, erule (1) del))+
      apply (rule I1)
      done
  qed
qed

lemma in_service_cleanup_orphans:
  assumes X: "\<forall>x \<in> X. mr_session_id x = Some sid"
  shows "keeps (in_service inventory good sid X) (cleanup_orphans ops config now)"
proof -
  have sweep: "keeps (in_service inventory good sid X)
      (if mr_kind resource \<noteq> kind \<or> \<not> orphan_delete_allowed config resource known now then ret n
       else andthen (cleanup_orphan_resource ops resource) (\<lambda>ok. ret (if ok then n + 1 else n)))"
    for resource kind known and n :: nat
    by (rule keeps_if keeps_andthen keeps_ret in_service_cleanup_orphan [OF X])+
  show ?thesis
    unfolding cleanup_orphans_def Let_def
    by (intro keeps_try_else in_service_acts keeps_if keeps_ret keeps_throw keeps_andthen in_service_list keeps_for_each sweep)
qed

end

text \<open>C7. The orphan sweep spares Sessions in service: a resource tagged with a Session that the authority
  holds in a non-terminal state is still there after the sweep, whatever grace period is configured and
  whatever the snapshot taken at the start of the sweep said.\<close>

theorem orphan_sweep_spares_sessions:
  assumes "provider_contract ops inventory good" and "good (w_provider w)"
    and "stored (w_sessions w) m" and "map_of (sessions m) sid = Some s" and "status_of s \<notin> TERMINAL_STATES"
    and "x \<in> set (inventory (w_provider w))" and "mr_session_id x = Some sid"
    and "cleanup_orphans ops config now w = (r, w')"
  shows "x \<in> set (inventory (w_provider w'))"
proof -
  have "in_service inventory good sid {x} w" using assms(2-6) by (auto simp: in_service_def)
  then have "in_service inventory good sid {x} w'"
    using keepsD [OF provider_contract.in_service_cleanup_orphans [OF assms(1)] _ assms(8)] assms(7) by blast
  then show ?thesis by (simp add: in_service_def)
qed

section \<open>A concrete world\<close>

definition demo_parse :: "string \<Rightarrow> rat option" where
  "demo_parse raw = None"

definition demo_volume :: provider_volume where
  "demo_volume = \<lparr>pv_volume_id = ''v1'', pv_name = ''irlight-s1-boot'', pv_size_gb = 30, pv_status = ''available'',
     pv_tags = [(''irlight-managed'', ''true''), (''irlight-session-id'', ''s1'')]\<rparr>"

definition demo_provider :: fake_provider where
  "demo_provider = \<lparr>fk_volumes = [(''v1'', demo_volume)], fk_servers = [], fk_server_volume_links = [],
     fk_uuid = (\<lambda>n. replicate (n + 3) (CHR ''u'')), fk_issued = 0\<rparr>"

definition demo_world :: "string \<Rightarrow> fake_provider world" where
  "demo_world status = \<lparr>w_sessions = authority_of (demo_store status []), w_credentials = fresh_authority,
     w_provider = demo_provider, w_clock = (\<lambda>n. Fin 10), w_uuid = (\<lambda>n. replicate (n + 1) (CHR ''l'')),
     w_ticks = 0, w_drawn = 0\<rparr>"

definition demo_config :: reaper_config where
  "demo_config = \<lparr>rc_provisioning_timeout_seconds = 900, rc_no_ingest_timeout_seconds = 900,
     rc_hold_timeout_seconds = 900, rc_heartbeat_grace_seconds = 90, rc_orphan_grace_seconds = 0\<rparr>"

lemma demo_world_ok:
  assumes "status \<in> SESSION_STATES"
  shows "provider_contract (fake_ops demo_parse) (fake_inventory demo_parse) fake_wf" "fake_wf (w_provider (demo_world status))"
    "stored (w_sessions (demo_world status)) (demo_store status [])"
  using fake.provider_contract_axioms assms by (simp_all add: demo_world_def demo_provider_def fake_wf_def demo_volume_def stored_demo)


theorem orphan_sweep_spares_sessions_witness:
  "\<exists>r w'. cleanup_orphans (fake_ops demo_parse) demo_config 20 (demo_world ''LIVE'') = (r, w') \<and>
     managed_volume demo_parse demo_volume \<in> set (fake_inventory demo_parse (w_provider w'))"
proof -
  have st: "''LIVE'' \<in> SESSION_STATES" by (simp add: SESSION_STATES_def)
  obtain r w' where run: "cleanup_orphans (fake_ops demo_parse) demo_config 20 (demo_world ''LIVE'') = (r, w')" by fastforce
  have "status_of (demo_session ''LIVE'' []) \<notin> TERMINAL_STATES" by (simp add: demo_status TERMINAL_STATES_def)
  from orphan_sweep_spares_sessions [OF demo_world_ok(1) [OF st] demo_world_ok(2) [OF st] demo_world_ok(3) [OF st] _ this _ _ run]
  show ?thesis using run
    by (auto simp: fake_inventory_def demo_world_def demo_provider_def demo_volume_def managed_volume_def)
qed

end
