(* ===== verification/Revocation.thy ===== *)
theory Revocation
  imports Cleanup
begin

text \<open>
  Credentials go first: along every stop path a Session's publishing credentials are revoked before any
  provider resource is deleted.
\<close>

definition revoked :: "string \<Rightarrow> 'p world \<Rightarrow> bool" where
  "revoked sid w \<longleftrightarrow> (\<exists>cs. cstored (w_credentials w) cs \<and> (\<forall>sc. unrevoked cs sid sc = {}))"

text \<open>Nothing was deleted yet, or the credentials are revoked.\<close>

definition revoked_first :: "'p \<Rightarrow> string \<Rightarrow> 'p world \<Rightarrow> bool" where
  "revoked_first p sid w \<longleftrightarrow>
     (\<exists>cs. cstored (w_credentials w) cs) \<and> (w_provider w = p \<or> revoked sid w)"

lemma revoked_first_revoked: "revoked sid w \<Longrightarrow> revoked_first p sid w"
  by (auto simp: revoked_first_def revoked_def)

lemma revoked_keeps:
  "keeps (revoked sid) (on_sessions f)" "keeps (revoked sid) (on_provider g)"
  "keeps (revoked sid) read_clock" "keeps (revoked sid) draw_uuid"
  by (rule keepsI, auto simp: revoked_def read_clock_def draw_uuid_def dest!: on_sessions_frame on_provider_frame)+

lemma revoked_first_keeps:
  "keeps (revoked_first p sid) (on_sessions f)"
  "keeps (revoked_first p sid) read_clock" "keeps (revoked_first p sid) draw_uuid"
  by (rule keepsI, auto simp: revoked_first_def revoked_def read_clock_def draw_uuid_def dest!: on_sessions_frame)+

lemma revoke_act:
  assumes I: "revoked_first p sid w" and run: "revoke_session_act sid w = (r, w')"
  shows "revoked_first p sid w' \<and> (\<forall>n. r = Inr n \<longrightarrow> revoked sid w')"
proof -
  obtain cs where cs: "cstored (w_credentials w) cs" using I by (auto simp: revoked_first_def)
  obtain t where t: "revoke_session sid None t (w_credentials w) = (r, w_credentials w')" and p: "w_provider w' = w_provider w"
    using run by (auto simp: revoke_session_act_def andthen_def read_clock_def on_credentials_def split: prod.splits)
  obtain cs' where cs': "cstored (w_credentials w') cs'" "\<forall>n. r = Inr n \<longrightarrow> (\<forall>sc. unrevoked cs' sid sc = {})"
    "\<forall>sc. unrevoked cs sid sc = {} \<longrightarrow> unrevoked cs' sid sc = {}"
    using revoke_session_unrevoked [OF cs t] by blast
  then have "revoked sid w \<Longrightarrow> revoked sid w'" using cstored_unique [OF cs] by (auto simp: revoked_def)
  then show ?thesis using I cs' p by (auto simp: revoked_first_def revoked_def)
qed

lemma revoke_then:
  assumes "\<And>n. keeps (revoked sid) (f n)"
  shows "keeps (revoked_first p sid) (andthen (revoke_session_act sid) f)"
proof (rule keepsI)
  fix w r w' assume I: "revoked_first p sid w" and run: "andthen (revoke_session_act sid) f w = (r, w')"
  obtain a w1 where a: "revoke_session_act sid w = (a, w1)" by fastforce
  note w1 = revoke_act [OF I a]
  show "revoked_first p sid w'"
  proof (cases a)
    case (Inl e)
    then show ?thesis using run a w1 by (simp add: andthen_def)
  next
    case (Inr n)
    then show ?thesis using run a w1 keepsD [OF assms, of w1] by (auto simp: andthen_def intro: revoked_first_revoked)
  qed
qed

lemma revoke_else:
  assumes "\<And>n. keeps (revoked sid) (f n)" and "\<And>e. keeps (revoked_first p sid) (h e)"
  shows "keeps (revoked_first p sid) (try_else (revoke_session_act sid) h f)"
proof (rule keepsI)
  fix w r w' assume I: "revoked_first p sid w" and run: "try_else (revoke_session_act sid) h f w = (r, w')"
  obtain a w1 where a: "revoke_session_act sid w = (a, w1)" by fastforce
  note w1 = revoke_act [OF I a]
  show "revoked_first p sid w'"
  proof (cases a)
    case (Inl e)
    then show ?thesis using run a w1 keepsD [OF assms(2), of w1] by (simp add: try_else_def)
  next
    case (Inr n)
    then show ?thesis using run a w1 keepsD [OF assms(1), of w1] by (auto simp: try_else_def intro: revoked_first_revoked)
  qed
qed

lemma revoked_acts:
  "keeps (revoked sid) (get_act k)" "keeps (revoked sid) (update_act k ch)"
  "keeps (revoked sid) (transition_act k ns af ch)" "keeps (revoked sid) (append_event_act k ty rc pl org oc)"
  "keeps (revoked sid) (claim_session_cleanup_act k)" "keeps (revoked sid) (session_cleanup_still_owned_act k l)"
  "keeps (revoked sid) (release_session_cleanup_act k l)"
  unfolding act_defs by (intro keeps_andthen revoked_keeps)+

lemma revoked_delete_loop: "keeps (revoked sid) (delete_loop d k lease rs ok)"
  by (induction rs arbitrary: ok) (auto intro!: keeps_intros revoked_acts revoked_keeps)

lemma revoked_reaper_cleanup: "keeps (revoked sid) (reaper_cleanup_resources ops k lease)"
  unfolding reaper_cleanup_resources_def by (intro keeps_andthen keeps_if keeps_ret revoked_keeps revoked_delete_loop)

lemma revoked_workflow_cleanup: "keeps (revoked sid) (workflow_cleanup_resources ops k lease)"
  unfolding workflow_cleanup_resources_def owned_resources_def resource_environment_def Let_def
  by (intro keeps_andthen keeps_if keeps_ret keeps_filter_act revoked_keeps revoked_acts revoked_delete_loop)

lemmas revoked_intros =
  keeps_ret keeps_throw keeps_andthen keeps_if keeps_option keeps_Let keeps_prod keeps_try_except keeps_try_finally
  revoked_acts revoked_reaper_cleanup revoked_workflow_cleanup

lemma revoked_first_acts:
  "keeps (revoked_first p sid) (get_act k)" "keeps (revoked_first p sid) (request_stop_act k)"
  "keeps (revoked_first p sid) (request_stop_if_current_act k st ef)"
  "keeps (revoked_first p sid) (transition_if_current_act k ns al ef ch)"
  unfolding act_defs by (intro keeps_andthen revoked_first_keeps)+

lemmas revoked_first_intros =
  revoke_then revoke_else keeps_try_else keeps_ret keeps_throw keeps_andthen keeps_if keeps_option keeps_Let keeps_prod revoked_first_acts
  revoked_intros

lemma workflow_stop_revokes_first: "keeps (revoked_first p sid) (workflow_stop ops sid)"
  unfolding workflow_stop_def by (rule revoked_first_intros)+

text \<open>What holds when an action returns.\<close>

definition yields :: "('p world \<Rightarrow> bool) \<Rightarrow> ('p world \<Rightarrow> bool) \<Rightarrow> ('p, 'a) act \<Rightarrow> bool" where
  "yields I J m \<longleftrightarrow> (\<forall>w x w'. I w \<longrightarrow> m w = (Inr x, w') \<longrightarrow> J w')"

lemma yields_throw: "yields I J (throw e)"
  by (simp add: yields_def)

lemma yields_andthen: "keeps I m \<Longrightarrow> (\<And>x. yields I J (f x)) \<Longrightarrow> yields I J (andthen m f)"
  unfolding yields_def andthen_Inr using keepsD by metis

lemma yields_revoke: "(\<And>n. keeps (revoked sid) (f n)) \<Longrightarrow> yields (revoked_first p sid) (revoked sid) (andthen (revoke_session_act sid) f)"
  unfolding yields_def andthen_Inr using revoke_act keepsD by metis

lemma yields_if: "(b \<Longrightarrow> yields I J m) \<Longrightarrow> (\<not> b \<Longrightarrow> yields I J n) \<Longrightarrow> yields I J (if b then m else n)"
  by simp

lemma yields_option:
  "(x = None \<Longrightarrow> yields I J m) \<Longrightarrow> (\<And>y. x = Some y \<Longrightarrow> yields I J (f y)) \<Longrightarrow>
   yields I J (case x of None \<Rightarrow> m | Some y \<Rightarrow> f y)"
  by (cases x) simp_all

lemma workflow_stop_returns: "yields (revoked_first p sid) (revoked sid) (workflow_stop ops sid)"
  unfolding workflow_stop_def
  by (rule yields_revoke yields_andthen yields_option yields_if yields_throw revoked_first_acts revoked_intros)+

lemma stop_and_cleanup_revokes_first: "keeps (revoked_first p sid) (stop_and_cleanup ops config sid code expected now)"
  unfolding stop_and_cleanup_def failed_event_def by (rule revoked_first_intros)+

lemma fail_and_cleanup_revokes_first: "keeps (revoked_first p sid) (fail_and_cleanup ops sid reason code st ef now)"
  unfolding fail_and_cleanup_def failed_event_def by (rule revoked_first_intros)+


text \<open>Stopping a Session revokes its publishing credentials before anything is deleted: when
  ProvisioningWorkflow.stop returns, or has changed the provider's state before failing, no secret
  authenticates a publisher of that Session any more, in any scope or protocol and at any time.\<close>

theorem stop_revokes_first:
  assumes "cstored (w_credentials w) cs" and "workflow_stop ops sid w = (r, w')"
    and "r = Inr session \<or> w_provider w' \<noteq> w_provider w" and "0 \<le> t"
  shows "fst (verify digest sid secret protocol (Some (JTime t)) scope clock (w_credentials w')) = Inr None"
proof -
  have I: "revoked_first (w_provider w) sid w" using assms(1) by (auto simp: revoked_first_def)
  have "revoked sid w'"
  proof (cases "w_provider w' = w_provider w")
    case False
    then show ?thesis
      using keepsD [OF workflow_stop_revokes_first I assms(2)] by (auto simp: revoked_first_def)
  next
    case True
    then have "workflow_stop ops sid w = (Inr session, w')" using assms(2,3) by blast
    then show ?thesis using workflow_stop_returns [of "w_provider w" sid ops] I unfolding yields_def by blast
  qed
  then show ?thesis using verify_unrevoked assms(4) by (auto simp: revoked_def)
qed

text \<open>The reaper's two cleanup paths revoke a Session's publishing credentials before they delete:
  after a timeout failure or a deadline stop either the provider's state is the one before, or no secret
  authenticates a publisher of that Session any more.\<close>

theorem reaper_revokes_first:
  assumes "cstored (w_credentials w) cs" and "0 \<le> t"
    and run: "stop_and_cleanup ops config sid code expected now w = (r, w') \<or>
      fail_and_cleanup ops sid reason code st ef now w = (r, w')"
  shows "w_provider w' = w_provider w \<or>
    fst (verify digest sid secret protocol (Some (JTime t)) scope clock (w_credentials w')) = Inr None"
proof -
  have I: "revoked_first (w_provider w) sid w" using assms(1) by (auto simp: revoked_first_def)
  have "revoked_first (w_provider w) sid w'"
    using run by (elim disjE) (erule keepsD [OF stop_and_cleanup_revokes_first I] keepsD [OF fail_and_cleanup_revokes_first I])+
  then show ?thesis using assms(2) verify_unrevoked by (auto simp: revoked_first_def revoked_def)
qed

lemma demo_get:
  assumes "status \<in> SESSION_STATES"
  shows "\<exists>fs. get_act ''s1'' (demo_world status) = (Inr (Some (demo_session status [])), (demo_world status)\<lparr>w_sessions := fs\<rparr>)"
proof -
  obtain r fs' where r: "get_session ''s1'' (w_sessions (demo_world status)) = (r, fs')" by fastforce
  from state_lock_reads [OF demo_world_ok(3) [OF assms] this [unfolded get_session_def], of "Inr (Some (demo_session status []))"]
  show ?thesis using r by (auto simp: get_act_def on_sessions_def)
qed

lemma demo_revoke:
  "\<exists>n w2. revoke_session_act ''s1'' ((demo_world status)\<lparr>w_sessions := fs\<rparr>) = (Inr n, w2)"
proof -
  obtain r cfs where r: "revoke_session ''s1'' None (Fin 10) fresh_authority = (r, cfs)" by fastforce
  have "runtime_timestamp None (Fin 10) = Inr 10" by (simp add: runtime_timestamp_def)
  then obtain n where "r = Inr n" using revoke_session_unrevoked [OF cstored_fresh r] by blast
  then show ?thesis
    using r by (simp add: revoke_session_act_def andthen_def read_clock_def on_credentials_def demo_world_def)
qed

lemma demo_stop_run: "\<exists>w'. workflow_stop (fake_ops demo_parse) ''s1'' (demo_world ''FINISHED'') = (Inr (demo_session ''FINISHED'' []), w')"
proof -
  have st: "''FINISHED'' \<in> SESSION_STATES" by (simp add: SESSION_STATES_def)
  obtain fs where w1: "get_act ''s1'' (demo_world ''FINISHED'') =
      (Inr (Some (demo_session ''FINISHED'' [])), (demo_world ''FINISHED'')\<lparr>w_sessions := fs\<rparr>)"
    using demo_get [OF st] by blast
  obtain n w2 where w2: "revoke_session_act ''s1'' ((demo_world ''FINISHED'')\<lparr>w_sessions := fs\<rparr>) = (Inr n, w2)"
    using demo_revoke by blast
  show ?thesis using w1 w2 by (simp add: workflow_stop_def andthen_def demo_status ret_def)
qed

theorem stop_revokes_first_witness:
  "\<exists>w'. workflow_stop (fake_ops demo_parse) ''s1'' (demo_world ''FINISHED'') = (Inr (demo_session ''FINISHED'' []), w') \<and>
     fst (verify demo_digest ''s1'' ''x'' ''srt'' (Some (JTime 9)) ''INGEST'' (Fin 0) (w_credentials w')) = Inr None"
proof -
  obtain w' where run: "workflow_stop (fake_ops demo_parse) ''s1'' (demo_world ''FINISHED'') = (Inr (demo_session ''FINISHED'' []), w')"
    using demo_stop_run by blast
  have "cstored (w_credentials (demo_world ''FINISHED'')) []" by (simp add: demo_world_def cstored_fresh)
  from stop_revokes_first [OF this run _ zero_le_numeral] run show ?thesis by blast
qed

theorem reaper_revokes_first_witness:
  "\<exists>r w'. stop_and_cleanup (fake_ops demo_parse) demo_config ''s1'' ''STOP_REQUESTED'' None 20 (demo_world ''STOPPING'') = (r, w') \<and>
     (w_provider w' = demo_provider \<or>
      fst (verify demo_digest ''s1'' ''x'' ''srt'' (Some (JTime 9)) ''INGEST'' (Fin 0) (w_credentials w')) = Inr None)"
proof -
  obtain r w' where run: "stop_and_cleanup (fake_ops demo_parse) demo_config ''s1'' ''STOP_REQUESTED'' None 20 (demo_world ''STOPPING'') = (r, w')"
    by fastforce
  have "cstored (w_credentials (demo_world ''STOPPING'')) []" by (simp add: demo_world_def cstored_fresh)
  from reaper_revokes_first [OF this _ disjI1 [OF run], of 9] run show ?thesis by (auto simp: demo_world_def)
qed

end
