(* ===== verification/Provisioning.thy ===== *)
theory Provisioning
  imports Cleanup "HOL-Library.Sublist"
begin

text \<open>
  Provisioning is idempotent: retrying \<open>prepare\<close> finds the volume and the server an earlier attempt
  created instead of creating them again, and never adopts a resource of another Session.
\<close>

section \<open>Creation through the contract\<close>

text \<open>
  The tables of volumes and servers are what the provider lists, and a creation that succeeds appends a
  resource that carries the tags it was given; one that fails changes nothing.
\<close>

locale creating_provider =
  fixes ops :: "'p provider_ops" and volumes :: "'p \<Rightarrow> provider_volume list"
    and servers :: "'p \<Rightarrow> provider_server list" and fresh :: "'p \<Rightarrow> bool"
  assumes list_volumes: "fresh p \<Longrightarrow> op_list_volumes ops p = (Inr (volumes p), p)"
    and list_servers: "fresh p \<Longrightarrow> op_list_servers ops p = (Inr (servers p), p)"
    and list_managed: "fresh p \<Longrightarrow> op_list_managed_resources ops p = (r0, p') \<Longrightarrow> p' = p"
    and create_volume: "fresh p \<Longrightarrow> op_create_volume ops name gb ts p = (r, p') \<Longrightarrow>
      fresh p' \<and> servers p' = servers p \<and>
      (case r of Inl _ \<Rightarrow> volumes p' = volumes p | Inr v \<Rightarrow> volumes p' = volumes p @ [v] \<and> pv_tags v = ts)"
    and create_server: "fresh p \<Longrightarrow> op_create_server ops name img flavor vid ts p = (r', p') \<Longrightarrow>
      fresh p' \<and> volumes p' = volumes p \<and>
      (case r' of Inl _ \<Rightarrow> servers p' = servers p | Inr s \<Rightarrow> servers p' = servers p @ [s] \<and> ps_tags s = ts)"
    and delete_volume: "fresh p \<Longrightarrow> op_delete_volume ops i p = (r2, p') \<Longrightarrow>
      fresh p' \<and> servers p' = servers p \<and> subseq (volumes p') (volumes p)"
    and delete_server: "fresh p \<Longrightarrow> op_delete_server ops i p = (r2, p') \<Longrightarrow>
      fresh p' \<and> volumes p' = volumes p \<and> subseq (servers p') (servers p)"

definition tagged :: "string \<Rightarrow> tags \<Rightarrow> bool" where
  "tagged sid ts \<longleftrightarrow> map_of ts ''irlight-session-id'' = Some sid \<and> map_of ts ''irlight-managed'' = Some ''true''"

lemma find_managed_eq:
  "find_managed tags_of (expected_tags sid None None) sid rs = Inr (List.find (\<lambda>r. tagged sid (tags_of r)) rs)"
  by (induction rs) (auto simp: tagged_def expected_tags_def Let_def)

lemma session_tags_tagged: "session_tags fmt sid user env t = Inr ts \<Longrightarrow> tagged sid ts"
  by (auto simp: session_tags_def tagged_def rbind_eq_Inr)

lemma find_append_last: "List.find P xs = None \<Longrightarrow> P x \<Longrightarrow> List.find P (xs @ [x]) = Some x"
  by (induction xs) (auto split: if_splits)


text \<open>At most one volume and one server carry the tags of a Session.\<close>

definition single :: "('p \<Rightarrow> provider_volume list) \<Rightarrow> ('p \<Rightarrow> provider_server list) \<Rightarrow> ('p \<Rightarrow> bool) \<Rightarrow> string \<Rightarrow> 'p world \<Rightarrow> bool" where
  "single volumes servers fresh k w \<longleftrightarrow> fresh (w_provider w) \<and>
     length (filter (\<lambda>v. tagged k (pv_tags v)) (volumes (w_provider w))) \<le> 1 \<and>
     length (filter (\<lambda>s. tagged k (ps_tags s)) (servers (w_provider w))) \<le> 1"

lemma single_frames:
  "keeps (single volumes servers fresh k) (on_sessions f)" "keeps (single volumes servers fresh k) (on_credentials g)"
  "keeps (single volumes servers fresh k) read_clock" "keeps (single volumes servers fresh k) draw_uuid"
  by (rule keepsI, auto simp: single_def read_clock_def draw_uuid_def dest!: on_sessions_frame on_credentials_frame)+

lemma single_acts:
  "keeps (single volumes servers fresh k) (get_act sid)" "keeps (single volumes servers fresh k) (update_act sid ch)"
  "keeps (single volumes servers fresh k) (create_act sid u env h)"
  "keeps (single volumes servers fresh k) (claim_provisioning_act sid oid st)"
  "keeps (single volumes servers fresh k) (checkpoint_act sid oid ns' c ch)"
  "keeps (single volumes servers fresh k) (transition_act sid ns af ch)"
  "keeps (single volumes servers fresh k) (claim_session_cleanup_act sid)"
  "keeps (single volumes servers fresh k) (session_cleanup_still_owned_act sid l)"
  "keeps (single volumes servers fresh k) (release_session_cleanup_act sid l)"
  "keeps (single volumes servers fresh k) (revoke_session_act sid)"
  unfolding act_defs revoke_session_act_def by (intro keeps_andthen single_frames)+

context creating_provider
begin

lemma single_provider:
  assumes "\<And>p r p'. fresh p \<Longrightarrow> f p = (r, p') \<Longrightarrow> fresh p' \<and>
    subseq (volumes p') (volumes p) \<and> subseq (servers p') (servers p)"
  shows "keeps (single volumes servers fresh k) (on_provider f)"
proof (rule keepsI)
  fix w r w' assume I: "single volumes servers fresh k w" and "on_provider f w = (r, w')"
  note fr = on_provider_frame [OF this(2)]
  have "fresh (w_provider w')" "subseq (volumes (w_provider w')) (volumes (w_provider w))"
    "subseq (servers (w_provider w')) (servers (w_provider w))"
    using assms fr I unfolding single_def by blast+
  moreover have "length (filter R xs) \<le> length (filter R ys)" if "subseq xs ys" for R and xs ys :: "'z list"
    using list_emb_length [OF subseq_filter [OF that]] .
  ultimately show "single volumes servers fresh k w'" using I unfolding single_def by (meson le_trans)
qed

lemma single_provider_ops:
  "keeps (single volumes servers fresh k) (on_provider (op_list_managed_resources ops))"
  "keeps (single volumes servers fresh k) (on_provider (op_list_volumes ops))"
  "keeps (single volumes servers fresh k) (on_provider (op_list_servers ops))"
  "keeps (single volumes servers fresh k) (on_provider (op_delete_volume ops i))"
  "keeps (single volumes servers fresh k) (on_provider (op_delete_server ops i))"
proof -
  show "keeps (single volumes servers fresh k) (on_provider (op_list_managed_resources ops))"
    by (rule single_provider) (use list_managed in blast)
  show "keeps (single volumes servers fresh k) (on_provider (op_list_volumes ops))"
    by (rule single_provider) (simp add: list_volumes)
  show "keeps (single volumes servers fresh k) (on_provider (op_list_servers ops))"
    by (rule single_provider) (simp add: list_servers)
  show "keeps (single volumes servers fresh k) (on_provider (op_delete_volume ops i))"
    by (rule single_provider) (simp add: delete_volume)
  show "keeps (single volumes servers fresh k) (on_provider (op_delete_server ops i))"
    by (rule single_provider) (simp add: delete_server)
qed

lemma ensure_volume_spec:
  assumes f: "fresh (w_provider w)" and run: "ensure_volume ops config fmt sid user env w = (r, w')"
  shows "fresh (w_provider w') \<and> servers (w_provider w') = servers (w_provider w) \<and>
    (case r of Inl _ \<Rightarrow> volumes (w_provider w') = volumes (w_provider w)
     | Inr v \<Rightarrow> tagged sid (pv_tags v) \<and> List.find (\<lambda>v. tagged sid (pv_tags v)) (volumes (w_provider w')) = Some v \<and>
         (volumes (w_provider w') = volumes (w_provider w) \<or>
          List.find (\<lambda>v. tagged sid (pv_tags v)) (volumes (w_provider w)) = None \<and>
          volumes (w_provider w') = volumes (w_provider w) @ [v]))"
proof (cases "List.find (\<lambda>v. tagged sid (pv_tags v)) (volumes (w_provider w))")
  case (Some v)
  then have "r = Inr v \<and> w_provider w' = w_provider w"
    using run f by (auto simp: ensure_volume_def find_managed_volume_def andthen_def on_provider_def list_volumes lift_def
        find_managed_eq ret_def)
  then show ?thesis using Some f by (auto simp: find_Some_iff)
next
  case None
  note simps = ensure_volume_def find_managed_volume_def andthen_def on_provider_def list_volumes lift_def find_managed_eq
    read_clock_def
  show ?thesis
  proof (cases "session_tags fmt sid user env (w_clock w (w_ticks w))")
    case (Inl e)
    then show ?thesis using run f None by (auto simp: simps)
  next
    case (Inr ts)
    obtain r1 p where c: "op_create_volume ops (''irlight-'' @ sid @ ''-boot'') (wc_size_gb config) ts (w_provider w) = (r1, p)"
      by fastforce
    have "r = r1 \<and> w_provider w' = p" using run f None Inr c by (auto simp: simps)
    then show ?thesis
      using create_volume [OF f c] session_tags_tagged [OF Inr] None by (auto simp: find_append_last split: sum.splits)
  qed
qed

lemma ensure_server_spec:
  assumes f: "fresh (w_provider w)" and run: "ensure_server ops config fmt sid user env vid w = (r, w')"
  shows "fresh (w_provider w') \<and> volumes (w_provider w') = volumes (w_provider w) \<and>
    (case r of Inl _ \<Rightarrow> servers (w_provider w') = servers (w_provider w)
     | Inr s \<Rightarrow> tagged sid (ps_tags s) \<and> List.find (\<lambda>s. tagged sid (ps_tags s)) (servers (w_provider w')) = Some s \<and>
         (servers (w_provider w') = servers (w_provider w) \<or>
          List.find (\<lambda>s. tagged sid (ps_tags s)) (servers (w_provider w)) = None \<and>
          servers (w_provider w') = servers (w_provider w) @ [s]))"
proof (cases "List.find (\<lambda>s. tagged sid (ps_tags s)) (servers (w_provider w))")
  case (Some s)
  then have "r = Inr s \<and> w_provider w' = w_provider w"
    using run f by (auto simp: ensure_server_def find_managed_server_def andthen_def on_provider_def list_servers lift_def
        find_managed_eq ret_def)
  then show ?thesis using Some f by (auto simp: find_Some_iff)
next
  case None
  note simps = ensure_server_def find_managed_server_def andthen_def on_provider_def list_servers lift_def find_managed_eq
    read_clock_def
  show ?thesis
  proof (cases "session_tags fmt sid user env (w_clock w (w_ticks w))")
    case (Inl e)
    then show ?thesis using run f None by (auto simp: simps)
  next
    case (Inr ts)
    obtain r1 p where c: "op_create_server ops (''irlight-'' @ sid @ ''-node'') (wc_image_ref config) (wc_flavor_ref config) vid ts
        (w_provider w) = (r1, p)"
      by fastforce
    have "r = r1 \<and> w_provider w' = p" using run f None Inr c by (auto simp: simps)
    then show ?thesis
      using create_server [OF f c] session_tags_tagged [OF Inr] None by (auto simp: find_append_last split: sum.splits)
  qed
qed

lemma tagged_unique: "tagged sid ts \<Longrightarrow> tagged k ts \<Longrightarrow> k = sid"
  by (simp add: tagged_def)

lemma single_ensure:
  "keeps (single volumes servers fresh k) (ensure_volume ops config fmt sid user env)"
  "keeps (single volumes servers fresh k) (ensure_server ops config fmt sid user env vid)"
proof -
  show "keeps (single volumes servers fresh k) (ensure_volume ops config fmt sid user env)"
  proof (rule keepsI)
    fix w r w' assume I: "single volumes servers fresh k w" and "ensure_volume ops config fmt sid user env w = (r, w')"
    from ensure_volume_spec [OF _ this(2)] I show "single volumes servers fresh k w'"
      by (cases "k = sid") (auto simp: single_def find_None_iff filter_empty_conv dest: tagged_unique split: sum.splits)
  qed
  show "keeps (single volumes servers fresh k) (ensure_server ops config fmt sid user env vid)"
  proof (rule keepsI)
    fix w r w' assume I: "single volumes servers fresh k w" and "ensure_server ops config fmt sid user env vid w = (r, w')"
    from ensure_server_spec [OF _ this(2)] I show "single volumes servers fresh k w'"
      by (cases "k = sid") (auto simp: single_def find_None_iff filter_empty_conv dest: tagged_unique split: sum.splits)
  qed
qed

lemma single_delete_loop:
  "(\<And>i. keeps (single volumes servers fresh k) (on_provider (d i))) \<Longrightarrow>
   keeps (single volumes servers fresh k) (delete_loop d sid lease rs ok)"
  by (induction rs arbitrary: ok) (auto intro!: keeps_intros single_acts)

lemma single_workflow_cleanup: "keeps (single volumes servers fresh k) (workflow_cleanup_resources ops sid lease)"
  unfolding workflow_cleanup_resources_def owned_resources_def resource_environment_def Let_def
  by (intro keeps_andthen keeps_if keeps_ret keeps_filter_act single_acts single_provider_ops single_delete_loop)

lemmas single_intros =
  keeps_ret keeps_throw keeps_andthen keeps_if keeps_option keeps_Let keeps_prod keeps_try_except keeps_try_else
  keeps_try_finally single_acts single_frames single_workflow_cleanup single_ensure

lemma single_finish_cancelled: "keeps (single volumes servers fresh k) (finish_cancelled_provisioning ops sid)"
  unfolding finish_cancelled_provisioning_def by (rule single_intros)+

lemma single_handle_error:
  "keeps (single volumes servers fresh k) (handle_provisioning_error ops message sid claimed exc)"
  unfolding handle_provisioning_error_def provisioning_failed_def by (rule single_intros single_finish_cancelled)+

lemma single_prepare:
  "keeps (single volumes servers fresh k) (workflow_prepare ops config fmt message handshake sid user env)"
  unfolding workflow_prepare_def provision_claimed_def unless_cancelled_def
  by (rule single_intros single_finish_cancelled single_handle_error)+

end

section \<open>The in-memory provider creates as promised\<close>

definition fake_fresh :: "fake_provider \<Rightarrow> bool" where
  "fake_fresh p \<longleftrightarrow> inj (fk_uuid p) \<and>
     (\<forall>n \<ge> fk_issued p. map_of (fk_volumes p) (fk_uuid p n) = None \<and> map_of (fk_servers p) (fk_uuid p n) = None)"

lemma map_of_dpop_None: "map_of xs k = None \<Longrightarrow> map_of (dpop xs i) k = None"
  by (auto simp: map_of_eq_None_iff set_dpop)

lemma subseq_dpop: "subseq (map snd (dpop xs i)) (map snd xs)"
  by (simp add: dpop_def AList.delete_eq subseq_map subseq_filter_left)

interpretation fc: creating_provider "fake_ops parse" "\<lambda>p. map snd (fk_volumes p)" "\<lambda>p. map snd (fk_servers p)" fake_fresh
proof unfold_locales
  fix p p' :: fake_provider and name gb ts and r :: "err + provider_volume"
  assume f: "fake_fresh p" and c: "op_create_volume (fake_ops parse) name gb ts p = (r, p')"
  have "map_of (fk_volumes p) (fk_uuid p (fk_issued p)) = None" using f by (simp add: fake_fresh_def)
  moreover have "fk_uuid p n \<noteq> fk_uuid p (fk_issued p)" if "n \<ge> fk_issued p + 1" for n
    using f that by (auto simp: fake_fresh_def dest: injD)
  ultimately show "fake_fresh p' \<and> map snd (fk_servers p') = map snd (fk_servers p) \<and>
      (case r of Inl _ \<Rightarrow> map snd (fk_volumes p') = map snd (fk_volumes p)
       | Inr v \<Rightarrow> map snd (fk_volumes p') = map snd (fk_volumes p) @ [v] \<and> pv_tags v = ts)"
    using f c by (auto simp: fake_ops_def fake_create_volume_def fake_fresh_def dset_new Let_def)
next
  fix p p' :: fake_provider and name img flavor vid ts and r' :: "err + provider_server"
  assume f: "fake_fresh p" and c: "op_create_server (fake_ops parse) name img flavor vid ts p = (r', p')"
  have "map_of (fk_servers p) (fk_uuid p (fk_issued p)) = None" using f by (simp add: fake_fresh_def)
  moreover have "fk_uuid p n \<noteq> fk_uuid p (fk_issued p)" if "n \<ge> fk_issued p + 1" for n
    using f that by (auto simp: fake_fresh_def dest: injD)
  ultimately show "fake_fresh p' \<and> map snd (fk_volumes p') = map snd (fk_volumes p) \<and>
      (case r' of Inl _ \<Rightarrow> map snd (fk_servers p') = map snd (fk_servers p)
       | Inr s \<Rightarrow> map snd (fk_servers p') = map snd (fk_servers p) @ [s] \<and> ps_tags s = ts)"
    using f c by (auto simp: fake_ops_def fake_create_server_def fake_fresh_def dset_new Let_def split: if_splits)
next
  fix p p' :: fake_provider and i and r2 :: "err + unit"
  assume f: "fake_fresh p"
  show "fake_fresh p' \<and> map snd (fk_servers p') = map snd (fk_servers p) \<and>
      subseq (map snd (fk_volumes p')) (map snd (fk_volumes p))"
    if "op_delete_volume (fake_ops parse) i p = (r2, p')"
    using f that by (auto simp: fake_ops_def fake_delete_volume_def fake_fresh_def map_of_dpop_None subseq_dpop split: if_splits)
  show "fake_fresh p' \<and> map snd (fk_volumes p') = map snd (fk_volumes p) \<and>
      subseq (map snd (fk_servers p')) (map snd (fk_servers p))"
    if "op_delete_server (fake_ops parse) i p = (r2, p')"
    using f that by (auto simp: fake_ops_def fake_delete_server_def fake_fresh_def map_of_dpop_None subseq_dpop split: if_splits)
qed (auto simp: fake_ops_def fake_list_volumes_def fake_list_servers_def fake_list_managed_resources_def)

section \<open>No duplicates\<close>


text \<open>Looking for the boot volume is idempotent and adopts nothing foreign: the volume that is found
  or created carries the Session's tags, and asking again, in any world with the same provider, returns
  the same volume and creates nothing.\<close>

theorem ensure_volume_idempotent:
  assumes ops: "creating_provider ops volumes servers fresh" and f: "fresh (w_provider w)"
    and run: "ensure_volume ops config fmt sid user env w = (Inr v, w')"
    and again: "w_provider w2 = w_provider w'" "ensure_volume ops config fmt sid user' env' w2 = (r, w3)"
  shows "tagged sid (pv_tags v) \<and> r = Inr v \<and> volumes (w_provider w3) = volumes (w_provider w')"
proof -
  have v: "fresh (w_provider w')" "tagged sid (pv_tags v)"
    "List.find (\<lambda>v. tagged sid (pv_tags v)) (volumes (w_provider w')) = Some v"
    using creating_provider.ensure_volume_spec [OF ops f run] by auto
  then have "r = Inr v \<and> w_provider w3 = w_provider w2"
    using again creating_provider.list_volumes [OF ops v(1)]
    by (auto simp: ensure_volume_def find_managed_volume_def andthen_def on_provider_def lift_def find_managed_eq ret_def)
  then show ?thesis using v(2) again(1) by simp
qed

lemma demo_fresh: "fake_fresh demo_provider"
  by (auto simp: fake_fresh_def demo_provider_def inj_def numeral_3_eq_3)

definition demo_workflow :: workflow_config where
  "demo_workflow = \<lparr>wc_size_gb = 30, wc_image_ref = ''image'', wc_flavor_ref = ''flavor''\<rparr>"


theorem ensure_volume_idempotent_witness:
  "\<exists>w'. ensure_volume (fake_ops demo_parse) demo_workflow (\<lambda>_. ''t'') ''s1'' ''u1'' ''dev'' (demo_world ''LIVE'') = (Inr demo_volume, w') \<and>
     fst (ensure_volume (fake_ops demo_parse) demo_workflow (\<lambda>_. ''t'') ''s1'' ''u1'' ''dev'' w') = Inr demo_volume"
proof -
  let ?ensure = "ensure_volume (fake_ops demo_parse) demo_workflow (\<lambda>_. ''t'') ''s1'' ''u1'' ''dev''"
  obtain r w' where run: "?ensure (demo_world ''LIVE'') = (r, w')" by fastforce
  have r: "r = Inr demo_volume"
    using run by (auto simp: ensure_volume_def find_managed_volume_def andthen_def on_provider_def fake_ops_def fake_list_volumes_def
        lift_def demo_world_def demo_provider_def demo_volume_def expected_tags_def ret_def)
  obtain r2 w3 where again: "?ensure w' = (r2, w3)" by fastforce
  have "fake_fresh (w_provider (demo_world ''LIVE''))" by (simp add: demo_world_def demo_fresh)
  from ensure_volume_idempotent [OF fc.creating_provider_axioms this run [unfolded r] refl again] run r again
  show ?thesis by auto
qed

end
