(* ===== verification/Python_Text.thy ===== *)
theory Python_Text
  imports Ingest_Store
begin

text \<open>
  The string operations of Python that the services use, on Latin-1 text: \<open>str.strip\<close>, \<open>str.split\<close> on one
  character, \<open>str.upper\<close>, \<open>int\<close> of a decimal literal (with its sign, its single underscores and the limit
  of 4300 digits), and \<open>int.__repr__\<close>.
\<close>

definition is_space :: "char \<Rightarrow> bool" where
  "is_space c = (of_char c \<in> {9::nat, 10, 11, 12, 13, 28, 29, 30, 31, 32, 133, 160})"

definition is_ascii_space :: "char \<Rightarrow> bool" where
  "is_ascii_space c = (of_char c \<in> {9::nat, 10, 11, 12, 13, 32})"

definition strip_by :: "(char \<Rightarrow> bool) \<Rightarrow> string \<Rightarrow> string" where
  "strip_by P s = rev (dropWhile P (rev (dropWhile P s)))"

definition py_strip :: "string \<Rightarrow> string" where
  "py_strip = strip_by is_space"

fun py_split :: "char \<Rightarrow> string \<Rightarrow> string list" where
  "py_split c [] = [[]]"
| "py_split c (x # xs) = (if x = c then [] # py_split c xs else
     (case py_split c xs of [] \<Rightarrow> [[x]] | p # ps \<Rightarrow> (x # p) # ps))"

definition upper_char :: "char \<Rightarrow> char" where
  "upper_char c = (if of_char c \<in> {97::nat..122} \<union> ({224..254} - {247}) then char_of (of_char c - 32 :: nat) else c)"

definition py_upper :: "string \<Rightarrow> string" where
  "py_upper = map upper_char"

definition starts_with :: "string \<Rightarrow> string \<Rightarrow> bool" where
  "starts_with p s = (take (length p) s = p)"

definition is_decimal :: "char \<Rightarrow> bool" where
  "is_decimal c = (of_char c \<in> {48::nat..57})"

definition decimal_value :: "string \<Rightarrow> nat" where
  "decimal_value = foldl (\<lambda>n c. 10 * n + (of_char c - 48)) 0"

definition MAX_STR_DIGITS :: nat where
  "MAX_STR_DIGITS = 4300"

definition parse_digits :: "string \<Rightarrow> nat option" where
  "parse_digits s = (let parts = py_split (CHR ''_'') s; digits = concat parts in
     if list_all (\<lambda>p. p \<noteq> [] \<and> list_all is_decimal p) parts \<and> length digits \<le> MAX_STR_DIGITS
     then Some (decimal_value digits) else None)"

fun parse_signed :: "string \<Rightarrow> int option" where
  "parse_signed (CHR ''-'' # s) = map_option (\<lambda>n. - int n) (parse_digits s)"
| "parse_signed (CHR ''+'' # s) = map_option int (parse_digits s)"
| "parse_signed s = map_option int (parse_digits s)"

text \<open>\<open>int\<close> of bytes, and of a string: one that is not pure ASCII has every Unicode space stripped.\<close>

definition int_of_bytes :: "string \<Rightarrow> int option" where
  "int_of_bytes s = parse_signed (strip_by is_ascii_space s)"

definition int_of_str :: "string \<Rightarrow> int option" where
  "int_of_str s = parse_signed (strip_by
     (if list_all (\<lambda>c. of_char c < (128::nat)) s then is_ascii_space else is_space) s)"

fun nat_digits :: "nat \<Rightarrow> string" where
  "nat_digits n = (if n < 10 then [char_of (48 + n)] else nat_digits (n div 10) @ [char_of (48 + n mod 10)])"

declare nat_digits.simps [simp del]

definition int_repr :: "int \<Rightarrow> string option" where
  "int_repr i = (let ds = nat_digits (nat \<bar>i\<bar>) in
     if length ds \<le> MAX_STR_DIGITS then Some ((if i < 0 then ''-'' else []) @ ds) else None)"

section \<open>Evaluation\<close>

text \<open>Evaluation compares code points as binary integers.\<close>

lemma code_point_int: "(of_char c :: int) = int (of_char c)"
  by (simp only: of_nat_of_char)

lemma char_of_add_int: "char_of (int n + numeral k) = (char_of (n + numeral k) :: char)"
  by (metis of_nat_add of_nat_numeral char_of_nat)

lemma lower_char_code [code]:
  "lower_char c = (let n = of_char c :: int in
     if 65 \<le> n \<and> n \<le> 90 \<or> 192 \<le> n \<and> n \<le> 222 \<and> n \<noteq> 215 then char_of (n + 32) else c)"
  unfolding lower_char_def Let_def code_point_int char_of_add_int by (rule if_cong) (presburger | simp)+

lemma upper_char_code [code]:
  "upper_char c = (let n = of_char c :: int in
     if 97 \<le> n \<and> n \<le> 122 \<or> 224 \<le> n \<and> n \<le> 254 \<and> n \<noteq> 247 then char_of (n - 32) else c)"
proof -
  have "char_of (int (of_char c) - 32) = (char_of (of_char c - 32 :: nat) :: char)" if "32 \<le> (of_char c :: nat)"
    using that by (metis char_of_nat of_nat_diff of_nat_numeral)
  then show ?thesis unfolding upper_char_def Let_def code_point_int by simp
qed

lemma is_space_code [code]:
  "is_space c = (let n = of_char c :: int in 9 \<le> n \<and> n \<le> 13 \<or> 28 \<le> n \<and> n \<le> 32 \<or> n = 133 \<or> n = 160)"
  unfolding is_space_def Let_def code_point_int by simp presburger

lemma is_decimal_code [code]: "is_decimal c = (let n = of_char c :: int in 48 \<le> n \<and> n \<le> 57)"
  unfolding is_decimal_def Let_def code_point_int by simp

lemma is_ascii_space_code [code]:
  "is_ascii_space c = (let n = of_char c :: int in 9 \<le> n \<and> n \<le> 13 \<or> n = 32)"
  unfolding is_ascii_space_def Let_def code_point_int by simp presburger

section \<open>Printing and reading back\<close>

lemma of_char_digit [simp]: "d < 10 \<Longrightarrow> of_char (char_of (48 + d) :: char) = (48 + d :: nat)"
  by (simp add: of_char_of)

lemma is_decimal_digit [simp]: "d < 10 \<Longrightarrow> is_decimal (char_of (48 + d :: nat))"
  by (simp add: is_decimal_def of_char_of)

lemma nat_digits_decimal: "list_all is_decimal (nat_digits n)"
  by (induction n rule: nat_digits.induct) (subst nat_digits.simps, simp)

lemma nat_digits_nonempty [simp]: "nat_digits n \<noteq> []"
  by (subst nat_digits.simps) simp

lemma decimal_value_snoc: "decimal_value (s @ [c]) = 10 * decimal_value s + (of_char c - 48)"
  by (simp add: decimal_value_def)

lemma decimal_value_digits [simp]: "decimal_value (nat_digits n) = n"
proof (induction n rule: nat_digits.induct)
  case (1 n)
  show ?case
    by (subst nat_digits.simps) (use 1 in \<open>simp add: decimal_value_snoc, simp add: decimal_value_def\<close>)
qed

lemma py_split_absent: "c \<notin> set s \<Longrightarrow> py_split c s = [s]"
  by (induction s) auto

lemma decimal_not_underscore: "list_all is_decimal s \<Longrightarrow> CHR ''_'' \<notin> set s"
  by (auto simp: list_all_iff is_decimal_def)

lemma parse_digits_decimal:
  assumes "list_all is_decimal s" "s \<noteq> []" "length s \<le> MAX_STR_DIGITS"
  shows "parse_digits s = Some (decimal_value s)"
  using assms py_split_absent [OF decimal_not_underscore [OF assms(1)]] by (simp add: parse_digits_def)

lemma parse_signed_decimal:
  assumes "list_all is_decimal s"
  shows "parse_signed s = map_option int (parse_digits s)"
  using assms by (cases s rule: parse_signed.cases) (auto simp: is_decimal_def)

lemma strip_by_outside:
  assumes "s \<noteq> []" "\<not> P (hd s)" "\<not> P (last s)"
  shows "strip_by P s = s"
proof -
  have "dropWhile P s = s" using assms by (cases s) auto
  moreover have "dropWhile P (rev s) = rev s" using assms by (cases s rule: rev_cases) auto
  ultimately show ?thesis by (simp add: strip_by_def)
qed

lemma decimal_not_space: "is_decimal c \<Longrightarrow> \<not> is_space c" "is_decimal c \<Longrightarrow> \<not> is_ascii_space c"
  by (auto simp: is_decimal_def is_space_def is_ascii_space_def)

lemma int_repr_roundtrip: "int_repr i = Some s \<Longrightarrow> int_of_str s = Some i"
proof -
  assume a: "int_repr i = Some s"
  let ?ds = "nat_digits (nat \<bar>i\<bar>)"
  have d: "list_all is_decimal ?ds" by (rule nat_digits_decimal)
  have l: "length ?ds \<le> MAX_STR_DIGITS" and s: "s = (if i < 0 then ''-'' else []) @ ?ds"
    using a by (auto simp: int_repr_def Let_def split: if_splits)
  have last: "is_decimal (last ?ds)" and first: "is_decimal (hd ?ds)"
    using d by (auto simp: list_all_iff)
  have parse: "parse_signed ?ds = Some \<bar>i\<bar>" "parse_digits ?ds = Some (nat \<bar>i\<bar>)"
    using d l by (simp_all add: parse_signed_decimal parse_digits_decimal)
  have "s \<noteq> []" "\<not> is_space (hd s)" "\<not> is_space (last s)" "\<not> is_ascii_space (hd s)" "\<not> is_ascii_space (last s)"
    using last first decimal_not_space by (auto simp: s is_space_def is_ascii_space_def)
  then have "strip_by is_space s = s" "strip_by is_ascii_space s = s"
    by (simp_all add: strip_by_outside)
  then have "int_of_str s = parse_signed s" by (simp add: int_of_str_def)
  then show ?thesis using parse by (auto simp: s)
qed

end
