(* ===== verification/Auth_Rate_Limit.thy ===== *)
theory Auth_Rate_Limit
  imports Python_Text
begin

text \<open>
  Rate limiting of authentication attempts (\<open>apps/control-api/auth_rate_limit.py\<close>): two fixed windows
  per address and account, in shards of a bounded table.

  A shard file is the JSON value it parses to, None when it is empty, oversized or no JSON.  Opening and
  checking the directory, the secret and the shard is one argument, true when the boundary is safe; the
  HMAC under the shared secret is a parameter.
\<close>

section \<open>Configuration\<close>

definition MAX_ATTEMPT_LIMIT :: int where
  "MAX_ATTEMPT_LIMIT = 10000"

definition MAX_SHARD_COUNT :: int where
  "MAX_SHARD_COUNT = 256"

definition MAX_TRACKED_KEYS_PER_SHARD_LIMIT :: int where
  "MAX_TRACKED_KEYS_PER_SHARD_LIMIT = 65536"

definition ATTEMPT_KEY_CHARS :: nat where
  "ATTEMPT_KEY_CHARS = 32"

definition WINDOW_COUNT :: nat where
  "WINDOW_COUNT = 2"

definition validated_bounded_int :: "json \<Rightarrow> int \<Rightarrow> int \<Rightarrow> err + int" where
  "validated_bounded_int value minimum maximum =
     (case as_int value of
        None \<Rightarrow> Inl ValueError
      | Some n \<Rightarrow> if n < minimum \<or> maximum < n then Inl ValueError else Inr n)"

definition validated_limit :: "json \<Rightarrow> err + int" where
  "validated_limit value = validated_bounded_int value 1 MAX_ATTEMPT_LIMIT"

text \<open>\<open>float(value)\<close> of a huge int raises OverflowError here, which nothing catches.\<close>

definition validated_window :: "json \<Rightarrow> err + rat" where
  "validated_window value =
     rbind (case value of
              JInt n \<Rightarrow> from_some OverflowError (float_of_int n)
            | JFloat f \<Rightarrow> Inr f
            | _ \<Rightarrow> Inl ValueError) (\<lambda>window.
     case window of
       Fin w \<Rightarrow> if w < 1 \<or> 86400 < w then Inl ValueError else Inr w
     | _ \<Rightarrow> Inl ValueError)"

record rate_config =
  rl_burst_limit :: nat
  rl_burst_window_seconds :: rat
  rl_sustained_limit :: nat
  rl_sustained_window_seconds :: rat
  rl_shard_count :: nat
  rl_max_tracked_keys_per_shard :: nat

definition make_rate_config :: "json \<Rightarrow> json \<Rightarrow> json \<Rightarrow> json \<Rightarrow> json \<Rightarrow> json \<Rightarrow> bool \<Rightarrow> err + rate_config" where
  "make_rate_config burst burst_window sustained sustained_window shards tracked absolute_directory =
     rbind (validated_limit burst) (\<lambda>bl.
     rbind (validated_limit sustained) (\<lambda>sl.
     rbind (validated_window burst_window) (\<lambda>bw.
     rbind (validated_window sustained_window) (\<lambda>sw.
     rbind (validated_bounded_int shards 1 MAX_SHARD_COUNT) (\<lambda>sc.
     rbind (validated_bounded_int tracked 1 MAX_TRACKED_KEYS_PER_SHARD_LIMIT) (\<lambda>mt.
     rbind (require ValueError absolute_directory) (\<lambda>_.
     Inr \<lparr>rl_burst_limit = nat bl, rl_burst_window_seconds = bw, rl_sustained_limit = nat sl,
          rl_sustained_window_seconds = sw, rl_shard_count = nat sc, rl_max_tracked_keys_per_shard = nat mt\<rparr>)))))))"

definition rate_windows :: "rate_config \<Rightarrow> (nat \<times> rat) list" where
  "rate_windows config =
     [(rl_burst_limit config, rl_burst_window_seconds config),
      (rl_sustained_limit config, rl_sustained_window_seconds config)]"

section \<open>The stored table\<close>

record rate_window =
  rw_reset_at :: rat
  rw_count :: nat

type_synonym rate_table = "(string \<times> rate_window list) list"

definition validated_window_record :: "json \<Rightarrow> rate_window option" where
  "validated_window_record record =
     Option.bind (as_obj record) (\<lambda>d.
     case finite_argument (dget d ''reset_at'') of
       Inl _ \<Rightarrow> None
     | Inr reset_at \<Rightarrow>
         if reset_at < 0 then None else
         Option.bind (as_int (dget d ''count'')) (\<lambda>count.
         if count < 0 then None else Some \<lparr>rw_reset_at = reset_at, rw_count = nat count\<rparr>))"

definition validated_key :: "string \<times> json \<Rightarrow> (string \<times> rate_window list) option" where
  "validated_key p =
     (if fst p = [] \<or> ATTEMPT_KEY_CHARS < length (fst p) then None else
      Option.bind (as_list (snd p)) (\<lambda>windows.
      if length windows \<noteq> WINDOW_COUNT then None else
      map_option (Pair (fst p)) (those (map validated_window_record windows))))"

text \<open>Anything invalid empties the whole shard.\<close>

definition validated_state :: "json \<Rightarrow> rate_table" where
  "validated_state payload =
     (case Option.bind (as_obj payload) (\<lambda>d. Option.bind (as_obj (dget d ''keys'')) (\<lambda>keys. those (map validated_key keys))) of
        None \<Rightarrow> []
      | Some table \<Rightarrow> table)"

definition read_shard :: "json option \<Rightarrow> rate_table" where
  "read_shard payload = (case payload of None \<Rightarrow> [] | Some v \<Rightarrow> validated_state v)"

definition window_record :: "rate_window \<Rightarrow> json" where
  "window_record w = JObj [(''reset_at'', JFloat (mk_float (rw_reset_at w))), (''count'', JInt (int (rw_count w)))]"

text \<open>A reset time that overflowed to infinity has no JSON text.\<close>

definition write_shard :: "rate_table \<Rightarrow> err + json option" where
  "write_shard keys =
     (if list_all (\<lambda>p. list_all (\<lambda>w. isfinite (mk_float (rw_reset_at w))) (snd p)) keys
      then Inr (Some (JObj [(''keys'', JObj (map (\<lambda>p. (fst p, JList (map window_record (snd p)))) keys))]))
      else Inl AuthRateLimitUnavailable)"

section \<open>One attempt\<close>

definition purge_expired :: "rat \<Rightarrow> rate_table \<Rightarrow> rate_table" where
  "purge_expired now = filter (\<lambda>p. \<not> list_all (\<lambda>w. rw_reset_at w \<le> now) (snd p))"

definition last_reset :: "rate_window list \<Rightarrow> rat" where
  "last_reset ws = Max (set (map rw_reset_at ws))"

definition retry_seconds :: "rat \<Rightarrow> rat \<Rightarrow> int" where
  "retry_seconds release now = max 1 \<lceil>release - now\<rceil>"

definition earliest_release :: "rate_table \<Rightarrow> rat \<Rightarrow> int" where
  "earliest_release keys now = retry_seconds (Min (set (map (\<lambda>p. last_reset (snd p)) keys))) now"

text \<open>An expired window starts again at the attempt.\<close>

definition roll :: "rat \<Rightarrow> nat \<times> rat \<Rightarrow> rate_window \<Rightarrow> rate_window" where
  "roll now spec w = (if rw_reset_at w \<le> now then \<lparr>rw_reset_at = now + snd spec, rw_count = 0\<rparr> else w)"

definition blocked_until :: "(nat \<times> rat) list \<Rightarrow> rate_window list \<Rightarrow> rat list" where
  "blocked_until specs ws = map (\<lambda>p. rw_reset_at (snd p)) (filter (\<lambda>p. fst (fst p) \<le> rw_count (snd p)) (zip specs ws))"

definition charge :: "rate_window \<Rightarrow> rate_window" where
  "charge w = w\<lparr>rw_count := rw_count w + 1\<rparr>"

text \<open>\<open>_register_attempt\<close>: whether the attempt is admitted, the delay if not, whether the table changed, and the table.\<close>

definition register_attempt ::
  "rate_config \<Rightarrow> string \<Rightarrow> rat \<Rightarrow> rate_table \<Rightarrow> bool \<times> int \<times> bool \<times> rate_table" where
  "register_attempt config key now keys0 =
     (let keys = purge_expired now keys0;
          purged = (length keys \<noteq> length keys0)
      in
      if map_of keys key = None \<and> rl_max_tracked_keys_per_shard config \<le> length keys
      then (False, earliest_release keys now, purged, keys)
      else
        let specs = rate_windows config;
            ws0 = (case map_of keys key of
                     None \<Rightarrow> replicate WINDOW_COUNT \<lparr>rw_reset_at = now, rw_count = 0\<rparr>
                   | Some ws \<Rightarrow> ws);
            ws = map2 (roll now) specs ws0;
            changed = (purged \<or> map_of keys key = None \<or> list_ex (\<lambda>w. rw_reset_at w \<le> now) ws0);
            blocked = blocked_until specs ws
        in
        if blocked \<noteq> [] then (False, retry_seconds (Max (set blocked)) now, changed, dset keys key ws)
        else (True, 0, True, dset keys key (map charge ws)))"

section \<open>Enforcement\<close>

definition normalize_email :: "json \<Rightarrow> string" where
  "normalize_email email = (case as_str email of None \<Rightarrow> [] | Some s \<Rightarrow> py_lower (py_strip s))"

definition attempt_key :: "(string \<Rightarrow> string) \<Rightarrow> string option \<Rightarrow> json \<Rightarrow> string" where
  "attempt_key hmac address email =
     take ATTEMPT_KEY_CHARS
       (hmac ((case address of None \<Rightarrow> ''-'' | Some a \<Rightarrow> if a = [] then ''-'' else a) @ [CHR 0x00] @ normalize_email email))"

definition hex_value :: "char \<Rightarrow> nat" where
  "hex_value c = (let n = of_char c in if n < 58 then n - 48 else n - 87)"

text \<open>The number of the shard file.\<close>

definition shard_index :: "string \<Rightarrow> nat \<Rightarrow> nat" where
  "shard_index key shard_count = foldl (\<lambda>a c. 16 * a + hex_value c) 0 (take 8 key) mod shard_count"

definition rate_now :: "json option \<Rightarrow> pyfloat \<Rightarrow> err + rat" where
  "rate_now now clock =
     (case runtime_timestamp now clock of Inl _ \<Rightarrow> Inl AuthRateLimitUnavailable | Inr t \<Rightarrow> Inr t)"

type_synonym shards = "nat \<Rightarrow> json option"

definition enforce_rate_limit ::
  "(string \<Rightarrow> string) \<Rightarrow> rate_config \<Rightarrow> bool \<Rightarrow> string option \<Rightarrow> json \<Rightarrow> json option \<Rightarrow> pyfloat \<Rightarrow> shards \<Rightarrow> (err + unit) \<times> shards" where
  "enforce_rate_limit hmac cfg boundary_ok client_address email now clock files =
     (case rate_now now clock of
        Inl e \<Rightarrow> (Inl e, files)
      | Inr current \<Rightarrow>
          if \<not> boundary_ok then (Inl AuthRateLimitUnavailable, files) else
          let key = attempt_key hmac client_address email;
              i = shard_index key (rl_shard_count cfg)
          in
          (case register_attempt cfg key current (read_shard (files i)) of
             (allowed, retry_after, changed, keys) \<Rightarrow>
               (case (if changed then write_shard keys else Inr (files i)) of
                  Inl e \<Rightarrow> (Inl e, files)
                | Inr payload \<Rightarrow>
                    (if allowed then Inr () else Inl (AuthRateLimitExceeded retry_after), files(i := payload)))))"

section \<open>The table stays bounded\<close>

definition rate_config_ok :: "rate_config \<Rightarrow> bool" where
  "rate_config_ok config \<longleftrightarrow>
     1 \<le> rl_burst_limit config \<and> 1 \<le> rl_sustained_limit config \<and> 1 \<le> rl_max_tracked_keys_per_shard config \<and>
     1 \<le> rl_burst_window_seconds config \<and> 1 \<le> rl_sustained_window_seconds config \<and> 1 \<le> rl_shard_count config"

lemma validated_window_bounds: "validated_window v = Inr w \<Longrightarrow> 1 \<le> w \<and> w \<le> 86400"
proof -
  assume v: "validated_window v = Inr w"
  then obtain f where "(case f of Fin x \<Rightarrow> if x < 1 \<or> 86400 < x then Inl ValueError else Inr x | _ \<Rightarrow> Inl ValueError) = Inr w"
    unfolding validated_window_def rbind_eq_Inr by blast
  then show ?thesis by (cases f) (auto split: if_splits)
qed

lemma validated_bounded_int_bounds: "validated_bounded_int v lo hi = Inr n \<Longrightarrow> lo \<le> n \<and> n \<le> hi"
  by (auto simp: validated_bounded_int_def split: option.splits if_splits)

lemma make_rate_config_ok: "make_rate_config a b c d e f g = Inr config \<Longrightarrow> rate_config_ok config"
  unfolding make_rate_config_def validated_limit_def
  by (auto simp: rate_config_ok_def rbind_eq_Inr dest!: validated_window_bounds validated_bounded_int_bounds)

definition within_limits :: "rate_config \<Rightarrow> rate_window list \<Rightarrow> bool" where
  "within_limits config ws \<longleftrightarrow> list_all2 (\<lambda>spec w. rw_count w \<le> fst spec) (rate_windows config) ws"

definition rate_ok :: "rate_config \<Rightarrow> rate_table \<Rightarrow> bool" where
  "rate_ok config keys \<longleftrightarrow>
     distinct (map fst keys) \<and> length keys \<le> rl_max_tracked_keys_per_shard config \<and>
     (\<forall>p \<in> set keys. within_limits config (snd p))"

lemma within_limits_iff:
  "within_limits config ws \<longleftrightarrow>
     (\<exists>a b. ws = [a, b] \<and> rw_count a \<le> rl_burst_limit config \<and> rw_count b \<le> rl_sustained_limit config)"
  by (auto simp: within_limits_def rate_windows_def list_all2_Cons1)

text \<open>The two windows an attempt is charged to, before the charge.\<close>

definition current_windows :: "rate_config \<Rightarrow> string \<Rightarrow> rat \<Rightarrow> rate_table \<Rightarrow> rate_window list" where
  "current_windows config key now keys =
     map2 (roll now) (rate_windows config)
       (case map_of (purge_expired now keys) key of
          None \<Rightarrow> replicate WINDOW_COUNT \<lparr>rw_reset_at = now, rw_count = 0\<rparr>
        | Some ws \<Rightarrow> ws)"

definition saturated :: "rate_config \<Rightarrow> string \<Rightarrow> rat \<Rightarrow> rate_table \<Rightarrow> bool" where
  "saturated config key now keys \<longleftrightarrow>
     map_of (purge_expired now keys) key = None \<and>
     rl_max_tracked_keys_per_shard config \<le> length (purge_expired now keys)"

lemma register_attempt_cases:
  "register_attempt config key now keys =
     (if saturated config key now keys
      then (False, earliest_release (purge_expired now keys) now, length (purge_expired now keys) \<noteq> length keys, purge_expired now keys)
      else
        let ws = current_windows config key now keys;
            blocked = blocked_until (rate_windows config) ws;
            changed = (length (purge_expired now keys) \<noteq> length keys \<or> map_of (purge_expired now keys) key = None \<or>
              list_ex (\<lambda>w. rw_reset_at w \<le> now)
                (case map_of (purge_expired now keys) key of
                   None \<Rightarrow> replicate WINDOW_COUNT \<lparr>rw_reset_at = now, rw_count = 0\<rparr> | Some ws \<Rightarrow> ws))
        in
        if blocked \<noteq> []
        then (False, retry_seconds (Max (set blocked)) now, changed, dset (purge_expired now keys) key ws)
        else (True, 0, True, dset (purge_expired now keys) key (map charge ws)))"
  by (simp add: register_attempt_def saturated_def current_windows_def Let_def)

lemma purge_ok: "rate_ok config keys \<Longrightarrow> rate_ok config (purge_expired now keys)"
  by (auto simp: rate_ok_def purge_expired_def distinct_map_filter intro: le_trans [OF length_filter_le])

lemma map_of_ok: "rate_ok config keys \<Longrightarrow> map_of keys k = Some ws \<Longrightarrow> within_limits config ws"
  by (auto simp: rate_ok_def dest: map_of_SomeD)

lemma map_of_purge:
  assumes "distinct (map fst keys)"
  shows "map_of (purge_expired now keys) k =
    (case map_of keys k of None \<Rightarrow> None | Some ws \<Rightarrow> if list_all (\<lambda>w. rw_reset_at w \<le> now) ws then None else Some ws)"
  using assms by (induction keys) (auto simp: purge_expired_def split: option.splits dest: map_of_SomeD intro: rev_image_eqI)

lemma current_within:
  assumes "rate_ok config keys"
  shows "within_limits config (current_windows config key now keys)"
proof (cases "map_of (purge_expired now keys) key")
  case None
  then show ?thesis
    by (auto simp: current_windows_def within_limits_def rate_windows_def roll_def WINDOW_COUNT_def numeral_2_eq_2)
next
  case (Some ws)
  then have "within_limits config ws" using map_of_ok [OF purge_ok [OF assms]] by blast
  then show ?thesis
    using Some by (auto simp: current_windows_def within_limits_iff rate_windows_def roll_def)
qed

lemma blocked_empty_charge:
  assumes "within_limits config ws" and "blocked_until (rate_windows config) ws = []"
  shows "within_limits config (map charge ws)"
  using assms by (auto simp: within_limits_iff blocked_until_def rate_windows_def charge_def filter_empty_conv Suc_le_eq)

lemma length_dset_in: "k \<in> fst ` set d \<Longrightarrow> length (dset d k v) = length d"
  by (induction d) (auto simp: dset_def split: if_splits)

lemma rate_ok_dset:
  assumes ok: "rate_ok config keys" and ws: "within_limits config ws"
    and room: "map_of keys key = None \<Longrightarrow> length keys < rl_max_tracked_keys_per_shard config"
  shows "rate_ok config (dset keys key ws)"
proof -
  have "length (dset keys key ws) \<le> rl_max_tracked_keys_per_shard config"
  proof (cases "map_of keys key")
    case None
    then show ?thesis using room by (simp add: dset_new)
  next
    case (Some v)
    then have "key \<in> fst ` set keys" by (force dest: map_of_SomeD)
    then have "length (dset keys key ws) = length keys" by (rule length_dset_in)
    then show ?thesis using ok by (simp add: rate_ok_def)
  qed
  then show ?thesis
    using ok ws set_dset_subset [of keys key ws] by (auto simp: rate_ok_def)
qed

lemma register_ok:
  assumes "rate_ok config keys" and "register_attempt config key now keys = (allowed, retry, changed, keys')"
  shows "rate_ok config keys'"
proof -
  note p = purge_ok [OF assms(1), of now]
  note w = current_within [OF assms(1), of key now]
  show ?thesis
    using assms(2) p w blocked_empty_charge [OF w] unfolding register_attempt_cases Let_def
    by (auto simp: saturated_def intro!: rate_ok_dset split: if_splits)
qed

section \<open>How many attempts are admitted\<close>

text \<open>A run of attempts against one shard, and the number of those with a given key that are admitted.\<close>

fun admitted :: "rate_config \<Rightarrow> string \<Rightarrow> (string \<times> rat) list \<Rightarrow> rate_table \<Rightarrow> nat" where
  "admitted config k [] keys = 0"
| "admitted config k ((key, now) # attempts) keys =
     (case register_attempt config key now keys of
        (allowed, _, _, keys') \<Rightarrow> (if allowed \<and> key = k then 1 else 0) + admitted config k attempts keys')"

text \<open>
  How many attempts a key may still have admitted before time \<open>h\<close>, when every attempt before \<open>h\<close> that
  opens window \<open>i\<close> again lets it last past \<open>h\<close>.
\<close>

definition potential :: "rate_config \<Rightarrow> string \<Rightarrow> nat \<Rightarrow> rat \<Rightarrow> rate_table \<Rightarrow> nat" where
  "potential config k i h keys =
     (let limit = fst (rate_windows config ! i) in
      case map_of keys k of
        None \<Rightarrow> limit
      | Some ws \<Rightarrow> (limit - rw_count (ws ! i)) + (if h \<le> rw_reset_at (ws ! i) then 0 else limit))"

lemma two: "i < 2 \<Longrightarrow> i = 0 \<or> i = (1::nat)"
  by auto

lemma potential_purge:
  assumes "rate_ok config keys" and "i < 2" and "now < h"
  shows "potential config k i h (purge_expired now keys) \<le> potential config k i h keys"
proof -
  have d: "distinct (map fst keys)" using assms(1) by (simp add: rate_ok_def)
  show ?thesis
  proof (cases "map_of keys k")
    case None
    then show ?thesis by (simp add: potential_def map_of_purge [OF d])
  next
    case (Some ws)
    then have "within_limits config ws" using map_of_ok [OF assms(1)] by blast
    then show ?thesis
      using Some assms(2,3) two [OF assms(2)]
      by (auto simp: potential_def map_of_purge [OF d] within_limits_iff Let_def)
  qed
qed

lemma current_windows_potential:
  assumes "rate_ok config keys" and "i < 2" and "h \<le> now + snd (rate_windows config ! i)" and "now < h"
  shows "potential config k i h (dset (purge_expired now keys) k (current_windows config k now keys))
    \<le> potential config k i h (purge_expired now keys)"
proof (cases "map_of (purge_expired now keys) k")
  case None
  then show ?thesis
    using assms(2,3) two [OF assms(2)]
    by (auto simp: potential_def current_windows_def rate_windows_def roll_def WINDOW_COUNT_def numeral_2_eq_2)
next
  case (Some ws)
  then have "within_limits config ws" using map_of_ok [OF purge_ok [OF assms(1)]] by blast
  then show ?thesis
    using Some assms(2-4) two [OF assms(2)]
    by (auto simp: potential_def current_windows_def rate_windows_def roll_def within_limits_iff Let_def)
qed

lemma potential_charge:
  assumes "within_limits config ws" and "blocked_until (rate_windows config) ws = []" and "i < 2"
  shows "Suc (potential config k i h (dset keys k (map charge ws))) \<le> potential config k i h (dset keys k ws)"
proof -
  obtain a b where ws: "ws = [a, b]" "rw_count a < rl_burst_limit config" "rw_count b < rl_sustained_limit config"
    using assms(1,2) by (auto simp: within_limits_iff blocked_until_def rate_windows_def filter_empty_conv not_le)
  then show ?thesis
    using two [OF assms(3)] by (auto simp: potential_def rate_windows_def charge_def Let_def)
qed

lemma potential_other:
  "key \<noteq> k \<Longrightarrow> potential config k i h (dset keys key ws) = potential config k i h keys"
  by (simp add: potential_def)

lemma potential_step:
  assumes ok: "rate_ok config keys" and i: "i < 2" and h: "now < h" "h \<le> now + snd (rate_windows config ! i)"
    and step: "register_attempt config key now keys = (allowed, retry, changed, keys')"
  shows "(if allowed \<and> key = k then 1 else 0) + potential config k i h keys' \<le> potential config k i h keys"
proof -
  note purge = potential_purge [OF ok i h(1), of k]
  note cur = current_windows_potential [OF ok i h(2,1), of k]
  note within = current_within [OF ok, of key now]
  show ?thesis
  proof (cases "key = k")
    case False
    then show ?thesis using step purge unfolding register_attempt_cases Let_def
      by (auto simp: potential_other split: if_splits)
  next
    case True
    then show ?thesis
      using step purge cur potential_charge [OF within _ i, of k h "purge_expired now keys"]
      unfolding register_attempt_cases Let_def
      by (auto split: if_splits)
  qed
qed

lemma admitted_potential:
  assumes "rate_ok config keys" and "i < 2" and "\<forall>a \<in> set attempts. snd a < h \<and> h \<le> snd a + snd (rate_windows config ! i)"
  shows "admitted config k attempts keys \<le> potential config k i h keys"
  using assms
proof (induction config k attempts keys rule: admitted.induct)
  case (2 config k key now attempts keys)
  obtain allowed retry changed keys' where step: "register_attempt config key now keys = (allowed, retry, changed, keys')"
    by (cases "register_attempt config key now keys") auto
  have "admitted config k attempts keys' \<le> potential config k i h keys'"
    using 2 step register_ok [OF 2(2) step] by auto
  moreover have "(if allowed \<and> key = k then 1 else 0) + potential config k i h keys' \<le> potential config k i h keys"
    using 2(3,4) by (intro potential_step [OF 2(2) 2(3) _ _ step]) auto
  ultimately show ?case using step by auto
qed simp


section \<open>A denied caller recovers\<close>

lemma last_reset_le: "ws \<noteq> [] \<Longrightarrow> last_reset ws \<le> now \<longleftrightarrow> list_all (\<lambda>w. rw_reset_at w \<le> now) ws"
  by (auto simp: last_reset_def list_all_iff)

lemma retry_seconds_ge: "release \<le> now + of_int (retry_seconds release now)"
proof -
  have "release - now \<le> of_int \<lceil>release - now\<rceil>" by (rule le_of_int_ceiling)
  moreover have "of_int \<lceil>release - now\<rceil> \<le> (of_int (retry_seconds release now) :: rat)" by (simp add: retry_seconds_def)
  ultimately show ?thesis by linarith
qed

lemma not_saturated_allowed:
  assumes "\<not> saturated config key now keys" and "blocked_until (rate_windows config) (current_windows config key now keys) = []"
  shows "fst (register_attempt config key now keys)"
  using assms by (simp add: register_attempt_cases Let_def)

lemma fresh_not_blocked:
  assumes "rate_config_ok config" and "map_of (purge_expired now keys) key = None"
  shows "blocked_until (rate_windows config) (current_windows config key now keys) = []"
  using assms
  by (auto simp: blocked_until_def current_windows_def rate_windows_def roll_def WINDOW_COUNT_def numeral_2_eq_2 rate_config_ok_def)

text \<open>A saturated table has room again once its earliest release has passed.\<close>

lemma saturated_recovers:
  assumes c: "rate_config_ok config" and ok: "rate_ok config keys" and sat: "saturated config key now keys"
    and later: "now + of_int (earliest_release (purge_expired now keys) now) \<le> now'"
  shows "fst (register_attempt config key now' (purge_expired now keys))"
proof -
  define ks where "ks = purge_expired now keys"
  have ks: "rate_ok config ks" "map_of ks key = None" "rl_max_tracked_keys_per_shard config \<le> length ks"
    using sat purge_ok [OF ok] by (auto simp: ks_def saturated_def)
  have ne: "ks \<noteq> []" using ks(3) c by (auto simp: rate_config_ok_def)
  define m where "m = Min (set (map (\<lambda>p. last_reset (snd p)) ks))"
  have "m \<in> set (map (\<lambda>p. last_reset (snd p)) ks)" unfolding m_def using ne by (intro Min_in) auto
  then obtain p where p: "p \<in> set ks" "m = last_reset (snd p)" by auto
  have "m \<le> now'"
    using retry_seconds_ge [of m now] later unfolding earliest_release_def ks_def [symmetric] m_def [symmetric] by (rule order_trans)
  moreover have "snd p \<noteq> []" using ks(1) p(1) by (auto simp: rate_ok_def within_limits_iff)
  ultimately have "list_all (\<lambda>w. rw_reset_at w \<le> now') (snd p)" using p(2) last_reset_le by auto
  then have "length (purge_expired now' ks) < length ks"
    using p(1) unfolding purge_expired_def by (intro length_filter_less) auto
  moreover have "length ks \<le> rl_max_tracked_keys_per_shard config" using ks(1) by (simp add: rate_ok_def)
  ultimately have "\<not> saturated config key now' ks" by (auto simp: saturated_def)
  moreover have "map_of (purge_expired now' ks) key = None"
    using ks(1,2) by (simp add: map_of_purge rate_ok_def)
  ultimately show ?thesis
    using not_saturated_allowed fresh_not_blocked [OF c] unfolding ks_def by blast
qed

lemma blocked_two:
  "blocked_until (rate_windows config) [a, b] =
     (if rl_burst_limit config \<le> rw_count a then [rw_reset_at a] else []) @
     (if rl_sustained_limit config \<le> rw_count b then [rw_reset_at b] else [])"
  by (simp add: blocked_until_def rate_windows_def)

lemma unblocked_later:
  assumes c: "rate_config_ok config" and w: "within_limits config ws"
    and later: "\<forall>b \<in> set (blocked_until (rate_windows config) ws). b \<le> now'"
  shows "blocked_until (rate_windows config) (map2 (roll now') (rate_windows config) ws) = []"
proof -
  obtain a b where ws: "ws = [a, b]" using w by (auto simp: within_limits_iff)
  then have "map2 (roll now') (rate_windows config) ws =
      [roll now' (rl_burst_limit config, rl_burst_window_seconds config) a,
       roll now' (rl_sustained_limit config, rl_sustained_window_seconds config) b]"
    by (simp add: rate_windows_def)
  then show ?thesis using c later ws by (auto simp: blocked_two roll_def rate_config_ok_def split: if_splits)
qed

lemma blocked_recovers:
  assumes c: "rate_config_ok config" and ok: "rate_ok config keys" and ns: "\<not> saturated config key now keys"
    and ws: "ws = current_windows config key now keys" "blocked_until (rate_windows config) ws \<noteq> []"
    and later: "now + of_int (retry_seconds (Max (set (blocked_until (rate_windows config) ws))) now) \<le> now'"
  shows "fst (register_attempt config key now' (dset (purge_expired now keys) key ws))"
proof -
  define ks where "ks = dset (purge_expired now keys) key ws"
  have w: "within_limits config ws" using current_within [OF ok] ws(1) by simp
  have ks: "rate_ok config ks" "map_of ks key = Some ws"
    unfolding ks_def using purge_ok [OF ok] w ns by (auto intro!: rate_ok_dset simp: saturated_def)
  then have d: "distinct (map fst ks)" and size: "length ks \<le> rl_max_tracked_keys_per_shard config" by (auto simp: rate_ok_def)
  have "Max (set (blocked_until (rate_windows config) ws)) \<le> now'"
    using retry_seconds_ge later by (rule order_trans)
  then have unblocked: "blocked_until (rate_windows config) (map2 (roll now') (rate_windows config) ws) = []"
    using ws(2) by (intro unblocked_later [OF c w]) auto
  show ?thesis unfolding ks_def [symmetric]
  proof (cases "map_of (purge_expired now' ks) key")
    case None
    then have "list_all (\<lambda>w. rw_reset_at w \<le> now') ws" using ks(2) by (simp add: map_of_purge [OF d] split: if_splits)
    then have "length (purge_expired now' ks) < length ks"
      using ks(2) unfolding purge_expired_def by (intro length_filter_less [of "(key, ws)"]) (auto dest: map_of_SomeD)
    then have "\<not> saturated config key now' ks" using size by (auto simp: saturated_def)
    then show "fst (register_attempt config key now' ks)"
      using not_saturated_allowed fresh_not_blocked [OF c None] by blast
  next
    case (Some v)
    then have "v = ws" using ks(2) by (simp add: map_of_purge [OF d] split: if_splits)
    then show "fst (register_attempt config key now' ks)"
      using Some unblocked by (intro not_saturated_allowed) (simp_all add: saturated_def current_windows_def)
  qed
qed

text \<open>No lockout is permanent: a denied attempt reports a delay of at least one second, and the same
  key, asking again once that delay has passed and nobody charged the shard in between, is admitted; this
  covers exhausted windows and a full table alike.\<close>

theorem denied_attempt_recovers:
  assumes "rate_config_ok config" and "rate_ok config keys"
    and "register_attempt config key now keys = (False, retry, changed, keys')"
    and "now + of_int retry \<le> now'"
  shows "1 \<le> retry \<and> fst (register_attempt config key now' keys')"
proof (cases "saturated config key now keys")
  case True
  then have eq: "retry = earliest_release (purge_expired now keys) now" "keys' = purge_expired now keys"
    using assms(3) by (auto simp: register_attempt_cases)
  then have "1 \<le> retry" by (simp add: earliest_release_def retry_seconds_def)
  then show ?thesis using saturated_recovers [OF assms(1,2) True] assms(4) eq by simp
next
  case False
  define ws where "ws = current_windows config key now keys"
  have b: "blocked_until (rate_windows config) ws \<noteq> []"
    and eq: "retry = retry_seconds (Max (set (blocked_until (rate_windows config) ws))) now" "keys' = dset (purge_expired now keys) key ws"
    using assms(3) False by (auto simp: register_attempt_cases ws_def Let_def split: if_splits)
  then have "1 \<le> retry" by (simp add: retry_seconds_def)
  then show ?thesis using blocked_recovers [OF assms(1,2) False ws_def b] assms(4) eq by simp
qed

section \<open>The stored form\<close>

lemma those_map_Some_iff: "(\<And>x. x \<in> set xs \<Longrightarrow> f x = Some (g x)) \<Longrightarrow> those (map f xs) = Some (map g xs)"
  by (induction xs) auto

definition storable :: "rate_table \<Rightarrow> bool" where
  "storable keys \<longleftrightarrow> list_all (\<lambda>p. fst p \<noteq> [] \<and> length (fst p) \<le> ATTEMPT_KEY_CHARS \<and> length (snd p) = WINDOW_COUNT \<and>
     list_all (\<lambda>w. 0 \<le> rw_reset_at w) (snd p)) keys"

text \<open>A shard that is written is read back as it was.\<close>

lemma shard_roundtrip:
  assumes "write_shard keys = Inr payload" and "storable keys"
  shows "read_shard payload = keys"
proof -
  have fin: "\<forall>p \<in> set keys. \<forall>w \<in> set (snd p). isfinite (mk_float (rw_reset_at w))"
    and payload: "payload = Some (JObj [(''keys'', JObj (map (\<lambda>p. (fst p, JList (map window_record (snd p)))) keys))])"
    using assms(1) by (auto simp: write_shard_def list_all_iff split: if_splits)
  have rec: "validated_window_record (window_record w) = Some w" if "isfinite (mk_float (rw_reset_at w))" "0 \<le> rw_reset_at w" for w
    using that by (auto simp: validated_window_record_def window_record_def dget_def finite_argument_def mk_float_def split: if_splits)
  have "validated_key (fst p, JList (map window_record (snd p))) = Some p" if "p \<in> set keys" for p
  proof -
    have "those (map validated_window_record (map window_record (snd p))) = Some (map id (snd p))"
      unfolding map_map using that fin assms(2) unfolding storable_def by (intro those_map_Some_iff) (auto simp: list_all_iff rec)
    then show ?thesis using that assms(2) by (auto simp: validated_key_def storable_def list_all_iff)
  qed
  then have "those (map validated_key (map (\<lambda>p. (fst p, JList (map window_record (snd p)))) keys)) = Some (map id keys)"
    unfolding map_map by (intro those_map_Some_iff) simp
  then show ?thesis by (simp add: payload read_shard_def validated_state_def dget_def)
qed

lemma those_Some_set: "those (map f xs) = Some ys \<Longrightarrow> y \<in> set ys \<Longrightarrow> \<exists>x \<in> set xs. f x = Some y"
  by (induction xs arbitrary: ys) (auto split: option.splits)

lemma those_Some_length: "those xs = Some ys \<Longrightarrow> length ys = length xs"
  by (induction xs arbitrary: ys) (auto split: option.splits)

lemma validated_window_record_nonneg:
  assumes "validated_window_record r = Some w"
  shows "0 \<le> rw_reset_at w"
proof -
  obtain d where "as_obj r = Some d" using assms by (auto simp: validated_window_record_def bind_eq_Some_conv)
  then show ?thesis using assms
    by (cases "finite_argument (dget d ''reset_at'')")
      (auto simp: validated_window_record_def bind_eq_Some_conv split: if_splits)
qed

lemma storable_read: "storable (read_shard payload)"
proof -
  have "storable ks" if th: "those (map validated_key ps) = Some ks" for ps ks
    unfolding storable_def list_all_iff
  proof
    fix p assume "p \<in> set ks"
    then obtain q where q: "validated_key q = Some p" using those_Some_set [OF th] by blast
    then obtain ws where ws: "those (map validated_window_record ws) = Some (snd p)" "length ws = WINDOW_COUNT" "fst p = fst q"
      by (auto simp: validated_key_def bind_eq_Some_conv split: if_splits)
    have "0 \<le> rw_reset_at w" if "w \<in> set (snd p)" for w
      using those_Some_set [OF ws(1) that] validated_window_record_nonneg by blast
    then show "fst p \<noteq> [] \<and> length (fst p) \<le> ATTEMPT_KEY_CHARS \<and> length (snd p) = WINDOW_COUNT \<and> (\<forall>w \<in> set (snd p). 0 \<le> rw_reset_at w)"
      using q ws those_Some_length [OF ws(1)] by (auto simp: validated_key_def split: if_splits)
  qed
  then show ?thesis
    by (auto simp: read_shard_def validated_state_def storable_def bind_eq_Some_conv split: option.splits)
qed

lemma register_unchanged:
  assumes "rate_ok config keys" and "register_attempt config key now keys = (allowed, retry, False, keys')"
  shows "keys' = keys"
proof -
  have same: "length (purge_expired now keys) = length keys"
    using assms(2) by (auto simp: register_attempt_cases Let_def split: if_splits)
  then have p: "purge_expired now keys = keys"
    by (simp add: purge_expired_def length_filter_all)
  show ?thesis
  proof (cases "saturated config key now keys")
    case True
    then show ?thesis using assms(2) p by (simp add: register_attempt_cases)
  next
    case False
    have "map_of keys key \<noteq> None" and keys': "keys' = dset keys key (current_windows config key now keys)"
      using assms(2) False p by (auto simp: register_attempt_cases Let_def split: if_splits)
    then obtain ws where ws: "map_of keys key = Some ws" by blast
    moreover have "list_all (\<lambda>w. \<not> rw_reset_at w \<le> now) ws"
      using assms(2) False p ws by (auto simp: register_attempt_cases Let_def list_ex_iff list_all_iff split: if_splits)
    then have "current_windows config key now keys = ws"
      using map_of_ok [OF assms(1) ws] p ws by (auto simp: current_windows_def within_limits_iff rate_windows_def roll_def)
    ultimately show ?thesis using keys' by (simp add: dset_same)
  qed
qed

lemma register_storable:
  assumes ok: "rate_ok config keys" and st: "storable keys" and key: "key \<noteq> []" "length key \<le> ATTEMPT_KEY_CHARS"
    and now: "0 \<le> now" and c: "rate_config_ok config"
    and bound: "\<And>p w. p \<in> set keys \<Longrightarrow> w \<in> set (snd p) \<Longrightarrow> rw_reset_at w < B"
      "now + rl_burst_window_seconds config < B" "now + rl_sustained_window_seconds config < B"
    and step: "register_attempt config key now keys = (allowed, retry, changed, keys')"
  shows "storable keys' \<and> (\<forall>p \<in> set keys'. \<forall>w \<in> set (snd p). rw_reset_at w < B)"
proof -
  let ?good = "\<lambda>p. fst p \<noteq> [] \<and> length (fst p) \<le> ATTEMPT_KEY_CHARS \<and> length (snd p) = WINDOW_COUNT \<and>
     (\<forall>w \<in> set (snd p). 0 \<le> rw_reset_at w \<and> rw_reset_at w < B)"
  have keys: "\<forall>p \<in> set (purge_expired now keys). ?good p"
    using st bound(1) by (auto simp: storable_def list_all_iff purge_expired_def)
  have cur: "?good (key, current_windows config key now keys)"
  proof (cases "map_of (purge_expired now keys) key")
    case None
    then show ?thesis using key now bound(2,3) c
      by (auto simp: current_windows_def rate_windows_def roll_def WINDOW_COUNT_def numeral_2_eq_2 rate_config_ok_def)
  next
    case (Some ws)
    then have "?good (key, ws)" using keys by (metis map_of_SomeD)
    moreover obtain a b where "ws = [a, b]"
      using map_of_ok [OF purge_ok [OF ok] Some] by (auto simp: within_limits_iff)
    ultimately show ?thesis using Some now bound(2,3) c
      by (auto simp: current_windows_def rate_windows_def roll_def rate_config_ok_def)
  qed
  have put: "\<forall>p \<in> set (dset (purge_expired now keys) key ws). ?good p" if "?good (key, ws)" for ws
    using keys that set_dset_subset [of "purge_expired now keys" key ws] by blast
  have charge: "?good (key, map charge ws)" if "?good (key, ws)" for ws
    using that by (auto simp: charge_def)
  have "\<forall>p \<in> set keys'. ?good p"
    using step keys put [OF cur] put [OF charge [OF cur]] by (auto simp: register_attempt_cases Let_def split: if_splits)
  then show ?thesis by (auto simp: storable_def list_all_iff)
qed


section \<open>Examples\<close>

definition demo_rate :: rate_config where
  "demo_rate = \<lparr>rl_burst_limit = 1, rl_burst_window_seconds = 60, rl_sustained_limit = 2,
     rl_sustained_window_seconds = 600, rl_shard_count = 16, rl_max_tracked_keys_per_shard = 4\<rparr>"


theorem denied_attempt_recovers_witness:
  "register_attempt demo_rate ''k'' 110 [(''k'', [\<lparr>rw_reset_at = 160, rw_count = 1\<rparr>, \<lparr>rw_reset_at = 700, rw_count = 1\<rparr>])] =
     (False, 50, False, [(''k'', [\<lparr>rw_reset_at = 160, rw_count = 1\<rparr>, \<lparr>rw_reset_at = 700, rw_count = 1\<rparr>])]) \<and>
   fst (register_attempt demo_rate ''k'' 160 [(''k'', [\<lparr>rw_reset_at = 160, rw_count = 1\<rparr>, \<lparr>rw_reset_at = 700, rw_count = 1\<rparr>])])"
proof -
  let ?t = "[(''k'', [\<lparr>rw_reset_at = 160, rw_count = 1\<rparr>, \<lparr>rw_reset_at = 700, rw_count = 1\<rparr>])]"
  have run: "register_attempt demo_rate ''k'' 110 ?t = (False, 50, False, ?t)" by code_simp
  have "rate_config_ok demo_rate" "rate_ok demo_rate ?t"
    by (simp_all add: rate_config_ok_def rate_ok_def within_limits_def rate_windows_def demo_rate_def)
  from denied_attempt_recovers [OF this run, of 160] run show ?thesis by simp
qed


end
