(* ===== verification/Continuity.thy ===== *)
theory Continuity
  imports Ingest_Store
begin

text \<open>
  The continuity engine's decisions (\<open>apps/continuity/state.py\<close>, \<open>control_state.py\<close> and the
  reconciliation of \<open>continuity.py\<close>): which video and audio source the output shows, from the times at
  which input buffers were seen and the audio command read from the control authority.

  The GStreamer pipelines are not modelled; a selector is the pad it has active.  Whether a text is a UUID
  is a parameter.
\<close>

section \<open>The decision model\<close>

datatype audio_mode = AudioLive | AudioMuted
datatype video_source = VideoLive | VideoStandby
datatype actual_audio = ActualLive | ActualMuted | SilentFallback
datatype session_status = StatusHolding | StatusStabilizing | StatusLive

record decision =
  de_session_status :: session_status
  de_video_source :: video_source
  de_actual_audio :: actual_audio
  de_video_recent :: bool
  de_audio_recent :: bool

record continuity_state =
  co_input_timeout :: rat
  co_stable_window :: rat
  co_desired_audio :: audio_mode
  co_last_video_at :: "rat option"
  co_last_audio_at :: "rat option"
  co_video_stable_since :: "rat option"

definition make_continuity_state :: "pyfloat \<Rightarrow> pyfloat \<Rightarrow> err + continuity_state" where
  "make_continuity_state input_timeout stable_window =
     (case input_timeout of
        Fin t \<Rightarrow>
          if t \<le> 0 then Inl ValueError else
          (case stable_window of
             Fin s \<Rightarrow>
               if s < 0 then Inl ValueError else
               Inr \<lparr>co_input_timeout = t, co_stable_window = s, co_desired_audio = AudioLive,
                    co_last_video_at = None, co_last_audio_at = None, co_video_stable_since = None\<rparr>
           | _ \<Rightarrow> Inl ValueError)
      | _ \<Rightarrow> Inl ValueError)"

definition audio_mode_of :: "string \<Rightarrow> err + audio_mode" where
  "audio_mode_of mode =
     (if mode = ''LIVE'' then Inr AudioLive else if mode = ''MUTED'' then Inr AudioMuted else Inl ValueError)"

definition set_audio_mode :: "string \<Rightarrow> continuity_state \<Rightarrow> err + continuity_state" where
  "set_audio_mode mode m = rbind (audio_mode_of mode) (\<lambda>a. Inr (m\<lparr>co_desired_audio := a\<rparr>))"

definition observe_video :: "rat \<Rightarrow> continuity_state \<Rightarrow> continuity_state" where
  "observe_video now m =
     (let m' = (if (case co_last_video_at m of None \<Rightarrow> True | Some t \<Rightarrow> co_input_timeout m < now - t)
                then m\<lparr>co_video_stable_since := Some now\<rparr> else m)
      in m'\<lparr>co_last_video_at := Some now\<rparr>)"

definition observe_audio :: "rat \<Rightarrow> continuity_state \<Rightarrow> continuity_state" where
  "observe_audio now m = m\<lparr>co_last_audio_at := Some now\<rparr>"

definition recent :: "rat \<Rightarrow> rat \<Rightarrow> rat option \<Rightarrow> bool" where
  "recent timeout now seen = (case seen of None \<Rightarrow> False | Some t \<Rightarrow> now - t \<le> timeout)"

definition decide :: "rat \<Rightarrow> continuity_state \<Rightarrow> decision \<times> continuity_state" where
  "decide now m =
     (let video_recent = recent (co_input_timeout m) now (co_last_video_at m);
          audio_recent = recent (co_input_timeout m) now (co_last_audio_at m);
          m' = (if video_recent then m else m\<lparr>co_video_stable_since := None\<rparr>);
          stable = (video_recent \<and>
            (case co_video_stable_since m of None \<Rightarrow> False | Some s \<Rightarrow> co_stable_window m \<le> now - s));
          video_source = (if stable then VideoLive else VideoStandby);
          status = (if \<not> video_recent then StatusHolding else if stable then StatusLive else StatusStabilizing);
          actual_audio = (if co_desired_audio m = AudioMuted then ActualMuted
            else if video_source = VideoLive \<and> audio_recent then ActualLive else SilentFallback)
      in (\<lparr>de_session_status = status, de_video_source = video_source, de_actual_audio = actual_audio,
           de_video_recent = video_recent, de_audio_recent = audio_recent\<rparr>, m'))"

section \<open>The control authority\<close>

record control_command =
  cc_audio_mode :: string
  cc_version :: int
  cc_command_id :: "string option"

definition validate_control :: "(string \<Rightarrow> bool) \<Rightarrow> json \<Rightarrow> err + control_command" where
  "validate_control uuid_ok value =
     rbind (from_some ValueError (as_obj value)) (\<lambda>d.
     rbind (from_some ValueError (as_str (dget d ''audio_mode''))) (\<lambda>mode.
     rbind (require ValueError (mode \<in> {''LIVE'', ''MUTED''})) (\<lambda>_.
     rbind (from_some ValueError (as_int (dget d ''version''))) (\<lambda>version.
     rbind (require ValueError (0 \<le> version)) (\<lambda>_.
     rbind (if dget d ''command_id'' = JNull then Inr None else
            rbind (from_some ValueError (as_str (dget d ''command_id''))) (\<lambda>c.
            rbind (require ValueError (uuid_ok c)) (\<lambda>_. Inr (Some c)))) (\<lambda>command_id.
     rbind (if dget d ''idempotency_key'' = JNull then Inr () else
            rbind (from_some ValueError (as_str (dget d ''idempotency_key''))) (\<lambda>k.
            require ValueError (k \<noteq> [] \<and> length k \<le> 200))) (\<lambda>_.
     rbind (finite_argument (dget d ''updated_at'')) (\<lambda>updated_at.
     rbind (require ValueError (0 \<le> updated_at)) (\<lambda>_.
     Inr \<lparr>cc_audio_mode = mode, cc_version = version, cc_command_id = command_id\<rparr>)))))))))"

definition control_fallback :: "control_command option \<Rightarrow> control_command" where
  "control_fallback last_valid =
     (case last_valid of
        None \<Rightarrow> \<lparr>cc_audio_mode = ''MUTED'', cc_version = 0, cc_command_id = None\<rparr>
      | Some c \<Rightarrow> c)"

text \<open>\<open>ControlStateReader.read\<close>: the command, the error code, and the last valid command afterwards.\<close>

definition read_control ::
  "(string \<Rightarrow> bool) \<Rightarrow> file_state \<Rightarrow> control_command option \<Rightarrow> (control_command \<times> string option) \<times> control_command option" where
  "read_control uuid_ok control_file last_valid =
     (case control_file of
        Missing \<Rightarrow> ((control_fallback last_valid, Some ''CONTROL_STATE_UNAVAILABLE''), last_valid)
      | Unreadable \<Rightarrow> ((control_fallback last_valid, Some ''CONTROL_STATE_INVALID''), last_valid)
      | Text t \<Rightarrow>
          (case load_json_authority t of
             None \<Rightarrow> ((control_fallback last_valid, Some ''CONTROL_STATE_INVALID''), last_valid)
           | Some v \<Rightarrow>
               (case validate_control uuid_ok v of
                  Inl _ \<Rightarrow> ((control_fallback last_valid, Some ''CONTROL_STATE_INVALID''), last_valid)
                | Inr c \<Rightarrow> ((c, None), Some c))))"

section \<open>Reconciliation\<close>

datatype pad = FallbackPad | LivePad

record engine =
  en_model :: continuity_state
  en_last_valid :: "control_command option"
  en_control_error :: "string option"
  en_last_control_version :: int
  en_last_command_id :: "string option"
  en_video_pad :: pad
  en_audio_pad :: pad

text \<open>
  \<open>_reconcile\<close> up to the publication of the status file: read the command, decide, switch the
  selectors.  The result is the decision the status reports.
\<close>

definition reconcile ::
  "(string \<Rightarrow> bool) \<Rightarrow> file_state \<Rightarrow> rat \<Rightarrow> engine \<Rightarrow> (err + decision) \<times> engine" where
  "reconcile uuid_ok control_file now_mono e =
     (case read_control uuid_ok control_file (en_last_valid e) of
        ((control, error), last_valid) \<Rightarrow>
          let e1 = e\<lparr>en_last_valid := last_valid, en_control_error := error\<rparr> in
          (case set_audio_mode (cc_audio_mode control) (en_model e1) of
             Inl x \<Rightarrow> (Inl x, e1)
           | Inr m \<Rightarrow>
               (case decide now_mono m of
                  (d, m') \<Rightarrow>
                    (Inr d,
                     e1\<lparr>en_model := m',
                        en_last_control_version := cc_version control,
                        en_last_command_id := cc_command_id control,
                        en_video_pad := (if de_video_source d = VideoLive then LivePad else FallbackPad),
                        en_audio_pad := (if de_actual_audio d = ActualLive then LivePad else FallbackPad)\<rparr>))))"

section \<open>What a decision means\<close>

text \<open>
  The specification: the start of the last unbroken run of video frames, the latest frame first, where a
  gap longer than the timeout breaks a run.
\<close>

fun run_start :: "rat \<Rightarrow> rat list \<Rightarrow> rat option" where
  "run_start timeout [] = None"
| "run_start timeout [t] = Some t"
| "run_start timeout (t # t' # ts) = (if timeout < t - t' then Some t else run_start timeout (t' # ts))"

text \<open>
  The histories of an engine: its video frames (latest first), its latest audio buffer, the mode last
  commanded, and the time of its latest decision.  Frames are stamped in order and not before a decision
  already taken; a decision may use a clock reading older than frames already seen.
\<close>

inductive history ::
  "rat \<Rightarrow> rat \<Rightarrow> rat list \<Rightarrow> rat option \<Rightarrow> audio_mode \<Rightarrow> rat option \<Rightarrow> continuity_state \<Rightarrow> bool"
  for timeout window where
  start: "make_continuity_state (Fin timeout) (Fin window) = Inr m \<Longrightarrow> history timeout window [] None AudioLive None m"
| video: "history timeout window ts au mode dc m \<Longrightarrow> \<forall>u \<in> set ts \<union> set_option dc. u \<le> t \<Longrightarrow>
    history timeout window (t # ts) au mode dc (observe_video t m)"
| audio: "history timeout window ts au mode dc m \<Longrightarrow> history timeout window ts (Some t) mode dc (observe_audio t m)"
| command: "history timeout window ts au mode dc m \<Longrightarrow> audio_mode_of s = Inr mode' \<Longrightarrow> set_audio_mode s m = Inr m' \<Longrightarrow>
    history timeout window ts au mode' dc m'"
| decision: "history timeout window ts au mode dc m \<Longrightarrow> \<forall>u \<in> set_option dc. u \<le> now \<Longrightarrow> decide now m = (d, m') \<Longrightarrow>
    history timeout window ts au mode (Some now) m'"

inductive_cases history_startE: "history timeout window [] au mode dc m"

definition follows :: "rat \<Rightarrow> rat \<Rightarrow> rat list \<Rightarrow> rat option \<Rightarrow> audio_mode \<Rightarrow> rat option \<Rightarrow> continuity_state \<Rightarrow> bool" where
  "follows timeout window ts au mode dc m \<longleftrightarrow>
     co_input_timeout m = timeout \<and> co_stable_window m = window \<and> 0 < timeout \<and> 0 \<le> window \<and>
     co_desired_audio m = mode \<and> co_last_audio_at m = au \<and>
     co_last_video_at m = (case ts of [] \<Rightarrow> None | t # _ \<Rightarrow> Some t) \<and>
     (co_video_stable_since m = run_start timeout ts \<or>
      co_video_stable_since m = None \<and> (\<exists>d. dc = Some d \<and> (\<forall>t \<in> set (take 1 ts). timeout < d - t)))"

lemma history_follows: "history timeout window ts au mode dc m \<Longrightarrow> follows timeout window ts au mode dc m"
proof (induction rule: history.induct)
  case (start m)
  then show ?case by (auto simp: make_continuity_state_def follows_def split: if_splits)
next
  case (video ts au mode dc m t)
  then show ?case
    by (cases ts) (auto simp: follows_def observe_video_def Let_def)
next
  case (audio ts au mode dc m t)
  then show ?case by (simp add: follows_def observe_audio_def)
next
  case (command ts au mode dc m s mode' m')
  then show ?case by (auto simp: follows_def set_audio_mode_def rbind_eq_Inr)
next
  case (decision ts au mode dc m now d m')
  then show ?case
    by (cases ts) (auto simp: follows_def decide_def Let_def recent_def split: if_splits)
qed

text \<open>C13. The decision model implements its specification on every history: the output shows live video
  exactly when the last frame is recent and the unbroken run of frames it ends has lasted the stable
  window; it holds exactly when no frame is recent; audio is muted exactly when that was commanded, whatever
  the input did, and live audio needs live video and a recent audio buffer.\<close>

theorem decision_meets_spec:
  assumes "history timeout window ts au mode dc m" and "\<forall>u \<in> set_option dc. u \<le> now" and "decide now m = (d, m')"
  shows "(de_video_source d = VideoLive \<longleftrightarrow>
      (\<exists>t s. ts \<noteq> [] \<and> t = hd ts \<and> now - t \<le> timeout \<and> run_start timeout ts = Some s \<and> window \<le> now - s)) \<and>
    (de_session_status d = StatusHolding \<longleftrightarrow> (ts = [] \<or> timeout < now - hd ts)) \<and>
    (de_session_status d = StatusLive \<longleftrightarrow> de_video_source d = VideoLive) \<and>
    (de_actual_audio d = ActualMuted \<longleftrightarrow> mode = AudioMuted) \<and>
    (de_actual_audio d = ActualLive \<longleftrightarrow>
      mode = AudioLive \<and> de_video_source d = VideoLive \<and> (\<exists>a. au = Some a \<and> now - a \<le> timeout))"
proof -
  have f: "follows timeout window ts au mode dc m" by (rule history_follows [OF assms(1)])
  have since: "recent timeout now (co_last_video_at m) \<Longrightarrow> co_video_stable_since m = run_start timeout ts"
    using f assms(2) by (cases ts) (auto simp: follows_def recent_def)
  show ?thesis
    using f since assms(3)
    by (cases ts; cases mode; cases "run_start timeout ts")
      (auto simp: decide_def Let_def follows_def recent_def split: option.splits if_splits)
qed

text \<open>
  The order of frames and decisions matters: a frame that was stamped before a decision and is recorded
  after it can leave the engine without a start of the run, and then no later frame without a gap ever
  makes it live again.
\<close>

lemma late_frame_stuck:
  assumes "co_video_stable_since m = None" and "co_last_video_at m = Some t" and "t' - t \<le> co_input_timeout m"
  shows "co_video_stable_since (observe_video t' m) = None \<and> co_last_video_at (observe_video t' m) = Some t' \<and>
    de_video_source (fst (decide now m)) = VideoStandby"
  using assms by (simp add: observe_video_def decide_def Let_def)

fun spaced :: "rat \<Rightarrow> rat \<Rightarrow> rat list \<Rightarrow> bool" where
  "spaced timeout t [] = True"
| "spaced timeout t (u # us) \<longleftrightarrow> t \<le> u \<and> u - t \<le> timeout \<and> spaced timeout u us"

lemma spaced_stuck:
  assumes "co_video_stable_since m = None" and "co_last_video_at m = Some t" and "spaced (co_input_timeout m) t us"
  shows "de_video_source (fst (decide now (fold observe_video us m))) = VideoStandby"
  using assms
proof (induction us arbitrary: m t)
  case Nil
  then show ?case using late_frame_stuck [of m t t now] by (cases "0 \<le> co_input_timeout m") (auto simp: decide_def Let_def)
next
  case (Cons u us)
  have "co_input_timeout (observe_video u m) = co_input_timeout m" by (simp add: observe_video_def Let_def)
  then show ?case using Cons late_frame_stuck [of m t u now] by auto
qed

text \<open>C14. A frame recorded out of order can keep the stand-by picture for good: if a decision at a time
  more than the timeout after the last frame is followed by a frame stamped within the timeout of that last
  frame, then no frame that keeps coming without a gap brings the live picture back, however long it is stable.\<close>

theorem late_frame_blocks_recovery:
  assumes "co_last_video_at m = Some t" and "co_input_timeout m < d - t" and "t' - t \<le> co_input_timeout m"
    and "spaced (co_input_timeout m) t' us"
  shows "de_video_source (fst (decide now (fold observe_video us (observe_video t' (snd (decide d m)))))) = VideoStandby"
proof -
  define m1 where "m1 = snd (decide d m)"
  have "co_video_stable_since m1 = None" "co_last_video_at m1 = Some t" "co_input_timeout m1 = co_input_timeout m"
    using assms(1,2) by (auto simp: m1_def decide_def Let_def recent_def)
  then have "co_video_stable_since (observe_video t' m1) = None" "co_last_video_at (observe_video t' m1) = Some t'"
    "co_input_timeout (observe_video t' m1) = co_input_timeout m"
    using assms(3) by (simp_all add: observe_video_def Let_def)
  then show ?thesis using spaced_stuck assms(4) unfolding m1_def by metis
qed

section \<open>Commands are kept\<close>

definition valid_command :: "(string \<Rightarrow> bool) \<Rightarrow> file_state \<Rightarrow> control_command option" where
  "valid_command uuid_ok f =
     (case f of
        Text t \<Rightarrow> (case load_json_authority t of None \<Rightarrow> None
          | Some v \<Rightarrow> (case validate_control uuid_ok v of Inl _ \<Rightarrow> None | Inr c \<Rightarrow> Some c))
      | _ \<Rightarrow> None)"

lemma read_control_eq:
  "fst (fst (read_control uuid_ok f c)) = control_fallback (snd (read_control uuid_ok f c))"
  "snd (read_control uuid_ok f c) = (case valid_command uuid_ok f of None \<Rightarrow> c | Some x \<Rightarrow> Some x)"
  by (auto simp: read_control_def valid_command_def control_fallback_def split: file_state.splits option.splits sum.splits)

lemma valid_command_mode: "valid_command uuid_ok f = Some c \<Longrightarrow> cc_audio_mode c \<in> {''LIVE'', ''MUTED''}"
  unfolding valid_command_def validate_control_def
  by (cases f) (auto simp: rbind_eq_Inr split: option.splits sum.splits)

fun reconciles :: "(string \<Rightarrow> bool) \<Rightarrow> (file_state \<times> rat) list \<Rightarrow> engine \<Rightarrow> engine" where
  "reconciles uuid_ok [] e = e"
| "reconciles uuid_ok ((f, now) # fs) e = reconciles uuid_ok fs (snd (reconcile uuid_ok f now e))"

definition audible :: "control_command option \<Rightarrow> bool" where
  "audible c = (case c of None \<Rightarrow> False | Some x \<Rightarrow> cc_audio_mode x = ''LIVE'')"

lemma decide_muted: "decide now m = (d, m') \<Longrightarrow> de_actual_audio d = ActualMuted \<longleftrightarrow> co_desired_audio m = AudioMuted"
  by (auto simp: decide_def Let_def split: if_splits)

lemma reconcile_steps:
  assumes "case en_last_valid e of None \<Rightarrow> True | Some c \<Rightarrow> cc_audio_mode c \<in> {''LIVE'', ''MUTED''}"
    and "reconcile uuid_ok f now e = (r, e')"
  shows "en_last_valid e' = (case valid_command uuid_ok f of None \<Rightarrow> en_last_valid e | Some c \<Rightarrow> Some c) \<and>
    (case en_last_valid e' of None \<Rightarrow> True | Some c \<Rightarrow> cc_audio_mode c \<in> {''LIVE'', ''MUTED''}) \<and>
    (\<exists>d. r = Inr d \<and> (de_actual_audio d = ActualMuted \<longleftrightarrow> \<not> audible (en_last_valid e')) \<and>
      en_audio_pad e' = (if de_actual_audio d = ActualLive then LivePad else FallbackPad))"
proof -
  define c where "c = snd (read_control uuid_ok f (en_last_valid e))"
  have c: "c = (case valid_command uuid_ok f of None \<Rightarrow> en_last_valid e | Some x \<Rightarrow> Some x)"
    by (simp add: c_def read_control_eq)
  have ok: "case c of None \<Rightarrow> True | Some x \<Rightarrow> cc_audio_mode x \<in> {''LIVE'', ''MUTED''}"
    using assms(1) valid_command_mode [of uuid_ok f] by (auto simp: c split: option.splits)
  obtain err where rd: "read_control uuid_ok f (en_last_valid e) = ((control_fallback c, err), c)"
    by (metis c_def read_control_eq(1) prod.collapse)
  obtain a where a: "audio_mode_of (cc_audio_mode (control_fallback c)) = Inr a" "a = AudioMuted \<longleftrightarrow> \<not> audible c"
    using ok by (cases c) (auto simp: control_fallback_def audible_def audio_mode_of_def)
  obtain d m' where d: "decide now ((en_model e)\<lparr>co_desired_audio := a\<rparr>) = (d, m')" by fastforce
  have m: "de_actual_audio d = ActualMuted \<longleftrightarrow> a = AudioMuted" using decide_muted [OF d] by simp
  have "r = Inr d" "en_last_valid e' = c" "en_audio_pad e' = (if de_actual_audio d = ActualLive then LivePad else FallbackPad)"
    using assms(2) rd a(1) d by (auto simp: reconcile_def set_audio_mode_def Let_def)
  then show ?thesis using ok c m a(2) by simp
qed


section \<open>Examples\<close>

definition demo_continuity :: continuity_state where
  "demo_continuity = \<lparr>co_input_timeout = 3 / 2, co_stable_window = 3, co_desired_audio = AudioLive,
     co_last_video_at = None, co_last_audio_at = None, co_video_stable_since = None\<rparr>"

lemma demo_history: "history (3 / 2) 3 [12, 11, 10] None AudioLive None (observe_video 12 (observe_video 11 (observe_video 10 demo_continuity)))"
  by (intro history.video history.start) (auto simp: make_continuity_state_def demo_continuity_def)

theorem decision_meets_spec_witness:
  "de_video_source (fst (decide 13 (observe_video 12 (observe_video 11 (observe_video 10 demo_continuity))))) = VideoLive \<and>
   de_session_status (fst (decide 14 (observe_video 12 (observe_video 11 (observe_video 10 demo_continuity))))) = StatusHolding"
proof -
  have a: "decide 13 (observe_video 12 (observe_video 11 (observe_video 10 demo_continuity))) =
      (fst (decide 13 (observe_video 12 (observe_video 11 (observe_video 10 demo_continuity)))),
       snd (decide 13 (observe_video 12 (observe_video 11 (observe_video 10 demo_continuity)))))" by simp
  have b: "decide 14 (observe_video 12 (observe_video 11 (observe_video 10 demo_continuity))) =
      (fst (decide 14 (observe_video 12 (observe_video 11 (observe_video 10 demo_continuity)))),
       snd (decide 14 (observe_video 12 (observe_video 11 (observe_video 10 demo_continuity)))))" by simp
  show ?thesis
    using decision_meets_spec [OF demo_history _ a] decision_meets_spec [OF demo_history _ b] by simp
qed

theorem late_frame_blocks_recovery_witness:
  "de_video_source (fst (decide 20 (fold observe_video [13, 14, 15, 16, 17, 18, 19] (observe_video 12 (snd (decide 13
     (observe_video 11 demo_continuity)))))) ) = VideoStandby"
  by (rule late_frame_blocks_recovery [where t = 11]) (auto simp: observe_video_def demo_continuity_def)

definition demo_engine :: engine where
  "demo_engine = \<lparr>en_model = demo_continuity, en_last_valid = None, en_control_error = None, en_last_control_version = 0,
     en_last_command_id = None, en_video_pad = FallbackPad, en_audio_pad = FallbackPad\<rparr>"


end
