(* ===== verification/Session_Event_Policy.thy ===== *)
theory Session_Event_Policy
  imports Python_Text
begin

text \<open>
  Limits on user-authored Session events (\<open>apps/control-api/session_event_policy.py\<close>): the raw request
  body, the event type and the payload.

  ASGI messages are a datatype.  \<open>json.dumps\<close> is written out for the compact separators and without ASCII
  escaping; the text of a finite float is its only parameter.
\<close>

definition USER_EVENT_MAX_PAYLOAD_BYTES :: nat where
  "USER_EVENT_MAX_PAYLOAD_BYTES = 8192"

definition USER_EVENT_MAX_REQUEST_BYTES :: nat where
  "USER_EVENT_MAX_REQUEST_BYTES = 65536"

definition USER_EVENT_MAX_DEPTH :: nat where
  "USER_EVENT_MAX_DEPTH = 8"

definition USER_EVENT_MAX_ELEMENTS :: nat where
  "USER_EVENT_MAX_ELEMENTS = 128"

definition USER_EVENT_RESERVED_TYPE_PREFIXES :: "string list" where
  "USER_EVENT_RESERVED_TYPE_PREFIXES = [''session.'', ''ingest.'', ''egress.'', ''relay.'', ''media_control.'']"

section \<open>The raw body\<close>

record http_scope =
  scope_type :: string
  scope_method :: string
  scope_path :: string
  scope_headers :: "(string \<times> string) list"

definition is_user_event_post :: "http_scope \<Rightarrow> bool" where
  "is_user_event_post scope \<longleftrightarrow>
     (if scope_type scope \<noteq> ''http'' \<or> py_upper (scope_method scope) \<noteq> ''POST'' then False else
      let path0 = scope_path scope;
          path = (if path0 \<noteq> [] \<and> last path0 = CHR ''/'' \<and> path0 \<noteq> ''/'' then butlast path0 else path0);
          parts = py_split (CHR ''/'') path
      in length parts = 5 \<and> parts ! 0 = [] \<and> parts ! 1 = ''v1'' \<and> parts ! 2 = ''sessions'' \<and> parts ! 3 \<noteq> [] \<and> parts ! 4 = ''events'')"

definition declared_body_exceeds_limit :: "http_scope \<Rightarrow> nat \<Rightarrow> bool" where
  "declared_body_exceeds_limit scope limit =
     list_ex (\<lambda>(raw_name, raw_value). py_lower raw_name = ''content-length'' \<and>
       (case int_of_bytes raw_value of None \<Rightarrow> False | Some declared \<Rightarrow> int limit < declared)) (scope_headers scope)"

text \<open>A message from the server; a body that is not bytes is None.\<close>

datatype asgi_message = Http_Disconnect | Http_Request "string option" bool | Other_Message

datatype body_result = Body_Too_Large | Body_Buffered string bool | Body_Waiting

text \<open>The reading loop; \<open>Body_Waiting\<close> is a client that has sent no further message yet.\<close>

fun read_body :: "nat \<Rightarrow> string \<Rightarrow> asgi_message list \<Rightarrow> body_result" where
  "read_body limit buffered [] = Body_Waiting"
| "read_body limit buffered (Http_Disconnect # ms) = Body_Buffered buffered True"
| "read_body limit buffered (Other_Message # ms) = read_body limit buffered ms"
| "read_body limit buffered (Http_Request None more_body # ms) = Body_Too_Large"
| "read_body limit buffered (Http_Request (Some chunk) more_body # ms) =
     (if int limit - int (length buffered) < int (length chunk) then Body_Too_Large
      else if more_body then read_body limit (buffered @ chunk) ms
      else Body_Buffered (buffered @ chunk) False)"

text \<open>
  What the application below the middleware sees: the untouched channel, nothing (the client gets the
  413), or one replayed message with the whole body, followed by a disconnect if there was one.
\<close>

datatype gate = Passed_Through | Rejected_413 | Replayed "asgi_message list" | Waiting

definition body_limit :: "nat \<Rightarrow> http_scope \<Rightarrow> asgi_message list \<Rightarrow> gate" where
  "body_limit max_request_bytes scope messages =
     (if \<not> is_user_event_post scope then Passed_Through else
      if declared_body_exceeds_limit scope max_request_bytes then Rejected_413 else
      (case read_body max_request_bytes [] messages of
         Body_Too_Large \<Rightarrow> Rejected_413
       | Body_Buffered body disconnected \<Rightarrow>
           Replayed (Http_Request (Some body) disconnected # (if disconnected then [Http_Disconnect] else []))
       | Body_Waiting \<Rightarrow> Waiting))"

section \<open>The event\<close>

definition validate_user_event_type :: "string \<Rightarrow> err + unit" where
  "validate_user_event_type event_type =
     (let normalized = py_lower (py_strip event_type) in
      require UserEventTypeError (\<not> list_ex (\<lambda>p. starts_with p normalized) USER_EVENT_RESERVED_TYPE_PREFIXES))"

fun validate_scalar :: "json \<Rightarrow> bool" where
  "validate_scalar (JFloat f) = isfinite f"
| "validate_scalar _ = True"

fun is_container :: "json \<Rightarrow> bool" where
  "is_container (JList _) = True"
| "is_container (JObj _) = True"
| "is_container _ = False"

fun children :: "json \<Rightarrow> json list" where
  "children (JList xs) = xs"
| "children (JObj d) = map snd d"
| "children _ = []"

lemma children_size: "(\<Sum>c\<leftarrow>filter P (children v). Suc (size c)) \<le> size v"
proof (cases v)
  case (JList xs)
  have "(\<Sum>c\<leftarrow>filter P xs. Suc (size c)) \<le> size_list size xs" by (induction xs) auto
  then show ?thesis using JList by simp
next
  case (JObj d)
  have "(\<Sum>c\<leftarrow>filter P (map snd d). Suc (size c)) \<le> size_list (size_prod (\<lambda>x. 0) size) d" by (induction d) auto
  then show ?thesis using JObj by simp
qed auto

lemma child_size: "c \<in> set (children v) \<Longrightarrow> size c < size v"
  using children_size [of "\<lambda>x. True" v] member_le_sum_list [of "Suc (size c)" "map (\<lambda>c. Suc (size c)) (children v)"]
  by (simp add: Suc_le_eq)

text \<open>
  The loop over an explicit stack (its top first).  A container counts its children and puts those that
  are containers themselves on the stack; scalars are checked at once.
\<close>

function scan_payload :: "(json \<times> nat) list \<Rightarrow> nat \<Rightarrow> bool" where
  "scan_payload [] elements = True"
| "scan_payload ((value, depth) # stack) elements =
     (if \<not> is_container value then validate_scalar value \<and> scan_payload stack elements
      else if USER_EVENT_MAX_DEPTH < depth then False
      else if USER_EVENT_MAX_ELEMENTS < elements + length (children value) then False
      else if \<not> list_all (\<lambda>c. is_container c \<or> validate_scalar c) (children value) then False
      else scan_payload (rev (map (\<lambda>c. (c, depth + 1)) (filter is_container (children value))) @ stack)
             (elements + length (children value)))"
  by pat_completeness auto
termination
proof (relation "measure (\<lambda>(stack, elements). \<Sum>(v, d)\<leftarrow>stack. Suc (size v))", goal_cases)
  case (3 "value" depth stack elements)
  then show ?case using children_size [of is_container "value"]
    by (simp add: rev_map [symmetric] comp_def)
qed auto

text \<open>The compact encoding; \<open>float_repr\<close> is the text of a finite float.\<close>

definition hex_digit :: "nat \<Rightarrow> char" where
  "hex_digit n = (if n < 10 then char_of (48 + n) else char_of (87 + n))"

definition escape_char :: "char \<Rightarrow> string" where
  "escape_char c =
     (if c = CHR 0x22 then [CHR 0x5C, CHR 0x22] else if c = CHR 0x5C then [CHR 0x5C, CHR 0x5C]
      else if c = CHR 0x0A then [CHR 0x5C, CHR ''n''] else if c = CHR 0x0D then [CHR 0x5C, CHR ''r'']
      else if c = CHR 0x09 then [CHR 0x5C, CHR ''t''] else if c = CHR 0x0C then [CHR 0x5C, CHR ''f'']
      else if c = CHR 0x08 then [CHR 0x5C, CHR ''b'']
      else if of_char c < (32::nat) then [CHR 0x5C, CHR ''u'', CHR ''0'', CHR ''0'', hex_digit (of_char c div 16), hex_digit (of_char c mod 16)]
      else [c])"

definition quoted :: "string \<Rightarrow> string" where
  "quoted s = [CHR 0x22] @ concat (map escape_char s) @ [CHR 0x22]"

fun join :: "string \<Rightarrow> string list \<Rightarrow> string" where
  "join sep [] = []"
| "join sep [x] = x"
| "join sep (x # xs) = x @ sep @ join sep xs"

function json_dumps :: "(rat \<Rightarrow> string) \<Rightarrow> json \<Rightarrow> string option" where
  "json_dumps float_repr JNull = Some ''null''"
| "json_dumps float_repr (JBool b) = Some (if b then ''true'' else ''false'')"
| "json_dumps float_repr (JInt i) = int_repr i"
| "json_dumps float_repr (JFloat f) = (case f of Fin x \<Rightarrow> Some (float_repr x) | _ \<Rightarrow> None)"
| "json_dumps float_repr (JStr s) = Some (quoted s)"
| "json_dumps float_repr (JList xs) =
     map_option (\<lambda>ts. ''['' @ join '','' ts @ '']'') (those (map (json_dumps float_repr) xs))"
| "json_dumps float_repr (JObj d) =
     map_option (\<lambda>ts. ''{'' @ join '','' ts @ ''}'')
       (those (map (\<lambda>p. map_option (\<lambda>t. quoted (fst p) @ '':'' @ t) (json_dumps float_repr (snd p))) d))"
  by pat_completeness auto
termination
proof (relation "measure (\<lambda>(r, v). size v)", goal_cases)
  case (2 float_repr xs x)
  then show ?case using child_size [of x "JList xs"] by simp
next
  case (3 float_repr d p)
  then show ?case using child_size [of "snd p" "JObj d"] by simp
qed simp

definition utf8 :: "string \<Rightarrow> string" where
  "utf8 = concat \<circ> map (\<lambda>c. let n = of_char c :: nat in
     if n < 128 then [c] else [char_of (192 + n div 64), char_of (128 + n mod 64)])"

definition validate_user_event_payload :: "(rat \<Rightarrow> string) \<Rightarrow> json \<Rightarrow> err + unit" where
  "validate_user_event_payload float_repr payload =
     rbind (require UserEventPayloadError (as_obj payload \<noteq> None)) (\<lambda>_.
     rbind (require UserEventPayloadError (scan_payload [(payload, 1)] 0)) (\<lambda>_.
     rbind (from_some UserEventPayloadError (map_option utf8 (json_dumps float_repr payload))) (\<lambda>encoded.
     require UserEventPayloadError (\<not> USER_EVENT_MAX_PAYLOAD_BYTES < length encoded))))"

section \<open>What the scan decides\<close>

function json_depth :: "json \<Rightarrow> nat" where
  "json_depth v = (if is_container v then Suc (fold max (map json_depth (children v)) 0) else 0)"
  by pat_completeness auto
termination
  by (relation "measure size") (auto intro: child_size)

function json_elements :: "json \<Rightarrow> nat" where
  "json_elements v = length (children v) + sum_list (map json_elements (children v))"
  by pat_completeness auto
termination
  by (relation "measure size") (auto intro: child_size)

function json_finite :: "json \<Rightarrow> bool" where
  "json_finite v = (validate_scalar v \<and> list_all json_finite (children v))"
  by pat_completeness auto
termination
  by (relation "measure size") (auto intro: child_size)

declare json_depth.simps [simp del] json_elements.simps [simp del] json_finite.simps [simp del]

lemma scalar_measures:
  assumes "\<not> is_container v"
  shows "json_depth v = 0" "json_elements v = 0" "json_finite v = validate_scalar v"
proof -
  have "children v = []" using assms by (cases v) auto
  then show "json_depth v = 0" "json_elements v = 0" "json_finite v = validate_scalar v"
    using assms by (simp_all add: json_depth.simps [of v] json_elements.simps [of v] json_finite.simps [of v])
qed

lemma fold_max_le: "fold max xs (a::nat) \<le> n \<longleftrightarrow> a \<le> n \<and> (\<forall>x\<in>set xs. x \<le> n)"
  by (induction xs arbitrary: a) auto

lemma sum_containers: "sum_list (map json_elements (filter is_container vs)) = sum_list (map json_elements vs)"
  by (induction vs) (auto simp: scalar_measures)

lemma container_scalar: "is_container v \<Longrightarrow> validate_scalar v"
  by (cases v) auto

lemma child_cases:
  "json_depth c \<le> n \<longleftrightarrow> (is_container c \<longrightarrow> json_depth c \<le> n)"
  "json_finite c \<longleftrightarrow> (is_container c \<or> validate_scalar c) \<and> (is_container c \<longrightarrow> json_finite c)"
  by (cases "is_container c"; simp add: scalar_measures)+

lemma container_measures:
  assumes "is_container v"
  shows "json_depth v \<le> Suc n \<longleftrightarrow> (\<forall>c\<in>set (filter is_container (children v)). json_depth c \<le> n)"
    and "json_elements v = length (children v) + sum_list (map json_elements (filter is_container (children v)))"
    and "json_finite v \<longleftrightarrow> list_all (\<lambda>c. is_container c \<or> validate_scalar c) (children v) \<and>
           (\<forall>c\<in>set (filter is_container (children v)). json_finite c)"
proof -
  show "json_depth v \<le> Suc n \<longleftrightarrow> (\<forall>c\<in>set (filter is_container (children v)). json_depth c \<le> n)"
    using assms child_cases(1) by (auto simp: json_depth.simps [of v] fold_max_le)
  show "json_elements v = length (children v) + sum_list (map json_elements (filter is_container (children v)))"
    by (simp add: json_elements.simps [of v] sum_containers)
  show "json_finite v \<longleftrightarrow> list_all (\<lambda>c. is_container c \<or> validate_scalar c) (children v) \<and>
      (\<forall>c\<in>set (filter is_container (children v)). json_finite c)"
    using assms child_cases(2) by (auto simp: json_finite.simps [of v] container_scalar list_all_iff)
qed

lemma scan_payload_iff:
  assumes "elements \<le> USER_EVENT_MAX_ELEMENTS" "\<forall>(v, d)\<in>set stack. 0 < d"
  shows "scan_payload stack elements \<longleftrightarrow>
    (\<forall>(v, d)\<in>set stack. json_finite v \<and> (is_container v \<longrightarrow> d + json_depth v \<le> Suc USER_EVENT_MAX_DEPTH)) \<and>
    elements + (\<Sum>(v, d)\<leftarrow>stack. json_elements v) \<le> USER_EVENT_MAX_ELEMENTS"
  using assms
proof (induction stack elements rule: scan_payload.induct)
  case (2 v d stack e)
  show ?case
  proof (cases "is_container v")
    case False
    then show ?thesis using 2 by (simp add: scalar_measures)
  next
    case True
    let ?new = "rev (map (\<lambda>c. (c, d + 1)) (filter is_container (children v))) @ stack"
    have sum: "(\<Sum>(v, d)\<leftarrow>?new. json_elements v) = sum_list (map json_elements (filter is_container (children v))) + (\<Sum>(v, d)\<leftarrow>stack. json_elements v)"
      by (simp add: rev_map [symmetric] comp_def)
    show ?thesis
    proof (cases "USER_EVENT_MAX_DEPTH < d \<or> USER_EVENT_MAX_ELEMENTS < e + length (children v) \<or>
                   \<not> list_all (\<lambda>c. is_container c \<or> validate_scalar c) (children v)")
      case bad: True
      have "0 < json_depth v" using True by (simp add: json_depth.simps [of v])
      with bad show ?thesis using True by (auto simp: container_measures(2,3) [OF True])
    next
      case good: False
      then have le: "d \<le> USER_EVENT_MAX_DEPTH" by simp
      then obtain n where n: "USER_EVENT_MAX_DEPTH = d + n" using le_Suc_ex by blast
      have depth: "d + json_depth v \<le> Suc USER_EVENT_MAX_DEPTH \<longleftrightarrow>
          (\<forall>c\<in>set (filter is_container (children v)). d + 1 + json_depth c \<le> Suc USER_EVENT_MAX_DEPTH)"
        using container_measures(1) [OF True, of n] by (simp add: n)
      have "scan_payload ((v, d) # stack) e = scan_payload ?new (e + length (children v))"
        using True good by auto
      also have "\<dots> \<longleftrightarrow>
        (\<forall>(v, d)\<in>set ?new. json_finite v \<and> (is_container v \<longrightarrow> d + json_depth v \<le> Suc USER_EVENT_MAX_DEPTH)) \<and>
        e + length (children v) + (\<Sum>(v, d)\<leftarrow>?new. json_elements v) \<le> USER_EVENT_MAX_ELEMENTS"
        using 2 True good by (intro 2(2)) auto
      finally show ?thesis
        using True good unfolding sum by (auto simp: depth container_measures(2,3) [OF True] ball_Un)
    qed
  qed
qed simp

section \<open>Properties\<close>

text \<open>C16. The iterative payload check decides exactly the documented budget: it accepts a payload when it is an
  object, its nesting is at most 8, the entries of all its containers together number at most 128, every
  float in it is finite and its compact UTF-8 encoding exists and has at most 8192 bytes; anything else
  raises UserEventPayloadError.\<close>

theorem payload_limits_exact:
  "validate_user_event_payload float_repr payload =
     (if (\<exists>d. payload = JObj d) \<and> json_depth payload \<le> USER_EVENT_MAX_DEPTH \<and>
         json_elements payload \<le> USER_EVENT_MAX_ELEMENTS \<and> json_finite payload \<and>
         (\<exists>t. json_dumps float_repr payload = Some t \<and> length (utf8 t) \<le> USER_EVENT_MAX_PAYLOAD_BYTES)
      then Inr () else Inl UserEventPayloadError)"
proof (cases "\<exists>d. payload = JObj d")
  case True
  then have "scan_payload [(payload, 1)] 0 \<longleftrightarrow>
      json_finite payload \<and> json_depth payload \<le> USER_EVENT_MAX_DEPTH \<and> json_elements payload \<le> USER_EVENT_MAX_ELEMENTS"
    by (subst scan_payload_iff) auto
  then show ?thesis using True
    by (cases "json_dumps float_repr payload") (auto simp: validate_user_event_payload_def require_def rbind_def from_some_def)
next
  case False
  then have "as_obj payload = None" by (cases payload) auto
  then show ?thesis using False by (simp add: validate_user_event_payload_def require_def rbind_def)
qed

lemma read_body_bounded:
  "read_body limit buffered ms = Body_Buffered body d \<Longrightarrow> length buffered \<le> limit \<Longrightarrow> length body \<le> limit"
  by (induction limit buffered ms rule: read_body.induct) (auto split: if_splits)

lemma read_body_chunks:
  assumes "filter (\<lambda>m. m \<noteq> Other_Message) ms = map (\<lambda>c. Http_Request (Some c) True) cs @ [Http_Request (Some c) False]"
    and "length buffered \<le> limit"
  shows "read_body limit buffered (ms @ rest) =
    (if length (buffered @ concat cs @ c) \<le> limit then Body_Buffered (buffered @ concat cs @ c) False else Body_Too_Large)"
  using assms
proof (induction ms arbitrary: cs buffered)
  case (Cons m ms)
  show ?case
  proof (cases "m = Other_Message")
    case True
    then show ?thesis using Cons by simp
  next
    case False
    show ?thesis using Cons.prems(1) Cons.prems(2) False Cons.IH [of "tl cs" "buffered @ hd cs"]
      by (cases cs) (auto simp: not_less)
  qed
qed simp

text \<open>The body limit of the user-event endpoint does not depend on how the client splits or announces the
  body.  Whatever is replayed to the application is one message of at most the limit; and a body sent in
  any chunks, empty ones and foreign messages between them included, without a Content-Length above the
  limit, is replayed whole when it fits and answered with 413 when it does not.\<close>

theorem body_limit_exact:
  assumes "is_user_event_post scope" "\<not> declared_body_exceeds_limit scope limit"
    and "filter (\<lambda>m. m \<noteq> Other_Message) ms = map (\<lambda>c. Http_Request (Some c) True) cs @ [Http_Request (Some c) False]"
  shows "body_limit limit scope (ms @ later) =
      (if length (concat cs @ c) \<le> limit then Replayed [Http_Request (Some (concat cs @ c)) False] else Rejected_413) \<and>
    (\<forall>messages replay. body_limit limit scope messages = Replayed replay \<longrightarrow>
      (\<exists>body rest. replay = Http_Request (Some body) (rest \<noteq> []) # rest \<and> rest \<in> {[], [Http_Disconnect]} \<and> length body \<le> limit))"
  using assms read_body_chunks [OF assms(3), of "[]" limit later] read_body_bounded [of limit "[]"]
  by (auto simp: body_limit_def split: body_result.splits)

definition demo_scope :: http_scope where
  "demo_scope = \<lparr>scope_type = ''http'', scope_method = ''post'', scope_path = ''/v1/sessions/s1/events/'',
     scope_headers = [(''Content-Length'', ''2'')]\<rparr>"

lemma demo_scope_ok: "is_user_event_post demo_scope" "\<not> declared_body_exceeds_limit demo_scope 5"
  by code_simp+

theorem body_limit_exact_witness:
  "body_limit 5 demo_scope [Http_Request (Some ''abc'') True, Other_Message, Http_Request (Some ''def'') False] = Rejected_413"
  using body_limit_exact [OF demo_scope_ok, of "[Http_Request (Some ''abc'') True, Other_Message, Http_Request (Some ''def'') False]" "[''abc'']" "''def''" "[]"]
  by simp

end
