(* ===== verification/Ingest_Policy.thy ===== *)
theory Ingest_Policy
  imports Python_Text
begin

text \<open>
  The input policy of the Node Agent (\<open>apps/node-agent/ingest_policy.py\<close>): the MediaMTX path snapshot is
  judged by codec, resolution and sustained bitrate, and a rejected publisher is disconnected.

  The answer of the MediaMTX API is an argument of each observation; \<open>py_str\<close> is \<open>str\<close> of a JSON value
  that is no string.  Environment defaults are not modelled: a configuration is a value.
\<close>

definition VIDEO_CODECS :: "string list" where
  "VIDEO_CODECS = [''AV1'', ''VP9'', ''VP8'', ''H265'', ''H264'', ''MPEG-4 Video'', ''MPEG-1/2 Video'', ''M-JPEG'']"

definition AUDIO_CODECS :: "string list" where
  "AUDIO_CODECS = [''Opus'', ''FLAC'', ''Vorbis'', ''MPEG-4 Audio'', ''MPEG-4 Audio LATM'', ''MPEG-1/2 Audio'',
     ''AC3'', ''Speex'', ''G726'', ''G722'', ''G711'', ''LPCM'']"

definition ALLOWED_RESOLUTIONS :: "(int \<times> int) list" where
  "ALLOWED_RESOLUTIONS = [(1280, 720), (1920, 1080)]"

fun kick_endpoint :: "string \<Rightarrow> string option" where
  "kick_endpoint t = (if t = ''rtmpConn'' then Some ''rtmpconns'' else if t = ''rtmpsConn'' then Some ''rtmpsconns''
     else if t = ''srtConn'' then Some ''srtconns'' else None)"

section \<open>The answer of the media server\<close>

datatype api_reply = Api_Http_Error | Api_Unavailable | Api_Empty | Api_Not_Json | Api_Json json

fun request_json :: "api_reply \<Rightarrow> err + dict" where
  "request_json Api_Http_Error = Inl RuntimeError"
| "request_json Api_Unavailable = Inl RuntimeError"
| "request_json Api_Empty = Inr []"
| "request_json Api_Not_Json = Inl RuntimeError"
| "request_json (Api_Json v) = Inr (case as_obj v of None \<Rightarrow> [] | Some d \<Rightarrow> d)"

definition path_snapshot :: "string \<Rightarrow> dict \<Rightarrow> dict option" where
  "path_snapshot path payload =
     (case as_list (dget_or payload ''items'' (JList [])) of
        None \<Rightarrow> None
      | Some items \<Rightarrow> find (\<lambda>d. dget d ''name'' = JStr path) (List.map_filter as_obj items))"

fun validated_observed_at :: "json \<Rightarrow> err + rat" where
  "validated_observed_at (JInt n) =
     (if float_of_int n = None \<or> n < 0 then Inl IngestObservationClockError else Inr (of_int n))"
| "validated_observed_at (JFloat (Fin x)) = (if x < 0 then Inl IngestObservationClockError else Inr x)"
| "validated_observed_at _ = Inl IngestObservationClockError"

text \<open>\<open>int(value)\<close>: a float is truncated; \<open>OverflowError\<close> of an infinity is not caught.\<close>

fun safe_int :: "json \<Rightarrow> err + int option" where
  "safe_int (JBool b) = Inr (Some (if b then 1 else 0))"
| "safe_int (JInt i) = Inr (Some i)"
| "safe_int (JFloat (Fin x)) = Inr (Some (if 0 \<le> x then \<lfloor>x\<rfloor> else \<lceil>x\<rceil>))"
| "safe_int (JFloat NaN) = Inr None"
| "safe_int (JFloat _) = Inl OverflowError"
| "safe_int (JStr s) = Inr (int_of_str s)"
| "safe_int _ = Inr None"

section \<open>Tracks\<close>

definition py_text :: "(json \<Rightarrow> string) \<Rightarrow> json \<Rightarrow> string" where
  "py_text py_str v = (case as_str v of Some s \<Rightarrow> s | None \<Rightarrow> py_str v)"

definition normalise_track :: "(json \<Rightarrow> string) \<Rightarrow> dict \<Rightarrow> dict" where
  "normalise_track py_str item =
     (let props = (case as_obj (dget item ''codecProps'') of None \<Rightarrow> [] | Some p \<Rightarrow> p) in
      (''codec'', JStr (py_text py_str (dget_or item ''codec'' (JStr [])))) #
      map (\<lambda>k. (k, dget props k))
        (filter (dhas props) [''width'', ''height'', ''profile'', ''level'', ''sampleRate'', ''channelCount'']))"

definition normalise_tracks :: "(json \<Rightarrow> string) \<Rightarrow> json list \<Rightarrow> dict list" where
  "normalise_tracks py_str tracks = map (normalise_track py_str) (List.map_filter as_obj (take 8 tracks))"

definition codec_in :: "string list \<Rightarrow> dict \<Rightarrow> bool" where
  "codec_in codecs track = (case as_str (dget track ''codec'') of None \<Rightarrow> False | Some c \<Rightarrow> c \<in> set codecs)"

definition track_metadata_may_be_incomplete :: "dict list \<Rightarrow> bool" where
  "track_metadata_may_be_incomplete tracks =
     (if tracks = [] then True else
      let codecs = map (\<lambda>t. dget t ''codec'') tracks;
          video_count = length (filter (\<lambda>c. c = JStr ''H264'') codecs);
          audio_count = length (filter (\<lambda>c. c = JStr ''MPEG-4 Audio'') codecs)
      in if list_ex (\<lambda>c. c \<noteq> JStr ''H264'' \<and> c \<noteq> JStr ''MPEG-4 Audio'') codecs then False
      else if 1 < video_count \<or> 1 < audio_count then False
      else video_count \<noteq> 1 \<or> audio_count \<noteq> 1)"

definition evaluate_video :: "dict list \<Rightarrow> err + string list \<times> string list" where
  "evaluate_video video =
     (if length video \<noteq> 1 \<or> dget (hd video) ''codec'' \<noteq> JStr ''H264'' then Inr ([''VIDEO_CODEC_UNSUPPORTED''], [])
      else rbind (safe_int (dget (hd video) ''width'')) (\<lambda>width.
           rbind (safe_int (dget (hd video) ''height'')) (\<lambda>height.
           Inr (case (width, height) of
                  (Some w, Some h) \<Rightarrow> (if (w, h) \<in> set ALLOWED_RESOLUTIONS then [] else [''RESOLUTION_UNSUPPORTED''], [])
                | _ \<Rightarrow> ([], [''VIDEO_DIMENSIONS_UNKNOWN''])))))"

definition evaluate_audio :: "dict list \<Rightarrow> err + string list \<times> string list" where
  "evaluate_audio audio =
     (if length audio \<noteq> 1 \<or> dget (hd audio) ''codec'' \<noteq> JStr ''MPEG-4 Audio'' then Inr ([''AUDIO_CODEC_UNSUPPORTED''], [])
      else rbind (safe_int (dget (hd audio) ''sampleRate'')) (\<lambda>sample_rate.
           rbind (safe_int (dget (hd audio) ''channelCount'')) (\<lambda>channels.
           Inr (case channels of None \<Rightarrow> [] | Some c \<Rightarrow> if c \<in> {1, 2} then [] else [''AUDIO_CHANNELS_UNSUPPORTED''],
                (case sample_rate of None \<Rightarrow> [''AUDIO_SAMPLE_RATE_UNKNOWN'']
                 | Some r \<Rightarrow> if r = 48000 then [] else [''AUDIO_SAMPLE_RATE_NON_PREFERRED'']) @
                (case channels of None \<Rightarrow> [''AUDIO_CHANNELS_UNKNOWN''] | Some c \<Rightarrow> [])))))"

definition evaluate_tracks :: "dict list \<Rightarrow> err + string list \<times> string list" where
  "evaluate_tracks tracks =
     rbind (evaluate_video (filter (codec_in VIDEO_CODECS) tracks)) (\<lambda>(vr, vw).
     rbind (evaluate_audio (filter (codec_in AUDIO_CODECS) tracks)) (\<lambda>(ar, aw).
     Inr (vr @ ar, vw @ aw)))"

section \<open>The inspector\<close>

record policy_config =
  pc_path :: string
  max_bitrate_bps :: int
  bitrate_violation_samples :: nat

record inspector =
  last_source_id :: "string option"
  last_inbound_bytes :: "int option"
  last_sample_at :: "rat option"
  over_bitrate_samples :: nat
  last_enforced_source_id :: "string option"

definition new_inspector :: inspector where
  "new_inspector = \<lparr>last_source_id = None, last_inbound_bytes = None, last_sample_at = None,
     over_bitrate_samples = 0, last_enforced_source_id = None\<rparr>"

definition reset_sampling :: "inspector \<Rightarrow> inspector" where
  "reset_sampling st = st\<lparr>last_source_id := None, last_inbound_bytes := None, last_sample_at := None, over_bitrate_samples := 0\<rparr>"

datatype ingest_status = OFFLINE | REJECTED | PENDING | WARNING | ACCEPTED

record observation =
  ob_status :: ingest_status
  ob_online :: bool
  ob_source_type :: "string option"
  ob_source_id :: "string option"
  ob_bitrate :: "pyfloat option"
  ob_tracks :: "dict list"
  ob_reasons :: "string list"
  ob_warnings :: "string list"
  ob_enforced :: bool
  ob_enforcement_failed :: bool
  ob_observed_at :: rat

text \<open>\<open>round(x, 1)\<close>: to one decimal, halves to even.\<close>

definition round1 :: "pyfloat \<Rightarrow> pyfloat" where
  "round1 f = (case f of
     Fin x \<Rightarrow> (let y = 10 * x; n = \<lfloor>y\<rfloor>; r = y - of_int n in
       Fin (of_int (if r < 1 / 2 \<or> r = 1 / 2 \<and> even n then n else n + 1) / 10))
   | g \<Rightarrow> g)"

definition bitrate_of :: "int \<Rightarrow> rat \<Rightarrow> err + pyfloat" where
  "bitrate_of bytes elapsed =
     (case float_of_int bytes of
        None \<Rightarrow> Inl OverflowError
      | Some f \<Rightarrow> Inr (fscale (fscale f 8) (1 / elapsed)))"

definition above :: "pyfloat \<Rightarrow> int \<Rightarrow> bool" where
  "above f n = (case f of Fin x \<Rightarrow> of_int n < x | PosInf \<Rightarrow> True | _ \<Rightarrow> False)"

definition sample ::
  "string option \<Rightarrow> int option \<Rightarrow> rat \<Rightarrow> inspector \<Rightarrow> err + pyfloat option \<times> inspector"
where
  "sample source_id inbound_bytes observed_at st =
     (if source_id \<noteq> last_source_id st then
        Inr (None, \<lparr>last_source_id = source_id, last_inbound_bytes = inbound_bytes, last_sample_at = Some observed_at,
          over_bitrate_samples = 0, last_enforced_source_id = None\<rparr>)
      else case (inbound_bytes, last_inbound_bytes st, last_sample_at st) of
        (Some now_bytes, Some then_bytes, Some then_at) \<Rightarrow>
          if then_at < observed_at \<and> then_bytes \<le> now_bytes then
            rbind (bitrate_of (now_bytes - then_bytes) (observed_at - then_at)) (\<lambda>b.
            Inr (Some b, st\<lparr>last_inbound_bytes := Some now_bytes, last_sample_at := Some observed_at\<rparr>))
          else Inr (None, st)
      | _ \<Rightarrow> Inr (None, st))"

text \<open>The bitrate verdict: further reasons, further warnings and the counter.\<close>

definition judge_bitrate :: "policy_config \<Rightarrow> pyfloat option \<Rightarrow> inspector \<Rightarrow> string list \<times> string list \<times> inspector" where
  "judge_bitrate config bitrate st =
     (case bitrate of
        None \<Rightarrow> ([], [], st)
      | Some b \<Rightarrow>
          if above b (max_bitrate_bps config) then
            let st' = st\<lparr>over_bitrate_samples := over_bitrate_samples st + 1\<rparr> in
            if bitrate_violation_samples config \<le> over_bitrate_samples st' then ([''BITRATE_TOO_HIGH''], [], st')
            else ([], [''BITRATE_ABOVE_LIMIT_PENDING''], st')
          else ([], [], st\<lparr>over_bitrate_samples := 0\<rparr>))"

definition nonempty_text :: "string \<Rightarrow> string option" where
  "nonempty_text s = (if s = [] then None else Some s)"

definition offline_observation :: "rat \<Rightarrow> observation" where
  "offline_observation observed_at = \<lparr>ob_status = OFFLINE, ob_online = False, ob_source_type = None, ob_source_id = None,
     ob_bitrate = None, ob_tracks = [], ob_reasons = [], ob_warnings = [], ob_enforced = False,
     ob_enforcement_failed = False, ob_observed_at = observed_at\<rparr>"

definition verdict :: "string list \<Rightarrow> string list \<Rightarrow> pyfloat option \<Rightarrow> ingest_status" where
  "verdict reasons warnings bitrate =
     (if reasons \<noteq> [] then REJECTED else if bitrate = None then PENDING else if warnings \<noteq> [] then WARNING else ACCEPTED)"

text \<open>The fields of an online snapshot that the inspector uses.\<close>

definition live_source :: "policy_config \<Rightarrow> dict \<Rightarrow> (dict \<times> dict) option" where
  "live_source config payload =
     (case path_snapshot (pc_path config) payload of
        None \<Rightarrow> None
      | Some path \<Rightarrow> if truthy (dget path ''online'') then map_option (Pair path) (as_obj (dget path ''source'')) else None)"

definition snapshot_id :: "(json \<Rightarrow> string) \<Rightarrow> dict \<Rightarrow> string option" where
  "snapshot_id py_str source = nonempty_text (py_text py_str (dget_or source ''id'' (JStr [])))"

definition snapshot_type :: "(json \<Rightarrow> string) \<Rightarrow> dict \<Rightarrow> string option" where
  "snapshot_type py_str source = nonempty_text (py_text py_str (dget_or source ''type'' (JStr [])))"

definition snapshot_tracks :: "(json \<Rightarrow> string) \<Rightarrow> dict \<Rightarrow> dict list" where
  "snapshot_tracks py_str path =
     normalise_tracks py_str (case as_list (dget_or path ''tracks2'' (JList [])) of None \<Rightarrow> [] | Some ts \<Rightarrow> ts)"

definition observe ::
  "(json \<Rightarrow> string) \<Rightarrow> policy_config \<Rightarrow> json \<Rightarrow> api_reply \<Rightarrow> inspector \<Rightarrow> (err + observation) \<times> inspector"
where
  "observe py_str config now reply st =
     (case rbind (validated_observed_at now) (\<lambda>t. rbind (request_json reply) (\<lambda>payload. Inr (t, payload))) of
        Inl e \<Rightarrow> (Inl e, st)
      | Inr (observed_at, payload) \<Rightarrow>
          (case live_source config payload of
             None \<Rightarrow> (Inr (offline_observation observed_at), reset_sampling st)
           | Some (path, source) \<Rightarrow>
               let source_id = snapshot_id py_str source; tracks = snapshot_tracks py_str path in
               (case rbind (safe_int (dget path ''inboundBytes'')) (\<lambda>inbound_bytes. sample source_id inbound_bytes observed_at st) of
                  Inl e \<Rightarrow> (Inl e, st)
                | Inr (bitrate, st1) \<Rightarrow>
                    (case evaluate_tracks tracks of
                       Inl e \<Rightarrow> (Inl e, st1)
                     | Inr (track_reasons, track_warnings) \<Rightarrow>
                         let pending = (source_id \<noteq> last_source_id st \<and> track_metadata_may_be_incomplete tracks);
                             (bitrate_reasons, bitrate_warnings, st2) = judge_bitrate config bitrate st1;
                             reasons = (if pending then [] else track_reasons) @ bitrate_reasons;
                             warnings = track_warnings @ (if pending then [''TRACK_METADATA_PENDING''] else []) @ bitrate_warnings
                         in (Inr \<lparr>ob_status = verdict reasons warnings bitrate, ob_online = True,
                               ob_source_type = snapshot_type py_str source, ob_source_id = source_id,
                               ob_bitrate = map_option round1 bitrate, ob_tracks = tracks, ob_reasons = reasons,
                               ob_warnings = warnings, ob_enforced = False, ob_enforcement_failed = False,
                               ob_observed_at = observed_at\<rparr>, st2)))))"

text \<open>The kick is a second request; \<open>kick endpoint id\<close> is the answer to it.\<close>

definition observe_and_enforce ::
  "(json \<Rightarrow> string) \<Rightarrow> (string \<Rightarrow> string \<Rightarrow> api_reply) \<Rightarrow> policy_config \<Rightarrow> json \<Rightarrow> api_reply \<Rightarrow> inspector \<Rightarrow>
     (err + observation) \<times> inspector"
where
  "observe_and_enforce py_str kick config now reply st =
     (case observe py_str config now reply st of
        (Inl e, st1) \<Rightarrow> (Inl e, st1)
      | (Inr ob, st1) \<Rightarrow>
          if ob_status ob \<noteq> REJECTED then (Inr ob, st1) else
          (case (ob_source_id ob, Option.bind (ob_source_type ob) kick_endpoint) of
             (Some source_id, Some endpoint) \<Rightarrow>
               if last_enforced_source_id st1 = Some source_id then (Inr ob, st1) else
               (case request_json (kick endpoint source_id) of
                  Inl e \<Rightarrow> (Inr (ob\<lparr>ob_enforcement_failed := True\<rparr>), st1)
                | Inr _ \<Rightarrow> (Inr (ob\<lparr>ob_enforced := True\<rparr>), st1\<lparr>last_enforced_source_id := Some source_id\<rparr>))
           | _ \<Rightarrow> (Inr ob, st1)))"

section \<open>Rounding\<close>

definition reaches :: "pyfloat \<Rightarrow> int \<Rightarrow> bool" where
  "reaches f n = (case f of Fin x \<Rightarrow> of_int n \<le> x | PosInf \<Rightarrow> True | _ \<Rightarrow> False)"

definition round_tenths :: "rat \<Rightarrow> int" where
  "round_tenths y = (let n = \<lfloor>y\<rfloor>; r = y - of_int n in if r < 1 / 2 \<or> r = 1 / 2 \<and> even n then n else n + 1)"

lemma round1_tenths: "round1 (Fin x) = Fin (of_int (round_tenths (10 * x)) / 10)"
  by (simp add: round1_def round_tenths_def Let_def)

lemma round_tenths_bounds:
  "of_int m \<le> y \<Longrightarrow> m \<le> round_tenths y" "y \<le> of_int m \<Longrightarrow> round_tenths y \<le> m"
proof -
  show "m \<le> round_tenths y" if "of_int m \<le> y"
    using that le_floor_iff [of m y] by (auto simp: round_tenths_def Let_def)
  show "round_tenths y \<le> m" if "y \<le> of_int m"
  proof (cases "y = of_int m")
    case False
    then have "\<lfloor>y\<rfloor> < m" using that by (simp add: floor_less_iff)
    then show ?thesis by (auto simp: round_tenths_def Let_def)
  qed (simp add: round_tenths_def)
qed

lemma round1_reaches: "above f n \<Longrightarrow> reaches (round1 f) n"
proof (cases f)
  case (Fin x)
  assume "above f n"
  then have "of_int (10 * n) \<le> 10 * x" using Fin by (simp add: above_def)
  then have "10 * n \<le> round_tenths (10 * x)" by (rule round_tenths_bounds)
  then have "of_int (10 * n) \<le> (of_int (round_tenths (10 * x)) :: rat)" by (simp only: of_int_le_iff)
  then show ?thesis using Fin by (simp add: round1_tenths reaches_def)
qed (auto simp: above_def reaches_def round1_def)

lemma round1_not_above: "\<not> above f n \<Longrightarrow> \<not> above (round1 f) n"
proof (cases f)
  case (Fin x)
  assume "\<not> above f n"
  then have "10 * x \<le> of_int (10 * n)" using Fin by (simp add: above_def)
  then have "round_tenths (10 * x) \<le> 10 * n" by (rule round_tenths_bounds)
  then have "(of_int (round_tenths (10 * x)) :: rat) \<le> of_int (10 * n)" by (simp only: of_int_le_iff)
  then show ?thesis using Fin by (simp add: round1_tenths above_def)
qed (auto simp: above_def round1_def)

section \<open>Runs\<close>

text \<open>
  A run of the inspector: its results, newest first, and its last state.  \<open>sustained\<close> counts back, over the
  reports of one connection, the samples whose bitrate reaches the limit.
\<close>

fun inspect_run ::
  "(json \<Rightarrow> string) \<Rightarrow> (string \<Rightarrow> string \<Rightarrow> api_reply) \<Rightarrow> policy_config \<Rightarrow> (json \<times> api_reply) list \<Rightarrow> inspector \<Rightarrow>
     (err + observation) list \<times> inspector"
where
  "inspect_run py_str kick config [] st = ([], st)"
| "inspect_run py_str kick config ((now, reply) # inputs) st =
     (let (outs, st1) = inspect_run py_str kick config inputs st;
          (out, st2) = observe_and_enforce py_str kick config now reply st1
      in (out # outs, st2))"

fun sustained :: "int \<Rightarrow> string option \<Rightarrow> (err + observation) list \<Rightarrow> nat" where
  "sustained limit sid [] = 0"
| "sustained limit sid (Inl e # outs) = sustained limit sid outs"
| "sustained limit sid (Inr ob # outs) =
     (if \<not> ob_online ob \<or> ob_source_id ob \<noteq> sid then 0 else
      (case ob_bitrate ob of
         None \<Rightarrow> sustained limit sid outs
       | Some b \<Rightarrow> if reaches b limit then Suc (sustained limit sid outs) else 0))"

lemma sample_state:
  assumes "sample sid inb t st = Inr (b, st1)"
  shows "last_source_id st1 = sid"
    and "over_bitrate_samples st1 = (if sid = last_source_id st then over_bitrate_samples st else 0)"
    and "last_enforced_source_id st1 = (if sid = last_source_id st then last_enforced_source_id st else None)"
    and "sid \<noteq> last_source_id st \<Longrightarrow> b = None"
  using assms by (auto simp: sample_def rbind_def split: if_splits option.splits sum.splits)

lemma safe_int_error: "safe_int v = Inl e \<Longrightarrow> e = OverflowError"
  by (cases v rule: safe_int.cases) auto

lemma evaluate_tracks_error: "evaluate_tracks tracks = Inl e \<Longrightarrow> e = OverflowError"
  by (auto simp: evaluate_tracks_def evaluate_video_def evaluate_audio_def rbind_def safe_int_error
      split: sum.splits if_splits)

text \<open>An observation fails and leaves the sampling state behind, is offline, or is online.\<close>

lemma observe_cases:
  obtains (failed) e where "observe py_str config now reply st = (Inl e, st)"
  | (overflow) b st1 sid inb t where "observe py_str config now reply st = (Inl OverflowError, st1)" "sample sid inb t st = Inr (b, st1)"
  | (offline) t where "observe py_str config now reply st = (Inr (offline_observation t), reset_sampling st)"
  | (online) ob b st1 inb t br bw st2 where
      "observe py_str config now reply st = (Inr ob, st2)"
      "sample (ob_source_id ob) inb t st = Inr (b, st1)" "judge_bitrate config b st1 = (br, bw, st2)"
      "ob_online ob" "ob_bitrate ob = map_option round1 b" "\<not> ob_enforced ob"
      "\<exists>tr tw. evaluate_tracks (ob_tracks ob) = Inr (tr, tw) \<and> 
         (let pending = ob_source_id ob \<noteq> last_source_id st \<and> track_metadata_may_be_incomplete (ob_tracks ob) in
          ob_reasons ob = (if pending then [] else tr) @ br \<and>
          ob_warnings ob = tw @ (if pending then [''TRACK_METADATA_PENDING''] else []) @ bw)"
      "ob_status ob = verdict (ob_reasons ob) (ob_warnings ob) b"
proof (cases "rbind (validated_observed_at now) (\<lambda>t. rbind (request_json reply) (\<lambda>payload. Inr (t, payload)))")
  case (Inl e)
  then show ?thesis by (intro failed) (simp add: observe_def)
next
  case (Inr tp)
  then obtain t payload where tp: "tp = (t, payload)" by (cases tp)
  show ?thesis
  proof (cases "live_source config payload")
    case None
    then show ?thesis using Inr tp by (intro offline) (simp add: observe_def)
  next
    case (Some ps)
    obtain path source where ps: "ps = (path, source)" by (cases ps)
    let ?sid = "snapshot_id py_str source"
    let ?smp = "rbind (safe_int (dget path ''inboundBytes'')) (\<lambda>inb. sample ?sid inb t st)"
    show ?thesis
    proof (cases ?smp)
      case (Inl e)
      then show ?thesis using Inr tp Some ps by (intro failed) (simp add: observe_def)
    next
      case smp: (Inr bs)
      obtain b st1 where bs: "bs = (b, st1)" by (cases bs)
      obtain inb where inb: "sample ?sid inb t st = Inr (b, st1)"
        using smp bs by (cases "safe_int (dget path ''inboundBytes'')") auto
      show ?thesis
      proof (cases "evaluate_tracks (snapshot_tracks py_str path)")
        case (Inl e)
        then have "e = OverflowError" by (rule evaluate_tracks_error)
        then show ?thesis using Inl Inr tp Some ps smp bs inb
          by (intro overflow [OF _ inb]) (simp add: observe_def Let_def)
      next
        case ev: (Inr rw)
        obtain tr tw where rw: "rw = (tr, tw)" by (cases rw)
        obtain br bw st2 where j: "judge_bitrate config b st1 = (br, bw, st2)" by (cases "judge_bitrate config b st1")
        let ?ob = "projr (fst (observe py_str config now reply st))"
        note facts = Inr tp Some ps smp bs inb ev rw j
        have "observe py_str config now reply st = (Inr ?ob, st2)" "ob_source_id ?ob = ?sid"
          "ob_tracks ?ob = snapshot_tracks py_str path" "ob_online ?ob" "ob_bitrate ?ob = map_option round1 b" "\<not> ob_enforced ?ob"
          "ob_reasons ?ob = (if ?sid \<noteq> last_source_id st \<and> track_metadata_may_be_incomplete (snapshot_tracks py_str path) then [] else tr) @ br"
          "ob_warnings ?ob = tw @ (if ?sid \<noteq> last_source_id st \<and> track_metadata_may_be_incomplete (snapshot_tracks py_str path)
             then [''TRACK_METADATA_PENDING''] else []) @ bw"
          "ob_status ?ob = verdict (ob_reasons ?ob) (ob_warnings ?ob) b"
          using facts by (simp_all add: observe_def Let_def)
        then show ?thesis using inb j ev rw by (intro online [of ?ob st2 inb t b st1 br bw]) simp_all
      qed
    qed
  qed
qed

lemma enforce_result:
  assumes "observe py_str config now reply st = (Inr ob, st1)" "\<not> ob_enforced ob"
  obtains enforced failed_kick st2 where
    "observe_and_enforce py_str kick config now reply st = (Inr (ob\<lparr>ob_enforced := enforced, ob_enforcement_failed := failed_kick\<rparr>), st2)"
    "last_source_id st2 = last_source_id st1" "over_bitrate_samples st2 = over_bitrate_samples st1"
    "enforced \<Longrightarrow> ob_status ob = REJECTED \<and> last_enforced_source_id st1 \<noteq> ob_source_id ob \<and> last_enforced_source_id st2 = ob_source_id ob"
    "\<not> enforced \<Longrightarrow> st2 = st1"
proof -
  note * = that
  have same: "ob = ob\<lparr>ob_enforced := False, ob_enforcement_failed := ob_enforcement_failed ob\<rparr>"
    using assms(2) by simp
  let ?res = "observe_and_enforce py_str kick config now reply st"
  show thesis
  proof (cases "\<exists>source_id endpoint. ob_status ob = REJECTED \<and> ob_source_id ob = Some source_id \<and>
      Option.bind (ob_source_type ob) kick_endpoint = Some endpoint \<and> last_enforced_source_id st1 \<noteq> Some source_id")
    case True
    then obtain source_id endpoint where k: "ob_status ob = REJECTED" "ob_source_id ob = Some source_id"
      "Option.bind (ob_source_type ob) kick_endpoint = Some endpoint" "last_enforced_source_id st1 \<noteq> Some source_id" by blast
    show thesis
    proof (cases "request_json (kick endpoint source_id)")
      case (Inl e)
      then show thesis using assms k by (intro * [where enforced = False and failed_kick = True and ?st2.0 = st1]) (simp_all add: observe_and_enforce_def)
    next
      case (Inr d)
      then show thesis using assms k
        by (intro * [where enforced = True and failed_kick = "ob_enforcement_failed ob" and ?st2.0 = "st1\<lparr>last_enforced_source_id := Some source_id\<rparr>"]) (simp_all add: observe_and_enforce_def)
    qed
  next
    case False
    then have "?res = (Inr ob, st1)"
      using assms by (auto simp: observe_and_enforce_def split: option.splits)
    then show thesis using same by (intro * [where enforced = False and failed_kick = "ob_enforcement_failed ob" and ?st2.0 = st1]) simp_all
  qed
qed

lemma enforce_error:
  "observe py_str config now reply st = (Inl e, st1) \<Longrightarrow> observe_and_enforce py_str kick config now reply st = (Inl e, st1)"
  by (simp add: observe_and_enforce_def)

lemma judge_bitrate_state:
  assumes "judge_bitrate config b st = (br, bw, st')"
  shows "last_source_id st' = last_source_id st" "last_enforced_source_id st' = last_enforced_source_id st"
    and "over_bitrate_samples st' = (case b of None \<Rightarrow> over_bitrate_samples st
          | Some x \<Rightarrow> if above x (max_bitrate_bps config) then Suc (over_bitrate_samples st) else 0)"
    and "''BITRATE_TOO_HIGH'' \<in> set br \<Longrightarrow> \<exists>x. b = Some x \<and> above x (max_bitrate_bps config) \<and> bitrate_violation_samples config \<le> over_bitrate_samples st'"
  using assms by (auto simp: judge_bitrate_def Let_def split: option.splits if_splits)

lemma video_reasons: "evaluate_video v = Inr (r, w) \<Longrightarrow> set r \<subseteq> {''VIDEO_CODEC_UNSUPPORTED'', ''RESOLUTION_UNSUPPORTED''}"
  by (auto simp: evaluate_video_def rbind_def split: sum.splits if_splits option.splits)

lemma audio_reasons: "evaluate_audio v = Inr (r, w) \<Longrightarrow> set r \<subseteq> {''AUDIO_CODEC_UNSUPPORTED'', ''AUDIO_CHANNELS_UNSUPPORTED''}"
  by (auto simp: evaluate_audio_def rbind_def split: sum.splits if_splits option.splits)

lemma track_reasons:
  assumes "evaluate_tracks tracks = Inr (tr, tw)" shows "''BITRATE_TOO_HIGH'' \<notin> set tr"
proof -
  obtain vr vw ar aw where t: "evaluate_video (filter (codec_in VIDEO_CODECS) tracks) = Inr (vr, vw)" "evaluate_audio (filter (codec_in AUDIO_CODECS) tracks) = Inr (ar, aw)" "tr = vr @ ar"
    using assms by (auto simp: evaluate_tracks_def rbind_eq_Inr)
  show ?thesis using video_reasons [OF t(1)] audio_reasons [OF t(2)] t(3) by auto
qed

lemma over_samples_step:
  assumes inv: "over_bitrate_samples st \<le> sustained (max_bitrate_bps config) (last_source_id st) outs"
    and step: "observe_and_enforce py_str kick config now reply st = (out, st')"
  shows "over_bitrate_samples st' \<le> sustained (max_bitrate_bps config) (last_source_id st') (out # outs) \<and>
    (\<forall>ob. out = Inr ob \<and> ''BITRATE_TOO_HIGH'' \<in> set (ob_reasons ob) \<longrightarrow>
       last_source_id st' = ob_source_id ob \<and> bitrate_violation_samples config \<le> over_bitrate_samples st')"
proof (cases rule: observe_cases [of py_str config now reply st])
  case (failed e)
  then show ?thesis using step inv by (auto simp: enforce_error)
next
  case (overflow b st1 sid inb t)
  then show ?thesis using step inv sample_state [OF overflow(2)] by (auto simp: enforce_error)
next
  case (offline t)
  obtain e f st2 where r: "observe_and_enforce py_str kick config now reply st =
      (Inr (offline_observation t\<lparr>ob_enforced := e, ob_enforcement_failed := f\<rparr>), st2)"
      "over_bitrate_samples st2 = over_bitrate_samples (reset_sampling st)"
    by (rule enforce_result [OF offline]) (simp add: offline_observation_def, blast)
  then show ?thesis using step by (auto simp: reset_sampling_def offline_observation_def)
next
  case (online ob b st1 inb t br bw st2)
  obtain e f st3 where r: "observe_and_enforce py_str kick config now reply st =
      (Inr (ob\<lparr>ob_enforced := e, ob_enforcement_failed := f\<rparr>), st3)"
      "last_source_id st3 = last_source_id st2" "over_bitrate_samples st3 = over_bitrate_samples st2"
    by (rule enforce_result [OF online(1,6)]) blast
  note smp = sample_state [OF online(2)] and jud = judge_bitrate_state [OF online(3)]
  have sid: "last_source_id st3 = ob_source_id ob" using r smp jud by simp
  have "over_bitrate_samples st3 \<le> sustained (max_bitrate_bps config) (ob_source_id ob) (Inr ob # outs)"
    using r(3) smp jud online(4,5) inv by (cases b) (auto simp: round1_reaches split: if_splits)
  moreover have "bitrate_violation_samples config \<le> over_bitrate_samples st3" if "''BITRATE_TOO_HIGH'' \<in> set (ob_reasons ob)"
    using that online(7) track_reasons jud(4) r(3) by (fastforce simp: Let_def split: if_splits)
  ultimately show ?thesis using r(1) step sid by auto
qed

lemma over_samples_run:
  assumes "inspect_run py_str kick config inputs st = (outs, st')" "over_bitrate_samples st = 0"
  shows "over_bitrate_samples st' \<le> sustained (max_bitrate_bps config) (last_source_id st') outs"
  using assms
proof (induction inputs arbitrary: outs st')
  case (Cons input inputs)
  obtain now reply where i: "input = (now, reply)" by (cases input)
  obtain outs1 st1 where r: "inspect_run py_str kick config inputs st = (outs1, st1)" by (cases "inspect_run py_str kick config inputs st")
  obtain out st2 where o: "observe_and_enforce py_str kick config now reply st1 = (out, st2)" by (cases "observe_and_enforce py_str kick config now reply st1")
  show ?case using over_samples_step [OF Cons.IH [OF r Cons.prems(2)] o] Cons.prems(1) i r o by auto
qed simp

section \<open>Properties\<close>

text \<open>A publisher is rejected for its bitrate only when it is sustained: in every run of the inspector, errors
  of the media server and clock included, an observation that gives BITRATE_TOO_HIGH as a reason is the
  last of at least the configured number of samples of the same connection, with no disconnect, no other
  connection and no sample below the limit between them, all of which report a bitrate at or above it.\<close>

theorem bitrate_rejection_sustained:
  assumes "inspect_run py_str kick config inputs new_inspector = (Inr ob # outs, st)"
    and "''BITRATE_TOO_HIGH'' \<in> set (ob_reasons ob)"
  shows "bitrate_violation_samples config \<le> sustained (max_bitrate_bps config) (ob_source_id ob) (Inr ob # outs)"
proof -
  obtain now reply inputs' where inputs: "inputs = (now, reply) # inputs'"
    using assms(1) by (cases inputs) auto
  obtain outs1 st1 where r: "inspect_run py_str kick config inputs' new_inspector = (outs1, st1)"
    by (cases "inspect_run py_str kick config inputs' new_inspector")
  have o: "observe_and_enforce py_str kick config now reply st1 = (Inr ob, st)" and "outs1 = outs"
    using assms(1) r by (auto simp: inputs split: prod.splits)
  have "over_bitrate_samples st1 \<le> sustained (max_bitrate_bps config) (last_source_id st1) outs1"
    by (rule over_samples_run [OF r]) (simp add: new_inspector_def)
  from over_samples_step [OF this o] show ?thesis
    using assms(2) \<open>outs1 = outs\<close> by (auto simp del: sustained.simps intro: order_trans)
qed

definition demo_config :: policy_config where
  "demo_config = \<lparr>pc_path = ''live/input'', max_bitrate_bps = 6000000, bitrate_violation_samples = 2\<rparr>"

definition demo_snapshot :: "string \<Rightarrow> int \<Rightarrow> api_reply" where
  "demo_snapshot sid bytes = Api_Json (JObj [(''items'', JList [JObj [
     (''name'', JStr ''live/input''), (''online'', JBool True), (''inboundBytes'', JInt bytes),
     (''source'', JObj [(''id'', JStr sid), (''type'', JStr ''srtConn'')]),
     (''tracks2'', JList [
        JObj [(''codec'', JStr ''H264''), (''codecProps'', JObj [(''width'', JInt 1280), (''height'', JInt 720)])],
        JObj [(''codec'', JStr ''MPEG-4 Audio''), (''codecProps'', JObj [(''sampleRate'', JInt 48000), (''channelCount'', JInt 1)])]])]])])"

definition demo_results :: "(err + observation) list \<times> inspector" where
  "demo_results = inspect_run (\<lambda>v. []) (\<lambda>e i. Api_Empty) demo_config
     [(JInt 13, demo_snapshot ''a'' 5000000), (JInt 12, demo_snapshot ''a'' 4000000),
      (JInt 11, Api_Unavailable), (JInt 10, demo_snapshot ''a'' 0)] new_inspector"

lemma demo_kick:
  "ob_enforced (projr (hd (fst demo_results)))"
  "demo_results = (Inr (projr (hd (fst demo_results))) # tl (fst demo_results), snd demo_results)"
  "''BITRATE_TOO_HIGH'' \<in> set (ob_reasons (projr (hd (fst demo_results))))"
  "ob_source_id (projr (hd (fst demo_results))) = Some ''a''"
  by code_simp+

theorem bitrate_rejection_sustained_witness:
  "2 \<le> sustained 6000000 (Some ''a'') (Inr (projr (hd (fst demo_results))) # tl (fst demo_results))"
proof -
  have "2 = bitrate_violation_samples demo_config" "6000000 = max_bitrate_bps demo_config" by (simp_all add: demo_config_def)
  then show ?thesis
    using bitrate_rejection_sustained [OF trans [OF demo_results_def [symmetric] demo_kick(2)] demo_kick(3)]
    by (simp only: demo_kick(4))
qed

abbreviation kicked :: "err + observation \<Rightarrow> bool" where
  "kicked r \<equiv> (case r of Inl e \<Rightarrow> False | Inr ob \<Rightarrow> ob_enforced ob)"

definition stays_on :: "string \<Rightarrow> err + observation \<Rightarrow> bool" where
  "stays_on sid r = (case r of Inl e \<Rightarrow> e \<noteq> OverflowError | Inr ob \<Rightarrow> ob_online ob \<and> ob_source_id ob = Some sid)"

lemma kick_step:
  assumes "observe_and_enforce py_str kick config now reply st = (out, st')" "stays_on sid out"
  shows "kicked out \<longrightarrow> \<not> (last_enforced_source_id st = Some sid \<and> last_source_id st = Some sid)"
    and "kicked out \<or> last_enforced_source_id st = Some sid \<and> last_source_id st = Some sid \<longrightarrow>
      last_enforced_source_id st' = Some sid \<and> last_source_id st' = Some sid"
proof -
  have "(kicked out \<longrightarrow> \<not> (last_enforced_source_id st = Some sid \<and> last_source_id st = Some sid)) \<and>
    (kicked out \<or> last_enforced_source_id st = Some sid \<and> last_source_id st = Some sid \<longrightarrow>
      last_enforced_source_id st' = Some sid \<and> last_source_id st' = Some sid)"
  proof (cases rule: observe_cases [of py_str config now reply st])
    case (failed e)
    then show ?thesis using assms by (auto simp: enforce_error)
  next
    case (overflow b st1 sid inb t)
    then show ?thesis using assms by (auto simp: enforce_error stays_on_def)
  next
    case (offline t)
    obtain e f st2 where "observe_and_enforce py_str kick config now reply st =
        (Inr (offline_observation t\<lparr>ob_enforced := e, ob_enforcement_failed := f\<rparr>), st2)"
      by (rule enforce_result [OF offline]) (simp add: offline_observation_def, blast)
    then show ?thesis using assms by (auto simp: stays_on_def offline_observation_def)
  next
    case (online ob b st1 inb t br bw st2)
    obtain e f st3 where r: "observe_and_enforce py_str kick config now reply st =
        (Inr (ob\<lparr>ob_enforced := e, ob_enforcement_failed := f\<rparr>), st3)" "last_source_id st3 = last_source_id st2"
        "e \<longrightarrow> last_enforced_source_id st2 \<noteq> ob_source_id ob \<and> last_enforced_source_id st3 = ob_source_id ob"
        "\<not> e \<longrightarrow> st3 = st2"
      by (rule enforce_result [OF online(1,6)]) blast
    have "ob_source_id ob = Some sid" using assms r(1) by (auto simp: stays_on_def)
    then show ?thesis
      using assms(1) r sample_state(1,3) [OF online(2)] judge_bitrate_state(1,2) [OF online(3)] by (cases e) auto
  qed
  then show "kicked out \<longrightarrow> \<not> (last_enforced_source_id st = Some sid \<and> last_source_id st = Some sid)"
    "kicked out \<or> last_enforced_source_id st = Some sid \<and> last_source_id st = Some sid \<longrightarrow>
      last_enforced_source_id st' = Some sid \<and> last_source_id st' = Some sid" by blast+
qed

lemma kicks_run:
  assumes "inspect_run py_str kick config inputs st = (outs, st')" "list_all (stays_on sid) outs"
  shows "length (filter kicked outs) \<le> 1 \<and>
    (length (filter kicked outs) = 1 \<longrightarrow> last_enforced_source_id st' = Some sid \<and> last_source_id st' = Some sid)"
  using assms
proof (induction inputs arbitrary: outs st')
  case (Cons input inputs)
  obtain now reply where i: "input = (now, reply)" by (cases input)
  obtain outs1 st1 where r: "inspect_run py_str kick config inputs st = (outs1, st1)" by (cases "inspect_run py_str kick config inputs st")
  obtain out st2 where o: "observe_and_enforce py_str kick config now reply st1 = (out, st2)" by (cases "observe_and_enforce py_str kick config now reply st1")
  have outs: "outs = out # outs1" "st' = st2" using Cons.prems(1) i r o by auto
  then have "stays_on sid out" "list_all (stays_on sid) outs1" using Cons.prems(2) by auto
  with Cons.IH [OF r] kick_step [OF o] show ?case by (auto simp: outs le_Suc_eq)
qed simp

text \<open>A rejected publisher is disconnected at most once: as long as the snapshots show the same connection,
  whatever the media server answers to the kicks and however many observations fail on the way (other than
  by an infinite number in the snapshot), at most one observation reports a successful kick.\<close>

theorem kicked_at_most_once:
  assumes "inspect_run py_str kick config inputs st = (outs, st')" "list_all (stays_on sid) outs"
  shows "length (filter kicked outs) \<le> 1"
  using kicks_run [OF assms] by blast

theorem kicked_at_most_once_witness:
  "length (filter kicked (fst demo_results)) \<le> 1 \<and> kicked (hd (fst demo_results))"
proof
  show "length (filter kicked (fst demo_results)) \<le> 1"
    by (rule kicked_at_most_once [OF demo_results_def [symmetric, THEN trans [OF _ prod.collapse [symmetric]]], of "''a''"]) code_simp
  show "kicked (hd (fst demo_results))" by code_simp
qed

lemma evaluate_video_clean:
  assumes "evaluate_video vs = Inr ([], [])"
  shows "\<exists>v w h. vs = [v] \<and> dget v ''codec'' = JStr ''H264'' \<and> safe_int (dget v ''width'') = Inr (Some w) \<and>
    safe_int (dget v ''height'') = Inr (Some h) \<and> (w, h) \<in> {(1280, 720), (1920, 1080)}"
  using assms
  by (auto simp: evaluate_video_def rbind_def ALLOWED_RESOLUTIONS_def length_Suc_conv
      split: if_splits sum.splits option.splits)

lemma evaluate_audio_clean:
  assumes "evaluate_audio as = Inr ([], [])"
  shows "\<exists>a ch. as = [a] \<and> dget a ''codec'' = JStr ''MPEG-4 Audio'' \<and> safe_int (dget a ''sampleRate'') = Inr (Some 48000) \<and>
    safe_int (dget a ''channelCount'') = Inr (Some ch) \<and> ch \<in> {1, 2}"
  using assms
  by (auto simp: evaluate_audio_def rbind_def length_Suc_conv split: if_splits sum.splits option.splits)

lemma evaluate_tracks_clean:
  assumes "evaluate_tracks tracks = Inr ([], [])"
  shows "evaluate_video (filter (codec_in VIDEO_CODECS) tracks) = Inr ([], [])"
    and "evaluate_audio (filter (codec_in AUDIO_CODECS) tracks) = Inr ([], [])"
  using assms by (auto simp: evaluate_tracks_def rbind_def split: sum.splits)

text \<open>What the inspector accepts satisfies the input policy: exactly one video track, H264 in one of the allowed
  resolutions, exactly one audio track, AAC at 48 kHz with one or two channels, and a sampled bitrate that
  is not above the configured limit.\<close>

theorem accepted_meets_policy:
  assumes "observe py_str config now reply st = (Inr ob, st')" "ob_status ob = ACCEPTED"
  shows "\<exists>v a w h ch b.
    filter (codec_in VIDEO_CODECS) (ob_tracks ob) = [v] \<and> dget v ''codec'' = JStr ''H264'' \<and>
    safe_int (dget v ''width'') = Inr (Some w) \<and> safe_int (dget v ''height'') = Inr (Some h) \<and> (w, h) \<in> {(1280, 720), (1920, 1080)} \<and>
    filter (codec_in AUDIO_CODECS) (ob_tracks ob) = [a] \<and> dget a ''codec'' = JStr ''MPEG-4 Audio'' \<and>
    safe_int (dget a ''sampleRate'') = Inr (Some 48000) \<and> safe_int (dget a ''channelCount'') = Inr (Some ch) \<and> ch \<in> {1, 2} \<and>
    ob_bitrate ob = Some b \<and> \<not> above b (max_bitrate_bps config)"
proof (cases rule: observe_cases [of py_str config now reply st])
  case (online ob' b st1 inb t br bw st2)
  then have [simp]: "ob' = ob" using assms by simp
  have v: "ob_reasons ob = []" "ob_warnings ob = []" "b \<noteq> None"
    using online(8) assms(2) by (auto simp: verdict_def split: if_splits)
  then have "ob_source_id ob = last_source_id st" using sample_state(4) [OF online(2)] by auto
  then have ev: "evaluate_tracks (ob_tracks ob) = Inr ([], [])" and j: "judge_bitrate config b st1 = ([], [], st2)"
    using online(3,7) v by auto
  have bitrate: "\<exists>x. ob_bitrate ob = Some x \<and> \<not> above x (max_bitrate_bps config)"
    using j v(3) online(5) round1_not_above by (auto simp: judge_bitrate_def Let_def split: if_splits)
  show ?thesis
    using bitrate evaluate_video_clean [OF evaluate_tracks_clean(1) [OF ev]]
      evaluate_audio_clean [OF evaluate_tracks_clean(2) [OF ev]] by blast
qed (use assms in \<open>auto simp: offline_observation_def\<close>)

definition demo_accepted :: "(err + observation) \<times> inspector" where
  "demo_accepted = observe (\<lambda>v. []) demo_config (JInt 12) (demo_snapshot ''a'' 500000)
     \<lparr>last_source_id = Some ''a'', last_inbound_bytes = Some 0, last_sample_at = Some 10,
      over_bitrate_samples = 0, last_enforced_source_id = None\<rparr>"

lemma demo_accepted_ok:
  "demo_accepted = (Inr (projr (fst demo_accepted)), snd demo_accepted)" "ob_status (projr (fst demo_accepted)) = ACCEPTED"
  by code_simp+

theorem accepted_meets_policy_witness:
  "ob_status (projr (fst demo_accepted)) = ACCEPTED \<and>
   (\<exists>b. ob_bitrate (projr (fst demo_accepted)) = Some b \<and> \<not> above b 6000000)"
proof -
  have "max_bitrate_bps demo_config = 6000000" by (simp add: demo_config_def)
  then show ?thesis
    using accepted_meets_policy [OF trans [OF demo_accepted_def [symmetric] demo_accepted_ok(1)] demo_accepted_ok(2)]
      demo_accepted_ok(2) by auto
qed

end
