(* ===== verification/Ingest_Auth_Guard.thy ===== *)
theory Ingest_Auth_Guard
  imports Python_Text "HOL-Library.Multiset"
begin

text \<open>
  Failure windows and lockouts for ingest authentication (\<open>apps/control-api/ingest_auth_guard.py\<close>).

  The SHA-256 hex digest, the canonical text of an IP address and of a UUID, and the parser of a float in
  the environment are parameters.  A method is one locked cycle of its authority file; the clock is an
  argument.
\<close>

section \<open>Configuration\<close>

record guard_config =
  guard_enabled :: bool
  failure_window_seconds :: rat
  max_failures_per_ip :: int
  max_failures_per_credential :: int
  lockout_seconds :: rat
  event_limit :: nat
  bucket_limit :: nat
  blocked_event_interval_seconds :: rat

definition env_float :: "(string \<Rightarrow> pyfloat option) \<Rightarrow> (string \<Rightarrow> string option) \<Rightarrow> string \<Rightarrow> rat \<Rightarrow> rat \<Rightarrow> rat \<Rightarrow> rat" where
  "env_float parse_float getenv name dflt minimum maximum =
     (let v = (case getenv name of None \<Rightarrow> dflt | Some s \<Rightarrow> (case parse_float s of Some (Fin x) \<Rightarrow> x | _ \<Rightarrow> dflt)) in
      min maximum (max minimum v))"

definition env_int :: "(string \<Rightarrow> string option) \<Rightarrow> string \<Rightarrow> int \<Rightarrow> int \<Rightarrow> int \<Rightarrow> int" where
  "env_int getenv name dflt minimum maximum =
     (let v = (case getenv name of None \<Rightarrow> dflt | Some s \<Rightarrow> (case int_of_str s of Some i \<Rightarrow> i | None \<Rightarrow> dflt)) in
      min maximum (max minimum v))"

definition guard_from_env :: "(string \<Rightarrow> pyfloat option) \<Rightarrow> (string \<Rightarrow> string option) \<Rightarrow> guard_config" where
  "guard_from_env parse_float getenv = \<lparr>
     guard_enabled = (getenv ''IRLIGHT_INGEST_AUTH_GUARD_ENABLED'' \<noteq> Some ''0''),
     failure_window_seconds = env_float parse_float getenv ''IRLIGHT_INGEST_AUTH_FAILURE_WINDOW_SECONDS'' 60 1 3600,
     max_failures_per_ip = env_int getenv ''IRLIGHT_INGEST_AUTH_MAX_FAILURES_PER_IP'' 20 1 10000,
     max_failures_per_credential = env_int getenv ''IRLIGHT_INGEST_AUTH_MAX_FAILURES_PER_CREDENTIAL'' 8 1 10000,
     lockout_seconds = env_float parse_float getenv ''IRLIGHT_INGEST_AUTH_LOCKOUT_SECONDS'' 120 1 86400,
     event_limit = nat (env_int getenv ''IRLIGHT_INGEST_AUTH_EVENT_LIMIT'' 200 1 5000),
     bucket_limit = nat (env_int getenv ''IRLIGHT_INGEST_AUTH_BUCKET_LIMIT'' 4096 32 100000),
     blocked_event_interval_seconds = env_float parse_float getenv ''IRLIGHT_INGEST_AUTH_BLOCKED_EVENT_INTERVAL_SECONDS'' 5 (1 / 10) 3600\<rparr>"

section \<open>Normalised arguments\<close>

definition safe_text :: "string \<Rightarrow> nat \<Rightarrow> string option" where
  "safe_text value limit = (let normalized = py_strip value in if normalized = [] then None else Some (take limit normalized))"

record guard_env =
  digest :: "string \<Rightarrow> string"
  ip_text :: "string \<Rightarrow> string option"
  uuid_text :: "string \<Rightarrow> string option"

definition normalize_ip :: "guard_env \<Rightarrow> string \<Rightarrow> string option" where
  "normalize_ip env value = map_option (\<lambda>raw. case ip_text env raw of Some t \<Rightarrow> t | None \<Rightarrow> raw) (safe_text value 128)"

definition guard_session_id :: "guard_env \<Rightarrow> string \<Rightarrow> string option" where
  "guard_session_id env value = Option.bind (safe_text value 128) (uuid_text env)"

definition fingerprint :: "guard_env \<Rightarrow> string \<Rightarrow> string option" where
  "fingerprint env value = map_option (\<lambda>raw. take 16 (digest env raw)) (safe_text value 256)"

definition guard_timestamp :: "json option \<Rightarrow> pyfloat \<Rightarrow> err + rat" where
  "guard_timestamp value clock =
     (case runtime_timestamp value clock of Inl _ \<Rightarrow> Inl IngestAuthGuardStateError | Inr t \<Rightarrow> Inr t)"

definition bucket_key :: "guard_env \<Rightarrow> string \<Rightarrow> string \<Rightarrow> string" where
  "bucket_key env scope value = scope @ '':'' @ digest env value"

type_synonym scope_spec = "string \<times> string \<times> int"

definition scope_specs :: "guard_env \<Rightarrow> guard_config \<Rightarrow> string \<Rightarrow> string \<Rightarrow> scope_spec list" where
  "scope_specs env config source_ip username =
     (case normalize_ip env source_ip of None \<Rightarrow> [] | Some ip \<Rightarrow> [(''ip'', ip, max_failures_per_ip config)]) @
     (case safe_text username 256 of None \<Rightarrow> [] | Some u \<Rightarrow> [(''credential'', u, max_failures_per_credential config)])"

section \<open>The document\<close>

record guard_bucket =
  b_failures :: "rat list"
  b_locked_until :: rat
  b_last_seen_at :: rat
  b_last_blocked_event_at :: "rat option"

type_synonym buckets = "(string \<times> guard_bucket) list"

record guard_state =
  g_buckets :: buckets
  g_events :: "json list"
  g_next_sequence :: int

definition empty_guard :: guard_state where
  "empty_guard = \<lparr>g_buckets = [], g_events = [], g_next_sequence = 1\<rparr>"

definition nonnegative_number :: "json \<Rightarrow> rat option" where
  "nonnegative_number v = (case finite_argument v of Inr x \<Rightarrow> if 0 \<le> x then Some x else None | Inl _ \<Rightarrow> None)"

definition bucket_key_ok :: "string \<Rightarrow> bool" where
  "bucket_key_ok key \<longleftrightarrow>
     (starts_with ''ip:'' key \<and> is_digest (drop 3 key)) \<or> (starts_with ''credential:'' key \<and> is_digest (drop 11 key))"

definition decode_bucket :: "json \<Rightarrow> guard_bucket option" where
  "decode_bucket v =
     Option.bind (as_obj v) (\<lambda>d.
     if \<not> set (map fst d) \<subseteq> {''failures'', ''locked_until'', ''last_seen_at'', ''last_blocked_event_at''} then None else
     Option.bind (as_list (dget d ''failures'')) (\<lambda>raw.
     Option.bind (those (map nonnegative_number raw)) (\<lambda>failures.
     Option.bind (nonnegative_number (dget_or d ''locked_until'' (JTime 0))) (\<lambda>locked.
     Option.bind (nonnegative_number (dget_or d ''last_seen_at'' (JTime 0))) (\<lambda>seen.
     Option.bind (nonnegative_number (dget_or d ''last_blocked_event_at'' (JTime 0))) (\<lambda>told.
     Some \<lparr>b_failures = failures, b_locked_until = locked, b_last_seen_at = seen,
       b_last_blocked_event_at = (if dhas d ''last_blocked_event_at'' then Some told else None)\<rparr>))))))"

definition EVENT_TYPES :: "string list" where
  "EVENT_TYPES = [''ingest.auth_failed'', ''ingest.auth_locked'', ''ingest.auth_blocked'']"

definition event_sequence :: "json \<Rightarrow> int option" where
  "event_sequence v =
     Option.bind (as_obj v) (\<lambda>event.
     if set (map fst event) \<noteq> {''sequence'', ''type'', ''occurred_at'', ''payload''} then None else
     Option.bind (as_int (dget event ''sequence'')) (\<lambda>sequence.
     if sequence < 1 \<or> \<not> list_ex (\<lambda>t. dget event ''type'' = JStr t) EVENT_TYPES \<or> as_obj (dget event ''payload'') = None \<or>
        nonnegative_number (dget event ''occurred_at'') = None
     then None else Some sequence))"

definition guard_validate :: "json \<Rightarrow> guard_state option" where
  "guard_validate raw =
     Option.bind (as_obj raw) (\<lambda>doc.
     Option.bind (as_obj (dget doc ''buckets'')) (\<lambda>buckets.
     Option.bind (as_list (dget doc ''events'')) (\<lambda>events.
     Option.bind (as_int (dget doc ''next_sequence'')) (\<lambda>next_sequence.
     if next_sequence < 1 \<or> \<not> list_all (bucket_key_ok \<circ> fst) buckets then None else
     Option.bind (those (map (\<lambda>(k, v). map_option (Pair k) (decode_bucket v)) buckets)) (\<lambda>bs.
     Option.bind (those (map event_sequence events)) (\<lambda>sequences.
     if \<not> list_all (\<lambda>s. s < next_sequence) sequences then None
     else Some \<lparr>g_buckets = bs, g_events = events, g_next_sequence = next_sequence\<rparr>))))))"

definition last_n :: "nat \<Rightarrow> 'a list \<Rightarrow> 'a list" where
  "last_n n xs = drop (length xs - n) xs"

definition guard_decode :: "guard_config \<Rightarrow> json \<Rightarrow> guard_state option" where
  "guard_decode config raw = map_option (\<lambda>m. m\<lparr>g_events := last_n (event_limit config) (g_events m)\<rparr>) (guard_validate raw)"

definition bucket_doc :: "guard_bucket \<Rightarrow> json" where
  "bucket_doc b = JObj ([(''failures'', JList (map JTime (b_failures b))), (''locked_until'', JTime (b_locked_until b)),
     (''last_seen_at'', JTime (b_last_seen_at b))] @
     (case b_last_blocked_event_at b of None \<Rightarrow> [] | Some t \<Rightarrow> [(''last_blocked_event_at'', JTime t)]))"

text \<open>\<open>sort_keys\<close> orders the buckets of the file, and so the ties of a later eviction.\<close>

definition guard_doc :: "guard_config \<Rightarrow> guard_state \<Rightarrow> json" where
  "guard_doc config m = JObj [
     (''buckets'', JObj (map (\<lambda>(k, b). (k, bucket_doc b)) (sort_key fst (g_buckets m)))),
     (''events'', JList (last_n (event_limit config) (g_events m))),
     (''next_sequence'', JInt (g_next_sequence m))]"

definition guard_encode :: "guard_config \<Rightarrow> guard_state \<Rightarrow> json option" where
  "guard_encode config m = (if guard_validate (guard_doc config m) = None then None else Some (guard_doc config m))"

definition guard_norm :: "guard_config \<Rightarrow> guard_state \<Rightarrow> guard_state" where
  "guard_norm config m = m\<lparr>g_buckets := sort_key fst (g_buckets m), g_events := last_n (event_limit config) (g_events m)\<rparr>"

section \<open>The codec\<close>

lemma nonnegative_JTime [simp]: "nonnegative_number (JTime t) = (if 0 \<le> t then Some t else None)"
  by (simp add: nonnegative_number_def finite_argument_def)

lemma those_nonnegative: "those (map (nonnegative_number \<circ> JTime) ts) = Some us \<Longrightarrow> us = ts"
  by (induction ts arbitrary: us) (auto split: if_splits)

lemma decode_bucket_doc: "decode_bucket (bucket_doc b) = Some b' \<Longrightarrow> b' = b"
  by (cases "b_last_blocked_event_at b")
    (auto simp: decode_bucket_def bucket_doc_def dget_def dget_or_def dhas_def bind_eq_Some_conv split: if_splits
      dest: those_nonnegative)

lemma decode_buckets_doc:
  "those (map ((\<lambda>(k, v). map_option (Pair k) (decode_bucket v)) \<circ> (\<lambda>(k, b). (k, bucket_doc b))) bs) = Some bs' \<Longrightarrow> bs' = bs"
  by (induction bs arbitrary: bs') (auto dest!: decode_bucket_doc split: option.splits)

lemma last_n_idem [simp]: "last_n n (last_n n xs) = last_n n xs"
  by (simp add: last_n_def)

lemma guard_decode_encode: "guard_encode config m = Some doc \<Longrightarrow> guard_decode config doc = Some (guard_norm config m)"
proof -
  assume a: "guard_encode config m = Some doc"
  then have doc: "doc = guard_doc config m" and v: "guard_validate (guard_doc config m) \<noteq> None"
    by (auto simp: guard_encode_def split: if_splits)
  then obtain m' where m': "guard_validate (guard_doc config m) = Some m'" by blast
  then have "g_buckets m' = sort_key fst (g_buckets m)" "g_events m' = last_n (event_limit config) (g_events m)"
    "g_next_sequence m' = g_next_sequence m"
    by (auto simp: guard_validate_def guard_doc_def dget_def bind_eq_Some_conv split: if_splits dest: decode_buckets_doc)
  then show ?thesis using m' by (simp add: doc guard_decode_def guard_norm_def)
qed

interpretation ag: authority_codec IngestAuthGuardStateError empty_guard "guard_decode config" "guard_encode config" "guard_norm config"
  for config
  by unfold_locales (rule guard_decode_encode)

definition guard_lock ::
  "guard_config \<Rightarrow> (guard_state \<Rightarrow> err + ('r \<times> guard_state option)) \<Rightarrow> authority \<Rightarrow> (err + 'r) \<times> authority" where
  "guard_lock config body =
     auth_locked IngestAuthGuardStateError False empty_guard (guard_decode config) (guard_encode config) body"

text \<open>The constructor loads once and arms the fuse of an existing file.\<close>

definition open_guard :: "guard_config \<Rightarrow> authority \<Rightarrow> (err + unit) \<times> authority" where
  "open_guard config =
     auth_locked IngestAuthGuardStateError True empty_guard (guard_decode config) (guard_encode config) (\<lambda>m. Inr ((), None))"

section \<open>Buckets\<close>

definition prune_bucket :: "guard_config \<Rightarrow> rat \<Rightarrow> guard_bucket \<Rightarrow> guard_bucket" where
  "prune_bucket config now b =
     (let lock_expired = (0 < b_locked_until b \<and> b_locked_until b \<le> now);
          cutoff = now - failure_window_seconds config
      in b\<lparr>b_failures := (if lock_expired then [] else filter (\<lambda>t. cutoff \<le> t \<and> t \<le> now + 1) (b_failures b)),
           b_locked_until := (if lock_expired then 0 else b_locked_until b)\<rparr>)"

definition compact_buckets :: "guard_config \<Rightarrow> rat \<Rightarrow> buckets \<Rightarrow> buckets" where
  "compact_buckets config now bs =
     (let pruned = map (\<lambda>(k, b). (k, prune_bucket config now b)) bs;
          live = filter (\<lambda>(k, b). b_failures b \<noteq> [] \<or> b_locked_until b \<noteq> 0) pruned;
          oldest = take (length live - bucket_limit config) (sort_key (b_last_seen_at \<circ> snd) live)
      in filter (\<lambda>(k, b). k \<notin> set (map fst oldest)) live)"

record guard_decision =
  blocked :: bool
  locked_scopes :: "string list"
  retry_after_seconds :: int

text \<open>The scan of \<open>_decision\<close>; it prunes the buckets it looks at.\<close>

fun scan_locks :: "guard_env \<Rightarrow> guard_config \<Rightarrow> rat \<Rightarrow> scope_spec list \<Rightarrow> buckets \<Rightarrow> string list \<times> int \<times> buckets" where
  "scan_locks env config now [] bs = ([], 0, bs)"
| "scan_locks env config now ((scope, value, limit) # specs) bs =
     (case map_of bs (bucket_key env scope value) of
        None \<Rightarrow> scan_locks env config now specs bs
      | Some b0 \<Rightarrow>
          let b = prune_bucket config now b0;
              (scopes, retry, bs') = scan_locks env config now specs (dset bs (bucket_key env scope value) b)
          in if now < b_locked_until b then (scope # scopes, max (max 1 \<lceil>b_locked_until b - now\<rceil>) retry, bs')
             else (scopes, retry, bs'))"

definition decide_lock :: "guard_env \<Rightarrow> guard_config \<Rightarrow> rat \<Rightarrow> scope_spec list \<Rightarrow> buckets \<Rightarrow> guard_decision \<times> buckets" where
  "decide_lock env config now specs bs =
     (let (scopes, retry, bs') = scan_locks env config now specs bs
      in (\<lparr>blocked = (scopes \<noteq> []), locked_scopes = scopes, retry_after_seconds = retry\<rparr>, bs'))"

definition unguarded :: guard_decision where
  "unguarded = \<lparr>blocked = False, locked_scopes = [], retry_after_seconds = 0\<rparr>"

definition event_payload :: "guard_env \<Rightarrow> string \<Rightarrow> string \<Rightarrow> string \<Rightarrow> string \<Rightarrow> guard_decision \<Rightarrow> dict" where
  "event_payload env source_ip username protocol publisher_id d = [
     (''session_id'', jopt (guard_session_id env username)),
     (''credential_fingerprint'', jopt (fingerprint env username)),
     (''source_ip'', jopt (normalize_ip env source_ip)),
     (''protocol'', jopt (safe_text (py_lower protocol) 32)),
     (''publisher_id'', jopt (safe_text publisher_id 128)),
     (''locked_scopes'', JList (map JStr (locked_scopes d))),
     (''retry_after_seconds'', JInt (retry_after_seconds d))]"

definition append_guard_event :: "guard_config \<Rightarrow> string \<Rightarrow> rat \<Rightarrow> dict \<Rightarrow> guard_state \<Rightarrow> guard_state" where
  "append_guard_event config event_type occurred_at payload m =
     m\<lparr>g_events := last_n (event_limit config) (g_events m @ [JObj [
          (''sequence'', JInt (g_next_sequence m)), (''type'', JStr event_type),
          (''occurred_at'', JTime occurred_at), (''payload'', JObj payload)]]),
       g_next_sequence := g_next_sequence m + 1\<rparr>"

section \<open>Operations\<close>

definition check_body :: "guard_env \<Rightarrow> guard_config \<Rightarrow> string \<Rightarrow> string \<Rightarrow> rat \<Rightarrow> guard_state \<Rightarrow> err + guard_decision \<times> guard_state option" where
  "check_body env config source_ip username current m =
     (let bs = compact_buckets config current (g_buckets m)
      in Inr (fst (decide_lock env config current (scope_specs env config source_ip username) bs), None))"

definition check_guard ::
  "guard_env \<Rightarrow> guard_config \<Rightarrow> string \<Rightarrow> string \<Rightarrow> json option \<Rightarrow> pyfloat \<Rightarrow> authority \<Rightarrow> (err + guard_decision) \<times> authority"
where
  "check_guard env config source_ip username now clock fs =
     (if \<not> guard_enabled config then (Inr unguarded, fs) else
      case guard_timestamp now clock of
        Inl e \<Rightarrow> (Inl e, fs)
      | Inr current \<Rightarrow> guard_lock config (check_body env config source_ip username current) fs)"

text \<open>
  One scope of \<open>record_failure\<close>: the bucket, and whether it is newly locked.  A lock end that overflows is
  an infinity, and \<open>math.ceil\<close> of it raises when the decision is made.
\<close>

definition charge_bucket :: "guard_config \<Rightarrow> rat \<Rightarrow> int \<Rightarrow> guard_bucket option \<Rightarrow> err + guard_bucket \<times> bool" where
  "charge_bucket config current limit found =
     (let b0 = (case found of Some b \<Rightarrow> b
                | None \<Rightarrow> \<lparr>b_failures = [], b_locked_until = 0, b_last_seen_at = current, b_last_blocked_event_at = None\<rparr>);
          b1 = prune_bucket config current b0;
          was_locked = (current < b_locked_until b1);
          failures = b_failures b1 @ [current];
          b2 = b1\<lparr>b_failures := failures, b_last_seen_at := current\<rparr>
      in if \<not> was_locked \<and> limit \<le> int (length failures) then
           (case mk_float (current + lockout_seconds config) of
              Fin x \<Rightarrow> Inr (b2\<lparr>b_locked_until := x\<rparr>, True)
            | _ \<Rightarrow> Inl OverflowError)
         else Inr (b2, False))"

fun charge_scopes ::
  "guard_env \<Rightarrow> guard_config \<Rightarrow> rat \<Rightarrow> scope_spec list \<Rightarrow> buckets \<Rightarrow> err + buckets \<times> string list"
where
  "charge_scopes env config current [] bs = Inr (bs, [])"
| "charge_scopes env config current ((scope, value, limit) # specs) bs =
     rbind (charge_bucket config current limit (map_of bs (bucket_key env scope value))) (\<lambda>(b, locked).
     rbind (charge_scopes env config current specs (dset bs (bucket_key env scope value) b)) (\<lambda>(bs', newly).
     Inr (bs', if locked then scope # newly else newly)))"

definition failure_body :: "guard_env \<Rightarrow> guard_config \<Rightarrow> string \<Rightarrow> string \<Rightarrow> string \<Rightarrow> string \<Rightarrow> rat \<Rightarrow> guard_state \<Rightarrow> err + guard_decision \<times> guard_state option" where
  "failure_body env config source_ip username protocol publisher_id current m =
     (let specs = scope_specs env config source_ip username in
      rbind (charge_scopes env config current specs (compact_buckets config current (g_buckets m))) (\<lambda>(bs1, newly).
      let (d, bs2) = decide_lock env config current specs (compact_buckets config current bs1);
          payload = event_payload env source_ip username protocol publisher_id d;
          m1 = append_guard_event config ''ingest.auth_failed'' current payload (m\<lparr>g_buckets := bs2\<rparr>);
          m2 = (if newly = [] then m1 else
            append_guard_event config ''ingest.auth_locked'' current
              (payload @ [(''newly_locked_scopes'', JList (map JStr (sort (remdups newly))))]) m1)
      in Inr (d, Some m2)))"

definition record_failure ::
  "guard_env \<Rightarrow> guard_config \<Rightarrow> string \<Rightarrow> string \<Rightarrow> string \<Rightarrow> string \<Rightarrow> json option \<Rightarrow> pyfloat \<Rightarrow> authority \<Rightarrow>
     (err + guard_decision) \<times> authority"
where
  "record_failure env config source_ip username protocol publisher_id now clock fs =
     (if \<not> guard_enabled config then (Inr unguarded, fs) else
      case guard_timestamp now clock of
        Inl e \<Rightarrow> (Inl e, fs)
      | Inr current \<Rightarrow> guard_lock config (failure_body env config source_ip username protocol publisher_id current) fs)"

definition blocked_event_due :: "guard_config \<Rightarrow> rat \<Rightarrow> guard_bucket \<Rightarrow> bool" where
  "blocked_event_due config current b =
     (blocked_event_interval_seconds config \<le> current - (case b_last_blocked_event_at b of None \<Rightarrow> 0 | Some t \<Rightarrow> t))"

definition blocked_body :: "guard_env \<Rightarrow> guard_config \<Rightarrow> string \<Rightarrow> string \<Rightarrow> string \<Rightarrow> string \<Rightarrow> rat \<Rightarrow> guard_state \<Rightarrow> err + guard_decision \<times> guard_state option" where
  "blocked_body env config source_ip username protocol publisher_id current m =
     (let specs = scope_specs env config source_ip username;
          (d, bs) = decide_lock env config current specs (compact_buckets config current (g_buckets m));
          keys = map (\<lambda>(scope, value, limit). bucket_key env scope value) (filter (\<lambda>s. fst s \<in> set (locked_scopes d)) specs);
          due = filter (\<lambda>k. case map_of bs k of None \<Rightarrow> False | Some b \<Rightarrow> blocked_event_due config current b) keys;
          bs' = map (\<lambda>(k, b). (k, if k \<in> set due then b\<lparr>b_last_blocked_event_at := Some current\<rparr> else b)) bs
      in if \<not> blocked d \<or> due = [] then Inr (d, None)
         else Inr (d, Some (append_guard_event config ''ingest.auth_blocked'' current
                (event_payload env source_ip username protocol publisher_id d) (m\<lparr>g_buckets := bs'\<rparr>))))"

definition record_blocked ::
  "guard_env \<Rightarrow> guard_config \<Rightarrow> string \<Rightarrow> string \<Rightarrow> string \<Rightarrow> string \<Rightarrow> json option \<Rightarrow> pyfloat \<Rightarrow> authority \<Rightarrow>
     (err + guard_decision) \<times> authority"
where
  "record_blocked env config source_ip username protocol publisher_id now clock fs =
     (if \<not> guard_enabled config then (Inr unguarded, fs) else
      case guard_timestamp now clock of
        Inl e \<Rightarrow> (Inl e, fs)
      | Inr current \<Rightarrow> guard_lock config (blocked_body env config source_ip username protocol publisher_id current) fs)"

definition success_body :: "guard_config \<Rightarrow> string \<Rightarrow> rat \<Rightarrow> guard_state \<Rightarrow> err + unit \<times> guard_state option" where
  "success_body config key current m =
     (if map_of (g_buckets m) key = None then Inr ((), None)
      else Inr ((), Some (m\<lparr>g_buckets := compact_buckets config current (dpop (g_buckets m) key)\<rparr>)))"

definition record_success ::
  "guard_env \<Rightarrow> guard_config \<Rightarrow> string \<Rightarrow> json option \<Rightarrow> pyfloat \<Rightarrow> authority \<Rightarrow> (err + unit) \<times> authority"
where
  "record_success env config username now clock fs =
     (if \<not> guard_enabled config then (Inr (), fs) else
      case safe_text username 256 of
        None \<Rightarrow> (Inr (), fs)
      | Some normalized \<Rightarrow>
          (case guard_timestamp now clock of
             Inl e \<Rightarrow> (Inl e, fs)
           | Inr current \<Rightarrow> guard_lock config (success_body config (bucket_key env ''credential'' normalized) current) fs))"

definition guard_snapshot :: "guard_config \<Rightarrow> authority \<Rightarrow> (err + guard_state) \<times> authority" where
  "guard_snapshot config fs = guard_lock config (\<lambda>m. Inr (m, None)) fs"

section \<open>One bucket through an operation\<close>

lemma prune_keeps_lock: "now < b_locked_until b \<Longrightarrow> b_locked_until (prune_bucket config now b) = b_locked_until b"
  by (simp add: prune_bucket_def Let_def)

lemma map_of_filter_values:
  "distinct (map fst xs) \<Longrightarrow> map_of (filter (\<lambda>(k, b). P b) xs) k = (case map_of xs k of None \<Rightarrow> None | Some b \<Rightarrow> if P b then Some b else None)"
  by (induction xs) (auto split: option.splits simp: rev_image_eqI)

lemma distinct_filter_keys: "distinct (map fst xs) \<Longrightarrow> distinct (map fst (filter P xs))"
  by (simp add: distinct_map_filter)

lemma map_of_prune:
  "map_of (map (\<lambda>(k, b). (k, prune_bucket config now b)) bs) k = map_option (prune_bucket config now) (map_of bs k)"
  by (induction bs) auto

lemma compact_small:
  assumes "distinct (map fst bs)" "length bs \<le> bucket_limit config"
  shows "distinct (map fst (compact_buckets config now bs))" "length (compact_buckets config now bs) \<le> length bs"
    and "map_of (compact_buckets config now bs) k =
      (case map_of bs k of None \<Rightarrow> None | Some b \<Rightarrow>
         if b_failures (prune_bucket config now b) \<noteq> [] \<or> b_locked_until (prune_bucket config now b) \<noteq> 0
         then Some (prune_bucket config now b) else None)"
proof -
  let ?pruned = "map (\<lambda>(k, b). (k, prune_bucket config now b)) bs"
  have d: "distinct (map fst ?pruned)" using assms(1) by (simp add: case_prod_beta comp_def)
  have "length (filter P ?pruned) \<le> bucket_limit config" for P
    using order_trans [OF length_filter_le [of P ?pruned]] assms(2) by (simp only: length_map)
  then have eq: "compact_buckets config now bs = filter (\<lambda>(k, b). b_failures b \<noteq> [] \<or> b_locked_until b \<noteq> 0) ?pruned"
    by (simp add: compact_buckets_def Let_def)
  show "distinct (map fst (compact_buckets config now bs))" unfolding eq by (rule distinct_filter_keys [OF d])
  show "length (compact_buckets config now bs) \<le> length bs" unfolding eq
    by (rule order_trans [OF length_filter_le]) simp
  show "map_of (compact_buckets config now bs) k =
      (case map_of bs k of None \<Rightarrow> None | Some b \<Rightarrow>
         if b_failures (prune_bucket config now b) \<noteq> [] \<or> b_locked_until (prune_bucket config now b) \<noteq> 0
         then Some (prune_bucket config now b) else None)"
    unfolding eq map_of_filter_values [OF d] map_of_prune by (simp split: option.splits)
qed

lemma map_of_sort_fst: "distinct (map fst xs) \<Longrightarrow> map_of (sort_key fst xs) k = map_of xs k"
proof -
  assume d: "distinct (map fst xs)"
  have "mset (map fst (sort_key fst xs)) = mset (map fst xs)" by (simp only: mset_map mset_sort)
  then have d': "distinct (map fst (sort_key fst xs))" using d mset_eq_imp_distinct_iff by blast
  have "map_of (sort_key fst xs) k = Some v \<longleftrightarrow> map_of xs k = Some v" for v
    using map_of_eq_Some_iff [OF d] map_of_eq_Some_iff [OF d'] by simp
  then show ?thesis by (metis not_Some_eq)
qed

text \<open>At most \<open>n\<close> buckets, and the one under \<open>key\<close> satisfies \<open>P\<close>.\<close>

definition holds_bucket :: "nat \<Rightarrow> string \<Rightarrow> (guard_bucket \<Rightarrow> bool) \<Rightarrow> buckets \<Rightarrow> bool" where
  "holds_bucket n key P bs \<longleftrightarrow>
     distinct (map fst bs) \<and> length bs \<le> n \<and> (\<exists>b. map_of bs key = Some b \<and> P b)"

lemma length_dset_le: "length (dset d k v) \<le> Suc (length d)"
  by (induction d) (auto simp: dset_def)

lemma holds_compact:
  assumes "holds_bucket n key P bs" "n \<le> bucket_limit config"
    and "\<And>b. P b \<Longrightarrow> (b_failures (prune_bucket config now b) \<noteq> [] \<or> b_locked_until (prune_bucket config now b) \<noteq> 0) \<and> Q (prune_bucket config now b)"
  shows "holds_bucket n key Q (compact_buckets config now bs)"
proof -
  obtain b where b: "map_of bs key = Some b" "P b" and d: "distinct (map fst bs)" "length bs \<le> n"
    using assms(1) by (auto simp: holds_bucket_def)
  then show ?thesis using compact_small [of bs config now] assms(2) assms(3) [OF b(2)]
    by (fastforce simp: holds_bucket_def)
qed

lemma holds_dset:
  assumes "holds_bucket n key P bs" "k = key \<Longrightarrow> P b"
  shows "holds_bucket (Suc n) key P (dset bs k b)"
proof -
  have "length (dset bs k b) \<le> Suc n"
    using assms(1) length_dset_le [of bs k b] by (simp add: holds_bucket_def)
  then show ?thesis using assms by (auto simp: holds_bucket_def)
qed

lemma holds_dset_same:
  assumes "holds_bucket n key P bs" "map_of bs k \<noteq> None" "k = key \<Longrightarrow> P b"
  shows "holds_bucket n key P (dset bs k b)"
proof -
  have "length (dset bs k b) = length bs"
    using assms(2) by (induction bs) (auto simp: dset_def split: if_splits)
  then show ?thesis using assms by (auto simp: holds_bucket_def)
qed

lemma scan_keeps:
  assumes "holds_bucket n key P bs" "\<And>b. P b \<Longrightarrow> P (prune_bucket config now b)"
    and "scan_locks env config now specs bs = (scopes, retry, bs')"
  shows "holds_bucket n key P bs'"
  using assms(1,3)
proof (induction specs arbitrary: bs scopes retry)
  case (Cons spec specs)
  obtain scope "value" limit where [simp]: "spec = (scope, value, limit)" by (cases spec)
  show ?case
  proof (cases "map_of bs (bucket_key env scope value)")
    case None
    then show ?thesis using Cons by simp
  next
    case (Some b0)
    have "holds_bucket n key P (dset bs (bucket_key env scope value) (prune_bucket config now b0))"
      using Some Cons.prems(1) assms(2) by (intro holds_dset_same) (auto simp: holds_bucket_def)
    then show ?thesis using Cons.IH Cons.prems(2) Some
      by (auto simp: Let_def split: prod.splits if_splits)
  qed
qed simp

lemma charge_scopes_ConsE:
  assumes "charge_scopes env config now ((scope, value, limit) # specs) bs = Inr (bs', newly)"
  obtains b l newly' where "charge_bucket config now limit (map_of bs (bucket_key env scope value)) = Inr (b, l)"
    "charge_scopes env config now specs (dset bs (bucket_key env scope value) b) = Inr (bs', newly')"
  using assms by (auto simp: rbind_def split: sum.splits)

lemma charge_keeps:
  assumes "holds_bucket n key P bs"
    and "\<And>b limit b' l. P b \<Longrightarrow> charge_bucket config now limit (Some b) = Inr (b', l) \<Longrightarrow> P b'"
    and "charge_scopes env config now specs bs = Inr (bs', newly)"
  shows "holds_bucket (n + length specs) key P bs'"
  using assms(1,3)
proof (induction specs arbitrary: bs n newly)
  case (Cons spec specs)
  obtain scope "value" limit where [simp]: "spec = (scope, value, limit)" by (cases spec)
  let ?k = "bucket_key env scope value"
  obtain b l newly' where c: "charge_bucket config now limit (map_of bs ?k) = Inr (b, l)"
      "charge_scopes env config now specs (dset bs ?k b) = Inr (bs', newly')"
    using Cons.prems(2) by (auto elim: charge_scopes_ConsE simp del: charge_scopes.simps)
  have "holds_bucket (Suc n) key P (dset bs ?k b)"
    using Cons.prems(1) c(1) assms(2) by (intro holds_dset) (auto simp: holds_bucket_def)
  from Cons.IH [OF this c(2)] show ?case by simp
qed simp

definition gstored :: "guard_config \<Rightarrow> authority \<Rightarrow> guard_state \<Rightarrow> bool" where
  "gstored config fs m \<longleftrightarrow> marker fs \<noteq> OtherMarker \<and> auth_contents empty_guard (guard_decode config) fs = Some m"

definition gholds :: "guard_config \<Rightarrow> nat \<Rightarrow> string \<Rightarrow> (guard_bucket \<Rightarrow> bool) \<Rightarrow> authority \<Rightarrow> bool" where
  "gholds config n key P fs \<longleftrightarrow> (\<exists>m. gstored config fs m \<and> holds_bucket n key P (g_buckets m))"

lemma holds_mono: "holds_bucket n key P bs \<Longrightarrow> n \<le> n' \<Longrightarrow> (\<And>b. P b \<Longrightarrow> Q b) \<Longrightarrow> holds_bucket n' key Q bs"
  by (auto simp: holds_bucket_def)

lemma holds_norm: "holds_bucket n key P (g_buckets (guard_norm config m)) = holds_bucket n key P (g_buckets m)"
proof -
  have "mset (map fst (sort_key fst (g_buckets m))) = mset (map fst (g_buckets m))" by (simp only: mset_map mset_sort)
  then have "distinct (map fst (sort_key fst (g_buckets m))) = distinct (map fst (g_buckets m))"
    by (rule mset_eq_imp_distinct_iff)
  then show ?thesis by (auto simp: guard_norm_def holds_bucket_def map_of_sort_fst)
qed

lemma guard_lock_holds:
  assumes "gholds config n key P fs" "guard_lock config body fs = (r, fs')" "n \<le> n'" "\<And>b. P b \<Longrightarrow> Q b"
    and "\<And>m v m'. holds_bucket n key P (g_buckets m) \<Longrightarrow> body m = Inr (v, Some m') \<Longrightarrow> holds_bucket n' key Q (g_buckets m')"
  shows "gholds config n' key Q fs'"
proof -
  obtain m where m: "marker fs \<noteq> OtherMarker" "auth_contents empty_guard (guard_decode config) fs = Some m"
      "holds_bucket n key P (g_buckets m)"
    using assms(1) by (auto simp: gholds_def gstored_def)
  have "marker fs' \<noteq> OtherMarker \<and>
      (\<exists>m'. auth_contents empty_guard (guard_decode config) fs' = Some m' \<and> holds_bucket n' key Q (g_buckets m'))"
    using m(1,2) assms(2) [unfolded guard_lock_def]
  proof (rule ag.locked_rel)
    show "holds_bucket n' key Q (g_buckets m)" using m(3) assms(3,4) by (rule holds_mono)
  next
    fix v m' doc
    assume "body m = Inr (v, Some m')"
    then show "holds_bucket n' key Q (g_buckets (guard_norm config m'))" using assms(5) [OF m(3)] by (simp add: holds_norm)
  qed
  then show ?thesis by (auto simp: gholds_def gstored_def)
qed

section \<open>Calls\<close>

datatype guard_call =
    Call_Check string string
  | Call_Failure string string string string
  | Call_Blocked string string string string
  | Call_Success string

fun run_guard_call :: "guard_env \<Rightarrow> guard_config \<Rightarrow> guard_call \<Rightarrow> json option \<Rightarrow> pyfloat \<Rightarrow> authority \<Rightarrow> authority" where
  "run_guard_call env config (Call_Check ip user) now clock fs = snd (check_guard env config ip user now clock fs)"
| "run_guard_call env config (Call_Failure ip user protocol publisher) now clock fs =
     snd (record_failure env config ip user protocol publisher now clock fs)"
| "run_guard_call env config (Call_Blocked ip user protocol publisher) now clock fs =
     snd (record_blocked env config ip user protocol publisher now clock fs)"
| "run_guard_call env config (Call_Success user) now clock fs = snd (record_success env config user now clock fs)"

fun guard_calls :: "guard_env \<Rightarrow> guard_config \<Rightarrow> (guard_call \<times> json option \<times> pyfloat) list \<Rightarrow> authority \<Rightarrow> authority" where
  "guard_calls env config [] fs = fs"
| "guard_calls env config ((call, now, clock) # calls) fs = guard_calls env config calls (run_guard_call env config call now clock fs)"

text \<open>A call before \<open>L\<close> that does not report a success for the locked key.\<close>

definition call_within :: "guard_env \<Rightarrow> string \<Rightarrow> rat \<Rightarrow> guard_call \<times> json option \<times> pyfloat \<Rightarrow> bool" where
  "call_within env key L c =
     ((case guard_timestamp (fst (snd c)) (snd (snd c)) of Inl _ \<Rightarrow> True | Inr t \<Rightarrow> t < L) \<and>
      (case fst c of
         Call_Success user \<Rightarrow> (case safe_text user 256 of None \<Rightarrow> True | Some u \<Rightarrow> bucket_key env ''credential'' u \<noteq> key)
       | _ \<Rightarrow> True))"

lemma charge_keeps_lock:
  "b_locked_until b = L \<Longrightarrow> now < L \<Longrightarrow> charge_bucket config now limit (Some b) = Inr (b', l) \<Longrightarrow> b_locked_until b' = L"
  by (auto simp: charge_bucket_def Let_def prune_keeps_lock split: if_splits pyfloat.splits)

lemma scope_specs_length: "length (scope_specs env config ip user) \<le> 2"
  by (simp add: scope_specs_def split: option.splits)

lemma compact_keeps_lock:
  assumes "holds_bucket n key (\<lambda>b. b_locked_until b = L) bs" "n \<le> bucket_limit config" "now < L" "0 \<le> now"
  shows "holds_bucket n key (\<lambda>b. b_locked_until b = L) (compact_buckets config now bs)"
  using assms by (auto intro!: holds_compact [OF assms(1,2)] simp: prune_keeps_lock)

lemma decide_keeps_lock:
  assumes "holds_bucket n key (\<lambda>b. b_locked_until b = L) bs" "now < L" "decide_lock env config now specs bs = (d, bs')"
  shows "holds_bucket n key (\<lambda>b. b_locked_until b = L) bs'"
  using assms scan_keeps [OF assms(1), of config now env specs]
  by (auto simp: decide_lock_def prune_keeps_lock split: prod.splits)

lemma append_guard_event_buckets [simp]: "g_buckets (append_guard_event config ty t p m) = g_buckets m"
  by (simp add: append_guard_event_def)

lemma guard_timestamp_nonneg: "guard_timestamp now clock = Inr t \<Longrightarrow> 0 \<le> t"
  by (auto simp: guard_timestamp_def runtime_timestamp_def rbind_def require_def split: sum.splits if_splits)

lemma failure_body_buckets:
  assumes "failure_body env config ip user protocol publisher t m = Inr (d, m')"
  obtains m2 bs1 newly where "m' = Some m2"
    "charge_scopes env config t (scope_specs env config ip user) (compact_buckets config t (g_buckets m)) = Inr (bs1, newly)"
    "decide_lock env config t (scope_specs env config ip user) (compact_buckets config t bs1) = (d, g_buckets m2)"
  using assms
  by (auto simp: failure_body_def Let_def rbind_def split: sum.splits prod.splits)

lemma failure_keeps_lock:
  assumes "holds_bucket n key (\<lambda>b. b_locked_until b = L) (g_buckets m)" "n + 2 \<le> bucket_limit config" "t < L" "0 \<le> t"
    and "failure_body env config ip user protocol publisher t m = Inr (d, Some m')"
  shows "holds_bucket (n + 2) key (\<lambda>b. b_locked_until b = L) (g_buckets m')"
proof (rule failure_body_buckets [OF assms(5)])
  fix m2 bs1 newly
  assume m2: "Some m' = Some m2"
    and c: "charge_scopes env config t (scope_specs env config ip user) (compact_buckets config t (g_buckets m)) = Inr (bs1, newly)"
    and d: "decide_lock env config t (scope_specs env config ip user) (compact_buckets config t bs1) = (d, g_buckets m2)"
  have "holds_bucket n key (\<lambda>b. b_locked_until b = L) (compact_buckets config t (g_buckets m))"
    using assms by (intro compact_keeps_lock) auto
  from charge_keeps [OF this _ c] charge_keeps_lock assms(3)
  have "holds_bucket (n + length (scope_specs env config ip user)) key (\<lambda>b. b_locked_until b = L) bs1" by blast
  then have "holds_bucket (n + 2) key (\<lambda>b. b_locked_until b = L) bs1"
    using scope_specs_length [of env config ip user] by (elim holds_mono) auto
  then show ?thesis using decide_keeps_lock [OF _ assms(3) d] compact_keeps_lock assms m2 by simp
qed

lemma holds_map_values:
  assumes "holds_bucket n key P bs" "\<And>k b. P b \<Longrightarrow> P (f k b)"
  shows "holds_bucket n key P (map (\<lambda>(k, b). (k, f k b)) bs)"
proof -
  obtain b where b: "map_of bs key = Some b" "P b" using assms(1) by (auto simp: holds_bucket_def)
  have "map_of (map (\<lambda>(k, b). (k, f k b)) bs) key = map_option (f key) (map_of bs key)" by (induction bs) auto
  then have "map_of (map (\<lambda>(k, b). (k, f k b)) bs) key = Some (f key b)" using b by simp
  moreover have "map fst (map (\<lambda>(k, b). (k, f k b)) bs) = map fst bs" by (simp add: case_prod_beta comp_def)
  ultimately show ?thesis using assms b unfolding holds_bucket_def by (metis length_map)
qed

lemma holds_dpop:
  assumes "holds_bucket n key P bs" "k \<noteq> key"
  shows "holds_bucket n key P (dpop bs k)"
proof -
  have "length (dpop bs k) \<le> length bs" unfolding dpop_def AList.delete_eq by (rule length_filter_le)
  then show ?thesis using assms by (auto simp: holds_bucket_def)
qed

lemma blocked_keeps_lock:
  assumes "holds_bucket n key (\<lambda>b. b_locked_until b = L) (g_buckets m)" "n \<le> bucket_limit config" "t < L" "0 \<le> t"
    and "blocked_body env config ip user protocol publisher t m = Inr (d, Some m')"
  shows "holds_bucket n key (\<lambda>b. b_locked_until b = L) (g_buckets m')"
proof -
  obtain d' bs where d: "decide_lock env config t (scope_specs env config ip user) (compact_buckets config t (g_buckets m)) = (d', bs)"
    by (cases "decide_lock env config t (scope_specs env config ip user) (compact_buckets config t (g_buckets m))")
  have bs: "holds_bucket n key (\<lambda>b. b_locked_until b = L) bs"
    using decide_keeps_lock [OF compact_keeps_lock [OF assms(1-4)] assms(3) d] .
  let ?keys = "map (\<lambda>(scope, value, limit). bucket_key env scope value)
      (filter (\<lambda>s. fst s \<in> set (locked_scopes d')) (scope_specs env config ip user))"
  let ?due = "filter (\<lambda>k. case map_of bs k of None \<Rightarrow> False | Some b \<Rightarrow> blocked_event_due config t b) ?keys"
  have "g_buckets m' = map (\<lambda>(k, b). (k, if k \<in> set ?due then b\<lparr>b_last_blocked_event_at := Some t\<rparr> else b)) bs"
    using assms(5) d by (auto simp: blocked_body_def Let_def split: if_splits)
  then show ?thesis using holds_map_values [OF bs, of "\<lambda>k b. if k \<in> set ?due then b\<lparr>b_last_blocked_event_at := Some t\<rparr> else b"] by simp
qed

lemma success_keeps_lock:
  assumes "holds_bucket n key (\<lambda>b. b_locked_until b = L) (g_buckets m)" "n \<le> bucket_limit config" "t < L" "0 \<le> t"
    and "success_body config k t m = Inr (d, Some m')" "k \<noteq> key"
  shows "holds_bucket n key (\<lambda>b. b_locked_until b = L) (g_buckets m')"
  using assms compact_keeps_lock [OF holds_dpop [OF assms(1,6)] assms(2-4)] by (auto simp: success_body_def split: if_splits)

lemma guard_call_idle:
  assumes "\<not> (guard_enabled config \<and> (\<exists>t. guard_timestamp now clock = Inr t))"
  shows "run_guard_call env config call now clock fs = fs"
  using assms
  by (cases "guard_timestamp now clock"; cases call)
    (simp_all add: check_guard_def record_failure_def record_blocked_def record_success_def split: option.splits)

lemma call_keeps_lock:
  assumes "gholds config n key (\<lambda>b. b_locked_until b = L) fs" "n + 2 \<le> bucket_limit config"
    and "call_within env key L (call, now, clock)"
  shows "gholds config (n + 2) key (\<lambda>b. b_locked_until b = L) (run_guard_call env config call now clock fs)"
proof -
  let ?P = "\<lambda>b. b_locked_until b = L"
  have grow: "gholds config (n + 2) key ?P fs'" if "gholds config n key ?P fs'" for fs'
    using that holds_mono [of n key ?P _ "n + 2" ?P] by (auto simp: gholds_def)
  show ?thesis
  proof (cases "guard_enabled config \<and> (\<exists>t. guard_timestamp now clock = Inr t)")
    case False
    then show ?thesis using grow [OF assms(1)] by (simp add: guard_call_idle)
  next
    case True
    then obtain t where t: "guard_timestamp now clock = Inr t" and on: "guard_enabled config" by blast
    have T: "t < L" "0 \<le> t" using assms(3) t guard_timestamp_nonneg by (auto simp: call_within_def)
    have step: "gholds config (n + 2) key ?P (snd (guard_lock config body fs))"
      if "\<And>m v m'. holds_bucket n key ?P (g_buckets m) \<Longrightarrow> body m = Inr (v, Some m') \<Longrightarrow> holds_bucket (n + 2) key ?P (g_buckets m')"
      for body :: "guard_state \<Rightarrow> err + 'r \<times> guard_state option"
      using that by (intro guard_lock_holds [OF assms(1) prod.collapse [symmetric]]) auto
    have n: "n \<le> bucket_limit config" using assms(2) by simp
    show ?thesis
    proof (cases call)
      case (Call_Check ip user)
      then show ?thesis using t on step [of "check_body env config ip user t"] by (simp add: check_guard_def check_body_def)
    next
      case (Call_Failure ip user protocol publisher)
      then show ?thesis using t on step [OF failure_keeps_lock [OF _ assms(2) T]] by (simp add: record_failure_def)
    next
      case (Call_Blocked ip user protocol publisher)
      then show ?thesis using t on step [OF holds_mono [OF blocked_keeps_lock [OF _ n T]]] by (simp add: record_blocked_def)
    next
      case (Call_Success user)
      show ?thesis
      proof (cases "safe_text user 256")
        case None
        then show ?thesis using Call_Success on grow [OF assms(1)] by (simp add: record_success_def)
      next
        case (Some u)
        then have "bucket_key env ''credential'' u \<noteq> key" using assms(3) Call_Success by (simp add: call_within_def)
        then have "gholds config (n + 2) key ?P (snd (guard_lock config (success_body config (bucket_key env ''credential'' u) t) fs))"
          by (intro step) (rule holds_mono [OF success_keeps_lock [OF _ n T]], auto)
        then show ?thesis using Call_Success Some on t by (simp add: record_success_def)
      qed
    qed
  qed
qed

lemma calls_keep_lock:
  assumes "gholds config n key (\<lambda>b. b_locked_until b = L) fs" "n + 2 * length calls \<le> bucket_limit config"
    and "list_all (call_within env key L) calls"
  shows "gholds config (n + 2 * length calls) key (\<lambda>b. b_locked_until b = L) (guard_calls env config calls fs)"
  using assms
proof (induction calls arbitrary: n fs)
  case (Cons c calls)
  obtain call now clock where [simp]: "c = (call, now, clock)" by (cases c)
  have "gholds config (n + 2) key (\<lambda>b. b_locked_until b = L) (run_guard_call env config call now clock fs)"
    using Cons.prems by (intro call_keeps_lock) auto
  from Cons.IH [OF this] show ?case using Cons.prems by (simp add: algebra_simps)
qed simp

lemma scan_finds_lock:
  assumes "(scope, value, limit) \<in> set specs" "holds_bucket n (bucket_key env scope value) (\<lambda>b. b_locked_until b = L) bs" "now < L"
    and "scan_locks env config now specs bs = (scopes, retry, bs')"
  shows "scope \<in> set scopes \<and> \<lceil>L - now\<rceil> \<le> retry"
  using assms(1,2,4)
proof (induction specs arbitrary: bs scopes retry)
  case (Cons spec specs)
  obtain sc v li where [simp]: "spec = (sc, v, li)" by (cases spec)
  let ?k = "bucket_key env sc v"
  show ?case
  proof (cases "map_of bs ?k")
    case None
    then have "(scope, value, limit) \<in> set specs" using Cons.prems(1,2) by (auto simp: holds_bucket_def)
    then show ?thesis using Cons None by auto
  next
    case (Some b0)
    let ?b = "prune_bucket config now b0"
    obtain scopes' retry' where r: "scan_locks env config now specs (dset bs ?k ?b) = (scopes', retry', bs')"
      "scopes = (if now < b_locked_until ?b then sc # scopes' else scopes')"
      "retry = (if now < b_locked_until ?b then max (max 1 \<lceil>b_locked_until ?b - now\<rceil>) retry' else retry')"
      using Cons.prems(3) Some by (auto simp: Let_def split: prod.splits if_splits)
    have keep: "holds_bucket n (bucket_key env scope value) (\<lambda>b. b_locked_until b = L) (dset bs ?k ?b)"
      using Cons.prems(2) Some assms(3) by (intro holds_dset_same) (auto simp: holds_bucket_def prune_keeps_lock)
    show ?thesis
    proof (cases "(scope, value, limit) \<in> set specs")
      case True
      then show ?thesis using Cons.IH [OF True keep r(1)] r(2,3) by auto
    next
      case False
      then have "sc = scope" "v = value" using Cons.prems(1) by auto
      then have "b_locked_until ?b = L" using Cons.prems(2) Some assms(3) by (auto simp: holds_bucket_def prune_keeps_lock)
      then show ?thesis using r(2,3) assms(3) \<open>sc = scope\<close> by auto
    qed
  qed
qed simp

lemma locked_check_blocks:
  assumes "gholds config n (bucket_key env scope value) (\<lambda>b. b_locked_until b = L) fs" "n \<le> bucket_limit config"
    and "(scope, value, limit) \<in> set (scope_specs env config ip user)"
    and "guard_enabled config" "guard_timestamp now clock = Inr t" "t < L"
  shows "\<exists>d fs'. check_guard env config ip user now clock fs = (Inr d, fs') \<and> blocked d \<and> scope \<in> set (locked_scopes d) \<and>
    \<lceil>L - t\<rceil> \<le> retry_after_seconds d"
proof -
  obtain m where m: "gstored config fs m" "holds_bucket n (bucket_key env scope value) (\<lambda>b. b_locked_until b = L) (g_buckets m)"
    using assms(1) by (auto simp: gholds_def)
  let ?bs = "compact_buckets config t (g_buckets m)"
  let ?body = "check_body env config ip user t"
  obtain scopes retry bs' where sc: "scan_locks env config t (scope_specs env config ip user) ?bs = (scopes, retry, bs')"
    by (cases "scan_locks env config t (scope_specs env config ip user) ?bs")
  have "scope \<in> set scopes \<and> \<lceil>L - t\<rceil> \<le> retry"
    using scan_finds_lock [OF assms(3) compact_keeps_lock [OF m(2) assms(2,6) guard_timestamp_nonneg [OF assms(5)]] assms(6) sc] .
  moreover obtain r fs' where call: "guard_lock config ?body fs = (r, fs')" by (cases "guard_lock config ?body fs")
  have "r = Inr (fst (decide_lock env config t (scope_specs env config ip user) ?bs))"
    using ag.locked_reads [of fs config m False ?body r fs'
        "Inr (fst (decide_lock env config t (scope_specs env config ip user) ?bs))"] m(1) call
    by (simp add: gstored_def guard_lock_def check_body_def)
  ultimately show ?thesis using assms(4,5) call sc
    by (auto simp: check_guard_def decide_lock_def Let_def)
qed

text \<open>C17. A lockout holds until its end.  Once the bucket of an address or a credential is locked until L, whatever
  calls follow before L (checks, failures and blocked attempts of anyone, successes of other credentials;
  valid clock or not), a check of that address or credential before L answers that it is blocked, with a
  retry delay that does not end earlier; as long as the buckets have room for two more per call.\<close>

theorem lockout_holds:
  assumes "gstored config fs m" "distinct (map fst (g_buckets m))"
    and "map_of (g_buckets m) (bucket_key env scope value) = Some b" "b_locked_until b = L"
    and "length (g_buckets m) + 2 * length calls \<le> bucket_limit config"
    and "list_all (call_within env (bucket_key env scope value) L) calls"
    and "(scope, value, limit) \<in> set (scope_specs env config ip user)"
    and "guard_enabled config" "guard_timestamp now clock = Inr t" "t < L"
  shows "\<exists>d fs'. check_guard env config ip user now clock (guard_calls env config calls fs) = (Inr d, fs') \<and>
    blocked d \<and> scope \<in> set (locked_scopes d) \<and> \<lceil>L - t\<rceil> \<le> retry_after_seconds d"
proof -
  have "gholds config (length (g_buckets m)) (bucket_key env scope value) (\<lambda>b. b_locked_until b = L) fs"
    using assms(1-4) by (auto simp: gholds_def holds_bucket_def)
  from locked_check_blocks [OF calls_keep_lock [OF this assms(5,6)] assms(5,7-10)] show ?thesis .
qed

section \<open>Reaching the limit\<close>

lemma guard_lock_wrote:
  assumes "gstored config fs m" "guard_lock config body fs = (Inr r, fs')" "\<And>v. body m \<noteq> Inr (v, None)"
  shows "\<exists>m'. body m = Inr (r, Some m') \<and> gstored config fs' (guard_norm config m')"
proof -
  have m: "marker fs \<noteq> OtherMarker" "auth_contents empty_guard (guard_decode config) fs = Some m"
    using assms(1) by (auto simp: gstored_def)
  have "marker fs' \<noteq> OtherMarker" using ag.locked_keeps_marker [OF m(1)] assms(2) by (metis guard_lock_def snd_conv)
  then show ?thesis
    using ag.locked_cases [OF m, of body False] assms(2,3) by (auto simp: guard_lock_def gstored_def)
qed

text \<open>
  The bucket of a credential after \<open>i\<close> failures between \<open>t1\<close> and \<open>s\<close>: locked for a full lockout after
  \<open>t1\<close>, or open with all of them counted and still below the limit.
\<close>

definition counted :: "rat \<Rightarrow> nat \<Rightarrow> rat \<Rightarrow> guard_bucket \<Rightarrow> bool" where
  "counted t1 i s b \<longleftrightarrow> b_locked_until b = 0 \<and> i \<le> length (filter (\<lambda>x. t1 \<le> x \<and> x \<le> s) (b_failures b))"

definition progress :: "guard_config \<Rightarrow> rat \<Rightarrow> nat \<Rightarrow> rat \<Rightarrow> guard_bucket \<Rightarrow> bool" where
  "progress config t1 i s b \<longleftrightarrow> t1 + lockout_seconds config \<le> b_locked_until b \<or>
     counted t1 i s b \<and> int (length (b_failures b)) < max_failures_per_credential config"

definition ready :: "guard_config \<Rightarrow> rat \<Rightarrow> nat \<Rightarrow> rat \<Rightarrow> guard_bucket option \<Rightarrow> bool" where
  "ready config t1 i s found =
     (case found of None \<Rightarrow> i = 0 | Some b \<Rightarrow> t1 + lockout_seconds config \<le> b_locked_until b \<or> counted t1 i s b)"

lemma progress_ready: "progress config t1 i s b \<Longrightarrow> ready config t1 i s (Some b)"
  by (auto simp: progress_def ready_def)

lemma prune_counted:
  assumes "counted t1 i s b" "s \<le> t" "t \<le> t1 + failure_window_seconds config"
  shows "counted t1 i s (prune_bucket config t b)"
proof -
  have "filter (\<lambda>x. (t1 \<le> x \<and> x \<le> s) \<and> t - failure_window_seconds config \<le> x \<and> x \<le> t + 1) xs = filter (\<lambda>x. t1 \<le> x \<and> x \<le> s) xs" for xs
    using assms(2,3) by (intro filter_cong) auto
  then show ?thesis using assms(1) by (simp add: counted_def prune_bucket_def Let_def conj_commute)
qed

lemma charge_progress:
  assumes "charge_bucket config t (max_failures_per_credential config) found = Inr (b', l)"
    and "s \<le> t" "t1 \<le> t" "t \<le> t1 + failure_window_seconds config" "t < t1 + lockout_seconds config"
    and "ready config t1 i s found" "0 \<le> t"
  shows "progress config t1 (Suc i) t b'"
proof -
  define b0 where "b0 = (case found of Some b \<Rightarrow> b
    | None \<Rightarrow> \<lparr>b_failures = [], b_locked_until = 0, b_last_seen_at = t, b_last_blocked_event_at = None\<rparr>)"
  define b1 where "b1 = prune_bucket config t b0"
  have "t1 + lockout_seconds config \<le> b_locked_until b0 \<or> counted t1 i s b0"
    using assms(6) by (auto simp: b0_def counted_def ready_def split: option.splits)
  then consider "t < b_locked_until b1" "t1 + lockout_seconds config \<le> b_locked_until b1" | "counted t1 i s b1"
    using assms(5) prune_counted [OF _ assms(2,4)] prune_keeps_lock [of t b0 config] by (fastforce simp: b1_def)
  then show ?thesis
  proof cases
    case 1
    then show ?thesis using assms(1) by (auto simp: charge_bucket_def Let_def b0_def [symmetric] b1_def [symmetric] progress_def)
  next
    case 2
    have "filter (\<lambda>x. t1 \<le> x \<and> x \<le> s) (b_failures b1) = filter (\<lambda>x. x \<le> s) (filter (\<lambda>x. t1 \<le> x \<and> x \<le> t) (b_failures b1))"
      using assms(2) by (auto intro: filter_cong)
    then have "i \<le> length (filter (\<lambda>x. t1 \<le> x \<and> x \<le> t) (b_failures b1))"
      using 2 length_filter_le [of "\<lambda>x. x \<le> s" "filter (\<lambda>x. t1 \<le> x \<and> x \<le> t) (b_failures b1)"] by (simp add: counted_def)
    then show ?thesis using 2 assms(1,3,5,7)
      by (auto simp: charge_bucket_def Let_def b0_def [symmetric] b1_def [symmetric] progress_def counted_def mk_float_eq_Fin
          split: if_splits pyfloat.splits)
  qed
qed

lemma compact_ready:
  assumes "distinct (map fst bs)" "length bs \<le> bucket_limit config" "ready config t1 i s (map_of bs key)"
    and "s \<le> t" "t \<le> t1 + failure_window_seconds config" "t < t1 + lockout_seconds config" "0 \<le> t"
  shows "ready config t1 i s (map_of (compact_buckets config t bs) key)"
proof (cases "map_of bs key")
  case None
  then show ?thesis using assms(3) compact_small(3) [OF assms(1,2)] by simp
next
  case (Some b)
  then have "t1 + lockout_seconds config \<le> b_locked_until (prune_bucket config t b) \<or> counted t1 i s (prune_bucket config t b)"
    using assms(3-6) prune_counted [OF _ assms(4,5)] prune_keeps_lock [of t b config] by (auto simp: ready_def)
  moreover have "i = 0" if "counted t1 i s (prune_bucket config t b)" "b_failures (prune_bucket config t b) = []"
    using that by (simp add: counted_def)
  ultimately show ?thesis using Some assms(6,7) compact_small(3) [OF assms(1,2), of t key]
    by (auto simp: ready_def counted_def split: if_splits)
qed

lemma prune_progress:
  assumes "progress config t1 i t b" "t \<le> t1 + failure_window_seconds config" "t < t1 + lockout_seconds config"
  shows "progress config t1 i t (prune_bucket config t b)"
proof -
  have "length (b_failures (prune_bucket config t b)) \<le> length (b_failures b)"
    by (simp add: prune_bucket_def Let_def)
  then show ?thesis using assms prune_counted [OF _ order_refl assms(2)] prune_keeps_lock [of t b config]
    by (auto simp: progress_def)
qed

lemma progress_kept:
  assumes "progress config t1 (Suc i) t b" "0 \<le> t" "t < t1 + lockout_seconds config"
  shows "b_failures b \<noteq> [] \<or> b_locked_until b \<noteq> 0"
  using assms by (auto simp: progress_def counted_def)

lemma credential_key: "bucket_key env ''ip'' a \<noteq> bucket_key env ''credential'' u"
  by (simp add: bucket_key_def)

lemma charge_scopes_progress:
  assumes "charge_scopes env config t (scope_specs env config ip user) bs = Inr (bs', newly)"
    and "safe_text user 256 = Some u" "key = bucket_key env ''credential'' u"
    and "distinct (map fst bs)" "length bs \<le> n" "ready config t1 i s (map_of bs key)"
    and T: "s \<le> t" "t1 \<le> t" "t \<le> t1 + failure_window_seconds config" "t < t1 + lockout_seconds config" "0 \<le> t"
  shows "holds_bucket (n + 2) key (progress config t1 (Suc i) t) bs'"
proof -
  have cred: "holds_bucket (Suc k) key (progress config t1 (Suc i) t) bs''"
    if "charge_scopes env config t [(''credential'', u, max_failures_per_credential config)] xs = Inr (bs'', nw)"
      "distinct (map fst xs)" "length xs \<le> k" "map_of xs key = map_of bs key" for xs bs'' nw k
  proof -
    note xs = that
    obtain b l where c: "charge_bucket config t (max_failures_per_credential config) (map_of bs key) = Inr (b, l)" "bs'' = dset xs key b"
      using xs(1,4) assms(3) by (auto simp: rbind_def split: sum.splits)
    have "progress config t1 (Suc i) t b" using charge_progress [OF c(1) T(1-4) assms(6) T(5)] .
    then show ?thesis using xs(2,3) c(2) length_dset_le [of xs key b] by (auto simp: holds_bucket_def)
  qed
  show ?thesis
  proof (cases "normalize_ip env ip")
    case None
    then have "charge_scopes env config t [(''credential'', u, max_failures_per_credential config)] bs = Inr (bs', newly)"
      using assms(1,2) by (simp add: scope_specs_def)
    from cred [OF this assms(4,5) refl] show ?thesis by (elim holds_mono) auto
  next
    case (Some a)
    obtain b nw where "charge_scopes env config t [(''credential'', u, max_failures_per_credential config)]
        (dset bs (bucket_key env ''ip'' a) b) = Inr (bs', nw)"
      using assms(1,2) Some by (auto simp: scope_specs_def simp del: charge_scopes.simps elim: charge_scopes_ConsE)
    from cred [OF this, of "Suc n"] show ?thesis
      using assms(3-5) credential_key [of env a u] length_dset_le [of bs "bucket_key env ''ip'' a" b] by simp
  qed
qed

lemma failure_progress:
  assumes "failure_body env config ip user protocol publisher t m = Inr (d, Some m')"
    and "safe_text user 256 = Some u" "key = bucket_key env ''credential'' u"
    and "distinct (map fst (g_buckets m))" "length (g_buckets m) \<le> n" "n + 2 \<le> bucket_limit config"
    and "ready config t1 i s (map_of (g_buckets m) key)"
    and T: "s \<le> t" "t1 \<le> t" "t \<le> t1 + failure_window_seconds config" "t < t1 + lockout_seconds config" "0 \<le> t"
  shows "holds_bucket (n + 2) key (progress config t1 (Suc i) t) (g_buckets m')"
proof (rule failure_body_buckets [OF assms(1)])
  fix m2 bs1 newly
  assume m2: "Some m' = Some m2"
    and c: "charge_scopes env config t (scope_specs env config ip user) (compact_buckets config t (g_buckets m)) = Inr (bs1, newly)"
    and d: "decide_lock env config t (scope_specs env config ip user) (compact_buckets config t bs1) = (d, g_buckets m2)"
  let ?bs = "compact_buckets config t (g_buckets m)"
  have small: "length (g_buckets m) \<le> bucket_limit config" using assms(5,6) by simp
  have bs: "distinct (map fst ?bs)" "length ?bs \<le> n" using compact_small(1,2) [OF assms(4) small, of t] assms(5) by auto
  have "ready config t1 i s (map_of ?bs key)" using compact_ready [OF assms(4) small assms(7) T(1,3,4,5)] .
  then have "holds_bucket (n + 2) key (progress config t1 (Suc i) t) bs1"
    using charge_scopes_progress [OF c assms(2,3) bs _ T] by blast
  then have "holds_bucket (n + 2) key (progress config t1 (Suc i) t) (compact_buckets config t bs1)"
    using prune_progress T progress_kept by (intro holds_compact [OF _ assms(6)]) blast+
  moreover obtain scopes retry where "scan_locks env config t (scope_specs env config ip user) (compact_buckets config t bs1) = (scopes, retry, g_buckets m2)"
    using d by (auto simp: decide_lock_def split: prod.splits)
  ultimately show ?thesis using scan_keeps prune_progress T(3,4) m2 by blast
qed

text \<open>A series of failures of one credential, each from its own address; false when a call raised.\<close>

fun fail_series ::
  "guard_env \<Rightarrow> guard_config \<Rightarrow> string \<Rightarrow> (string \<times> string \<times> string \<times> rat) list \<Rightarrow> authority \<Rightarrow> bool \<times> authority"
where
  "fail_series env config user [] fs = (True, fs)"
| "fail_series env config user ((ip, protocol, publisher, t) # attempts) fs =
     (case record_failure env config ip user protocol publisher (Some (JTime t)) NaN fs of
        (Inl e, fs') \<Rightarrow> (False, fs')
      | (Inr d, fs') \<Rightarrow> fail_series env config user attempts fs')"

definition attempt_time :: "string \<times> string \<times> string \<times> rat \<Rightarrow> rat" where
  "attempt_time a = snd (snd (snd a))"

lemma guard_timestamp_JTime: "0 \<le> t \<Longrightarrow> guard_timestamp (Some (JTime t)) clock = Inr t"
  by (simp add: guard_timestamp_def runtime_timestamp_def finite_argument_def require_def)

lemma fail_series_progress:
  assumes "fail_series env config user attempts fs = (True, fs')" "guard_enabled config"
    and "safe_text user 256 = Some u" "key = bucket_key env ''credential'' u"
    and "gstored config fs m" "distinct (map fst (g_buckets m))" "length (g_buckets m) \<le> n"
    and "n + 2 * length attempts \<le> bucket_limit config"
    and "ready config t1 i s (map_of (g_buckets m) key)" "0 \<le> t1"
    and "sorted (s # map attempt_time attempts)"
    and "\<forall>a\<in>set attempts. t1 \<le> attempt_time a \<and> attempt_time a \<le> t1 + failure_window_seconds config \<and> attempt_time a < t1 + lockout_seconds config"
    and "attempts \<noteq> []"
  shows "gholds config (n + 2 * length attempts) key (progress config t1 (i + length attempts) (attempt_time (last attempts))) fs'"
  using assms(1,5-9,11-13)
proof (induction attempts arbitrary: fs m n i s)
  case (Cons a attempts)
  obtain ip protocol publisher t where [simp]: "a = (ip, protocol, publisher, t)" by (cases a) auto
  have T: "s \<le> t" "t1 \<le> t" "t \<le> t1 + failure_window_seconds config" "t < t1 + lockout_seconds config" "0 \<le> t"
    using Cons.prems(7,8) assms(10) by (auto simp: attempt_time_def)
  obtain d fs1 where r: "record_failure env config ip user protocol publisher (Some (JTime t)) NaN fs = (Inr d, fs1)"
      "fail_series env config user attempts fs1 = (True, fs')"
    using Cons.prems(1) by (auto split: prod.splits sum.splits)
  then have call: "guard_lock config (failure_body env config ip user protocol publisher t) fs = (Inr d, fs1)"
    using assms(2) T(5) by (simp add: record_failure_def guard_timestamp_JTime)
  have writes: "failure_body env config ip user protocol publisher t m \<noteq> Inr (v, None)" for v
    by (auto simp: failure_body_def Let_def rbind_def split: sum.splits prod.splits)
  obtain m' where m': "failure_body env config ip user protocol publisher t m = Inr (d, Some m')" "gstored config fs1 (guard_norm config m')"
    using guard_lock_wrote [OF Cons.prems(2) call writes] by blast
  have "holds_bucket (n + 2) key (progress config t1 (Suc i) t) (g_buckets m')"
    using failure_progress [OF m'(1) assms(3,4) Cons.prems(3,4) _ Cons.prems(6) T] Cons.prems(5) by simp
  then have h: "holds_bucket (n + 2) key (progress config t1 (Suc i) t) (g_buckets (guard_norm config m'))" by (simp add: holds_norm)
  show ?case
  proof (cases "attempts = []")
    case True
    then show ?thesis using r(2) h m'(2) by (auto simp: gholds_def attempt_time_def)
  next
    case False
    have "gholds config (n + 2 + 2 * length attempts) key (progress config t1 (Suc i + length attempts) (attempt_time (last attempts))) fs'"
      using h Cons.prems(5,7,8) progress_ready False
      by (intro Cons.IH [OF r(2) m'(2), where s = t]) (auto simp: holds_bucket_def attempt_time_def)
    then show ?thesis using False by (simp add: algebra_simps)
  qed
qed simp

text \<open>Repeated failures lock a credential out.  From a guard that holds no lock on it, as many recorded failures
  as the limit, from any addresses, at times that do not decrease and stay within the failure window and the
  lockout of the first one, leave the credential blocked for every check until a full lockout after that
  first failure; as long as the buckets have room for two per failure.\<close>

theorem lockout_after_limit:
  assumes "fail_series env config user attempts fs = (True, fs1)" "guard_enabled config" "safe_text user 256 = Some u"
    and "gstored config fs m" "distinct (map fst (g_buckets m))"
    and "\<forall>b. map_of (g_buckets m) (bucket_key env ''credential'' u) = Some b \<longrightarrow> b_locked_until b = 0"
    and "length (g_buckets m) + 2 * length attempts \<le> bucket_limit config"
    and "attempts \<noteq> []" "max_failures_per_credential config \<le> int (length attempts)"
    and "sorted (map attempt_time attempts)" "0 \<le> attempt_time (hd attempts)"
    and "attempt_time (last attempts) \<le> attempt_time (hd attempts) + failure_window_seconds config"
    and "attempt_time (last attempts) < attempt_time (hd attempts) + lockout_seconds config"
    and "guard_timestamp now clock = Inr t" "t < attempt_time (hd attempts) + lockout_seconds config"
  shows "\<exists>d fs2. check_guard env config ip user now clock fs1 = (Inr d, fs2) \<and> blocked d \<and> ''credential'' \<in> set (locked_scopes d)"
proof -
  let ?t1 = "attempt_time (hd attempts)" and ?tn = "attempt_time (last attempts)" and ?key = "bucket_key env ''credential'' u"
  have "?t1 \<le> attempt_time a" if "a \<in> set attempts" for a using that assms(10) by (cases attempts) auto
  moreover have "attempt_time a \<le> ?tn" if "a \<in> set attempts" for a
    using that assms(10) by (cases attempts rule: rev_cases) (auto simp: sorted_append)
  ultimately have between: "?t1 \<le> attempt_time a \<and> attempt_time a \<le> ?tn" if "a \<in> set attempts" for a using that by blast
  have srt: "sorted (?t1 # map attempt_time attempts)"
    using assms(10) between by auto
  have "ready config ?t1 0 ?t1 (map_of (g_buckets m) ?key)"
    using assms(6) by (auto simp: ready_def counted_def split: option.splits)
  from fail_series_progress [OF assms(1-3) refl assms(4,5) order_refl assms(7) this assms(11) srt _ assms(8)]
  have "gholds config (length (g_buckets m) + 2 * length attempts) ?key (progress config ?t1 (length attempts) ?tn) fs1"
    using between assms(12,13) by fastforce
  then obtain m1 b where m1: "gstored config fs1 m1" "distinct (map fst (g_buckets m1))"
      "length (g_buckets m1) \<le> length (g_buckets m) + 2 * length attempts" "map_of (g_buckets m1) ?key = Some b"
      and p: "progress config ?t1 (length attempts) ?tn b"
    by (auto simp: gholds_def holds_bucket_def)
  have "length (filter (\<lambda>x. ?t1 \<le> x \<and> x \<le> ?tn) (b_failures b)) \<le> length (b_failures b)" by (rule length_filter_le)
  then have L: "?t1 + lockout_seconds config \<le> b_locked_until b" using p assms(9) unfolding progress_def counted_def by linarith
  have g: "gholds config (length (g_buckets m) + 2 * length attempts) ?key (\<lambda>c. b_locked_until c = b_locked_until b) fs1"
    using m1 by (auto simp: gholds_def holds_bucket_def)
  have "(''credential'', u, max_failures_per_credential config) \<in> set (scope_specs env config ip user)"
    using assms(3) by (simp add: scope_specs_def)
  from locked_check_blocks [OF g assms(7) this assms(2,14)] L assms(15) show ?thesis by fastforce
qed

definition demo_env :: guard_env where
  "demo_env = \<lparr>digest = (\<lambda>s. replicate 64 (if s = ''alice'' then CHR ''b'' else CHR ''a'')), ip_text = Some, uuid_text = (\<lambda>s. None)\<rparr>"

definition demo_guard :: guard_config where
  "demo_guard = \<lparr>guard_enabled = True, failure_window_seconds = 60, max_failures_per_ip = 20, max_failures_per_credential = 2,
     lockout_seconds = 120, event_limit = 3, bucket_limit = 32, blocked_event_interval_seconds = 5\<rparr>"

definition demo_attempts :: "(string \<times> string \<times> string \<times> rat) list" where
  "demo_attempts = [(''10.0.0.1'', ''srt'', ''p'', 10), (''10.0.0.2'', ''srt'', ''p'', 12)]"

definition demo_locked :: authority where
  "demo_locked = snd (fail_series demo_env demo_guard ''bob'' demo_attempts fresh_authority)"

definition demo_state :: guard_state where
  "demo_state = the (auth_contents empty_guard (guard_decode demo_guard) demo_locked)"

definition demo_calls :: "(guard_call \<times> json option \<times> pyfloat) list" where
  "demo_calls = [(Call_Failure ''10.0.0.2'' ''alice'' ''srt'' ''q'', Some (JInt 20), NaN), (Call_Success ''alice'', Some (JInt 21), NaN),
     (Call_Check ''10.0.0.3'' ''bob'', None, PosInf)]"

lemma demo_series: "fail_series demo_env demo_guard ''bob'' demo_attempts fresh_authority = (True, demo_locked)"
proof -
  have "fst (fail_series demo_env demo_guard ''bob'' demo_attempts fresh_authority)" by code_simp
  then show ?thesis by (simp add: demo_locked_def prod_eq_iff)
qed

lemma demo_bob: "safe_text ''bob'' 256 = Some ''bob''"
  by code_simp

lemma demo_guard_fresh: "gstored config fresh_authority empty_guard"
  by (simp add: gstored_def auth_contents_def fresh_authority_def read_authority_def was_initialized_def)

theorem lockout_after_limit_witness:
  "\<exists>d fs. check_guard demo_env demo_guard ''10.0.0.9'' ''bob'' (Some (JTime 129)) NaN demo_locked = (Inr d, fs) \<and>
     blocked d \<and> ''credential'' \<in> set (locked_scopes d)"
  by (rule lockout_after_limit [OF demo_series _ demo_bob demo_guard_fresh, where t = 129])
    (simp_all add: empty_guard_def demo_guard_def demo_attempts_def attempt_time_def guard_timestamp_JTime)

text \<open>Evaluated once, the locked authority gives all the facts about it.\<close>

definition demo_locked_facts :: "authority \<Rightarrow> bool \<times> bool \<times> nat \<times> rat option" where
  "demo_locked_facts fs =
     (case auth_contents empty_guard (guard_decode demo_guard) fs of
        None \<Rightarrow> (False, False, 0, None)
      | Some m \<Rightarrow> (marker fs \<noteq> OtherMarker, distinct (map fst (g_buckets m)), length (g_buckets m),
          map_option b_locked_until (map_of (g_buckets m) (bucket_key demo_env ''credential'' ''bob''))))"

lemma demo_locked_evaluated: "demo_locked_facts demo_locked = (True, True, 2, Some 132)"
  by code_simp

lemma demo_state_facts:
  "marker demo_locked \<noteq> OtherMarker" "auth_contents empty_guard (guard_decode demo_guard) demo_locked \<noteq> None"
  "distinct (map fst (g_buckets demo_state))" "length (g_buckets demo_state) = 2"
  "map_option b_locked_until (map_of (g_buckets demo_state) (bucket_key demo_env ''credential'' ''bob'')) = Some 132"
  using demo_locked_evaluated by (auto simp: demo_locked_facts_def demo_state_def split: option.splits)

lemma demo_calls_within: "list_all (call_within demo_env (bucket_key demo_env ''credential'' ''bob'') 132) demo_calls"
  by code_simp

theorem lockout_holds_witness:
  "\<exists>d fs. check_guard demo_env demo_guard ''10.0.0.9'' ''bob'' (Some (JTime 131)) NaN (guard_calls demo_env demo_guard demo_calls demo_locked) = (Inr d, fs) \<and>
     blocked d \<and> ''credential'' \<in> set (locked_scopes d) \<and> \<lceil>132 - 131 :: rat\<rceil> \<le> retry_after_seconds d"
proof -
  obtain b where b: "map_of (g_buckets demo_state) (bucket_key demo_env ''credential'' ''bob'') = Some b" "b_locked_until b = 132"
    using demo_state_facts(5) by auto
  have st: "gstored demo_guard demo_locked demo_state" using demo_state_facts(1,2) by (auto simp: gstored_def demo_state_def)
  have "(''credential'', ''bob'', 2) \<in> set (scope_specs demo_env demo_guard ''10.0.0.9'' ''bob'')"
    by (simp add: scope_specs_def demo_bob demo_guard_def)
  from lockout_holds [OF st demo_state_facts(3) b _ demo_calls_within this, of "Some (JTime 131)" NaN 131]
  show ?thesis by (simp add: demo_state_facts(4) demo_calls_def demo_guard_def guard_timestamp_JTime)
qed

end
