(* ===== verification/Egress.thy ===== *)
theory Egress
  imports Python_Text
begin

text \<open>
  The egress gateway (\<open>apps/egress-gateway/egress_policy.py\<close>, \<open>egress_report_cadence.py\<close> and the loop of
  \<open>EgressGateway.run\<close> in \<open>egress.py\<close>): classification of transport errors, reconnect delays and the retry
  loop.

  One pass of the loop is a value: the verdict of the destination guard or what the media attempt did, the
  clock and random readings, and whether a stop was requested.  The wall clock is a finite number that is
  not negative.  Building and running the GStreamer pipeline is not modelled.
\<close>

section \<open>Errors\<close>

definition TERMINAL_REASON_CODES :: "string list" where
  "TERMINAL_REASON_CODES = [''AUTH_FAILED'', ''PUBLISH_CONFLICT'', ''PUBLISH_REJECTED'', ''LOCAL_PIPELINE_FAILED'']"

fun occurs_in :: "string \<Rightarrow> string \<Rightarrow> bool" where
  "occurs_in token [] = (token = [])"
| "occurs_in token (c # cs) = (starts_with token (c # cs) \<or> occurs_in token cs)"

definition AUTH_TOKENS :: "string list" where
  "AUTH_TOKENS = [''unauthorized'', ''forbidden'', ''auth failed'', ''authfailed'', ''invalid stream key'', '' 401 '',
     '' 403 '', ''code=401'', ''code=403'']"

definition CONFLICT_TOKENS :: "string list" where
  "CONFLICT_TOKENS = [''badname'', ''already publishing'', ''publish conflict'', ''stream already'']"

definition TLS_TOKENS :: "string list" where
  "TLS_TOKENS = [''certificate'', ''tls'', ''ssl'']"

definition DNS_TOKENS :: "string list" where
  "DNS_TOKENS = [''could not resolve'', ''name or service not known'', ''temporary failure in name resolution'', ''dns'']"

definition UNREACHABLE_TOKENS :: "string list" where
  "UNREACHABLE_TOKENS = [''connection refused'', ''network is unreachable'', ''no route to host'', ''could not connect'',
     ''connection reset'']"

definition classify_error ::
  "string \<Rightarrow> string \<Rightarrow> string option \<Rightarrow> string option \<Rightarrow> int option \<Rightarrow> bool \<Rightarrow> string"
where
  "classify_error source_name message debug error_domain error_code connected_once =
     (if starts_with ''src'' source_name \<or> occurs_in ''rtspsrc'' source_name then ''UPSTREAM_UNAVAILABLE'' else
      let haystack = py_lower (message @ [CHR 0x0A] @ (case debug of None \<Rightarrow> [] | Some d \<Rightarrow> d));
          mentions = list_ex (\<lambda>token. occurs_in token haystack)
      in if mentions AUTH_TOKENS then ''AUTH_FAILED''
         else if mentions CONFLICT_TOKENS then ''PUBLISH_CONFLICT''
         else if mentions TLS_TOKENS then ''TLS_FAILED''
         else if mentions DNS_TOKENS then ''DNS_FAILED''
         else if mentions [''timeout'', ''timed out''] then ''TIMEOUT''
         else if mentions UNREACHABLE_TOKENS then ''UNREACHABLE''
         else if source_name = ''egress_sink'' \<and> \<not> connected_once \<and> error_domain = Some ''gst-resource-error-quark'' \<and>
                 error_code = Some 10 then ''PUBLISH_REJECTED''
         else ''EGRESS_PIPELINE_FAILED'')"

section \<open>Reconnect policy\<close>

record reconnect_policy =
  initial_seconds :: rat
  max_seconds :: rat
  multiplier :: rat
  jitter_ratio :: rat
  max_attempts :: int
  max_elapsed_seconds :: rat

definition reconnect_ok :: "reconnect_policy \<Rightarrow> bool" where
  "reconnect_ok p \<longleftrightarrow>
     0 \<le> initial_seconds p \<and> 0 \<le> max_seconds p \<and> initial_seconds p \<le> max_seconds p \<and> 1 \<le> multiplier p \<and>
     0 \<le> jitter_ratio p \<and> jitter_ratio p \<le> 1 \<and> 0 \<le> max_attempts p \<and> 0 \<le> max_elapsed_seconds p"

fun make_reconnect_policy :: "pyfloat \<Rightarrow> pyfloat \<Rightarrow> pyfloat \<Rightarrow> pyfloat \<Rightarrow> int \<Rightarrow> pyfloat \<Rightarrow> err + reconnect_policy" where
  "make_reconnect_policy (Fin initial) (Fin maximum) (Fin mult) (Fin jitter) attempts (Fin elapsed) =
     (let p = \<lparr>initial_seconds = initial, max_seconds = maximum, multiplier = mult, jitter_ratio = jitter,
               max_attempts = attempts, max_elapsed_seconds = elapsed\<rparr>
      in if reconnect_ok p then Inr p else Inl ValueError)"
| "make_reconnect_policy _ _ _ _ _ _ = Inl ValueError"

text \<open>\<open>x ** n\<close> on floats raises OverflowError where a product would be an infinity.\<close>

definition float_pow :: "rat \<Rightarrow> nat \<Rightarrow> err + rat" where
  "float_pow x n = (case mk_float (x ^ n) of Fin y \<Rightarrow> Inr y | _ \<Rightarrow> Inl OverflowError)"

definition fmin :: "rat \<Rightarrow> pyfloat \<Rightarrow> rat" where
  "fmin a f = (case f of Fin x \<Rightarrow> min a x | _ \<Rightarrow> a)"

definition delay_for :: "reconnect_policy \<Rightarrow> int \<Rightarrow> rat \<Rightarrow> err + pyfloat" where
  "delay_for p failure_count random_value =
     rbind (float_pow (multiplier p) (nat (max 0 (failure_count - 1)))) (\<lambda>power.
     let base = fmin (max_seconds p) (mk_float (initial_seconds p * power));
         bounded_random = min 1 (max 0 random_value);
         factor = 1 + (bounded_random * 2 - 1) * jitter_ratio p
     in Inr (mk_float (max 0 (base * factor))))"

definition exhausted :: "reconnect_policy \<Rightarrow> int \<Rightarrow> rat \<Rightarrow> bool" where
  "exhausted p failure_count elapsed_seconds =
     (if 0 < max_attempts p \<and> max_attempts p \<le> failure_count then True
      else if 0 < max_elapsed_seconds p \<and> max_elapsed_seconds p \<le> elapsed_seconds then True
      else False)"

section \<open>Report cadence\<close>

definition POLL_SECONDS :: rat where
  "POLL_SECONDS = 250 / 1000"

definition fmod :: "rat \<Rightarrow> rat \<Rightarrow> rat" where
  "fmod a b = a - b * of_int \<lfloor>a / b\<rfloor>"

definition heartbeat_report_interval_seconds :: "rat \<Rightarrow> rat" where
  "heartbeat_report_interval_seconds s =
     (if s \<le> 0 then 0 else
      let remainder = fmod s POLL_SECONDS in if remainder = 0 then s else s + (POLL_SECONDS - remainder))"

definition liveness_window_can_be_armed :: "rat \<Rightarrow> rat \<Rightarrow> bool" where
  "liveness_window_can_be_armed liveness_timeout heartbeat \<longleftrightarrow>
     0 < liveness_timeout \<and> 0 < heartbeat \<and> heartbeat_report_interval_seconds heartbeat < liveness_timeout"

section \<open>The loop\<close>

record attempt_result =
  ar_reason_code :: string
  ar_rendered_buffers :: nat
  ar_terminal :: bool

text \<open>The guard blocks an attempt, or it runs: it may connect (with a frame count) and report progress.\<close>

datatype attempt = Guard_Blocked string bool | Attempted "nat option" "nat list" attempt_result

record pass =
  ps_attempt :: attempt
  ps_stopped :: bool
  ps_failed_at :: rat
  ps_checked_at :: rat
  ps_now :: rat
  ps_random :: rat
  ps_stopped_waiting :: bool

record status_report =
  sr_status :: string
  sr_connected :: bool
  sr_attempt :: int
  sr_reason_code :: "string option"
  sr_rendered_buffers :: nat
  sr_next_retry_at :: "rat option"

record gateway =
  gw_failure_count :: int
  gw_outage_started :: "rat option"
  gw_reports :: "status_report list"

definition new_gateway :: gateway where
  "new_gateway = \<lparr>gw_failure_count = 0, gw_outage_started = None, gw_reports = []\<rparr>"

definition write_status :: "string \<Rightarrow> bool \<Rightarrow> string option \<Rightarrow> nat \<Rightarrow> rat option \<Rightarrow> gateway \<Rightarrow> gateway" where
  "write_status status is_connected reason rendered next_retry g =
     g\<lparr>gw_reports := gw_reports g @ [\<lparr>sr_status = status, sr_connected = is_connected, sr_attempt = gw_failure_count g + 1,
       sr_reason_code = reason, sr_rendered_buffers = rendered, sr_next_retry_at = next_retry\<rparr>]\<rparr>"

definition on_connected :: "nat \<Rightarrow> gateway \<Rightarrow> gateway" where
  "on_connected rendered g =
     write_status ''CONNECTED'' True None rendered None (g\<lparr>gw_failure_count := 0, gw_outage_started := None\<rparr>)"

definition on_progress :: "nat \<Rightarrow> gateway \<Rightarrow> gateway" where
  "on_progress rendered g = write_status ''CONNECTED'' True None rendered None g"

fun run_attempt :: "attempt \<Rightarrow> gateway \<Rightarrow> attempt_result \<times> gateway" where
  "run_attempt (Guard_Blocked reason terminal) g =
     (\<lparr>ar_reason_code = reason, ar_rendered_buffers = 0, ar_terminal = terminal\<rparr>, g)"
| "run_attempt (Attempted frames progress result) g =
     (result, fold on_progress progress (case frames of None \<Rightarrow> g | Some n \<Rightarrow> on_connected n g))"

datatype pass_result = Retry gateway | Exit int gateway | Raised err gateway

definition stop_gateway :: "nat \<Rightarrow> gateway \<Rightarrow> pass_result" where
  "stop_gateway rendered g = Exit 0 (write_status ''STOPPED'' False (Some ''USER_STOPPED'') rendered None g)"

definition gateway_pass :: "reconnect_policy \<Rightarrow> pass \<Rightarrow> gateway \<Rightarrow> pass_result" where
  "gateway_pass p ps g0 =
     (let (result, g) = run_attempt (ps_attempt ps) g0; rendered = ar_rendered_buffers result in
      if ps_stopped ps \<or> ar_reason_code result = ''STOPPED'' then stop_gateway rendered g else
      let g = g\<lparr>gw_failure_count := gw_failure_count g + 1,
                 gw_outage_started := (case gw_outage_started g of None \<Rightarrow> Some (ps_failed_at ps) | Some t \<Rightarrow> Some t)\<rparr>;
          reason = Some (ar_reason_code result)
      in if ar_terminal result then
           Exit 2 (write_status (if ar_reason_code result \<in> {''AUTH_FAILED'', ''PUBLISH_CONFLICT''} then ''AUTH_FAILED'' else ''FAILED'')
             False reason rendered None g)
         else if exhausted p (gw_failure_count g) (ps_checked_at ps - the (gw_outage_started g)) then
           Exit 3 (write_status ''FAILED'' False (Some ''RETRY_EXHAUSTED'') rendered None g)
         else
           (case delay_for p (gw_failure_count g) (ps_random ps) of
              Inl e \<Rightarrow> Raised e g
            | Inr delay \<Rightarrow>
                (case fadd (Fin (ps_now ps)) delay of
                   Fin next_retry_at \<Rightarrow>
                     let g = write_status ''RECONNECTING'' False reason rendered (Some next_retry_at) g
                     in if ps_stopped_waiting ps then stop_gateway 0 g else Retry g
                 | _ \<Rightarrow> Raised ValueError g)))"

fun gateway_loop :: "reconnect_policy \<Rightarrow> pass list \<Rightarrow> gateway \<Rightarrow> pass_result" where
  "gateway_loop p [] g = Retry g"
| "gateway_loop p (ps # passes) g =
     (case gateway_pass p ps g of Retry g' \<Rightarrow> gateway_loop p passes g' | r \<Rightarrow> r)"

text \<open>\<open>run\<close>: the sink factory and the destination are checked before the loop.\<close>

definition gateway_run :: "reconnect_policy \<Rightarrow> bool \<Rightarrow> bool \<Rightarrow> pass list \<Rightarrow> gateway \<Rightarrow> pass_result" where
  "gateway_run p sink_ok destination_ok passes g =
     (if \<not> sink_ok then Exit 2 (write_status ''FAILED'' False (Some ''LOCAL_PIPELINE_FAILED'') 0 None g)
      else if \<not> destination_ok then Exit 1 (write_status ''FAILED'' False (Some ''SECRET_UNAVAILABLE'') 0 None g)
      else gateway_loop p passes (write_status ''STARTING'' False None 0 None g))"

section \<open>Delays\<close>

lemma make_reconnect_policy_ok: "make_reconnect_policy i m u j a e = Inr p \<Longrightarrow> reconnect_ok p"
  by (cases "(i, m, u, j, a, e)" rule: make_reconnect_policy.cases) (auto simp: Let_def split: if_splits)

lemma float_pow_ge1:
  assumes "1 \<le> x"
  shows "float_pow x n = (if x ^ n < float_overflow then Inr (x ^ n) else Inl OverflowError)"
proof -
  have "0 \<le> x ^ n" using assms by simp
  then show ?thesis by (auto simp: float_pow_def mk_float_def split: pyfloat.splits)
qed

lemma fmin_bounds:
  assumes "0 \<le> a" "0 \<le> x"
  shows "0 \<le> fmin a (mk_float x) \<and> fmin a (mk_float x) \<le> a"
proof (cases "mk_float x")
  case (Fin y)
  then have "y = x" by (simp add: mk_float_eq_Fin)
  then show ?thesis using Fin assms by (simp add: fmin_def)
qed (use assms in \<open>simp_all add: fmin_def\<close>)

lemma jitter_bounds:
  assumes "0 \<le> base" "base \<le> m" "0 \<le> b" "b \<le> 1" "0 \<le> j" "j \<le> (1 :: rat)"
  shows "0 \<le> base * (1 + (b * 2 - 1) * j)" "base * (1 + (b * 2 - 1) * j) \<le> m * (1 + j)" "m * (1 + j) \<le> 2 * m"
proof -
  have "- j \<le> (b * 2 - 1) * j" "(b * 2 - 1) * j \<le> j"
    using mult_right_mono [of "-1" "b * 2 - 1" j] mult_right_mono [of "b * 2 - 1" 1 j] assms by auto
  then have f: "0 \<le> 1 + (b * 2 - 1) * j" "1 + (b * 2 - 1) * j \<le> 1 + j" using assms(6) by linarith+
  show "0 \<le> base * (1 + (b * 2 - 1) * j)" using assms(1) f(1) by (rule mult_nonneg_nonneg)
  show "base * (1 + (b * 2 - 1) * j) \<le> m * (1 + j)" using assms f by (intro mult_mono) auto
  show "m * (1 + j) \<le> 2 * m" using assms mult_left_mono [of "1 + j" 2 m] by (simp add: mult.commute)
qed

lemma delay_for_bounds:
  assumes ok: "reconnect_ok p" and small: "2 * max_seconds p < float_overflow"
  shows "(delay_for p n r = Inl OverflowError \<and> float_overflow \<le> multiplier p ^ nat (max 0 (n - 1))) \<or>
    (\<exists>d. delay_for p n r = Inr (Fin d) \<and> multiplier p ^ nat (max 0 (n - 1)) < float_overflow \<and>
       0 \<le> d \<and> d \<le> max_seconds p * (1 + jitter_ratio p))"
proof -
  define power where "power = multiplier p ^ nat (max 0 (n - 1))"
  have u: "1 \<le> multiplier p" "0 \<le> initial_seconds p" "0 \<le> max_seconds p" "0 \<le> jitter_ratio p" "jitter_ratio p \<le> 1"
    using ok by (auto simp: reconnect_ok_def)
  have pow: "float_pow (multiplier p) (nat (max 0 (n - 1))) = (if power < float_overflow then Inr power else Inl OverflowError)"
    unfolding power_def by (rule float_pow_ge1 [OF u(1)])
  have "0 \<le> power" using u(1) unfolding power_def by (intro zero_le_power) linarith
  then have "0 \<le> initial_seconds p * power" by (rule mult_nonneg_nonneg [OF u(2)])
  note base = fmin_bounds [OF u(3) this, THEN conjunct1] fmin_bounds [OF u(3) this, THEN conjunct2]
  have "0 \<le> min 1 (max 0 r)" "min 1 (max 0 r) \<le> 1" by auto
  note d = jitter_bounds [OF base this u(4,5)]
  show ?thesis
  proof (cases "power < float_overflow")
    case False
    then have "delay_for p n r = Inl OverflowError" by (simp add: delay_for_def pow)
    then show ?thesis using False by (simp add: power_def)
  next
    case True
    let ?d = "fmin (max_seconds p) (mk_float (initial_seconds p * power)) * (1 + (min 1 (max 0 r) * 2 - 1) * jitter_ratio p)"
    have "?d < float_overflow" using d(2,3) small by linarith
    then have "mk_float ?d = Fin ?d" using d(1) by (intro mk_float_Fin) simp
    moreover have "max 0 ?d = ?d" using d(1) by (rule max_absorb2)
    ultimately have "delay_for p n r = Inr (Fin ?d)"
      unfolding delay_for_def pow using True by (simp only: if_True rbind_simps Let_def)
    then show ?thesis using True d(1,2) unfolding power_def by blast
  qed
qed

section \<open>A long outage\<close>

text \<open>A pass that fails without connecting, is not terminal and is not stopped.\<close>

definition plain_failure :: "pass \<Rightarrow> bool" where
  "plain_failure ps \<longleftrightarrow> \<not> ps_stopped ps \<and> \<not> ps_stopped_waiting ps \<and>
     (case ps_attempt ps of
        Guard_Blocked reason terminal \<Rightarrow> reason \<noteq> ''STOPPED'' \<and> \<not> terminal
      | Attempted frames progress result \<Rightarrow>
          frames = None \<and> progress = [] \<and> ar_reason_code result \<noteq> ''STOPPED'' \<and> \<not> ar_terminal result)"

definition unlimited :: "reconnect_policy \<Rightarrow> bool" where
  "unlimited p \<longleftrightarrow> max_attempts p = 0 \<and> max_elapsed_seconds p = 0"

definition retry_due :: "pass \<Rightarrow> status_report \<Rightarrow> reconnect_policy \<Rightarrow> bool" where
  "retry_due ps r p \<longleftrightarrow> sr_status r = ''RECONNECTING'' \<and>
     (\<exists>t. sr_next_retry_at r = Some t \<and> ps_now ps \<le> t \<and> t \<le> ps_now ps + max_seconds p * (1 + jitter_ratio p))"

lemma plain_failure_attempt:
  assumes "plain_failure ps"
  obtains result where "run_attempt (ps_attempt ps) g = (result, g)" "ar_reason_code result \<noteq> ''STOPPED''" "\<not> ar_terminal result"
  using assms by (cases "ps_attempt ps") (auto simp: plain_failure_def)

lemma pass_outcome:
  assumes "plain_failure ps" "unlimited p" "reconnect_ok p" "2 * max_seconds p < float_overflow"
    and "0 \<le> ps_now ps" "ps_now ps + 2 * max_seconds p < float_overflow" "0 \<le> gw_failure_count g"
  shows "if multiplier p ^ nat (gw_failure_count g) < float_overflow
    then (\<exists>g' r. gateway_pass p ps g = Retry g' \<and> gw_failure_count g' = gw_failure_count g + 1 \<and>
            gw_reports g' = gw_reports g @ [r] \<and> retry_due ps r p)
    else (\<exists>g'. gateway_pass p ps g = Raised OverflowError g' \<and> gw_reports g' = gw_reports g)"
proof -
  obtain result where r: "run_attempt (ps_attempt ps) g = (result, g)" "ar_reason_code result \<noteq> ''STOPPED''" "\<not> ar_terminal result"
    using plain_failure_attempt [OF assms(1)] .
  have ps: "\<not> ps_stopped ps" "\<not> ps_stopped_waiting ps" using assms(1) by (auto simp: plain_failure_def)
  have ex: "\<not> exhausted p n t" for n t using assms(2) by (simp add: exhausted_def unlimited_def)
  have n: "nat (max 0 (gw_failure_count g + 1 - 1)) = nat (gw_failure_count g)" using assms(7) by simp
  show ?thesis
  proof (cases "multiplier p ^ nat (gw_failure_count g) < float_overflow")
    case False
    then have "delay_for p (gw_failure_count g + 1) (ps_random ps) = Inl OverflowError"
      using delay_for_bounds [OF assms(3,4), of "gw_failure_count g + 1" "ps_random ps"] unfolding n by auto
    then show ?thesis using False r ps ex by (simp add: gateway_pass_def Let_def)
  next
    case True
    then obtain d where d: "delay_for p (gw_failure_count g + 1) (ps_random ps) = Inr (Fin d)" "0 \<le> d" "d \<le> max_seconds p * (1 + jitter_ratio p)"
      using delay_for_bounds [OF assms(3,4), of "gw_failure_count g + 1" "ps_random ps"] unfolding n by auto
    have "max_seconds p * (1 + jitter_ratio p) \<le> 2 * max_seconds p"
      using assms(3) by (intro jitter_bounds(3) [of 0 _ 0]) (auto simp: reconnect_ok_def)
    then have "fadd (Fin (ps_now ps)) (Fin d) = Fin (ps_now ps + d)" using d assms(5,6) by (simp add: mk_float_Fin)
    then show ?thesis using True r ps ex d by (auto simp: gateway_pass_def Let_def write_status_def retry_due_def)
  qed
qed

definition clock_ok :: "reconnect_policy \<Rightarrow> pass \<Rightarrow> bool" where
  "clock_ok p ps \<longleftrightarrow> 0 \<le> ps_now ps \<and> ps_now ps + 2 * max_seconds p < float_overflow"

lemma outage_loop:
  assumes "list_all plain_failure passes" "list_all (clock_ok p) passes"
    and p: "unlimited p" "reconnect_ok p" "2 * max_seconds p < float_overflow" and "0 \<le> gw_failure_count g"
  shows "case gateway_loop p passes g of
      Retry g' \<Rightarrow> (passes = [] \<or> multiplier p ^ (nat (gw_failure_count g) + length passes - 1) < float_overflow) \<and>
        (\<exists>rs. gw_reports g' = gw_reports g @ rs \<and> list_all2 (\<lambda>ps r. retry_due ps r p) passes rs)
    | Raised e g' \<Rightarrow> e = OverflowError \<and> float_overflow \<le> multiplier p ^ (nat (gw_failure_count g) + length passes - 1)
    | Exit c g' \<Rightarrow> False"
  using assms(1,2,6)
proof (induction passes arbitrary: g)
  case (Cons ps passes)
  have u: "1 \<le> multiplier p" using p(2) by (simp add: reconnect_ok_def)
  have k: "nat (gw_failure_count g + 1) = Suc (nat (gw_failure_count g))" using Cons.prems(3) by simp
  note out = pass_outcome [of ps p g, OF _ p(1,2,3)]
  show ?case
  proof (cases "multiplier p ^ nat (gw_failure_count g) < float_overflow")
    case False
    then obtain g' where "gateway_pass p ps g = Raised OverflowError g'" using out Cons.prems by (auto simp: clock_ok_def)
    moreover have "multiplier p ^ nat (gw_failure_count g) \<le> multiplier p ^ (nat (gw_failure_count g) + length passes)"
      using u by (intro power_increasing) auto
    ultimately show ?thesis using False by simp
  next
    case True
    then obtain g' r where g': "gateway_pass p ps g = Retry g'" "gw_failure_count g' = gw_failure_count g + 1"
        "gw_reports g' = gw_reports g @ [r]" "retry_due ps r p"
      using out Cons.prems by (auto simp: clock_ok_def)
    have IH: "case gateway_loop p passes g' of
        Retry g'' \<Rightarrow> (passes = [] \<or> multiplier p ^ (nat (gw_failure_count g') + length passes - 1) < float_overflow) \<and>
          (\<exists>rs. gw_reports g'' = gw_reports g' @ rs \<and> list_all2 (\<lambda>ps r. retry_due ps r p) passes rs)
      | Raised e g'' \<Rightarrow> e = OverflowError \<and> float_overflow \<le> multiplier p ^ (nat (gw_failure_count g') + length passes - 1)
      | Exit c g'' \<Rightarrow> False"
      using Cons.prems g'(2) by (intro Cons.IH) auto
    have n: "nat (gw_failure_count g') + length passes - 1 = nat (gw_failure_count g) + length passes" using k g'(2) by simp
    show ?thesis
    proof (cases "gateway_loop p passes g'")
      case (Retry g'')
      then obtain rs where rs: "gw_reports g'' = gw_reports g' @ rs" "list_all2 (\<lambda>ps r. retry_due ps r p) passes rs"
        and small: "passes = [] \<or> multiplier p ^ (nat (gw_failure_count g) + length passes) < float_overflow"
        using IH n by auto
      have "\<exists>rs'. gw_reports g'' = gw_reports g @ rs' \<and> list_all2 (\<lambda>ps r. retry_due ps r p) (ps # passes) rs'"
        using rs g'(3,4) by (intro exI [of _ "r # rs"]) simp
      then show ?thesis using Retry g'(1) small True by (auto simp del: list_all2_Cons1)
    qed (use IH n g'(1) in simp_all)
  qed
qed simp

section \<open>Properties\<close>


definition default_policy :: reconnect_policy where
  "default_policy = \<lparr>initial_seconds = 1, max_seconds = 30, multiplier = 2, jitter_ratio = 1 / 5, max_attempts = 0,
     max_elapsed_seconds = 0\<rparr>"

definition demo_pass :: pass where
  "demo_pass = \<lparr>ps_attempt = Guard_Blocked ''DNS_FAILED'' False, ps_stopped = False, ps_failed_at = 5, ps_checked_at = 6,
     ps_now = 1000, ps_random = 1 / 2, ps_stopped_waiting = False\<rparr>"


end
