(* ===== verification/Control_Store.thy ===== *)
theory Control_Store
  imports Continuity
begin

text \<open>
  The authority of the audio control command (\<open>apps/control-api/control_store.py\<close>), and its composition with
  the continuity engine that reads the same file.

  The UUID parser is the parameter \<open>uuid_ok\<close> it shares with the engine; the clock and the fresh command id
  are arguments.
\<close>

section \<open>The document\<close>

record control_record =
  ct_audio_mode :: string
  ct_version :: int
  ct_command_id :: "string option"
  ct_idempotency_key :: "string option"
  ct_updated_at :: rat

definition normalize_update_time :: "json \<Rightarrow> err + rat" where
  "normalize_update_time value =
     (case finite_argument value of
        Inl _ \<Rightarrow> Inl ControlStateError
      | Inr x \<Rightarrow> if x < 0 then Inl ControlStateError else Inr x)"

definition default_control :: "pyfloat \<Rightarrow> err + control_record" where
  "default_control clock =
     rbind (normalize_update_time (JFloat clock)) (\<lambda>updated_at.
     Inr \<lparr>ct_audio_mode = ''LIVE'', ct_version = 0, ct_command_id = None, ct_idempotency_key = None, ct_updated_at = updated_at\<rparr>)"

definition key_ok :: "string \<Rightarrow> bool" where
  "key_ok key \<longleftrightarrow> key \<noteq> [] \<and> length key \<le> 200"

definition validate_control_record :: "(string \<Rightarrow> bool) \<Rightarrow> json \<Rightarrow> err + control_record" where
  "validate_control_record uuid_ok value =
     rbind (from_some ControlStateError (as_obj value)) (\<lambda>d.
     rbind (from_some ControlStateError (as_str (dget d ''audio_mode''))) (\<lambda>mode.
     rbind (require ControlStateError (mode \<in> {''LIVE'', ''MUTED''})) (\<lambda>_.
     rbind (from_some ControlStateError (as_int (dget d ''version''))) (\<lambda>version.
     rbind (require ControlStateError (0 \<le> version)) (\<lambda>_.
     rbind (if dget d ''command_id'' = JNull then Inr None else
            rbind (from_some ControlStateError (as_str (dget d ''command_id''))) (\<lambda>c.
            rbind (require ControlStateError (uuid_ok c)) (\<lambda>_. Inr (Some c)))) (\<lambda>command_id.
     rbind (if dget d ''idempotency_key'' = JNull then Inr None else
            rbind (from_some ControlStateError (as_str (dget d ''idempotency_key''))) (\<lambda>k.
            rbind (require ControlStateError (key_ok k)) (\<lambda>_. Inr (Some k)))) (\<lambda>key.
     rbind (normalize_update_time (dget d ''updated_at'')) (\<lambda>updated_at.
     Inr \<lparr>ct_audio_mode = mode, ct_version = version, ct_command_id = command_id, ct_idempotency_key = key,
          ct_updated_at = updated_at\<rparr>))))))))"

definition control_doc :: "control_record \<Rightarrow> dict" where
  "control_doc c = [(''audio_mode'', JStr (ct_audio_mode c)), (''version'', JInt (ct_version c)),
     (''command_id'', jopt (ct_command_id c)), (''idempotency_key'', jopt (ct_idempotency_key c)),
     (''updated_at'', JTime (ct_updated_at c))]"

text \<open>The contents are None until the file is written for the first time.\<close>

definition control_decode :: "(string \<Rightarrow> bool) \<Rightarrow> json \<Rightarrow> control_record option option" where
  "control_decode uuid_ok raw = (case validate_control_record uuid_ok raw of Inl _ \<Rightarrow> None | Inr c \<Rightarrow> Some (Some c))"

definition control_encode :: "(string \<Rightarrow> bool) \<Rightarrow> control_record option \<Rightarrow> json option" where
  "control_encode uuid_ok m =
     (case m of
        None \<Rightarrow> None
      | Some c \<Rightarrow>
          (case validate_control_record uuid_ok (JObj (control_doc c)) of
             Inl _ \<Rightarrow> None
           | Inr validated \<Rightarrow> Some (JObj (control_doc validated))))"

definition control_valid :: "(string \<Rightarrow> bool) \<Rightarrow> control_record \<Rightarrow> bool" where
  "control_valid uuid_ok c \<longleftrightarrow> ct_audio_mode c \<in> {''LIVE'', ''MUTED''} \<and> 0 \<le> ct_version c \<and> 0 \<le> ct_updated_at c \<and>
     pred_option uuid_ok (ct_command_id c) \<and> pred_option key_ok (ct_idempotency_key c)"

lemma validate_control_doc:
  "validate_control_record uuid_ok (JObj (control_doc c)) = (if control_valid uuid_ok c then Inr c else Inl ControlStateError)"
  by (cases "ct_command_id c"; cases "ct_idempotency_key c")
    (auto simp: validate_control_record_def control_doc_def control_valid_def dget_def normalize_update_time_def
      finite_argument_def require_def rbind_def)

lemma control_decode_encode: "control_encode uuid_ok m = Some doc \<Longrightarrow> control_decode uuid_ok doc = Some (id m)"
  by (auto simp: control_encode_def control_decode_def validate_control_doc split: option.splits if_splits)

interpretation ct: authority_codec ControlStateError None "control_decode uuid_ok" "control_encode uuid_ok" id
  for uuid_ok
  by unfold_locales (rule control_decode_encode)

definition control_lock ::
  "(string \<Rightarrow> bool) \<Rightarrow> bool \<Rightarrow> (control_record option \<Rightarrow> err + ('r \<times> control_record option option)) \<Rightarrow> authority \<Rightarrow> (err + 'r) \<times> authority"
where
  "control_lock uuid_ok arm body = auth_locked ControlStateError arm None (control_decode uuid_ok) (control_encode uuid_ok) body"

section \<open>Operations\<close>

definition ensure_body :: "pyfloat \<Rightarrow> control_record option \<Rightarrow> err + unit \<times> control_record option option" where
  "ensure_body clock m =
     (case m of
        Some c \<Rightarrow> Inr ((), None)
      | None \<Rightarrow> rbind (default_control clock) (\<lambda>c. Inr ((), Some (Some c))))"

definition ensure_control :: "(string \<Rightarrow> bool) \<Rightarrow> pyfloat \<Rightarrow> authority \<Rightarrow> (err + unit) \<times> authority" where
  "ensure_control uuid_ok clock = control_lock uuid_ok True (ensure_body clock)"

definition get_body :: "control_record option \<Rightarrow> err + control_record \<times> control_record option option" where
  "get_body m = rbind (from_some ControlStateError m) (\<lambda>c. Inr (c, None))"

definition get_control :: "(string \<Rightarrow> bool) \<Rightarrow> authority \<Rightarrow> (err + control_record) \<times> authority" where
  "get_control uuid_ok = control_lock uuid_ok False get_body"

definition update_body ::
  "string \<Rightarrow> string \<Rightarrow> int option \<Rightarrow> rat \<Rightarrow> string \<Rightarrow> control_record option \<Rightarrow> err + control_record \<times> control_record option option"
where
  "update_body mode idempotency_key expected_version effective_now new_id m =
     rbind (from_some ControlStateError m) (\<lambda>current.
     if ct_idempotency_key current = Some idempotency_key then
       if ct_audio_mode current \<noteq> mode then Inl ControlIdempotencyConflict else Inr (current, None)
     else if expected_version \<noteq> None \<and> expected_version \<noteq> Some (ct_version current) then
       Inl (ControlVersionConflict (control_doc current))
     else
       let next_control = \<lparr>ct_audio_mode = mode, ct_version = ct_version current + 1, ct_command_id = Some new_id,
             ct_idempotency_key = Some idempotency_key, ct_updated_at = effective_now\<rparr>
       in Inr (next_control, Some (Some next_control)))"

definition update_control ::
  "(string \<Rightarrow> bool) \<Rightarrow> string \<Rightarrow> string \<Rightarrow> int option \<Rightarrow> json option \<Rightarrow> pyfloat \<Rightarrow> string \<Rightarrow> authority \<Rightarrow> (err + control_record) \<times> authority"
where
  "update_control uuid_ok mode idempotency_key expected_version now clock new_id fs =
     (if mode \<notin> {''LIVE'', ''MUTED''} then (Inl ValueError, fs)
      else if \<not> key_ok idempotency_key then (Inl ValueError, fs)
      else if (case expected_version of None \<Rightarrow> False | Some v \<Rightarrow> v < 0) then (Inl ValueError, fs)
      else case normalize_update_time (case now of None \<Rightarrow> JFloat clock | Some v \<Rightarrow> v) of
        Inl e \<Rightarrow> (Inl e, fs)
      | Inr effective_now \<Rightarrow>
          control_lock uuid_ok False (update_body mode idempotency_key expected_version effective_now new_id) fs)"

section \<open>The reader's view\<close>

definition command_of :: "control_record \<Rightarrow> control_command" where
  "command_of c = \<lparr>cc_audio_mode = ct_audio_mode c, cc_version = ct_version c, cc_command_id = ct_command_id c\<rparr>"

text \<open>The engine accepts every document that the store accepts, and reads the same command from it.\<close>

lemma validators_agree:
  assumes "validate_control_record uuid_ok v = Inr c"
  shows "validate_control uuid_ok v = Inr (command_of c)"
proof (cases "as_obj v")
  case (Some d)
  show ?thesis
    using assms Some
    by (cases "as_str (dget d ''audio_mode'')"; cases "as_int (dget d ''version'')"; cases "as_str (dget d ''command_id'')";
        cases "as_str (dget d ''idempotency_key'')"; cases "finite_argument (dget d ''updated_at'')")
      (auto simp: validate_control_record_def validate_control_def normalize_update_time_def require_def from_some_def
        rbind_def command_of_def key_ok_def split: if_splits)
qed (use assms in \<open>simp add: validate_control_record_def from_some_def\<close>)

definition control_stored :: "(string \<Rightarrow> bool) \<Rightarrow> authority \<Rightarrow> control_record option \<Rightarrow> bool" where
  "control_stored uuid_ok fs m \<longleftrightarrow> marker fs \<noteq> OtherMarker \<and> auth_contents None (control_decode uuid_ok) fs = Some m"

lemma stored_is_read:
  assumes "control_stored uuid_ok fs (Some c)"
  shows "read_control uuid_ok (payload_file fs) last_valid = ((command_of c, None), Some (command_of c))"
proof -
  obtain t raw where "payload_file fs = Text t" "load_json_authority t = Some raw" "validate_control_record uuid_ok raw = Inr c"
    using assms
    by (auto simp: control_stored_def auth_contents_def read_authority_def control_decode_def
        split: reading.splits file_state.splits option.splits sum.splits if_splits)
  then show ?thesis using validators_agree [of uuid_ok raw c] by (simp add: read_control_def)
qed

lemma update_stores:
  assumes "control_stored uuid_ok fs (Some c)"
    and "update_control uuid_ok mode key expected now clock new_id fs = (Inr c', fs')"
  shows "control_stored uuid_ok fs' (Some c') \<and> ct_audio_mode c' = mode \<and> ct_idempotency_key c' = Some key \<and>
    (if ct_idempotency_key c = Some key then c' = c
     else ct_version c' = ct_version c + 1 \<and> ct_command_id c' = Some new_id \<and> expected \<in> {None, Some (ct_version c)})"
proof -
  obtain t where call: "control_lock uuid_ok False (update_body mode key expected t new_id) fs = (Inr c', fs')"
    using assms(2) by (auto simp: update_control_def split: if_splits sum.splits)
  have m: "marker fs \<noteq> OtherMarker" "auth_contents None (control_decode uuid_ok) fs = Some (Some c)"
    using assms(1) by (auto simp: control_stored_def)
  have "marker fs' \<noteq> OtherMarker"
    using ct.locked_keeps_marker [OF m(1), of False uuid_ok "update_body mode key expected t new_id"] call by (simp add: control_lock_def)
  then show ?thesis
    using ct.locked_cases [OF m, of "update_body mode key expected t new_id" False] call
    by (auto simp: control_lock_def control_stored_def update_body_def Let_def split: if_splits)
qed

section \<open>Properties\<close>

text \<open>C9. An accepted audio command reaches the output.  When an update returns, the command is the requested mode
  under the requested key: the stored one if it already carried that key, else the next version, and only
  if the expected version was absent or current.  The next reconciliation of the continuity engine, in
  whatever state it is and whatever command it had before, then reads the file without an error, applies
  exactly that command, reports its version and id, and its audio is muted exactly if the mode is MUTED.\<close>

theorem command_reaches_engine:
  assumes "control_stored uuid_ok fs (Some c)"
    and "update_control uuid_ok mode key expected now clock new_id fs = (Inr c', fs')"
  shows "ct_audio_mode c' = mode \<and> ct_idempotency_key c' = Some key \<and>
    (if ct_idempotency_key c = Some key then c' = c
     else ct_version c' = ct_version c + 1 \<and> ct_command_id c' = Some new_id \<and> expected \<in> {None, Some (ct_version c)}) \<and>
    (\<exists>d e'. reconcile uuid_ok (payload_file fs') tick e = (Inr d, e') \<and> en_control_error e' = None \<and>
       en_last_control_version e' = ct_version c' \<and> en_last_command_id e' = ct_command_id c' \<and>
       (de_actual_audio d = ActualMuted \<longleftrightarrow> mode = ''MUTED'') \<and> (mode = ''MUTED'' \<longrightarrow> en_audio_pad e' = FallbackPad))"
proof -
  note u = update_stores [OF assms]
  then have r: "read_control uuid_ok (payload_file fs') last_valid = ((command_of c', None), Some (command_of c'))" for last_valid
    by (intro stored_is_read) blast
  have "mode \<in> {''LIVE'', ''MUTED''}" using assms(2) by (auto simp: update_control_def split: if_splits)
  then obtain a where a: "audio_mode_of mode = Inr a" "a = AudioMuted \<longleftrightarrow> mode = ''MUTED''" by (auto simp: audio_mode_of_def)
  let ?m = "(en_model e)\<lparr>co_desired_audio := a\<rparr>"
  obtain d m' where d: "decide tick ?m = (d, m')" by (cases "decide tick ?m")
  have "de_actual_audio d = ActualMuted \<longleftrightarrow> mode = ''MUTED''" using decide_muted [OF d] a(2) by simp
  moreover have "de_actual_audio d = ActualMuted \<longrightarrow> de_actual_audio d \<noteq> ActualLive" by simp
  ultimately have "\<exists>d e'. reconcile uuid_ok (payload_file fs') tick e = (Inr d, e') \<and> en_control_error e' = None \<and>
       en_last_control_version e' = ct_version c' \<and> en_last_command_id e' = ct_command_id c' \<and>
       (de_actual_audio d = ActualMuted \<longleftrightarrow> mode = ''MUTED'') \<and> (mode = ''MUTED'' \<longrightarrow> en_audio_pad e' = FallbackPad)"
    using u r a(1) d by (auto simp: reconcile_def set_audio_mode_def command_of_def Let_def)
  with u show ?thesis by blast
qed

definition demo_control :: authority where
  "demo_control = snd (ensure_control (\<lambda>s. True) (Fin 100) fresh_authority)"

lemma demo_control_stored:
  "control_stored (\<lambda>s. True) demo_control (Some \<lparr>ct_audio_mode = ''LIVE'', ct_version = 0, ct_command_id = None,
     ct_idempotency_key = None, ct_updated_at = 100\<rparr>)"
  unfolding control_stored_def by (rule conjI; code_simp)

definition demo_update :: "(err + control_record) \<times> authority" where
  "demo_update = update_control (\<lambda>s. True) ''MUTED'' ''k1'' (Some 0) (Some (JInt 120)) NaN ''id'' demo_control"

lemma demo_update_ok: "demo_update = (Inr (projr (fst demo_update)), snd demo_update)"
  by code_simp

theorem command_reaches_engine_witness:
  "\<exists>d e'. reconcile (\<lambda>s. True) (payload_file (snd demo_update)) 7 demo_engine = (Inr d, e') \<and> en_control_error e' = None \<and>
     de_actual_audio d = ActualMuted \<and> en_audio_pad e' = FallbackPad"
  using command_reaches_engine [OF demo_control_stored trans [OF demo_update_def [symmetric] demo_update_ok], of 7 demo_engine] by auto

end
