(* ===== verification/Entitlement_Store.thy ===== *)
theory Entitlement_Store
  imports Session_Prepare Python_Text
begin

text \<open>
  Session allowances (\<open>apps/control-api/entitlement_store.py\<close>) and the admission of a prepare request in
  \<open>apps/control-api/session_api.py\<close>, which reads the allowance of the user and passes it to the Session store.

  The environment's default limit and the clock are arguments.
\<close>

section \<open>The document\<close>

definition entitlement_string :: "dict \<Rightarrow> string \<Rightarrow> err + string" where
  "entitlement_string record field =
     rbind (from_some EntitlementStateError (as_str (dget record field))) (\<lambda>v.
     rbind (require EntitlementStateError (v \<noteq> [])) (\<lambda>_. Inr v))"

definition entitlement_nonnegative_int :: "dict \<Rightarrow> string \<Rightarrow> err + int" where
  "entitlement_nonnegative_int record field =
     rbind (from_some EntitlementStateError (as_int (dget record field))) (\<lambda>v.
     rbind (require EntitlementStateError (0 \<le> v)) (\<lambda>_. Inr v))"

definition normalize_timestamp :: "json \<Rightarrow> err + rat" where
  "normalize_timestamp v =
     (case finite_argument v of
        Inl _ \<Rightarrow> Inl EntitlementStateError
      | Inr x \<Rightarrow> if x < 0 then Inl EntitlementStateError else Inr x)"

definition validate_entitlement :: "string \<Rightarrow> json \<Rightarrow> err + unit" where
  "validate_entitlement user_id value =
     rbind (require EntitlementStateError (user_id \<noteq> [])) (\<lambda>_.
     rbind (from_some EntitlementStateError (as_obj value)) (\<lambda>record.
     rbind (entitlement_string record ''id'') (\<lambda>stored_id.
     rbind (entitlement_string record ''user_id'') (\<lambda>stored_user_id.
     rbind (entitlement_string record ''plan'') (\<lambda>plan.
     rbind (require EntitlementStateError (py_strip plan \<noteq> [])) (\<lambda>_.
     rbind (entitlement_nonnegative_int record ''max_concurrent_sessions'') (\<lambda>_.
     rbind (normalize_timestamp (dget record ''updated_at'')) (\<lambda>_.
     rbind (require EntitlementStateError (stored_user_id = user_id)) (\<lambda>_.
     require EntitlementStateError (stored_id = ''user:'' @ user_id))))))))))"

type_synonym entitlements = "(string \<times> dict) list"

definition entitlement_decode :: "json \<Rightarrow> entitlements option" where
  "entitlement_decode raw =
     Option.bind (as_obj raw) (\<lambda>doc.
     Option.bind (as_obj (dget doc ''entitlements'')) (\<lambda>es.
     if list_all (\<lambda>p. is_ok (validate_entitlement (fst p) (snd p))) es
     then Some (map (\<lambda>p. (fst p, case as_obj (snd p) of None \<Rightarrow> [] | Some d \<Rightarrow> d)) es) else None))"

definition entitlement_encode :: "entitlements \<Rightarrow> json option" where
  "entitlement_encode es =
     (if list_all (\<lambda>p. is_ok (validate_entitlement (fst p) (JObj (snd p)))) es
      then Some (JObj [(''entitlements'', JObj (map (\<lambda>p. (fst p, JObj (snd p))) es))]) else None)"

lemma entitlement_decode_encode: "entitlement_encode es = Some doc \<Longrightarrow> entitlement_decode doc = Some (id es)"
  by (auto simp: entitlement_encode_def entitlement_decode_def dget_def comp_def list_all_iff split: if_splits)

interpretation en: authority_codec EntitlementStateError "[]" entitlement_decode entitlement_encode id
  by unfold_locales (rule entitlement_decode_encode)

definition entitlement_lock ::
  "(entitlements \<Rightarrow> err + ('r \<times> entitlements option)) \<Rightarrow> authority \<Rightarrow> (err + 'r) \<times> authority" where
  "entitlement_lock body = auth_locked EntitlementStateError True [] entitlement_decode entitlement_encode body"

section \<open>Operations\<close>

text \<open>The limit of a user without a record; \<open>raw\<close> is the environment variable, if it is set.\<close>

definition default_limit :: "string option \<Rightarrow> err + int" where
  "default_limit raw =
     (case raw of
        None \<Rightarrow> Inr 1
      | Some s \<Rightarrow> (case int_of_str s of None \<Rightarrow> Inl EntitlementStateError | Some v \<Rightarrow> Inr (max 0 v)))"

definition get_entitlement_body :: "string option \<Rightarrow> string \<Rightarrow> entitlements \<Rightarrow> err + dict \<times> entitlements option" where
  "get_entitlement_body raw user_id es =
     (case map_of es user_id of
        None \<Rightarrow>
          rbind (default_limit raw) (\<lambda>limit.
          Inr ([(''id'', JStr (''default:'' @ user_id)), (''user_id'', JStr user_id), (''plan'', JStr ''default''),
                (''max_concurrent_sessions'', JInt limit), (''updated_at'', JNull)], None))
      | Some found \<Rightarrow> Inr (found, None))"

definition get_entitlement :: "string option \<Rightarrow> string \<Rightarrow> authority \<Rightarrow> (err + dict) \<times> authority" where
  "get_entitlement raw user_id = entitlement_lock (get_entitlement_body raw user_id)"

definition set_entitlement_body :: "string \<Rightarrow> int \<Rightarrow> string \<Rightarrow> pyfloat \<Rightarrow> entitlements \<Rightarrow> err + dict \<times> entitlements option" where
  "set_entitlement_body user_id max_concurrent_sessions plan clock es =
     rbind (normalize_timestamp (JFloat clock)) (\<lambda>updated_at.
     let entitlement = [(''id'', JStr (''user:'' @ user_id)), (''user_id'', JStr user_id), (''plan'', JStr plan),
           (''max_concurrent_sessions'', JInt max_concurrent_sessions), (''updated_at'', JTime updated_at)]
     in Inr (entitlement, Some (dset es user_id entitlement)))"

definition set_entitlement :: "string \<Rightarrow> int \<Rightarrow> string \<Rightarrow> pyfloat \<Rightarrow> authority \<Rightarrow> (err + dict) \<times> authority" where
  "set_entitlement user_id max_concurrent_sessions plan clock fs =
     (if user_id = [] then (Inl ValueError, fs)
      else if max_concurrent_sessions < 0 then (Inl ValueError, fs)
      else if py_strip plan = [] then (Inl ValueError, fs)
      else entitlement_lock (set_entitlement_body user_id max_concurrent_sessions plan clock) fs)"

section \<open>Admission\<close>

text \<open>
  The part of \<open>prepare_session\<close> that reads the allowance and binds the request; the Session authority and
  the entitlement authority are two files.
\<close>

definition admit_prepare ::
  "string option \<Rightarrow> string \<Rightarrow> string \<Rightarrow> string \<Rightarrow> string option \<Rightarrow> string \<Rightarrow> string \<Rightarrow> string \<Rightarrow> pyfloat \<Rightarrow> pyfloat \<Rightarrow> pyfloat
    \<Rightarrow> authority \<times> authority \<Rightarrow> (err + dict \<times> bool) \<times> authority \<times> authority"
where
  "admit_prepare raw session_id user_id environment destination_id egress_mode key uuid t_lease t_new t_upd fs =
     (case get_entitlement raw user_id (snd fs) of
        (Inl e, ents) \<Rightarrow> (Inl e, (fst fs, ents))
      | (Inr entitlement, ents) \<Rightarrow>
          (case (as_str (dget entitlement ''id''), as_int (dget entitlement ''max_concurrent_sessions'')) of
             (Some entitlement_id, Some limit) \<Rightarrow>
               (case begin_prepare session_id user_id environment entitlement_id limit destination_id egress_mode key uuid
                       t_lease t_new t_upd (fst fs) of
                  (r, sessions') \<Rightarrow> (r, (sessions', ents)))
           | _ \<Rightarrow> (Inl TypeError, (fst fs, ents))))"

section \<open>What a limit means\<close>

definition allows :: "string \<Rightarrow> int \<Rightarrow> authority \<Rightarrow> bool" where
  "allows user_id limit fs \<longleftrightarrow> marker fs \<noteq> OtherMarker \<and>
     (\<exists>es d. auth_contents [] entitlement_decode fs = Some es \<and> map_of es user_id = Some d \<and>
        dget d ''max_concurrent_sessions'' = JInt limit)"

lemma set_allows:
  assumes "marker fs \<noteq> OtherMarker" "auth_contents [] entitlement_decode fs = Some es"
    and "set_entitlement user_id limit plan clock fs = (Inr r, fs')"
  shows "allows user_id limit fs'"
proof -
  have call: "entitlement_lock (set_entitlement_body user_id limit plan clock) fs = (Inr r, fs')"
    using assms(3) by (auto simp: set_entitlement_def split: if_splits)
  have "marker fs' \<noteq> OtherMarker"
    using en.locked_keeps_marker [OF assms(1), of True "set_entitlement_body user_id limit plan clock"] call
    by (simp add: entitlement_lock_def)
  then show ?thesis
    using en.locked_cases [OF assms(1,2), of "set_entitlement_body user_id limit plan clock" True] call
    by (auto simp: entitlement_lock_def set_entitlement_body_def rbind_eq_Inr Let_def allows_def dget_def)
qed

lemma other_set_allows:
  assumes "allows user_id limit fs" "other \<noteq> user_id"
  shows "allows user_id limit (snd (set_entitlement other n plan clock fs))"
proof (cases "other = [] \<or> n < 0 \<or> py_strip plan = []")
  case True
  then show ?thesis using assms by (auto simp: set_entitlement_def)
next
  case False
  obtain es where es: "marker fs \<noteq> OtherMarker" "auth_contents [] entitlement_decode fs = Some es"
      "\<exists>d. map_of es user_id = Some d \<and> dget d ''max_concurrent_sessions'' = JInt limit"
    using assms(1) by (auto simp: allows_def)
  obtain r fs' where call: "entitlement_lock (set_entitlement_body other n plan clock) fs = (r, fs')"
    by (cases "entitlement_lock (set_entitlement_body other n plan clock) fs")
  have "marker fs' \<noteq> OtherMarker \<and> (\<exists>es'. auth_contents [] entitlement_decode fs' = Some es' \<and>
      (\<exists>d. map_of es' user_id = Some d \<and> dget d ''max_concurrent_sessions'' = JInt limit))"
    using es(1,2) call [unfolded entitlement_lock_def] es(3)
    by (rule en.locked_rel) (use es(3) assms(2) in \<open>auto simp: set_entitlement_body_def rbind_eq_Inr Let_def\<close>)
  then show ?thesis using False call by (auto simp: allows_def set_entitlement_def)
qed

lemma get_allows:
  assumes "allows user_id limit fs" "get_entitlement raw user_id fs = (r, fs')"
  shows "\<exists>d. r = Inr d \<and> dget d ''max_concurrent_sessions'' = JInt limit"
proof -
  obtain es d where es: "marker fs \<noteq> OtherMarker" "auth_contents [] entitlement_decode fs = Some es"
      "map_of es user_id = Some d" "dget d ''max_concurrent_sessions'' = JInt limit"
    using assms(1) by (auto simp: allows_def)
  have "r = Inr d"
    using en.locked_reads [of fs es True "get_entitlement_body raw user_id" r fs' "Inr d"] es(1-3) assms(2)
    by (simp add: get_entitlement_def entitlement_lock_def get_entitlement_body_def)
  then show ?thesis using es(4) by blast
qed

fun set_others :: "(string \<times> int \<times> string \<times> pyfloat) list \<Rightarrow> authority \<Rightarrow> authority" where
  "set_others [] fs = fs"
| "set_others ((user, n, plan, clock) # sets) fs = set_others sets (snd (set_entitlement user n plan clock fs))"

lemma set_others_allows:
  "allows user_id limit fs \<Longrightarrow> user_id \<notin> fst ` set sets \<Longrightarrow> allows user_id limit (set_others sets fs)"
  by (induction sets fs rule: set_others.induct) (auto simp: other_set_allows)

section \<open>Properties\<close>

text \<open>C10. An allowance binds.  Once the limit of a user has been set to n, and whatever limits of other users are set
  afterwards, every prepare request that admits a new Session for that user leaves the user with at most n
  slots, whatever Sessions there were before; with n = 0 none is admitted.\<close>

theorem allowance_binds:
  assumes "marker ents \<noteq> OtherMarker" "auth_contents [] entitlement_decode ents = Some es"
    and "set_entitlement user_id n plan clock ents = (Inr r, ents1)"
    and "user_id \<notin> fst ` set sets" "ents2 = set_others sets ents1"
    and "stored fs m"
    and "admit_prepare raw sid user_id environment dst mode key uuid t1 t2 t3 (fs, ents2) = (Inr (s, False), (fs', ents3))"
    and "stored fs' m'"
  shows "int (slots_used m' user_id) \<le> n \<and> 0 < n \<and> holds_slot s"
proof -
  have a: "allows user_id n ents2" unfolding assms(5) by (rule set_others_allows [OF set_allows [OF assms(1-3)] assms(4)])
  obtain q e' where g: "get_entitlement raw user_id ents2 = (q, e')" by (cases "get_entitlement raw user_id ents2")
  obtain d where d: "q = Inr d" "dget d ''max_concurrent_sessions'' = JInt n" using get_allows [OF a g] by blast
  obtain eid where "begin_prepare sid user_id environment eid n dst mode key uuid t1 t2 t3 fs = (Inr (s, False), fs')"
    using assms(7) g d by (auto simp: admit_prepare_def split: option.splits prod.splits)
  from begin_prepare_within_capacity [OF assms(6) this assms(8)] this
  show ?thesis by (auto simp: begin_prepare_def split: if_splits)
qed

definition demo_allowance :: "(err + dict) \<times> authority" where
  "demo_allowance = set_entitlement ''u1'' 1 ''pro'' (Fin 9) fresh_authority"

definition demo_later :: authority where
  "demo_later = set_others [(''u2'', 5, ''pro'', Fin 10)] (snd demo_allowance)"

definition demo_entitlement :: "(err + dict) \<times> authority" where
  "demo_entitlement = get_entitlement None ''u1'' demo_later"

lemma demo_allowance_facts:
  "demo_allowance = (Inr (projr (fst demo_allowance)), snd demo_allowance)"
  "fst demo_entitlement = Inr (projr (fst demo_entitlement))"
  "dget (projr (fst demo_entitlement)) ''id'' = JStr ''user:u1''"
  "dget (projr (fst demo_entitlement)) ''max_concurrent_sessions'' = JInt 1"
  by code_simp+

lemma demo_entitlements_fresh:
  "marker fresh_authority \<noteq> OtherMarker" "auth_contents [] entitlement_decode fresh_authority = Some []"
  by (simp_all add: fresh_authority_def auth_contents_def read_authority_def was_initialized_def)

definition demo_admit :: "(err + dict \<times> bool) \<times> authority \<times> authority" where
  "demo_admit = admit_prepare None ''s1'' ''u1'' ''production'' None ''DIRECT_PUSH'' ''k1'' ''id'' (Fin 1) (Fin 1) (Fin 1)
     (fresh_authority, demo_later)"

theorem allowance_binds_witness:
  "\<exists>s m'. demo_admit = (Inr (s, False), snd demo_admit) \<and> stored (fst (snd demo_admit)) m' \<and> slots_used m' ''u1'' \<le> 1"
proof -
  let ?call = "begin_prepare ''s1'' ''u1'' ''production'' ''user:u1'' 1 None ''DIRECT_PUSH'' ''k1'' ''id'' (Fin 1) (Fin 1) (Fin 1) fresh_authority"
  obtain r fs' where call: "?call = (r, fs')" by (cases ?call)
  have "(1::rat) + 43200 < float_overflow" using float_overflow_large by simp
  then obtain s m' where s: "r = Inr (s, False)" "stored fs' m'"
    using begin_prepare_fresh [OF stored_fresh _ _ _ _ _ _ _ call] by (auto simp: pristine_store_def occupied_def)
  have "get_entitlement None ''u1'' demo_later = (Inr (projr (fst demo_entitlement)), snd demo_entitlement)"
    using demo_allowance_facts(2) by (simp add: demo_entitlement_def prod_eq_iff)
  then have admit: "demo_admit = (Inr (s, False), (fs', snd demo_entitlement))"
    using demo_allowance_facts(3,4) call s(1) by (simp add: demo_admit_def admit_prepare_def)
  from allowance_binds [OF demo_entitlements_fresh trans [OF demo_allowance_def [symmetric] demo_allowance_facts(1)] _ demo_later_def
      stored_fresh trans [OF demo_admit_def [symmetric] admit] s(2)]
  have "slots_used m' ''u1'' \<le> 1" by simp
  moreover have "snd demo_admit = (fs', snd demo_entitlement)" unfolding admit by (rule snd_conv)
  ultimately show ?thesis using admit s(2) by (intro exI [of _ s] exI [of _ m']) (simp only: fst_conv simp_thms)
qed

end
