(* ===== verification/Node_State.thy ===== *)
theory Node_State
  imports Session_Frames Python_Text
begin

text \<open>
  The authority of the Nodes (\<open>apps/control-api/node_internal.py\<close>): the document \<open>nodes.json\<close> with its Nodes, its
  sequence and its ledger of consumed bootstrap tokens; the older ledger \<open>bootstrap_tokens.json\<close>, which is
  written first and is a fuse that survives a crash between the two writes; and the handlers' view, the
  merge of both.

  Almost every check of the validators raises the same exception, so a group of checks is one condition under
  \<open>require\<close>.  The exception that differs is the one of \<open>int\<close> on too many digits.
\<close>

section \<open>Field checks\<close>

definition nonempty_str :: "json \<Rightarrow> bool" where
  "nonempty_str v = (case as_str v of None \<Rightarrow> False | Some s \<Rightarrow> s \<noteq> [])"

definition str_in :: "string set \<Rightarrow> json \<Rightarrow> bool" where
  "str_in S v = (case as_str v of None \<Rightarrow> False | Some s \<Rightarrow> s \<in> S)"

definition int_from :: "int \<Rightarrow> json \<Rightarrow> bool" where
  "int_from minimum v = (case as_int v of None \<Rightarrow> False | Some n \<Rightarrow> minimum \<le> n)"

text \<open>\<open>_require_finite_number\<close>\<close>

definition node_number :: "rat option \<Rightarrow> json \<Rightarrow> err + rat" where
  "node_number minimum v =
     (case finite_argument v of
        Inl _ \<Rightarrow> Inl NodeStateError
      | Inr x \<Rightarrow> if (case minimum of None \<Rightarrow> False | Some m \<Rightarrow> x < m) then Inl NodeStateError else Inr x)"

definition nonneg_number :: "json \<Rightarrow> bool" where
  "nonneg_number v = is_ok (node_number (Some 0) v)"

text \<open>\<open>_is_sha256\<close>\<close>

definition is_sha256 :: "json \<Rightarrow> bool" where
  "is_sha256 v = (case as_str v of None \<Rightarrow> False | Some s \<Rightarrow> is_digest s)"

text \<open>\<open>_reject_nonfinite_tree\<close>: every number of the document has a finite \<open>float\<close>.\<close>

fun finite_tree :: "json \<Rightarrow> bool" where
  "finite_tree (JInt n) = (float_of_int n \<noteq> None)"
| "finite_tree (JFloat f) = isfinite f"
| "finite_tree (JList xs) = list_all finite_tree xs"
| "finite_tree (JObj d) = list_all (\<lambda>(k, v). finite_tree v) d"
| "finite_tree _ = True"

section \<open>Nodes\<close>

definition NODE_STATUSES :: "string set" where
  "NODE_STATUSES = {''BOOTSTRAPPING'', ''READY'', ''STOPPING'', ''STOPPED'', ''FAILED''}"

definition NODE_DESIRED_STATES :: "string set" where
  "NODE_DESIRED_STATES = {''RUNNING'', ''STOPPED''}"

definition NODE_EGRESS_MODES :: "string set" where
  "NODE_EGRESS_MODES = {''DIRECT_PUSH'', ''RELAY_ONLY''}"

definition INGEST_STATUSES :: "string set" where
  "INGEST_STATUSES = {''OFFLINE'', ''UNKNOWN'', ''PENDING'', ''ACCEPTED'', ''WARNING'', ''DEGRADED'', ''REJECTED''}"

definition EGRESS_STATUSES :: "string set" where
  "EGRESS_STATUSES =
     {''UNKNOWN'', ''STARTING'', ''CONNECTED'', ''RECONNECTING'', ''AUTH_FAILED'', ''FAILED'', ''STOPPED''}"

definition RELAY_CLIENT_STATUSES :: "string set" where
  "RELAY_CLIENT_STATUSES = {''UNKNOWN'', ''CONNECTED'', ''DISCONNECTED''}"

definition observation_ok :: "string set \<Rightarrow> string list \<Rightarrow> string list \<Rightarrow> string list \<Rightarrow> json \<Rightarrow> bool" where
  "observation_ok statuses bool_fields int_fields finite_fields observation \<longleftrightarrow> observation = JNull \<or>
     (case as_obj observation of
        None \<Rightarrow> False
      | Some d \<Rightarrow>
          str_in statuses (dget d ''status'') \<and> nonneg_number (dget d ''observed_at'') \<and>
          (\<forall>f \<in> set bool_fields. dhas d f \<longrightarrow> as_bool (dget d f) \<noteq> None) \<and>
          (\<forall>f \<in> set int_fields. dget d f \<noteq> JNull \<longrightarrow> int_from 0 (dget d f)) \<and>
          (\<forall>f \<in> set finite_fields. dget d f \<noteq> JNull \<longrightarrow> nonneg_number (dget d f)))"

text \<open>\<open>_validate_node_events\<close>: the last sequence number, or None.\<close>

fun node_events_from :: "int \<Rightarrow> json list \<Rightarrow> int option" where
  "node_events_from previous [] = Some previous"
| "node_events_from previous (ev # evs) =
     Option.bind (as_obj ev) (\<lambda>event.
     Option.bind (as_int (dget event ''sequence'')) (\<lambda>sequence.
     if 1 \<le> sequence \<and> previous < sequence \<and> nonempty_str (dget event ''type'') \<and>
        nonneg_number (dget event ''occurred_at'') \<and> as_obj (dget event ''payload'') \<noteq> None
     then node_events_from sequence evs else None))"

text \<open>The events of a Node and the counter of the next one, which lies beyond the newest event.\<close>

definition node_events_ok :: "dict \<Rightarrow> bool" where
  "node_events_ok node \<longleftrightarrow>
     (case dget node ''events'' of
        JNull \<Rightarrow> dhas node ''next_event_seq'' \<longrightarrow> int_from 1 (dget node ''next_event_seq'')
      | JList events \<Rightarrow>
          (case node_events_from 0 events of
             None \<Rightarrow> False
           | Some newest \<Rightarrow> dhas node ''next_event_seq'' \<longrightarrow>
               int_from (if events = [] then 1 else max 1 (newest + 1)) (dget node ''next_event_seq''))
      | _ \<Rightarrow> False)"

text \<open>
  The number in an id of the form \<open>node-<decimal>\<close>, 0 for other ids; \<open>int\<close> refuses more than 4300 digits.
\<close>

definition issued_sequence :: "string \<Rightarrow> err + int" where
  "issued_sequence node_id =
     (let prefix = takeWhile (\<lambda>c. c \<noteq> CHR ''-'') node_id; suffix = drop (length prefix + 1) node_id in
      if prefix = ''node'' \<and> CHR ''-'' \<in> set node_id \<and> suffix \<noteq> [] \<and> list_all is_decimal suffix
      then (if length suffix \<le> MAX_STR_DIGITS then Inr (int (decimal_value suffix)) else Inl ValueError)
      else Inr 0)"

definition node_id_ok :: "string \<Rightarrow> json \<Rightarrow> bool" where
  "node_id_ok node_id v = (case as_obj v of None \<Rightarrow> False | Some node \<Rightarrow> dget node ''node_id'' = JStr node_id)"

definition node_identity_fields :: "string list" where
  "node_identity_fields = [''session_id'', ''provider_server_id'', ''boot_id'', ''agent_version'']"

definition node_bool_fields :: "string list" where
  "node_bool_fields =
     [''session_assigned'', ''active_publisher'', ''egress_connected'', ''ingest_ever_online'', ''egress_ever_connected'',
      ''relay_client_ever_connected'']"

definition node_number_fields :: "string list" where
  "node_number_fields =
     [''cpu_percent'', ''memory_mb'', ''deadline_remaining_seconds'', ''media_unhealthy_since'', ''pipeline_failure_latched_at'']"

definition node_fields_ok :: "dict \<Rightarrow> bool" where
  "node_fields_ok node \<longleftrightarrow>
     (\<forall>f \<in> set node_identity_fields. nonempty_str (dget node f)) \<and>
     is_sha256 (dget node ''access_token_sha256'') \<and>
     str_in NODE_STATUSES (dget node ''status'') \<and>
     str_in NODE_DESIRED_STATES (dget node ''desired_state'') \<and>
     (dhas node ''egress_mode'' \<longrightarrow> str_in NODE_EGRESS_MODES (dget node ''egress_mode'')) \<and>
     (dget node ''destination_id'' \<noteq> JNull \<longrightarrow> nonempty_str (dget node ''destination_id'')) \<and>
     nonneg_number (dget node ''absolute_deadline'') \<and>
     nonneg_number (dget node ''created_at'') \<and>
     (dget node ''last_heartbeat_at'' \<noteq> JNull \<longrightarrow> nonneg_number (dget node ''last_heartbeat_at'')) \<and>
     (\<forall>f \<in> set node_bool_fields. dhas node f \<longrightarrow> as_bool (dget node f) \<noteq> None) \<and>
     (\<forall>f \<in> set node_number_fields. dget node f \<noteq> JNull \<longrightarrow> nonneg_number (dget node f)) \<and>
     node_events_ok node \<and>
     observation_ok INGEST_STATUSES [''online'', ''enforced''] [''max_bitrate_bps''] [''bitrate_bps''] (dget node ''ingest'') \<and>
     observation_ok EGRESS_STATUSES [''connected''] [''attempt'', ''rendered_buffers''] [''next_retry_at''] (dget node ''egress'') \<and>
     observation_ok RELAY_CLIENT_STATUSES [''connected''] [''reader_count''] [] (dget node ''relay_client'')"

text \<open>The loop over the Nodes, with the highest sequence number issued so far.\<close>

primrec validate_node_list :: "int \<Rightarrow> dict \<Rightarrow> err + int" where
  "validate_node_list highest [] = Inr highest"
| "validate_node_list highest (p # ps) =
     rbind (require NodeStateError (node_id_ok (fst p) (snd p))) (\<lambda>_.
     rbind (issued_sequence (fst p)) (\<lambda>n.
     rbind (require NodeStateError (node_fields_ok (obj_of (snd p)))) (\<lambda>_.
     validate_node_list (max highest n) ps)))"

definition validate_nodes :: "dict \<Rightarrow> err + unit" where
  "validate_nodes payload =
     rbind (from_some NodeStateError (as_obj (dget payload ''nodes''))) (\<lambda>nodes.
     rbind (require NodeStateError (finite_tree (JObj payload))) (\<lambda>_.
     rbind (require NodeStateError (int_from 1 (dget payload ''next_node_seq''))) (\<lambda>_.
     rbind (validate_node_list 0 nodes) (\<lambda>highest.
     require NodeStateError (int_from (highest + 1) (dget payload ''next_node_seq''))))))"

section \<open>Bootstrap tokens\<close>

definition canonical_fields :: "string list" where
  "canonical_fields = [''bootstrap_request_id'', ''provider_server_id'', ''boot_id'', ''node_access_token_sha256'']"

text \<open>A record with an attempt identity agrees with the Node it names, when the document has Nodes.\<close>

definition token_node_ok :: "dict \<Rightarrow> dict \<Rightarrow> bool" where
  "token_node_ok nodes record =
     (case as_str (dget record ''node_id'') of
        None \<Rightarrow> False
      | Some node_id \<Rightarrow>
          (case as_obj (dget nodes node_id) of
             None \<Rightarrow> False
           | Some node \<Rightarrow>
               dget node ''session_id'' = dget record ''session_id'' \<and>
               dget node ''provider_server_id'' = dget record ''provider_server_id'' \<and>
               dget node ''boot_id'' = dget record ''boot_id'' \<and>
               dget node ''access_token_sha256'' = dget record ''node_access_token_sha256''))"

definition token_record_ok :: "dict option \<Rightarrow> json \<Rightarrow> bool" where
  "token_record_ok nodes v =
     (case as_obj v of
        None \<Rightarrow> False
      | Some record \<Rightarrow>
          dget record ''consumed'' = JBool True \<and> nonneg_number (dget record ''consumed_at'') \<and>
          nonempty_str (dget record ''node_id'') \<and> nonempty_str (dget record ''session_id'') \<and>
          (list_all (\<lambda>f. \<not> dhas record f) canonical_fields \<or>
           list_all (dhas record) canonical_fields \<and>
           nonempty_str (dget record ''bootstrap_request_id'') \<and> nonempty_str (dget record ''provider_server_id'') \<and>
           nonempty_str (dget record ''boot_id'') \<and> is_sha256 (dget record ''node_access_token_sha256'') \<and>
           (case nodes of None \<Rightarrow> True | Some ns \<Rightarrow> token_node_ok ns record)))"

definition validate_tokens :: "dict \<Rightarrow> err + dict" where
  "validate_tokens payload =
     rbind (from_some NodeStateError (as_obj (dget payload ''tokens''))) (\<lambda>token_records.
     rbind (require NodeStateError
        (list_all (\<lambda>p. is_digest (fst p) \<and> token_record_ok (as_obj (dget payload ''nodes'')) (snd p)) token_records)) (\<lambda>_.
     Inr token_records))"

definition validate_node_authority :: "dict \<Rightarrow> err + unit" where
  "validate_node_authority payload =
     rbind (validate_nodes payload) (\<lambda>_. rbind (validate_tokens payload) (\<lambda>_. Inr ()))"

section \<open>The two files and the Sessions\<close>

record node_world =
  nw_nodes :: authority
  nw_fuse :: authority
  nw_sessions :: authority

text \<open>\<open>read_json(path, ..., required=True)\<close>\<close>

definition read_node_json :: "authority \<Rightarrow> err + dict" where
  "read_node_json fs = (case read_authority fs of Loaded (JObj d) \<Rightarrow> Inr d | _ \<Rightarrow> Inl NodeStateError)"

text \<open>The records of the fuse whose token it knows to be consumed, on top of the ledger of the document.\<close>

primrec merge_fuse :: "dict \<Rightarrow> dict \<Rightarrow> dict" where
  "merge_fuse tokens [] = tokens"
| "merge_fuse tokens (p # ps) = merge_fuse
     (if \<not> truthy (dget (obj_of (snd p)) ''consumed'') then tokens
      else if truthy (dget (obj_of (dget tokens (fst p))) ''consumed'') then tokens
      else dset tokens (fst p) (snd p)) ps"

definition read_node_authority :: "node_world \<Rightarrow> err + dict" where
  "read_node_authority w =
     rbind (read_node_json (nw_nodes w)) (\<lambda>authority.
     rbind (validate_node_authority authority) (\<lambda>_.
     case read_authority (nw_fuse w) of
       Pristine \<Rightarrow> Inr authority
     | Refused \<Rightarrow> Inl NodeStateError
     | Loaded raw \<Rightarrow>
         rbind (from_some NodeStateError (as_obj raw)) (\<lambda>legacy.
         rbind (validate_tokens legacy) (\<lambda>records.
         Inr (dset authority ''tokens'' (JObj (merge_fuse (obj_of (dget authority ''tokens'')) records)))))))"

text \<open>\<open>atomic_write_json\<close>, and the two writers that validate first.\<close>

definition write_node_json :: "dict \<Rightarrow> authority \<Rightarrow> (err + unit) \<times> authority" where
  "write_node_json payload = auth_persist NodeStateError (\<lambda>d. Some (JObj d)) payload"

definition write_node_authority :: "dict \<Rightarrow> node_world \<Rightarrow> (err + unit) \<times> node_world" where
  "write_node_authority authority w =
     (case validate_node_authority authority of
        Inl e \<Rightarrow> (Inl e, w)
      | Inr _ \<Rightarrow> (case write_node_json authority (nw_nodes w) of (r, fs) \<Rightarrow> (r, w\<lparr>nw_nodes := fs\<rparr>)))"

definition fuse_record :: "string \<Rightarrow> string \<Rightarrow> rat \<Rightarrow> dict" where
  "fuse_record node_id session_id consumed_at =
     [(''consumed'', JBool True), (''consumed_at'', JTime consumed_at), (''node_id'', JStr node_id),
      (''session_id'', JStr session_id)]"

text \<open>The document that the fuse write publishes.\<close>

definition fused_tokens :: "string \<Rightarrow> string \<Rightarrow> string \<Rightarrow> rat \<Rightarrow> authority \<Rightarrow> err + dict" where
  "fused_tokens digest node_id session_id consumed_at fs =
     rbind (node_number (Some 0) (JTime consumed_at)) (\<lambda>consumed_at.
     rbind (if payload_file fs = Missing then Inr [(''tokens'', JObj [])]
            else rbind (read_node_json fs) (\<lambda>legacy. rbind (validate_tokens legacy) (\<lambda>_. Inr legacy))) (\<lambda>legacy.
     let legacy = dset legacy ''tokens''
           (JObj (dset (obj_of (dget legacy ''tokens'')) digest (JObj (fuse_record node_id session_id consumed_at))))
     in rbind (validate_tokens legacy) (\<lambda>_. Inr legacy)))"

definition write_legacy_token_fuse :: "string \<Rightarrow> string \<Rightarrow> string \<Rightarrow> rat \<Rightarrow> node_world \<Rightarrow> (err + unit) \<times> node_world" where
  "write_legacy_token_fuse digest node_id session_id consumed_at w =
     (case fused_tokens digest node_id session_id consumed_at (nw_fuse w) of
        Inl e \<Rightarrow> (Inl e, w)
      | Inr legacy \<Rightarrow> (case write_node_json legacy (nw_fuse w) of (r, fs) \<Rightarrow> (r, w\<lparr>nw_fuse := fs\<rparr>)))"

text \<open>\<open>ensure_state\<close>, with the migration from the split ledger.\<close>

definition default_nodes :: dict where
  "default_nodes = [(''nodes'', JObj []), (''next_node_seq'', JInt 1), (''tokens'', JObj [])]"

definition arm_nodes :: "node_world \<Rightarrow> (err + unit) \<times> node_world" where
  "arm_nodes w = (case mark_initialized (nw_nodes w) of
      Inl _ \<Rightarrow> (Inl NodeStateError, w) | Inr fs \<Rightarrow> (Inr (), w\<lparr>nw_nodes := fs\<rparr>))"

definition ensure_node_state :: "node_world \<Rightarrow> (err + unit) \<times> node_world" where
  "ensure_node_state w =
     (if payload_file (nw_nodes w) = Missing then
        if was_initialized (nw_nodes w) \<or> payload_file (nw_fuse w) \<noteq> Missing \<or> was_initialized (nw_fuse w)
        then (Inl NodeStateError, w)
        else write_node_authority default_nodes w
      else
        (case rbind (read_node_json (nw_nodes w)) (\<lambda>authority. rbind (validate_nodes authority) (\<lambda>_. Inr authority)) of
           Inl e \<Rightarrow> (Inl e, w)
         | Inr authority \<Rightarrow>
             if as_obj (dget authority ''tokens'') = None then
               if payload_file (nw_fuse w) \<noteq> Missing then
                 (case rbind (read_node_json (nw_fuse w)) validate_tokens of
                    Inl e \<Rightarrow> (Inl e, w)
                  | Inr records \<Rightarrow> write_node_authority (dset authority ''tokens'' (JObj records)) w)
               else if truthy (dget authority ''nodes'') then (Inl NodeStateError, w)
               else write_node_authority (dset authority ''tokens'' (JObj [])) w
             else
               (case validate_tokens authority of Inl e \<Rightarrow> (Inl e, w) | Inr _ \<Rightarrow> arm_nodes w)))"

end
