(* ===== verification/Node_Registry.thy ===== *)
theory Node_Registry
  imports Node_State
begin

text \<open>
  The operations of the Node registry (\<open>apps/control-api/node_internal.py\<close>): bootstrap with a one-time token,
  heartbeat, stop and listing, with the events a heartbeat derives and the health of the media pipeline
  (\<open>pipeline_health.py\<close>).  They run under the exclusive Node lock and call the Session store inside it.

  The digest of a token (SHA-256), the text of an exception, the parsed floats of the environment and the
  delivery of the egress URL are arguments.
\<close>

section \<open>Programs on the two authorities\<close>

type_synonym 'a node_act = "node_world \<Rightarrow> (err + 'a) \<times> node_world"

definition nret :: "'a \<Rightarrow> 'a node_act" where
  "nret x w = (Inr x, w)"

definition nraise :: "err \<Rightarrow> 'a node_act" where
  "nraise e w = (Inl e, w)"

definition nlift :: "err + 'a \<Rightarrow> 'a node_act" where
  "nlift r w = (r, w)"

definition nbind :: "'a node_act \<Rightarrow> ('a \<Rightarrow> 'b node_act) \<Rightarrow> 'b node_act" where
  "nbind m f w = (case m w of (Inl e, w') \<Rightarrow> (Inl e, w') | (Inr x, w') \<Rightarrow> f x w')"

definition on_session_store :: "(authority \<Rightarrow> (err + 'a) \<times> authority) \<Rightarrow> 'a node_act" where
  "on_session_store f w = (case f (nw_sessions w) of (r, fs) \<Rightarrow> (r, w\<lparr>nw_sessions := fs\<rparr>))"

text \<open>\<open>except (KeyError, RuntimeError)\<close>: KeyError and the RuntimeErrors of the Session store.\<close>

definition key_or_runtime_error :: "err \<Rightarrow> bool" where
  "key_or_runtime_error e \<longleftrightarrow>
     (case e of
        KeyError \<Rightarrow> True | RuntimeError \<Rightarrow> True | InvalidTransition \<Rightarrow> True | EntitlementExceeded \<Rightarrow> True
      | SessionStateError \<Rightarrow> True | MediaControlIdempotencyConflict \<Rightarrow> True | MediaControlVersionConflict _ \<Rightarrow> True
      | MediaControlNotRunning \<Rightarrow> True | ProvisioningInProgress \<Rightarrow> True | OrphanCleanupInProgress \<Rightarrow> True
      | _ \<Rightarrow> False)"

text \<open>\<open>try: m; else k except (KeyError, RuntimeError): h\<close>\<close>

definition ntry :: "'a node_act \<Rightarrow> ('a \<Rightarrow> 'b node_act) \<Rightarrow> (err \<Rightarrow> 'b node_act) \<Rightarrow> 'b node_act" where
  "ntry m k h w = (case m w of
      (Inl e, w') \<Rightarrow> (if key_or_runtime_error e then h e w' else (Inl e, w'))
    | (Inr x, w') \<Rightarrow> k x w')"

section \<open>Tokens of callers\<close>

text \<open>\<open>_bearer\<close>\<close>

definition bearer :: "string option \<Rightarrow> err + string" where
  "bearer authorization =
     (case authorization of
        None \<Rightarrow> Inl (HTTPException 401)
      | Some a \<Rightarrow>
          if \<not> starts_with ''Bearer '' a then Inl (HTTPException 401)
          else let token = py_strip (drop 7 a) in if token = [] then Inl (HTTPException 401) else Inr token)"

text \<open>\<open>{hash_token(item.strip()) for item in raw.split(",") if item.strip()}\<close>\<close>

definition configured_token_digests :: "(string \<Rightarrow> string) \<Rightarrow> string \<Rightarrow> string set" where
  "configured_token_digests hash raw =
     hash ` set (filter (\<lambda>t. t \<noteq> []) (map py_strip (py_split (CHR '','') raw)))"

definition require_node_access :: "(string \<Rightarrow> string) \<Rightarrow> dict \<Rightarrow> string option \<Rightarrow> err + unit" where
  "require_node_access hash node authorization =
     rbind (bearer authorization) (\<lambda>token.
     let expected = (case as_str (dget node ''access_token_sha256'') of None \<Rightarrow> [] | Some s \<Rightarrow> s) in
     require (HTTPException 401) (expected \<noteq> [] \<and> expected = hash token))"

text \<open>\<open>_require_admin_access\<close>; the digests come from the environment and from a file.\<close>

definition require_admin_access :: "(string \<Rightarrow> string) \<Rightarrow> string set \<Rightarrow> string option \<Rightarrow> err + unit" where
  "require_admin_access hash configured authorization =
     rbind (bearer authorization) (\<lambda>token. require (HTTPException 401) (hash token \<in> configured))"

text \<open>\<open>require_assigned_node\<close>: the first Node with the token, if it may act for the Session.\<close>

definition require_assigned_node :: "(string \<Rightarrow> string) \<Rightarrow> string option \<Rightarrow> string \<Rightarrow> node_world \<Rightarrow> err + dict" where
  "require_assigned_node hash authorization session_id w =
     rbind (bearer authorization) (\<lambda>token.
     rbind (read_node_authority w) (\<lambda>authority.
     case find (\<lambda>node. dget node ''access_token_sha256'' = JStr (hash token) \<and> hash token \<noteq> [])
            (map (\<lambda>p. obj_of (snd p)) (obj_of (dget authority ''nodes''))) of
       None \<Rightarrow> Inl (HTTPException 401)
     | Some node \<Rightarrow>
         if truthy (dget node ''session_assigned'') \<and> dget node ''session_id'' = JStr session_id \<and>
            dget_or node ''desired_state'' (JStr ''RUNNING'') = JStr ''RUNNING''
         then Inr node else Inl (HTTPException 401)))"

section \<open>Events of a Node\<close>

text \<open>Appending events of one observation: numbered on from the counter, the last 100 kept.\<close>

definition node_event :: "int \<Rightarrow> string \<Rightarrow> rat \<Rightarrow> dict \<Rightarrow> json" where
  "node_event sequence event_type occurred_at payload =
     JObj [(''sequence'', JInt sequence), (''type'', JStr event_type), (''occurred_at'', JTime occurred_at),
           (''payload'', JObj payload)]"

primrec number_events :: "int \<Rightarrow> string list \<Rightarrow> rat \<Rightarrow> dict \<Rightarrow> json list" where
  "number_events next_sequence [] occurred_at payload = []"
| "number_events next_sequence (t # ts) occurred_at payload =
     node_event next_sequence t occurred_at payload # number_events (next_sequence + 1) ts occurred_at payload"

definition node_next_sequence :: "dict \<Rightarrow> json list \<Rightarrow> err + int" where
  "node_next_sequence node events =
     (if dhas node ''next_event_seq'' then from_some TypeError (as_int (dget node ''next_event_seq''))
      else if events = [] then Inr 1
      else rbind (from_some TypeError (as_obj (last events))) (\<lambda>ev.
           rbind (from_some TypeError (as_int (dget ev ''sequence''))) (\<lambda>n. Inr (n + 1))))"

definition push_node_events :: "dict \<Rightarrow> string list \<Rightarrow> rat \<Rightarrow> dict \<Rightarrow> err + dict" where
  "push_node_events node event_types occurred_at payload =
     rbind (node_number (Some 0) (JTime occurred_at)) (\<lambda>occurred_at.
     rbind (from_some TypeError (as_list (dget_or node ''events'' (JList [])))) (\<lambda>events.
     rbind (node_next_sequence node events) (\<lambda>next_sequence.
     Inr (dset (dset node ''events'' (JList (last_n 100 (events @ number_events next_sequence event_types occurred_at payload))))
            ''next_event_seq'' (JInt (next_sequence + int (length event_types)))))))"

text \<open>\<open>previous if isinstance(previous, dict) else {}\<close> is \<open>obj_of previous\<close>.\<close>

definition ingest_event_types :: "json \<Rightarrow> ingest_observation \<Rightarrow> bool \<Rightarrow> string list" where
  "ingest_event_types previous current had_connection =
     (let previous = obj_of previous;
          previous_online = truthy (dget previous ''online'');
          previous_is = (\<lambda>s. dget previous ''status'' = JStr s);
          arrival = [if had_connection then ''ingest.reconnected'' else ''ingest.connected'', ''ingest.format_detected''];
          events = (if io_online current \<and> (\<not> previous_online \<or> dget previous ''source_id'' \<noteq> jopt (io_source_id current))
                    then arrival else [])
      in
      if previous_online \<and> \<not> io_online current then [''ingest.disconnected''] else
      events @
      (if io_status current = ''REJECTED'' \<and> \<not> previous_is ''REJECTED'' then [''ingest.rejected'']
       else if io_status current = ''DEGRADED'' \<and> \<not> previous_is ''DEGRADED'' then [''ingest.degraded'']
       else if previous_is ''DEGRADED'' \<and> io_online current \<and> io_status current \<in> {''PENDING'', ''ACCEPTED'', ''WARNING''}
       then [''ingest.recovered'']
       else if \<not> previous_is (io_status current) \<and> events = [] then [''ingest.policy_changed'']
       else []))"

definition node_ingest_payload :: "ingest_observation \<Rightarrow> dict" where
  "node_ingest_payload ob =
     [(''status'', JStr (io_status ob)), (''source_type'', jopt (io_source_type ob)), (''source_id'', jopt (io_source_id ob)),
      (''bitrate_bps'', io_bitrate_bps ob), (''tracks'', io_tracks ob), (''quality'', io_quality ob),
      (''reasons'', JList (map JStr (io_reasons ob))), (''warnings'', JList (map JStr (io_warnings ob))),
      (''enforced'', JBool (io_enforced ob))]"

text \<open>\<open>_append_ingest_events\<close>: the event types and the Node.\<close>

definition node_ingest_events :: "dict \<Rightarrow> json \<Rightarrow> ingest_observation \<Rightarrow> rat \<Rightarrow> err + string list \<times> dict" where
  "node_ingest_events node previous current occurred_at =
     (let event_types = ingest_event_types previous current (truthy (dget node ''ingest_ever_online'')) in
      if event_types = [] then Inr ([], node) else
      rbind (push_node_events node event_types occurred_at (node_ingest_payload current)) (\<lambda>node.
      Inr (event_types, if io_online current then dset node ''ingest_ever_online'' (JBool True) else node)))"

text \<open>\<open>EgressObservationRequest\<close>\<close>

record egress_observation =
  eo_status :: string
  eo_connected :: bool
  eo_attempt :: int
  eo_reason_code :: "string option"
  eo_rendered_buffers :: int
  eo_next_retry_at :: json
  eo_destination_scheme :: "string option"
  eo_destination_host :: "string option"
  eo_observed_at :: json

definition egress_event_types :: "json \<Rightarrow> egress_observation \<Rightarrow> bool \<Rightarrow> string list" where
  "egress_event_types previous current had_connection =
     (let previous = obj_of previous;
          previous_connected = truthy (dget previous ''connected'');
          status = eo_status current
      in
      if dget previous ''status'' = JStr status \<and> eo_connected current = previous_connected then []
      else if status = ''STARTING'' then [''egress.starting'']
      else if eo_connected current \<and> status = ''CONNECTED'' then
        [if had_connection then ''egress.recovered'' else ''egress.connected'']
      else
        (if previous_connected \<and> status \<noteq> ''STOPPED'' then [''egress.disconnected''] else []) @
        (case map_of [(''RECONNECTING'', ''egress.reconnecting''), (''AUTH_FAILED'', ''egress.auth_failed''),
                      (''FAILED'', ''egress.failed''), (''STOPPED'', ''egress.stopped'')] status of
           None \<Rightarrow> [] | Some t \<Rightarrow> [t]))"

definition egress_payload :: "string \<Rightarrow> egress_observation \<Rightarrow> dict" where
  "egress_payload node_id ob =
     [(''node_id'', JStr node_id), (''status'', JStr (eo_status ob)), (''connected'', JBool (eo_connected ob)),
      (''attempt'', JInt (eo_attempt ob)), (''reason_code'', jopt (eo_reason_code ob)),
      (''rendered_buffers'', JInt (eo_rendered_buffers ob)), (''next_retry_at'', eo_next_retry_at ob),
      (''destination_scheme'', jopt (eo_destination_scheme ob)), (''destination_host'', jopt (eo_destination_host ob)),
      (''observed_at'', eo_observed_at ob)]"

definition node_egress_events :: "dict \<Rightarrow> json \<Rightarrow> egress_observation \<Rightarrow> rat \<Rightarrow> err + string list \<times> dict" where
  "node_egress_events node previous current occurred_at =
     (let event_types = egress_event_types previous current (truthy (dget node ''egress_ever_connected''));
          node_id = (case as_str (dget node ''node_id'') of None \<Rightarrow> [] | Some s \<Rightarrow> s)
      in
      if event_types = [] then Inr ([], node) else
      rbind (push_node_events node event_types occurred_at (egress_payload node_id current)) (\<lambda>node.
      Inr (event_types,
        if eo_connected current \<and> eo_status current = ''CONNECTED'' then dset node ''egress_ever_connected'' (JBool True) else node)))"

definition relay_event_types :: "json \<Rightarrow> relay_observation \<Rightarrow> bool \<Rightarrow> string list" where
  "relay_event_types previous current had_connection =
     (let previous_connected = truthy (dget (obj_of previous) ''connected'') in
      if ro_connected current \<and> \<not> previous_connected then
        [if had_connection then ''relay.client.reconnected'' else ''relay.client.connected'']
      else if \<not> ro_connected current \<and> previous_connected then [''relay.client.disconnected'']
      else [])"

definition node_relay_payload :: "string \<Rightarrow> relay_observation \<Rightarrow> dict" where
  "node_relay_payload node_id ob =
     [(''node_id'', JStr node_id), (''status'', JStr (ro_status ob)), (''connected'', JBool (ro_connected ob)),
      (''reader_count'', JInt (max 0 (ro_reader_count ob))), (''reason_code'', jopt (ro_reason_code ob)),
      (''observed_at'', ro_observed_at ob)]"

definition node_relay_events :: "dict \<Rightarrow> json \<Rightarrow> relay_observation \<Rightarrow> rat \<Rightarrow> err + string list \<times> dict" where
  "node_relay_events node previous current occurred_at =
     (let event_types = relay_event_types previous current (truthy (dget node ''relay_client_ever_connected''));
          node_id = (case as_str (dget node ''node_id'') of None \<Rightarrow> [] | Some s \<Rightarrow> s)
      in
      if event_types = [] then Inr ([], node) else
      rbind (push_node_events node event_types occurred_at (node_relay_payload node_id current)) (\<lambda>node.
      Inr (event_types, if ro_connected current then dset node ''relay_client_ever_connected'' (JBool True) else node)))"

section \<open>Signals to the Session\<close>

primrec append_egress_session_events ::
  "string \<Rightarrow> string list \<Rightarrow> string option \<Rightarrow> dict \<Rightarrow> rat \<Rightarrow> pyfloat \<Rightarrow> authority \<Rightarrow> (err + unit) \<times> authority"
where
  "append_egress_session_events session_id [] reason payload occurred_at clock fs = (Inr (), fs)"
| "append_egress_session_events session_id (t # ts) reason payload occurred_at clock fs =
     (case append_event session_id t reason payload ''node-agent'' (Some (JTime occurred_at)) clock fs of
        (Inl e, fs') \<Rightarrow> (Inl e, fs')
      | (Inr _, fs') \<Rightarrow> append_egress_session_events session_id ts reason payload occurred_at clock fs')"

definition apply_egress_to_session ::
  "string \<Rightarrow> string \<Rightarrow> string list \<Rightarrow> egress_observation \<Rightarrow> rat \<Rightarrow> pyfloat \<Rightarrow> authority \<Rightarrow> (err + unit) \<times> authority"
where
  "apply_egress_to_session session_id node_id event_types current occurred_at clock fs =
     (case get_session session_id fs of
        (Inl e, fs) \<Rightarrow> (Inl e, fs)
      | (Inr None, fs) \<Rightarrow> (Inl KeyError, fs)
      | (Inr (Some session), fs) \<Rightarrow>
          if dget session ''node_id'' \<notin> {JNull, JStr node_id} then (Inl RuntimeError, fs)
          else if status_of session \<notin> ACTIVE_STATES then (Inr (), fs)
          else
            let payload = egress_payload node_id current;
                reason = (case eo_reason_code current of None \<Rightarrow> None | Some r \<Rightarrow> if r = [] then None else Some (take 100 r))
            in
            (case append_egress_session_events session_id event_types reason payload occurred_at clock fs of
               (Inl e, fs) \<Rightarrow> (Inl e, fs)
             | (Inr _, fs) \<Rightarrow>
                 (case update_session session_id
                    [(''egress_status'', JStr (eo_status current)), (''egress_connected'', JBool (eo_connected current)),
                     (''egress_last_reason'', jopt (eo_reason_code current)), (''egress_updated_at'', eo_observed_at current)]
                    clock fs of
                    (Inl e, fs) \<Rightarrow> (Inl e, fs)
                  | (Inr _, fs) \<Rightarrow> (Inr (), fs))))"

section \<open>Pipeline health\<close>

text \<open>\<open>max(0.0, value)\<close> of the configured grace, 30 seconds when it does not parse (None).\<close>

definition media_health_failure_grace_seconds :: "pyfloat option \<Rightarrow> pyfloat" where
  "media_health_failure_grace_seconds raw =
     (case (case raw of None \<Rightarrow> Fin 30 | Some f \<Rightarrow> f) of
        Fin x \<Rightarrow> Fin (max 0 x) | PosInf \<Rightarrow> PosInf | _ \<Rightarrow> Fin 0)"

definition within_grace :: "rat \<Rightarrow> pyfloat \<Rightarrow> bool" where
  "within_grace elapsed grace = (case grace of Fin g \<Rightarrow> elapsed < g | PosInf \<Rightarrow> True | _ \<Rightarrow> False)"

definition FATAL_MEDIA_HEALTH :: "string set" where
  "FATAL_MEDIA_HEALTH = {''stopped'', ''failed'', ''crashed''}"

text \<open>The start of the unhealthy period that an observation at \<open>current\<close> belongs to.\<close>

definition unhealthy_since :: "dict \<Rightarrow> rat \<Rightarrow> rat" where
  "unhealthy_since node current =
     (case finite_argument (dget node ''media_unhealthy_since'') of
        Inl _ \<Rightarrow> current
      | Inr since \<Rightarrow> if current < since then current else since)"

text \<open>The guarded signal to the Session, once the failure counts.\<close>

definition latch_pipeline_failure ::
  "string \<Rightarrow> string \<Rightarrow> string \<Rightarrow> rat \<Rightarrow> rat \<Rightarrow> pyfloat \<Rightarrow> dict \<Rightarrow> authority \<Rightarrow> (err + bool) \<times> dict \<times> authority"
where
  "latch_pipeline_failure node_id session_id media_health since current clock node fs =
     (case get_session session_id fs of
        (Inl e, fs) \<Rightarrow> (Inl e, node, fs)
      | (Inr None, fs) \<Rightarrow> (Inl KeyError, node, fs)
      | (Inr (Some session), fs) \<Rightarrow>
          if dget session ''node_id'' \<notin> {JNull, JStr node_id} then (Inl RuntimeError, node, fs)
          else if status_of session \<notin> ACTIVE_STATES then (Inr False, node, fs)
          else
            (case transition session_id ''FAILED_CLEANUP'' (Some ACTIVE_STATES)
                [(''cleanup_pending'', JBool True), (''failure_reason'', JStr ''media pipeline remained unavailable''),
                 (''failure_reason_code'', JStr ''PIPELINE_CRASHED'')] clock fs of
               (Inl e, fs) \<Rightarrow> (Inl e, node, fs)
             | (Inr _, fs) \<Rightarrow>
                 let node = dset (dset node ''desired_state'' (JStr ''STOPPED'')) ''pipeline_failure_latched_at'' (JTime current) in
                 (case append_event session_id ''session.failure_detected'' (Some ''PIPELINE_CRASHED'')
                     [(''node_id'', JStr node_id), (''from_state'', JStr (status_of session)), (''to_state'', JStr ''FAILED_CLEANUP''),
                      (''cleanup_pending'', JBool True), (''media_health'', JStr (take 100 media_health)),
                      (''unhealthy_since'', JTime since)]
                     ''node-agent'' (Some (JTime current)) clock fs of
                    (Inl e, fs) \<Rightarrow> (Inl e, node, fs)
                  | (Inr _, fs) \<Rightarrow> (Inr True, node, fs))))"

text \<open>\<open>apply_pipeline_health\<close>; the Node is changed in place, also when an exception follows.\<close>

definition apply_pipeline_health ::
  "pyfloat \<Rightarrow> string \<Rightarrow> string \<Rightarrow> string \<Rightarrow> string \<Rightarrow> rat \<Rightarrow> pyfloat \<Rightarrow> dict \<Rightarrow> authority \<Rightarrow> (err + bool) \<times> dict \<times> authority"
where
  "apply_pipeline_health grace node_id session_id node_status media_health current clock node fs =
     (if current < 0 then (Inl ValueError, node, fs) else
      let health = py_lower (py_strip media_health);
          explicitly_failed = py_upper (py_strip node_status) = ''FAILED''
      in
      if health = ''running'' then (Inr False, dpop (dpop node ''media_unhealthy_since'') ''media_failure_reason'', fs)
      else if \<not> explicitly_failed \<and> health \<notin> FATAL_MEDIA_HEALTH then (Inr False, node, fs)
      else
        let since = unhealthy_since node current;
            node = (if finite_argument (dget node ''media_unhealthy_since'') = Inr since then node
                    else dset node ''media_unhealthy_since'' (JTime since));
            node = dset node ''media_failure_reason'' (JStr ''PIPELINE_CRASHED'')
        in
        if \<not> explicitly_failed \<and> within_grace (current - since) grace then (Inr False, node, fs)
        else latch_pipeline_failure node_id session_id media_health since current clock node fs)"

section \<open>Bootstrap\<close>

record bootstrap_request =
  br_provider_server_id :: string
  br_boot_id :: string
  br_agent_version :: string
  br_bootstrap_request_id :: string
  br_node_access_token :: string
  br_public_address :: "string option"
  br_private_address :: "string option"

text \<open>What a bootstrap takes from its surroundings; \<open>be_deadline_hours\<close> is None when it does not parse.\<close>

record bootstrap_env =
  be_clock :: pyfloat
  be_bind_clock :: pyfloat
  be_uuid :: string
  be_deadline_hours :: "pyfloat option"
  be_require_assignment :: "string option"
  be_provider :: string
  be_audio_mode :: string

definition provider_mode :: "string \<Rightarrow> err + string" where
  "provider_mode raw =
     (let mode = py_lower (py_strip raw) in
      rbind (require RuntimeError (mode \<in> {''fake'', ''conoha''})) (\<lambda>_. Inr mode))"

definition require_session_assignment :: "bootstrap_env \<Rightarrow> err + bool" where
  "require_session_assignment env =
     (case be_require_assignment env of
        Some configured \<Rightarrow> Inr (py_lower (py_strip configured) \<notin> {''0'', ''false'', ''no'', ''off''})
      | None \<Rightarrow> rbind (provider_mode (be_provider env)) (\<lambda>mode. Inr (mode = ''conoha'')))"

definition resolve_assigned_session :: "bootstrap_env \<Rightarrow> string \<Rightarrow> dict option node_act" where
  "resolve_assigned_session env provider_server_id =
     nbind (on_session_store (find_by_provider_server_id provider_server_id (Some ACTIVE_STATES))) (\<lambda>matches.
     case matches of
       [session] \<Rightarrow> nret (Some session)
     | [] \<Rightarrow> nbind (nlift (require_session_assignment env)) (\<lambda>b. if b then nraise (HTTPException 409) else nret None)
     | _ \<Rightarrow> nraise (HTTPException 409))"

definition issue_node_id :: "dict \<Rightarrow> err + string \<times> dict" where
  "issue_node_id authority =
     rbind (from_some TypeError (as_int (dget_or authority ''next_node_seq'' (JInt 1)))) (\<lambda>seq.
     rbind (from_some ValueError (int_repr seq)) (\<lambda>digits.
     Inr (''node-'' @ replicate (4 - length digits) CHR ''0'' @ digits,
          dset authority ''next_node_seq'' (JInt (seq + 1)))))"

text \<open>\<open>float(v)\<close> of a number; None where it raises.  A loaded Session holds a number or null there.\<close>

definition json_float :: "json \<Rightarrow> pyfloat option" where
  "json_float v = (case v of JInt n \<Rightarrow> float_of_int n | JFloat f \<Rightarrow> Some f | JBool b \<Rightarrow> Some (Fin (if b then 1 else 0)) | _ \<Rightarrow> None)"

definition bootstrap_deadline :: "dict option \<Rightarrow> rat \<Rightarrow> err + rat" where
  "bootstrap_deadline assigned configured =
     (case assigned of
        None \<Rightarrow> Inr configured
      | Some session \<Rightarrow>
          if dget session ''absolute_deadline_at'' = JNull then Inr configured
          else (case json_float (dget session ''absolute_deadline_at'') of
                  None \<Rightarrow> Inr configured
                | Some f \<Rightarrow> node_number (Some 0) (JFloat f)))"

definition session_id_of :: "dict \<Rightarrow> string" where
  "session_id_of session = (case as_str (dget session ''session_id'') of None \<Rightarrow> [] | Some s \<Rightarrow> s)"

definition relay_only :: "dict option \<Rightarrow> bool" where
  "relay_only assigned = (case assigned of None \<Rightarrow> False | Some s \<Rightarrow> dget s ''egress_mode'' = JStr ''RELAY_ONLY'')"

definition new_node :: "string \<Rightarrow> string \<Rightarrow> dict option \<Rightarrow> bootstrap_request \<Rightarrow> rat \<Rightarrow> rat \<Rightarrow> string \<Rightarrow> dict" where
  "new_node node_id session_id assigned request absolute_deadline bootstrap_at access_digest =
     [(''node_id'', JStr node_id),
      (''session_id'', JStr session_id),
      (''session_assigned'', JBool (assigned \<noteq> None)),
      (''destination_id'', case assigned of None \<Rightarrow> JNull | Some s \<Rightarrow> dget s ''destination_id''),
      (''egress_mode'', JStr (if relay_only assigned then ''RELAY_ONLY'' else ''DIRECT_PUSH'')),
      (''provider_server_id'', JStr (br_provider_server_id request)),
      (''boot_id'', JStr (br_boot_id request)),
      (''agent_version'', JStr (br_agent_version request)),
      (''public_address'', jopt (br_public_address request)),
      (''private_address'', jopt (br_private_address request)),
      (''status'', JStr ''BOOTSTRAPPING''),
      (''desired_state'', JStr ''RUNNING''),
      (''absolute_deadline'', JTime absolute_deadline),
      (''last_heartbeat_at'', JNull),
      (''ingest'', JNull),
      (''ingest_ever_online'', JBool False),
      (''egress'', JNull),
      (''egress_ever_connected'', JBool False),
      (''relay_client'', JNull),
      (''relay_client_ever_connected'', JBool False),
      (''events'', JList []),
      (''next_event_seq'', JInt 1),
      (''created_at'', JTime bootstrap_at),
      (''access_token_sha256'', JStr access_digest)]"

definition token_record :: "string \<Rightarrow> string \<Rightarrow> bootstrap_request \<Rightarrow> rat \<Rightarrow> string \<Rightarrow> dict" where
  "token_record node_id session_id request consumed_at access_digest =
     [(''consumed'', JBool True),
      (''consumed_at'', JTime consumed_at),
      (''node_id'', JStr node_id),
      (''session_id'', JStr session_id),
      (''bootstrap_request_id'', JStr (br_bootstrap_request_id request)),
      (''provider_server_id'', JStr (br_provider_server_id request)),
      (''boot_id'', JStr (br_boot_id request)),
      (''node_access_token_sha256'', JStr access_digest)]"

definition bootstrap_response ::
  "(dict option \<Rightarrow> err + string \<times> string option) \<Rightarrow> bootstrap_env \<Rightarrow> dict \<Rightarrow> dict option \<Rightarrow> string \<Rightarrow> json \<Rightarrow> err + dict"
where
  "bootstrap_response deliver env node assigned node_access_token audio_updated_at =
     rbind (node_number (Some 0) audio_updated_at) (\<lambda>response_updated_at.
     let egress_mode = (case as_str (dget_or node ''egress_mode'' (JStr ''DIRECT_PUSH'')) of None \<Rightarrow> [] | Some s \<Rightarrow> s) in
     rbind (deliver assigned) (\<lambda>(egress_url, peer_ip).
     rbind (require (HTTPException 409)
        (\<not> (egress_mode = ''DIRECT_PUSH'' \<and> egress_url \<noteq> [] \<and> (peer_ip = None \<or> peer_ip = Some [])))) (\<lambda>_.
     Inr [(''node_id'', dget node ''node_id''),
          (''session_id'', dget node ''session_id''),
          (''session_assigned'', JBool (truthy (dget node ''session_assigned''))),
          (''status'', JStr ''BOOTSTRAPPING''),
          (''absolute_deadline'', dget node ''absolute_deadline''),
          (''egress_url'', JStr egress_url),
          (''egress_verified_peer_ip'', jopt peer_ip),
          (''audio_mode'', JStr (be_audio_mode env)),
          (''audio_version'', JInt 0),
          (''audio_command_id'', JNull),
          (''audio_idempotency_key'', JNull),
          (''audio_updated_at'', JTime response_updated_at),
          (''egress_mode'', JStr egress_mode),
          (''media_mtx_config_ref'', JStr ''config/mediamtx.yml''),
          (''node_access_token'', JStr node_access_token)])))"

text \<open>The retry of a bootstrap whose token is consumed.\<close>

definition same_attempt :: "(string \<Rightarrow> string) \<Rightarrow> bootstrap_request \<Rightarrow> dict \<Rightarrow> json \<Rightarrow> bool" where
  "same_attempt hash request consumed node \<longleftrightarrow> as_obj node \<noteq> None \<and>
     dget consumed ''bootstrap_request_id'' = JStr (br_bootstrap_request_id request) \<and>
     dget consumed ''provider_server_id'' = JStr (br_provider_server_id request) \<and>
     dget consumed ''boot_id'' = JStr (br_boot_id request) \<and>
     dget consumed ''node_access_token_sha256'' = JStr (hash (br_node_access_token request)) \<and>
     dget (obj_of node) ''access_token_sha256'' = JStr (hash (br_node_access_token request))"

definition replay_bootstrap ::
  "(dict option \<Rightarrow> err + string \<times> string option) \<Rightarrow> (string \<Rightarrow> string) \<Rightarrow> bootstrap_env \<Rightarrow> bootstrap_request \<Rightarrow> dict \<Rightarrow> dict \<Rightarrow> dict node_act"
where
  "replay_bootstrap deliver hash env request authority consumed =
     (let node = (case as_str (dget consumed ''node_id'') of None \<Rightarrow> JNull | Some k \<Rightarrow> dget (obj_of (dget authority ''nodes'')) k) in
      if \<not> same_attempt hash request consumed node then nraise (HTTPException 409) else
      let node = obj_of node; assigned = truthy (dget node ''session_assigned'') in
      nbind (if assigned then on_session_store (get_session (session_id_of node)) else nret None) (\<lambda>assigned_session.
      if assigned \<and> assigned_session = None then nraise (HTTPException 409) else
      nlift (bootstrap_response deliver env node assigned_session (br_node_access_token request) (dget node ''created_at''))))"

text \<open>Consuming a token: what is decided and bound before anything is written to the Node files.\<close>

record bootstrap_plan =
  bp_authority :: dict
  bp_node :: dict
  bp_node_id :: string
  bp_session_id :: string
  bp_assigned :: "dict option"
  bp_at :: rat

definition plan_bootstrap ::
  "(string \<Rightarrow> string) \<Rightarrow> bootstrap_env \<Rightarrow> bootstrap_request \<Rightarrow> string \<Rightarrow> dict \<Rightarrow> bootstrap_plan node_act"
where
  "plan_bootstrap hash env request digest authority =
     nbind (nlift (node_number (Some 0) (JFloat (be_clock env)))) (\<lambda>bootstrap_at.
     nbind (nlift (from_some NodeStateError (be_deadline_hours env))) (\<lambda>deadline_hours.
     nbind (nlift (node_number (Some 0) (JFloat (fadd (Fin bootstrap_at) (fscale deadline_hours 3600))))) (\<lambda>configured_deadline.
     nbind (resolve_assigned_session env (br_provider_server_id request)) (\<lambda>assigned.
     nbind (nlift (issue_node_id authority)) (\<lambda>(node_id, authority).
     let session_id = (case assigned of Some s \<Rightarrow> session_id_of s | None \<Rightarrow> be_uuid env) in
     nbind (nlift (bootstrap_deadline assigned configured_deadline)) (\<lambda>absolute_deadline.
     nbind (if assigned = None then nret ()
            else ntry (on_session_store (bind_node session_id node_id (br_boot_id request) (br_provider_server_id request) None (be_bind_clock env)))
                   (\<lambda>_. nret ()) (\<lambda>_. nraise (HTTPException 409))) (\<lambda>_.
     let access_digest = hash (br_node_access_token request);
         node = new_node node_id session_id assigned request absolute_deadline bootstrap_at access_digest;
         authority = dset authority ''nodes'' (JObj (dset (obj_of (dget authority ''nodes'')) node_id (JObj node)));
         authority = dset authority ''tokens'' (JObj (dset (obj_of (dget authority ''tokens'')) digest
               (JObj (token_record node_id session_id request bootstrap_at access_digest))))
     in nret \<lparr>bp_authority = authority, bp_node = node, bp_node_id = node_id, bp_session_id = session_id,
              bp_assigned = assigned, bp_at = bootstrap_at\<rparr>)))))))"

definition consumed_record :: "dict \<Rightarrow> string \<Rightarrow> dict option" where
  "consumed_record authority digest =
     (case as_obj (dget (obj_of (dget authority ''tokens'')) digest) of
        Some record \<Rightarrow> if truthy (dget record ''consumed'') then Some record else None
      | None \<Rightarrow> None)"

text \<open>\<open>_bootstrap_locked\<close>\<close>

definition bootstrap_locked ::
  "(dict option \<Rightarrow> err + string \<times> string option) \<Rightarrow> (string \<Rightarrow> string) \<Rightarrow> bootstrap_env \<Rightarrow> bootstrap_request \<Rightarrow> string \<Rightarrow> dict node_act"
where
  "bootstrap_locked deliver hash env request digest w =
     (case read_node_authority w of
        Inl e \<Rightarrow> (Inl e, w)
      | Inr authority \<Rightarrow>
          (case consumed_record authority digest of
             Some consumed \<Rightarrow> replay_bootstrap deliver hash env request authority consumed w
           | None \<Rightarrow>
               nbind (plan_bootstrap hash env request digest authority) (\<lambda>plan.
               nbind (write_legacy_token_fuse digest (bp_node_id plan) (bp_session_id plan) (bp_at plan)) (\<lambda>_.
               nbind (write_node_authority (bp_authority plan)) (\<lambda>_.
               nlift (bootstrap_response deliver env (bp_node plan) (bp_assigned plan) (br_node_access_token request)
                  (JTime (bp_at plan)))))) w))"

definition bootstrap ::
  "(dict option \<Rightarrow> err + string \<times> string option) \<Rightarrow> (string \<Rightarrow> string) \<Rightarrow> string \<Rightarrow> bootstrap_env \<Rightarrow> bootstrap_request \<Rightarrow> string option
    \<Rightarrow> dict node_act"
where
  "bootstrap deliver hash tokens env request authorization w =
     (case bearer authorization of
        Inl e \<Rightarrow> (Inl e, w)
      | Inr token \<Rightarrow>
          if hash token \<notin> configured_token_digests hash tokens then (Inl (HTTPException 401), w)
          else bootstrap_locked deliver hash env request (hash token) w)"

section \<open>Heartbeat\<close>

text \<open>The dumps of the three observation models.\<close>

definition ingest_dump :: "ingest_observation \<Rightarrow> string option \<Rightarrow> dict" where
  "ingest_dump ob enforcement_error =
     [(''status'', JStr (io_status ob)), (''path'', JStr (io_path ob)), (''online'', JBool (io_online ob)),
      (''source_type'', jopt (io_source_type ob)), (''source_id'', jopt (io_source_id ob)),
      (''bitrate_bps'', io_bitrate_bps ob), (''max_bitrate_bps'', io_max_bitrate_bps ob), (''tracks'', io_tracks ob),
      (''reasons'', JList (map JStr (io_reasons ob))), (''warnings'', JList (map JStr (io_warnings ob))),
      (''quality'', io_quality ob), (''enforced'', JBool (io_enforced ob)),
      (''enforcement_error'', jopt enforcement_error), (''observed_at'', io_observed_at ob)]"

definition egress_dump :: "egress_observation \<Rightarrow> dict" where
  "egress_dump ob =
     [(''status'', JStr (eo_status ob)), (''connected'', JBool (eo_connected ob)), (''attempt'', JInt (eo_attempt ob)),
      (''reason_code'', jopt (eo_reason_code ob)), (''rendered_buffers'', JInt (eo_rendered_buffers ob)),
      (''next_retry_at'', eo_next_retry_at ob), (''destination_scheme'', jopt (eo_destination_scheme ob)),
      (''destination_host'', jopt (eo_destination_host ob)), (''observed_at'', eo_observed_at ob)]"

definition relay_dump :: "relay_observation \<Rightarrow> dict" where
  "relay_dump ob =
     [(''status'', JStr (ro_status ob)), (''connected'', JBool (ro_connected ob)), (''reader_count'', JInt (ro_reader_count ob)),
      (''reason_code'', jopt (ro_reason_code ob)), (''observed_at'', ro_observed_at ob)]"

text \<open>\<open>HeartbeatRequest\<close>; an optional number is JSON, null when absent.\<close>

record heartbeat_request =
  hb_status :: string
  hb_media_health :: string
  hb_active_publisher :: bool
  hb_egress_connected :: bool
  hb_cpu_percent :: json
  hb_memory_mb :: json
  hb_software_version :: "string option"
  hb_deadline_remaining_seconds :: json
  hb_ingest :: "(ingest_observation \<times> string option) option"
  hb_egress :: "egress_observation option"
  hb_relay_client :: "relay_observation option"

record heartbeat_env =
  he_clock :: pyfloat
  he_relay_clock :: pyfloat
  he_update_clock :: pyfloat
  he_transition_clock :: pyfloat
  he_recovery_stable_seconds :: rat
  he_grace :: pyfloat
  he_text :: "err \<Rightarrow> string"

definition heartbeat_fields :: "heartbeat_request \<Rightarrow> rat \<Rightarrow> dict \<Rightarrow> dict" where
  "heartbeat_fields request observed_at node =
     (let node = dupdate node
            [(''status'', JStr (hb_status request)), (''last_heartbeat_at'', JTime observed_at),
             (''media_health'', JStr (hb_media_health request)), (''active_publisher'', JBool (hb_active_publisher request)),
             (''egress_connected'', JBool (hb_egress_connected request))];
          set_some = (\<lambda>k v node. if v = JNull then node else dset node k v);
          node = (case hb_software_version request of
             None \<Rightarrow> node | Some v \<Rightarrow> if v = [] then node else dset node ''software_version'' (JStr v));
          node = set_some ''cpu_percent'' (hb_cpu_percent request) node;
          node = set_some ''memory_mb'' (hb_memory_mb request) node
      in set_some ''deadline_remaining_seconds'' (hb_deadline_remaining_seconds request) node)"

definition error_text :: "heartbeat_env \<Rightarrow> err \<Rightarrow> json" where
  "error_text env e = JStr (take 200 (he_text env e))"

text \<open>One signal to the Session, whose failure is noted in the Node.\<close>

definition signal_session :: "heartbeat_env \<Rightarrow> string \<Rightarrow> 'a node_act \<Rightarrow> dict \<Rightarrow> dict node_act" where
  "signal_session env field signal node =
     ntry signal (\<lambda>_. nret (dpop node field)) (\<lambda>e. nret (dset node field (error_text env e)))"

definition heartbeat_ingest ::
  "heartbeat_env \<Rightarrow> heartbeat_request \<Rightarrow> string \<Rightarrow> rat \<Rightarrow> dict \<Rightarrow> dict node_act"
where
  "heartbeat_ingest env request node_id observed_at node =
     (case hb_ingest request of
        None \<Rightarrow> nret node
      | Some (ob, enforcement_error) \<Rightarrow>
          nbind (nlift (node_ingest_events node (dget node ''ingest'') ob observed_at)) (\<lambda>(event_types, node).
          let node = dset node ''ingest'' (JObj (ingest_dump ob enforcement_error)) in
          if truthy (dget node ''session_assigned'') then
            signal_session env ''session_event_error''
              (on_session_store (apply_ingest_observation (he_recovery_stable_seconds env) (session_id_of node) node_id event_types ob
                 (Some (JTime observed_at)) (he_clock env))) node
          else nret node))"

definition heartbeat_egress ::
  "heartbeat_env \<Rightarrow> heartbeat_request \<Rightarrow> string \<Rightarrow> rat \<Rightarrow> dict \<Rightarrow> dict node_act"
where
  "heartbeat_egress env request node_id observed_at node =
     (case hb_egress request of
        None \<Rightarrow> nret node
      | Some ob \<Rightarrow>
          nbind (nlift (node_egress_events node (dget node ''egress'') ob observed_at)) (\<lambda>(event_types, node).
          let node = dset (dset node ''egress'' (JObj (egress_dump ob))) ''egress_connected'' (JBool (eo_connected ob)) in
          if truthy (dget node ''session_assigned'') \<and> event_types \<noteq> [] then
            signal_session env ''egress_session_event_error''
              (on_session_store (apply_egress_to_session (session_id_of node) node_id event_types ob observed_at (he_update_clock env))) node
          else nret node))"

definition heartbeat_relay ::
  "heartbeat_env \<Rightarrow> heartbeat_request \<Rightarrow> string \<Rightarrow> rat \<Rightarrow> dict \<Rightarrow> dict node_act"
where
  "heartbeat_relay env request node_id observed_at node =
     (case hb_relay_client request of
        None \<Rightarrow> nret node
      | Some ob \<Rightarrow>
          nbind (nlift (node_relay_events node (dget node ''relay_client'') ob observed_at)) (\<lambda>(event_types, node).
          let node = dset node ''relay_client'' (JObj (relay_dump ob)) in
          if truthy (dget node ''session_assigned'') \<and> event_types \<noteq> [] then
            signal_session env ''relay_client_session_event_error''
              (on_session_store (apply_relay_client_observation (session_id_of node) node_id event_types ob (he_relay_clock env))) node
          else nret node))"

definition heartbeat_pipeline ::
  "heartbeat_env \<Rightarrow> heartbeat_request \<Rightarrow> string \<Rightarrow> rat \<Rightarrow> dict \<Rightarrow> dict node_act"
where
  "heartbeat_pipeline env request node_id observed_at node w =
     (if truthy (dget node ''session_assigned'') then
        (case apply_pipeline_health (he_grace env) node_id (session_id_of node) (hb_status request) (hb_media_health request)
            observed_at (he_transition_clock env) node (nw_sessions w) of
           (Inl e, node, fs) \<Rightarrow>
             if key_or_runtime_error e
             then (Inr (dset node ''pipeline_session_event_error'' (error_text env e)), w\<lparr>nw_sessions := fs\<rparr>)
             else (Inl e, w\<lparr>nw_sessions := fs\<rparr>)
         | (Inr _, node, fs) \<Rightarrow> (Inr (dpop node ''pipeline_session_event_error''), w\<lparr>nw_sessions := fs\<rparr>))
      else (Inr node, w))"

definition heartbeat_session :: "heartbeat_request \<Rightarrow> string \<Rightarrow> rat \<Rightarrow> dict \<Rightarrow> unit node_act" where
  "heartbeat_session request node_id observed_at node =
     (if truthy (dget node ''session_assigned'') then
        nbind (on_session_store (record_node_heartbeat (session_id_of node) node_id
            (case as_str (dget node ''boot_id'') of None \<Rightarrow> [] | Some s \<Rightarrow> s) (JTime observed_at)
            (hb_status request = ''READY'' \<and> hb_media_health request = ''running''))) (\<lambda>recorded.
        if recorded then nret () else nraise (HTTPException 409))
      else nret ())"

text \<open>The Node after the heartbeat; every step may also have changed the Session.\<close>

definition heartbeat_node :: "heartbeat_env \<Rightarrow> heartbeat_request \<Rightarrow> string \<Rightarrow> rat \<Rightarrow> dict \<Rightarrow> dict node_act" where
  "heartbeat_node env request node_id observed_at node =
     (let node = heartbeat_fields request observed_at node in
      nbind (heartbeat_session request node_id observed_at node) (\<lambda>_.
      nbind (heartbeat_ingest env request node_id observed_at node) (\<lambda>node.
      nbind (heartbeat_egress env request node_id observed_at node) (\<lambda>node.
      nbind (heartbeat_relay env request node_id observed_at node) (\<lambda>node.
      heartbeat_pipeline env request node_id observed_at node)))))"

definition put_node :: "dict \<Rightarrow> string \<Rightarrow> dict \<Rightarrow> dict" where
  "put_node authority node_id node =
     dset authority ''nodes'' (JObj (dset (obj_of (dget authority ''nodes'')) node_id (JObj node)))"

definition lookup_node :: "dict \<Rightarrow> string \<Rightarrow> dict option" where
  "lookup_node authority node_id = as_obj (dget (obj_of (dget authority ''nodes'')) node_id)"

text \<open>\<open>_heartbeat_locked\<close>, first what precedes the write.\<close>

definition heartbeat_update ::
  "(string \<Rightarrow> string) \<Rightarrow> heartbeat_env \<Rightarrow> string \<Rightarrow> heartbeat_request \<Rightarrow> string option \<Rightarrow> dict \<Rightarrow> dict node_act"
where
  "heartbeat_update hash env node_id request authorization authority =
     nbind (nlift (from_some (HTTPException 404) (lookup_node authority node_id))) (\<lambda>node.
     nbind (nlift (require_node_access hash node authorization)) (\<lambda>_.
     nbind (nlift (node_number (Some 0) (JFloat (he_clock env)))) (\<lambda>observed_at.
     heartbeat_node env request node_id observed_at node)))"

definition heartbeat ::
  "(string \<Rightarrow> string) \<Rightarrow> heartbeat_env \<Rightarrow> string \<Rightarrow> heartbeat_request \<Rightarrow> string option \<Rightarrow> json node_act"
where
  "heartbeat hash env node_id request authorization w =
     (case read_node_authority w of
        Inl e \<Rightarrow> (Inl e, w)
      | Inr authority \<Rightarrow>
          nbind (heartbeat_update hash env node_id request authorization authority) (\<lambda>node.
          nbind (write_node_authority (put_node authority node_id node)) (\<lambda>_.
          nret (dget_or node ''desired_state'' (JStr ''RUNNING'')))) w)"

section \<open>Administration\<close>

definition stop_node :: "(string \<Rightarrow> string) \<Rightarrow> string set \<Rightarrow> string \<Rightarrow> string option \<Rightarrow> unit node_act" where
  "stop_node hash configured node_id authorization w =
     (case require_admin_access hash configured authorization of
        Inl e \<Rightarrow> (Inl e, w)
      | Inr _ \<Rightarrow>
          (case read_node_authority w of
             Inl e \<Rightarrow> (Inl e, w)
           | Inr authority \<Rightarrow>
               nbind (nlift (from_some (HTTPException 404) (lookup_node authority node_id))) (\<lambda>node.
               write_node_authority (put_node authority node_id
                 (dset (dset node ''desired_state'' (JStr ''STOPPED'')) ''status'' (JStr ''STOPPING'')))) w))"

definition list_nodes :: "(string \<Rightarrow> string) \<Rightarrow> string set \<Rightarrow> string option \<Rightarrow> node_world \<Rightarrow> err + json \<times> dict" where
  "list_nodes hash configured authorization w =
     rbind (require_admin_access hash configured authorization) (\<lambda>_.
     case read_node_authority w of
       Inl e \<Rightarrow> Inl (if e = NodeStateError then HTTPException 503 else e)
     | Inr authority \<Rightarrow>
         Inr (dget authority ''next_node_seq'',
              map (\<lambda>p. (fst p, JObj (filter (\<lambda>q. fst q \<noteq> ''access_token_sha256'') (obj_of (snd p)))))
                (obj_of (dget authority ''nodes''))))"

end
