(* ===== verification/Node_Tokens.thy ===== *)
theory Node_Tokens
  imports Node_Registry
begin

text \<open>
  What the Node registry promises over any sequence of calls, crashes included: a bootstrap token makes one
  Node, and a Node keeps its identity and, once stopped, its order to stop.
\<close>

section \<open>Actions that only touch the Sessions\<close>

lemma nbind_simps [simp]:
  "m w = (Inl e, w') \<Longrightarrow> nbind m f w = (Inl e, w')" "m w = (Inr x, w') \<Longrightarrow> nbind m f w = f x w'"
  by (simp_all add: nbind_def)

lemma node_act_simps [simp]: "nret x w = (Inr x, w)" "nraise e w = (Inl e, w)" "nlift r w = (r, w)"
  by (simp_all add: nret_def nraise_def nlift_def)

lemma nbind_Inr: "nbind m f w = (Inr y, w'') \<longleftrightarrow> (\<exists>x w'. m w = (Inr x, w') \<and> f x w' = (Inr y, w''))"
  by (auto simp: nbind_def split: prod.splits sum.splits)

lemma nbindE:
  "nbind m f w = (Inr y, w'') \<Longrightarrow> (\<And>x w'. m w = (Inr x, w') \<Longrightarrow> f x w' = (Inr y, w'') \<Longrightarrow> thesis) \<Longrightarrow> thesis"
  by (auto simp: nbind_Inr)

lemma nbind_assoc: "nbind (nbind m f) g = nbind m (\<lambda>x. nbind (f x) g)"
  by (rule ext) (simp add: nbind_def split: prod.split sum.split)

definition session_only :: "'a node_act \<Rightarrow> bool" where
  "session_only m \<longleftrightarrow> (\<forall>w. nw_nodes (snd (m w)) = nw_nodes w \<and> nw_fuse (snd (m w)) = nw_fuse w)"

lemma session_onlyD: "session_only m \<Longrightarrow> m w = (r, w') \<Longrightarrow> nw_nodes w' = nw_nodes w \<and> nw_fuse w' = nw_fuse w"
  by (auto simp: session_only_def dest: spec [of _ w])

lemma session_only_basic [intro, simp]:
  "session_only (nret x)" "session_only (nraise e)" "session_only (nlift r)" "session_only (on_session_store f)"
  by (auto simp: session_only_def on_session_store_def split: prod.split)

lemma session_only_nbind [intro]: "session_only m \<Longrightarrow> (\<And>x. session_only (f x)) \<Longrightarrow> session_only (nbind m f)"
  by (auto simp: session_only_def nbind_def split: prod.split sum.split) (metis snd_conv)+

lemma session_only_ntry [intro]:
  "session_only m \<Longrightarrow> (\<And>x. session_only (k x)) \<Longrightarrow> (\<And>e. session_only (h e)) \<Longrightarrow> session_only (ntry m k h)"
  by (auto simp: session_only_def ntry_def split: prod.split sum.split) (metis snd_conv)+

lemma session_only_if [intro]: "session_only a \<Longrightarrow> session_only b \<Longrightarrow> session_only (if c then a else b)"
  by simp

lemma session_only_option [intro]:
  "session_only a \<Longrightarrow> (\<And>x. session_only (f x)) \<Longrightarrow> session_only (case v of None \<Rightarrow> a | Some x \<Rightarrow> f x)"
  by (cases v) auto

lemma session_only_prod [intro]: "(\<And>x y. session_only (f x y)) \<Longrightarrow> session_only (case v of (x, y) \<Rightarrow> f x y)"
  by (cases v) auto

lemma session_only_Let [intro]: "session_only (f x) \<Longrightarrow> session_only (let y = x in f y)"
  by simp

lemma session_only_list [intro]:
  "session_only a \<Longrightarrow> (\<And>x. session_only (b x)) \<Longrightarrow> (\<And>x y zs. session_only (c x y zs)) \<Longrightarrow>
   session_only (case v of [] \<Rightarrow> a | [x] \<Rightarrow> b x | x # y # zs \<Rightarrow> c x y zs)"
  by (auto split: list.split)

lemma session_only_pipeline: "session_only (heartbeat_pipeline env request node_id observed_at node)"
  by (auto simp: session_only_def heartbeat_pipeline_def split: prod.split sum.split)

lemma session_only_heartbeat: "session_only (heartbeat_node env request node_id observed_at node)"
  unfolding heartbeat_node_def heartbeat_session_def heartbeat_ingest_def heartbeat_egress_def heartbeat_relay_def
    signal_session_def
  by (intro session_only_nbind session_only_ntry session_only_if session_only_option session_only_prod session_only_Let
      session_only_basic session_only_pipeline)

lemma session_only_plan: "session_only (plan_bootstrap hash env request digest authority)"
  unfolding plan_bootstrap_def resolve_assigned_session_def
  by (intro session_only_nbind session_only_ntry session_only_if session_only_list session_only_prod session_only_Let
      session_only_basic)

lemma session_only_replay: "session_only (replay_bootstrap deliver hash env request authority consumed)"
  unfolding replay_bootstrap_def
  by (intro session_only_nbind session_only_if session_only_Let session_only_basic)

lemmas session_only_acts = session_only_heartbeat session_only_plan session_only_replay

section \<open>The two files\<close>

lemma read_node_json_Inr [simp]: "read_node_json fs = Inr d \<longleftrightarrow> read_authority fs = Loaded (JObj d)"
  by (auto simp: read_node_json_def split: reading.splits json.splits)

lemma write_node_json_cases:
  assumes "write_node_json payload fs = (r, fs')"
  shows "r = Inr () \<and> read_authority fs' = Loaded (JObj payload) \<or> r = Inl NodeStateError \<and> read_authority fs' = read_authority fs"
  using assms
  by (auto simp: write_node_json_def auth_persist_def commit_eq json_dump_def read_authority_def was_initialized_def load_text_of
      split: if_splits simp del: text_of.simps load_json_authority.simps)

lemma write_node_authority_cases:
  assumes "write_node_authority d w = (r, w')"
  shows "nw_fuse w' = nw_fuse w \<and> nw_sessions w' = nw_sessions w \<and>
    (r = Inr () \<and> validate_node_authority d = Inr () \<and> read_authority (nw_nodes w') = Loaded (JObj d) \<or>
     is_ok r = False \<and> read_authority (nw_nodes w') = read_authority (nw_nodes w))"
proof (cases "validate_node_authority d")
  case (Inl e)
  then show ?thesis using assms by (simp add: write_node_authority_def Inl) auto
next
  case (Inr u)
  obtain r1 fs where c: "write_node_json d (nw_nodes w) = (r1, fs)" by (cases "write_node_json d (nw_nodes w)")
  then have "r = r1" "w' = w\<lparr>nw_nodes := fs\<rparr>" using assms Inr by (auto simp: write_node_authority_def)
  then show ?thesis using write_node_json_cases [OF c] Inr by auto
qed

text \<open>A crash after the first \<open>n\<close> durable steps of a write.\<close>

definition partial_commit :: "nat \<Rightarrow> dict \<Rightarrow> authority \<Rightarrow> authority" where
  "partial_commit n payload fs =
     (case json_dump (JObj payload) of
        None \<Rightarrow> fs
      | Some t \<Rightarrow> (case run_commit_steps t (take n commit_steps) fs of Inl _ \<Rightarrow> fs | Inr fs' \<Rightarrow> fs'))"

lemma partial_commit_cases:
  "read_authority (partial_commit n payload fs) = read_authority fs \<or>
   read_authority (partial_commit n payload fs) = Refused \<or>
   3 \<le> n \<and> read_authority (partial_commit n payload fs) = Loaded (JObj payload)"
  unfolding partial_commit_def take_commit_steps json_dump_def
  by (cases "marker fs"; cases "payload_file fs")
    (auto simp: commit_steps_def mark_initialized_def read_authority_def was_initialized_def load_text_of split: option.splits
      simp del: text_of.simps load_json_authority.simps)

lemma partial_commit_published:
  "3 \<le> n \<Longrightarrow> json_ok (JObj payload) \<Longrightarrow> marker fs \<noteq> OtherMarker \<Longrightarrow>
   read_authority (partial_commit n payload fs) = Loaded (JObj payload)"
  unfolding partial_commit_def take_commit_steps json_dump_def
  by (cases "marker fs")
    (auto simp: commit_steps_def mark_initialized_def read_authority_def was_initialized_def load_text_of
      simp del: text_of.simps load_json_authority.simps)

text \<open>A bootstrap that dies after \<open>n\<close> of its eight durable steps: four on the fuse, then four on the document.\<close>

definition crash_writes :: "nat \<Rightarrow> string \<Rightarrow> bootstrap_plan \<Rightarrow> node_world \<Rightarrow> node_world" where
  "crash_writes n digest plan w =
     (case fused_tokens digest (bp_node_id plan) (bp_session_id plan) (bp_at plan) (nw_fuse w) of
        Inl _ \<Rightarrow> w
      | Inr legacy \<Rightarrow>
          let w = w\<lparr>nw_fuse := partial_commit (min n 4) legacy (nw_fuse w)\<rparr> in
          if n \<le> 4 \<or> \<not> is_ok (validate_node_authority (bp_authority plan)) then w
          else w\<lparr>nw_nodes := partial_commit (n - 4) (bp_authority plan) (nw_nodes w)\<rparr>)"

definition bootstrap_crash ::
  "nat \<Rightarrow> (string \<Rightarrow> string) \<Rightarrow> bootstrap_env \<Rightarrow> bootstrap_request \<Rightarrow> string \<Rightarrow> node_world \<Rightarrow> node_world"
where
  "bootstrap_crash n hash env request digest w =
     (case read_node_authority w of
        Inl _ \<Rightarrow> w
      | Inr authority \<Rightarrow>
          if consumed_record authority digest \<noteq> None then w
          else (case plan_bootstrap hash env request digest authority w of
                  (Inl _, w') \<Rightarrow> w'
                | (Inr plan, w') \<Rightarrow> crash_writes n digest plan w'))"

section \<open>Calls and runs\<close>

datatype (plugins only: code) node_call =
    CallEnsure
  | CallBootstrap bootstrap_env bootstrap_request string string
  | CallBootstrapCrash nat bootstrap_env bootstrap_request string
  | CallHeartbeat heartbeat_env string heartbeat_request "string option"
  | CallStop "string set" string "string option"
  | CallSessions authority

text \<open>\<open>CallSessions\<close> stands for whatever other services do to the Session authority in between.\<close>

fun run_node_call ::
  "(dict option \<Rightarrow> err + string \<times> string option) \<Rightarrow> (string \<Rightarrow> string) \<Rightarrow> node_call \<Rightarrow> node_world \<Rightarrow> node_world"
where
  "run_node_call deliver hash CallEnsure w = snd (ensure_node_state w)"
| "run_node_call deliver hash (CallBootstrap env request tokens authorization) w =
     snd (bootstrap deliver hash tokens env request (Some authorization) w)"
| "run_node_call deliver hash (CallBootstrapCrash n env request digest) w = bootstrap_crash n hash env request digest w"
| "run_node_call deliver hash (CallHeartbeat env node_id request authorization) w =
     snd (heartbeat hash env node_id request authorization w)"
| "run_node_call deliver hash (CallStop configured node_id authorization) w = snd (stop_node hash configured node_id authorization w)"
| "run_node_call deliver hash (CallSessions fs) w = w\<lparr>nw_sessions := fs\<rparr>"

primrec run_node_calls ::
  "(dict option \<Rightarrow> err + string \<times> string option) \<Rightarrow> (string \<Rightarrow> string) \<Rightarrow> node_call list \<Rightarrow> node_world \<Rightarrow> node_world"
where
  "run_node_calls deliver hash [] w = w"
| "run_node_calls deliver hash (c # cs) w = run_node_calls deliver hash cs (run_node_call deliver hash c w)"


section \<open>The ledger of consumed tokens\<close>

text \<open>The record of a token in a document.\<close>

definition ledger :: "dict \<Rightarrow> string \<Rightarrow> json option" where
  "ledger d digest = map_of (obj_of (dget d ''tokens'')) digest"

text \<open>
  The token is known to be spent: the document or, failing that, the fuse holds a record for it, or they
  refuse to be read.  \<open>P\<close> says which records of the document, \<open>F\<close> which of the fuse.
\<close>

definition fuse_holds :: "(dict \<Rightarrow> bool) \<Rightarrow> string \<Rightarrow> authority \<Rightarrow> bool" where
  "fuse_holds F digest fs \<longleftrightarrow> read_authority fs \<noteq> Pristine \<and>
     (\<forall>l. read_authority fs = Loaded (JObj l) \<longrightarrow> (\<exists>r. ledger l digest = Some (JObj r) \<and> F r))"

definition doc_holds :: "(dict \<Rightarrow> bool) \<Rightarrow> (dict \<Rightarrow> bool) \<Rightarrow> string \<Rightarrow> dict \<Rightarrow> authority \<Rightarrow> bool" where
  "doc_holds P F digest d fuse \<longleftrightarrow>
     (\<exists>r. ledger d digest = Some (JObj r) \<and> P r) \<or> ledger d digest = None \<and> fuse_holds F digest fuse"

definition token_held :: "(dict \<Rightarrow> bool) \<Rightarrow> (dict \<Rightarrow> bool) \<Rightarrow> string \<Rightarrow> node_world \<Rightarrow> bool" where
  "token_held P F digest w \<longleftrightarrow>
     (read_authority (nw_nodes w) = Pristine \<longrightarrow> fuse_holds F digest (nw_fuse w)) \<and>
     (\<forall>d. read_authority (nw_nodes w) = Loaded (JObj d) \<longrightarrow> doc_holds P F digest d (nw_fuse w))"

text \<open>What such a pair of predicates has to satisfy.\<close>

definition spent :: "(dict \<Rightarrow> bool) \<Rightarrow> (dict \<Rightarrow> bool) \<Rightarrow> bool" where
  "spent P F \<longleftrightarrow> (\<forall>r. F r \<longrightarrow> P r) \<and> (\<forall>r. P r \<longrightarrow> truthy (dget r ''consumed''))"

lemma ledger_dset [simp]:
  "ledger (dset d k v) digest = (if k = ''tokens'' then map_of (obj_of v) digest else ledger d digest)"
  by (simp add: ledger_def)

lemma ledger_put_node [simp]: "ledger (put_node d node_id node) digest = ledger d digest"
  by (simp add: put_node_def)

lemma fuse_holds_mono:
  "fuse_holds F digest fs \<Longrightarrow> read_authority fs' = read_authority fs \<or> read_authority fs' = Refused \<Longrightarrow> fuse_holds F digest fs'"
  by (auto simp: fuse_holds_def)

lemma doc_holds_mono:
  "doc_holds P F digest d fs \<Longrightarrow> (fuse_holds F digest fs \<Longrightarrow> fuse_holds F digest fs') \<Longrightarrow> doc_holds P F digest d fs'"
  by (auto simp: doc_holds_def)

lemma token_held_mono:
  assumes "token_held P F digest w" and "fuse_holds F digest (nw_fuse w) \<Longrightarrow> fuse_holds F digest (nw_fuse w')"
    and "read_authority (nw_nodes w') = read_authority (nw_nodes w) \<or> read_authority (nw_nodes w') = Refused"
  shows "token_held P F digest w'"
  using assms(3)
proof
  assume e: "read_authority (nw_nodes w') = read_authority (nw_nodes w)"
  show ?thesis using assms(1,2) doc_holds_mono [OF _ assms(2)] unfolding token_held_def e by blast
qed (simp add: token_held_def)

lemma token_held_write:
  assumes "token_held P F digest w" and "fuse_holds F digest (nw_fuse w) \<Longrightarrow> fuse_holds F digest (nw_fuse w')"
    and "read_authority (nw_nodes w') = Loaded (JObj d)" and "doc_holds P F digest d (nw_fuse w')"
  shows "token_held P F digest w'"
  using assms by (auto simp: token_held_def)

text \<open>The merge keeps the records of the document and takes over those of the fuse.\<close>

lemma merge_fuse_keeps:
  "map_of ts digest = Some (JObj r) \<Longrightarrow> truthy (dget r ''consumed'') \<Longrightarrow> map_of (merge_fuse ts ps) digest = Some (JObj r)"
proof (induction ps arbitrary: ts)
  case (Cons p ps)
  then have "dget ts digest = JObj r" by (simp add: dget_def)
  then show ?case using Cons by (cases "fst p = digest") auto
qed simp

lemma merge_fuse_takes:
  assumes "distinct (map fst ps)" and "map_of ts digest = None"
    and "\<forall>p \<in> set ps. truthy (dget (obj_of (snd p)) ''consumed'')"
  shows "map_of (merge_fuse ts ps) digest = map_of ps digest"
  using assms
proof (induction ps arbitrary: ts)
  case (Cons p ps)
  show ?case
  proof (cases "fst p = digest")
    case True
    obtain v where v: "p = (digest, v)" using True by (cases p) auto
    have c: "truthy (dget (obj_of v) ''consumed'')" using Cons.prems(3) v by simp
    then obtain r where r: "v = JObj r" by (cases v) (auto simp: obj_of_def dget_def)
    show ?thesis using merge_fuse_keeps [of "dset ts digest v" digest r ps] c v r Cons.prems(2)
      by (simp add: dget_def obj_of_def)
  next
    case False
    then show ?thesis using Cons.IH [of ts] Cons.IH [of "dset ts (fst p) (snd p)"] Cons.prems by (cases p) auto
  qed
qed simp

lemma validate_tokens_Inr:
  "validate_tokens d = Inr ts \<longleftrightarrow> dget d ''tokens'' = JObj ts \<and>
     (\<forall>p \<in> set ts. is_digest (fst p) \<and> token_record_ok (as_obj (dget d ''nodes'')) (snd p))"
  by (auto simp: validate_tokens_def rbind_eq_Inr list_all_iff)

lemma token_record_ok_consumed: "token_record_ok ns v \<Longrightarrow> truthy (dget (obj_of v) ''consumed'')"
  by (auto simp: token_record_ok_def split: option.splits)

text \<open>What the merged document says of a token.\<close>

lemma read_node_authority_cases:
  assumes "read_node_authority w = Inr a"
  obtains d where "read_authority (nw_nodes w) = Loaded (JObj d)" "validate_node_authority d = Inr ()" "a = d"
      "read_authority (nw_fuse w) = Pristine"
  | d l ts where "read_authority (nw_nodes w) = Loaded (JObj d)" "validate_node_authority d = Inr ()"
      "read_authority (nw_fuse w) = Loaded (JObj l)" "validate_tokens l = Inr ts"
      "a = dset d ''tokens'' (JObj (merge_fuse (obj_of (dget d ''tokens'')) ts))"
  using assms by (cases "read_authority (nw_fuse w)") (auto simp: read_node_authority_def rbind_eq_Inr)

lemma read_holds:
  assumes rd: "read_node_authority w = Inr a" and held: "token_held P F digest w" and sp: "spent P F"
  shows "\<exists>r. ledger a digest = Some (JObj r) \<and> P r \<and>
    (F r \<or> (\<exists>d. read_authority (nw_nodes w) = Loaded (JObj d) \<and> validate_node_authority d = Inr () \<and> ledger d digest = Some (JObj r)))"
  using rd
proof (cases rule: read_node_authority_cases)
  case (1 d)
  then show ?thesis using held by (auto simp: token_held_def doc_holds_def fuse_holds_def)
next
  case (2 d l ts)
  have dh: "doc_holds P F digest d (nw_fuse w)" using held 2(1) by (simp add: token_held_def)
  have l: "ledger l digest = map_of ts digest" "distinct (map fst ts)" "\<forall>p \<in> set ts. truthy (dget (obj_of (snd p)) ''consumed'')"
    using 2(4) unique_keys_dget [OF read_authority_unique [OF 2(3)]] token_record_ok_consumed
    by (auto simp: validate_tokens_Inr ledger_def)
  show ?thesis
  proof (cases "ledger d digest")
    case None
    then obtain r where "map_of ts digest = Some (JObj r)" "F r" using dh l(1) 2(3) by (auto simp: doc_holds_def fuse_holds_def)
    then show ?thesis using merge_fuse_takes [OF l(2) _ l(3), of "obj_of (dget d ''tokens'')" digest] None sp 2(5)
      by (auto simp: ledger_def spent_def)
  next
    case (Some v)
    then obtain r where r: "ledger d digest = Some (JObj r)" "P r" using dh by (auto simp: doc_holds_def)
    then have "ledger a digest = Some (JObj r)"
      using merge_fuse_keeps [of "obj_of (dget d ''tokens'')" digest r ts] sp 2(5) by (auto simp: ledger_def spent_def)
    then show ?thesis using r 2(1,2) by blast
  qed
qed

lemma consumed_record_held:
  assumes "read_node_authority w = Inr a" and "token_held P F digest w" and "spent P F"
  obtains r where "consumed_record a digest = Some r" "P r"
proof -
  obtain r where "ledger a digest = Some (JObj r)" "P r" using read_holds [OF assms] by blast
  then have "consumed_record a digest = Some r" using assms(3)
    by (auto simp: consumed_record_def ledger_def dget_def spent_def)
  then show thesis using that \<open>P r\<close> by blast
qed


section \<open>Every call keeps the ledger\<close>

lemma plan_bootstrap_Inr:
  assumes "plan_bootstrap hash env request dg a w = (Inr plan, w')"
  obtains a1 deadline where "issue_node_id a = Inr (bp_node_id plan, a1)"
    "bp_node plan = new_node (bp_node_id plan) (bp_session_id plan) (bp_assigned plan) request deadline (bp_at plan)
       (hash (br_node_access_token request))"
    "bp_authority plan = dset (put_node a1 (bp_node_id plan) (bp_node plan)) ''tokens''
       (JObj (dset (obj_of (dget a1 ''tokens'')) dg
         (JObj (token_record (bp_node_id plan) (bp_session_id plan) request (bp_at plan) (hash (br_node_access_token request))))))"
    "0 \<le> bp_at plan"
proof -
  have "\<exists>a1 deadline. issue_node_id a = Inr (bp_node_id plan, a1) \<and>
      bp_node plan = new_node (bp_node_id plan) (bp_session_id plan) (bp_assigned plan) request deadline (bp_at plan)
        (hash (br_node_access_token request)) \<and>
      bp_authority plan = dset (put_node a1 (bp_node_id plan) (bp_node plan)) ''tokens''
        (JObj (dset (obj_of (dget a1 ''tokens'')) dg
          (JObj (token_record (bp_node_id plan) (bp_session_id plan) request (bp_at plan) (hash (br_node_access_token request)))))) \<and>
      0 \<le> bp_at plan"
    using assms unfolding plan_bootstrap_def Let_def case_prod_beta'
    by (elim nbindE) (auto simp: put_node_def node_number_def split: sum.splits if_splits)
  then show thesis using that by blast
qed

lemma issue_node_id_authority: "issue_node_id a = Inr (node_id, a1) \<Longrightarrow> \<exists>seq. a1 = dset a ''next_node_seq'' (JInt (seq + 1))"
  by (auto simp: issue_node_id_def rbind_eq_Inr)

lemma plan_ledger:
  assumes "plan_bootstrap hash env request dg a w = (Inr plan, w')" and "digest \<noteq> dg"
  shows "ledger (bp_authority plan) digest = ledger a digest"
proof -
  obtain a1 deadline where "issue_node_id a = Inr (bp_node_id plan, a1)"
    and b: "bp_authority plan = dset (put_node a1 (bp_node_id plan) (bp_node plan)) ''tokens''
       (JObj (dset (obj_of (dget a1 ''tokens'')) dg
         (JObj (token_record (bp_node_id plan) (bp_session_id plan) request (bp_at plan) (hash (br_node_access_token request))))))"
    using plan_bootstrap_Inr [OF assms(1)] by metis
  then have "ledger a1 digest = ledger a digest" using issue_node_id_authority by fastforce
  then show ?thesis using assms(2) unfolding b by (simp add: ledger_def)
qed

lemma fuse_keeps:
  assumes "fused_tokens dg node_id session_id at0 fs = Inr l" and "fuse_holds F digest fs" and "digest \<noteq> dg"
    and "read_authority fs \<noteq> Refused"
    and "read_authority fs' = read_authority fs \<or> read_authority fs' = Refused \<or> read_authority fs' = Loaded (JObj l)"
  shows "fuse_holds F digest fs'"
proof -
  have "payload_file fs \<noteq> Missing"
    using assms(2,4) by (auto simp: fuse_holds_def read_authority_def split: if_splits)
  then obtain l0 where l0: "read_authority fs = Loaded (JObj l0)" "ledger l digest = ledger l0 digest"
    using assms(1,3) by (auto simp: fused_tokens_def rbind_eq_Inr Let_def ledger_def)
  then show ?thesis using assms(2,5) by (auto simp: fuse_holds_def)
qed

lemma write_fuse_cases:
  assumes "write_legacy_token_fuse dg node_id session_id at0 w = (r, w')"
  shows "nw_nodes w' = nw_nodes w \<and> nw_sessions w' = nw_sessions w \<and>
    (\<not> is_ok r \<and> read_authority (nw_fuse w') = read_authority (nw_fuse w) \<or>
     (\<exists>l. fused_tokens dg node_id session_id at0 (nw_fuse w) = Inr l \<and> r = Inr () \<and> read_authority (nw_fuse w') = Loaded (JObj l)))"
proof (cases "fused_tokens dg node_id session_id at0 (nw_fuse w)")
  case (Inl e)
  then show ?thesis using assms by (simp add: write_legacy_token_fuse_def) auto
next
  case (Inr l)
  obtain r1 fs where c: "write_node_json l (nw_fuse w) = (r1, fs)" by (cases "write_node_json l (nw_fuse w)")
  then show ?thesis using write_node_json_cases [OF c] assms Inr by (auto simp: write_legacy_token_fuse_def)
qed

lemma fuse_write_keeps:
  assumes "write_legacy_token_fuse dg node_id session_id at0 w = (r, w')" and "fuse_holds F digest (nw_fuse w)"
    and "digest \<noteq> dg" and "read_authority (nw_fuse w) \<noteq> Refused"
  shows "fuse_holds F digest (nw_fuse w')"
  using write_fuse_cases [OF assms(1)] fuse_keeps [OF _ assms(2-4)] fuse_holds_mono [OF assms(2)] by blast

text \<open>A document written from a merged read.\<close>

lemma token_held_rewrite:
  assumes held: "token_held P F digest w" and sp: "spent P F" and rd: "read_node_authority w = Inr a"
    and "ledger d digest = ledger a digest"
    and fuse: "fuse_holds F digest (nw_fuse w) \<Longrightarrow> fuse_holds F digest (nw_fuse w')"
    and "read_authority (nw_nodes w') = Loaded (JObj d) \<or> read_authority (nw_nodes w') = read_authority (nw_nodes w) \<or>
         read_authority (nw_nodes w') = Refused"
  shows "token_held P F digest w'"
  using assms(6)
proof (elim disjE)
  assume new: "read_authority (nw_nodes w') = Loaded (JObj d)"
  obtain r where "ledger a digest = Some (JObj r)" "P r" using read_holds [OF rd held sp] by blast
  then show ?thesis using new assms(4) by (auto simp: token_held_def doc_holds_def)
qed (use token_held_mono [OF held fuse] in blast)+

lemma read_not_refused: "read_node_authority w = Inr a \<Longrightarrow> read_authority (nw_fuse w) \<noteq> Refused"
  by (auto simp: read_node_authority_def rbind_eq_Inr)

lemma session_only_held:
  "session_only m \<Longrightarrow> m w = (r, w') \<Longrightarrow> token_held P F digest w \<Longrightarrow> token_held P F digest w'"
  by (drule (1) session_onlyD) (simp add: token_held_def)

lemma write_authority_held:
  assumes "token_held P F digest w" and "spent P F" and "read_node_authority w = Inr a" and "ledger d digest = ledger a digest"
    and "write_node_authority d w = (r, w')"
  shows "token_held P F digest w'"
  using write_node_authority_cases [OF assms(5)] token_held_rewrite [OF assms(1-4)] by auto

lemma read_node_authority_cong:
  "nw_nodes w' = nw_nodes w \<Longrightarrow> nw_fuse w' = nw_fuse w \<Longrightarrow> read_node_authority w' = read_node_authority w"
  by (simp add: read_node_authority_def)

text \<open>A planned bootstrap with another token, at each of its durable steps.\<close>

lemma bootstrap_locked_held:
  assumes held: "token_held P F digest w" and sp: "spent P F"
  shows "token_held P F digest (snd (bootstrap_locked deliver hash env request dg w))"
proof (cases "read_node_authority w")
  case (Inl e)
  then show ?thesis using held by (simp add: bootstrap_locked_def)
next
  case (Inr a)
  show ?thesis
  proof (cases "consumed_record a dg")
    case (Some c)
    then show ?thesis
      using Inr session_only_held [OF session_only_replay _ held] by (simp add: bootstrap_locked_def) (metis surjective_pairing)
  next
    case None
    then have ne: "digest \<noteq> dg" using consumed_record_held [OF Inr held sp] by force
    obtain p w1 where plan: "plan_bootstrap hash env request dg a w = (p, w1)" by fastforce
    have h1: "token_held P F digest w1" by (rule session_only_held [OF session_only_plan plan held])
    have same: "nw_nodes w1 = nw_nodes w" "nw_fuse w1 = nw_fuse w" using session_onlyD [OF session_only_plan plan] by auto
    have rd: "read_node_authority w1 = Inr a" using read_node_authority_cong [OF same] Inr by simp
    show ?thesis
    proof (cases p)
      case p: (Inl e)
      then show ?thesis using Inr None plan h1 by (simp add: bootstrap_locked_def)
    next
      case p: (Inr pl)
      obtain f w2 where fuse: "write_legacy_token_fuse dg (bp_node_id pl) (bp_session_id pl) (bp_at pl) w1 = (f, w2)" by fastforce
      have fh: "fuse_holds F digest (nw_fuse w1) \<Longrightarrow> fuse_holds F digest (nw_fuse w2)"
        using fuse_write_keeps [OF fuse _ ne read_not_refused [OF rd]] .
      have n2: "nw_nodes w2 = nw_nodes w1" using write_fuse_cases [OF fuse] by simp
      have h2: "token_held P F digest w2" using token_held_mono [OF h1 fh] n2 by simp
      show ?thesis
      proof (cases f)
        case (Inl e)
        then show ?thesis using Inr None plan p fuse h2 by (simp add: bootstrap_locked_def)
      next
        case f: (Inr u)
        obtain g w3 where wr: "write_node_authority (bp_authority pl) w2 = (g, w3)" by fastforce
        have "token_held P F digest w3"
          using token_held_rewrite [OF h1 sp rd plan_ledger [OF plan [unfolded p] ne], of w3] fh n2 write_node_authority_cases [OF wr]
          by auto
        then show ?thesis using Inr None plan p fuse f wr by (cases g) (simp_all add: bootstrap_locked_def)
      qed
    qed
  qed
qed

lemma bootstrap_crash_held:
  assumes held: "token_held P F digest w" and sp: "spent P F"
  shows "token_held P F digest (bootstrap_crash n hash env request dg w)"
proof (cases "read_node_authority w")
  case (Inl e)
  then show ?thesis using held by (simp add: bootstrap_crash_def)
next
  case (Inr a)
  show ?thesis
  proof (cases "consumed_record a dg")
    case (Some c)
    then show ?thesis using Inr held by (simp add: bootstrap_crash_def)
  next
    case None
    then have ne: "digest \<noteq> dg" using consumed_record_held [OF Inr held sp] by force
    obtain p w1 where plan: "plan_bootstrap hash env request dg a w = (p, w1)" by fastforce
    have h1: "token_held P F digest w1" by (rule session_only_held [OF session_only_plan plan held])
    have same: "nw_nodes w1 = nw_nodes w" "nw_fuse w1 = nw_fuse w" using session_onlyD [OF session_only_plan plan] by auto
    have rd: "read_node_authority w1 = Inr a" using read_node_authority_cong [OF same] Inr by simp
    show ?thesis
    proof (cases p)
      case p: (Inl e)
      then show ?thesis using Inr None plan h1 by (simp add: bootstrap_crash_def)
    next
      case p: (Inr pl)
      have "token_held P F digest (crash_writes n dg pl w1)"
      proof (cases "fused_tokens dg (bp_node_id pl) (bp_session_id pl) (bp_at pl) (nw_fuse w1)")
        case (Inl e)
        then show ?thesis using h1 by (simp add: crash_writes_def)
      next
        case f: (Inr l)
        have fh: "fuse_holds F digest (nw_fuse w1) \<Longrightarrow> fuse_holds F digest (partial_commit k l (nw_fuse w1))" for k
          using fuse_keeps [OF f _ ne read_not_refused [OF rd]] partial_commit_cases [of k l "nw_fuse w1"] by blast
        show ?thesis
          by (rule token_held_rewrite [OF h1 sp rd plan_ledger [OF plan [unfolded p] ne]])
            (use f fh partial_commit_cases [of "n - 4" "bp_authority pl" "nw_nodes w1"] in \<open>auto simp: crash_writes_def Let_def\<close>)
      qed
      then show ?thesis using Inr None plan p by (simp add: bootstrap_crash_def)
    qed
  qed
qed

lemma session_only_update: "session_only (heartbeat_update hash env node_id request authorization a)"
  unfolding heartbeat_update_def by (intro session_only_nbind session_only_basic session_only_heartbeat)

lemma heartbeat_held:
  assumes held: "token_held P F digest w" and sp: "spent P F"
  shows "token_held P F digest (snd (heartbeat hash env node_id request authorization w))"
proof (cases "read_node_authority w")
  case (Inl e)
  then show ?thesis using held by (simp add: heartbeat_def)
next
  case (Inr a)
  obtain r w1 where pre: "heartbeat_update hash env node_id request authorization a w = (r, w1)" by fastforce
  have h1: "token_held P F digest w1" by (rule session_only_held [OF session_only_update pre held])
  have rd: "read_node_authority w1 = Inr a"
    using read_node_authority_cong [of w1 w] session_onlyD [OF session_only_update pre] Inr by simp
  show ?thesis
  proof (cases r)
    case (Inl e)
    then show ?thesis using Inr pre h1 by (simp add: heartbeat_def)
  next
    case r: (Inr node)
    obtain g w2 where wr: "write_node_authority (put_node a node_id node) w1 = (g, w2)" by fastforce
    have "token_held P F digest w2" by (rule write_authority_held [OF h1 sp rd _ wr]) simp
    then show ?thesis using Inr pre r wr by (cases g) (simp_all add: heartbeat_def)
  qed
qed

lemma stop_held:
  assumes held: "token_held P F digest w" and sp: "spent P F"
  shows "token_held P F digest (snd (stop_node hash configured node_id authorization w))"
proof (cases "require_admin_access hash configured authorization")
  case (Inr u)
  show ?thesis
  proof (cases "read_node_authority w")
    case rd: (Inr a)
    show ?thesis
    proof (cases "lookup_node a node_id")
      case (Some node)
      let ?d = "put_node a node_id (dset (dset node ''desired_state'' (JStr ''STOPPED'')) ''status'' (JStr ''STOPPING''))"
      obtain g w2 where wr: "write_node_authority ?d w = (g, w2)" by fastforce
      have "token_held P F digest w2" by (rule write_authority_held [OF held sp rd _ wr]) simp
      then show ?thesis using Inr rd Some wr by (simp add: stop_node_def)
    qed (use Inr rd held in \<open>simp add: stop_node_def nbind_def\<close>)
  qed (use Inr held in \<open>simp add: stop_node_def\<close>)
qed (use held in \<open>simp add: stop_node_def\<close>)


lemma ensure_held:
  assumes held: "token_held P F digest w" and sp: "spent P F"
  shows "token_held P F digest (snd (ensure_node_state w))"
proof (cases "payload_file (nw_nodes w) = Missing")
  case True
  have "read_authority (nw_nodes w) = Pristine \<Longrightarrow> payload_file (nw_fuse w) = Missing \<Longrightarrow> was_initialized (nw_fuse w)"
    using held by (auto simp: token_held_def fuse_holds_def read_authority_def split: if_splits)
  then show ?thesis using True held by (auto simp: ensure_node_state_def read_authority_def)
next
  case False
  show ?thesis
  proof (cases "rbind (read_node_json (nw_nodes w)) (\<lambda>authority. rbind (validate_nodes authority) (\<lambda>_. Inr authority))")
    case (Inl e)
    then show ?thesis using False held by (simp add: ensure_node_state_def)
  next
    case rd: (Inr a)
    then have doc: "read_authority (nw_nodes w) = Loaded (JObj a)" by (auto simp: rbind_eq_Inr)
    show ?thesis
    proof (cases "as_obj (dget a ''tokens'') = None")
      case none: True
      then have l: "ledger a digest = None" by (simp add: ledger_def obj_of_def)
      then have fh: "fuse_holds F digest (nw_fuse w)" using held doc by (auto simp: token_held_def doc_holds_def)
      have migrated: "token_held P F digest (snd (write_node_authority (dset a ''tokens'' (JObj ts)) w))"
        if ts: "map_of ts digest = None \<or> (\<exists>r. map_of ts digest = Some (JObj r) \<and> P r)" for ts
      proof -
        obtain g w2 where wr: "write_node_authority (dset a ''tokens'' (JObj ts)) w = (g, w2)" by fastforce
        show ?thesis
          using write_node_authority_cases [OF wr] token_held_mono [OF held, of w2] token_held_write [OF held, of w2] ts fh wr
          by (auto simp: doc_holds_def)
      qed
      have m2: "token_held P F digest (snd (write_node_authority (dset a ''tokens'' (JObj ts)) w))"
        if "rbind (read_node_json (nw_fuse w)) validate_tokens = Inr ts" for ts
        using that fh sp by (intro migrated) (fastforce simp: rbind_eq_Inr fuse_holds_def validate_tokens_Inr ledger_def spent_def)
      show ?thesis
        using False rd none held migrated [of "[]"] m2
        by (cases "rbind (read_node_json (nw_fuse w)) validate_tokens") (simp_all add: ensure_node_state_def)
    next
      case some: False
      have armed: "token_held P F digest (snd (arm_nodes w))"
        using token_held_mono [OF held, of "snd (arm_nodes w)"] doc False
        by (cases "marker (nw_nodes w)")
          (auto simp: arm_nodes_def mark_initialized_def read_authority_def split: file_state.splits)
      obtain ts where "dget a ''tokens'' = JObj ts" using some by auto
      then show ?thesis using False rd held armed by (cases "validate_tokens a") (simp_all add: ensure_node_state_def)
    qed
  qed
qed

lemma run_node_call_held:
  assumes "token_held P F digest w" and "spent P F"
  shows "token_held P F digest (run_node_call deliver hash c w)"
proof (cases c)
  case (CallBootstrap env request tokens authorization)
  show ?thesis unfolding CallBootstrap run_node_call.simps bootstrap_def
    using bootstrap_locked_held [OF assms] assms(1) by (cases "bearer (Some authorization)") simp_all
next
  case (CallSessions fs)
  then show ?thesis using assms(1) by (simp add: token_held_def)
qed (use assms ensure_held bootstrap_crash_held heartbeat_held stop_held in simp_all)

lemma run_node_calls_held:
  "token_held P F digest w \<Longrightarrow> spent P F \<Longrightarrow> token_held P F digest (run_node_calls deliver hash cs w)"
  by (induction cs arbitrary: w) (simp_all add: run_node_call_held)


section \<open>A token makes one Node\<close>

lemma validate_node_list_Inr:
  assumes "validate_node_list h ns = Inr m"
  shows "h \<le> m \<and> (\<forall>p \<in> set ns. node_id_ok (fst p) (snd p) \<and> node_fields_ok (obj_of (snd p)) \<and>
     (\<exists>n. issued_sequence (fst p) = Inr n \<and> n \<le> m))"
  using assms
proof (induction ns arbitrary: h)
  case (Cons p ns)
  then obtain n where "issued_sequence (fst p) = Inr n" "validate_node_list (max h n) ns = Inr m"
    "node_id_ok (fst p) (snd p)" "node_fields_ok (obj_of (snd p))"
    by (auto simp: rbind_eq_Inr)
  then show ?case using Cons.IH [of "max h n"] by auto
qed simp

lemma validated_nodes:
  assumes "validate_node_authority d = Inr ()"
  obtains ns m where "dget d ''nodes'' = JObj ns" "validate_node_list 0 ns = Inr m" "int_from (m + 1) (dget d ''next_node_seq'')"
  using assms by (auto simp: validate_node_authority_def validate_nodes_def rbind_eq_Inr)

lemma lookup_node_valid:
  assumes "validate_node_authority d = Inr ()" and "lookup_node d node_id = Some node"
  shows "dget node ''node_id'' = JStr node_id \<and> node_fields_ok node"
proof -
  obtain ns m where ns: "dget d ''nodes'' = JObj ns" "validate_node_list 0 ns = Inr m" using validated_nodes [OF assms(1)] by blast
  then have "map_of ns node_id = Some (JObj node)" using assms(2) by (auto simp: lookup_node_def dget_def split: option.splits)
  then have "(node_id, JObj node) \<in> set ns" by (rule map_of_SomeD)
  then show ?thesis using validate_node_list_Inr [OF ns(2)] by (fastforce simp: node_id_ok_def)
qed

lemma ledger_valid:
  assumes "validate_node_authority d = Inr ()" and "ledger d digest = Some (JObj r)"
  shows "token_record_ok (as_obj (dget d ''nodes'')) (JObj r)"
proof -
  obtain ts where "dget d ''tokens'' = JObj ts" "\<forall>p \<in> set ts. token_record_ok (as_obj (dget d ''nodes'')) (snd p)"
    using assms(1) by (auto simp: validate_node_authority_def rbind_eq_Inr validate_tokens_Inr)
  then show ?thesis using assms(2) by (fastforce simp: ledger_def dest: map_of_SomeD)
qed

lemma dget_Cons [simp]: "dget ((k, v) # d) k' = (if k = k' then v else dget d k')"
  by (simp add: dget_def)

lemma bootstrap_response_Inr:
  "bootstrap_response deliver env node assigned token at0 = Inr resp \<Longrightarrow>
   dget resp ''node_id'' = dget node ''node_id'' \<and> dget resp ''session_id'' = dget node ''session_id''"
  by (auto simp: bootstrap_response_def rbind_eq_Inr Let_def dget_Cons)

lemma replay_bootstrap_Inr:
  assumes "replay_bootstrap deliver hash env request a c w = (Inr resp, w')" and "as_str (dget c ''node_id'') = Some k"
    and "lookup_node a k = Some node"
  shows "same_attempt hash request c (JObj node) \<and> dget resp ''node_id'' = dget node ''node_id'' \<and>
    dget resp ''session_id'' = dget node ''session_id''"
proof -
  have n: "dget (obj_of (dget a ''nodes'')) k = JObj node" using assms(3) by (simp add: lookup_node_def)
  show ?thesis using assms(1,2) unfolding replay_bootstrap_def Let_def
    by (auto simp: n elim!: nbindE split: if_splits dest!: bootstrap_response_Inr)
qed

lemma read_lookup_node:
  assumes "read_node_authority w = Inr a" and "read_authority (nw_nodes w) = Loaded (JObj d)"
  shows "lookup_node a node_id = lookup_node d node_id"
  using assms(1) by (cases rule: read_node_authority_cases) (use assms(2) in \<open>auto simp: lookup_node_def\<close>)

text \<open>The successful bootstrap that consumed a token.\<close>

lemma bootstrap_fresh:
  assumes rd: "read_node_authority w = Inr a" and none: "consumed_record a dg = None"
    and ok: "bootstrap_locked deliver hash env request dg w = (Inr resp, w1)"
  obtains node_id session_id at0 where
    "token_held (\<lambda>r. r = token_record node_id session_id request at0 (hash (br_node_access_token request))) (\<lambda>_. False) dg w1"
    "dget resp ''node_id'' = JStr node_id" "dget resp ''session_id'' = JStr session_id"
proof -
  have "nbind (plan_bootstrap hash env request dg a) (\<lambda>plan.
      nbind (write_legacy_token_fuse dg (bp_node_id plan) (bp_session_id plan) (bp_at plan)) (\<lambda>_.
      nbind (write_node_authority (bp_authority plan)) (\<lambda>_.
      nlift (bootstrap_response deliver env (bp_node plan) (bp_assigned plan) (br_node_access_token request)
        (JTime (bp_at plan)))))) w = (Inr resp, w1)"
    using ok rd none by (simp add: bootstrap_locked_def)
  then obtain plan w' w2 where plan: "plan_bootstrap hash env request dg a w = (Inr plan, w')"
    and wr: "write_node_authority (bp_authority plan) w2 = (Inr (), w1)"
    and resp: "bootstrap_response deliver env (bp_node plan) (bp_assigned plan) (br_node_access_token request) (JTime (bp_at plan)) = Inr resp"
    by (elim nbindE) auto
  obtain a1 deadline where n: "bp_node plan = new_node (bp_node_id plan) (bp_session_id plan) (bp_assigned plan) request deadline
      (bp_at plan) (hash (br_node_access_token request))"
    and b: "bp_authority plan = dset (put_node a1 (bp_node_id plan) (bp_node plan)) ''tokens''
       (JObj (dset (obj_of (dget a1 ''tokens'')) dg
         (JObj (token_record (bp_node_id plan) (bp_session_id plan) request (bp_at plan) (hash (br_node_access_token request))))))"
    using plan_bootstrap_Inr [OF plan] by metis
  have "read_authority (nw_nodes w1) = Loaded (JObj (bp_authority plan))" using write_node_authority_cases [OF wr] by simp
  then have "token_held (\<lambda>r. r = token_record (bp_node_id plan) (bp_session_id plan) request (bp_at plan)
      (hash (br_node_access_token request))) (\<lambda>_. False) dg w1"
    by (simp add: token_held_def doc_holds_def b)
  then show thesis
    using that bootstrap_response_Inr [OF resp] by (simp add: n new_node_def dget_def)
qed

text \<open>A token that the registry does not know is in neither file.\<close>

lemma unknown_token:
  assumes rd: "read_node_authority w = Inr a" and none: "consumed_record a dg = None"
  shows "read_authority (nw_nodes w) = Loaded (JObj d) \<Longrightarrow> ledger d dg = None"
    and "read_authority (nw_fuse w) = Loaded (JObj l) \<Longrightarrow> ledger l dg = None"
proof -
  have no: "\<not> (\<exists>r. ledger a dg = Some (JObj r) \<and> truthy (dget r ''consumed''))"
    using none by (auto simp: consumed_record_def ledger_def dget_def)
  have spent: "\<exists>r. v = JObj r \<and> truthy (dget r ''consumed'')" if "map_of ts dg = Some v" "validate_tokens e = Inr ts" for v ts e
    using that token_record_ok_consumed by (fastforce simp: validate_tokens_Inr token_record_ok_def split: option.splits dest: map_of_SomeD)
  have doc: "\<exists>ts. validate_tokens e = Inr ts \<and> obj_of (dget e ''tokens'') = ts" if "validate_node_authority e = Inr ()" for e
    using that by (fastforce simp: validate_node_authority_def rbind_eq_Inr validate_tokens_Inr obj_of_def)
  have known: "\<exists>r. v = JObj r \<and> truthy (dget r ''consumed'')" if "validate_node_authority e = Inr ()" "ledger e dg = Some v" for e v
    using doc [OF that(1)] spent that(2) by (auto simp: ledger_def)
  have nodoc: "ledger d dg = None" if "read_authority (nw_nodes w) = Loaded (JObj d)" for d
    using rd
  proof (cases rule: read_node_authority_cases)
    case (1 e)
    then show ?thesis using that no known [of d] by (cases "ledger d dg") auto
  next
    case (2 e l ts)
    show ?thesis
    proof (rule ccontr)
      assume "ledger d dg \<noteq> None"
      moreover have "validate_node_authority d = Inr ()" using 2 that by simp
      ultimately obtain r where "ledger d dg = Some (JObj r)" "truthy (dget r ''consumed'')" using known [of d] by blast
      then show False using no merge_fuse_keeps [of "obj_of (dget d ''tokens'')" dg r ts] 2 that by (auto simp: ledger_def)
    qed
  qed
  then show "read_authority (nw_nodes w) = Loaded (JObj d) \<Longrightarrow> ledger d dg = None" .
  show "ledger l dg = None" if "read_authority (nw_fuse w) = Loaded (JObj l)"
    using rd
  proof (cases rule: read_node_authority_cases)
    case (2 d l' ts)
    have l: "ledger l dg = map_of ts dg" "distinct (map fst ts)" "\<forall>p \<in> set ts. truthy (dget (obj_of (snd p)) ''consumed'')"
      using 2(3,4) that unique_keys_dget [OF read_authority_unique [OF 2(3)]] token_record_ok_consumed
      by (auto simp: validate_tokens_Inr ledger_def)
    have "ledger a dg = ledger l dg"
      using merge_fuse_takes [OF l(2) _ l(3), of "obj_of (dget d ''tokens'')" dg] nodoc [OF 2(1)] 2(5) l(1) by (simp add: ledger_def)
    then show ?thesis using no spent [OF _ 2(4)] l(1) by (cases "map_of ts dg") fastforce+
  qed (use that in simp)
qed

text \<open>The crashed bootstrap leaves the record of its token in the fuse, and none in the document.\<close>

lemma fused_tokens_ledger:
  "fused_tokens dg node_id session_id at0 fs = Inr l \<Longrightarrow>
   \<exists>node_id session_id at0. ledger l dg = Some (JObj (fuse_record node_id session_id at0))"
  by (auto simp: fused_tokens_def rbind_eq_Inr Let_def split: if_splits) blast+

lemma bootstrap_crash_files:
  assumes rd: "read_node_authority w = Inr a" and none: "consumed_record a dg = None" and "n < 7"
    and c: "c = bootstrap_crash n hash env request dg w"
  shows "(read_authority (nw_nodes c) = read_authority (nw_nodes w) \<or> read_authority (nw_nodes c) = Refused) \<and>
    (read_authority (nw_fuse c) = read_authority (nw_fuse w) \<or> read_authority (nw_fuse c) = Refused \<or>
     (\<exists>l node_id session_id at0. read_authority (nw_fuse c) = Loaded (JObj l) \<and>
        ledger l dg = Some (JObj (fuse_record node_id session_id at0))))"
proof -
  obtain p w1 where plan: "plan_bootstrap hash env request dg a w = (p, w1)" by fastforce
  have same: "nw_nodes w1 = nw_nodes w" "nw_fuse w1 = nw_fuse w" using session_onlyD [OF session_only_plan plan] by auto
  show ?thesis
  proof (cases p)
    case (Inl e)
    then show ?thesis using rd none plan same c by (simp add: bootstrap_crash_def)
  next
    case p: (Inr pl)
    then have e: "c = crash_writes n dg pl w1" using rd none plan c by (simp add: bootstrap_crash_def)
    show ?thesis
    proof (cases "fused_tokens dg (bp_node_id pl) (bp_session_id pl) (bp_at pl) (nw_fuse w1)")
      case (Inl x)
      then show ?thesis using same e by (simp add: crash_writes_def)
    next
      case f: (Inr l)
      have "read_authority (nw_nodes c) = read_authority (nw_nodes w) \<or> read_authority (nw_nodes c) = Refused"
        using partial_commit_cases [of "n - 4" "bp_authority pl" "nw_nodes w1"] assms(3) same
        unfolding e crash_writes_def f by (auto simp: Let_def)
      moreover have "nw_fuse c = partial_commit (min n 4) l (nw_fuse w)"
        using same unfolding e crash_writes_def f by (simp add: Let_def)
      ultimately show ?thesis
        using partial_commit_cases [of "min n 4" l "nw_fuse w"] fused_tokens_ledger [OF f] by metis
    qed
  qed
qed

lemma crash_holds:
  assumes rd: "read_node_authority w = Inr a" and none: "consumed_record a dg = None" and "n < 7"
    and "read_authority (nw_fuse (bootstrap_crash n hash env request dg w)) = Loaded (JObj l)" and "ledger l dg \<noteq> None"
  shows "token_held (\<lambda>r. truthy (dget r ''consumed'') \<and> \<not> dhas r ''bootstrap_request_id'')
    (\<lambda>r. truthy (dget r ''consumed'') \<and> \<not> dhas r ''bootstrap_request_id'') dg (bootstrap_crash n hash env request dg w)"
proof -
  define c where "c = bootstrap_crash n hash env request dg w"
  obtain node_id session_id at0 where fuse: "read_authority (nw_fuse c) = Loaded (JObj l)"
    "ledger l dg = Some (JObj (fuse_record node_id session_id at0))"
    using bootstrap_crash_files [OF assms(1-3) c_def] unknown_token(2) [OF rd none, of l] assms(4,5)
    by (auto simp: c_def)
  have doc: "read_authority (nw_nodes c) = Refused \<or> (\<exists>d. read_authority (nw_nodes c) = Loaded (JObj d) \<and> ledger d dg = None)"
    using rd
  proof (cases rule: read_node_authority_cases)
    case (1 d)
    then show ?thesis using bootstrap_crash_files [OF assms(1-3) c_def] unknown_token(1) [OF rd none, of d] by auto
  next
    case (2 d)
    then show ?thesis using bootstrap_crash_files [OF assms(1-3) c_def] unknown_token(1) [OF rd none, of d] by auto
  qed
  have "fuse_holds (\<lambda>r. truthy (dget r ''consumed'') \<and> \<not> dhas r ''bootstrap_request_id'') dg (nw_fuse c)"
    using fuse by (simp add: fuse_holds_def fuse_record_def dget_def dhas_def)
  then show ?thesis using doc unfolding c_def [symmetric] by (auto simp: token_held_def doc_holds_def)
qed

text \<open>C19. A bootstrap token makes one Node: after the bootstrap that consumed a token, and after any calls, crashes
  and Session changes, a bootstrap with this token succeeds only as a retry of the same attempt (same request id,
  server, boot and access token), names the same Node and the same Session, and writes no Node file.\<close>

theorem bootstrap_token_once:
  assumes "read_node_authority w = Inr a" and "consumed_record a dg = None"
    and "bootstrap_locked deliver hash env request dg w = (Inr resp, w1)"
    and "bootstrap_locked deliver' hash env' request' dg (run_node_calls deliver'' hash calls w1) = (Inr resp', w3)"
  shows "dget resp' ''node_id'' = dget resp ''node_id'' \<and> dget resp' ''session_id'' = dget resp ''session_id'' \<and>
    br_bootstrap_request_id request' = br_bootstrap_request_id request \<and>
    br_provider_server_id request' = br_provider_server_id request \<and> br_boot_id request' = br_boot_id request \<and>
    hash (br_node_access_token request') = hash (br_node_access_token request) \<and>
    nw_nodes w3 = nw_nodes (run_node_calls deliver'' hash calls w1)"
proof -
  obtain node_id session_id at0 where
    held: "token_held (\<lambda>r. r = token_record node_id session_id request at0 (hash (br_node_access_token request))) (\<lambda>_. False) dg w1"
    and resp: "dget resp ''node_id'' = JStr node_id" "dget resp ''session_id'' = JStr session_id"
    using bootstrap_fresh [OF assms(1-3)] by blast
  let ?r = "token_record node_id session_id request at0 (hash (br_node_access_token request))"
  let ?w2 = "run_node_calls deliver'' hash calls w1"
  have sp: "spent (\<lambda>r. r = ?r) (\<lambda>_. False)" by (simp add: spent_def token_record_def dget_def)
  have held2: "token_held (\<lambda>r. r = ?r) (\<lambda>_. False) dg ?w2" by (rule run_node_calls_held [OF held sp])
  obtain b where rd: "read_node_authority ?w2 = Inr b" using assms(4) by (auto simp: bootstrap_locked_def split: sum.splits)
  obtain d where d: "read_authority (nw_nodes ?w2) = Loaded (JObj d)" "validate_node_authority d = Inr ()" "ledger d dg = Some (JObj ?r)"
    using read_holds [OF rd held2 sp] by blast
  have c: "consumed_record b dg = Some ?r" using consumed_record_held [OF rd held2 sp] by blast
  obtain ns where ns: "dget d ''nodes'' = JObj ns" using validated_nodes [OF d(2)] by blast
  have "token_record_ok (Some ns) (JObj ?r)" using ledger_valid [OF d(2,3)] ns by simp
  then obtain node where node: "lookup_node d node_id = Some node" "dget node ''session_id'' = JStr session_id"
    using ns by (auto simp: token_record_ok_def token_record_def dget_def dhas_def canonical_fields_def token_node_ok_def lookup_node_def
        obj_of_def nonempty_str_def split: option.splits)
  have look: "lookup_node b node_id = Some node" using node(1) read_lookup_node [OF rd d(1)] by simp
  have rep: "replay_bootstrap deliver' hash env' request' b ?r ?w2 = (Inr resp', w3)"
    using assms(4) rd c by (simp add: bootstrap_locked_def)
  have "same_attempt hash request' ?r (JObj node)" "dget resp' ''node_id'' = dget node ''node_id''"
    "dget resp' ''session_id'' = dget node ''session_id''"
    using replay_bootstrap_Inr [OF rep _ look] by (simp_all add: token_record_def)
  then show ?thesis
    using lookup_node_valid [OF d(2) node(1)] node(2) resp session_onlyD [OF session_only_replay rep]
    by (simp add: same_attempt_def token_record_def)
qed


section \<open>The statements at a concrete registry\<close>

definition demo_hash :: "string \<Rightarrow> string" where
  "demo_hash t = replicate 63 CHR ''0'' @ [if t = ''boot'' then CHR ''1'' else if t = ''node'' then CHR ''2'' else CHR ''3'']"

definition demo_deliver :: "dict option \<Rightarrow> err + string \<times> string option" where
  "demo_deliver assigned = Inr ([], None)"

definition demo_registry :: node_world where
  "demo_registry = snd (ensure_node_state \<lparr>nw_nodes = fresh_authority, nw_fuse = fresh_authority, nw_sessions = fresh_authority\<rparr>)"

definition demo_bootstrap_env :: bootstrap_env where
  "demo_bootstrap_env = \<lparr>be_clock = Fin 5, be_bind_clock = Fin 5, be_uuid = ''s1'', be_deadline_hours = Some (Fin 12),
     be_require_assignment = None, be_provider = ''fake'', be_audio_mode = ''LIVE''\<rparr>"

definition demo_request :: bootstrap_request where
  "demo_request = \<lparr>br_provider_server_id = ''srv'', br_boot_id = ''b1'', br_agent_version = ''1'', br_bootstrap_request_id = ''r1'',
     br_node_access_token = ''node'', br_public_address = None, br_private_address = None\<rparr>"

definition demo_call :: "node_world \<Rightarrow> (err + dict) \<times> node_world" where
  "demo_call = bootstrap_locked demo_deliver demo_hash demo_bootstrap_env demo_request (demo_hash ''boot'')"

definition demo_boot_calls :: "node_call list" where
  "demo_boot_calls = [CallSessions fresh_authority, CallStop {demo_hash ''admin''} ''node-0001'' (Some ''Bearer admin''), CallEnsure]"

definition demo_later_registry :: node_world where
  "demo_later_registry = run_node_calls demo_deliver demo_hash demo_boot_calls (snd (demo_call demo_registry))"

lemma demo_registry_facts:
  "is_ok (read_node_authority demo_registry)"
  "consumed_record (projr (read_node_authority demo_registry)) (demo_hash ''boot'') = None"
  "is_ok (fst (demo_call demo_registry))"
  "is_ok (fst (demo_call demo_later_registry))"
  by code_simp+

theorem bootstrap_token_once_witness:
  "\<exists>resp resp'. fst (demo_call demo_registry) = Inr resp \<and> fst (demo_call demo_later_registry) = Inr resp' \<and>
     dget resp' ''node_id'' = dget resp ''node_id'' \<and> nw_nodes (snd (demo_call demo_later_registry)) = nw_nodes demo_later_registry"
proof -
  obtain a where a: "read_node_authority demo_registry = Inr a" using demo_registry_facts(1) by (auto simp: is_ok_iff)
  obtain resp w1 where c: "demo_call demo_registry = (Inr resp, w1)"
    using demo_registry_facts(3) by (cases "demo_call demo_registry") (auto simp: is_ok_iff)
  obtain resp' w3 where c': "demo_call demo_later_registry = (Inr resp', w3)"
    using demo_registry_facts(4) by (cases "demo_call demo_later_registry") (auto simp: is_ok_iff)
  have "consumed_record a (demo_hash ''boot'') = None" using demo_registry_facts(2) a by simp
  from bootstrap_token_once [OF a this c [unfolded demo_call_def], of demo_deliver demo_bootstrap_env demo_request demo_deliver demo_boot_calls resp' w3]
  show ?thesis using c c' by (simp add: demo_later_registry_def demo_call_def)
qed

definition demo_crash :: node_world where
  "demo_crash = bootstrap_crash 5 demo_hash demo_bootstrap_env demo_request (demo_hash ''boot'') demo_registry"

lemma demo_crash_facts:
  "case read_authority (nw_fuse demo_crash) of Loaded (JObj l) \<Rightarrow> ledger l (demo_hash ''boot'') \<noteq> None | _ \<Rightarrow> False"
  "fst (demo_call demo_crash) = Inl (HTTPException 409)"
  by code_simp+


end
