(* ===== verification/Node_Identity.thy ===== *)
theory Node_Identity
  imports Node_Tokens
begin

text \<open>
  What a Node keeps for its whole life.  Every call of the registry is one step of an abstract registry: it
  changes nothing, creates one Node under an id never issued before, or updates one Node without touching its
  identity; a Node told to stop is never told to run again.
\<close>

section \<open>The identity of a Node\<close>

definition NODE_IDENTITY :: "string list" where
  "NODE_IDENTITY =
     [''node_id'', ''session_id'', ''session_assigned'', ''destination_id'', ''egress_mode'', ''provider_server_id'', ''boot_id'',
      ''absolute_deadline'', ''created_at'', ''access_token_sha256'']"

definition node_keeps :: "dict \<Rightarrow> dict \<Rightarrow> bool" where
  "node_keeps node node' \<longleftrightarrow> (\<forall>f \<in> set NODE_IDENTITY. dget node' f = dget node f) \<and>
     (dget node ''desired_state'' = JStr ''STOPPED'' \<longrightarrow> dget node' ''desired_state'' = JStr ''STOPPED'')"

lemma node_keeps_refl [simp]: "node_keeps node node"
  by (simp add: node_keeps_def)

lemma node_keeps_trans: "node_keeps a b \<Longrightarrow> node_keeps b c \<Longrightarrow> node_keeps a c"
  by (simp add: node_keeps_def)

lemma node_keeps_set:
  "node_keeps node node' \<Longrightarrow> f \<notin> set NODE_IDENTITY \<Longrightarrow> f \<noteq> ''desired_state'' \<Longrightarrow> node_keeps node (dset node' f v)"
  by (auto simp: node_keeps_def)

lemma node_keeps_stop: "node_keeps node node' \<Longrightarrow> node_keeps node (dset node' ''desired_state'' (JStr ''STOPPED''))"
  by (auto simp: node_keeps_def NODE_IDENTITY_def)

lemma node_keeps_pop:
  "node_keeps node node' \<Longrightarrow> f \<notin> set NODE_IDENTITY \<Longrightarrow> f \<noteq> ''desired_state'' \<Longrightarrow> node_keeps node (dpop node' f)"
  by (auto simp: node_keeps_def dget_def)

lemmas node_keeps_intros = node_keeps_refl node_keeps_set node_keeps_stop node_keeps_pop

section \<open>A heartbeat keeps the identity\<close>

definition node_yields :: "dict \<Rightarrow> dict node_act \<Rightarrow> bool" where
  "node_yields node m \<longleftrightarrow> (\<forall>w node' w'. m w = (Inr node', w') \<longrightarrow> node_keeps node node')"

lemma node_yields_basic [intro]:
  "node_keeps node node' \<Longrightarrow> node_yields node (nret node')"
  "node_yields node (nraise e)"
  by (simp_all add: node_yields_def)

lemma node_yields_bind [intro]: "(\<And>x. node_yields node (f x)) \<Longrightarrow> node_yields node (nbind m f)"
  by (auto simp: node_yields_def nbind_Inr)

lemma node_yields_then:
  "node_yields node m \<Longrightarrow> (\<And>node'. node_keeps node node' \<Longrightarrow> node_yields node (f node')) \<Longrightarrow> node_yields node (nbind m f)"
  by (auto simp: node_yields_def nbind_Inr) blast

lemma node_yields_lift:
  "(\<And>x. r = Inr x \<Longrightarrow> node_yields node (f x)) \<Longrightarrow> node_yields node (nbind (nlift r) f)"
  by (auto simp: node_yields_def nbind_Inr)

lemma node_yields_signal:
  "node_keeps node node' \<Longrightarrow> f \<notin> set NODE_IDENTITY \<Longrightarrow> f \<noteq> ''desired_state'' \<Longrightarrow> node_yields node (signal_session env f s node')"
  by (auto simp: node_yields_def signal_session_def ntry_def split: prod.splits sum.splits if_splits
      intro: node_keeps_intros)

lemma push_node_events_keeps: "push_node_events node ts t p = Inr node' \<Longrightarrow> node_keeps node node'"
  by (auto simp: push_node_events_def rbind_eq_Inr NODE_IDENTITY_def intro!: node_keeps_intros)

lemma node_events_keep:
  "node_ingest_events node previous ob t = Inr (ts, node') \<Longrightarrow> node_keeps node node'"
  "node_egress_events node previous ob2 t = Inr (ts, node') \<Longrightarrow> node_keeps node node'"
  "node_relay_events node previous ob3 t = Inr (ts, node') \<Longrightarrow> node_keeps node node'"
  by (auto simp: node_ingest_events_def node_egress_events_def node_relay_events_def Let_def rbind_eq_Inr NODE_IDENTITY_def
      split: if_splits dest!: push_node_events_keeps intro: node_keeps_set)

lemma heartbeat_fields_keep: "node_keeps node (heartbeat_fields request t node)"
  by (auto simp: heartbeat_fields_def Let_def NODE_IDENTITY_def split: option.split intro!: node_keeps_intros)


lemma latch_keeps:
  "latch_pipeline_failure node_id session_id health since t clock node fs = (r, node', fs') \<Longrightarrow> node_keeps node node'"
  by (auto simp: latch_pipeline_failure_def Let_def NODE_IDENTITY_def split: prod.splits sum.splits option.splits if_splits
      intro!: node_keeps_intros)

lemma pipeline_keeps:
  assumes "apply_pipeline_health grace node_id session_id status health t clock node fs = (r, node', fs')"
  shows "node_keeps node node'"
proof -
  let ?m = "\<lambda>n. dset n ''media_failure_reason'' (JStr ''PIPELINE_CRASHED'')"
  let ?u = "if finite_argument (dget node ''media_unhealthy_since'') = Inr (unhealthy_since node t) then node
    else dset node ''media_unhealthy_since'' (JTime (unhealthy_since node t))"
  have u: "node_keeps node (?m ?u)" by (auto simp: NODE_IDENTITY_def intro!: node_keeps_intros)
  consider "node' = node" | "node' = dpop (dpop node ''media_unhealthy_since'') ''media_failure_reason''" | "node' = ?m ?u"
    | "latch_pipeline_failure node_id session_id health (unhealthy_since node t) t clock (?m ?u) fs = (r, node', fs')"
    using assms unfolding apply_pipeline_health_def Let_def by (simp split: if_splits)
  then show ?thesis
  proof cases
    case 2
    then show ?thesis by (auto simp: NODE_IDENTITY_def intro!: node_keeps_intros)
  next
    case 4
    then show ?thesis using node_keeps_trans [OF u latch_keeps] by blast
  qed (use u in simp_all)
qed

lemma heartbeat_ingest_keeps: "node_keeps node node' \<Longrightarrow> node_yields node (heartbeat_ingest env request node_id t node')"
  unfolding heartbeat_ingest_def
  by (auto simp: Let_def NODE_IDENTITY_def split: option.split intro!: node_yields_lift node_yields_signal node_yields_basic node_keeps_set
      dest!: node_events_keep(1) elim: node_keeps_trans)

lemma heartbeat_egress_keeps: "node_keeps node node' \<Longrightarrow> node_yields node (heartbeat_egress env request node_id t node')"
  unfolding heartbeat_egress_def
  by (auto simp: Let_def NODE_IDENTITY_def split: option.split intro!: node_yields_lift node_yields_signal node_yields_basic node_keeps_set
      dest!: node_events_keep(2) elim: node_keeps_trans)

lemma heartbeat_relay_keeps: "node_keeps node node' \<Longrightarrow> node_yields node (heartbeat_relay env request node_id t node')"
  unfolding heartbeat_relay_def
  by (auto simp: Let_def NODE_IDENTITY_def split: option.split intro!: node_yields_lift node_yields_signal node_yields_basic node_keeps_set
      dest!: node_events_keep(3) elim: node_keeps_trans)

lemma heartbeat_pipeline_keeps: "node_keeps node node' \<Longrightarrow> node_yields node (heartbeat_pipeline env request node_id t node')"
  unfolding heartbeat_pipeline_def
  by (auto simp: node_yields_def NODE_IDENTITY_def split: prod.splits sum.splits if_splits
      intro!: node_keeps_set node_keeps_pop elim: node_keeps_trans dest!: pipeline_keeps)

lemma heartbeat_node_keeps: "node_yields node (heartbeat_node env request node_id t node)"
  unfolding heartbeat_node_def Let_def
  by (intro node_yields_bind node_yields_then heartbeat_ingest_keeps heartbeat_egress_keeps heartbeat_relay_keeps heartbeat_pipeline_keeps
      heartbeat_fields_keep) assumption+

lemma heartbeat_update_Inr:
  assumes "heartbeat_update hash env node_id request authorization a w = (Inr node', w')"
  obtains node where "lookup_node a node_id = Some node" "node_keeps node node'" "require_node_access hash node authorization = Inr ()"
proof -
  obtain node t w1 where "lookup_node a node_id = Some node" "require_node_access hash node authorization = Inr ()"
    "heartbeat_node env request node_id t node w1 = (Inr node', w')"
    using assms unfolding heartbeat_update_def by (elim nbindE) auto
  moreover have "node_keeps node node'" using heartbeat_node_keeps [unfolded node_yields_def] calculation(3) by blast
  ultimately show thesis using that by blast
qed

section \<open>Fresh ids\<close>

lemma decimal_value_zeros [simp]: "decimal_value (replicate k CHR ''0'' @ s) = decimal_value s"
proof -
  have "foldl (\<lambda>n c. 10 * n + (of_char c - 48)) 0 (replicate k CHR ''0'') = (0 :: nat)" by (induction k) auto
  then show ?thesis by (simp add: decimal_value_def)
qed

lemma issued_sequence_issue:
  assumes "issue_node_id a = Inr (node_id, a1)" and "int_from 1 (dget a ''next_node_seq'')"
  shows "\<exists>n. dget a ''next_node_seq'' = JInt n \<and> issued_sequence node_id = Inr n \<and> a1 = dset a ''next_node_seq'' (JInt (n + 1))"
proof -
  obtain n where n: "dget a ''next_node_seq'' = JInt n" "1 \<le> n" using assms(2) by (auto simp: int_from_def split: option.splits)
  then have "dget_or a ''next_node_seq'' (JInt 1) = JInt n" by (auto simp: dget_def dget_or_def split: option.splits)
  then obtain ds where ds: "int_repr n = Some ds" "node_id = ''node-'' @ replicate (4 - length ds) CHR ''0'' @ ds"
    "a1 = dset a ''next_node_seq'' (JInt (n + 1))"
    using assms(1) by (auto simp: issue_node_id_def rbind_eq_Inr)
  then have "ds = nat_digits (nat n)" "length ds \<le> MAX_STR_DIGITS" using n(2) by (auto simp: int_repr_def Let_def split: if_splits)
  moreover have "list_all is_decimal (replicate (4 - length ds) CHR ''0'')" by (simp add: list_all_iff is_decimal_def)
  ultimately show ?thesis
    using n nat_digits_decimal [of "nat n"] ds(2,3) by (auto simp: issued_sequence_def Let_def MAX_STR_DIGITS_def)
qed

lemma issued_below:
  assumes "validate_node_authority d = Inr ()" and "lookup_node d node_id = Some node" and "issued_sequence node_id = Inr n"
    and "dget d ''next_node_seq'' = JInt next"
  shows "n < next"
proof -
  obtain ns m where ns: "dget d ''nodes'' = JObj ns" "validate_node_list 0 ns = Inr m" "int_from (m + 1) (dget d ''next_node_seq'')"
    using validated_nodes [OF assms(1)] by blast
  then have "map_of ns node_id = Some (JObj node)" using assms(2) by (auto simp: lookup_node_def dget_def split: option.splits)
  then have "(node_id, JObj node) \<in> set ns" by (rule map_of_SomeD)
  then show ?thesis using validate_node_list_Inr [OF ns(2)] ns(3) assms(3,4) by (fastforce simp: int_from_def)
qed


section \<open>One step of the registry\<close>

text \<open>How the Nodes and the sequence of a document change.\<close>

inductive registry_step :: "dict \<Rightarrow> dict \<Rightarrow> bool" where
  same: "lookup_node d' = lookup_node d \<Longrightarrow> dget d' ''next_node_seq'' = dget d ''next_node_seq'' \<Longrightarrow> registry_step d d'"
| create: "dget d ''next_node_seq'' = JInt n \<Longrightarrow> issued_sequence node_id = Inr n \<Longrightarrow> lookup_node d node_id = None \<Longrightarrow>
    dget node ''desired_state'' = JStr ''RUNNING'' \<Longrightarrow>
    lookup_node d' = (lookup_node d)(node_id \<mapsto> node) \<Longrightarrow> dget d' ''next_node_seq'' = JInt (n + 1) \<Longrightarrow> registry_step d d'"
| update: "lookup_node d node_id = Some node \<Longrightarrow> node_keeps node node' \<Longrightarrow>
    lookup_node d' = (lookup_node d)(node_id \<mapsto> node') \<Longrightarrow>
    dget d' ''next_node_seq'' = dget d ''next_node_seq'' \<Longrightarrow> registry_step d d'"

inductive_cases registry_stepE: "registry_step d d'"

text \<open>What a call does to the document: nothing, it becomes unreadable, it is created empty, or it takes one step.\<close>

definition document_step :: "node_world \<Rightarrow> node_world \<Rightarrow> bool" where
  "document_step w w' \<longleftrightarrow>
     (read_authority (nw_nodes w') = read_authority (nw_nodes w) \<or> read_authority (nw_nodes w') = Refused \<or>
      read_authority (nw_nodes w) = Pristine \<and> read_authority (nw_nodes w') = Loaded (JObj default_nodes) \<or>
      (\<exists>d d'. read_authority (nw_nodes w) = Loaded (JObj d) \<and> read_authority (nw_nodes w') = Loaded (JObj d') \<and> registry_step d d'))"

lemma document_step_same: "nw_nodes w' = nw_nodes w \<Longrightarrow> document_step w w'"
  by (simp add: document_step_def)

lemma lookup_put_node: "lookup_node (put_node a node_id node) = (lookup_node a)(node_id \<mapsto> node)"
  by (rule ext) (simp add: lookup_node_def put_node_def obj_of_def)

lemma lookup_node_dset [simp]: "k \<noteq> ''nodes'' \<Longrightarrow> lookup_node (dset d k v) = lookup_node d"
  by (rule ext) (simp add: lookup_node_def)

lemma dget_put_node [simp]: "k \<noteq> ''nodes'' \<Longrightarrow> dget (put_node a node_id node) k = dget a k"
  by (simp add: put_node_def)

text \<open>A read agrees with the document on all but the ledger.\<close>

lemma read_document:
  assumes "read_node_authority w = Inr a"
  obtains d where "read_authority (nw_nodes w) = Loaded (JObj d)" "validate_node_authority d = Inr ()"
    "lookup_node a = lookup_node d" "dget a ''next_node_seq'' = dget d ''next_node_seq''"
  using assms by (cases rule: read_node_authority_cases) auto

lemma read_document_of:
  assumes "read_node_authority w = Inr a" and "read_authority (nw_nodes w) = Loaded (JObj d)"
  shows "validate_node_authority d = Inr () \<and> lookup_node a = lookup_node d \<and> dget a ''next_node_seq'' = dget d ''next_node_seq''"
  by (rule read_document [OF assms(1)]) (use assms(2) in simp)

lemma valid_next_seq: "validate_node_authority d = Inr () \<Longrightarrow> int_from 1 (dget d ''next_node_seq'')"
  by (auto simp: validate_node_authority_def validate_nodes_def rbind_eq_Inr)

lemma bootstrap_registry_step:
  assumes "read_node_authority w = Inr a" and "plan_bootstrap hash env request dg a w = (Inr plan, w')"
    and "read_authority (nw_nodes w) = Loaded (JObj d)"
  shows "registry_step d (bp_authority plan)"
proof -
  obtain a1 deadline where a1: "issue_node_id a = Inr (bp_node_id plan, a1)"
    and n: "bp_node plan = new_node (bp_node_id plan) (bp_session_id plan) (bp_assigned plan) request deadline (bp_at plan)
       (hash (br_node_access_token request))"
    and b: "bp_authority plan = dset (put_node a1 (bp_node_id plan) (bp_node plan)) ''tokens''
       (JObj (dset (obj_of (dget a1 ''tokens'')) dg
         (JObj (token_record (bp_node_id plan) (bp_session_id plan) request (bp_at plan) (hash (br_node_access_token request))))))"
    using plan_bootstrap_Inr [OF assms(2)] by metis
  have d: "validate_node_authority d = Inr ()" "lookup_node a = lookup_node d" "dget a ''next_node_seq'' = dget d ''next_node_seq''"
    using read_document_of [OF assms(1,3)] by simp_all
  obtain k where k: "dget d ''next_node_seq'' = JInt k" "issued_sequence (bp_node_id plan) = Inr k" "a1 = dset a ''next_node_seq'' (JInt (k + 1))"
    using issued_sequence_issue [OF a1] valid_next_seq [OF d(1)] d(3) by auto
  have "lookup_node d (bp_node_id plan) = None"
    using issued_below [OF d(1) _ k(2,1)] by (cases "lookup_node d (bp_node_id plan)") auto
  moreover have "dget (bp_node plan) ''desired_state'' = JStr ''RUNNING''" by (simp add: n new_node_def dget_def)
  ultimately show ?thesis by (rule registry_step.create [OF k(1,2)]) (simp_all add: b k(3) lookup_put_node d(2))
qed

lemma put_registry_step:
  assumes "read_node_authority w = Inr a" and "read_authority (nw_nodes w) = Loaded (JObj d)"
    and "lookup_node a node_id = Some node" and "node_keeps node node'"
  shows "registry_step d (put_node a node_id node')"
proof -
  have "lookup_node a = lookup_node d" "dget a ''next_node_seq'' = dget d ''next_node_seq''"
    using read_document_of [OF assms(1,2)] by simp_all
  then show ?thesis using assms(3,4) by (intro registry_step.update) (simp_all add: lookup_put_node)
qed

lemma write_document_step:
  assumes "write_node_authority d' w1 = (r, w')" and "nw_nodes w1 = nw_nodes w"
    and "\<And>d. read_authority (nw_nodes w) = Loaded (JObj d) \<Longrightarrow> registry_step d d'"
    and "read_node_authority w = Inr a"
  shows "document_step w w'"
proof -
  obtain d where "read_authority (nw_nodes w) = Loaded (JObj d)" by (rule read_document [OF assms(4)])
  then show ?thesis using write_node_authority_cases [OF assms(1)] assms(2,3) by (auto simp: document_step_def)
qed

lemma bootstrap_document_step: "document_step w (snd (bootstrap_locked deliver hash env request dg w))"
proof (cases "read_node_authority w")
  case (Inr a)
  show ?thesis
  proof (cases "consumed_record a dg")
    case (Some c)
    obtain r w' where "replay_bootstrap deliver hash env request a c w = (r, w')" by fastforce
    then show ?thesis using Inr Some session_onlyD [OF session_only_replay]
      by (auto simp: bootstrap_locked_def intro: document_step_same)
  next
    case None
    obtain p w1 where plan: "plan_bootstrap hash env request dg a w = (p, w1)" by fastforce
    have same: "nw_nodes w1 = nw_nodes w" using session_onlyD [OF session_only_plan plan] by auto
    show ?thesis
    proof (cases p)
      case p: (Inr pl)
      obtain f w2 where fuse: "write_legacy_token_fuse dg (bp_node_id pl) (bp_session_id pl) (bp_at pl) w1 = (f, w2)" by fastforce
      have n2: "nw_nodes w2 = nw_nodes w" using write_fuse_cases [OF fuse] same by simp
      obtain g w3 where wr: "write_node_authority (bp_authority pl) w2 = (g, w3)" by fastforce
      have "document_step w w3"
        by (rule write_document_step [OF wr n2 bootstrap_registry_step [OF Inr plan [unfolded p]] Inr])
      then show ?thesis using Inr None plan p fuse wr n2
        by (cases f; cases g) (simp_all add: bootstrap_locked_def document_step_same)
    qed (use Inr None plan same in \<open>simp add: bootstrap_locked_def document_step_same\<close>)
  qed
qed (simp add: bootstrap_locked_def document_step_same)

lemma crash_document_step: "document_step w (bootstrap_crash n hash env request dg w)"
proof (cases "read_node_authority w")
  case (Inr a)
  show ?thesis
  proof (cases "consumed_record a dg")
    case None
    obtain p w1 where plan: "plan_bootstrap hash env request dg a w = (p, w1)" by fastforce
    have same: "nw_nodes w1 = nw_nodes w" using session_onlyD [OF session_only_plan plan] by auto
    show ?thesis
    proof (cases p)
      case p: (Inr pl)
      obtain d where "read_authority (nw_nodes w) = Loaded (JObj d)" by (rule read_document [OF Inr])
      then have "document_step w (crash_writes n dg pl w1)"
        using partial_commit_cases [of "n - 4" "bp_authority pl" "nw_nodes w"] same
          bootstrap_registry_step [OF Inr plan [unfolded p], of d]
        unfolding document_step_def crash_writes_def
        by (cases "fused_tokens dg (bp_node_id pl) (bp_session_id pl) (bp_at pl) (nw_fuse w1)") (auto simp: Let_def)
      then show ?thesis using Inr None plan p by (simp add: bootstrap_crash_def)
    qed (use Inr None plan same in \<open>simp add: bootstrap_crash_def document_step_same\<close>)
  qed (use Inr in \<open>simp add: bootstrap_crash_def document_step_same\<close>)
qed (simp add: bootstrap_crash_def document_step_same)

lemma heartbeat_document_step: "document_step w (snd (heartbeat hash env node_id request authorization w))"
proof (cases "read_node_authority w")
  case (Inr a)
  obtain r w1 where pre: "heartbeat_update hash env node_id request authorization a w = (r, w1)" by fastforce
  have same: "nw_nodes w1 = nw_nodes w" using session_onlyD [OF session_only_update pre] by simp
  show ?thesis
  proof (cases r)
    case r: (Inr node')
    obtain node where node: "lookup_node a node_id = Some node" "node_keeps node node'"
      using heartbeat_update_Inr pre r by metis
    obtain g w2 where wr: "write_node_authority (put_node a node_id node') w1 = (g, w2)" by fastforce
    have "document_step w w2"
      by (rule write_document_step [OF wr same put_registry_step [OF Inr _ node] Inr])
    then show ?thesis using Inr pre r wr by (cases g) (simp_all add: heartbeat_def)
  qed (use Inr pre same in \<open>simp add: heartbeat_def document_step_same\<close>)
qed (simp add: heartbeat_def document_step_same)

lemma stop_document_step: "document_step w (snd (stop_node hash configured node_id authorization w))"
proof (cases "require_admin_access hash configured authorization")
  case (Inr u)
  show ?thesis
  proof (cases "read_node_authority w")
    case rd: (Inr a)
    show ?thesis
    proof (cases "lookup_node a node_id")
      case (Some node)
      let ?n = "dset (dset node ''desired_state'' (JStr ''STOPPED'')) ''status'' (JStr ''STOPPING'')"
      obtain g w2 where wr: "write_node_authority (put_node a node_id ?n) w = (g, w2)" by fastforce
      have k: "node_keeps node ?n" by (auto simp: NODE_IDENTITY_def intro!: node_keeps_intros)
      have "document_step w w2" by (rule write_document_step [OF wr refl put_registry_step [OF rd _ Some k] rd])
      then show ?thesis using Inr rd Some wr by (simp add: stop_node_def)
    qed (use Inr rd in \<open>simp add: stop_node_def nbind_def document_step_same\<close>)
  qed (use Inr in \<open>simp add: stop_node_def document_step_same\<close>)
qed (simp add: stop_node_def document_step_same)


lemma ensure_document_step: "document_step w (snd (ensure_node_state w))"
proof (cases "payload_file (nw_nodes w) = Missing")
  case True
  obtain g w2 where wr: "write_node_authority default_nodes w = (g, w2)" by fastforce
  show ?thesis
  proof (cases "was_initialized (nw_nodes w)")
    case False
    then have "read_authority (nw_nodes w) = Pristine" using True by (simp add: read_authority_def)
    then show ?thesis using True False wr write_node_authority_cases [OF wr] by (auto simp: ensure_node_state_def document_step_def)
  qed (use True in \<open>simp add: ensure_node_state_def document_step_same\<close>)
next
  case present: False
  show ?thesis
  proof (cases "rbind (read_node_json (nw_nodes w)) (\<lambda>authority. rbind (validate_nodes authority) (\<lambda>_. Inr authority))")
    case (Inl e)
    then show ?thesis using present by (simp add: ensure_node_state_def document_step_same)
  next
    case (Inr a)
    then have doc: "read_authority (nw_nodes w) = Loaded (JObj a)" by (auto simp: rbind_eq_Inr)
    have wr: "document_step w (snd (write_node_authority (dset a ''tokens'' v) w))" for v
    proof -
      obtain g w2 where "write_node_authority (dset a ''tokens'' v) w = (g, w2)" by fastforce
      moreover have "registry_step a (dset a ''tokens'' v)" by (rule registry_step.same) simp_all
      ultimately show ?thesis using write_node_authority_cases doc by (fastforce simp: document_step_def)
    qed
    have armed: "document_step w (snd (arm_nodes w))"
      using doc present
      by (cases "marker (nw_nodes w)")
        (auto simp: arm_nodes_def document_step_def mark_initialized_def read_authority_def split: file_state.splits)
    show ?thesis
    proof (cases "as_obj (dget a ''tokens'') = None")
      case True
      then show ?thesis using present Inr wr
        by (cases "rbind (read_node_json (nw_fuse w)) validate_tokens") (simp_all add: ensure_node_state_def document_step_same)
    next
      case False
      then show ?thesis using present Inr armed
        by (cases "validate_tokens a") (auto simp: ensure_node_state_def document_step_same)
    qed
  qed
qed

lemma run_node_call_document_step: "document_step w (run_node_call deliver hash c w)"
proof (cases c)
  case (CallBootstrap env request tokens authorization)
  show ?thesis unfolding CallBootstrap run_node_call.simps bootstrap_def
    using bootstrap_document_step by (cases "bearer (Some authorization)") (simp_all add: document_step_same)
qed (simp_all add: ensure_document_step crash_document_step heartbeat_document_step stop_document_step document_step_same)

section \<open>The life of a Node\<close>

lemma run_node_calls_registry:
  assumes "read_authority (nw_nodes w) = Refused \<or> (\<exists>d'. read_authority (nw_nodes w) = Loaded (JObj d') \<and> registry_step\<^sup>*\<^sup>* d d')"
  shows "read_authority (nw_nodes (run_node_calls deliver hash calls w)) = Refused \<or>
    (\<exists>d'. read_authority (nw_nodes (run_node_calls deliver hash calls w)) = Loaded (JObj d') \<and> registry_step\<^sup>*\<^sup>* d d')"
  using assms
proof (induction calls arbitrary: w)
  case (Cons c calls)
  have "document_step w (run_node_call deliver hash c w)" by (rule run_node_call_document_step)
  then have "read_authority (nw_nodes (run_node_call deliver hash c w)) = Refused \<or>
    (\<exists>d'. read_authority (nw_nodes (run_node_call deliver hash c w)) = Loaded (JObj d') \<and> registry_step\<^sup>*\<^sup>* d d')"
    using Cons.prems unfolding document_step_def by (auto intro: rtranclp.rtrancl_into_rtrancl)
  then show ?case using Cons.IH by simp
qed simp

lemma registry_keeps_node:
  "registry_step\<^sup>*\<^sup>* d d' \<Longrightarrow> lookup_node d node_id = Some node \<Longrightarrow>
   \<exists>node'. lookup_node d' node_id = Some node' \<and> node_keeps node node'"
proof (induction rule: rtranclp_induct)
  case (step b c)
  obtain n where n: "lookup_node b node_id = Some n" "node_keeps node n" using step.IH step.prems by blast
  from step.hyps(2) show ?case
  proof cases
    case (update k old new)
    then show ?thesis using n node_keeps_trans by (cases "k = node_id") auto
  qed (use n in \<open>auto simp: fun_upd_def\<close>)
qed auto

lemma registry_never_reissues:
  "registry_step\<^sup>*\<^sup>* d d' \<Longrightarrow> lookup_node d node_id = None \<Longrightarrow> issued_sequence node_id = Inr n \<Longrightarrow>
   dget d ''next_node_seq'' = JInt s \<Longrightarrow> n < s \<Longrightarrow>
   lookup_node d' node_id = None \<and> (\<exists>s'. dget d' ''next_node_seq'' = JInt s' \<and> s \<le> s')"
proof (induction rule: rtranclp_induct)
  case (step b c)
  obtain s' where b: "lookup_node b node_id = None" "dget b ''next_node_seq'' = JInt s'" "s \<le> s'" using step by blast
  from step.hyps(2) show ?case by cases (use b step.prems in auto)
qed auto

text \<open>C21. Over any sequence of calls, crashes and Session changes a Node of the registry never vanishes and keeps
  its id, Session, destination, egress mode, server, boot, deadline and access token; a Node that was told to
  stop stays told to stop.\<close>

theorem node_identity_stable:
  assumes "read_authority (nw_nodes w) = Loaded (JObj d)" and "lookup_node d node_id = Some node"
    and "read_node_authority (run_node_calls deliver hash calls w) = Inr a"
  shows "\<exists>node'. lookup_node a node_id = Some node' \<and> (\<forall>f \<in> set NODE_IDENTITY. dget node' f = dget node f) \<and>
    (dget node ''desired_state'' = JStr ''STOPPED'' \<longrightarrow> dget node' ''desired_state'' = JStr ''STOPPED'')"
proof -
  obtain d' where "read_authority (nw_nodes (run_node_calls deliver hash calls w)) = Loaded (JObj d')" "lookup_node a = lookup_node d'"
    by (rule read_document [OF assms(3)])
  moreover have "read_authority (nw_nodes w) = Refused \<or> (\<exists>d'. read_authority (nw_nodes w) = Loaded (JObj d') \<and> registry_step\<^sup>*\<^sup>* d d')"
    using assms(1) by auto
  ultimately show ?thesis
    using run_node_calls_registry [of w d deliver hash calls] registry_keeps_node [OF _ assms(2)] by (auto simp: node_keeps_def)
qed

text \<open>A Node id is issued once: an id below the sequence of the registry that no Node bears is never given to a
  Node later, whatever happens in between.\<close>

theorem node_ids_issued_once:
  assumes "read_authority (nw_nodes w) = Loaded (JObj d)" and "lookup_node d node_id = None"
    and "issued_sequence node_id = Inr n" and "dget d ''next_node_seq'' = JInt s" and "n < s"
    and "read_node_authority (run_node_calls deliver hash calls w) = Inr a"
  shows "lookup_node a node_id = None"
proof -
  obtain d' where "read_authority (nw_nodes (run_node_calls deliver hash calls w)) = Loaded (JObj d')" "lookup_node a = lookup_node d'"
    by (rule read_document [OF assms(6)])
  moreover have "read_authority (nw_nodes w) = Refused \<or> (\<exists>d'. read_authority (nw_nodes w) = Loaded (JObj d') \<and> registry_step\<^sup>*\<^sup>* d d')"
    using assms(1) by auto
  ultimately show ?thesis
    using run_node_calls_registry [of w d deliver hash calls] registry_never_reissues [OF _ assms(2-5)] by auto
qed

text \<open>Only the holder of a Node's token heartbeats for it: a heartbeat that is answered, or that changes anything
  in the Node files or the Sessions, named a Node of the registry and carried the token whose digest it holds.\<close>

theorem heartbeat_needs_the_node_token:
  assumes "heartbeat hash env node_id request authorization w = (r, w')" and "w' \<noteq> w \<or> is_ok r"
  shows "\<exists>a node token. read_node_authority w = Inr a \<and> lookup_node a node_id = Some node \<and>
    bearer authorization = Inr token \<and> dget node ''access_token_sha256'' = JStr (hash token)"
proof -
  obtain a where a: "read_node_authority w = Inr a" using assms by (cases "read_node_authority w") (auto simp: heartbeat_def)
  obtain node where node: "lookup_node a node_id = Some node"
    using assms a by (cases "lookup_node a node_id") (auto simp: heartbeat_def heartbeat_update_def)
  obtain u where "require_node_access hash node authorization = Inr u"
    using assms a node by (cases "require_node_access hash node authorization") (auto simp: heartbeat_def heartbeat_update_def)
  then have "\<exists>token. bearer authorization = Inr token \<and> dget node ''access_token_sha256'' = JStr (hash token)"
    by (auto simp: require_node_access_def rbind_eq_Inr Let_def split: option.splits)
  then show ?thesis using a node by blast
qed

section \<open>The statements at a concrete registry\<close>

definition demo_document :: dict where
  "demo_document = [(''nodes'', JObj [(''node-0001'', JObj (new_node ''node-0001'' ''s1'' None demo_request 43205 5 (demo_hash ''node'')))]),
     (''next_node_seq'', JInt 2), (''tokens'', JObj [])]"

definition demo_node_world :: node_world where
  "demo_node_world = snd (write_node_authority demo_document
     \<lparr>nw_nodes = fresh_authority, nw_fuse = fresh_authority, nw_sessions = fresh_authority\<rparr>)"

definition demo_heartbeat_env :: heartbeat_env where
  "demo_heartbeat_env = \<lparr>he_clock = Fin 6, he_relay_clock = Fin 6, he_update_clock = Fin 6, he_transition_clock = Fin 6,
     he_recovery_stable_seconds = 10, he_grace = Fin 30, he_text = (\<lambda>_. [])\<rparr>"

definition demo_heartbeat_request :: heartbeat_request where
  "demo_heartbeat_request = \<lparr>hb_status = ''READY'', hb_media_health = ''running'', hb_active_publisher = False,
     hb_egress_connected = False, hb_cpu_percent = JNull, hb_memory_mb = JNull, hb_software_version = None,
     hb_deadline_remaining_seconds = JNull, hb_ingest = None, hb_egress = None, hb_relay_client = None\<rparr>"

definition demo_node_calls :: "node_call list" where
  "demo_node_calls = [CallSessions fresh_authority,
     CallHeartbeat demo_heartbeat_env ''node-0001'' demo_heartbeat_request (Some ''Bearer node'')]"

lemma demo_document_facts:
  "read_authority (nw_nodes demo_node_world) = Loaded (JObj demo_document)"
  "lookup_node demo_document ''node-0001'' \<noteq> None" "lookup_node demo_document ''node-0000'' = None"
  "dget demo_document ''next_node_seq'' = JInt 2" "issued_sequence ''node-0000'' = Inr 0"
  by code_simp+

lemma demo_heartbeat_facts:
  "is_ok (read_node_authority (run_node_calls demo_deliver demo_hash demo_node_calls demo_node_world))"
  "is_ok (fst (heartbeat demo_hash demo_heartbeat_env ''node-0001'' demo_heartbeat_request (Some ''Bearer node'') demo_node_world))"
  by code_simp+

theorem node_identity_stable_witness:
  "\<exists>a node node'. read_node_authority (run_node_calls demo_deliver demo_hash demo_node_calls demo_node_world) = Inr a \<and>
     lookup_node demo_document ''node-0001'' = Some node \<and> lookup_node a ''node-0001'' = Some node' \<and>
     dget node' ''access_token_sha256'' = dget node ''access_token_sha256''"
proof -
  obtain a where a: "read_node_authority (run_node_calls demo_deliver demo_hash demo_node_calls demo_node_world) = Inr a"
    using demo_heartbeat_facts(1) by (auto simp: is_ok_iff)
  obtain node where n: "lookup_node demo_document ''node-0001'' = Some node" using demo_document_facts(2) by auto
  show ?thesis using node_identity_stable [OF demo_document_facts(1) n a] a n by (auto simp: NODE_IDENTITY_def)
qed

theorem node_ids_issued_once_witness:
  "\<exists>a. read_node_authority (run_node_calls demo_deliver demo_hash demo_node_calls demo_node_world) = Inr a \<and>
     lookup_node a ''node-0000'' = None"
proof -
  obtain a where a: "read_node_authority (run_node_calls demo_deliver demo_hash demo_node_calls demo_node_world) = Inr a"
    using demo_heartbeat_facts(1) by (auto simp: is_ok_iff)
  show ?thesis using node_ids_issued_once [OF demo_document_facts(1,3,5,4) _ a] a by simp
qed

theorem heartbeat_needs_the_node_token_witness:
  "\<exists>a node token. read_node_authority demo_node_world = Inr a \<and> lookup_node a ''node-0001'' = Some node \<and>
     bearer (Some ''Bearer node'') = Inr token \<and> dget node ''access_token_sha256'' = JStr (demo_hash token)"
proof -
  let ?h = "heartbeat demo_hash demo_heartbeat_env ''node-0001'' demo_heartbeat_request (Some ''Bearer node'') demo_node_world"
  show ?thesis by (rule heartbeat_needs_the_node_token [of _ _ _ _ _ _ "fst ?h" "snd ?h"]) (use demo_heartbeat_facts(2) in simp_all)
qed

end
