(* ===== verification/Node_Health.thy ===== *)
theory Node_Health
  imports Node_Registry Session_Stop Session_Media
begin

text \<open>
  The health of the media pipeline over time (\<open>pipeline_health.py\<close>): the grace that a pipeline has before its
  failure counts.
\<close>

section \<open>A run of observations\<close>

record health_observation =
  ho_status :: string
  ho_health :: string
  ho_at :: rat
  ho_clock :: pyfloat
  ho_sessions :: authority

definition ho_running :: "health_observation \<Rightarrow> bool" where
  "ho_running ob \<longleftrightarrow> py_lower (py_strip (ho_health ob)) = ''running''"

definition ho_failed :: "health_observation \<Rightarrow> bool" where
  "ho_failed ob \<longleftrightarrow> py_upper (py_strip (ho_status ob)) = ''FAILED''"

definition ho_fatal :: "health_observation \<Rightarrow> bool" where
  "ho_fatal ob \<longleftrightarrow> ho_failed ob \<or> py_lower (py_strip (ho_health ob)) \<in> FATAL_MEDIA_HEALTH"

definition observe_health :: "pyfloat \<Rightarrow> string \<Rightarrow> string \<Rightarrow> health_observation \<Rightarrow> dict \<Rightarrow> (err + bool) \<times> dict" where
  "observe_health grace node_id session_id ob node =
     (case apply_pipeline_health grace node_id session_id (ho_status ob) (ho_health ob) (ho_at ob) (ho_clock ob) node (ho_sessions ob) of
        (r, node, fs) \<Rightarrow> (r, node))"

primrec observe_healths :: "pyfloat \<Rightarrow> string \<Rightarrow> string \<Rightarrow> health_observation list \<Rightarrow> dict \<Rightarrow> dict" where
  "observe_healths grace node_id session_id [] node = node"
| "observe_healths grace node_id session_id (ob # obs) node =
     observe_healths grace node_id session_id obs (snd (observe_health grace node_id session_id ob node))"

section \<open>What the mark of the Node means\<close>

text \<open>The mark is the time of a fatal observation of the past after which no observation found the pipeline running.\<close>

definition marked_since :: "health_observation list \<Rightarrow> dict \<Rightarrow> bool" where
  "marked_since past node \<longleftrightarrow>
     (\<forall>t. finite_argument (dget node ''media_unhealthy_since'') = Inr t \<longrightarrow>
        (\<exists>before ob after. past = before @ ob # after \<and> ho_at ob = t \<and> ho_fatal ob \<and> \<not> (\<exists>o' \<in> set (ob # after). ho_running o')))"

lemma latch_mark:
  "latch_pipeline_failure node_id session_id health since t clock node fs = (r, node', fs') \<Longrightarrow>
   dget node' ''media_unhealthy_since'' = dget node ''media_unhealthy_since''"
  by (auto simp: latch_pipeline_failure_def Let_def split: prod.splits sum.splits option.splits if_splits)

lemma finite_argument_time [simp]: "finite_argument (JTime t) = Inr t"
  by (simp add: finite_argument_def)

lemma marked_later:
  assumes "marked_since past node" and "\<not> ho_running ob" and "dget node' ''media_unhealthy_since'' = dget node ''media_unhealthy_since''"
  shows "marked_since (past @ [ob]) node'"
  using assms by (fastforce simp: marked_since_def)

lemma marked_now:
  assumes "dget node' ''media_unhealthy_since'' = JTime (ho_at ob)" and "ho_fatal ob" and "\<not> ho_running ob"
  shows "marked_since (past @ [ob]) node'"
proof -
  have "past @ [ob] = past @ ob # []" by simp
  then show ?thesis using assms unfolding marked_since_def by fastforce
qed

text \<open>The Node as the fatal branch leaves it.\<close>

definition marked_node :: "rat \<Rightarrow> dict \<Rightarrow> dict" where
  "marked_node t node = dset (if finite_argument (dget node ''media_unhealthy_since'') = Inr (unhealthy_since node t) then node
      else dset node ''media_unhealthy_since'' (JTime (unhealthy_since node t)))
    ''media_failure_reason'' (JStr ''PIPELINE_CRASHED'')"

lemma apply_pipeline_health_cases:
  assumes "apply_pipeline_health grace node_id session_id status health t clock node fs = (r, node', fs')" and "0 \<le> t"
  obtains "py_lower (py_strip health) = ''running''" "r = Inr False"
      "node' = dpop (dpop node ''media_unhealthy_since'') ''media_failure_reason''" "fs' = fs"
  | "py_lower (py_strip health) \<noteq> ''running''" "r = Inr False" "node' = node" "fs' = fs"
  | "py_lower (py_strip health) \<noteq> ''running''" "py_upper (py_strip status) = ''FAILED'' \<or> py_lower (py_strip health) \<in> FATAL_MEDIA_HEALTH"
      "r = Inr False" "node' = marked_node t node" "fs' = fs"
  | "py_lower (py_strip health) \<noteq> ''running''" "py_upper (py_strip status) = ''FAILED'' \<or> py_lower (py_strip health) \<in> FATAL_MEDIA_HEALTH"
      "py_upper (py_strip status) = ''FAILED'' \<or> \<not> within_grace (t - unhealthy_since node t) grace"
      "latch_pipeline_failure node_id session_id health (unhealthy_since node t) t clock (marked_node t node) fs = (r, node', fs')"
  using assms unfolding apply_pipeline_health_def Let_def marked_node_def [symmetric] by (auto split: if_splits)

lemma marked_node_marks:
  assumes "marked_since past node" and "ho_fatal ob" and "\<not> ho_running ob"
    and "dget node' ''media_unhealthy_since'' = dget (marked_node (ho_at ob) node) ''media_unhealthy_since''"
  shows "marked_since (past @ [ob]) node' \<and> finite_argument (dget node' ''media_unhealthy_since'') = Inr (unhealthy_since node (ho_at ob))"
proof (cases "finite_argument (dget node ''media_unhealthy_since'') = Inr (unhealthy_since node (ho_at ob))")
  case True
  then show ?thesis using marked_later [OF assms(1,3)] assms(4) by (simp add: marked_node_def)
next
  case False
  then have "unhealthy_since node (ho_at ob) = ho_at ob" by (auto simp: unhealthy_since_def split: sum.splits if_splits)
  then show ?thesis using marked_now [OF _ assms(2,3), of node' past] assms(4) False by (simp add: marked_node_def)
qed

lemma observe_marks:
  assumes "marked_since past node" and "0 \<le> ho_at ob"
  shows "marked_since (past @ [ob]) (snd (observe_health grace node_id session_id ob node))"
proof -
  obtain r node' fs' where run: "apply_pipeline_health grace node_id session_id (ho_status ob) (ho_health ob) (ho_at ob) (ho_clock ob)
      node (ho_sessions ob) = (r, node', fs')" using prod_cases3 by blast
  have "marked_since (past @ [ob]) node'"
    using run assms(2)
  proof (cases rule: apply_pipeline_health_cases)
    case 1
    then show ?thesis by (simp add: marked_since_def dget_def finite_argument_def)
  next
    case 2
    then show ?thesis using marked_later [OF assms(1)] by (simp add: ho_running_def)
  next
    case 3
    then show ?thesis using marked_node_marks [OF assms(1)] by (simp add: ho_running_def ho_fatal_def ho_failed_def)
  next
    case 4
    then show ?thesis using marked_node_marks [OF assms(1)] latch_mark [OF 4(4)] by (simp add: ho_running_def ho_fatal_def ho_failed_def)
  qed
  then show ?thesis by (simp add: observe_health_def run)
qed

lemma observe_healths_marks:
  "marked_since past node \<Longrightarrow> list_all (\<lambda>ob. 0 \<le> ho_at ob) obs \<Longrightarrow>
   marked_since (past @ obs) (observe_healths grace node_id session_id obs node)"
proof (induction obs arbitrary: past node)
  case (Cons ob obs)
  then show ?case using Cons.IH [OF observe_marks [of past node ob grace node_id session_id]] by simp
qed simp

text \<open>A pipeline is given its grace: once a run of heartbeats on a fresh Node ends in a failure of the Session
  although the Node did not report FAILED, some earlier heartbeat had already found the pipeline dead at least the grace before,
  and no heartbeat from that one on found it running.\<close>

theorem pipeline_failure_after_grace:
  assumes "finite_argument (dget node ''media_unhealthy_since'') = Inl e"
    and "list_all (\<lambda>ob. 0 \<le> ho_at ob) (obs @ [ob])"
    and "fst (observe_health (Fin grace) node_id session_id ob (observe_healths (Fin grace) node_id session_id obs node)) = Inr True"
    and "\<not> ho_failed ob"
  shows "\<exists>before dead after. obs @ [ob] = before @ dead # after \<and> ho_fatal dead \<and> grace \<le> ho_at ob - ho_at dead \<and>
    \<not> (\<exists>o' \<in> set (dead # after). ho_running o')"
proof -
  let ?n = "observe_healths (Fin grace) node_id session_id obs node"
  have past: "marked_since obs ?n" using observe_healths_marks [of "[]" node obs] assms(1,2) by (simp add: marked_since_def)
  obtain r node' fs' where run: "apply_pipeline_health (Fin grace) node_id session_id (ho_status ob) (ho_health ob) (ho_at ob) (ho_clock ob)
      ?n (ho_sessions ob) = (r, node', fs')" using prod_cases3 by blast
  have r: "r = Inr True" using assms(3) by (simp add: observe_health_def run)
  have late: "0 \<le> ho_at ob" using assms(2) by simp
  show ?thesis using run late
  proof (cases rule: apply_pipeline_health_cases)
    case 4
    let ?t = "unhealthy_since ?n (ho_at ob)"
    have "marked_since (obs @ [ob]) node'" "finite_argument (dget node' ''media_unhealthy_since'') = Inr ?t"
      using marked_node_marks [OF past] latch_mark [OF 4(4)] 4 by (simp_all add: ho_running_def ho_fatal_def ho_failed_def)
    then obtain before dead after where "obs @ [ob] = before @ dead # after" "ho_at dead = ?t" "ho_fatal dead"
      "\<not> (\<exists>o' \<in> set (dead # after). ho_running o')" unfolding marked_since_def by blast
    moreover have "grace \<le> ho_at ob - ?t" using 4(3) assms(4) by (auto simp: within_grace_def ho_failed_def)
    ultimately show ?thesis by metis
  qed (use r in auto)
qed

section \<open>The failure of the Session\<close>

lemma failed_cleanup_changes:
  "validate_timestamp_changes [(''cleanup_pending'', JBool b), (''failure_reason'', JStr x), (''failure_reason_code'', JStr y)] = Inr ()"
  "list_all (\<lambda>p. field_ok sid (fst p) (snd p) \<and> json_ok (snd p))
     [(''cleanup_pending'', JBool b), (''failure_reason'', JStr x), (''failure_reason_code'', JStr y)]"
  by (simp_all add: validate_timestamp_changes_def SESSION_TIMESTAMP_FIELDS_def dhas_def field_defs)

text \<open>A failure that counts fails the Session with its cleanup pending and tells the Node to stop.\<close>

lemma latch_granted:
  assumes st: "stored fs m" and s: "map_of (sessions m) session_id = Some s" and t: "0 \<le> t"
    and active: "status_of s \<in> ACTIVE_STATES" and node: "dget s ''node_id'' \<in> {JNull, JStr node_id}"
    and l: "latch_pipeline_failure node_id session_id health since t (Fin t) node fs = l"
  shows "fst l = Inr True \<and> dget (fst (snd l)) ''desired_state'' = JStr ''STOPPED'' \<and>
    (\<exists>m' s'. stored (snd (snd l)) m' \<and> map_of (sessions m') session_id = Some s' \<and> status_of s' = ''FAILED_CLEANUP'')"
proof -
  let ?ch = "[(''cleanup_pending'', JBool True), (''failure_reason'', JStr ''media pipeline remained unavailable''),
    (''failure_reason_code'', JStr ''PIPELINE_CRASHED'')]"
  obtain r0 fs0 where get0: "get_session session_id fs = (r0, fs0)" by fastforce
  have fs0: "stored fs0 m" "r0 = Inr (Some s)"
    using state_lock_reads [OF st get0 [unfolded get_session_def], of "Inr (Some s)"] s by simp_all
  note get = get0 [unfolded fs0(2)]
  let ?tr = "transition session_id ''FAILED_CLEANUP'' (Some ACTIVE_STATES) ?ch (Fin t) fs0"
  let ?s1 = "transitioned_record s ?ch ''FAILED_CLEANUP'' t"
  let ?m1 = "(put_session m session_id ?s1)\<lparr>authoritative := True\<rparr>"
  have tr: "fst ?tr = Inr ?s1" "stored (snd ?tr) ?m1"
    using transition_granted [OF fs0(1) t _ failed_cleanup_changes s, of "''FAILED_CLEANUP''" "Some ACTIVE_STATES"] active
    by (simp_all add: transition_allowed_def SESSION_STATES_def)
  obtain tfs where tfs: "?tr = (Inr ?s1, tfs)" "stored tfs ?m1" using tr by (metis prod.collapse)
  let ?pl = "[(''node_id'', JStr node_id), (''from_state'', JStr (status_of s)), (''to_state'', JStr ''FAILED_CLEANUP''),
    (''cleanup_pending'', JBool True), (''media_health'', JStr (take 100 health)), (''unhealthy_since'', JTime since)]"
  have s1: "map_of (sessions ?m1) session_id = Some ?s1" by (simp add: put_session_def)
  let ?ap = "append_event session_id ''session.failure_detected'' (Some ''PIPELINE_CRASHED'') ?pl ''node-agent'' (Some (JTime t)) (Fin t) tfs"
  have pl: "json_ok (JObj ?pl)" by simp
  have "\<exists>ev s2. fst ?ap = Inr ev \<and> stored (snd ?ap) ((put_session ?m1 session_id s2)\<lparr>authoritative := True\<rparr>) \<and> status_of s2 = status_of ?s1"
    using append_event_numbering [OF tfs(2) s1 _ _ pl t, of "''session.failure_detected''" "''node-agent''" "Some ''PIPELINE_CRASHED''" "Fin t"]
    by blast
  then obtain ev s2 afs where ap: "?ap = (Inr ev, afs)" "stored afs ((put_session ?m1 session_id s2)\<lparr>authoritative := True\<rparr>)"
    "status_of s2 = ''FAILED_CLEANUP''" by (metis prod.collapse status_transitioned_record)
  have "fst l = Inr True \<and> dget (fst (snd l)) ''desired_state'' = JStr ''STOPPED'' \<and> snd (snd l) = afs"
    unfolding l [symmetric] latch_pipeline_failure_def get using active node by (simp add: tfs(1) ap(1) Let_def)
  then show ?thesis using ap(2,3) by (auto simp: put_session_def)
qed

section \<open>The statement at a concrete run\<close>

definition demo_health :: "string \<Rightarrow> rat \<Rightarrow> health_observation" where
  "demo_health health t = \<lparr>ho_status = ''READY'', ho_health = health, ho_at = t, ho_clock = Fin t,
     ho_sessions = authority_of (demo_store ''LIVE'' [])\<rparr>"

definition demo_healths :: "health_observation list" where
  "demo_healths = [demo_health ''crashed'' 10, demo_health ''running'' 20, demo_health ''crashed'' 30]"

lemma demo_node_id: "dget (demo_session st []) ''node_id'' = JNull"
  by (simp add: demo_session_def) (simp add: fresh_record_def dget_def)

lemma demo_words:
  "py_lower (py_strip ''running'') = ''running''" "py_lower (py_strip ''crashed'') = ''crashed''"
  "py_lower (py_strip ''stopped'') = ''stopped''" "py_upper (py_strip ''READY'') = ''READY''"
  by code_simp+

lemma demo_health_latches:
  "fst (observe_health (Fin 30) ''n1'' ''s1'' (demo_health ''stopped'' 60) (observe_healths (Fin 30) ''n1'' ''s1'' demo_healths [])) = Inr True"
proof -
  have st: "stored (authority_of (demo_store ''LIVE'' [])) (demo_store ''LIVE'' [])"
    by (rule stored_demo) (simp_all add: SESSION_STATES_def)
  have "fst (latch_pipeline_failure ''n1'' ''s1'' ''stopped'' 30 60 (Fin 60) n (authority_of (demo_store ''LIVE'' []))) = Inr True" for n
    using latch_granted [OF st, of "''s1''" "demo_session ''LIVE'' []" 60 "''n1''"] demo_status [of "[]" "''LIVE''"]
    by (simp add: ACTIVE_STATES_def demo_node_id)
  moreover have "dget (observe_healths (Fin 30) ''n1'' ''s1'' demo_healths []) ''media_unhealthy_since'' = JTime 30"
    by (simp add: demo_healths_def demo_health_def observe_health_def apply_pipeline_health_def demo_words FATAL_MEDIA_HEALTH_def
        unhealthy_since_def within_grace_def dget_def finite_argument_def Let_def)
  ultimately show ?thesis
    by (simp add: observe_health_def apply_pipeline_health_def demo_health_def demo_words FATAL_MEDIA_HEALTH_def
        unhealthy_since_def within_grace_def Let_def split: prod.split) (metis fst_conv)
qed

theorem pipeline_failure_after_grace_witness:
  "\<exists>before dead after. demo_healths @ [demo_health ''stopped'' 60] = before @ dead # after \<and> ho_fatal dead \<and>
    30 \<le> ho_at (demo_health ''stopped'' 60) - ho_at dead \<and> \<not> (\<exists>o' \<in> set (dead # after). ho_running o')"
proof -
  have "\<not> ho_failed (demo_health ''stopped'' 60)" by code_simp
  then show ?thesis
    by (intro pipeline_failure_after_grace [OF _ _ demo_health_latches])
      (simp_all add: demo_healths_def demo_health_def finite_argument_def dget_def)
qed

end
