(* ===== verification/Asset_Intent.thy ===== *)
theory Asset_Intent
  imports Python_Text
begin

text \<open>
  Object keys of standby assets (\<open>asset_upload_intent.py\<close>): derived from the owner and the asset alone, never
  taken from a caller.
\<close>

definition MAX_UPLOAD_BYTES :: int where
  "MAX_UPLOAD_BYTES = 32 * 1024 * 1024"

definition SUPPORTED_IMAGE_CONTENT_TYPES :: "string list" where
  "SUPPORTED_IMAGE_CONTENT_TYPES = [''image/jpeg'', ''image/png'', ''image/webp'']"

definition SUPPORTED_VARIANT_PROFILES :: "string list" where
  "SUPPORTED_VARIANT_PROFILES = [''720p30'', ''1080p30'']"

text \<open>\<open>_require_segment\<close>; \<open>is_segment\<close> is the condition on a string.\<close>

definition is_segment :: "string \<Rightarrow> bool" where
  "is_segment s \<longleftrightarrow> s \<noteq> [] \<and> length s \<le> 200 \<and> hd s \<noteq> CHR ''.'' \<and> last s \<noteq> CHR ''.'' \<and>
     list_all (\<lambda>c. (let n = of_char c :: int in 33 \<le> n \<and> n \<le> 126) \<and> c \<noteq> CHR ''/'' \<and> c \<noteq> CHR 0x5C) s"

definition require_segment :: "json \<Rightarrow> err + string" where
  "require_segment v =
     rbind (from_some AssetUploadIntentError (as_str v)) (\<lambda>s.
     rbind (require AssetUploadIntentError (is_segment s)) (\<lambda>_. Inr s))"

definition normalize_image_content_type :: "json \<Rightarrow> err + string" where
  "normalize_image_content_type content_type =
     rbind (from_some AssetUploadIntentError (as_str content_type)) (\<lambda>s.
     rbind (require AssetUploadIntentError (s \<noteq> [] \<and> length s \<le> 200)) (\<lambda>_.
     let base = py_lower (py_strip (takeWhile (\<lambda>c. c \<noteq> CHR '';'') s)) in
     rbind (require AssetUploadIntentError (base \<in> set SUPPORTED_IMAGE_CONTENT_TYPES)) (\<lambda>_. Inr base)))"

definition normalize_variant_profile :: "json \<Rightarrow> err + string" where
  "normalize_variant_profile profile =
     rbind (from_some AssetUploadIntentError (as_str profile)) (\<lambda>s.
     rbind (require AssetUploadIntentError (s \<in> set SUPPORTED_VARIANT_PROFILES)) (\<lambda>_. Inr s))"

definition object_path :: "string \<Rightarrow> string \<Rightarrow> string \<Rightarrow> string" where
  "object_path owner asset tail = ''users/'' @ owner @ ''/assets/'' @ asset @ ''/'' @ tail"

definition source_object_key :: "json \<Rightarrow> json \<Rightarrow> err + string" where
  "source_object_key user_id asset_id =
     rbind (require_segment user_id) (\<lambda>owner.
     rbind (require_segment asset_id) (\<lambda>asset.
     Inr (object_path owner asset ''source'')))"

definition variant_object_key :: "json \<Rightarrow> json \<Rightarrow> json \<Rightarrow> err + string" where
  "variant_object_key user_id asset_id profile =
     rbind (require_segment user_id) (\<lambda>owner.
     rbind (require_segment asset_id) (\<lambda>asset.
     rbind (normalize_variant_profile profile) (\<lambda>normalized.
     Inr (object_path owner asset (''variants/'' @ normalized @ ''.mp4'')))))"

definition is_owner_bound_source_object_key :: "json \<Rightarrow> json \<Rightarrow> json \<Rightarrow> bool" where
  "is_owner_bound_source_object_key user_id asset_id object_key \<longleftrightarrow>
     (case as_str object_key of
        None \<Rightarrow> False
      | Some k \<Rightarrow> k \<noteq> [] \<and> (case source_object_key user_id asset_id of Inl _ \<Rightarrow> False | Inr expected \<Rightarrow> k = expected))"

definition hex64 :: "string \<Rightarrow> bool" where
  "hex64 s \<longleftrightarrow> length s = 64 \<and> list_all (\<lambda>c. c \<in> set ''0123456789abcdef'') s"

definition validated_sha256 :: "json \<Rightarrow> err + string" where
  "validated_sha256 v =
     rbind (from_some AssetUploadIntentError (as_str v)) (\<lambda>s.
     rbind (require AssetUploadIntentError (hex64 s)) (\<lambda>_. Inr s))"

definition validated_size_bytes :: "json \<Rightarrow> err + int" where
  "validated_size_bytes v =
     rbind (from_some AssetUploadIntentError (as_int v)) (\<lambda>n.
     rbind (require AssetUploadIntentError (0 < n \<and> n \<le> MAX_UPLOAD_BYTES)) (\<lambda>_. Inr n))"

record upload_completion =
  uc_object_key :: string
  uc_content_type :: string
  uc_size_bytes :: int
  uc_sha256 :: string

definition validate_upload_completion :: "json \<Rightarrow> json \<Rightarrow> json \<Rightarrow> json \<Rightarrow> json \<Rightarrow> json \<Rightarrow> err + upload_completion" where
  "validate_upload_completion user_id asset_id content_type object_key size_bytes sha256 =
     rbind (normalize_image_content_type content_type) (\<lambda>normalized_type.
     rbind (source_object_key user_id asset_id) (\<lambda>expected_key.
     rbind (require AssetUploadIntentError (as_str object_key = Some expected_key)) (\<lambda>_.
     rbind (validated_size_bytes size_bytes) (\<lambda>size.
     rbind (validated_sha256 sha256) (\<lambda>digest.
     Inr \<lparr>uc_object_key = expected_key, uc_content_type = normalized_type, uc_size_bytes = size, uc_sha256 = digest\<rparr>)))))"

section \<open>Keys do not alias\<close>

lemma segment_no_slash: "is_segment s \<Longrightarrow> CHR ''/'' \<notin> set s"
  by (auto simp: is_segment_def list_all_iff)

lemma append_slash_inj:
  "CHR ''/'' \<notin> set a \<Longrightarrow> CHR ''/'' \<notin> set b \<Longrightarrow> a @ CHR ''/'' # x = b @ CHR ''/'' # y \<longleftrightarrow> a = b \<and> x = y"
proof (induction a arbitrary: b)
  case (Cons c a)
  then show ?case by (cases b) auto
qed (auto simp: Cons_eq_append_conv)

lemma object_path_inj:
  assumes "is_segment o1" "is_segment a1" "is_segment o2" "is_segment a2"
  shows "object_path o1 a1 t1 = object_path o2 a2 t2 \<longleftrightarrow> o1 = o2 \<and> a1 = a2 \<and> t1 = t2"
  using assms [THEN segment_no_slash] by (simp add: object_path_def append_slash_inj)

text \<open>The key a caller is given for one kind of object: the source, or the variant of a profile.\<close>

definition asset_key :: "json \<Rightarrow> json \<Rightarrow> json option \<Rightarrow> err + string" where
  "asset_key user_id asset_id kind =
     (case kind of None \<Rightarrow> source_object_key user_id asset_id | Some profile \<Rightarrow> variant_object_key user_id asset_id profile)"

text \<open>Object keys do not alias: two derived keys, of sources or of variants, are equal only for the same owner,
  the same asset and the same kind of object, so no choice of ids reaches into another owner's namespace.\<close>

theorem asset_keys_injective:
  assumes "asset_key u1 a1 k1 = Inr key" and "asset_key u2 a2 k2 = Inr key"
  shows "u1 = u2 \<and> a1 = a2 \<and> k1 = k2"
proof -
  have key: "\<exists>owner asset tail. u = JStr owner \<and> a = JStr asset \<and> is_segment owner \<and> is_segment asset \<and>
      key = object_path owner asset tail \<and> (k = None \<and> tail = ''source'' \<or>
        (\<exists>p. k = Some (JStr p) \<and> tail = ''variants/'' @ p @ ''.mp4''))"
    if "asset_key u a k = Inr key" for u a k
    using that
    by (auto simp: asset_key_def source_object_key_def variant_object_key_def require_segment_def normalize_variant_profile_def
        rbind_eq_Inr split: option.splits)
  show ?thesis using key [OF assms(1)] key [OF assms(2)] by (auto simp: object_path_inj)
qed

theorem asset_keys_injective_witness:
  "asset_key (JStr ''u1'') (JStr ''a1/source'') None = Inl AssetUploadIntentError \<and>
   {(u, a, k). asset_key u a k = Inr ''users/u1/assets/a1/source''} = {(JStr ''u1'', JStr ''a1'', None)}"
proof
  show "asset_key (JStr ''u1'') (JStr ''a1/source'') None = Inl AssetUploadIntentError" by code_simp
  have own: "asset_key (JStr ''u1'') (JStr ''a1'') None = Inr ''users/u1/assets/a1/source''" by code_simp
  have "asset_key u a k = Inr ''users/u1/assets/a1/source'' \<longleftrightarrow> (u, a, k) = (JStr ''u1'', JStr ''a1'', None)" for u a k
    using asset_keys_injective [OF _ own, of u a k] own by blast
  then show "{(u, a, k). asset_key u a k = Inr ''users/u1/assets/a1/source''} = {(JStr ''u1'', JStr ''a1'', None)}"
    by (simp only: case_prod_unfold set_eq_iff mem_Collect_eq singleton_iff) (metis prod.collapse)
qed

end
