(* ===== verification/Url_Text.thy ===== *)
theory Url_Text
  imports Prelude
begin

text \<open>
  URLs as Python reads them (\<open>urllib.parse\<close>): \<open>urlsplit\<close>, \<open>parse_qsl\<close> and \<open>unquote_plus\<close> with its UTF-8
  decoding.  A decoded name may hold any code point, so text is a list of code points here; \<open>cps\<close> turns a
  string of the other theories into one.  Two things of Python's Unicode tables are arguments: the case
  folding of the code points from 256 on, and the check of an authority part (its NFKC form and its
  bracketed address).
\<close>

type_synonym utext = "int list"

definition cps :: "string \<Rightarrow> utext" where
  "cps s = map of_char s"

section \<open>Operations on text\<close>

definition REPLACEMENT :: int where
  "REPLACEMENT = 65533"

definition u_is_space :: "int \<Rightarrow> bool" where
  "u_is_space c \<longleftrightarrow> c \<in> {9..13} \<or> c \<in> {28..32} \<or> c = 133 \<or> c = 160 \<or> c = 5760 \<or> c \<in> {8192..8202} \<or>
     c \<in> {8232, 8233, 8239, 8287, 12288}"

definition u_strip :: "utext \<Rightarrow> utext" where
  "u_strip s = rev (dropWhile u_is_space (rev (dropWhile u_is_space s)))"

text \<open>\<open>str.casefold\<close>: the code points below 256 by their table, the others by \<open>fold_hi\<close>.\<close>

definition fold_char :: "(int \<Rightarrow> utext) \<Rightarrow> int \<Rightarrow> utext" where
  "fold_char fold_hi c =
     (if 256 \<le> c then fold_hi c
      else if 65 \<le> c \<and> c \<le> 90 \<or> 192 \<le> c \<and> c \<le> 222 \<and> c \<noteq> 215 then [c + 32]
      else if c = 181 then [956]
      else if c = 223 then [115, 115]
      else [c])"

definition casefold :: "(int \<Rightarrow> utext) \<Rightarrow> utext \<Rightarrow> utext" where
  "casefold fold_hi s = concat (map (fold_char fold_hi) s)"

fun u_split :: "int \<Rightarrow> utext \<Rightarrow> utext list" where
  "u_split c [] = [[]]"
| "u_split c (x # xs) =
     (if x = c then [] # u_split c xs else (case u_split c xs of [] \<Rightarrow> [[x]] | p # ps \<Rightarrow> (x # p) # ps))"

text \<open>\<open>s.partition(c)\<close>: before, whether the separator occurs, after.\<close>

definition u_partition :: "int \<Rightarrow> utext \<Rightarrow> utext \<times> bool \<times> utext" where
  "u_partition c s = (let p = takeWhile (\<lambda>x. x \<noteq> c) s in (p, c \<in> set s, drop (length p + 1) s))"

definition u_starts_with :: "utext \<Rightarrow> utext \<Rightarrow> bool" where
  "u_starts_with p s \<longleftrightarrow> take (length p) s = p"

definition is_ascii_alpha :: "int \<Rightarrow> bool" where
  "is_ascii_alpha c \<longleftrightarrow> 65 \<le> c \<and> c \<le> 90 \<or> 97 \<le> c \<and> c \<le> 122"

definition is_ascii_digit :: "int \<Rightarrow> bool" where
  "is_ascii_digit c \<longleftrightarrow> 48 \<le> c \<and> c \<le> 57"

definition ascii_lower :: "utext \<Rightarrow> utext" where
  "ascii_lower = map (\<lambda>c. if 65 \<le> c \<and> c \<le> 90 then c + 32 else c)"

section \<open>UTF-8 with replacement\<close>

definition utf8_cont :: "int \<Rightarrow> bool" where
  "utf8_cont b \<longleftrightarrow> 128 \<le> b \<and> b \<le> 191"

definition utf8_second :: "int \<Rightarrow> int \<Rightarrow> bool" where
  "utf8_second b0 b1 \<longleftrightarrow> utf8_cont b1 \<and> (b0 = 224 \<longrightarrow> 160 \<le> b1) \<and> (b0 = 237 \<longrightarrow> b1 \<le> 159) \<and>
     (b0 = 240 \<longrightarrow> 144 \<le> b1) \<and> (b0 = 244 \<longrightarrow> b1 \<le> 143)"

text \<open>The code point that starts with byte \<open>b0\<close> and how many of the bytes after it belong to it.\<close>

definition utf8_step :: "int \<Rightarrow> int list \<Rightarrow> int \<times> nat" where
  "utf8_step b0 bs =
     (if b0 < 128 then (b0, 0)
      else if 194 \<le> b0 \<and> b0 \<le> 223 then
        (case bs of b1 # _ \<Rightarrow> if utf8_cont b1 then ((b0 - 192) * 64 + (b1 - 128), 1) else (REPLACEMENT, 0)
         | [] \<Rightarrow> (REPLACEMENT, 0))
      else if 224 \<le> b0 \<and> b0 \<le> 239 then
        (case bs of
           b1 # bs \<Rightarrow>
             if \<not> utf8_second b0 b1 then (REPLACEMENT, 0) else
             (case bs of
                b2 # _ \<Rightarrow> if utf8_cont b2 then ((b0 - 224) * 4096 + (b1 - 128) * 64 + (b2 - 128), 2) else (REPLACEMENT, 1)
              | [] \<Rightarrow> (REPLACEMENT, 1))
         | [] \<Rightarrow> (REPLACEMENT, 0))
      else if 240 \<le> b0 \<and> b0 \<le> 244 then
        (case bs of
           b1 # bs \<Rightarrow>
             if \<not> utf8_second b0 b1 then (REPLACEMENT, 0) else
             (case bs of
                b2 # bs \<Rightarrow>
                  if \<not> utf8_cont b2 then (REPLACEMENT, 1) else
                  (case bs of
                     b3 # _ \<Rightarrow> if utf8_cont b3
                       then ((b0 - 240) * 262144 + (b1 - 128) * 4096 + (b2 - 128) * 64 + (b3 - 128), 3) else (REPLACEMENT, 2)
                   | [] \<Rightarrow> (REPLACEMENT, 2))
              | [] \<Rightarrow> (REPLACEMENT, 1))
         | [] \<Rightarrow> (REPLACEMENT, 0))
      else (REPLACEMENT, 0))"

fun utf8_decode :: "int list \<Rightarrow> utext" where
  "utf8_decode [] = []"
| "utf8_decode (b # bs) = fst (utf8_step b bs) # utf8_decode (drop (snd (utf8_step b bs)) bs)"

section \<open>Percent decoding\<close>

definition hex_value :: "int \<Rightarrow> int option" where
  "hex_value c =
     (if 48 \<le> c \<and> c \<le> 57 then Some (c - 48)
      else if 65 \<le> c \<and> c \<le> 70 then Some (c - 55)
      else if 97 \<le> c \<and> c \<le> 102 then Some (c - 87)
      else None)"

text \<open>\<open>unquote_to_bytes\<close> of an ASCII run; 37 is the percent sign.\<close>

fun percent_bytes :: "utext \<Rightarrow> int list" where
  "percent_bytes (c # a # b # s) =
     (case (if c = 37 then (hex_value a, hex_value b) else (None, None)) of
        (Some x, Some y) \<Rightarrow> (16 * x + y) # percent_bytes s
      | _ \<Rightarrow> c # percent_bytes (a # b # s))"
| "percent_bytes (c # s) = c # percent_bytes s"
| "percent_bytes [] = []"

text \<open>\<open>unquote\<close>: every maximal ASCII run is decoded, the other code points stay.\<close>

function unquote_runs :: "utext \<Rightarrow> utext" where
  "unquote_runs s =
     (case s of
        [] \<Rightarrow> []
      | c # cs \<Rightarrow>
          if c < 128 then utf8_decode (percent_bytes (takeWhile (\<lambda>c. c < 128) s)) @ unquote_runs (dropWhile (\<lambda>c. c < 128) s)
          else c # unquote_runs cs)"
  by pat_completeness auto
termination
  by (relation "measure length") (auto simp: le_imp_less_Suc length_dropWhile_le)

declare unquote_runs.simps [simp del]

definition unquote :: "utext \<Rightarrow> utext" where
  "unquote s = (if 37 \<notin> set s then s else unquote_runs s)"

definition plus_to_space :: "utext \<Rightarrow> utext" where
  "plus_to_space = map (\<lambda>c. if c = 43 then 32 else c)"

definition unquote_plus :: "utext \<Rightarrow> utext" where
  "unquote_plus s = unquote (plus_to_space s)"

text \<open>\<open>parse_qsl(query, keep_blank_values=True)\<close>\<close>

definition parse_qsl :: "utext \<Rightarrow> (utext \<times> utext) list" where
  "parse_qsl query =
     map (\<lambda>name_value. case u_partition 61 name_value of (name, _, v) \<Rightarrow> (unquote_plus name, unquote_plus v))
       (filter (\<lambda>p. p \<noteq> []) (u_split 38 query))"

section \<open>Splitting a URL\<close>

record url_parts =
  up_scheme :: utext
  up_netloc :: utext
  up_path :: utext
  up_query :: utext
  up_fragment :: utext

definition scheme_char :: "int \<Rightarrow> bool" where
  "scheme_char c \<longleftrightarrow> is_ascii_alpha c \<or> is_ascii_digit c \<or> c = 43 \<or> c = 45 \<or> c = 46"

text \<open>The scheme and the rest; the scheme is empty when the text before the colon is not one.\<close>

definition split_scheme :: "utext \<Rightarrow> utext \<times> utext" where
  "split_scheme url =
     (case u_partition 58 url of
        (before, found, after) \<Rightarrow>
          if found \<and> before \<noteq> [] \<and> is_ascii_alpha (hd before) \<and> list_all scheme_char before
          then (ascii_lower before, after) else ([], url))"

definition split_netloc :: "utext \<Rightarrow> utext \<times> utext" where
  "split_netloc url =
     (if take 2 url = [47, 47]
      then (takeWhile (\<lambda>c. c \<notin> {47, 63, 35}) (drop 2 url), dropWhile (\<lambda>c. c \<notin> {47, 63, 35}) (drop 2 url))
      else ([], url))"

definition urlsplit :: "(utext \<Rightarrow> bool) \<Rightarrow> utext \<Rightarrow> err + url_parts" where
  "urlsplit netloc_ok url =
     (let url = filter (\<lambda>c. c \<notin> {9, 10, 13}) (dropWhile (\<lambda>c. c \<le> 32) url);
          (scheme, url) = split_scheme url;
          (netloc, url) = split_netloc url;
          (url, _, fragment) = u_partition 35 url;
          (path, _, query) = u_partition 63 url
      in
      rbind (require ValueError ((91 \<in> set netloc) = (93 \<in> set netloc) \<and> netloc_ok netloc)) (\<lambda>_.
      Inr \<lparr>up_scheme = scheme, up_netloc = netloc, up_path = path, up_query = query, up_fragment = fragment\<rparr>))"

text \<open>\<open>username is not None or password is not None\<close>\<close>

definition has_userinfo :: "url_parts \<Rightarrow> bool" where
  "has_userinfo parts \<longleftrightarrow> 64 \<in> set (up_netloc parts)"

section \<open>Text without escapes\<close>

lemma unquote_plus_plain: "37 \<notin> set s \<Longrightarrow> 43 \<notin> set s \<Longrightarrow> unquote_plus s = s"
  by (auto simp: unquote_plus_def unquote_def plus_to_space_def intro!: map_idI)

lemma set_casefold: "c < 128 \<Longrightarrow> \<not> (65 \<le> c \<and> c \<le> 90) \<Longrightarrow> c \<in> set s \<Longrightarrow> c \<in> set (casefold fold_hi s)"
  by (auto simp: casefold_def fold_char_def intro!: bexI [of _ c])

lemma set_u_strip: "c \<in> set s \<Longrightarrow> \<not> u_is_space c \<Longrightarrow> c \<in> set (u_strip s)"
proof -
  have *: "c \<in> set t \<Longrightarrow> \<not> u_is_space c \<Longrightarrow> c \<in> set (dropWhile u_is_space t)" for t
    by (induction t) auto
  show "c \<in> set s \<Longrightarrow> \<not> u_is_space c \<Longrightarrow> c \<in> set (u_strip s)"
    unfolding u_strip_def by (metis * set_rev)
qed

end
