(* ===== verification/Destination_Url.thy ===== *)
theory Destination_Url
  imports Url_Text
begin

text \<open>
  The secret-safety checks of user-controlled destination URLs (\<open>destination_url_safety.py\<close>).
\<close>

section \<open>Stream ids\<close>

definition routing_char :: "int \<Rightarrow> bool" where
  "routing_char c \<longleftrightarrow> is_ascii_alpha c \<or> is_ascii_digit c \<or> c = 46 \<or> c = 95 \<or> c = 47 \<or> c = 45"

text \<open>\<open>[A-Za-z0-9._/-]{1,200}\<close>\<close>

definition routing_value :: "utext \<Rightarrow> bool" where
  "routing_value s \<longleftrightarrow> s \<noteq> [] \<and> length s \<le> 200 \<and> list_all routing_char s"

fun structured_fields ::
  "(int \<Rightarrow> utext) \<Rightarrow> (utext \<times> utext) list \<Rightarrow> utext list \<Rightarrow> err + (utext \<times> utext) list"
where
  "structured_fields fold_hi acc [] = Inr acc"
| "structured_fields fold_hi acc (f # fs) =
     (case u_partition 61 f of
        (key, found, v) \<Rightarrow>
          let key = casefold fold_hi (u_strip key); v = u_strip v in
          if \<not> found \<or> key = [] \<or> map_of acc key \<noteq> None then Inl DestinationUrlSafetyError
          else if key \<notin> {cps ''m'', cps ''r''} then Inl DestinationUrlSafetyError
          else structured_fields fold_hi (acc @ [(key, v)]) fs)"

definition validate_structured_streamid :: "(int \<Rightarrow> utext) \<Rightarrow> utext \<Rightarrow> err + unit" where
  "validate_structured_streamid fold_hi v =
     rbind (structured_fields fold_hi [] (u_split 44 (drop 4 v))) (\<lambda>acc.
     let get = (\<lambda>k. case map_of acc k of None \<Rightarrow> [] | Some x \<Rightarrow> x) in
     rbind (require DestinationUrlSafetyError (casefold fold_hi (get (cps ''m'')) = cps ''publish'')) (\<lambda>_.
     require DestinationUrlSafetyError (routing_value (get (cps ''r'')))))"

definition validate_streamid :: "(int \<Rightarrow> utext) \<Rightarrow> utext \<Rightarrow> err + unit" where
  "validate_streamid fold_hi v =
     (if u_starts_with (cps ''#!::'') v then validate_structured_streamid fold_hi v
      else (case u_partition 58 v of
              (prefix, found, route) \<Rightarrow>
                require DestinationUrlSafetyError
                  (found \<and> casefold fold_hi prefix = cps ''publish'' \<and> routing_value route)))"

section \<open>Query parameters\<close>

definition SENSITIVE_SRT_QUERY_KEYS :: "utext set" where
  "SENSITIVE_SRT_QUERY_KEYS = {cps ''passphrase''}"

definition PUBLIC_SRT_QUERY_KEYS :: "utext set" where
  "PUBLIC_SRT_QUERY_KEYS = {cps ''conntimeo'', cps ''latency'', cps ''mode'', cps ''streamid''}"

fun decode_rounds :: "nat \<Rightarrow> utext \<Rightarrow> err + utext" where
  "decode_rounds 0 decoded = Inl DestinationUrlSafetyError"
| "decode_rounds (Suc n) decoded =
     (let next_value = unquote_plus decoded in if next_value = decoded then Inr decoded else decode_rounds n next_value)"

definition decode_repeated :: "utext \<Rightarrow> err + utext" where
  "decode_repeated = decode_rounds 8"

definition validate_public_query_value :: "(int \<Rightarrow> utext) \<Rightarrow> utext \<Rightarrow> utext \<Rightarrow> err + unit" where
  "validate_public_query_value fold_hi key v =
     (if key = cps ''streamid'' then validate_streamid fold_hi v
      else if key = cps ''mode'' then require DestinationUrlSafetyError (casefold fold_hi v = cps ''caller'')
      else if key \<in> {cps ''latency'', cps ''conntimeo''}
      then require DestinationUrlSafetyError (v \<noteq> [] \<and> list_all is_ascii_digit v)
      else Inl DestinationUrlSafetyError)"

fun validate_query :: "(int \<Rightarrow> utext) \<Rightarrow> utext set \<Rightarrow> (utext \<times> utext) list \<Rightarrow> err + unit" where
  "validate_query fold_hi seen [] = Inr ()"
| "validate_query fold_hi seen ((raw_key, raw_value) # qs) =
     rbind (decode_repeated raw_key) (\<lambda>key.
     let key = casefold fold_hi (u_strip key) in
     rbind (decode_repeated raw_value) (\<lambda>v.
     let v = u_strip v in
     rbind (require DestinationUrlSafetyError (key \<notin> seen)) (\<lambda>_.
     rbind (require DestinationUrlSafetyError (key \<notin> SENSITIVE_SRT_QUERY_KEYS)) (\<lambda>_.
     rbind (require DestinationUrlSafetyError (key \<in> PUBLIC_SRT_QUERY_KEYS)) (\<lambda>_.
     rbind (validate_public_query_value fold_hi key v) (\<lambda>_.
     validate_query fold_hi (insert key seen) qs))))))"

definition validate_destination_url_secret_safety ::
  "(utext \<Rightarrow> bool) \<Rightarrow> (int \<Rightarrow> utext) \<Rightarrow> utext \<Rightarrow> err + unit"
where
  "validate_destination_url_secret_safety netloc_ok fold_hi url =
     (case urlsplit netloc_ok url of
        Inl _ \<Rightarrow> Inl DestinationUrlSafetyError
      | Inr parsed \<Rightarrow>
          rbind (require DestinationUrlSafetyError (\<not> has_userinfo parsed)) (\<lambda>_.
          if casefold fold_hi (up_scheme parsed) \<noteq> cps ''srt'' then Inr () else
          rbind (require DestinationUrlSafetyError (up_path parsed \<in> {[], [47]})) (\<lambda>_.
          rbind (require DestinationUrlSafetyError (up_fragment parsed = [])) (\<lambda>_.
          validate_query fold_hi {} (parse_qsl (up_query parsed))))))"

section \<open>What an accepted URL cannot carry\<close>

text \<open>The name of a query parameter after \<open>n\<close> more decodings, as a lenient reader compares it.\<close>

definition read_name :: "(int \<Rightarrow> utext) \<Rightarrow> nat \<Rightarrow> utext \<Rightarrow> utext" where
  "read_name fold_hi n raw = casefold fold_hi (u_strip ((unquote_plus ^^ n) raw))"

lemma decode_rounds_fixpoint:
  "decode_rounds n raw = Inr d \<Longrightarrow> unquote_plus d = d \<and> (\<exists>k < n. d = (unquote_plus ^^ k) raw)"
proof (induction n arbitrary: raw)
  case (Suc n)
  show ?case
  proof (cases "unquote_plus raw = raw")
    case False
    then have "decode_rounds n (unquote_plus raw) = Inr d" using Suc.prems by (simp add: Let_def)
    from Suc.IH [OF this] obtain k where "unquote_plus d = d" "k < n" "d = (unquote_plus ^^ k) (unquote_plus raw)" by blast
    then show ?thesis by (intro conjI exI [of _ "Suc k"]) (simp_all add: funpow_swap1)
  qed (use Suc.prems in \<open>auto simp: Let_def intro: exI [of _ 0]\<close>)
qed simp

lemma funpow_fixpoint: "f d = d \<Longrightarrow> (f ^^ n) d = d"
  by (induction n) auto

lemma decoded_names:
  assumes "decode_repeated raw = Inr d"
  shows "8 \<le> n \<Longrightarrow> (unquote_plus ^^ n) raw = d" and "unquote_plus ((unquote_plus ^^ n) raw) = (unquote_plus ^^ n) raw \<Longrightarrow> (unquote_plus ^^ n) raw = d"
proof -
  obtain k where k: "unquote_plus d = d" "k < 8" "d = (unquote_plus ^^ k) raw"
    using decode_rounds_fixpoint assms unfolding decode_repeated_def by blast
  have later: "(unquote_plus ^^ m) raw = d" if "k \<le> m" for m
  proof -
    have "(unquote_plus ^^ m) raw = (unquote_plus ^^ (m - k)) ((unquote_plus ^^ k) raw)"
      using that by (metis comp_apply funpow_add le_add_diff_inverse2)
    then show ?thesis using k funpow_fixpoint by metis
  qed
  then show "8 \<le> n \<Longrightarrow> (unquote_plus ^^ n) raw = d" using k(2) by simp
  assume still: "unquote_plus ((unquote_plus ^^ n) raw) = (unquote_plus ^^ n) raw"
  have "(unquote_plus ^^ (k + n)) raw = (unquote_plus ^^ n) raw" using funpow_fixpoint [of unquote_plus, OF still, of k] by (simp add: funpow_add)
  then show "(unquote_plus ^^ n) raw = d" using later [of "k + n"] by simp
qed

lemma plain_name_is_stable:
  assumes "37 \<notin> set (read_name fold_hi n raw)" and "43 \<notin> set (read_name fold_hi n raw)"
  shows "unquote_plus ((unquote_plus ^^ n) raw) = (unquote_plus ^^ n) raw"
proof (rule unquote_plus_plain)
  have *: "c \<in> set (read_name fold_hi n raw)" if "c \<in> set ((unquote_plus ^^ n) raw)" "c \<in> {37, 43}" for c
    unfolding read_name_def using that by (auto intro!: set_casefold set_u_strip simp: u_is_space_def)
  show "37 \<notin> set ((unquote_plus ^^ n) raw)" "43 \<notin> set ((unquote_plus ^^ n) raw)" using assms * by blast+
qed

lemma validate_query_Inr:
  assumes "validate_query fold_hi seen qs = Inr ()"
  shows "(\<forall>q \<in> set qs. \<exists>k v. decode_repeated (fst q) = Inr k \<and> decode_repeated (snd q) = Inr v \<and>
      casefold fold_hi (u_strip k) \<in> PUBLIC_SRT_QUERY_KEYS - seen \<and>
      validate_public_query_value fold_hi (casefold fold_hi (u_strip k)) (u_strip v) = Inr ()) \<and>
    distinct (map (\<lambda>q. read_name fold_hi 8 (fst q)) qs)"
  using assms
proof (induction qs arbitrary: seen)
  case (Cons q qs)
  obtain k v where kv: "decode_repeated (fst q) = Inr k" "decode_repeated (snd q) = Inr v"
    "casefold fold_hi (u_strip k) \<in> PUBLIC_SRT_QUERY_KEYS - seen"
    "validate_public_query_value fold_hi (casefold fold_hi (u_strip k)) (u_strip v) = Inr ()"
    "validate_query fold_hi (insert (casefold fold_hi (u_strip k)) seen) qs = Inr ()"
    using Cons.prems by (cases q) (auto simp: rbind_eq_Inr Let_def)
  have name: "read_name fold_hi 8 (fst p) = casefold fold_hi (u_strip d)" if "decode_repeated (fst p) = Inr d" for p d
    using decoded_names(1) [OF that, of 8] by (simp add: read_name_def)
  show ?case using Cons.IH [OF kv(5)] kv(1-4) name by fastforce
qed simp

text \<open>C22. Secrets cannot hide in an accepted SRT destination: it has no user info, path or fragment; however often
  a reader percent-decodes a query name, it never reads passphrase, and once decoding changes nothing more it
  reads one of the four public names, each at most once, with a value of the public form.\<close>

theorem accepted_srt_url_is_public:
  assumes "validate_destination_url_secret_safety netloc_ok fold_hi url = Inr ()"
    and "urlsplit netloc_ok url = Inr parts" and "casefold fold_hi (up_scheme parts) = cps ''srt''"
  shows "\<not> has_userinfo parts \<and> up_path parts \<in> {[], [47]} \<and> up_fragment parts = [] \<and>
    distinct (map (\<lambda>q. read_name fold_hi 8 (fst q)) (parse_qsl (up_query parts))) \<and>
    (\<forall>q \<in> set (parse_qsl (up_query parts)). \<forall>n.
       read_name fold_hi n (fst q) \<noteq> cps ''passphrase'' \<and>
       (8 \<le> n \<longrightarrow> read_name fold_hi n (fst q) = read_name fold_hi 8 (fst q) \<and>
          read_name fold_hi n (fst q) \<in> PUBLIC_SRT_QUERY_KEYS \<and>
          validate_public_query_value fold_hi (read_name fold_hi n (fst q)) (u_strip ((unquote_plus ^^ n) (snd q))) = Inr ()))"
proof -
  let ?qs = "parse_qsl (up_query parts)"
  have q: "validate_query fold_hi {} ?qs = Inr ()" "\<not> has_userinfo parts" "up_path parts \<in> {[], [47]}" "up_fragment parts = []"
    using assms by (auto simp: validate_destination_url_secret_safety_def rbind_eq_Inr)
  have "read_name fold_hi n (fst p) \<noteq> cps ''passphrase'' \<and>
       (8 \<le> n \<longrightarrow> read_name fold_hi n (fst p) = read_name fold_hi 8 (fst p) \<and>
          read_name fold_hi n (fst p) \<in> PUBLIC_SRT_QUERY_KEYS \<and>
          validate_public_query_value fold_hi (read_name fold_hi n (fst p)) (u_strip ((unquote_plus ^^ n) (snd p))) = Inr ())"
    if p: "p \<in> set ?qs" for p n
  proof -
    obtain k v where k: "decode_repeated (fst p) = Inr k" "decode_repeated (snd p) = Inr v"
      "casefold fold_hi (u_strip k) \<in> PUBLIC_SRT_QUERY_KEYS"
      "validate_public_query_value fold_hi (casefold fold_hi (u_strip k)) (u_strip v) = Inr ()"
      using validate_query_Inr [OF q(1)] p by blast
    have "read_name fold_hi n (fst p) \<noteq> cps ''passphrase''"
    proof
      assume e: "read_name fold_hi n (fst p) = cps ''passphrase''"
      then have "(unquote_plus ^^ n) (fst p) = k"
        by (intro decoded_names(2) [OF k(1)] plain_name_is_stable [where fold_hi = fold_hi]) (simp_all add: cps_def)
      then show False using e k(3) by (simp add: read_name_def PUBLIC_SRT_QUERY_KEYS_def cps_def)
    qed
    then show ?thesis using decoded_names(1) [OF k(1)] decoded_names(1) [OF k(2)] k by (simp add: read_name_def)
  qed
  then show ?thesis using q(2-4) validate_query_Inr [OF q(1)] by blast
qed

definition demo_url :: utext where
  "demo_url = cps ''srt://relay.example:9000?streamid=publish%3Aprobe&latency=200''"

lemma demo_url_facts:
  "validate_destination_url_secret_safety (\<lambda>_. True) (\<lambda>c. [c]) demo_url = Inr ()"
  "case urlsplit (\<lambda>_. True) demo_url of
     Inl e \<Rightarrow> False
   | Inr parts \<Rightarrow> casefold (\<lambda>c. [c]) (up_scheme parts) = cps ''srt'' \<and>
       parse_qsl (up_query parts) = [(cps ''streamid'', cps ''publish:probe''), (cps ''latency'', cps ''200'')]"
  by code_simp+

theorem accepted_srt_url_is_public_witness:
  "\<exists>parts. urlsplit (\<lambda>_. True) demo_url = Inr parts \<and>
     (\<forall>q \<in> set (parse_qsl (up_query parts)). read_name (\<lambda>c. [c]) 0 (fst q) \<noteq> cps ''passphrase'') \<and>
     parse_qsl (up_query parts) \<noteq> []"
proof -
  obtain parts where p: "urlsplit (\<lambda>_. True) demo_url = Inr parts" "casefold (\<lambda>c. [c]) (up_scheme parts) = cps ''srt''"
    "parse_qsl (up_query parts) = [(cps ''streamid'', cps ''publish:probe''), (cps ''latency'', cps ''200'')]"
    using demo_url_facts(2) by (auto split: sum.splits)
  show ?thesis using accepted_srt_url_is_public [OF demo_url_facts(1) p(1,2)] p by (intro exI [of _ parts]) simp
qed

end
