(* ===== verification/Catalog_Store.thy ===== *)
theory Catalog_Store
  imports Asset_Intent Destination_Url Session_State
begin

text \<open>
  The catalog of destinations and standby assets (\<open>catalog_store.py\<close>): the document and its validator, one body
  per operation, run under the exclusive catalog lock, and the verification of a destination, which probes the
  network between two locked steps.

  \<open>url_tables\<close> bundles the two tables of Url_Text.  A fresh UUID, the clock and what a probe answers are arguments.
\<close>

section \<open>The document\<close>

type_synonym url_tables = "(utext \<Rightarrow> bool) \<times> (int \<Rightarrow> utext)"

definition destination_url_ok :: "url_tables \<Rightarrow> string \<Rightarrow> bool" where
  "destination_url_ok tb url = is_ok (validate_destination_url_secret_safety (fst tb) (snd tb) (cps url))"

definition MAX_IMAGE_DIMENSION :: int where
  "MAX_IMAGE_DIMENSION = 16384"

definition cat_string :: "dict \<Rightarrow> string \<Rightarrow> bool" where
  "cat_string item f \<longleftrightarrow> (case as_str (dget item f) of None \<Rightarrow> False | Some s \<Rightarrow> s \<noteq> [])"

definition cat_optional_bool :: "dict \<Rightarrow> string \<Rightarrow> bool" where
  "cat_optional_bool item f \<longleftrightarrow> \<not> dhas item f \<or> as_bool (dget item f) \<noteq> None"

definition catalog_timestamp :: "json \<Rightarrow> err + rat" where
  "catalog_timestamp v =
     (case finite_argument v of
        Inl _ \<Rightarrow> Inl CatalogStateError
      | Inr x \<Rightarrow> if x < 0 then Inl CatalogStateError else Inr x)"

definition cat_timestamp :: "dict \<Rightarrow> string \<Rightarrow> bool" where
  "cat_timestamp item f = is_ok (catalog_timestamp (dget item f))"

definition cat_optional_string :: "dict \<Rightarrow> string \<Rightarrow> bool" where
  "cat_optional_string item f \<longleftrightarrow> dget item f = JNull \<or> as_str (dget item f) \<noteq> None"

definition cat_optional_int :: "int \<Rightarrow> int \<Rightarrow> dict \<Rightarrow> string \<Rightarrow> bool" where
  "cat_optional_int lo hi item f \<longleftrightarrow> dget item f = JNull \<or>
     (case as_int (dget item f) of None \<Rightarrow> False | Some n \<Rightarrow> lo \<le> n \<and> n \<le> hi)"

definition cat_optional_sha256 :: "dict \<Rightarrow> string \<Rightarrow> bool" where
  "cat_optional_sha256 item f \<longleftrightarrow> dget item f = JNull \<or>
     (case as_str (dget item f) of None \<Rightarrow> False | Some s \<Rightarrow> hex64 s)"

definition cat_optional_dict :: "dict \<Rightarrow> string \<Rightarrow> bool" where
  "cat_optional_dict item f \<longleftrightarrow> dget item f = JNull \<or> as_obj (dget item f) \<noteq> None"

definition cat_identity :: "string \<Rightarrow> dict \<Rightarrow> bool" where
  "cat_identity item_id item \<longleftrightarrow> item_id \<noteq> [] \<and> dget item ''id'' = JStr item_id \<and> cat_string item ''user_id''"

definition destination_ok :: "url_tables \<Rightarrow> string \<Rightarrow> json \<Rightarrow> bool" where
  "destination_ok tb destination_id v \<longleftrightarrow>
     (case as_obj v of
        None \<Rightarrow> False
      | Some item \<Rightarrow>
          cat_identity destination_id item \<and> cat_string item ''type'' \<and> cat_string item ''display_name'' \<and>
          cat_string item ''server_url'' \<and> cat_string item ''secret_ref'' \<and>
          (case as_str (dget item ''server_url'') of None \<Rightarrow> False | Some url \<Rightarrow> destination_url_ok tb url) \<and>
          cat_timestamp item ''created_at'' \<and> cat_timestamp item ''updated_at'' \<and> cat_optional_bool item ''enabled'' \<and>
          cat_string item ''verification_status'' \<and>
          dhas item ''last_verified_at'' \<and> (dget item ''last_verified_at'' \<noteq> JNull \<longrightarrow> cat_timestamp item ''last_verified_at'') \<and>
          cat_optional_string item ''last_verification_error'' \<and> cat_optional_dict item ''verification_transport'')"

definition asset_ok :: "string \<Rightarrow> json \<Rightarrow> bool" where
  "asset_ok asset_id v \<longleftrightarrow>
     (case as_obj v of
        None \<Rightarrow> False
      | Some item \<Rightarrow>
          cat_identity asset_id item \<and> cat_string item ''source_object_key'' \<and> cat_string item ''processing_status'' \<and>
          cat_timestamp item ''created_at'' \<and> cat_timestamp item ''updated_at'' \<and>
          cat_optional_string item ''content_type'' \<and> cat_optional_int 1 MAX_UPLOAD_BYTES item ''max_bytes'' \<and>
          cat_optional_int 1 MAX_UPLOAD_BYTES item ''uploaded_size_bytes'' \<and>
          cat_optional_sha256 item ''uploaded_sha256'' \<and> cat_optional_sha256 item ''processed_sha256'' \<and>
          cat_optional_int 1 MAX_IMAGE_DIMENSION item ''processed_width'' \<and>
          cat_optional_int 1 MAX_IMAGE_DIMENSION item ''processed_height'' \<and>
          cat_optional_string item ''failure_reason'' \<and> cat_optional_dict item ''variants'' \<and>
          (dget item ''ready_at'' \<noteq> JNull \<longrightarrow> cat_timestamp item ''ready_at''))"

definition validate_catalog_authority :: "url_tables \<Rightarrow> dict \<Rightarrow> bool" where
  "validate_catalog_authority tb catalog \<longleftrightarrow>
     (case (as_obj (dget catalog ''destinations''), as_obj (dget catalog ''assets'')) of
        (Some ds, Some as) \<Rightarrow> list_all (\<lambda>p. destination_ok tb (fst p) (snd p)) ds \<and> list_all (\<lambda>p. asset_ok (fst p) (snd p)) as
      | _ \<Rightarrow> False)"

definition default_catalog :: dict where
  "default_catalog = [(''destinations'', JObj []), (''assets'', JObj [])]"

definition catalog_decode :: "url_tables \<Rightarrow> json \<Rightarrow> dict option" where
  "catalog_decode tb raw =
     Option.bind (as_obj raw) (\<lambda>catalog. if validate_catalog_authority tb catalog then Some catalog else None)"

definition catalog_encode :: "url_tables \<Rightarrow> dict \<Rightarrow> json option" where
  "catalog_encode tb catalog = (if validate_catalog_authority tb catalog then Some (JObj catalog) else None)"

lemma catalog_decode_encode: "catalog_encode tb catalog = Some doc \<Longrightarrow> catalog_decode tb doc = Some (id catalog)"
  by (auto simp: catalog_encode_def catalog_decode_def split: if_splits)

interpretation cat: authority_codec CatalogStateError default_catalog "catalog_decode tb" "catalog_encode tb" id for tb
  by unfold_locales (rule catalog_decode_encode)

definition catalog_lock :: "url_tables \<Rightarrow> (dict \<Rightarrow> err + ('r \<times> dict option)) \<Rightarrow> authority \<Rightarrow> (err + 'r) \<times> authority" where
  "catalog_lock tb body =
     auth_locked CatalogStateError False default_catalog (catalog_decode tb) (catalog_encode tb) body"

definition ensure_catalog :: "url_tables \<Rightarrow> authority \<Rightarrow> (err + unit) \<times> authority" where
  "ensure_catalog tb fs =
     (if payload_file fs = Missing then
        if was_initialized fs then (Inl CatalogStateError, fs)
        else auth_persist CatalogStateError (\<lambda>d. Some (JObj d)) default_catalog fs
      else (case auth_load CatalogStateError True default_catalog (catalog_decode tb) fs of
              (Inl e, fs) \<Rightarrow> (Inl e, fs) | (Inr _, fs) \<Rightarrow> (Inr (), fs)))"

section \<open>Items and owners\<close>

definition items :: "dict \<Rightarrow> string \<Rightarrow> dict" where
  "items catalog kind = obj_of (dget catalog kind)"

definition item_of :: "dict \<Rightarrow> string \<Rightarrow> string \<Rightarrow> dict option" where
  "item_of catalog kind item_id = as_obj (dget (items catalog kind) item_id)"

definition put_item :: "dict \<Rightarrow> string \<Rightarrow> string \<Rightarrow> dict \<Rightarrow> dict" where
  "put_item catalog kind item_id item = dset catalog kind (JObj (dset (items catalog kind) item_id (JObj item)))"

definition drop_item :: "dict \<Rightarrow> string \<Rightarrow> string \<Rightarrow> dict" where
  "drop_item catalog kind item_id = dset catalog kind (JObj (dpop (items catalog kind) item_id))"

definition get_owned :: "dict \<Rightarrow> string \<Rightarrow> string \<Rightarrow> string \<Rightarrow> err + dict" where
  "get_owned catalog kind item_id user_id =
     (case item_of catalog kind item_id of
        None \<Rightarrow> Inl CatalogNotFound
      | Some item \<Rightarrow> if dget item ''user_id'' = JStr user_id then Inr item else Inl CatalogNotFound)"

definition owned_items :: "dict \<Rightarrow> string \<Rightarrow> string \<Rightarrow> dict list" where
  "owned_items catalog kind user_id =
     filter (\<lambda>item. dget item ''user_id'' = JStr user_id) (map (\<lambda>p. obj_of (snd p)) (items catalog kind))"

section \<open>Destinations\<close>

definition new_destination :: "string \<Rightarrow> string \<Rightarrow> string \<Rightarrow> string \<Rightarrow> string \<Rightarrow> string \<Rightarrow> rat \<Rightarrow> dict" where
  "new_destination item_id user_id ty display_name server_url secret_ref now =
     [(''id'', JStr item_id), (''user_id'', JStr user_id), (''type'', JStr ty), (''display_name'', JStr display_name),
      (''server_url'', JStr server_url), (''secret_ref'', JStr secret_ref), (''enabled'', JBool True),
      (''verification_status'', JStr ''UNVERIFIED''), (''last_verified_at'', JNull), (''last_verification_error'', JNull),
      (''verification_transport'', JNull), (''created_at'', JTime now), (''updated_at'', JTime now)]"

definition create_destination ::
  "url_tables \<Rightarrow> string \<Rightarrow> string \<Rightarrow> string \<Rightarrow> string \<Rightarrow> string \<Rightarrow> string \<Rightarrow> pyfloat \<Rightarrow> authority \<Rightarrow> (err + dict) \<times> authority"
where
  "create_destination tb uuid user_id ty display_name server_url secret_ref clock fs =
     (if \<not> destination_url_ok tb server_url then (Inl CatalogValidationError, fs) else
      catalog_lock tb (\<lambda>catalog.
        rbind (catalog_timestamp (JFloat clock)) (\<lambda>now.
        let item = new_destination uuid user_id ty display_name server_url secret_ref now
        in Inr (item, Some (put_item catalog ''destinations'' uuid item)))) fs)"

definition list_destinations :: "url_tables \<Rightarrow> string \<Rightarrow> authority \<Rightarrow> (err + dict list) \<times> authority" where
  "list_destinations tb user_id = catalog_lock tb (\<lambda>catalog. Inr (owned_items catalog ''destinations'' user_id, None))"

definition get_destination :: "url_tables \<Rightarrow> string \<Rightarrow> string \<Rightarrow> authority \<Rightarrow> (err + dict) \<times> authority" where
  "get_destination tb destination_id user_id = catalog_lock tb (\<lambda>catalog.
     rbind (get_owned catalog ''destinations'' destination_id user_id) (\<lambda>item. Inr (item, None)))"

definition set_if :: "string \<Rightarrow> json option \<Rightarrow> dict \<Rightarrow> dict" where
  "set_if f v item = (case v of None \<Rightarrow> item | Some x \<Rightarrow> dset item f x)"

definition reset_verification :: "dict \<Rightarrow> dict" where
  "reset_verification item = dupdate item
     [(''verification_status'', JStr ''UNVERIFIED''), (''last_verified_at'', JNull), (''last_verification_error'', JNull),
      (''verification_transport'', JNull)]"

definition updated_destination ::
  "string option \<Rightarrow> string option \<Rightarrow> string option \<Rightarrow> bool option \<Rightarrow> rat \<Rightarrow> dict \<Rightarrow> dict"
where
  "updated_destination display_name server_url secret_ref enabled now item =
     (let item = set_if ''display_name'' (map_option JStr display_name) item;
          item = (case server_url of
             None \<Rightarrow> item
           | Some url \<Rightarrow> dset (if JStr url \<noteq> dget item ''server_url'' then reset_verification item else item) ''server_url'' (JStr url));
          item = set_if ''secret_ref'' (map_option JStr secret_ref) item;
          item = set_if ''enabled'' (map_option JBool enabled) item
      in dset item ''updated_at'' (JTime now))"

definition update_destination ::
  "url_tables \<Rightarrow> string \<Rightarrow> string \<Rightarrow> string option \<Rightarrow> string option \<Rightarrow> string option \<Rightarrow> bool option \<Rightarrow> pyfloat
    \<Rightarrow> authority \<Rightarrow> (err + dict) \<times> authority"
where
  "update_destination tb destination_id user_id display_name server_url secret_ref enabled clock fs =
     (if (case server_url of None \<Rightarrow> False | Some url \<Rightarrow> \<not> destination_url_ok tb url)
      then (Inl CatalogValidationError, fs) else
      catalog_lock tb (\<lambda>catalog.
        rbind (get_owned catalog ''destinations'' destination_id user_id) (\<lambda>item.
        rbind (catalog_timestamp (JFloat clock)) (\<lambda>now.
        let item = updated_destination display_name server_url secret_ref enabled now item
        in Inr (item, Some (put_item catalog ''destinations'' destination_id item))))) fs)"

definition delete_destination :: "url_tables \<Rightarrow> string \<Rightarrow> string \<Rightarrow> authority \<Rightarrow> (err + unit) \<times> authority" where
  "delete_destination tb destination_id user_id = catalog_lock tb (\<lambda>catalog.
     rbind (get_owned catalog ''destinations'' destination_id user_id) (\<lambda>_.
     Inr ((), Some (drop_item catalog ''destinations'' destination_id))))"

section \<open>Verification\<close>

text \<open>What the first locked step takes along: the URL and the type in lower case.\<close>

record snapshot =
  sn_url :: string
  sn_type :: string

definition str_field :: "dict \<Rightarrow> string \<Rightarrow> string" where
  "str_field item f = (case as_str (dget item f) of None \<Rightarrow> [] | Some s \<Rightarrow> s)"

definition verify_snapshot :: "url_tables \<Rightarrow> string \<Rightarrow> string \<Rightarrow> authority \<Rightarrow> (err + snapshot) \<times> authority" where
  "verify_snapshot tb destination_id user_id = catalog_lock tb (\<lambda>catalog.
     rbind (get_owned catalog ''destinations'' destination_id user_id) (\<lambda>item.
     Inr (\<lparr>sn_url = str_field item ''server_url'', sn_type = py_lower (str_field item ''type'')\<rparr>, None)))"

text \<open>The answer of the probe: a result, a DestinationProbeError with its text, or any other exception.\<close>

record probe_result =
  pr_protocol :: string
  pr_peer_ip :: json
  pr_peer_port :: json
  pr_elapsed_ms :: json

datatype probe_answer = ProbeOk probe_result | ProbeRefused string | ProbeRaised

definition failed_destination :: "string \<Rightarrow> rat \<Rightarrow> dict \<Rightarrow> dict" where
  "failed_destination reason now item = dupdate item
     [(''verification_status'', JStr ''FAILED''), (''last_verification_error'', JStr (take 200 reason)),
      (''verification_transport'', JNull), (''updated_at'', JTime now)]"

definition record_verification_failure ::
  "url_tables \<Rightarrow> string \<Rightarrow> string \<Rightarrow> string \<Rightarrow> string \<Rightarrow> pyfloat \<Rightarrow> authority \<Rightarrow> (err + unit) \<times> authority"
where
  "record_verification_failure tb destination_id user_id expected_url reason clock = catalog_lock tb (\<lambda>catalog.
     rbind (get_owned catalog ''destinations'' destination_id user_id) (\<lambda>item.
     if dget item ''server_url'' \<noteq> JStr expected_url then Inr ((), None) else
     rbind (catalog_timestamp (JFloat clock)) (\<lambda>now.
     Inr ((), Some (put_item catalog ''destinations'' destination_id (failed_destination reason now item))))))"

definition verification_failed ::
  "url_tables \<Rightarrow> string \<Rightarrow> string \<Rightarrow> snapshot \<Rightarrow> string \<Rightarrow> pyfloat \<Rightarrow> authority \<Rightarrow> (err + dict) \<times> authority"
where
  "verification_failed tb destination_id user_id sn reason clock fs =
     (case record_verification_failure tb destination_id user_id (sn_url sn) reason clock fs of
        (Inl e, fs) \<Rightarrow> (Inl e, fs) | (Inr _, fs) \<Rightarrow> (Inl CatalogVerifyFailed, fs))"

definition transport_record :: "probe_result \<Rightarrow> json" where
  "transport_record result =
     JObj [(''protocol'', JStr (pr_protocol result)), (''peer_ip'', pr_peer_ip result), (''peer_port'', pr_peer_port result),
           (''elapsed_ms'', pr_elapsed_ms result)]"

definition verified_destination :: "probe_result \<Rightarrow> rat \<Rightarrow> dict \<Rightarrow> dict" where
  "verified_destination result now item = dupdate item
     [(''verification_status'', JStr ''VERIFIED''), (''last_verified_at'', JTime now), (''last_verification_error'', JNull),
      (''verification_transport'', transport_record result), (''updated_at'', JTime now)]"

definition record_verification ::
  "url_tables \<Rightarrow> string \<Rightarrow> string \<Rightarrow> snapshot \<Rightarrow> probe_result \<Rightarrow> pyfloat \<Rightarrow> authority \<Rightarrow> (err + dict) \<times> authority"
where
  "record_verification tb destination_id user_id sn result clock = catalog_lock tb (\<lambda>catalog.
     rbind (get_owned catalog ''destinations'' destination_id user_id) (\<lambda>current.
     if dget current ''server_url'' \<noteq> JStr (sn_url sn) then Inl CatalogVerifyFailed else
     rbind (catalog_timestamp (JFloat clock)) (\<lambda>now.
     let current = verified_destination result now current in Inr (current, Some (put_item catalog ''destinations'' destination_id current)))))"

text \<open>
  The rest of \<open>verify_destination\<close>, from the snapshot and the answer of the probe: it runs on whatever the
  catalog has become meanwhile.
\<close>

definition verify_finish ::
  "url_tables \<Rightarrow> string \<Rightarrow> string \<Rightarrow> snapshot \<Rightarrow> probe_answer \<Rightarrow> pyfloat \<Rightarrow> authority \<Rightarrow> (err + dict) \<times> authority"
where
  "verify_finish tb destination_id user_id sn answer clock fs =
     (case urlsplit (fst tb) (cps (sn_url sn)) of
        Inl e \<Rightarrow> (Inl e, fs)
      | Inr parts \<Rightarrow>
          if up_scheme parts \<noteq> cps (sn_type sn) then
            verification_failed tb destination_id user_id sn ''destination type does not match server URL scheme'' clock fs
          else
            (case answer of
               ProbeRefused text \<Rightarrow> verification_failed tb destination_id user_id sn text clock fs
             | ProbeRaised \<Rightarrow> verification_failed tb destination_id user_id sn ''destination verification failed'' clock fs
             | ProbeOk result \<Rightarrow>
                 if py_lower (pr_protocol result) \<noteq> sn_type sn then
                   verification_failed tb destination_id user_id sn
                     ''destination probe protocol does not match destination type'' clock fs
                 else record_verification tb destination_id user_id sn result clock fs))"

text \<open>\<open>verify_destination\<close>; \<open>others\<close> is what happens to the catalog during the probe.\<close>

definition verify_destination ::
  "url_tables \<Rightarrow> (string \<Rightarrow> probe_answer) \<Rightarrow> (authority \<Rightarrow> authority) \<Rightarrow> string \<Rightarrow> string \<Rightarrow> pyfloat \<Rightarrow> authority \<Rightarrow> (err + dict) \<times> authority"
where
  "verify_destination tb probe others destination_id user_id clock fs =
     (case verify_snapshot tb destination_id user_id fs of
        (Inl e, fs) \<Rightarrow> (Inl e, fs)
      | (Inr sn, fs) \<Rightarrow> verify_finish tb destination_id user_id sn (probe (sn_url sn)) clock (others fs))"

section \<open>Assets\<close>

definition new_asset :: "string \<Rightarrow> string \<Rightarrow> string \<Rightarrow> rat \<Rightarrow> dict" where
  "new_asset asset_id user_id object_key now =
     [(''id'', JStr asset_id), (''user_id'', JStr user_id), (''source_object_key'', JStr object_key),
      (''processing_status'', JStr ''PENDING''), (''created_at'', JTime now), (''updated_at'', JTime now)]"

definition create_asset :: "url_tables \<Rightarrow> string \<Rightarrow> string \<Rightarrow> string \<Rightarrow> pyfloat \<Rightarrow> authority \<Rightarrow> (err + dict) \<times> authority" where
  "create_asset tb uuid user_id object_key clock = catalog_lock tb (\<lambda>catalog.
     rbind (catalog_timestamp (JFloat clock)) (\<lambda>now.
     let item = new_asset uuid user_id object_key now in Inr (item, Some (put_item catalog ''assets'' uuid item))))"

definition list_assets :: "url_tables \<Rightarrow> string \<Rightarrow> authority \<Rightarrow> (err + dict list) \<times> authority" where
  "list_assets tb user_id = catalog_lock tb (\<lambda>catalog. Inr (owned_items catalog ''assets'' user_id, None))"

definition get_asset :: "url_tables \<Rightarrow> string \<Rightarrow> string \<Rightarrow> authority \<Rightarrow> (err + dict) \<times> authority" where
  "get_asset tb asset_id user_id = catalog_lock tb (\<lambda>catalog.
     rbind (get_owned catalog ''assets'' asset_id user_id) (\<lambda>item. Inr (item, None)))"

definition delete_asset :: "url_tables \<Rightarrow> string \<Rightarrow> string \<Rightarrow> authority \<Rightarrow> (err + unit) \<times> authority" where
  "delete_asset tb asset_id user_id = catalog_lock tb (\<lambda>catalog.
     rbind (get_owned catalog ''assets'' asset_id user_id) (\<lambda>_.
     Inr ((), Some (drop_item catalog ''assets'' asset_id))))"

text \<open>\<open>except (AssetUploadIntentError, ...): raise CatalogValidationError\<close>\<close>

definition as_validation_error :: "(err + 'a) \<times> authority \<Rightarrow> (err + 'a) \<times> authority" where
  "as_validation_error r = (if fst r = Inl AssetUploadIntentError then (Inl CatalogValidationError, snd r) else r)"

definition new_upload :: "string \<Rightarrow> string \<Rightarrow> string \<Rightarrow> string \<Rightarrow> rat \<Rightarrow> dict" where
  "new_upload asset_id user_id key normalized_type now =
     [(''id'', JStr asset_id), (''user_id'', JStr user_id), (''source_object_key'', JStr key),
      (''processing_status'', JStr ''UPLOADING''), (''content_type'', JStr normalized_type),
      (''max_bytes'', JInt MAX_UPLOAD_BYTES), (''created_at'', JTime now), (''updated_at'', JTime now)]"

definition create_asset_upload_intent ::
  "url_tables \<Rightarrow> string \<Rightarrow> string \<Rightarrow> json \<Rightarrow> pyfloat \<Rightarrow> authority \<Rightarrow> (err + dict) \<times> authority"
where
  "create_asset_upload_intent tb uuid user_id content_type clock fs =
     (case normalize_image_content_type content_type of
        Inl _ \<Rightarrow> (Inl CatalogValidationError, fs)
      | Inr normalized_type \<Rightarrow>
          as_validation_error (catalog_lock tb (\<lambda>catalog.
            rbind (catalog_timestamp (JFloat clock)) (\<lambda>now.
            rbind (source_object_key (JStr user_id) (JStr uuid)) (\<lambda>key.
            let item = new_upload uuid user_id key normalized_type now in Inr (item, Some (put_item catalog ''assets'' uuid item))))) fs))"

definition uploaded_asset :: "upload_completion \<Rightarrow> rat \<Rightarrow> dict \<Rightarrow> dict" where
  "uploaded_asset completion now asset = dupdate asset
     [(''processing_status'', JStr ''PROCESSING''), (''uploaded_size_bytes'', JInt (uc_size_bytes completion)),
      (''uploaded_sha256'', JStr (uc_sha256 completion)), (''updated_at'', JTime now)]"

definition complete_asset_upload ::
  "url_tables \<Rightarrow> string \<Rightarrow> string \<Rightarrow> json \<Rightarrow> json \<Rightarrow> json \<Rightarrow> json \<Rightarrow> pyfloat \<Rightarrow> authority \<Rightarrow> (err + dict) \<times> authority"
where
  "complete_asset_upload tb asset_id user_id content_type object_key size_bytes sha256 clock fs =
     (case normalize_image_content_type content_type of
        Inl _ \<Rightarrow> (Inl CatalogValidationError, fs)
      | Inr normalized_type \<Rightarrow>
          as_validation_error (catalog_lock tb (\<lambda>catalog.
            rbind (get_owned catalog ''assets'' asset_id user_id) (\<lambda>asset.
            rbind (require CatalogValidationError (dget asset ''processing_status'' = JStr ''UPLOADING'')) (\<lambda>_.
            rbind (require CatalogValidationError (dget asset ''content_type'' = JStr normalized_type)) (\<lambda>_.
            rbind (validate_upload_completion (JStr user_id) (JStr asset_id) (JStr normalized_type) object_key size_bytes sha256)
              (\<lambda>completion.
            rbind (require CatalogValidationError
               (is_owner_bound_source_object_key (JStr user_id) (JStr asset_id) (dget asset ''source_object_key''))) (\<lambda>_.
            rbind (catalog_timestamp (JFloat clock)) (\<lambda>now.
            let asset = uploaded_asset completion now asset in Inr (asset, Some (put_item catalog ''assets'' asset_id asset))))))))) fs))"

text \<open>
  \<open>complete_asset_processing\<close>: without a failure reason it always raises, so the promotion to READY behind
  that raise is never reached; \<open>failure_reason\<close> is JSON, null when absent.
\<close>

definition processing_arguments_ok :: "json \<Rightarrow> json \<Rightarrow> json \<Rightarrow> json \<Rightarrow> bool" where
  "processing_arguments_ok processed_sha256 processed_width processed_height failure_reason \<longleftrightarrow>
     (failure_reason \<noteq> JNull \<longrightarrow> (case as_str failure_reason of None \<Rightarrow> False | Some s \<Rightarrow> py_strip s \<noteq> [])) \<and>
     (processed_sha256 \<noteq> JNull \<longrightarrow> (case as_str processed_sha256 of None \<Rightarrow> False | Some s \<Rightarrow> hex64 s)) \<and>
     (processed_width \<noteq> JNull \<longrightarrow> (case as_int processed_width of None \<Rightarrow> False | Some n \<Rightarrow> 1 \<le> n \<and> n \<le> MAX_IMAGE_DIMENSION)) \<and>
     (processed_height \<noteq> JNull \<longrightarrow> (case as_int processed_height of None \<Rightarrow> False | Some n \<Rightarrow> 1 \<le> n \<and> n \<le> MAX_IMAGE_DIMENSION))"

definition failed_asset :: "string \<Rightarrow> rat \<Rightarrow> dict \<Rightarrow> dict" where
  "failed_asset reason now asset = dupdate asset
     [(''processing_status'', JStr ''FAILED''), (''failure_reason'', JStr (take 500 (py_strip reason))), (''updated_at'', JTime now)]"

definition complete_asset_processing ::
  "url_tables \<Rightarrow> string \<Rightarrow> string \<Rightarrow> json \<Rightarrow> json \<Rightarrow> json \<Rightarrow> json \<Rightarrow> pyfloat \<Rightarrow> authority \<Rightarrow> (err + dict) \<times> authority"
where
  "complete_asset_processing tb asset_id user_id processed_sha256 processed_width processed_height failure_reason clock fs =
     (if \<not> processing_arguments_ok processed_sha256 processed_width processed_height failure_reason
      then (Inl CatalogValidationError, fs) else
      catalog_lock tb (\<lambda>catalog.
        rbind (get_owned catalog ''assets'' asset_id user_id) (\<lambda>asset.
        rbind (require CatalogValidationError (dget asset ''processing_status'' = JStr ''PROCESSING'')) (\<lambda>_.
        rbind (catalog_timestamp (JFloat clock)) (\<lambda>now.
        case as_str failure_reason of
          Some reason \<Rightarrow>
            let asset = failed_asset reason now asset in Inr (asset, Some (put_item catalog ''assets'' asset_id asset))
        | None \<Rightarrow> Inl CatalogValidationError)))) fs)"

definition fail_asset_processing :: "url_tables \<Rightarrow> string \<Rightarrow> string \<Rightarrow> string \<Rightarrow> pyfloat \<Rightarrow> authority \<Rightarrow> (err + dict) \<times> authority" where
  "fail_asset_processing tb asset_id user_id reason =
     complete_asset_processing tb asset_id user_id JNull JNull JNull (JStr reason)"

end
