(* ===== verification/Catalog_Safety.thy ===== *)
theory Catalog_Safety
  imports Catalog_Store
begin

text \<open>
  What the catalog promises over any interleaving of its calls: users are isolated from one another, a VERIFIED
  destination is one whose present URL was probed, and an asset only moves forward and never becomes READY.
\<close>

section \<open>Calls\<close>

text \<open>
  A verification is two steps, the snapshot and the rest, with any other calls between them; the snapshot is kept
  by the request in progress, named by a number.
\<close>

datatype (plugins only: code) catalog_call =
    CreateDestination string string string string string string pyfloat
  | UpdateDestination string string "string option" "string option" "string option" "bool option" pyfloat
  | DeleteDestination string string
  | VerifyBegin nat string string
  | VerifyEnd nat probe_answer pyfloat
  | CreateAsset string string string pyfloat
  | UploadIntent string string json pyfloat
  | UploadComplete string string json json json json pyfloat
  | ProcessingComplete string string json json json json pyfloat
  | DeleteAsset string string

text \<open>The files, the requests in progress and, as a ghost, the URLs that were probed with their answers.\<close>

record catalog_world =
  cw_files :: authority
  cw_pending :: "(nat \<times> string \<times> string \<times> snapshot) list"
  cw_probed :: "(string \<times> probe_answer) list"

definition files_step :: "((err + 'r) \<times> authority) \<Rightarrow> catalog_world \<Rightarrow> catalog_world" where
  "files_step r w = w\<lparr>cw_files := snd r\<rparr>"

fun run_catalog_call :: "url_tables \<Rightarrow> catalog_call \<Rightarrow> catalog_world \<Rightarrow> catalog_world" where
  "run_catalog_call tb (CreateDestination uuid u ty name url ref clock) w =
     files_step (create_destination tb uuid u ty name url ref clock (cw_files w)) w"
| "run_catalog_call tb (UpdateDestination did u name url ref enabled clock) w =
     files_step (update_destination tb did u name url ref enabled clock (cw_files w)) w"
| "run_catalog_call tb (DeleteDestination did u) w = files_step (delete_destination tb did u (cw_files w)) w"
| "run_catalog_call tb (VerifyBegin k did u) w =
     (case verify_snapshot tb did u (cw_files w) of
        (Inl e, fs) \<Rightarrow> w\<lparr>cw_files := fs\<rparr>
      | (Inr sn, fs) \<Rightarrow> w\<lparr>cw_files := fs, cw_pending := (k, did, u, sn) # cw_pending w\<rparr>)"
| "run_catalog_call tb (VerifyEnd k answer clock) w =
     (case map_of (cw_pending w) k of
        None \<Rightarrow> w
      | Some (did, u, sn) \<Rightarrow>
          w\<lparr>cw_files := snd (verify_finish tb did u sn answer clock (cw_files w)), cw_probed := (sn_url sn, answer) # cw_probed w\<rparr>)"
| "run_catalog_call tb (CreateAsset uuid u key clock) w = files_step (create_asset tb uuid u key clock (cw_files w)) w"
| "run_catalog_call tb (UploadIntent uuid u ct clock) w = files_step (create_asset_upload_intent tb uuid u ct clock (cw_files w)) w"
| "run_catalog_call tb (UploadComplete aid u ct key size_bytes sha clock) w =
     files_step (complete_asset_upload tb aid u ct key size_bytes sha clock (cw_files w)) w"
| "run_catalog_call tb (ProcessingComplete aid u sha width height reason clock) w =
     files_step (complete_asset_processing tb aid u sha width height reason clock (cw_files w)) w"
| "run_catalog_call tb (DeleteAsset aid u) w = files_step (delete_asset tb aid u (cw_files w)) w"

primrec run_catalog :: "url_tables \<Rightarrow> catalog_call list \<Rightarrow> catalog_world \<Rightarrow> catalog_world" where
  "run_catalog tb [] w = w"
| "run_catalog tb (c # cs) w = run_catalog tb cs (run_catalog_call tb c w)"

text \<open>The contents as a reader sees them.\<close>

definition catalog_of :: "url_tables \<Rightarrow> authority \<Rightarrow> dict option" where
  "catalog_of tb fs = auth_contents default_catalog (catalog_decode tb) fs"

section \<open>Items of an updated catalog\<close>

lemma items_put_item [simp]:
  "items (put_item catalog kind item_id item) kind' =
     (if kind' = kind then dset (items catalog kind) item_id (JObj item) else items catalog kind')"
  by (simp add: items_def put_item_def obj_of_def)

lemma items_drop_item [simp]:
  "items (drop_item catalog kind item_id) kind' =
     (if kind' = kind then dpop (items catalog kind) item_id else items catalog kind')"
  by (simp add: items_def drop_item_def obj_of_def)

lemma item_of_put_item [simp]:
  "item_of (put_item catalog kind item_id item) kind' k =
     (if kind' = kind \<and> k = item_id then Some item else item_of catalog kind' k)"
  by (simp add: item_of_def)

lemma item_of_drop_item [simp]:
  "item_of (drop_item catalog kind item_id) kind' k =
     (if kind' = kind \<and> k = item_id then None else item_of catalog kind' k)"
  by (simp add: item_of_def dget_def)

lemma get_owned_Inr [simp]:
  "get_owned catalog kind item_id u = Inr item \<longleftrightarrow> item_of catalog kind item_id = Some item \<and> dget item ''user_id'' = JStr u"
  by (auto simp: get_owned_def split: option.splits)

section \<open>One step of the document\<close>

text \<open>
  How a call changes the document of the catalog: not at all, by a new item, by a new version of an item of the
  caller, or by dropping an item of the caller.
\<close>

inductive catalog_step :: "url_tables \<Rightarrow> dict \<Rightarrow> catalog_call \<Rightarrow> catalog_world \<Rightarrow> dict \<Rightarrow> bool" for tb catalog where
  same: "catalog_step tb catalog c w catalog"
| new_destination: "catalog_step tb catalog (CreateDestination uuid u ty name url ref clock) w
    (put_item catalog ''destinations'' uuid (new_destination uuid u ty name url ref now))"
| update_destination: "item_of catalog ''destinations'' did = Some item \<Longrightarrow> dget item ''user_id'' = JStr u \<Longrightarrow>
    catalog_step tb catalog (UpdateDestination did u name url ref enabled clock) w
      (put_item catalog ''destinations'' did (updated_destination name url ref enabled now item))"
| drop_destination: "item_of catalog ''destinations'' did = Some item \<Longrightarrow> dget item ''user_id'' = JStr u \<Longrightarrow>
    catalog_step tb catalog (DeleteDestination did u) w (drop_item catalog ''destinations'' did)"
| verified: "map_of (cw_pending w) k = Some (did, u, sn) \<Longrightarrow>
    item_of catalog ''destinations'' did = Some item \<Longrightarrow> dget item ''user_id'' = JStr u \<Longrightarrow>
    dget item ''server_url'' = JStr (sn_url sn) \<Longrightarrow> answer = ProbeOk result \<Longrightarrow> py_lower (pr_protocol result) = sn_type sn \<Longrightarrow>
    urlsplit (fst tb) (cps (sn_url sn)) = Inr parts \<Longrightarrow> up_scheme parts = cps (sn_type sn) \<Longrightarrow>
    catalog_step tb catalog (VerifyEnd k answer clock) w (put_item catalog ''destinations'' did (verified_destination result now item))"
| failed: "map_of (cw_pending w) k = Some (did, u, sn) \<Longrightarrow>
    item_of catalog ''destinations'' did = Some item \<Longrightarrow> dget item ''user_id'' = JStr u \<Longrightarrow>
    catalog_step tb catalog (VerifyEnd k answer clock) w (put_item catalog ''destinations'' did (failed_destination reason now item))"
| new_asset: "catalog_step tb catalog (CreateAsset uuid u key clock) w (put_item catalog ''assets'' uuid (new_asset uuid u key now))"
| new_upload: "source_object_key (JStr u) (JStr uuid) = Inr key \<Longrightarrow>
    catalog_step tb catalog (UploadIntent uuid u content_type clock) w (put_item catalog ''assets'' uuid (new_upload uuid u key ct now))"
| uploaded: "item_of catalog ''assets'' aid = Some item \<Longrightarrow> dget item ''user_id'' = JStr u \<Longrightarrow>
    dget item ''processing_status'' = JStr ''UPLOADING'' \<Longrightarrow>
    validate_upload_completion (JStr u) (JStr aid) v key size_bytes sha = Inr completion \<Longrightarrow>
    is_owner_bound_source_object_key (JStr u) (JStr aid) (dget item ''source_object_key'') \<Longrightarrow>
    catalog_step tb catalog (UploadComplete aid u ct key size_bytes sha clock) w
      (put_item catalog ''assets'' aid (uploaded_asset completion now item))"
| processing_failed: "item_of catalog ''assets'' aid = Some item \<Longrightarrow> dget item ''user_id'' = JStr u \<Longrightarrow>
    dget item ''processing_status'' = JStr ''PROCESSING'' \<Longrightarrow>
    catalog_step tb catalog (ProcessingComplete aid u psha pw ph reason clock) w
      (put_item catalog ''assets'' aid (failed_asset text now item))"
| drop_asset: "item_of catalog ''assets'' aid = Some item \<Longrightarrow> dget item ''user_id'' = JStr u \<Longrightarrow>
    catalog_step tb catalog (DeleteAsset aid u) w (drop_item catalog ''assets'' aid)"

text \<open>A locked body whose every written document is a step leaves a readable catalog, one step on.\<close>

definition readable :: "url_tables \<Rightarrow> authority \<Rightarrow> dict \<Rightarrow> bool" where
  "readable tb fs catalog \<longleftrightarrow> marker fs \<noteq> OtherMarker \<and> catalog_of tb fs = Some catalog"

lemma catalog_lock_step:
  assumes "readable tb fs catalog" and "R catalog" and "\<And>v n. body catalog = Inr (v, Some n) \<Longrightarrow> R n"
  shows "\<exists>catalog'. readable tb (snd (catalog_lock tb body fs)) catalog' \<and> R catalog'"
  using cat.locked_rel [of fs tb catalog False body "fst (catalog_lock tb body fs)" "snd (catalog_lock tb body fs)" R] assms
  by (auto simp: readable_def catalog_of_def catalog_lock_def)

lemma as_validation_error_files [simp]: "snd (as_validation_error r) = snd r"
  by (simp add: as_validation_error_def)

lemma verify_finish_step:
  assumes "readable tb fs catalog" and "map_of (cw_pending w) k = Some (did, u, sn)"
  shows "\<exists>catalog'. readable tb (snd (verify_finish tb did u sn answer clock fs)) catalog' \<and>
    catalog_step tb catalog (VerifyEnd k answer clock) w catalog'"
proof -
  have fail: "\<exists>catalog'. readable tb (snd (verification_failed tb did u sn reason clock fs)) catalog' \<and>
      catalog_step tb catalog (VerifyEnd k answer clock) w catalog'" for reason
  proof -
    have "\<exists>catalog'. readable tb (snd (record_verification_failure tb did u (sn_url sn) reason clock fs)) catalog' \<and>
        catalog_step tb catalog (VerifyEnd k answer clock) w catalog'"
      unfolding record_verification_failure_def
      by (rule catalog_lock_step [OF assms(1)])
        (auto simp: rbind_eq_Inr Let_def split: if_splits intro: catalog_step.same catalog_step.failed [OF assms(2)])
    then show ?thesis
      by (cases "record_verification_failure tb did u (sn_url sn) reason clock fs") (auto simp: verification_failed_def split: sum.split)
  qed
  show ?thesis
  proof (cases "urlsplit (fst tb) (cps (sn_url sn))")
    case (Inl e)
    then show ?thesis using assms(1) by (auto simp: verify_finish_def intro: catalog_step.same)
  next
    case parts: (Inr parts)
    show ?thesis
    proof (cases "\<exists>result. answer = ProbeOk result \<and> up_scheme parts = cps (sn_type sn) \<and> py_lower (pr_protocol result) = sn_type sn")
      case True
      then obtain result where r: "answer = ProbeOk result" "up_scheme parts = cps (sn_type sn)" "py_lower (pr_protocol result) = sn_type sn"
        by blast
      have "\<exists>catalog'. readable tb (snd (record_verification tb did u sn result clock fs)) catalog' \<and>
          catalog_step tb catalog (VerifyEnd k answer clock) w catalog'"
        unfolding record_verification_def
        by (rule catalog_lock_step [OF assms(1)])
          (auto simp: rbind_eq_Inr Let_def split: if_splits
            intro: catalog_step.same catalog_step.verified [OF assms(2) _ _ _ r(1,3) parts r(2)])
      then show ?thesis using parts r by (simp add: verify_finish_def)
    next
      case False
      then show ?thesis using parts fail by (cases answer) (auto simp: verify_finish_def)
    qed
  qed
qed


lemma run_catalog_call_step:
  assumes "readable tb (cw_files w) catalog"
  shows "\<exists>catalog'. readable tb (cw_files (run_catalog_call tb c w)) catalog' \<and> catalog_step tb catalog c w catalog'"
proof (cases c)
  case (CreateDestination uuid u ty name url ref clock)
  show ?thesis unfolding CreateDestination run_catalog_call.simps files_step_def create_destination_def
    using assms by (auto simp: rbind_eq_Inr Let_def intro!: catalog_lock_step [OF assms]
      intro: catalog_step.same catalog_step.new_destination)
next
  case (UpdateDestination did u name url ref enabled clock)
  show ?thesis unfolding UpdateDestination run_catalog_call.simps files_step_def update_destination_def
    using assms by (auto simp: rbind_eq_Inr Let_def intro!: catalog_lock_step [OF assms]
      intro: catalog_step.same catalog_step.update_destination)
next
  case (DeleteDestination did u)
  show ?thesis unfolding DeleteDestination run_catalog_call.simps files_step_def delete_destination_def
    using assms by (auto simp: rbind_eq_Inr intro!: catalog_lock_step [OF assms]
      intro: catalog_step.same catalog_step.drop_destination)
next
  case (VerifyBegin k did u)
  have "\<exists>catalog'. readable tb (snd (verify_snapshot tb did u (cw_files w))) catalog' \<and> catalog_step tb catalog c w catalog'"
    unfolding verify_snapshot_def
    by (rule catalog_lock_step [OF assms]) (auto simp: rbind_eq_Inr intro: catalog_step.same)
  then show ?thesis unfolding VerifyBegin run_catalog_call.simps by (auto split: prod.split sum.split)
next
  case (VerifyEnd k answer clock)
  show ?thesis
  proof (cases "map_of (cw_pending w) k")
    case (Some p)
    obtain did u sn where "p = (did, u, sn)" by (cases p) auto
    then show ?thesis using verify_finish_step [OF assms, of w k did u sn answer clock] Some by (simp add: VerifyEnd)
  qed (use assms in \<open>auto simp: VerifyEnd intro: catalog_step.same\<close>)
next
  case (CreateAsset uuid u key clock)
  show ?thesis unfolding CreateAsset run_catalog_call.simps files_step_def create_asset_def
    using assms by (auto simp: rbind_eq_Inr Let_def intro!: catalog_lock_step [OF assms]
      intro: catalog_step.same catalog_step.new_asset)
next
  case (UploadIntent uuid u ct clock)
  show ?thesis unfolding UploadIntent run_catalog_call.simps files_step_def create_asset_upload_intent_def
    using assms by (auto simp: rbind_eq_Inr Let_def split: sum.split intro!: catalog_lock_step [OF assms]
      intro: catalog_step.same catalog_step.new_upload)
next
  case (UploadComplete aid u ct key size_bytes sha clock)
  show ?thesis unfolding UploadComplete run_catalog_call.simps files_step_def complete_asset_upload_def
    using assms by (auto simp: rbind_eq_Inr Let_def split: sum.split intro!: catalog_lock_step [OF assms]
      intro: catalog_step.same catalog_step.uploaded)
next
  case (ProcessingComplete aid u psha pw ph reason clock)
  show ?thesis unfolding ProcessingComplete run_catalog_call.simps files_step_def complete_asset_processing_def
    using assms by (auto simp: rbind_eq_Inr Let_def split: option.splits intro!: catalog_lock_step [OF assms]
        catalog_step.processing_failed intro: catalog_step.same)
next
  case (DeleteAsset aid u)
  show ?thesis unfolding DeleteAsset run_catalog_call.simps files_step_def delete_asset_def
    using assms by (auto simp: rbind_eq_Inr intro!: catalog_lock_step [OF assms]
      intro: catalog_step.same catalog_step.drop_asset)
qed


text \<open>An invariant of the document that every step keeps holds after any run.\<close>

lemma run_catalog_invariant:
  assumes "readable tb (cw_files w) d" and "I w d"
    and keep: "\<And>c w d d'. c \<in> set calls \<Longrightarrow> I w d \<Longrightarrow> readable tb (cw_files w) d \<Longrightarrow> catalog_step tb d c w d' \<Longrightarrow>
      readable tb (cw_files (run_catalog_call tb c w)) d' \<Longrightarrow> I (run_catalog_call tb c w) d'"
  shows "\<exists>d'. readable tb (cw_files (run_catalog tb calls w)) d' \<and> I (run_catalog tb calls w) d'"
  using assms
proof (induction calls arbitrary: w d)
  case (Cons c calls)
  obtain d' where d': "readable tb (cw_files (run_catalog_call tb c w)) d'" "catalog_step tb d c w d'"
    using run_catalog_call_step [OF Cons.prems(1)] by blast
  have "I (run_catalog_call tb c w) d'" by (rule Cons.prems(3) [OF _ Cons.prems(2,1) d'(2,1)]) simp
  then show ?case using Cons.IH [OF d'(1)] Cons.prems(3) by simp
qed auto

section \<open>Verified destinations\<close>

definition probed_destination :: "url_tables \<Rightarrow> (string \<times> probe_answer) list \<Rightarrow> dict \<Rightarrow> bool" where
  "probed_destination tb probed item \<longleftrightarrow>
     (dget item ''verification_status'' = JStr ''VERIFIED'' \<longrightarrow>
      (\<exists>url result parts. dget item ''server_url'' = JStr url \<and> (url, ProbeOk result) \<in> set probed \<and>
         dget item ''verification_transport'' = transport_record result \<and>
         urlsplit (fst tb) (cps url) = Inr parts \<and> up_scheme parts = cps (py_lower (pr_protocol result))))"

definition destinations_probed :: "url_tables \<Rightarrow> catalog_world \<Rightarrow> dict \<Rightarrow> bool" where
  "destinations_probed tb w d \<longleftrightarrow>
     (\<forall>did item. item_of d ''destinations'' did = Some item \<longrightarrow> probed_destination tb (cw_probed w) item)"

lemma probed_grows: "probed_destination tb ps item \<Longrightarrow> set ps \<subseteq> set qs \<Longrightarrow> probed_destination tb qs item"
  by (auto simp: probed_destination_def)

lemma run_catalog_call_probed: "set (cw_probed w) \<subseteq> set (cw_probed (run_catalog_call tb c w))"
  by (cases c) (auto simp: files_step_def split: prod.split sum.split option.split)

lemma new_destination_probed [simp]: "probed_destination tb ps (new_destination uuid u ty name url ref now)"
  by (simp add: probed_destination_def new_destination_def dget_def)

lemma updated_destination_probed:
  "probed_destination tb ps item \<Longrightarrow> probed_destination tb ps (updated_destination name url ref enabled now item)"
  unfolding probed_destination_def updated_destination_def Let_def reset_verification_def set_if_def
  by (auto split: option.split)

lemma destinations_probed_step:
  assumes inv: "destinations_probed tb w d" and step: "catalog_step tb d c w d'"
  shows "destinations_probed tb (run_catalog_call tb c w) d'"
proof -
  let ?ps = "cw_probed (run_catalog_call tb c w)"
  have old: "probed_destination tb ?ps item" if "item_of d ''destinations'' did = Some item" for did item
    using inv that probed_grows [OF _ run_catalog_call_probed] unfolding destinations_probed_def by blast
  from step show ?thesis
  proof cases
    case new_destination
    then show ?thesis unfolding destinations_probed_def using old by auto
  next
    case (update_destination did item u name url ref enabled now clock)
    then show ?thesis unfolding destinations_probed_def using old updated_destination_probed by auto
  next
    case (verified k did u sn item answer result parts clock now)
    have "probed_destination tb ?ps (verified_destination result now item)"
      using verified by (auto simp: probed_destination_def verified_destination_def)
    then show ?thesis unfolding destinations_probed_def using verified(2) old by auto
  next
    case (failed k did u sn item answer clock reason now)
    have "probed_destination tb ?ps (failed_destination reason now item)"
      by (simp add: probed_destination_def failed_destination_def)
    then show ?thesis unfolding destinations_probed_def using failed(2) old by auto
  qed (use old in \<open>auto simp: destinations_probed_def split: if_splits\<close>)
qed

lemma run_catalog_probed:
  assumes "marker (cw_files w) \<noteq> OtherMarker" and "catalog_of tb (cw_files w) = Some d"
    and "\<forall>did item. item_of d ''destinations'' did = Some item \<longrightarrow> dget item ''verification_status'' \<noteq> JStr ''VERIFIED''"
  obtains d' where "readable tb (cw_files (run_catalog tb calls w)) d'" "destinations_probed tb (run_catalog tb calls w) d'"
proof -
  have "readable tb (cw_files w) d" using assms(1,2) by (simp add: readable_def)
  moreover have "destinations_probed tb w d" using assms(3) by (auto simp: destinations_probed_def probed_destination_def)
  ultimately have "\<exists>d'. readable tb (cw_files (run_catalog tb calls w)) d' \<and> destinations_probed tb (run_catalog tb calls w) d'"
    by (rule run_catalog_invariant) (rule destinations_probed_step)
  then show thesis using that by blast
qed

text \<open>C23. A VERIFIED destination was probed as it stands: over any interleaving of catalog calls, with edits between a
  verification's snapshot and its end, a destination that reads VERIFIED has a URL for which a probe succeeded,
  with the URL's own scheme as protocol, and records that probe's transport.\<close>

theorem verified_destination_was_probed:
  assumes "marker (cw_files w) \<noteq> OtherMarker" and "catalog_of tb (cw_files w) = Some d"
    and "\<forall>did item. item_of d ''destinations'' did = Some item \<longrightarrow> dget item ''verification_status'' \<noteq> JStr ''VERIFIED''"
    and "catalog_of tb (cw_files (run_catalog tb calls w)) = Some d'"
    and "item_of d' ''destinations'' did = Some item" and "dget item ''verification_status'' = JStr ''VERIFIED''"
  shows "\<exists>url result parts. dget item ''server_url'' = JStr url \<and>
    (url, ProbeOk result) \<in> set (cw_probed (run_catalog tb calls w)) \<and>
    dget item ''verification_transport'' = transport_record result \<and>
    urlsplit (fst tb) (cps url) = Inr parts \<and> up_scheme parts = cps (py_lower (pr_protocol result))"
proof -
  obtain e where "readable tb (cw_files (run_catalog tb calls w)) e" "destinations_probed tb (run_catalog tb calls w) e"
    by (rule run_catalog_probed [OF assms(1-3)])
  then show ?thesis using assms(4-6) by (auto simp: readable_def destinations_probed_def probed_destination_def)
qed

section \<open>Isolation of users\<close>

fun call_user :: "catalog_call \<Rightarrow> string option" where
  "call_user (CreateDestination uuid u ty name url ref clock) = Some u"
| "call_user (UpdateDestination did u name url ref enabled clock) = Some u"
| "call_user (DeleteDestination did u) = Some u"
| "call_user (VerifyBegin k did u) = Some u"
| "call_user (VerifyEnd k answer clock) = None"
| "call_user (CreateAsset uuid u key clock) = Some u"
| "call_user (UploadIntent uuid u ct clock) = Some u"
| "call_user (UploadComplete aid u ct key size_bytes sha clock) = Some u"
| "call_user (ProcessingComplete aid u sha pw ph reason clock) = Some u"
| "call_user (DeleteAsset aid u) = Some u"

fun created_id :: "catalog_call \<Rightarrow> string option" where
  "created_id (CreateDestination uuid u ty name url ref clock) = Some uuid"
| "created_id (CreateAsset uuid u key clock) = Some uuid"
| "created_id (UploadIntent uuid u ct clock) = Some uuid"
| "created_id _ = None"

definition pending_users :: "catalog_world \<Rightarrow> string set" where
  "pending_users w = {u. \<exists>k did sn. (k, did, u, sn) \<in> set (cw_pending w)}"

lemma run_catalog_call_pending:
  "pending_users (run_catalog_call tb c w) \<subseteq> pending_users w \<union> set_option (call_user c)"
  by (cases c) (auto simp: pending_users_def files_step_def split: prod.split sum.split option.split)

lemma step_keeps_others:
  assumes step: "catalog_step tb d c w d'" and item: "item_of d kind k = Some item" "dget item ''user_id'' = JStr v"
    and other: "call_user c \<noteq> Some v" "created_id c \<noteq> Some k" "v \<notin> pending_users w"
  shows "item_of d' kind k = Some item"
proof -
  have pending: "u \<noteq> v" if "map_of (cw_pending w) n = Some (did, u, sn)" for n did u sn
    using other(3) map_of_SomeD [OF that] by (auto simp: pending_users_def)
  from step show ?thesis by cases (use item other pending in auto)
qed

text \<open>C24. Users do not touch each other's items: whatever the other users do to the catalog, in any order and with
  verifications in flight, an item keeps every field until its owner acts on it.\<close>

theorem catalog_isolation:
  assumes "marker (cw_files w) \<noteq> OtherMarker" and "catalog_of tb (cw_files w) = Some d"
    and "item_of d kind k = Some item" and "dget item ''user_id'' = JStr v"
    and "\<forall>c \<in> set calls. call_user c \<noteq> Some v \<and> created_id c \<noteq> Some k" and "v \<notin> pending_users w"
  shows "\<exists>d'. catalog_of tb (cw_files (run_catalog tb calls w)) = Some d' \<and> item_of d' kind k = Some item"
proof -
  have "readable tb (cw_files w) d" using assms(1,2) by (simp add: readable_def)
  then have "\<exists>d'. readable tb (cw_files (run_catalog tb calls w)) d' \<and>
      (item_of d' kind k = Some item \<and> v \<notin> pending_users (run_catalog tb calls w))"
  proof (rule run_catalog_invariant [where I = "\<lambda>w d. item_of d kind k = Some item \<and> v \<notin> pending_users w"])
    fix c w d d'
    assume c: "c \<in> set calls" and inv: "item_of d kind k = Some item \<and> v \<notin> pending_users w" and step: "catalog_step tb d c w d'"
    have "call_user c \<noteq> Some v" "created_id c \<noteq> Some k" using c assms(5) by auto
    then show "item_of d' kind k = Some item \<and> v \<notin> pending_users (run_catalog_call tb c w)"
      using step_keeps_others [OF step _ assms(4)] inv run_catalog_call_pending [of tb c w] by (cases "call_user c") auto
  qed (use assms(3,6) in simp)
  then show ?thesis by (auto simp: readable_def)
qed

section \<open>The life of an asset\<close>

text \<open>
  An asset with an upload has the key derived from its owner and its id; one past the upload has a size and a
  digest in range.  READY is none of the states.
\<close>

definition asset_lifecycle_ok :: "string \<Rightarrow> dict \<Rightarrow> bool" where
  "asset_lifecycle_ok asset_id item \<longleftrightarrow>
     dget item ''processing_status'' \<in> JStr ` {''PENDING'', ''UPLOADING'', ''PROCESSING'', ''FAILED''} \<and>
     (dget item ''processing_status'' \<noteq> JStr ''PENDING'' \<longrightarrow>
        (\<exists>key. source_object_key (dget item ''user_id'') (JStr asset_id) = Inr key \<and> dget item ''source_object_key'' = JStr key)) \<and>
     (dget item ''processing_status'' \<in> JStr ` {''PROCESSING'', ''FAILED''} \<longrightarrow>
        (\<exists>n digest. dget item ''uploaded_size_bytes'' = JInt n \<and> 0 < n \<and> n \<le> MAX_UPLOAD_BYTES \<and>
           dget item ''uploaded_sha256'' = JStr digest \<and> hex64 digest))"

definition assets_ok :: "dict \<Rightarrow> bool" where
  "assets_ok d \<longleftrightarrow> (\<forall>aid item. item_of d ''assets'' aid = Some item \<longrightarrow> asset_lifecycle_ok aid item)"

lemma new_asset_lifecycle [simp]: "asset_lifecycle_ok uuid (new_asset uuid u key now)"
  by (simp add: asset_lifecycle_ok_def new_asset_def dget_def)

lemma new_upload_lifecycle [simp]:
  "source_object_key (JStr u) (JStr uuid) = Inr key \<Longrightarrow> asset_lifecycle_ok uuid (new_upload uuid u key ct now)"
  by (auto simp: asset_lifecycle_ok_def new_upload_def dget_def)

lemma validate_upload_completion_Inr:
  "validate_upload_completion u a ct key size_bytes sha = Inr completion \<Longrightarrow>
   source_object_key u a = Inr (uc_object_key completion) \<and>
   0 < uc_size_bytes completion \<and> uc_size_bytes completion \<le> MAX_UPLOAD_BYTES \<and> hex64 (uc_sha256 completion)"
  by (auto simp: validate_upload_completion_def validated_size_bytes_def validated_sha256_def rbind_eq_Inr)

lemma uploaded_asset_lifecycle:
  assumes "dget item ''user_id'' = JStr u" and "validate_upload_completion (JStr u) (JStr aid) v key size_bytes sha = Inr completion"
    and "is_owner_bound_source_object_key (JStr u) (JStr aid) (dget item ''source_object_key'')"
  shows "asset_lifecycle_ok aid (uploaded_asset completion now item)"
  using validate_upload_completion_Inr [OF assms(2)] assms(1,3)
  by (auto simp: asset_lifecycle_ok_def uploaded_asset_def is_owner_bound_source_object_key_def split: option.splits sum.splits)

lemma failed_asset_lifecycle:
  "asset_lifecycle_ok aid item \<Longrightarrow> dget item ''processing_status'' = JStr ''PROCESSING'' \<Longrightarrow>
   asset_lifecycle_ok aid (failed_asset text now item)"
  by (auto simp: asset_lifecycle_ok_def failed_asset_def)

lemma assets_ok_step:
  assumes inv: "assets_ok d" and step: "catalog_step tb d c w d'"
  shows "assets_ok d'"
proof -
  have old: "asset_lifecycle_ok aid item" if "item_of d ''assets'' aid = Some item" for aid item
    using inv that by (simp add: assets_ok_def)
  from step show ?thesis
  proof cases
    case (uploaded aid item u v key size_bytes sha completion)
    then show ?thesis unfolding assets_ok_def using old uploaded_asset_lifecycle [OF uploaded(4,6,7)] by auto
  next
    case (processing_failed aid item u)
    then show ?thesis unfolding assets_ok_def using old failed_asset_lifecycle [OF old] by auto
  qed (use old in \<open>auto simp: assets_ok_def split: if_splits\<close>)
qed

text \<open>An asset moves forward only: over any calls it stays in PENDING, UPLOADING, PROCESSING or FAILED (never READY);
  past PENDING its object key is the one derived from its owner and id, and past the upload its size is at most
  32 MiB and its digest well formed.\<close>

theorem asset_lifecycle:
  assumes "marker (cw_files w) \<noteq> OtherMarker" and "catalog_of tb (cw_files w) = Some d" and "items d ''assets'' = []"
    and "catalog_of tb (cw_files (run_catalog tb calls w)) = Some d'" and "item_of d' ''assets'' aid = Some item"
  shows "\<exists>status \<in> {''PENDING'', ''UPLOADING'', ''PROCESSING'', ''FAILED''}.
    dget item ''processing_status'' = JStr status \<and>
    (status \<noteq> ''PENDING'' \<longrightarrow>
       (\<exists>owner. dget item ''user_id'' = JStr owner \<and> dget item ''source_object_key'' = JStr (object_path owner aid ''source''))) \<and>
    (status \<in> {''PROCESSING'', ''FAILED''} \<longrightarrow>
       (\<exists>n digest. dget item ''uploaded_size_bytes'' = JInt n \<and> 0 < n \<and> n \<le> 32 * 1024 * 1024 \<and>
          dget item ''uploaded_sha256'' = JStr digest \<and> hex64 digest))"
proof -
  have "readable tb (cw_files w) d" using assms(1,2) by (simp add: readable_def)
  moreover have "assets_ok d" using assms(3) by (simp add: assets_ok_def item_of_def dget_def)
  ultimately have "\<exists>d'. readable tb (cw_files (run_catalog tb calls w)) d' \<and> assets_ok d'"
    by (rule run_catalog_invariant [where I = "\<lambda>w d. assets_ok d"]) (rule assets_ok_step)
  then have ok: "asset_lifecycle_ok aid item" using assms(4,5) by (auto simp: readable_def assets_ok_def)
  have owner: "\<exists>owner. dget item ''user_id'' = JStr owner \<and> key = object_path owner aid ''source''"
    if "source_object_key (dget item ''user_id'') (JStr aid) = Inr key" for key
    using that by (auto simp: source_object_key_def require_segment_def rbind_eq_Inr)
  show ?thesis using ok owner unfolding asset_lifecycle_ok_def MAX_UPLOAD_BYTES_def by auto
qed

section \<open>The statements at a concrete catalog\<close>

definition demo_tables :: url_tables where
  "demo_tables = (\<lambda>_. True, \<lambda>c. [c])"

definition demo_catalog_world :: catalog_world where
  "demo_catalog_world = \<lparr>cw_files = fresh_authority, cw_pending = [], cw_probed = []\<rparr>"

definition demo_probe :: probe_answer where
  "demo_probe = ProbeOk \<lparr>pr_protocol = ''srt'', pr_peer_ip = JStr ''192.0.2.1'', pr_peer_port = JInt 9000, pr_elapsed_ms = JInt 5\<rparr>"

definition demo_catalog_calls :: "catalog_call list" where
  "demo_catalog_calls =
     [CreateDestination ''d1'' ''u1'' ''srt'' ''relay'' ''srt://relay.example:9000'' ''ref'' (Fin 5),
      VerifyBegin 0 ''d1'' ''u1'',
      UploadIntent ''a1'' ''u2'' (JStr ''image/png'') (Fin 6),
      VerifyEnd 0 demo_probe (Fin 7)]"

definition demo_catalog :: dict where
  "demo_catalog = (case catalog_of demo_tables (cw_files (run_catalog demo_tables demo_catalog_calls demo_catalog_world)) of
     None \<Rightarrow> [] | Some d \<Rightarrow> d)"

lemma demo_catalog_evaluated:
  "let w = run_catalog demo_tables demo_catalog_calls demo_catalog_world in
   marker (cw_files w) \<noteq> OtherMarker \<and>
   cw_pending w = [(0, ''d1'', ''u1'', \<lparr>sn_url = ''srt://relay.example:9000'', sn_type = ''srt''\<rparr>)] \<and>
   (case catalog_of demo_tables (cw_files w) of
      None \<Rightarrow> False
    | Some d \<Rightarrow>
        map_option (\<lambda>item. dget item ''verification_status'') (item_of d ''destinations'' ''d1'') = Some (JStr ''VERIFIED'') \<and>
        map_option (\<lambda>item. dget item ''user_id'') (item_of d ''assets'' ''a1'') = Some (JStr ''u2''))"
  by code_simp

lemma demo_catalog_facts:
  "marker (cw_files (run_catalog demo_tables demo_catalog_calls demo_catalog_world)) \<noteq> OtherMarker"
  "''u2'' \<notin> pending_users (run_catalog demo_tables demo_catalog_calls demo_catalog_world)"
  "catalog_of demo_tables (cw_files (run_catalog demo_tables demo_catalog_calls demo_catalog_world)) = Some demo_catalog"
  "\<exists>item. item_of demo_catalog ''destinations'' ''d1'' = Some item \<and> dget item ''verification_status'' = JStr ''VERIFIED''"
  "\<exists>item. item_of demo_catalog ''assets'' ''a1'' = Some item \<and> dget item ''user_id'' = JStr ''u2''"
  using demo_catalog_evaluated by (auto simp: Let_def demo_catalog_def pending_users_def split: option.splits)

lemma demo_catalog_fresh:
  "marker (cw_files demo_catalog_world) \<noteq> OtherMarker" "catalog_of tb (cw_files demo_catalog_world) = Some default_catalog"
  "items default_catalog k = []" "item_of default_catalog k i = None"
  by (simp_all add: demo_catalog_world_def fresh_authority_def catalog_of_def auth_contents_def read_authority_def
      was_initialized_def items_def item_of_def default_catalog_def dget_def obj_of_def)

theorem verified_destination_was_probed_witness:
  "\<exists>item url result. item_of demo_catalog ''destinations'' ''d1'' = Some item \<and> dget item ''server_url'' = JStr url \<and>
     (url, ProbeOk result) \<in> set (cw_probed (run_catalog demo_tables demo_catalog_calls demo_catalog_world))"
proof -
  obtain item where item: "item_of demo_catalog ''destinations'' ''d1'' = Some item" "dget item ''verification_status'' = JStr ''VERIFIED''"
    using demo_catalog_facts(4) by auto
  show ?thesis
    using verified_destination_was_probed [OF demo_catalog_fresh(1,2) _ demo_catalog_facts(3) item] demo_catalog_fresh(4) item(1) by auto
qed

theorem catalog_isolation_witness:
  "\<exists>item d'. item_of demo_catalog ''assets'' ''a1'' = Some item \<and>
     catalog_of demo_tables (cw_files (run_catalog demo_tables [DeleteAsset ''a1'' ''u1'', DeleteDestination ''d1'' ''u1'']
       (run_catalog demo_tables demo_catalog_calls demo_catalog_world))) = Some d' \<and> item_of d' ''assets'' ''a1'' = Some item"
proof -
  let ?w = "run_catalog demo_tables demo_catalog_calls demo_catalog_world"
  obtain item where item: "item_of demo_catalog ''assets'' ''a1'' = Some item" "dget item ''user_id'' = JStr ''u2''"
    using demo_catalog_facts(5) by auto
  show ?thesis using catalog_isolation [OF demo_catalog_facts(1,3) item _ demo_catalog_facts(2), of "[DeleteAsset ''a1'' ''u1'', DeleteDestination ''d1'' ''u1'']"]
      item(1) by simp
qed

theorem asset_lifecycle_witness:
  "\<exists>item. item_of demo_catalog ''assets'' ''a1'' = Some item \<and>
     (\<exists>status \<in> {''PENDING'', ''UPLOADING'', ''PROCESSING'', ''FAILED''}. dget item ''processing_status'' = JStr status)"
proof -
  obtain item where item: "item_of demo_catalog ''assets'' ''a1'' = Some item" using demo_catalog_facts(5) by auto
  show ?thesis using asset_lifecycle [OF demo_catalog_fresh(1-3) demo_catalog_facts(3) item] item by blast
qed

end
