(* ===== verification/Destination_Secrets.thy ===== *)
theory Destination_Secrets
  imports Python_Text Session_State
begin

text \<open>
  The encrypted store of publish credentials (\<open>destination_secret_store.py\<close>).  Fernet and SHA-256 are arguments:
  \<open>encrypt\<close> of a text gives a ciphertext, \<open>decrypt\<close> reads one back (None for InvalidToken and for bytes that are not
  UTF-8), \<open>hash\<close> is the hex digest of a UTF-8 text.
\<close>

section \<open>The document\<close>

type_synonym secret_records = "(string \<times> dict) list"

definition secret_timestamp :: "json \<Rightarrow> err + rat" where
  "secret_timestamp v =
     (case finite_argument v of
        Inl _ \<Rightarrow> Inl DestinationSecretError
      | Inr x \<Rightarrow> if x < 0 then Inl DestinationSecretError else Inr x)"

definition secret_key :: "(string \<Rightarrow> string) \<Rightarrow> string \<Rightarrow> string \<Rightarrow> string" where
  "secret_key hash user_id secret_ref = hash (user_id @ [CHR 0x00] @ secret_ref)"

definition secret_string :: "dict \<Rightarrow> string \<Rightarrow> err + string" where
  "secret_string record f =
     rbind (from_some DestinationSecretError (as_str (dget record f))) (\<lambda>s.
     rbind (require DestinationSecretError (s \<noteq> [])) (\<lambda>_. Inr s))"

definition validate_secret :: "(string \<Rightarrow> string) \<Rightarrow> string \<Rightarrow> json \<Rightarrow> err + dict" where
  "validate_secret hash record_key v =
     rbind (from_some DestinationSecretError (as_obj v)) (\<lambda>record.
     rbind (secret_string record ''user_id'') (\<lambda>user_id.
     rbind (secret_string record ''secret_ref'') (\<lambda>secret_ref.
     rbind (secret_string record ''ciphertext'') (\<lambda>_.
     rbind (require DestinationSecretError (record_key = secret_key hash user_id secret_ref)) (\<lambda>_.
     rbind (secret_timestamp (dget record ''created_at'')) (\<lambda>created_at.
     rbind (secret_timestamp (dget record ''updated_at'')) (\<lambda>updated_at.
     Inr (dupdate record [(''created_at'', JTime created_at), (''updated_at'', JTime updated_at)]))))))))"

primrec validate_secrets :: "(string \<Rightarrow> string) \<Rightarrow> dict \<Rightarrow> err + secret_records" where
  "validate_secrets hash [] = Inr []"
| "validate_secrets hash (p # ps) =
     rbind (validate_secret hash (fst p) (snd p)) (\<lambda>record.
     rbind (validate_secrets hash ps) (\<lambda>records. Inr ((fst p, record) # records)))"

definition secrets_decode :: "(string \<Rightarrow> string) \<Rightarrow> json \<Rightarrow> secret_records option" where
  "secrets_decode hash raw =
     Option.bind (as_obj raw) (\<lambda>doc.
     Option.bind (as_obj (dget doc ''secrets'')) (\<lambda>records.
     case validate_secrets hash records of Inl _ \<Rightarrow> None | Inr validated \<Rightarrow> Some validated))"

definition secrets_document :: "secret_records \<Rightarrow> json" where
  "secrets_document records = JObj [(''secrets'', JObj (as_object records))]"

text \<open>\<open>_persist\<close> writes the records as they are, without validating them.\<close>

definition secret_lock ::
  "(string \<Rightarrow> string) \<Rightarrow> (secret_records \<Rightarrow> err + ('r \<times> secret_records option)) \<Rightarrow> authority \<Rightarrow> (err + 'r) \<times> authority"
where
  "secret_lock hash body =
     auth_locked DestinationSecretError True [] (secrets_decode hash) (\<lambda>records. Some (secrets_document records)) body"

section \<open>Operations\<close>

definition secret_record :: "string \<Rightarrow> string \<Rightarrow> string \<Rightarrow> rat \<Rightarrow> rat \<Rightarrow> dict" where
  "secret_record user_id secret_ref ciphertext created_at updated_at =
     [(''user_id'', JStr user_id), (''secret_ref'', JStr secret_ref), (''ciphertext'', JStr ciphertext),
      (''created_at'', JTime created_at), (''updated_at'', JTime updated_at)]"

definition put_secret_body ::
  "(string \<Rightarrow> string) \<Rightarrow> string \<Rightarrow> string \<Rightarrow> string \<Rightarrow> rat \<Rightarrow> secret_records \<Rightarrow> err + dict \<times> secret_records option"
where
  "put_secret_body hash user_id secret_ref ciphertext current records =
     rbind (case map_of records (secret_key hash user_id secret_ref) of
              None \<Rightarrow> Inr current
            | Some existing \<Rightarrow> secret_timestamp (dget existing ''created_at'')) (\<lambda>created_at.
     Inr ([(''secret_ref'', JStr secret_ref), (''configured'', JBool True), (''created_at'', JTime created_at),
           (''updated_at'', JTime current)],
          Some (dset records (secret_key hash user_id secret_ref)
            (secret_record user_id secret_ref ciphertext created_at current))))"

text \<open>\<open>ciphertext\<close> is what Fernet makes of \<open>secret\<close>.\<close>

definition put_secret ::
  "(string \<Rightarrow> string) \<Rightarrow> string \<Rightarrow> string \<Rightarrow> string \<Rightarrow> string \<Rightarrow> pyfloat \<Rightarrow> authority \<Rightarrow> (err + dict) \<times> authority"
where
  "put_secret hash user_id secret_ref secret ciphertext clock fs =
     (if user_id = [] \<or> secret_ref = [] \<or> secret = [] then (Inl ValueError, fs) else
      (case secret_timestamp (JFloat clock) of
         Inl e \<Rightarrow> (Inl e, fs)
       | Inr current \<Rightarrow> secret_lock hash (put_secret_body hash user_id secret_ref ciphertext current) fs))"

definition resolve_secret ::
  "(string \<Rightarrow> string) \<Rightarrow> (string \<Rightarrow> string option) \<Rightarrow> string \<Rightarrow> string \<Rightarrow> authority \<Rightarrow> (err + string) \<times> authority"
where
  "resolve_secret hash decrypt user_id secret_ref fs =
     (case secret_lock hash (\<lambda>records.
         rbind (from_some DestinationSecretNotFound (map_of records (secret_key hash user_id secret_ref))) (\<lambda>record.
         Inr (case as_str (dget record ''ciphertext'') of None \<Rightarrow> [] | Some s \<Rightarrow> s, None))) fs of
        (Inl e, fs) \<Rightarrow> (Inl e, fs)
      | (Inr ciphertext, fs) \<Rightarrow> (from_some DestinationSecretError (decrypt ciphertext), fs))"

definition secret_configured :: "(string \<Rightarrow> string) \<Rightarrow> string \<Rightarrow> string \<Rightarrow> authority \<Rightarrow> (err + bool) \<times> authority" where
  "secret_configured hash user_id secret_ref =
     secret_lock hash (\<lambda>records. Inr (map_of records (secret_key hash user_id secret_ref) \<noteq> None, None))"

definition delete_secret :: "(string \<Rightarrow> string) \<Rightarrow> string \<Rightarrow> string \<Rightarrow> authority \<Rightarrow> (err + bool) \<times> authority" where
  "delete_secret hash user_id secret_ref =
     secret_lock hash (\<lambda>records.
       if map_of records (secret_key hash user_id secret_ref) = None then Inr (False, None)
       else Inr (True, Some (dpop records (secret_key hash user_id secret_ref))))"

section \<open>Written records read back\<close>

definition secrets_ok :: "(string \<Rightarrow> string) \<Rightarrow> secret_records \<Rightarrow> bool" where
  "secrets_ok hash records \<longleftrightarrow> (\<forall>p \<in> set records. validate_secret hash (fst p) (JObj (snd p)) = Inr (snd p))"

lemma validate_secrets_ok: "secrets_ok hash records \<Longrightarrow> validate_secrets hash (as_object records) = Inr records"
  by (induction records) (auto simp: secrets_ok_def as_object_def)

lemma secret_timestamp_time: "secret_timestamp v = Inr t \<Longrightarrow> secret_timestamp (JTime t) = Inr t"
  by (auto simp: secret_timestamp_def finite_argument_def split: sum.splits if_splits)

lemma validate_secret_stable:
  assumes "validate_secret hash k v = Inr record"
  shows "validate_secret hash k (JObj record) = Inr record"
proof -
  obtain d u r c c0 u0 where d: "v = JObj d" "secret_string d ''user_id'' = Inr u" "secret_string d ''secret_ref'' = Inr r"
    "secret_string d ''ciphertext'' = Inr c" "k = secret_key hash u r" "secret_timestamp (dget d ''created_at'') = Inr c0"
    "secret_timestamp (dget d ''updated_at'') = Inr u0"
    "record = dupdate d [(''created_at'', JTime c0), (''updated_at'', JTime u0)]"
    using assms by (auto simp: validate_secret_def rbind_eq_Inr)
  then have "dset (dset record ''created_at'' (JTime c0)) ''updated_at'' (JTime u0) = record" by (simp add: dset_same)
  then show ?thesis using d secret_timestamp_time by (simp add: validate_secret_def secret_string_def)
qed

lemma decoded_secrets_ok: "secrets_decode hash raw = Some records \<Longrightarrow> secrets_ok hash records"
proof -
  have "validate_secrets hash ps = Inr rs \<Longrightarrow> secrets_ok hash rs" for ps rs
  proof (induction ps arbitrary: rs)
    case (Cons p ps)
    then obtain r rs' where r: "validate_secret hash (fst p) (snd p) = Inr r" "validate_secrets hash ps = Inr rs'" "rs = (fst p, r) # rs'"
      by (auto simp: rbind_eq_Inr)
    then show ?case using Cons.IH [OF r(2)] validate_secret_stable by (auto simp: secrets_ok_def)
  qed (simp add: secrets_ok_def)
  then show "secrets_decode hash raw = Some records \<Longrightarrow> secrets_ok hash records"
    by (auto simp: secrets_decode_def split: sum.splits bind_splits)
qed

definition secrets_encode :: "(string \<Rightarrow> string) \<Rightarrow> secret_records \<Rightarrow> json option" where
  "secrets_encode hash records = (if secrets_ok hash records then Some (secrets_document records) else None)"

interpretation ds: authority_codec DestinationSecretError "[]" "secrets_decode hash" "secrets_encode hash" id for hash
  by unfold_locales (auto simp: secrets_encode_def secrets_document_def secrets_decode_def validate_secrets_ok dget_def split: if_splits)

lemma secret_lock_validates:
  assumes "\<And>m r m'. secrets_ok hash m \<Longrightarrow> body m = Inr (r, Some m') \<Longrightarrow> secrets_ok hash m'"
  shows "secret_lock hash body = auth_locked DestinationSecretError True [] (secrets_decode hash) (secrets_encode hash) body"
  unfolding secret_lock_def
proof (rule ext, rule auth_locked_encode_cong)
  fix fs m r m'
  assume c: "auth_contents [] (secrets_decode hash) fs = Some m" and b: "body m = Inr (r, Some m')"
  have "secrets_ok hash m" using c decoded_secrets_ok by (auto simp: auth_contents_def secrets_ok_def split: reading.splits)
  then show "Some (secrets_document m') = secrets_encode hash m'" using assms [OF _ b] by (simp add: secrets_encode_def)
qed

lemma secrets_ok_dset:
  "secrets_ok hash records \<Longrightarrow> validate_secret hash k (JObj r) = Inr r \<Longrightarrow> secrets_ok hash (dset records k r)"
  unfolding secrets_ok_def dset_def by (induction records) auto

lemma secrets_ok_dpop: "secrets_ok hash records \<Longrightarrow> secrets_ok hash (dpop records k)"
  by (auto simp: secrets_ok_def dpop_def AList.delete_eq)

lemma put_secret_body_ok:
  assumes "user_id \<noteq> []" "secret_ref \<noteq> []" "ciphertext \<noteq> []" "0 \<le> current" and "secrets_ok hash m"
    and "put_secret_body hash user_id secret_ref ciphertext current m = Inr (r, Some m')"
  shows "secrets_ok hash m'"
proof -
  obtain t where t: "0 \<le> t" "m' = dset m (secret_key hash user_id secret_ref) (secret_record user_id secret_ref ciphertext t current)"
    using assms(4,6)
    by (auto simp: put_secret_body_def rbind_eq_Inr secret_timestamp_def not_less split: option.splits sum.splits if_splits)
  have "validate_secret hash (secret_key hash user_id secret_ref) (JObj (secret_record user_id secret_ref ciphertext t current)) =
      Inr (secret_record user_id secret_ref ciphertext t current)"
    using assms(1-4) t(1)
    by (simp add: validate_secret_def secret_record_def secret_string_def dget_def secret_timestamp_def finite_argument_def not_less dset_def)
  then show ?thesis unfolding t(2) by (rule secrets_ok_dset [OF assms(5)])
qed

section \<open>A secret is given back to its owner\<close>

lemma put_secret_lock:
  assumes "user_id \<noteq> []" "secret_ref \<noteq> []" "ciphertext \<noteq> []" "0 \<le> current"
  shows "secret_lock hash (put_secret_body hash user_id secret_ref ciphertext current) =
    auth_locked DestinationSecretError True [] (secrets_decode hash) (secrets_encode hash)
      (put_secret_body hash user_id secret_ref ciphertext current)"
  by (rule secret_lock_validates) (rule put_secret_body_ok [OF assms])

lemma delete_secret_lock:
  "delete_secret hash user_id secret_ref =
     auth_locked DestinationSecretError True [] (secrets_decode hash) (secrets_encode hash)
      (\<lambda>records. if map_of records (secret_key hash user_id secret_ref) = None then Inr (False, None)
       else Inr (True, Some (dpop records (secret_key hash user_id secret_ref))))"
  unfolding delete_secret_def by (rule secret_lock_validates) (auto simp: secrets_ok_dpop split: if_splits)

text \<open>The store holds this ciphertext for the key.\<close>

definition secret_held :: "(string \<Rightarrow> string) \<Rightarrow> string \<Rightarrow> string \<Rightarrow> authority \<Rightarrow> bool" where
  "secret_held hash key ciphertext fs \<longleftrightarrow> marker fs \<noteq> OtherMarker \<and>
     (\<exists>records r. auth_contents [] (secrets_decode hash) fs = Some records \<and> map_of records key = Some r \<and>
        dget r ''ciphertext'' = JStr ciphertext)"

lemma secret_timestamp_nonneg: "secret_timestamp v = Inr t \<Longrightarrow> 0 \<le> t"
  by (auto simp: secret_timestamp_def split: sum.splits if_splits)

lemma put_holds:
  assumes "marker fs \<noteq> OtherMarker" "auth_contents [] (secrets_decode hash) fs = Some records"
    and "ciphertext \<noteq> []" and "put_secret hash user_id secret_ref secret ciphertext clock fs = (Inr d, fs')"
  shows "secret_held hash (secret_key hash user_id secret_ref) ciphertext fs'"
proof -
  obtain current where p: "user_id \<noteq> []" "secret_ref \<noteq> []" "secret_timestamp (JFloat clock) = Inr current"
    "secret_lock hash (put_secret_body hash user_id secret_ref ciphertext current) fs = (Inr d, fs')"
    using assms(4) by (auto simp: put_secret_def split: if_splits sum.splits)
  note lock = put_secret_lock [OF p(1,2) assms(3) secret_timestamp_nonneg [OF p(3)], of hash]
  have call: "auth_locked DestinationSecretError True [] (secrets_decode hash) (secrets_encode hash)
      (put_secret_body hash user_id secret_ref ciphertext current) fs = (Inr d, fs')" using p(4) lock by simp
  have "marker fs' \<noteq> OtherMarker"
    using ds.locked_keeps_marker [OF assms(1), of True hash "put_secret_body hash user_id secret_ref ciphertext current"] call by simp
  then show ?thesis
    using ds.locked_cases [OF assms(1,2), of "put_secret_body hash user_id secret_ref ciphertext current" True] call
    by (auto simp: put_secret_body_def rbind_eq_Inr secret_held_def secret_record_def dget_def)
qed

datatype (plugins only: code) secret_call =
    PutSecret string string string string pyfloat
  | DeleteSecret string string
  | ResolveSecret string string

fun run_secret_call :: "(string \<Rightarrow> string) \<Rightarrow> secret_call \<Rightarrow> authority \<Rightarrow> authority" where
  "run_secret_call hash (PutSecret u r v ciphertext clock) fs = snd (put_secret hash u r v ciphertext clock fs)"
| "run_secret_call hash (DeleteSecret u r) fs = snd (delete_secret hash u r fs)"
| "run_secret_call hash (ResolveSecret u r) fs = snd (secret_configured hash u r fs)"

primrec run_secrets :: "(string \<Rightarrow> string) \<Rightarrow> secret_call list \<Rightarrow> authority \<Rightarrow> authority" where
  "run_secrets hash [] fs = fs"
| "run_secrets hash (c # cs) fs = run_secrets hash cs (run_secret_call hash c fs)"

text \<open>A call about another secret: of another user or another reference; user ids hold no NUL, ciphertexts are not empty.\<close>

fun other_secret :: "string \<Rightarrow> string \<Rightarrow> secret_call \<Rightarrow> bool" where
  "other_secret user_id secret_ref (PutSecret u r v ciphertext clock) \<longleftrightarrow>
     (u, r) \<noteq> (user_id, secret_ref) \<and> CHR 0x00 \<notin> set u \<and> ciphertext \<noteq> []"
| "other_secret user_id secret_ref (DeleteSecret u r) \<longleftrightarrow> (u, r) \<noteq> (user_id, secret_ref) \<and> CHR 0x00 \<notin> set u"
| "other_secret user_id secret_ref (ResolveSecret u r) \<longleftrightarrow> True"

lemma nul_inj: "CHR 0x00 \<notin> set a \<Longrightarrow> CHR 0x00 \<notin> set b \<Longrightarrow> a @ CHR 0x00 # x = b @ CHR 0x00 # y \<longleftrightarrow> a = b \<and> x = y"
proof (induction a arbitrary: b)
  case (Cons c a)
  then show ?case by (cases b) auto
qed (auto simp: Cons_eq_append_conv)

lemma secret_key_inj:
  "inj hash \<Longrightarrow> CHR 0x00 \<notin> set u \<Longrightarrow> CHR 0x00 \<notin> set u' \<Longrightarrow>
   secret_key hash u r = secret_key hash u' r' \<longleftrightarrow> (u, r) = (u', r')"
  by (simp add: secret_key_def nul_inj inj_eq)

lemma held_step:
  assumes "secret_held hash key ciphertext fs"
    and "\<And>m v n. map_of m key \<noteq> None \<Longrightarrow> body m = Inr (v, Some n) \<Longrightarrow> map_of n key = map_of m key"
  shows "secret_held hash key ciphertext (snd (auth_locked DestinationSecretError True [] (secrets_decode hash) (secrets_encode hash) body fs))"
proof -
  obtain m r where m: "marker fs \<noteq> OtherMarker" "auth_contents [] (secrets_decode hash) fs = Some m"
    "map_of m key = Some r" "dget r ''ciphertext'' = JStr ciphertext"
    using assms(1) by (auto simp: secret_held_def)
  obtain q fs' where call: "auth_locked DestinationSecretError True [] (secrets_decode hash) (secrets_encode hash) body fs = (q, fs')" by fastforce
  have keep: "map_of n key = Some r" if "body m = Inr (v, Some n)" for v n
    using assms(2) [OF _ that] m(3) by simp
  have "marker fs' \<noteq> OtherMarker \<and> (\<exists>m'. auth_contents [] (secrets_decode hash) fs' = Some m' \<and> map_of m' key = Some r)"
    by (rule ds.locked_rel [OF m(1,2) call, where R = "\<lambda>m. map_of m key = Some r"]) (use keep m(3) in simp_all)
  then show ?thesis using m(4) call by (auto simp: secret_held_def)
qed

lemma run_secret_call_held:
  assumes "secret_held hash (secret_key hash user_id secret_ref) ciphertext fs" and "inj hash" and "CHR 0x00 \<notin> set user_id"
    and "other_secret user_id secret_ref c"
  shows "secret_held hash (secret_key hash user_id secret_ref) ciphertext (run_secret_call hash c fs)"
proof (cases c)
  case (PutSecret u r v ct clock)
  have ne: "secret_key hash u r \<noteq> secret_key hash user_id secret_ref"
    using secret_key_inj [OF assms(2), of u user_id r secret_ref] assms(3,4) PutSecret by auto
  show ?thesis
  proof (cases "u = [] \<or> r = [] \<or> v = []")
    case False
    then have u: "u \<noteq> []" "r \<noteq> []" "v \<noteq> []" by auto
    show ?thesis
    proof (cases "secret_timestamp (JFloat clock)")
      case (Inr current)
      have "ct \<noteq> []" using assms(4) PutSecret by simp
      note lock = put_secret_lock [OF u(1,2) this secret_timestamp_nonneg [OF Inr], of hash]
      have "secret_held hash (secret_key hash user_id secret_ref) ciphertext (snd (secret_lock hash (put_secret_body hash u r ct current) fs))"
        unfolding lock by (rule held_step [OF assms(1)]) (use ne in \<open>auto simp: put_secret_body_def rbind_eq_Inr\<close>)
      then show ?thesis using PutSecret u Inr by (simp add: put_secret_def)
    qed (use PutSecret u assms(1) in \<open>simp add: put_secret_def\<close>)
  qed (use PutSecret assms(1) in \<open>auto simp: put_secret_def\<close>)
next
  case (DeleteSecret u r)
  have ne: "secret_key hash u r \<noteq> secret_key hash user_id secret_ref"
    using secret_key_inj [OF assms(2), of u user_id r secret_ref] assms(3,4) DeleteSecret by auto
  show ?thesis unfolding DeleteSecret run_secret_call.simps delete_secret_lock
    by (rule held_step [OF assms(1)]) (use ne in \<open>auto split: if_splits\<close>)
next
  case (ResolveSecret u r)
  have lock: "secret_configured hash u r = auth_locked DestinationSecretError True [] (secrets_decode hash) (secrets_encode hash)
      (\<lambda>records. Inr (map_of records (secret_key hash u r) \<noteq> None, None))"
    unfolding secret_configured_def by (rule secret_lock_validates) simp
  show ?thesis unfolding ResolveSecret run_secret_call.simps lock by (rule held_step [OF assms(1)]) simp
qed

lemma run_secrets_held:
  "secret_held hash (secret_key hash user_id secret_ref) ciphertext fs \<Longrightarrow> inj hash \<Longrightarrow> CHR 0x00 \<notin> set user_id \<Longrightarrow>
   \<forall>c \<in> set calls. other_secret user_id secret_ref c \<Longrightarrow>
   secret_held hash (secret_key hash user_id secret_ref) ciphertext (run_secrets hash calls fs)"
  by (induction calls arbitrary: fs) (simp_all add: run_secret_call_held)

lemma held_resolves:
  assumes "secret_held hash (secret_key hash user_id secret_ref) ciphertext fs"
  shows "fst (resolve_secret hash decrypt user_id secret_ref fs) = from_some DestinationSecretError (decrypt ciphertext)"
proof -
  let ?body = "\<lambda>records. rbind (from_some DestinationSecretNotFound (map_of records (secret_key hash user_id secret_ref))) (\<lambda>record.
     Inr (case as_str (dget record ''ciphertext'') of None \<Rightarrow> [] | Some s \<Rightarrow> s, None))"
  obtain m r where m: "marker fs \<noteq> OtherMarker" "auth_contents [] (secrets_decode hash) fs = Some m"
    "map_of m (secret_key hash user_id secret_ref) = Some r" "dget r ''ciphertext'' = JStr ciphertext"
    using assms by (auto simp: secret_held_def)
  have lock: "secret_lock hash ?body = auth_locked DestinationSecretError True [] (secrets_decode hash) (secrets_encode hash) ?body"
    by (rule secret_lock_validates) (auto simp: rbind_eq_Inr)
  obtain q fs' where call: "secret_lock hash ?body fs = (q, fs')" by fastforce
  have "q = Inr ciphertext"
    using ds.locked_reads [OF m(1,2) call [unfolded lock], of "Inr ciphertext"] m(3,4) by simp
  then show ?thesis using call by (simp add: resolve_secret_def)
qed


definition demo_put :: "(err + dict) \<times> authority" where
  "demo_put = put_secret (\<lambda>s. s) ''u1'' ''r1'' ''key'' ''yek'' (Fin 5) fresh_authority"

lemma demo_put_ok: "is_ok (fst demo_put)"
  by code_simp


end
