(* ===== verification/Egress_Delivery.thy ===== *)
theory Egress_Delivery
  imports Catalog_Store Destination_Secrets Node_Registry
begin

text \<open>
  The publish URL of a Session (\<open>egress_destination.py\<close>) and its resolution for a bootstrap response
  (\<open>_resolve_egress_delivery\<close> in \<open>node_internal.py\<close>): the destination of the Session's user, verified and enabled,
  with the user's secret put into its URL.
\<close>

section \<open>Quoting\<close>

definition unreserved :: "int \<Rightarrow> bool" where
  "unreserved c \<longleftrightarrow> is_ascii_alpha c \<or> is_ascii_digit c \<or> c \<in> {45, 46, 95, 126}"

definition hex_upper :: "int \<Rightarrow> int" where
  "hex_upper d = (if d < 10 then 48 + d else 55 + d)"

definition utf8_encode :: "int \<Rightarrow> int list" where
  "utf8_encode c =
     (if c < 128 then [c]
      else if c < 2048 then [192 + c div 64, 128 + c mod 64]
      else if c < 65536 then [224 + c div 4096, 128 + c div 64 mod 64, 128 + c mod 64]
      else [240 + c div 262144, 128 + c div 4096 mod 64, 128 + c div 64 mod 64, 128 + c mod 64])"

definition quote_byte :: "int \<Rightarrow> utext" where
  "quote_byte b = (if unreserved b then [b] else [37, hex_upper (b div 16), hex_upper (b mod 16)])"

text \<open>\<open>quote(text, safe="")\<close>\<close>

definition quote :: "utext \<Rightarrow> utext" where
  "quote s = concat (map quote_byte (concat (map utf8_encode s)))"

section \<open>The URL\<close>

text \<open>\<open>parsed.hostname\<close>, empty for None; its case is not used.\<close>

definition hostname :: "url_parts \<Rightarrow> utext" where
  "hostname parts =
     (let hostinfo = (if 64 \<in> set (up_netloc parts) then rev (takeWhile (\<lambda>c. c \<noteq> 64) (rev (up_netloc parts))) else up_netloc parts)
      in case u_partition 91 hostinfo of
           (_, True, bracketed) \<Rightarrow> takeWhile (\<lambda>c. c \<noteq> 93) bracketed
         | (_, False, _) \<Rightarrow> takeWhile (\<lambda>c. c \<noteq> 58) hostinfo)"

definition PLACEHOLDER :: utext where
  "PLACEHOLDER = cps ''{stream_key}''"

text \<open>\<open>s.replace(old, new)\<close> for the placeholder, from left to right.\<close>

function replace_placeholder :: "utext \<Rightarrow> utext \<Rightarrow> utext" where
  "replace_placeholder new s =
     (case s of
        [] \<Rightarrow> []
      | c # cs \<Rightarrow> if u_starts_with PLACEHOLDER s then new @ replace_placeholder new (drop (length PLACEHOLDER) s)
                  else c # replace_placeholder new cs)"
  by pat_completeness auto
termination
  by (relation "measure (length \<circ> snd)") (auto simp: PLACEHOLDER_def cps_def)

declare replace_placeholder.simps [simp del]

fun contains :: "utext \<Rightarrow> utext \<Rightarrow> bool" where
  "contains p [] = (p = [])"
| "contains p (c # cs) = (u_starts_with p (c # cs) \<or> contains p cs)"

definition strip_slashes_right :: "utext \<Rightarrow> utext" where
  "strip_slashes_right s = rev (dropWhile (\<lambda>c. c = 47) (rev s))"

text \<open>\<open>urlunsplit((scheme, netloc, path, query, ""))\<close> with a scheme, an authority and a path that starts with a slash.\<close>

definition urlunsplit :: "url_parts \<Rightarrow> utext" where
  "urlunsplit parts =
     up_scheme parts @ [58, 47, 47] @ up_netloc parts @ up_path parts @
     (if up_query parts = [] then [] else 63 # up_query parts)"

definition RTMP_SCHEMES :: "utext set" where
  "RTMP_SCHEMES = {cps ''rtmp'', cps ''rtmps''}"

definition build_egress_url :: "(utext \<Rightarrow> bool) \<Rightarrow> string \<Rightarrow> string \<Rightarrow> utext \<Rightarrow> err + utext" where
  "build_egress_url netloc_ok destination_type server_url stream_key =
     rbind (require EgressDestinationError (stream_key \<noteq> [])) (\<lambda>_.
     let ty = cps (py_lower destination_type); url = u_strip (cps server_url) in
     rbind (require EgressDestinationError (ty \<in> RTMP_SCHEMES)) (\<lambda>_.
     rbind (urlsplit netloc_ok url) (\<lambda>parsed.
     rbind (require EgressDestinationError (up_scheme parsed \<in> RTMP_SCHEMES \<and> hostname parsed \<noteq> [])) (\<lambda>_.
     rbind (require EgressDestinationError (up_scheme parsed = ty)) (\<lambda>_.
     rbind (require EgressDestinationError (\<not> has_userinfo parsed)) (\<lambda>_.
     rbind (require EgressDestinationError (up_fragment parsed = [])) (\<lambda>_.
     let encoded = quote stream_key in
     if contains PLACEHOLDER url then Inr (replace_placeholder encoded url)
     else Inr (urlunsplit (parsed\<lparr>up_path := strip_slashes_right (up_path parsed) @ 47 # encoded\<rparr>)))))))))"


section \<open>Delivery\<close>

text \<open>
  The two environment variables, whether a master key is configured, and the text of a JSON value that is not a
  string.  The catalog and the secrets are read through their stores.
\<close>

record delivery_env =
  de_url :: string
  de_peer_ip :: "string option"
  de_secrets_configured :: bool
  de_text :: "json \<Rightarrow> string"

definition uchars :: "utext \<Rightarrow> string" where
  "uchars s = map char_of s"

definition verified_peer_ip :: "(json \<Rightarrow> string) \<Rightarrow> dict \<Rightarrow> string option" where
  "verified_peer_ip text destination =
     (let v = dget (obj_of (dget destination ''verification_transport'')) ''peer_ip'';
          ip = py_strip (if \<not> truthy v then [] else case as_str v of Some s \<Rightarrow> s | None \<Rightarrow> text v)
      in if ip = [] then None else Some ip)"

definition resolve_destination_delivery ::
  "url_tables \<Rightarrow> (string \<Rightarrow> string) \<Rightarrow> (string \<Rightarrow> string option) \<Rightarrow> delivery_env \<Rightarrow> authority \<Rightarrow> string \<Rightarrow> dict
    \<Rightarrow> err + string \<times> string option"
where
  "resolve_destination_delivery tb hash decrypt env secrets user_id destination =
     rbind (require (HTTPException 409) (dget_or destination ''enabled'' (JBool True) = JBool True)) (\<lambda>_.
     rbind (require (HTTPException 409) (dget destination ''verification_status'' = JStr ''VERIFIED'')) (\<lambda>_.
     rbind (require (HTTPException 503) (de_secrets_configured env)) (\<lambda>_.
     rbind (case fst (resolve_secret hash decrypt user_id (str_field destination ''secret_ref'') secrets) of
              Inl e \<Rightarrow> Inl (HTTPException (if e = DestinationSecretNotFound then 409 else 500))
            | Inr secret \<Rightarrow> Inr secret) (\<lambda>secret.
     case build_egress_url (fst tb) (str_field destination ''type'') (str_field destination ''server_url'') (cps secret) of
       Inl e \<Rightarrow> Inl (if e = EgressDestinationError then HTTPException 409 else e)
     | Inr url \<Rightarrow> Inr (uchars url, verified_peer_ip (de_text env) destination)))))"

definition resolve_egress_delivery ::
  "url_tables \<Rightarrow> (string \<Rightarrow> string) \<Rightarrow> (string \<Rightarrow> string option) \<Rightarrow> delivery_env \<Rightarrow> authority \<Rightarrow> authority \<Rightarrow> dict option
    \<Rightarrow> err + string \<times> string option"
where
  "resolve_egress_delivery tb hash decrypt env catalog secrets assigned =
     (case assigned of
        None \<Rightarrow> Inr (de_url env, de_peer_ip env)
      | Some session \<Rightarrow>
          if dget session ''egress_mode'' = JStr ''RELAY_ONLY'' then Inr ([], None)
          else if \<not> truthy (dget session ''destination_id'') then Inr (de_url env, de_peer_ip env)
          else
            let user_id = str_field session ''user_id'' in
            (case fst (get_destination tb (str_field session ''destination_id'') user_id catalog) of
               Inl e \<Rightarrow> Inl (if e = CatalogNotFound then HTTPException 409 else e)
             | Inr destination \<Rightarrow> resolve_destination_delivery tb hash decrypt env secrets user_id destination))"

section \<open>The secret does not steer the connection\<close>

definition plain_code :: "int \<Rightarrow> bool" where
  "plain_code c \<longleftrightarrow> unreserved c \<or> c = 37"

lemma hex_upper_plain: "0 \<le> d \<Longrightarrow> d < 16 \<Longrightarrow> plain_code (hex_upper d)"
  unfolding plain_code_def unreserved_def hex_upper_def is_ascii_digit_def is_ascii_alpha_def by simp

lemma quote_byte_plain: "0 \<le> b \<Longrightarrow> b < 256 \<Longrightarrow> list_all plain_code (quote_byte b)"
  using hex_upper_plain [of "b div 16"] hex_upper_plain [of "b mod 16"] by (simp add: quote_byte_def plain_code_def)

lemma utf8_encode_bytes:
  assumes "0 \<le> c" "c < 1114112" "b \<in> set (utf8_encode c)"
  shows "0 \<le> b \<and> b < 256"
proof -
  have "c div 262144 \<le> 4" "c < 65536 \<Longrightarrow> c div 4096 \<le> 15" "c < 2048 \<Longrightarrow> c div 64 \<le> 31" using assms(2) by simp_all
  moreover have "0 \<le> c div 262144" "0 \<le> c div 4096" "0 \<le> c div 64" using assms(1) by simp_all
  moreover have "0 \<le> c mod 64" "c mod 64 < 64" "0 \<le> c div 64 mod 64" "c div 64 mod 64 < 64" "0 \<le> c div 4096 mod 64" "c div 4096 mod 64 < 64"
    by simp_all
  ultimately show ?thesis using assms by (auto simp: utf8_encode_def split: if_splits)
qed

definition valid_code :: "int \<Rightarrow> bool" where
  "valid_code c \<longleftrightarrow> 0 \<le> c \<and> c < 1114112 \<and> \<not> (55296 \<le> c \<and> c \<le> 57343)"

lemma quote_plain: "list_all valid_code s \<Longrightarrow> list_all plain_code (quote s)"
proof -
  assume s: "list_all valid_code s"
  have "plain_code x" if c: "c \<in> set s" "b \<in> set (utf8_encode c)" "x \<in> set (quote_byte b)" for c b x
  proof -
    have "valid_code c" using s c(1) by (simp add: list_all_iff)
    then have "0 \<le> b \<and> b < 256" using utf8_encode_bytes [of c b] c(2) by (simp add: valid_code_def)
    then show ?thesis using quote_byte_plain [of b] c(3) by (simp add: list_all_iff)
  qed
  then show "list_all plain_code (quote s)" by (auto simp: list_all_iff quote_def)
qed

lemma cps_valid: "list_all valid_code (cps s)"
proof -
  have "0 \<le> (of_char c :: int)" "(of_char c :: int) < 256" for c :: char unfolding code_point_int by simp_all
  then have "valid_code (of_char c)" for c :: char by (smt (verit) valid_code_def)
  then show ?thesis by (simp add: cps_def list_all_iff)
qed

text \<open>A URL with a scheme and an authority, and no control character or space.\<close>

definition url_form :: "utext \<Rightarrow> utext \<Rightarrow> utext \<Rightarrow> utext \<Rightarrow> bool" where
  "url_form s before netloc tail \<longleftrightarrow> s = before @ [58, 47, 47] @ netloc @ tail \<and>
     before \<noteq> [] \<and> is_ascii_alpha (hd before) \<and> list_all scheme_char before \<and>
     list_all (\<lambda>c. c \<notin> {47, 63, 35}) netloc \<and> (tail = [] \<or> hd tail \<in> {47, 63, 35}) \<and> list_all (\<lambda>c. 32 < c) s"

lemma scheme_char_simps [simp]: "\<not> scheme_char 58" "\<not> scheme_char 123"
  by (simp_all add: scheme_char_def is_ascii_alpha_def is_ascii_digit_def)

lemma visible_clean:
  assumes s: "list_all (\<lambda>c. 32 < c) (s :: utext)"
  shows "filter (\<lambda>c. c \<notin> {9, 10, 13}) (dropWhile (\<lambda>c. c \<le> 32) s) = s"
proof -
  have "dropWhile (\<lambda>c. c \<le> 32) s = s" using s by (cases s) auto
  moreover have "filter (\<lambda>c. c \<notin> {9, 10, 13}) s = s" using s by (auto simp: list_all_iff intro!: filter_True)
  ultimately show ?thesis by simp
qed

lemma split_scheme_form:
  assumes "before \<noteq> []" "is_ascii_alpha (hd before)" "list_all scheme_char before"
  shows "split_scheme (before @ 58 # rest) = (ascii_lower before, rest)"
proof -
  have "58 \<notin> set before" using assms(3) by (auto simp: list_all_iff)
  then have "takeWhile (\<lambda>x. x \<noteq> 58) (before @ 58 # rest) = before" by (auto simp: takeWhile_append)
  then show ?thesis using assms by (simp add: split_scheme_def u_partition_def)
qed

lemma split_netloc_form:
  assumes "list_all (\<lambda>c. c \<notin> {47, 63, 35}) netloc" "tail = [] \<or> hd tail \<in> {47, 63, 35}"
  shows "split_netloc (47 # 47 # netloc @ tail) = (netloc, tail)"
proof -
  have "takeWhile (\<lambda>c. c \<notin> {47, 63, 35}) (netloc @ tail) = netloc" "dropWhile (\<lambda>c. c \<notin> {47, 63, 35}) (netloc @ tail) = tail"
    using assms by (cases tail; auto simp: list_all_iff takeWhile_append dropWhile_append)+
  then show ?thesis by (simp add: split_netloc_def numeral_2_eq_2)
qed

lemma urlsplit_form:
  assumes "url_form s before netloc tail" and "(91 \<in> set netloc) = (93 \<in> set netloc)" "netloc_ok netloc"
  shows "\<exists>parts. urlsplit netloc_ok s = Inr parts \<and> up_scheme parts = ascii_lower before \<and> up_netloc parts = netloc"
proof -
  have s: "s = before @ 58 # 47 # 47 # netloc @ tail" using assms(1) by (simp add: url_form_def)
  have "split_scheme s = (ascii_lower before, 47 # 47 # netloc @ tail)"
    unfolding s using assms(1) split_scheme_form [of before "47 # 47 # netloc @ tail"] by (simp add: url_form_def)
  moreover have "split_netloc (47 # 47 # netloc @ tail) = (netloc, tail)"
    by (rule split_netloc_form) (use assms(1) in \<open>simp_all add: url_form_def\<close>)
  moreover have "filter (\<lambda>c. c \<notin> {9, 10, 13}) (dropWhile (\<lambda>c. c \<le> 32) s) = s"
    using assms(1) unfolding url_form_def by (intro visible_clean) blast
  ultimately show ?thesis using assms(2,3) unfolding urlsplit_def Let_def by (simp add: u_partition_def Let_def)
qed

lemma urlsplit_decompose:
  assumes "urlsplit netloc_ok s = Inr parts" and "list_all (\<lambda>c. 32 < c) s" and "up_scheme parts \<noteq> []" and "up_netloc parts \<noteq> []"
  obtains before tail where "url_form s before (up_netloc parts) tail" "up_scheme parts = ascii_lower before"
    "up_path parts = takeWhile (\<lambda>c. c \<noteq> 63) (takeWhile (\<lambda>c. c \<noteq> 35) tail)"
    "up_query parts = drop (length (up_path parts) + 1) (takeWhile (\<lambda>c. c \<noteq> 35) tail)"
    "(91 \<in> set (up_netloc parts)) = (93 \<in> set (up_netloc parts))" "netloc_ok (up_netloc parts)"
proof -
  obtain sch rest where sc: "split_scheme s = (sch, rest)" by fastforce
  obtain netloc tail where nl: "split_netloc rest = (netloc, tail)" by fastforce
  have p: "up_scheme parts = sch" "up_netloc parts = netloc" "(91 \<in> set netloc) = (93 \<in> set netloc)" "netloc_ok netloc"
    "up_path parts = takeWhile (\<lambda>c. c \<noteq> 63) (takeWhile (\<lambda>c. c \<noteq> 35) tail)"
    "up_query parts = drop (length (up_path parts) + 1) (takeWhile (\<lambda>c. c \<noteq> 35) tail)"
    using assms(1) unfolding urlsplit_def visible_clean [OF assms(2)] Let_def sc prod.case nl u_partition_def
    by (auto simp: rbind_eq_Inr)
  define before where "before = takeWhile (\<lambda>x. x \<noteq> 58) s"
  have b: "58 \<in> set s" "before \<noteq> []" "is_ascii_alpha (hd before)" "list_all scheme_char before" "sch = ascii_lower before"
    "rest = drop (length before + 1) s"
    using sc assms(3) p(1) by (auto simp: split_scheme_def u_partition_def Let_def before_def split: if_splits)
  have s1: "s = before @ 58 # rest"
  proof -
    have "58 \<in> set t \<Longrightarrow> \<exists>ys. dropWhile (\<lambda>x. x \<noteq> 58) t = 58 # ys" for t :: utext by (induction t) auto
    then obtain ys where "dropWhile (\<lambda>x. x \<noteq> 58) s = 58 # ys" using b(1) by blast
    then have "s = before @ 58 # ys" unfolding before_def by (metis takeWhile_dropWhile_id)
    then show ?thesis using b(6) by simp
  qed
  have n: "take 2 rest = [47, 47]" "netloc = takeWhile (\<lambda>c. c \<notin> {47, 63, 35}) (drop 2 rest)" "tail = dropWhile (\<lambda>c. c \<notin> {47, 63, 35}) (drop 2 rest)"
    using nl assms(4) p(2) by (auto simp: split_netloc_def split: if_splits)
  then have "rest = 47 # 47 # netloc @ tail" by (metis append_Cons append_Nil append_take_drop_id takeWhile_dropWhile_id)
  moreover have "list_all (\<lambda>c. c \<notin> {47, 63, 35}) netloc" unfolding n(2) by (auto simp: list_all_iff dest: set_takeWhileD)
  moreover have "tail = [] \<or> hd tail \<in> {47, 63, 35}" unfolding n(3) using hd_dropWhile [of "\<lambda>c. c \<notin> {47, 63, 35}" "drop 2 rest"] by blast
  ultimately have "url_form s before netloc tail" using s1 b(2-4) assms(2) by (simp add: url_form_def)
  then show thesis using that [of before tail] p b(5) by simp
qed

text \<open>The placeholder is replaced outside of the authority only, when the authority does not contain it.\<close>

lemma placeholder_chars: "hd PLACEHOLDER = 123" "PLACEHOLDER \<noteq> []" "c \<in> {58, 47, 63, 35} \<Longrightarrow> c \<notin> set PLACEHOLDER"
  by (auto simp: PLACEHOLDER_def cps_def)

lemma replace_simps [simp]:
  "replace_placeholder new [] = []"
  "replace_placeholder new (c # cs) =
     (if u_starts_with PLACEHOLDER (c # cs) then new @ replace_placeholder new (drop (length PLACEHOLDER) (c # cs))
      else c # replace_placeholder new cs)"
  by (subst replace_placeholder.simps, simp)+

lemma starts_with_brace [simp]: "c \<noteq> 123 \<Longrightarrow> \<not> u_starts_with PLACEHOLDER (c # cs)"
  by (simp add: u_starts_with_def PLACEHOLDER_def cps_def)

lemma replace_append:
  assumes "\<not> contains PLACEHOLDER a" and "b = [] \<or> hd b \<notin> set PLACEHOLDER"
  shows "replace_placeholder new (a @ b) = a @ replace_placeholder new b"
  using assms
proof (induction a)
  case (Cons c a)
  have "\<not> u_starts_with PLACEHOLDER ((c # a) @ b)"
  proof
    assume st: "u_starts_with PLACEHOLDER ((c # a) @ b)"
    let ?n = "length PLACEHOLDER"
    show False
    proof (cases "?n \<le> length (c # a)")
      case True
      have "take ?n ((c # a) @ b) = take ?n (c # a)" using True by (subst take_append) simp
      then have "u_starts_with PLACEHOLDER (c # a)" using st by (simp add: u_starts_with_def)
      then show False using Cons.prems(1) by simp
    next
      case False
      then have n: "take ?n ((c # a) @ b) = (c # a) @ take (?n - length (c # a)) b" "0 < ?n - length (c # a)"
        by (subst take_append, simp, simp)
      then have p: "PLACEHOLDER = (c # a) @ take (?n - length (c # a)) b" using st by (simp add: u_starts_with_def)
      show False
      proof (cases b)
        case Nil
        then show False using p st False by (metis append_Nil2 contains.simps(2) Cons.prems(1) u_starts_with_def take_all_iff nat_le_linear)
      next
        case (Cons x b')
        then have "x \<in> set PLACEHOLDER" using n(2) by (subst p) (cases "?n - length (c # a)", auto)
        then show False using Cons \<open>b = [] \<or> hd b \<notin> set PLACEHOLDER\<close> by simp
      qed
    qed
  qed
  then show ?case using Cons.IH Cons.prems by simp
qed simp

lemma replace_hd: "b = [] \<or> hd b \<noteq> 123 \<Longrightarrow> replace_placeholder new b = [] \<and> b = [] \<or> b \<noteq> [] \<and> replace_placeholder new b \<noteq> [] \<and> hd (replace_placeholder new b) = hd b"
  by (cases b) auto

lemma replace_set: "set (replace_placeholder new s) \<subseteq> set new \<union> set s"
proof (induction new s rule: replace_placeholder.induct)
  case (1 new s)
  show ?case
  proof (cases s)
    case (Cons c cs)
    then show ?thesis
      using 1 set_drop_subset [of "length PLACEHOLDER" s] by (cases "u_starts_with PLACEHOLDER s") auto
  qed simp
qed

lemma not_contains_scheme: "list_all scheme_char a \<Longrightarrow> \<not> contains PLACEHOLDER (a @ [58, 47, 47])"
proof (induction a)
  case (Cons c a)
  then show ?case by (auto simp: u_starts_with_def PLACEHOLDER_def cps_def)
qed (simp add: u_starts_with_def PLACEHOLDER_def cps_def)

lemma scheme_char_visible: "scheme_char c \<Longrightarrow> 32 < c"
  by (auto simp: scheme_char_def is_ascii_alpha_def is_ascii_digit_def)

lemma plain_code_facts: "plain_code c \<Longrightarrow> 32 < c \<and> c \<notin> {47, 63, 35, 58, 64}"
  by (auto simp: plain_code_def unreserved_def is_ascii_alpha_def is_ascii_digit_def)

lemma url_form_replaced:
  assumes "url_form s before netloc tail" and "\<not> contains PLACEHOLDER netloc" and "list_all plain_code new"
  shows "url_form (replace_placeholder new s) before netloc (replace_placeholder new tail)"
proof -
  have s: "s = (before @ [58, 47, 47]) @ netloc @ tail" "list_all scheme_char before" "tail = [] \<or> hd tail \<in> {47, 63, 35}"
    "list_all (\<lambda>c. 32 < c) s"
    using assms(1) by (auto simp: url_form_def)
  have tail: "tail = [] \<or> hd tail \<notin> set PLACEHOLDER" using s(3) placeholder_chars(3) by auto
  have rest: "replace_placeholder new (netloc @ tail) = netloc @ replace_placeholder new tail" by (rule replace_append [OF assms(2) tail])
  have "replace_placeholder new s = (before @ [58, 47, 47]) @ replace_placeholder new (netloc @ tail)"
  proof -
    have "replace_placeholder new (b @ r) = b @ replace_placeholder new r" if "123 \<notin> set b" for b r
      using that by (induction b) auto
    moreover have "123 \<notin> set (before @ [58, 47, 47])" using s(2) by (auto simp: list_all_iff)
    ultimately show ?thesis unfolding s(1) by blast
  qed
  then have eq: "replace_placeholder new s = before @ [58, 47, 47] @ netloc @ replace_placeholder new tail" using rest by simp
  have "list_all (\<lambda>c. 32 < c) (replace_placeholder new s)"
    using replace_set [of new s] s(4) assms(3) plain_code_facts by (auto simp: list_all_iff)
  moreover have "replace_placeholder new tail = [] \<or> hd (replace_placeholder new tail) \<in> {47, 63, 35}"
    using replace_hd [of tail new] s(3) by auto
  ultimately show ?thesis using assms(1) eq by (simp add: url_form_def)
qed

lemma url_form_appended:
  assumes "url_form s before netloc tail" and "list_all plain_code new" and "up_netloc parts = netloc"
    and "up_scheme parts = ascii_lower before"
    and "up_path parts = takeWhile (\<lambda>c. c \<noteq> 63) (takeWhile (\<lambda>c. c \<noteq> 35) tail)"
    and "up_query parts = drop (length (up_path parts) + 1) (takeWhile (\<lambda>c. c \<noteq> 35) tail)"
  shows "\<exists>tail'. url_form (urlunsplit (parts\<lparr>up_path := strip_slashes_right (up_path parts) @ 47 # new\<rparr>)) (ascii_lower before) netloc tail'"
proof -
  let ?tail = "strip_slashes_right (up_path parts) @ 47 # new @ (if up_query parts = [] then [] else 63 # up_query parts)"
  have s: "s = before @ [58, 47, 47] @ netloc @ tail" "list_all scheme_char before" "before \<noteq> []" "is_ascii_alpha (hd before)"
    "list_all (\<lambda>c. 32 < c) s" "tail = [] \<or> hd tail \<in> {47, 63, 35}" "list_all (\<lambda>c. c \<notin> {47, 63, 35}) netloc"
    using assms(1) by (auto simp: url_form_def)
  have low: "list_all scheme_char (ascii_lower before)" "is_ascii_alpha (hd (ascii_lower before))"
    using s(2-4) by (auto simp: list_all_iff ascii_lower_def scheme_char_def is_ascii_alpha_def is_ascii_digit_def hd_map)
  have path: "set (strip_slashes_right (up_path parts)) \<subseteq> set tail"
    using assms(5) by (auto simp: strip_slashes_right_def dest!: set_dropWhileD set_takeWhileD)
  have query: "set (up_query parts) \<subseteq> set tail" using assms(6) by (auto dest!: in_set_dropD set_takeWhileD)
  have hd: "hd ?tail \<in> {47, 63, 35}"
  proof (cases "strip_slashes_right (up_path parts)")
    case (Cons c p)
    have "\<exists>r. up_path parts = strip_slashes_right (up_path parts) @ r"
      unfolding strip_slashes_right_def by (metis rev_append rev_rev_ident takeWhile_dropWhile_id)
    then have "c = hd (up_path parts)" "up_path parts \<noteq> []" using Cons by auto
    then have "c = hd tail" "tail \<noteq> []" using assms(5) by (cases tail; auto split: if_splits)+
    then show ?thesis using s(6) Cons by auto
  qed simp
  have eq: "urlunsplit (parts\<lparr>up_path := strip_slashes_right (up_path parts) @ 47 # new\<rparr>) = ascii_lower before @ [58, 47, 47] @ netloc @ ?tail"
    using assms(3,4) by (simp add: urlunsplit_def)
  have vis: "32 < c" if "c \<in> set tail \<union> set netloc" for c using s(1,5) that by (auto simp: list_all_iff)
  have "list_all (\<lambda>c. 32 < c) (ascii_lower before @ [58, 47, 47] @ netloc @ ?tail)"
    using low(1) scheme_char_visible vis path query assms(2) plain_code_facts by (auto simp: list_all_iff)
  then have "url_form (urlunsplit (parts\<lparr>up_path := strip_slashes_right (up_path parts) @ 47 # new\<rparr>)) (ascii_lower before) netloc ?tail"
    unfolding url_form_def eq using low s(3,7) hd by (simp add: ascii_lower_def)
  then show ?thesis by blast
qed

lemma egress_url_host:
  assumes "build_egress_url netloc_ok ty server_url key = Inr out" and "list_all valid_code key"
    and "list_all (\<lambda>c. 32 < c) (u_strip (cps server_url))"
    and "urlsplit netloc_ok (u_strip (cps server_url)) = Inr parts" and "\<not> contains PLACEHOLDER (up_netloc parts)"
  shows "\<exists>parts'. urlsplit netloc_ok out = Inr parts' \<and> up_netloc parts' = up_netloc parts \<and> \<not> has_userinfo parts' \<and>
    up_scheme parts' = up_scheme parts \<and> up_scheme parts \<in> {cps ''rtmp'', cps ''rtmps''}"
proof -
  let ?url = "u_strip (cps server_url)" and ?q = "quote key"
  have b: "up_scheme parts \<in> RTMP_SCHEMES" "hostname parts \<noteq> []" "\<not> has_userinfo parts"
    "out = (if contains PLACEHOLDER ?url then replace_placeholder ?q ?url
      else urlunsplit (parts\<lparr>up_path := strip_slashes_right (up_path parts) @ 47 # ?q\<rparr>))"
    using assms(1,4) by (auto simp: build_egress_url_def rbind_eq_Inr Let_def split: if_splits)
  have "up_scheme parts \<noteq> []" using b(1) by (auto simp: RTMP_SCHEMES_def cps_def)
  moreover have "up_netloc parts \<noteq> []" using b(2) by (auto simp: hostname_def u_partition_def Let_def)
  ultimately obtain before tail where form: "url_form ?url before (up_netloc parts) tail" "up_scheme parts = ascii_lower before"
    "up_path parts = takeWhile (\<lambda>c. c \<noteq> 63) (takeWhile (\<lambda>c. c \<noteq> 35) tail)"
    "up_query parts = drop (length (up_path parts) + 1) (takeWhile (\<lambda>c. c \<noteq> 35) tail)"
    "(91 \<in> set (up_netloc parts)) = (93 \<in> set (up_netloc parts))" "netloc_ok (up_netloc parts)"
    using urlsplit_decompose [OF assms(4,3)] by blast
  have "\<exists>before' tail'. url_form out before' (up_netloc parts) tail' \<and> ascii_lower before' = ascii_lower before"
  proof (cases "contains PLACEHOLDER ?url")
    case True
    then show ?thesis using url_form_replaced [OF form(1) assms(5) quote_plain [OF assms(2)]] b(4) by auto
  next
    case False
    have "ascii_lower (ascii_lower before) = ascii_lower before" by (simp add: ascii_lower_def)
    then show ?thesis
      using url_form_appended [OF form(1) quote_plain [OF assms(2)] refl form(2-4)] b(4) False by auto
  qed
  then obtain before' tail' where f: "url_form out before' (up_netloc parts) tail'" "ascii_lower before' = ascii_lower before" by blast
  obtain parts' where "urlsplit netloc_ok out = Inr parts'" "up_scheme parts' = ascii_lower before'" "up_netloc parts' = up_netloc parts"
    using urlsplit_form [of out before' "up_netloc parts" tail' netloc_ok, OF f(1) form(5,6)] by blast
  then show ?thesis using b(1,3) f(2) form(2) by (auto simp: has_userinfo_def RTMP_SCHEMES_def)
qed

text \<open>A stream key cannot steer the publish connection: in the URL built from a destination, whatever the key
  contains, the scheme and the authority (host and port) are those of the destination and there is no user info,
  as long as the destination does not itself put the placeholder into its authority.\<close>

theorem egress_url_keeps_host:
  assumes "build_egress_url netloc_ok ty server_url key = Inr out" and "list_all valid_code key"
    and "list_all (\<lambda>c. 32 < c) (u_strip (cps server_url))"
    and "urlsplit netloc_ok (u_strip (cps server_url)) = Inr parts" and "\<not> contains PLACEHOLDER (up_netloc parts)"
  shows "\<exists>parts'. urlsplit netloc_ok out = Inr parts' \<and> up_netloc parts' = up_netloc parts \<and> \<not> has_userinfo parts' \<and>
    up_scheme parts' = up_scheme parts \<and> up_scheme parts \<in> {cps ''rtmp'', cps ''rtmps''}"
  by (rule egress_url_host [OF assms])

definition demo_key :: utext where
  "demo_key = cps ''a/b@evil.example?x#y''"

lemma demo_egress_url:
  "build_egress_url (\<lambda>_. True) ''RTMP'' ''rtmp://live.example:1935/app/'' demo_key =
     Inr (cps ''rtmp://live.example:1935/app/a%2Fb%40evil.example%3Fx%23y'')"
  "map_option up_netloc (case urlsplit (\<lambda>_. True) (u_strip (cps ''rtmp://live.example:1935/app/'')) of Inl _ \<Rightarrow> None | Inr p \<Rightarrow> Some p) =
     Some (cps ''live.example:1935'')"
  "list_all (\<lambda>c. 32 < c) (u_strip (cps ''rtmp://live.example:1935/app/''))"
  "\<not> contains PLACEHOLDER (cps ''live.example:1935'')"
  by code_simp+

theorem egress_url_keeps_host_witness:
  "\<exists>parts'. urlsplit (\<lambda>_. True) (cps ''rtmp://live.example:1935/app/a%2Fb%40evil.example%3Fx%23y'') = Inr parts' \<and>
     up_netloc parts' = cps ''live.example:1935''"
proof -
  obtain parts where p: "urlsplit (\<lambda>_. True) (u_strip (cps ''rtmp://live.example:1935/app/'')) = Inr parts"
    "up_netloc parts = cps ''live.example:1935''"
    using demo_egress_url(2) by (auto split: sum.splits)
  have "list_all valid_code demo_key" unfolding demo_key_def by (rule cps_valid)
  from egress_url_keeps_host [OF demo_egress_url(1) this demo_egress_url(3) p(1)] show ?thesis
    using demo_egress_url(4) p(2) by auto
qed

end
