(* ===== verification/Egress_Safety.thy ===== *)
theory Egress_Safety
  imports Catalog_Safety Egress_Delivery
begin

text \<open>
  From the catalog to the Node: where the stream of a Session is sent when its Node boots, put together from what the
  catalog promises of verified destinations, what the secret store promises and how the publish URL is built.
\<close>

section \<open>A delivery is the owner's\<close>

lemma get_destination_contents:
  assumes "readable tb fs d" and "fst (get_destination tb did u fs) = Inr item"
  shows "item_of d ''destinations'' did = Some item \<and> dget item ''user_id'' = JStr u"
proof -
  let ?body = "\<lambda>catalog. rbind (get_owned catalog ''destinations'' did u) (\<lambda>item. Inr (item, None))"
  have "fst (auth_locked CatalogStateError False default_catalog (catalog_decode tb) (catalog_encode tb) ?body fs) = Inr item"
    using assms(2) by (simp add: get_destination_def catalog_lock_def)
  then show ?thesis
    using cat.locked_cases [of fs tb d ?body False] assms(1) by (auto simp: readable_def catalog_of_def rbind_eq_Inr)
qed

lemma delivery_Inr:
  assumes "resolve_egress_delivery tb hash decrypt env catalog secrets (Some session) = Inr (url, peer)"
    and "dget session ''egress_mode'' \<noteq> JStr ''RELAY_ONLY''" and "truthy (dget session ''destination_id'')"
  obtains item secret out where
    "fst (get_destination tb (str_field session ''destination_id'') (str_field session ''user_id'') catalog) = Inr item"
    "dget item ''verification_status'' = JStr ''VERIFIED''" "dget_or item ''enabled'' (JBool True) = JBool True"
    "fst (resolve_secret hash decrypt (str_field session ''user_id'') (str_field item ''secret_ref'') secrets) = Inr secret"
    "build_egress_url (fst tb) (str_field item ''type'') (str_field item ''server_url'') (cps secret) = Inr out"
    "url = uchars out" "peer = verified_peer_ip (de_text env) item"
  using assms
  by (auto simp: resolve_egress_delivery_def resolve_destination_delivery_def rbind_eq_Inr Let_def split: sum.splits if_splits)


section \<open>A run\<close>

text \<open>A destination is created and verified, its secret is stored, and a Session of its owner is delivered.\<close>

definition demo_stream_calls :: "catalog_call list" where
  "demo_stream_calls =
     [CreateDestination ''d1'' ''u1'' ''rtmp'' ''live'' ''rtmp://live.example:1935/app'' ''r1'' (Fin 5),
      VerifyBegin 0 ''d1'' ''u1'',
      VerifyEnd 0 (ProbeOk \<lparr>pr_protocol = ''rtmp'', pr_peer_ip = JStr ''192.0.2.1'', pr_peer_port = JInt 1935, pr_elapsed_ms = JInt 5\<rparr>) (Fin 7)]"

definition demo_stream_session :: dict where
  "demo_stream_session = [(''user_id'', JStr ''u1''), (''destination_id'', JStr ''d1''), (''egress_mode'', JStr ''DIRECT'')]"

definition demo_delivery :: "err + string \<times> string option" where
  "demo_delivery =
     resolve_egress_delivery demo_tables (\<lambda>s. s) (\<lambda>c. Some (rev c))
       \<lparr>de_url = [], de_peer_ip = None, de_secrets_configured = True, de_text = (\<lambda>_. [])\<rparr>
       (cw_files (run_catalog demo_tables demo_stream_calls demo_catalog_world)) (snd demo_put) (Some demo_stream_session)"

lemma demo_delivery_is: "demo_delivery = Inr (''rtmp://live.example:1935/app/key'', Some ''192.0.2.1'')"
  by code_simp


end
