(* ===== verification/Alert_Lines.thy ===== *)
theory Alert_Lines
  imports Url_Text "HOL-Library.Multiset"
begin

text \<open>
  Reading JSONL for the operations tools (\<open>operations_jsonl_safety.py\<close>): records of bounded size from a stream of
  bytes or of text, the size check of a text record and the strict decoder.  What the JSON scanner of Python does
  with a text is an argument: the calls of the two hooks in their order and, if all of them return, the outcome.
\<close>

datatype record_line = OVERSIZED_RECORD | INVALID_UTF8_RECORD | Line utext

section \<open>Strict UTF-8\<close>

text \<open>\<open>utf8_step\<close> marks a malformed sequence by the replacement character; a well-formed one may encode that character too.\<close>

definition utf8_ok :: "int \<Rightarrow> int list \<Rightarrow> bool" where
  "utf8_ok b bs \<longleftrightarrow> fst (utf8_step b bs) \<noteq> REPLACEMENT \<or> b = 239 \<and> snd (utf8_step b bs) = 2"

fun utf8_strict :: "int list \<Rightarrow> utext option" where
  "utf8_strict [] = Some []"
| "utf8_strict (b # bs) =
     (if utf8_ok b bs then map_option ((#) (fst (utf8_step b bs))) (utf8_strict (drop (snd (utf8_step b bs)) bs)) else None)"

section \<open>Bounded reading\<close>

text \<open>\<open>stream.readline(n)\<close>: what is read and what is left.\<close>

fun readline :: "nat \<Rightarrow> int list \<Rightarrow> int list \<times> int list" where
  "readline 0 s = ([], s)"
| "readline (Suc n) [] = ([], [])"
| "readline (Suc n) (c # s) = (if c = 10 then ([c], s) else (c # fst (readline n s), snd (readline n s)))"

text \<open>The line that starts a stream, with its end-of-line character if there is one.\<close>

definition first_line :: "int list \<Rightarrow> int list" where
  "first_line s = takeWhile (\<lambda>c. c \<noteq> 10) s @ (if 10 \<in> set s then [10] else [])"

lemma first_line_simps [simp]:
  "first_line [] = []" "first_line (c # s) = (if c = 10 then [c] else c # first_line s)"
  by (simp_all add: first_line_def)

lemma first_line_empty [simp]: "first_line s = [] \<longleftrightarrow> s = []"
  by (cases s) simp_all

lemma length_first_line: "length (first_line s) \<le> length s"
  by (induction s) simp_all

lemma readline_eq: "readline n s = (take n (first_line s), drop (length (take n (first_line s))) s)"
  by (induction n s rule: readline.induct) simp_all

lemma last_first_line: "s \<noteq> [] \<Longrightarrow> n < length (first_line s) \<Longrightarrow> take n (first_line s) \<noteq> [] \<Longrightarrow> last (take n (first_line s)) \<noteq> 10"
proof (induction s arbitrary: n)
  case (Cons c s)
  then show ?case by (cases n) (auto split: if_splits)
qed simp

text \<open>\<open>while line and not line.endswith("\n"): line = stream.readline(n)\<close>: what is left.\<close>

function drain :: "nat \<Rightarrow> int list \<Rightarrow> int list" where
  "drain n s =
     (let (line, rest) = readline n s in if line = [] \<or> last line = 10 then rest else drain n rest)"
  by pat_completeness auto
termination
  by (relation "measure (length \<circ> snd)") (auto simp: readline_eq)

declare drain.simps [simp del]

function byte_records :: "nat \<Rightarrow> int list \<Rightarrow> record_line list" where
  "byte_records max_record_bytes s =
     (let (line, rest) = readline (max_record_bytes + 1) s in
      if line = [] then []
      else if last line = 10 \<or> length line < max_record_bytes + 1 then
        (if max_record_bytes < length line then OVERSIZED_RECORD
         else case utf8_strict line of Some text \<Rightarrow> Line text | None \<Rightarrow> INVALID_UTF8_RECORD)
        # byte_records max_record_bytes rest
      else OVERSIZED_RECORD # byte_records max_record_bytes (drain (max_record_bytes + 1) rest))"
  by pat_completeness auto

lemma drain_length: "length (drain n s) \<le> length s"
proof (induction n s rule: drain.induct)
  case (1 n s)
  then show ?case
    by (subst drain.simps) (fastforce simp: readline_eq split: prod.splits)
qed

termination byte_records
proof (relation "measure (length \<circ> snd)")
  fix m :: nat and s x and line rest :: "int list"
  assume "x = readline (m + 1) s" "(line, rest) = x" "line \<noteq> []"
  then have "length rest < length s" by (auto simp: readline_eq)
  then show "((m, rest), m, s) \<in> measure (length \<circ> snd)" "((m, drain (m + 1) rest), m, s) \<in> measure (length \<circ> snd)"
    using drain_length [of "m + 1" rest] by simp_all
qed simp

declare byte_records.simps [simp del]

definition iter_bounded_byte_lines :: "nat \<Rightarrow> int list \<Rightarrow> err + record_line list" where
  "iter_bounded_byte_lines max_record_bytes s =
     (if max_record_bytes = 0 then Inl ValueError else Inr (byte_records max_record_bytes s))"

text \<open>The reader of text streams; it leaves a line of just one character more to the size check.\<close>

function text_records :: "nat \<Rightarrow> utext \<Rightarrow> record_line list" where
  "text_records max_record_bytes s =
     (let (line, rest) = readline (max_record_bytes + 1) s in
      if line = [] then []
      else if last line = 10 \<or> length line < max_record_bytes + 1 then Line line # text_records max_record_bytes rest
      else OVERSIZED_RECORD # text_records max_record_bytes (drain (max_record_bytes + 1) rest))"
  by pat_completeness auto
termination
proof (relation "measure (length \<circ> snd)")
  fix m :: nat and s x and line rest :: "int list"
  assume "x = readline (m + 1) s" "(line, rest) = x" "line \<noteq> []"
  then have "length rest < length s" by (auto simp: readline_eq)
  then show "((m, rest), m, s) \<in> measure (length \<circ> snd)" "((m, drain (m + 1) rest), m, s) \<in> measure (length \<circ> snd)"
    using drain_length [of "m + 1" rest] by simp_all
qed simp

declare text_records.simps [simp del]

definition iter_bounded_lines :: "nat \<Rightarrow> utext \<Rightarrow> err + record_line list" where
  "iter_bounded_lines max_record_bytes s =
     (if max_record_bytes = 0 then Inl ValueError else Inr (text_records max_record_bytes s))"

definition utf8_length :: "utext \<Rightarrow> nat" where
  "utf8_length s = sum_list (map (\<lambda>c. if c < 128 then 1 else if c < 2048 then 2 else if c < 65536 then 3 else 4) s)"

definition utf8_size_violation :: "nat \<Rightarrow> utext \<Rightarrow> string option" where
  "utf8_size_violation max_record_bytes line =
     (if list_ex (\<lambda>c. 55296 \<le> c \<and> c \<le> 57343) line then Some ''INVALID_JSON''
      else if max_record_bytes < utf8_length line then Some ''RECORD_TOO_LARGE''
      else None)"

section \<open>Strict JSON\<close>

text \<open>A hook call: an object with these keys was closed, or one of the constants NaN and Infinity was read.\<close>

datatype hook_call = ClosedObject "string list" | ConstantRead
datatype scan_result = Scanned json | Malformed | TooDeep
datatype loads_error = DuplicateKeyError | NonFiniteNumberError | JSONDecodeError | RecursionError

type_synonym scanner = "utext \<Rightarrow> hook_call list \<times> scan_result"

fun object_without_duplicates :: "string list \<Rightarrow> string list \<Rightarrow> bool" where
  "object_without_duplicates seen [] = True"
| "object_without_duplicates seen (k # ks) = (k \<notin> set seen \<and> object_without_duplicates (k # seen) ks)"

fun run_hooks :: "hook_call list \<Rightarrow> loads_error option" where
  "run_hooks [] = None"
| "run_hooks (ClosedObject ks # hs) = (if object_without_duplicates [] ks then run_hooks hs else Some DuplicateKeyError)"
| "run_hooks (ConstantRead # hs) = Some NonFiniteNumberError"

definition strict_json_loads :: "scanner \<Rightarrow> utext \<Rightarrow> loads_error + json" where
  "strict_json_loads scan line =
     (case run_hooks (fst (scan line)) of
        Some e \<Rightarrow> Inl e
      | None \<Rightarrow> (case snd (scan line) of Scanned v \<Rightarrow> Inr v | Malformed \<Rightarrow> Inl JSONDecodeError | TooDeep \<Rightarrow> Inl RecursionError))"

section \<open>The reader against the lines of the stream\<close>

fun split_lines :: "int list \<Rightarrow> int list list" where
  "split_lines [] = []"
| "split_lines (c # s) = (if c = 10 then [c] # split_lines s else
     (case split_lines s of [] \<Rightarrow> [[c]] | l # ls \<Rightarrow> (c # l) # ls))"

definition byte_record :: "nat \<Rightarrow> int list \<Rightarrow> record_line" where
  "byte_record max_record_bytes line =
     (if max_record_bytes < length line then OVERSIZED_RECORD
      else case utf8_strict line of Some text \<Rightarrow> Line text | None \<Rightarrow> INVALID_UTF8_RECORD)"

lemma split_lines_first: "s \<noteq> [] \<Longrightarrow> split_lines s = first_line s # split_lines (drop (length (first_line s)) s)"
proof (induction s)
  case (Cons c s)
  then show ?case by (cases "s = []") simp_all
qed simp

lemma first_line_drop: "n < length (first_line s) \<Longrightarrow> first_line (drop n s) = drop n (first_line s)"
proof (induction s arbitrary: n)
  case (Cons c s)
  then show ?case by (cases n) (auto split: if_splits)
qed simp

lemma first_line_unended: "last (first_line s) \<noteq> 10 \<Longrightarrow> first_line s = s"
  by (induction s) (auto split: if_splits)

lemma drain_first: "0 < n \<Longrightarrow> drain n s = drop (length (first_line s)) s"
proof (induction n s rule: drain.induct)
  case (1 n s)
  let ?line = "take n (first_line s)" and ?rest = "drop (length (take n (first_line s))) s"
  have step: "drain n s = (if ?line = [] \<or> last ?line = 10 then ?rest else drain n ?rest)"
    by (subst drain.simps) (simp add: readline_eq)
  show ?case
  proof (cases "n < length (first_line s)")
    case True
    then have ne: "s \<noteq> []" by auto
    then have s: "?line \<noteq> []" "last ?line \<noteq> 10" "length ?line = n" using True 1(2) last_first_line [OF ne True] by auto
    then have "drain n s = drop (length (first_line ?rest)) ?rest"
      using step 1(1) [OF _ _ _ 1(2), of "readline n s"] by (simp add: readline_eq)
    then show ?thesis using s(3) True by (simp add: first_line_drop)
  next
    case False
    then have line: "?line = first_line s" by simp
    show ?thesis
    proof (cases "?line = [] \<or> last ?line = 10")
      case False
      then have "first_line s = s" using line first_line_unended by simp
      then have "drain n s = drain n []" using step False line by simp
      then show ?thesis using \<open>first_line s = s\<close> by (subst (asm) (2) drain.simps) (cases n, simp_all)
    qed (use step line in simp)
  qed
qed

text \<open>Both readers, with their choice of what to make of a complete line.\<close>

lemma short_line:
  assumes "s \<noteq> []"
  shows "last (take (m + 1) (first_line s)) = 10 \<or> length (take (m + 1) (first_line s)) < m + 1 \<longleftrightarrow>
    length (first_line s) \<le> m \<or> length (first_line s) = m + 1 \<and> last (first_line s) = 10"
proof (cases "m + 1 < length (first_line s)")
  case True
  then show ?thesis using last_first_line [OF assms True] assms by simp
qed auto

text \<open>C32. The bounded reader is exact: cutting a stream into chunks of at most one byte more than the limit, it
  delivers one record per line of the stream, in order, and each is what the whole line deserves: refused if it is
  longer than the limit, otherwise decoded strictly; after an oversized line it finds the start of the next one.\<close>

theorem bounded_reader_exact: "byte_records max_record_bytes s = map (byte_record max_record_bytes) (split_lines s)"
proof (induction max_record_bytes s rule: byte_records.induct)
  case (1 m s)
  let ?line = "take (m + 1) (first_line s)" and ?rest = "drop (length (take (m + 1) (first_line s))) s"
  have step: "byte_records m s =
      (if ?line = [] then []
       else if last ?line = 10 \<or> length ?line < m + 1 then byte_record m ?line # byte_records m ?rest
       else OVERSIZED_RECORD # byte_records m (drain (m + 1) ?rest))"
    by (subst byte_records.simps) (simp add: readline_eq byte_record_def)
  show ?case
  proof (cases "s = []")
    case False
    note ne = this
    then have lines: "split_lines s = first_line s # split_lines (drop (length (first_line s)) s)" and line: "?line \<noteq> []"
      by (simp_all add: split_lines_first)
    show ?thesis
    proof (cases "last ?line = 10 \<or> length ?line < m + 1")
      case True
      then have "?line = first_line s" using short_line [OF ne, of m] by auto
      then show ?thesis using step True line lines 1(1) [of "readline (m + 1) s"] by (simp add: readline_eq)
    next
      case short: False
      then have long: "m < length (first_line s)" using short_line [OF ne, of m] by auto
      have "drain (m + 1) ?rest = drop (length (first_line s)) s"
      proof (cases "m + 1 < length (first_line s)")
        case True
        moreover from this have "Suc (length (first_line s) - Suc 0) = length (first_line s)" by linarith
        ultimately show ?thesis by (simp add: drain_first first_line_drop)
      next
        case False
        then have "length (first_line s) = m + 1" "last (first_line s) \<noteq> 10" using long short by auto
        then show ?thesis using first_line_unended [of s] by (simp add: drain_first)
      qed
      then show ?thesis using step short line lines long 1(2) [of "readline (m + 1) s"] by (simp add: readline_eq byte_record_def)
    qed
  qed (use step in simp)
qed

end
