(* ===== verification/Alert_Evaluation.thy ===== *)
theory Alert_Evaluation
  imports Alert_Lines Session_Event_Policy
begin

text \<open>
  The loop shared by the alert evaluators (\<open>evaluate_lines\<close> of the \<open>operations_*_alerts.py\<close> modules): every line is
  judged, the judgements are counted, and one invalid record makes the whole batch invalid.  A module brings the
  judgement of a decoded record; the locale at the end is what a module owes for its report to mean something.
\<close>

section \<open>Judging a line\<close>

text \<open>What one line comes to: a record that matches an alert, one that matches none, or a violation.\<close>

datatype judged = Matched string | Unmatched | Violation string

definition judge_line :: "scanner \<Rightarrow> (json \<Rightarrow> judged) \<Rightarrow> string \<Rightarrow> nat \<Rightarrow> record_line \<Rightarrow> judged option" where
  "judge_line scan judge too_deep max_record_bytes line =
     (case line of
        OVERSIZED_RECORD \<Rightarrow> Some (Violation ''RECORD_TOO_LARGE'')
      | INVALID_UTF8_RECORD \<Rightarrow> Some (Violation ''INVALID_JSON'')
      | Line s \<Rightarrow>
          (case utf8_size_violation max_record_bytes s of
             Some reason \<Rightarrow> Some (Violation reason)
           | None \<Rightarrow>
               if u_strip s = [] then None else
               Some (case strict_json_loads scan s of
                  Inl DuplicateKeyError \<Rightarrow> Violation ''DUPLICATE_JSON_KEY''
                | Inl NonFiniteNumberError \<Rightarrow> Violation ''NONFINITE_NUMBER''
                | Inl RecursionError \<Rightarrow> Violation too_deep
                | Inl JSONDecodeError \<Rightarrow> Violation ''INVALID_JSON''
                | Inr v \<Rightarrow> judge v)))"

section \<open>Counting\<close>

text \<open>A \<open>Counter\<close>, and \<open>dict(sorted(counter.items()))\<close>.\<close>

type_synonym counter = "(string \<times> nat) list"

definition bump :: "string \<Rightarrow> counter \<Rightarrow> counter" where
  "bump k c = dset c k (case map_of c k of None \<Rightarrow> 1 | Some n \<Rightarrow> n + 1)"

definition sorted_items :: "counter \<Rightarrow> counter" where
  "sorted_items c = sort_key fst c"

record tally =
  ta_records :: nat
  ta_matches :: counter
  ta_unmatched :: nat
  ta_invalid :: bool
  ta_reasons :: counter

definition no_records :: tally where
  "no_records = \<lparr>ta_records = 0, ta_matches = [], ta_unmatched = 0, ta_invalid = False, ta_reasons = []\<rparr>"

fun tally_record :: "judged \<Rightarrow> tally \<Rightarrow> tally" where
  "tally_record (Matched i) t = t\<lparr>ta_records := ta_records t + 1, ta_matches := bump i (ta_matches t)\<rparr>"
| "tally_record Unmatched t = t\<lparr>ta_records := ta_records t + 1, ta_unmatched := ta_unmatched t + 1\<rparr>"
| "tally_record (Violation r) t = t\<lparr>ta_records := ta_records t + 1, ta_invalid := True, ta_reasons := bump r (ta_reasons t)\<rparr>"

record report =
  rp_status :: string
  rp_records :: nat
  rp_matched :: counter
  rp_unmatched :: nat
  rp_violations :: counter

definition report_of :: "tally \<Rightarrow> report" where
  "report_of t =
     (if ta_invalid t then
        \<lparr>rp_status = ''INVALID'', rp_records = ta_records t, rp_matched = [], rp_unmatched = 0,
         rp_violations = sorted_items (ta_reasons t)\<rparr>
      else
        \<lparr>rp_status = (if ta_matches t \<noteq> [] then ''MATCHED'' else ''NO_MATCHES''), rp_records = ta_records t,
         rp_matched = sorted_items (ta_matches t), rp_unmatched = ta_unmatched t, rp_violations = []\<rparr>)"

definition evaluate_records :: "scanner \<Rightarrow> (json \<Rightarrow> judged) \<Rightarrow> string \<Rightarrow> nat \<Rightarrow> record_line list \<Rightarrow> report" where
  "evaluate_records scan judge too_deep max_record_bytes lines =
     report_of (fold (\<lambda>line t. case judge_line scan judge too_deep max_record_bytes line of None \<Rightarrow> t | Some j \<Rightarrow> tally_record j t)
       lines no_records)"

text \<open>The reports of a command that does not get to its input, and the exit codes.\<close>

definition empty_report :: "string \<Rightarrow> report" where
  "empty_report status = \<lparr>rp_status = status, rp_records = 0, rp_matched = [], rp_unmatched = 0, rp_violations = []\<rparr>"

definition exit_code :: "string \<Rightarrow> int option" where
  "exit_code status =
     map_of [(''NO_MATCHES'', 0), (''MATCHED'', 0), (''INVALID'', 3), (''INVALID_CATALOG'', 4), (''INVALID_THRESHOLD'', 5)] status"

text \<open>Standard input: with its byte buffer, or text only.\<close>

datatype input_stream = ByteStream "int list" | TextStream utext

definition stream_records :: "nat \<Rightarrow> input_stream \<Rightarrow> record_line list" where
  "stream_records max_record_bytes source =
     (case source of
        ByteStream bs \<Rightarrow> byte_records max_record_bytes bs
      | TextStream s \<Rightarrow> text_records max_record_bytes s)"

section \<open>The report in terms of the judgements\<close>

definition judgements :: "scanner \<Rightarrow> (json \<Rightarrow> judged) \<Rightarrow> string \<Rightarrow> nat \<Rightarrow> record_line list \<Rightarrow> judged list" where
  "judgements scan judge too_deep max_record_bytes lines = List.map_filter (judge_line scan judge too_deep max_record_bytes) lines"

lemma evaluate_judgements:
  "evaluate_records scan judge too_deep m lines =
     report_of (fold tally_record (judgements scan judge too_deep m lines) no_records)"
proof -
  have "fold (\<lambda>line t. case judge_line scan judge too_deep m line of None \<Rightarrow> t | Some j \<Rightarrow> tally_record j t) lines t =
      fold tally_record (judgements scan judge too_deep m lines) t" for t
    by (induction lines arbitrary: t) (simp_all add: judgements_def List.map_filter_simps split: option.split)
  then show ?thesis by (simp add: evaluate_records_def)
qed

definition records_counted :: "counter \<Rightarrow> (string \<Rightarrow> nat) \<Rightarrow> bool" where
  "records_counted c f \<longleftrightarrow> distinct (map fst c) \<and> (\<forall>k. map_of c k = (if f k = 0 then None else Some (f k)))"

lemma counted_Nil: "records_counted [] (\<lambda>_. 0)"
  by (simp add: records_counted_def)

lemma counted_bump: "records_counted c f \<Longrightarrow> records_counted (bump k c) (f(k := f k + 1))"
  by (auto simp: records_counted_def bump_def split: option.splits if_splits)

lemma counted_unique:
  assumes "records_counted c f" "records_counted c' f"
  shows "sorted_items c = sorted_items c'"
proof -
  have set: "set c = set c'"
    using assms map_of_eq_Some_iff [of c] map_of_eq_Some_iff [of c'] by (auto simp: records_counted_def)
  have inj: "inj_on fst (set c \<union> set c')" using assms(1) set by (auto simp: records_counted_def distinct_map)
  have dist: "distinct (map fst (sort_key fst d))" if "distinct (map fst d)" for d :: counter
    using that by (auto simp: distinct_map)
  have "sort_key fst c = sort_key fst c'"
  proof (rule map_sorted_distinct_set_unique [of fst])
    show "inj_on fst (set (sort_key fst c) \<union> set (sort_key fst c'))" using inj by simp
    show "distinct (map fst (sort_key fst c))" "distinct (map fst (sort_key fst c'))"
      using assms by (auto intro!: dist simp: records_counted_def)
  qed (use set in auto)
  then show ?thesis by (simp add: sorted_items_def)
qed

lemma counted_single: "records_counted c (\<lambda>k. if k = i then n else 0) \<Longrightarrow> sorted_items c = (if n = 0 then [] else [(i, n)])"
  using counted_unique [of c "\<lambda>k. if k = i then n else 0" "if n = 0 then [] else [(i, n)]"]
  by (auto simp: records_counted_def sorted_items_def)

lemma counted_empty: "records_counted c f \<Longrightarrow> c = [] \<longleftrightarrow> (\<forall>k. f k = 0)"
  by (cases c) (fastforce simp: records_counted_def split: if_splits)+

text \<open>The counts of a tally are the numbers of judgements of each kind.\<close>

definition tallied :: "judged list \<Rightarrow> tally \<Rightarrow> bool" where
  "tallied js t \<longleftrightarrow> ta_records t = length js \<and> ta_unmatched t = count_list js Unmatched \<and>
     (ta_invalid t \<longleftrightarrow> (\<exists>r. Violation r \<in> set js)) \<and>
     records_counted (ta_matches t) (\<lambda>i. count_list js (Matched i)) \<and> records_counted (ta_reasons t) (\<lambda>r. count_list js (Violation r))"

lemma tallied_snoc: "tallied js t \<Longrightarrow> tallied (js @ [j]) (tally_record j t)"
proof (cases j)
  case (Matched i)
  assume t: "tallied js t"
  have "(\<lambda>k. count_list (js @ [j]) (Matched k)) = (\<lambda>k. count_list js (Matched k))(i := count_list js (Matched i) + 1)"
    using Matched by auto
  then show ?thesis using t Matched counted_bump [of "ta_matches t" "\<lambda>k. count_list js (Matched k)" i] by (auto simp: tallied_def)
next
  case (Violation r)
  assume t: "tallied js t"
  have "(\<lambda>k. count_list (js @ [j]) (Violation k)) = (\<lambda>k. count_list js (Violation k))(r := count_list js (Violation r) + 1)"
    using Violation by auto
  then show ?thesis using t Violation counted_bump [of "ta_reasons t" "\<lambda>k. count_list js (Violation k)" r] by (auto simp: tallied_def)
qed (auto simp: tallied_def)

lemma tallied_fold: "tallied js (fold tally_record js no_records)"
proof (induction js rule: rev_induct)
  case Nil
  show ?case by (simp add: tallied_def no_records_def counted_Nil)
next
  case (snoc j js)
  then show ?case by (simp add: tallied_snoc)
qed

lemma report_tallied:
  assumes "tallied js t"
  shows "rp_status (report_of t) = (if \<exists>r. Violation r \<in> set js then ''INVALID'' else if \<exists>i. Matched i \<in> set js then ''MATCHED'' else ''NO_MATCHES'')"
    and "rp_records (report_of t) = length js"
    and "rp_unmatched (report_of t) = (if \<exists>r. Violation r \<in> set js then 0 else count_list js Unmatched)"
proof -
  have "ta_matches t = [] \<longleftrightarrow> \<not> (\<exists>i. Matched i \<in> set js)"
    using assms counted_empty [of "ta_matches t" "\<lambda>i. count_list js (Matched i)"] by (auto simp: tallied_def count_list_0_iff)
  then show "rp_status (report_of t) = (if \<exists>r. Violation r \<in> set js then ''INVALID'' else if \<exists>i. Matched i \<in> set js then ''MATCHED'' else ''NO_MATCHES'')"
    using assms by (auto simp: report_of_def tallied_def)
qed (use assms in \<open>auto simp: report_of_def tallied_def\<close>)

lemma report_unique:
  assumes "tallied js t" "tallied js' t'" "mset js = mset js'"
  shows "report_of t = report_of t'"
proof -
  have same: "count_list js j = count_list js' j" for j using assms(3) by (metis count_mset)
  have "set js = set js'" using assms(3) by (rule mset_eq_setD)
  moreover have "length js = length js'" using assms(3) by (rule mset_eq_length)
  moreover have "ta_matches t = [] \<longleftrightarrow> ta_matches t' = []"
    using assms(1,2) counted_empty [of "ta_matches t"] counted_empty [of "ta_matches t'"] by (fastforce simp: tallied_def same)
  moreover have "sorted_items (ta_matches t) = sorted_items (ta_matches t')" "sorted_items (ta_reasons t) = sorted_items (ta_reasons t')"
    using assms(1,2) by (auto intro!: counted_unique simp: tallied_def same)
  ultimately show ?thesis using assms(1,2) by (simp add: report_of_def tallied_def same)
qed

text \<open>A report does not depend on the order of the lines.\<close>

lemma evaluate_order:
  assumes "mset lines = mset lines'"
  shows "evaluate_records scan judge too_deep m lines = evaluate_records scan judge too_deep m lines'"
proof -
  have mf: "mset (List.map_filter f xs) = image_mset (the \<circ> f) (filter_mset (\<lambda>x. f x \<noteq> None) (mset xs))" for f :: "record_line \<Rightarrow> judged option" and xs
    by (simp add: List.map_filter_def)
  have "mset (judgements scan judge too_deep m lines) = mset (judgements scan judge too_deep m lines')"
    using assms by (simp add: judgements_def mf)
  then show ?thesis unfolding evaluate_judgements by (rule report_unique [OF tallied_fold tallied_fold])
qed

section \<open>What a module owes\<close>

text \<open>
  The lines of a batch in terms of a condition on records: \<open>holds v\<close> is None for a value that is not a record of the
  module, otherwise whether the alert applies.  A line is blank, carries a record, or spoils the batch.
\<close>

definition sound_line :: "(json \<Rightarrow> bool option) \<Rightarrow> scanner \<Rightarrow> nat \<Rightarrow> record_line \<Rightarrow> bool" where
  "sound_line holds scan m line =
     (case line of
        Line s \<Rightarrow> utf8_size_violation m s = None \<and> u_strip s \<noteq> [] \<and>
          (case strict_json_loads scan s of Inl _ \<Rightarrow> False | Inr v \<Rightarrow> holds v \<noteq> None)
      | _ \<Rightarrow> False)"

definition alarming :: "(json \<Rightarrow> bool option) \<Rightarrow> scanner \<Rightarrow> nat \<Rightarrow> record_line \<Rightarrow> bool" where
  "alarming holds scan m line =
     (sound_line holds scan m line \<and>
      (case line of Line s \<Rightarrow> (case strict_json_loads scan s of Inl _ \<Rightarrow> False | Inr v \<Rightarrow> holds v = Some True) | _ \<Rightarrow> False))"

definition blank_line :: "nat \<Rightarrow> record_line \<Rightarrow> bool" where
  "blank_line m line = (case line of Line s \<Rightarrow> utf8_size_violation m s = None \<and> u_strip s = [] | _ \<Rightarrow> False)"

lemma sound_not_blank: "sound_line holds scan m line \<Longrightarrow> \<not> blank_line m line"
  by (cases line) (auto simp: sound_line_def blank_line_def)

lemma alarming_sound: "alarming holds scan m line \<Longrightarrow> sound_line holds scan m line"
  by (simp add: alarming_def)

text \<open>The report a batch deserves.\<close>

definition batch_report :: "(json \<Rightarrow> bool option) \<Rightarrow> string \<Rightarrow> scanner \<Rightarrow> nat \<Rightarrow> record_line list \<Rightarrow> report" where
  "batch_report holds alert_id scan m lines =
     (let n = length (filter (alarming holds scan m) lines) in
      \<lparr>rp_status = (if n = 0 then ''NO_MATCHES'' else ''MATCHED''), rp_records = length (filter (sound_line holds scan m) lines),
       rp_matched = (if n = 0 then [] else [(alert_id, n)]),
       rp_unmatched = length (filter (\<lambda>line. sound_line holds scan m line \<and> \<not> alarming holds scan m line) lines),
       rp_violations = []\<rparr>)"

locale alert_judge =
  fixes judge :: "json \<Rightarrow> judged" and alert_id :: string and holds :: "json \<Rightarrow> bool option"
  assumes judge_matched: "judge v = Matched i \<longleftrightarrow> i = alert_id \<and> holds v = Some True"
    and judge_unmatched: "judge v = Unmatched \<longleftrightarrow> holds v = Some False"
begin

lemma judge_line_cases:
  "judge_line scan judge too_deep m line = None \<longleftrightarrow> blank_line m line"
  "judge_line scan judge too_deep m line = Some (Matched i) \<longleftrightarrow> i = alert_id \<and> alarming holds scan m line"
  "judge_line scan judge too_deep m line = Some Unmatched \<longleftrightarrow> sound_line holds scan m line \<and> \<not> alarming holds scan m line"
  by (auto simp: judge_line_def blank_line_def sound_line_def alarming_def judge_matched judge_unmatched
      split: record_line.splits option.splits sum.splits loads_error.splits)

lemma sound_judged:
  "sound_line holds scan m line \<Longrightarrow> judge_line scan judge too_deep m line = Some (if alarming holds scan m line then Matched alert_id else Unmatched)"
  using judge_line_cases(2) [of scan too_deep m line alert_id] judge_line_cases(3) [of scan too_deep m line] by simp

lemma unsound_judged:
  assumes "\<not> blank_line m line" "\<not> sound_line holds scan m line"
  obtains r where "judge_line scan judge too_deep m line = Some (Violation r)"
proof (cases "judge_line scan judge too_deep m line")
  case None
  then show ?thesis using assms(1) judge_line_cases(1) by blast
next
  case (Some j)
  then show ?thesis
    using assms(2) alarming_sound [of holds scan m line] judge_line_cases(2) [of scan too_deep m line] judge_line_cases(3) [of scan too_deep m line] that
    by (cases j) simp_all
qed

theorem report_sound:
  assumes "\<forall>line \<in> set lines. blank_line m line \<or> sound_line holds scan m line"
  shows "evaluate_records scan judge too_deep m lines = batch_report holds alert_id scan m lines"
proof -
  define n where "n = length (filter (alarming holds scan m) lines)"
  let ?js = "judgements scan judge too_deep m lines" and ?t = "fold tally_record (judgements scan judge too_deep m lines) no_records"
  have js: "?js = map (\<lambda>line. if alarming holds scan m line then Matched alert_id else Unmatched) (filter (sound_line holds scan m) lines)"
    using assms
  proof (induction lines)
    case (Cons l ls)
    then show ?case
      using sound_judged [of scan m l too_deep] judge_line_cases(1) [of scan too_deep m l] sound_not_blank [of holds scan m l]
      by (auto simp: judgements_def List.map_filter_simps)
  qed (simp add: judgements_def List.map_filter_simps)
  have count: "count_list (map (\<lambda>line. if alarming holds scan m line then Matched alert_id else Unmatched) (filter (sound_line holds scan m) ls)) j =
      (if j = Matched alert_id then length (filter (alarming holds scan m) ls)
       else if j = Unmatched then length (filter (\<lambda>line. sound_line holds scan m line \<and> \<not> alarming holds scan m line) ls) else 0)" for ls j
    by (induction ls) (auto dest: alarming_sound)
  have t: "tallied ?js ?t" by (rule tallied_fold)
  have c: "count_list ?js (Matched i) = (if i = alert_id then n else 0)"
    "count_list ?js Unmatched = length (filter (\<lambda>line. sound_line holds scan m line \<and> \<not> alarming holds scan m line) lines)"
    "count_list ?js (Violation r) = 0" for i r
    unfolding js count n_def by simp_all
  have "\<not> (\<exists>r. Violation r \<in> set ?js)" using c(3) by (metis count_list_0_iff)
  moreover have "sorted_items (ta_matches ?t) = (if n = 0 then [] else [(alert_id, n)])"
    using t counted_single [of "ta_matches ?t" alert_id n] by (simp add: tallied_def c(1))
  moreover have "ta_matches ?t = [] \<longleftrightarrow> n = 0"
    using t counted_empty [of "ta_matches ?t" "\<lambda>i. count_list ?js (Matched i)"] by (auto simp: tallied_def c(1))
  moreover have "length ?js = length (filter (sound_line holds scan m) lines)" by (simp add: js)
  ultimately show ?thesis
    using t by (auto simp: evaluate_judgements report_of_def tallied_def c(2) batch_report_def n_def)
qed

theorem report_unsound:
  assumes "line \<in> set lines" "\<not> blank_line m line" "\<not> sound_line holds scan m line"
  shows "rp_status (evaluate_records scan judge too_deep m lines) = ''INVALID''"
    "rp_matched (evaluate_records scan judge too_deep m lines) = []"
    "rp_unmatched (evaluate_records scan judge too_deep m lines) = 0"
proof -
  let ?js = "judgements scan judge too_deep m lines"
  obtain r where "judge_line scan judge too_deep m line = Some (Violation r)" by (rule unsound_judged [OF assms(2,3)])
  then have "Violation r \<in> set ?js" using assms(1) by (force simp: judgements_def List.map_filter_def)
  then have v: "\<exists>r. Violation r \<in> set ?js" by blast
  note t = tallied_fold [of ?js]
  show "rp_status (evaluate_records scan judge too_deep m lines) = ''INVALID''"
    "rp_unmatched (evaluate_records scan judge too_deep m lines) = 0"
    unfolding evaluate_judgements using report_tallied [OF t] v by simp_all
  show "rp_matched (evaluate_records scan judge too_deep m lines) = []"
    unfolding evaluate_judgements using t v by (simp add: report_of_def tallied_def)
qed

end

end
