(* ===== verification/Alert_Catalog.thy ===== *)
theory Alert_Catalog
  imports Alert_Evaluation Python_Text Session_State
begin

text \<open>
  The catalog of operations alerts (\<open>operations_alert_catalog.py\<close>) and the evaluator of alerts that are triggered by
  events (\<open>operations_event_alerts.py\<close>).  Whether a runbook exists in the checkout is an argument.
\<close>

section \<open>Validation\<close>

definition ALLOWED_SEVERITIES :: "string list" where
  "ALLOWED_SEVERITIES = [''critical'', ''warning'']"

definition REQUIRED_ALERT_FIELDS :: "string list" where
  "REQUIRED_ALERT_FIELDS = [''id'', ''severity'', ''signal'', ''trigger'', ''runbook'', ''dedup_keys'', ''recovery_notification'']"

definition SAFE_DEDUP_KEYS :: "string list" where
  "SAFE_DEDUP_KEYS = [''environment'', ''region'', ''service'', ''node_id'', ''session_id'', ''reason_code'']"

definition char_in :: "(int \<times> int) list \<Rightarrow> char \<Rightarrow> bool" where
  "char_in ranges c = list_ex (\<lambda>(a, b). a \<le> (of_char c :: int) \<and> (of_char c :: int) \<le> b) ranges"

text \<open>The three patterns; \<open>fullmatch\<close> leaves nothing over, so the final \<open>$\<close> adds nothing.\<close>

definition id_text :: "string \<Rightarrow> bool" where
  "id_text s = (case s of [] \<Rightarrow> False
     | c # cs \<Rightarrow> char_in [(65, 90)] c \<and> list_all (char_in [(65, 90), (48, 57), (95, 95)]) cs \<and> 2 \<le> length cs \<and> length cs \<le> 127)"

definition signal_text :: "string \<Rightarrow> bool" where
  "signal_text s = (case s of [] \<Rightarrow> False
     | c # cs \<Rightarrow> char_in [(97, 122)] c \<and> list_all (char_in [(97, 122), (48, 57), (95, 95), (46, 46)]) cs \<and> 2 \<le> length cs \<and> length cs \<le> 127)"

definition trigger_ref_text :: "string \<Rightarrow> bool" where
  "trigger_ref_text s =
     (list_all (char_in [(97, 122), (65, 90), (48, 57), (95, 95), (46, 46), (58, 58), (45, 45)]) s \<and> 3 \<le> length s \<and> length s \<le> 160)"

definition same_keys :: "dict \<Rightarrow> string list \<Rightarrow> bool" where
  "same_keys d ks = (list_all (\<lambda>p. fst p \<in> set ks) d \<and> list_all (dhas d) ks)"

definition alert_string :: "dict \<Rightarrow> string \<Rightarrow> err + string" where
  "alert_string record f =
     rbind (from_some OperationsAlertCatalogError (as_str (dget record f))) (\<lambda>s.
     rbind (require OperationsAlertCatalogError (s \<noteq> [])) (\<lambda>_. Inr s))"

definition validate_trigger :: "json \<Rightarrow> err + unit" where
  "validate_trigger v =
     rbind (from_some OperationsAlertCatalogError (as_obj v)) (\<lambda>trigger.
     rbind (alert_string trigger ''mode'') (\<lambda>mode.
     rbind (require OperationsAlertCatalogError (mode \<in> set [''event'', ''threshold''])) (\<lambda>_.
     if mode = ''event'' then
       rbind (require OperationsAlertCatalogError (same_keys trigger [''mode'', ''event_type''])) (\<lambda>_.
       rbind (alert_string trigger ''event_type'') (\<lambda>event_type.
       require OperationsAlertCatalogError (id_text event_type)))
     else
       rbind (require OperationsAlertCatalogError (same_keys trigger [''mode'', ''threshold_ref''])) (\<lambda>_.
       rbind (alert_string trigger ''threshold_ref'') (\<lambda>threshold_ref.
       require OperationsAlertCatalogError (trigger_ref_text threshold_ref))))))"

text \<open>\<open>Path(s).parts\<close> of a relative path, and \<open>suffix\<close> of its last part.\<close>

definition path_parts :: "string \<Rightarrow> string list" where
  "path_parts s = filter (\<lambda>p. p \<noteq> [] \<and> p \<noteq> ''.'') (py_split (CHR ''/'') s)"

definition path_suffix :: "string list \<Rightarrow> string" where
  "path_suffix parts =
     (if parts = [] then [] else
      let name = last parts; tail = rev (takeWhile (\<lambda>c. c \<noteq> CHR ''.'') (rev name)) in
      if tail = [] \<or> length name \<le> length tail + 1 then [] else CHR ''.'' # tail)"

definition validate_runbook :: "(string list \<Rightarrow> bool) \<Rightarrow> string \<Rightarrow> err + unit" where
  "validate_runbook is_file runbook =
     (let parts = path_parts runbook in
      rbind (require OperationsAlertCatalogError
        (take 1 runbook \<noteq> ''/'' \<and> ''..'' \<notin> set parts \<and> path_suffix parts = ''.md'' \<and> take 2 parts = [''docs'', ''operations''])) (\<lambda>_.
      require OperationsAlertCatalogError (is_file parts)))"

definition dedup_keys_ok :: "json \<Rightarrow> bool" where
  "dedup_keys_ok v =
     (case as_list v of
        None \<Rightarrow> False
      | Some ks \<Rightarrow> ks \<noteq> [] \<and> length ks \<le> 4 \<and>
          list_all (\<lambda>k. case as_str k of None \<Rightarrow> False | Some s \<Rightarrow> s \<in> set SAFE_DEDUP_KEYS) ks \<and> distinct ks)"

definition trigger_event :: "dict \<Rightarrow> string option" where
  "trigger_event alert =
     (let trigger = obj_of (dget alert ''trigger'') in
      if dget trigger ''mode'' = JStr ''event'' then as_str (dget trigger ''event_type'') else None)"

text \<open>One alert, with the identifiers and the event types seen before it; the result adds its own.\<close>

definition validate_alert ::
  "(string list \<Rightarrow> bool) \<Rightarrow> string list \<times> string list \<Rightarrow> json \<Rightarrow> err + string list \<times> string list"
where
  "validate_alert is_file seen v =
     rbind (from_some OperationsAlertCatalogError (as_obj v)) (\<lambda>alert.
     rbind (require OperationsAlertCatalogError (same_keys alert REQUIRED_ALERT_FIELDS)) (\<lambda>_.
     rbind (alert_string alert ''id'') (\<lambda>alert_id.
     rbind (require OperationsAlertCatalogError (id_text alert_id)) (\<lambda>_.
     rbind (require OperationsAlertCatalogError (alert_id \<notin> set (fst seen))) (\<lambda>_.
     rbind (alert_string alert ''severity'') (\<lambda>severity.
     rbind (require OperationsAlertCatalogError (severity \<in> set ALLOWED_SEVERITIES)) (\<lambda>_.
     rbind (alert_string alert ''signal'') (\<lambda>signal.
     rbind (require OperationsAlertCatalogError (signal_text signal)) (\<lambda>_.
     rbind (validate_trigger (dget alert ''trigger'')) (\<lambda>_.
     rbind (case trigger_event alert of
              None \<Rightarrow> Inr (snd seen)
            | Some event_type \<Rightarrow>
                if event_type \<in> set (snd seen) then Inl OperationsAlertCatalogError else Inr (event_type # snd seen)) (\<lambda>events.
     rbind (alert_string alert ''runbook'') (\<lambda>runbook.
     rbind (validate_runbook is_file runbook) (\<lambda>_.
     rbind (require OperationsAlertCatalogError (dedup_keys_ok (dget alert ''dedup_keys''))) (\<lambda>_.
     rbind (require OperationsAlertCatalogError (dget alert ''recovery_notification'' = JBool True)) (\<lambda>_.
     Inr (alert_id # fst seen, events))))))))))))))))"

primrec validate_alerts :: "(string list \<Rightarrow> bool) \<Rightarrow> string list \<times> string list \<Rightarrow> json list \<Rightarrow> err + unit" where
  "validate_alerts is_file seen [] = Inr ()"
| "validate_alerts is_file seen (v # vs) = rbind (validate_alert is_file seen v) (\<lambda>seen. validate_alerts is_file seen vs)"

definition validate_catalog :: "(string list \<Rightarrow> bool) \<Rightarrow> json \<Rightarrow> err + dict" where
  "validate_catalog is_file payload =
     rbind (from_some OperationsAlertCatalogError (as_obj payload)) (\<lambda>catalog.
     rbind (require OperationsAlertCatalogError (same_keys catalog [''schema_version'', ''alerts''])) (\<lambda>_.
     rbind (require OperationsAlertCatalogError (dget catalog ''schema_version'' = JInt 1)) (\<lambda>_.
     rbind (from_some OperationsAlertCatalogError (as_list (dget catalog ''alerts''))) (\<lambda>alerts.
     rbind (require OperationsAlertCatalogError (alerts \<noteq> [])) (\<lambda>_.
     rbind (validate_alerts is_file ([], []) alerts) (\<lambda>_. Inr catalog))))))"

text \<open>\<open>load_catalog\<close>: what the strict loader gave, or None when the file cannot be read as JSON.\<close>

definition load_catalog :: "(string list \<Rightarrow> bool) \<Rightarrow> json option \<Rightarrow> err + dict" where
  "load_catalog is_file payload = rbind (from_some OperationsAlertCatalogError payload) (validate_catalog is_file)"

section \<open>Alerts triggered by events\<close>

fun event_index :: "json list \<Rightarrow> (string \<times> string) list \<Rightarrow> err + (string \<times> string) list" where
  "event_index [] index = Inr index"
| "event_index (v # vs) index =
     rbind (from_some OperationsAlertError (as_obj v)) (\<lambda>alert.
     case as_obj (dget alert ''trigger'') of
       None \<Rightarrow> event_index vs index
     | Some trigger \<Rightarrow>
         if dget trigger ''mode'' \<noteq> JStr ''event'' then event_index vs index else
         rbind (from_some OperationsAlertError (as_str (dget trigger ''event_type''))) (\<lambda>event_type.
         rbind (from_some OperationsAlertError (as_str (dget alert ''id''))) (\<lambda>alert_id.
         if map_of index event_type \<noteq> None then Inl OperationsAlertError
         else event_index vs (dset index event_type alert_id))))"

definition build_event_alert_index :: "dict \<Rightarrow> err + (string \<times> string) list" where
  "build_event_alert_index catalog =
     rbind (from_some OperationsAlertError (as_list (dget catalog ''alerts''))) (\<lambda>alerts. event_index alerts [])"

definition MAX_NESTING_DEPTH :: nat where
  "MAX_NESTING_DEPTH = 64"

text \<open>The stack grows and shrinks at its end in the source, at the head of the list here.\<close>

function nesting_scan :: "(json \<times> nat) list \<Rightarrow> bool" where
  "nesting_scan [] = False"
| "nesting_scan ((current, depth) # stack) =
     (MAX_NESTING_DEPTH < depth \<or> nesting_scan (rev (map (\<lambda>c. (c, depth + 1)) (children current)) @ stack))"
  by pat_completeness auto
termination
proof (relation "measure (\<lambda>stack. \<Sum>(v, d)\<leftarrow>stack. Suc (size v))", goal_cases)
  case (2 current depth stack)
  then show ?case using children_size [of "\<lambda>_. True" current]
    by (simp add: rev_map [symmetric] comp_def)
qed simp

definition has_excessive_nesting :: "json \<Rightarrow> bool" where
  "has_excessive_nesting v = nesting_scan [(v, 0)]"

definition EVENT_REQUIRED_FIELDS :: "string list" where
  "EVENT_REQUIRED_FIELDS = [''timestamp'', ''level'', ''service'', ''event_type'']"

definition valid_required_fields :: "json \<Rightarrow> string option" where
  "valid_required_fields v =
     (case as_obj v of
        None \<Rightarrow> Some ''INVALID_RECORD''
      | Some record \<Rightarrow>
          if \<not> list_all (dhas record) EVENT_REQUIRED_FIELDS then Some ''MISSING_REQUIRED_FIELD''
          else if \<not> list_all (\<lambda>f. case as_str (dget record f) of None \<Rightarrow> False | Some s \<Rightarrow> py_strip s \<noteq> []) EVENT_REQUIRED_FIELDS
            then Some ''INVALID_REQUIRED_FIELD''
          else None)"

definition event_record :: "(string \<times> string) list \<Rightarrow> json \<Rightarrow> judged" where
  "event_record index v =
     (if has_excessive_nesting v then Violation ''NESTING_TOO_DEEP'' else
      (case valid_required_fields v of
         Some reason \<Rightarrow> Violation reason
       | None \<Rightarrow>
           (case map_of index (case as_str (dget (obj_of v) ''event_type'') of None \<Rightarrow> [] | Some s \<Rightarrow> s) of
              None \<Rightarrow> Unmatched
            | Some alert_id \<Rightarrow> Matched alert_id)))"

definition EVENT_MAX_RECORD_BYTES :: nat where
  "EVENT_MAX_RECORD_BYTES = 256 * 1024"

definition event_evaluate_lines :: "scanner \<Rightarrow> dict \<Rightarrow> record_line list \<Rightarrow> err + report" where
  "event_evaluate_lines scan catalog lines =
     rbind (build_event_alert_index catalog) (\<lambda>index.
     Inr (evaluate_records scan (event_record index) ''NESTING_TOO_DEEP'' EVENT_MAX_RECORD_BYTES lines))"

definition event_main :: "scanner \<Rightarrow> (string list \<Rightarrow> bool) \<Rightarrow> json option \<Rightarrow> input_stream \<Rightarrow> err + report \<times> int option" where
  "event_main scan is_file payload source =
     (case rbind (load_catalog is_file payload) (\<lambda>catalog. rbind (build_event_alert_index catalog) (\<lambda>_. Inr catalog)) of
        Inl _ \<Rightarrow> Inr (empty_report ''INVALID_CATALOG'', exit_code ''INVALID_CATALOG'')
      | Inr catalog \<Rightarrow>
          rbind (event_evaluate_lines scan catalog (stream_records EVENT_MAX_RECORD_BYTES source)) (\<lambda>result.
          Inr (result, exit_code (rp_status result))))"

end
