(* ===== verification/Alert_Modules.thy ===== *)
theory Alert_Modules
  imports Alert_Catalog
begin

text \<open>
  The alerts on aggregated numbers: eight modules that compare one number of each record with a threshold given on the
  command line, and the capacity module, which compares whole numbers.  The modules are copies of one another up to the
  alert they stand for; their shared text is written once (\<open>threshold_record\<close>, \<open>evaluate_threshold\<close>,
  \<open>threshold_main\<close>) and every module is an instance.
\<close>

section \<open>The alert in the catalog\<close>

record alert_contract =
  ac_id :: string
  ac_severity :: string
  ac_signal :: string
  ac_threshold_ref :: string
  ac_runbook :: string

definition threshold_trigger :: "string \<Rightarrow> json \<Rightarrow> bool" where
  "threshold_trigger ref v =
     (case as_obj v of
        None \<Rightarrow> False
      | Some d \<Rightarrow> same_keys d [''mode'', ''threshold_ref''] \<and> dget d ''mode'' = JStr ''threshold'' \<and> dget d ''threshold_ref'' = JStr ref)"

definition validate_alert_contract :: "alert_contract \<Rightarrow> dict \<Rightarrow> err + unit" where
  "validate_alert_contract contract catalog =
     rbind (from_some OperationsAlertError (as_list (dget catalog ''alerts''))) (\<lambda>alerts.
     case filter (\<lambda>alert. dget alert ''id'' = JStr (ac_id contract)) (List.map_filter as_obj alerts) of
       [alert] \<Rightarrow> require OperationsAlertError
         (dget alert ''severity'' = JStr (ac_severity contract) \<and> dget alert ''signal'' = JStr (ac_signal contract) \<and>
          threshold_trigger (ac_threshold_ref contract) (dget alert ''trigger'') \<and> dget alert ''runbook'' = JStr (ac_runbook contract))
     | _ \<Rightarrow> Inl OperationsAlertError)"

section \<open>Comparing a number with a threshold\<close>

definition finite_nonnegative_number :: "json \<Rightarrow> rat option" where
  "finite_nonnegative_number v =
     (case v of
        JInt n \<Rightarrow> (case float_of_int n of Some (Fin x) \<Rightarrow> if x < 0 then None else Some x | _ \<Rightarrow> None)
      | JFloat (Fin x) \<Rightarrow> if x < 0 then None else Some x
      | _ \<Rightarrow> None)"

definition validated_threshold :: "json \<Rightarrow> err + rat" where
  "validated_threshold v = from_some OperationsAlertError (finite_nonnegative_number v)"

definition threshold_record :: "string \<Rightarrow> string \<Rightarrow> string \<Rightarrow> rat \<Rightarrow> json \<Rightarrow> judged" where
  "threshold_record f reason alert_id threshold v =
     (case as_obj v of
        None \<Rightarrow> Violation ''INVALID_RECORD_FIELDS''
      | Some record \<Rightarrow>
          if \<not> same_keys record [f] then Violation ''INVALID_RECORD_FIELDS'' else
          (case finite_nonnegative_number (dget record f) of
             None \<Rightarrow> Violation reason
           | Some x \<Rightarrow> if threshold < x then Matched alert_id else Unmatched))"

definition MAX_RECORD_BYTES :: nat where
  "MAX_RECORD_BYTES = 4 * 1024"

definition evaluate_threshold ::
  "alert_contract \<Rightarrow> (rat \<Rightarrow> json \<Rightarrow> judged) \<Rightarrow> scanner \<Rightarrow> json \<Rightarrow> dict \<Rightarrow> record_line list \<Rightarrow> err + report"
where
  "evaluate_threshold contract record scan threshold catalog lines =
     rbind (validate_alert_contract contract catalog) (\<lambda>_.
     rbind (validated_threshold threshold) (\<lambda>effective_threshold.
     Inr (evaluate_records scan (record effective_threshold) ''INVALID_JSON'' MAX_RECORD_BYTES lines)))"

text \<open>The command: the catalog first, then the threshold, then the input.\<close>

definition threshold_main ::
  "alert_contract \<Rightarrow> (scanner \<Rightarrow> json \<Rightarrow> dict \<Rightarrow> record_line list \<Rightarrow> err + report) \<Rightarrow> scanner \<Rightarrow> (string list \<Rightarrow> bool) \<Rightarrow> json option
    \<Rightarrow> json \<Rightarrow> input_stream \<Rightarrow> err + report \<times> int option"
where
  "threshold_main contract evaluate_lines scan is_file payload threshold source =
     (case rbind (load_catalog is_file payload) (\<lambda>catalog. rbind (validate_alert_contract contract catalog) (\<lambda>_. Inr catalog)) of
        Inl _ \<Rightarrow> Inr (empty_report ''INVALID_CATALOG'', exit_code ''INVALID_CATALOG'')
      | Inr catalog \<Rightarrow>
          (case validated_threshold threshold of
             Inl _ \<Rightarrow> Inr (empty_report ''INVALID_THRESHOLD'', exit_code ''INVALID_THRESHOLD'')
           | Inr t \<Rightarrow>
               rbind (evaluate_lines scan (JTime t) catalog (stream_records MAX_RECORD_BYTES source)) (\<lambda>result.
               Inr (result, exit_code (rp_status result)))))"

section \<open>The modules\<close>

definition egress_failure_contract :: alert_contract where
  "egress_failure_contract =
     \<lparr>ac_id = ''EGRESS_FAILURE_SURGE'', ac_severity = ''critical'', ac_signal = ''egress.failure_rate'',
      ac_threshold_ref = ''operations.egress_failure_surge'',
      ac_runbook = ''docs/operations/egress-widespread-failure.md''\<rparr>"

definition egress_failure_record :: "rat \<Rightarrow> json \<Rightarrow> judged" where
  "egress_failure_record = threshold_record ''failure_rate'' ''INVALID_FAILURE_RATE'' ''EGRESS_FAILURE_SURGE''"

definition egress_failure_evaluate_lines :: "scanner \<Rightarrow> json \<Rightarrow> dict \<Rightarrow> record_line list \<Rightarrow> err + report" where
  "egress_failure_evaluate_lines = evaluate_threshold egress_failure_contract egress_failure_record"

definition egress_failure_main :: "scanner \<Rightarrow> (string list \<Rightarrow> bool) \<Rightarrow> json option \<Rightarrow> json \<Rightarrow> input_stream \<Rightarrow> err + report \<times> int option" where
  "egress_failure_main = threshold_main egress_failure_contract egress_failure_evaluate_lines"

definition asset_failure_contract :: alert_contract where
  "asset_failure_contract =
     \<lparr>ac_id = ''ASSET_FAILURE_RATE_HIGH'', ac_severity = ''warning'', ac_signal = ''assets.processing_failure_rate'',
      ac_threshold_ref = ''operations.asset_failure_rate_high'',
      ac_runbook = ''docs/operations/object-storage-unavailable.md''\<rparr>"

definition asset_failure_record :: "rat \<Rightarrow> json \<Rightarrow> judged" where
  "asset_failure_record = threshold_record ''processing_failure_rate'' ''INVALID_PROCESSING_FAILURE_RATE'' ''ASSET_FAILURE_RATE_HIGH''"

definition asset_failure_evaluate_lines :: "scanner \<Rightarrow> json \<Rightarrow> dict \<Rightarrow> record_line list \<Rightarrow> err + report" where
  "asset_failure_evaluate_lines = evaluate_threshold asset_failure_contract asset_failure_record"

definition asset_failure_main :: "scanner \<Rightarrow> (string list \<Rightarrow> bool) \<Rightarrow> json option \<Rightarrow> json \<Rightarrow> input_stream \<Rightarrow> err + report \<times> int option" where
  "asset_failure_main = threshold_main asset_failure_contract asset_failure_evaluate_lines"

definition billing_webhook_contract :: alert_contract where
  "billing_webhook_contract =
     \<lparr>ac_id = ''BILLING_WEBHOOK_DELAYED'', ac_severity = ''warning'', ac_signal = ''billing.webhook_backlog_age_seconds'',
      ac_threshold_ref = ''operations.billing_webhook_delayed'',
      ac_runbook = ''docs/operations/billing-webhook-stalled.md''\<rparr>"

definition billing_webhook_record :: "rat \<Rightarrow> json \<Rightarrow> judged" where
  "billing_webhook_record = threshold_record ''webhook_backlog_age_seconds'' ''INVALID_WEBHOOK_BACKLOG_AGE_SECONDS'' ''BILLING_WEBHOOK_DELAYED''"

definition billing_webhook_evaluate_lines :: "scanner \<Rightarrow> json \<Rightarrow> dict \<Rightarrow> record_line list \<Rightarrow> err + report" where
  "billing_webhook_evaluate_lines = evaluate_threshold billing_webhook_contract billing_webhook_record"

definition billing_webhook_main :: "scanner \<Rightarrow> (string list \<Rightarrow> bool) \<Rightarrow> json option \<Rightarrow> json \<Rightarrow> input_stream \<Rightarrow> err + report \<times> int option" where
  "billing_webhook_main = threshold_main billing_webhook_contract billing_webhook_evaluate_lines"

definition egress_reconnect_contract :: alert_contract where
  "egress_reconnect_contract =
     \<lparr>ac_id = ''RECONNECT_RATE_HIGH'', ac_severity = ''warning'', ac_signal = ''egress.reconnect_rate'',
      ac_threshold_ref = ''operations.egress_reconnect_rate_high'',
      ac_runbook = ''docs/operations/egress-widespread-failure.md''\<rparr>"

definition egress_reconnect_record :: "rat \<Rightarrow> json \<Rightarrow> judged" where
  "egress_reconnect_record = threshold_record ''reconnect_rate'' ''INVALID_RECONNECT_RATE'' ''RECONNECT_RATE_HIGH''"

definition egress_reconnect_evaluate_lines :: "scanner \<Rightarrow> json \<Rightarrow> dict \<Rightarrow> record_line list \<Rightarrow> err + report" where
  "egress_reconnect_evaluate_lines = evaluate_threshold egress_reconnect_contract egress_reconnect_record"

definition egress_reconnect_main :: "scanner \<Rightarrow> (string list \<Rightarrow> bool) \<Rightarrow> json option \<Rightarrow> json \<Rightarrow> input_stream \<Rightarrow> err + report \<times> int option" where
  "egress_reconnect_main = threshold_main egress_reconnect_contract egress_reconnect_evaluate_lines"

definition ingest_unavailable_contract :: alert_contract where
  "ingest_unavailable_contract =
     \<lparr>ac_id = ''INGEST_UNAVAILABLE'', ac_severity = ''critical'', ac_signal = ''ingest.connectivity_failure_rate'',
      ac_threshold_ref = ''operations.ingest_unavailable'',
      ac_runbook = ''docs/operations/ingest-connectivity-failure.md''\<rparr>"

definition ingest_unavailable_record :: "rat \<Rightarrow> json \<Rightarrow> judged" where
  "ingest_unavailable_record = threshold_record ''connectivity_failure_rate'' ''INVALID_CONNECTIVITY_FAILURE_RATE'' ''INGEST_UNAVAILABLE''"

definition ingest_unavailable_evaluate_lines :: "scanner \<Rightarrow> json \<Rightarrow> dict \<Rightarrow> record_line list \<Rightarrow> err + report" where
  "ingest_unavailable_evaluate_lines = evaluate_threshold ingest_unavailable_contract ingest_unavailable_record"

definition ingest_unavailable_main :: "scanner \<Rightarrow> (string list \<Rightarrow> bool) \<Rightarrow> json option \<Rightarrow> json \<Rightarrow> input_stream \<Rightarrow> err + report \<times> int option" where
  "ingest_unavailable_main = threshold_main ingest_unavailable_contract ingest_unavailable_evaluate_lines"

definition node_resource_pressure_contract :: alert_contract where
  "node_resource_pressure_contract =
     \<lparr>ac_id = ''NODE_RESOURCE_PRESSURE'', ac_severity = ''warning'', ac_signal = ''media_nodes.resource_pressure'',
      ac_threshold_ref = ''operations.node_resource_pressure'',
      ac_runbook = ''docs/operations/media-node-resource-pressure.md''\<rparr>"

definition node_resource_pressure_record :: "rat \<Rightarrow> json \<Rightarrow> judged" where
  "node_resource_pressure_record = threshold_record ''resource_pressure'' ''INVALID_RESOURCE_PRESSURE'' ''NODE_RESOURCE_PRESSURE''"

definition node_resource_pressure_evaluate_lines :: "scanner \<Rightarrow> json \<Rightarrow> dict \<Rightarrow> record_line list \<Rightarrow> err + report" where
  "node_resource_pressure_evaluate_lines = evaluate_threshold node_resource_pressure_contract node_resource_pressure_record"

definition node_resource_pressure_main :: "scanner \<Rightarrow> (string list \<Rightarrow> bool) \<Rightarrow> json option \<Rightarrow> json \<Rightarrow> input_stream \<Rightarrow> err + report \<times> int option" where
  "node_resource_pressure_main = threshold_main node_resource_pressure_contract node_resource_pressure_evaluate_lines"

definition session_failure_contract :: alert_contract where
  "session_failure_contract =
     \<lparr>ac_id = ''SESSION_FAILURE_SURGE'', ac_severity = ''critical'', ac_signal = ''sessions.failed_rate'',
      ac_threshold_ref = ''operations.session_failure_surge'',
      ac_runbook = ''docs/operations/session-process-crash-loop.md''\<rparr>"

definition session_failure_record :: "rat \<Rightarrow> json \<Rightarrow> judged" where
  "session_failure_record = threshold_record ''failed_rate'' ''INVALID_FAILURE_RATE'' ''SESSION_FAILURE_SURGE''"

definition session_failure_evaluate_lines :: "scanner \<Rightarrow> json \<Rightarrow> dict \<Rightarrow> record_line list \<Rightarrow> err + report" where
  "session_failure_evaluate_lines = evaluate_threshold session_failure_contract session_failure_record"

definition session_failure_main :: "scanner \<Rightarrow> (string list \<Rightarrow> bool) \<Rightarrow> json option \<Rightarrow> json \<Rightarrow> input_stream \<Rightarrow> err + report \<times> int option" where
  "session_failure_main = threshold_main session_failure_contract session_failure_evaluate_lines"

definition session_restart_contract :: alert_contract where
  "session_restart_contract =
     \<lparr>ac_id = ''SESSION_PROCESS_CRASH_LOOP'', ac_severity = ''critical'', ac_signal = ''sessions.process_restart_rate'',
      ac_threshold_ref = ''operations.session_process_crash_loop'',
      ac_runbook = ''docs/operations/session-process-crash-loop.md''\<rparr>"

definition session_restart_record :: "rat \<Rightarrow> json \<Rightarrow> judged" where
  "session_restart_record = threshold_record ''process_restart_rate'' ''INVALID_RESTART_RATE'' ''SESSION_PROCESS_CRASH_LOOP''"

definition session_restart_evaluate_lines :: "scanner \<Rightarrow> json \<Rightarrow> dict \<Rightarrow> record_line list \<Rightarrow> err + report" where
  "session_restart_evaluate_lines = evaluate_threshold session_restart_contract session_restart_record"

definition session_restart_main :: "scanner \<Rightarrow> (string list \<Rightarrow> bool) \<Rightarrow> json option \<Rightarrow> json \<Rightarrow> input_stream \<Rightarrow> err + report \<times> int option" where
  "session_restart_main = threshold_main session_restart_contract session_restart_evaluate_lines"

section \<open>Capacity\<close>

definition capacity_contract :: alert_contract where
  "capacity_contract =
     \<lparr>ac_id = ''MEDIA_NODE_CAPACITY_HIGH'', ac_severity = ''warning'', ac_signal = ''media_nodes.capacity_ratio'',
      ac_threshold_ref = ''issue11.media_node_capacity_80_percent'',
      ac_runbook = ''docs/operations/media-node-capacity-high.md''\<rparr>"

definition capacity_integer :: "json \<Rightarrow> int option" where
  "capacity_integer v = (case as_int v of Some n \<Rightarrow> if n < 0 then None else Some n | None \<Rightarrow> None)"

definition is_above_issue11_threshold :: "int \<Rightarrow> int \<Rightarrow> int \<Rightarrow> bool" where
  "is_above_issue11_threshold maximum active reserved \<longleftrightarrow> maximum * 4 < (active + reserved) * 5"

definition capacity_record :: "json \<Rightarrow> judged" where
  "capacity_record v =
     (case as_obj v of
        None \<Rightarrow> Violation ''INVALID_RECORD_FIELDS''
      | Some record \<Rightarrow>
          if \<not> same_keys record [''max_sessions'', ''active_sessions'', ''reserved_sessions''] then Violation ''INVALID_RECORD_FIELDS'' else
          (case (capacity_integer (dget record ''max_sessions''), capacity_integer (dget record ''active_sessions''),
                 capacity_integer (dget record ''reserved_sessions'')) of
             (Some maximum, Some active, Some reserved) \<Rightarrow>
               if maximum = 0 then Violation ''INVALID_CAPACITY_VALUE''
               else if is_above_issue11_threshold maximum active reserved then Matched ''MEDIA_NODE_CAPACITY_HIGH'' else Unmatched
           | _ \<Rightarrow> Violation ''INVALID_CAPACITY_VALUE''))"

definition capacity_evaluate_lines :: "scanner \<Rightarrow> dict \<Rightarrow> record_line list \<Rightarrow> err + report" where
  "capacity_evaluate_lines scan catalog lines =
     rbind (validate_alert_contract capacity_contract catalog) (\<lambda>_.
     Inr (evaluate_records scan capacity_record ''INVALID_JSON'' MAX_RECORD_BYTES lines))"

definition capacity_main :: "scanner \<Rightarrow> (string list \<Rightarrow> bool) \<Rightarrow> json option \<Rightarrow> input_stream \<Rightarrow> err + report \<times> int option" where
  "capacity_main scan is_file payload source =
     (case rbind (load_catalog is_file payload) (\<lambda>catalog. rbind (validate_alert_contract capacity_contract catalog) (\<lambda>_. Inr catalog)) of
        Inl _ \<Rightarrow> Inr (empty_report ''INVALID_CATALOG'', exit_code ''INVALID_CATALOG'')
      | Inr catalog \<Rightarrow>
          rbind (capacity_evaluate_lines scan catalog (stream_records MAX_RECORD_BYTES source)) (\<lambda>result.
          Inr (result, exit_code (rp_status result))))"

section \<open>The modules keep the contract of the loop\<close>

text \<open>Whether a record of one field exceeds a threshold; None for what is no such record.\<close>

definition exceeds :: "string \<Rightarrow> rat \<Rightarrow> json \<Rightarrow> bool option" where
  "exceeds f threshold v =
     (case as_obj v of
        None \<Rightarrow> None
      | Some record \<Rightarrow> if same_keys record [f] then map_option ((<) threshold) (finite_nonnegative_number (dget record f)) else None)"

lemma threshold_record_matched:
  "threshold_record f reason alert_id t v = Matched i \<longleftrightarrow> i = alert_id \<and> exceeds f t v = Some True"
  by (auto simp: threshold_record_def exceeds_def split: option.splits if_splits)

lemma threshold_record_unmatched: "threshold_record f reason alert_id t v = Unmatched \<longleftrightarrow> exceeds f t v = Some False"
  by (auto simp: threshold_record_def exceeds_def split: option.splits if_splits)

text \<open>Whether more than 80 percent of the capacity of a record is taken.\<close>

definition over_capacity :: "json \<Rightarrow> bool option" where
  "over_capacity v =
     (case as_obj v of
        None \<Rightarrow> None
      | Some record \<Rightarrow>
          if \<not> same_keys record [''max_sessions'', ''active_sessions'', ''reserved_sessions''] then None else
          (case (capacity_integer (dget record ''max_sessions''), capacity_integer (dget record ''active_sessions''),
                 capacity_integer (dget record ''reserved_sessions'')) of
             (Some maximum, Some active, Some reserved) \<Rightarrow>
               if maximum = 0 then None else Some (of_int (active + reserved) / of_int maximum > (4 / 5 :: rat))
           | _ \<Rightarrow> None))"

lemma threshold_is_80_percent:
  "0 < maximum \<Longrightarrow> is_above_issue11_threshold maximum active reserved \<longleftrightarrow> of_int (active + reserved) / of_int maximum > (4 / 5 :: rat)"
proof -
  assume "0 < maximum"
  then have "of_int (active + reserved) / of_int maximum > (4 / 5 :: rat) \<longleftrightarrow> (of_int (maximum * 4) :: rat) < of_int ((active + reserved) * 5)"
    by (simp add: field_simps)
  then show ?thesis unfolding is_above_issue11_threshold_def by (simp only: of_int_less_iff)
qed

lemma capacity_integer_nonneg: "capacity_integer v = Some n \<Longrightarrow> 0 \<le> n"
  by (auto simp: capacity_integer_def split: option.splits if_splits)

lemma capacity_record_judged:
  "capacity_record v = Matched i \<longleftrightarrow> i = ''MEDIA_NODE_CAPACITY_HIGH'' \<and> over_capacity v = Some True"
  "capacity_record v = Unmatched \<longleftrightarrow> over_capacity v = Some False"
  using threshold_is_80_percent capacity_integer_nonneg
  by (fastforce simp: capacity_record_def over_capacity_def split: option.splits if_splits)+

text \<open>
  A module whose record keeps the contract for every threshold; its command then has a report that can be trusted.
\<close>

locale threshold_alert =
  fixes contract :: alert_contract and measure_record :: "rat \<Rightarrow> json \<Rightarrow> judged" and f :: string
  assumes record_matched: "measure_record t v = Matched i \<longleftrightarrow> i = ac_id contract \<and> exceeds f t v = Some True"
    and record_unmatched: "measure_record t v = Unmatched \<longleftrightarrow> exceeds f t v = Some False"

sublocale threshold_alert \<subseteq> alert_judge "measure_record t" "ac_id contract" "exceeds f t" for t
  by unfold_locales (simp_all add: record_matched record_unmatched)

text \<open>The catalog is valid and has the alert, and the threshold is a number; then it is given.\<close>

definition trusted_setup :: "alert_contract \<Rightarrow> (string list \<Rightarrow> bool) \<Rightarrow> json option \<Rightarrow> json \<Rightarrow> rat option" where
  "trusted_setup contract is_file payload threshold =
     (case load_catalog is_file payload of
        Inl _ \<Rightarrow> None
      | Inr catalog \<Rightarrow> if is_ok (validate_alert_contract contract catalog) then finite_nonnegative_number threshold else None)"

definition trusted_lines :: "string \<Rightarrow> rat \<Rightarrow> scanner \<Rightarrow> record_line list \<Rightarrow> bool" where
  "trusted_lines f t scan lines =
     list_all (\<lambda>line. blank_line MAX_RECORD_BYTES line \<or> sound_line (exceeds f t) scan MAX_RECORD_BYTES line) lines"

definition expected_outcome :: "alert_contract \<Rightarrow> string \<Rightarrow> scanner \<Rightarrow> record_line list \<Rightarrow> rat option \<Rightarrow> report \<Rightarrow> int \<Rightarrow> bool" where
  "expected_outcome contract f scan lines setup r code =
     (case setup of
        Some t \<Rightarrow>
          if trusted_lines f t scan lines
          then r = batch_report (exceeds f t) (ac_id contract) scan MAX_RECORD_BYTES lines \<and> code = 0
          else rp_matched r = [] \<and> rp_unmatched r = 0 \<and> code = 3
      | None \<Rightarrow> rp_matched r = [] \<and> rp_unmatched r = 0 \<and> code \<in> {4, 5})"

lemma threshold_again: "finite_nonnegative_number v = Some t \<Longrightarrow> validated_threshold (JTime t) = Inr t"
  by (auto simp: finite_nonnegative_number_def validated_threshold_def split: json.splits option.splits pyfloat.splits if_splits)

lemma exit_codes [simp]:
  "exit_code ''INVALID_CATALOG'' = Some 4" "exit_code ''INVALID_THRESHOLD'' = Some 5" "exit_code ''INVALID'' = Some 3"
  "exit_code ''MATCHED'' = Some 0" "exit_code ''NO_MATCHES'' = Some 0"
  by (simp_all add: exit_code_def)

context threshold_alert
begin

lemma lines_report:
  assumes "r = evaluate_records scan (measure_record t) ''INVALID_JSON'' MAX_RECORD_BYTES lines"
  shows "\<exists>code. exit_code (rp_status r) = Some code \<and> expected_outcome contract f scan lines (Some t) r code"
proof (cases "trusted_lines f t scan lines")
  case True
  then have "r = batch_report (exceeds f t) (ac_id contract) scan MAX_RECORD_BYTES lines"
    unfolding assms by (intro report_sound) (simp add: trusted_lines_def list_all_iff)
  moreover from this have "exit_code (rp_status r) = Some 0" by (simp add: batch_report_def Let_def)
  ultimately show ?thesis using True by (simp add: expected_outcome_def)
next
  case False
  then obtain line where "line \<in> set lines" "\<not> blank_line MAX_RECORD_BYTES line" "\<not> sound_line (exceeds f t) scan MAX_RECORD_BYTES line"
    by (auto simp: trusted_lines_def list_all_iff)
  from report_unsound [OF this] show ?thesis using False unfolding assms by (simp add: expected_outcome_def)
qed

lemma main_report:
  "\<exists>r code. threshold_main contract (evaluate_threshold contract measure_record) scan is_file payload threshold source = Inr (r, Some code) \<and>
     expected_outcome contract f scan (stream_records MAX_RECORD_BYTES source) (trusted_setup contract is_file payload threshold) r code"
proof (cases "trusted_setup contract is_file payload threshold")
  case None
  then show ?thesis
    by (auto simp: trusted_setup_def threshold_main_def expected_outcome_def empty_report_def validated_threshold_def from_some_def
        is_ok_iff rbind_eq_Inr split: sum.splits option.splits if_splits)
next
  case (Some t)
  then obtain catalog where c: "load_catalog is_file payload = Inr catalog" "validate_alert_contract contract catalog = Inr ()"
    "finite_nonnegative_number threshold = Some t"
    by (auto simp: trusted_setup_def is_ok_iff split: sum.splits if_splits)
  let ?r = "evaluate_records scan (measure_record t) ''INVALID_JSON'' MAX_RECORD_BYTES (stream_records MAX_RECORD_BYTES source)"
  have "threshold_main contract (evaluate_threshold contract measure_record) scan is_file payload threshold source = Inr (?r, exit_code (rp_status ?r))"
    using c threshold_again [OF c(3)] by (simp add: threshold_main_def evaluate_threshold_def validated_threshold_def)
  then show ?thesis using lines_report [OF refl, of scan t "stream_records MAX_RECORD_BYTES source"] Some by auto
qed

end

interpretation egress_failure: threshold_alert egress_failure_contract egress_failure_record "''failure_rate''"
  by unfold_locales (simp_all add: egress_failure_record_def egress_failure_contract_def threshold_record_matched threshold_record_unmatched)

interpretation asset_failure: threshold_alert asset_failure_contract asset_failure_record "''processing_failure_rate''"
  by unfold_locales (simp_all add: asset_failure_record_def asset_failure_contract_def threshold_record_matched threshold_record_unmatched)

interpretation billing_webhook: threshold_alert billing_webhook_contract billing_webhook_record "''webhook_backlog_age_seconds''"
  by unfold_locales (simp_all add: billing_webhook_record_def billing_webhook_contract_def threshold_record_matched threshold_record_unmatched)

interpretation egress_reconnect: threshold_alert egress_reconnect_contract egress_reconnect_record "''reconnect_rate''"
  by unfold_locales (simp_all add: egress_reconnect_record_def egress_reconnect_contract_def threshold_record_matched threshold_record_unmatched)

interpretation ingest_unavailable: threshold_alert ingest_unavailable_contract ingest_unavailable_record "''connectivity_failure_rate''"
  by unfold_locales (simp_all add: ingest_unavailable_record_def ingest_unavailable_contract_def threshold_record_matched threshold_record_unmatched)

interpretation node_resource_pressure: threshold_alert node_resource_pressure_contract node_resource_pressure_record "''resource_pressure''"
  by unfold_locales (simp_all add: node_resource_pressure_record_def node_resource_pressure_contract_def threshold_record_matched threshold_record_unmatched)

interpretation session_failure: threshold_alert session_failure_contract session_failure_record "''failed_rate''"
  by unfold_locales (simp_all add: session_failure_record_def session_failure_contract_def threshold_record_matched threshold_record_unmatched)

interpretation session_restart: threshold_alert session_restart_contract session_restart_record "''process_restart_rate''"
  by unfold_locales (simp_all add: session_restart_record_def session_restart_contract_def threshold_record_matched threshold_record_unmatched)

interpretation capacity: alert_judge capacity_record "ac_id capacity_contract" over_capacity
  by unfold_locales (simp_all add: capacity_contract_def capacity_record_judged)

section \<open>Trust in a report\<close>

datatype alert_module = Egress_Failure | Asset_Failure | Billing_Webhook | Egress_Reconnect
  | Ingest_Unavailable | Node_Resource_Pressure | Session_Failure | Session_Restart

fun module_main :: "alert_module \<Rightarrow> scanner \<Rightarrow> (string list \<Rightarrow> bool) \<Rightarrow> json option \<Rightarrow> json \<Rightarrow> input_stream \<Rightarrow> err + report \<times> int option" where
  "module_main Egress_Failure = egress_failure_main"
| "module_main Asset_Failure = asset_failure_main"
| "module_main Billing_Webhook = billing_webhook_main"
| "module_main Egress_Reconnect = egress_reconnect_main"
| "module_main Ingest_Unavailable = ingest_unavailable_main"
| "module_main Node_Resource_Pressure = node_resource_pressure_main"
| "module_main Session_Failure = session_failure_main"
| "module_main Session_Restart = session_restart_main"

fun module_contract :: "alert_module \<Rightarrow> alert_contract" where
  "module_contract Egress_Failure = egress_failure_contract"
| "module_contract Asset_Failure = asset_failure_contract"
| "module_contract Billing_Webhook = billing_webhook_contract"
| "module_contract Egress_Reconnect = egress_reconnect_contract"
| "module_contract Ingest_Unavailable = ingest_unavailable_contract"
| "module_contract Node_Resource_Pressure = node_resource_pressure_contract"
| "module_contract Session_Failure = session_failure_contract"
| "module_contract Session_Restart = session_restart_contract"

fun module_field :: "alert_module \<Rightarrow> string" where
  "module_field Egress_Failure = ''failure_rate''"
| "module_field Asset_Failure = ''processing_failure_rate''"
| "module_field Billing_Webhook = ''webhook_backlog_age_seconds''"
| "module_field Egress_Reconnect = ''reconnect_rate''"
| "module_field Ingest_Unavailable = ''connectivity_failure_rate''"
| "module_field Node_Resource_Pressure = ''resource_pressure''"
| "module_field Session_Failure = ''failed_rate''"
| "module_field Session_Restart = ''process_restart_rate''"


end
