(* ===== verification/Node_Observers.thy ===== *)
theory Node_Observers
  imports Ingest_Policy Ingest_Store
begin

text \<open>
  What a Node tells about its output: the status file of the egress gateway (\<open>egress_status.py\<close>) and the readers
  of the relay path of the media server (\<open>relay_client.py\<close>).
\<close>

section \<open>The status file of the gateway\<close>

definition ALLOWED_STATUSES :: "string list" where
  "ALLOWED_STATUSES = [''STARTING'', ''CONNECTED'', ''RECONNECTING'', ''AUTH_FAILED'', ''FAILED'', ''STOPPED'']"

definition TERMINAL_STATUSES :: "string list" where
  "TERMINAL_STATUSES = [''AUTH_FAILED'', ''FAILED'', ''STOPPED'']"

definition DEFAULT_MAX_AGE_SECONDS :: rat where
  "DEFAULT_MAX_AGE_SECONDS = 30"

text \<open>A file that cannot be read, one that is no JSON text, and one that is.\<close>

datatype status_file = Status_Unavailable | Status_Malformed | Status_Text jtext

definition status_now :: "json \<Rightarrow> err + rat" where
  "status_now v =
     (case finite_argument v of
        Inl _ \<Rightarrow> Inl RuntimeError
      | Inr x \<Rightarrow> if x < 0 then Inl RuntimeError else Inr x)"

definition unknown_status :: "string \<Rightarrow> rat \<Rightarrow> dict" where
  "unknown_status reason_code observed_at =
     [(''status'', JStr ''UNKNOWN''), (''connected'', JBool False), (''attempt'', JInt 0), (''reason_code'', JStr reason_code),
      (''rendered_buffers'', JInt 0), (''next_retry_at'', JNull), (''destination_scheme'', JNull), (''destination_host'', JNull),
      (''observed_at'', JTime observed_at)]"

definition optional_boolean_field :: "dict \<Rightarrow> string \<Rightarrow> err + bool" where
  "optional_boolean_field raw key = (if dhas raw key then from_some ValueError (as_bool (dget raw key)) else Inr False)"

definition optional_nonnegative_int_field :: "dict \<Rightarrow> string \<Rightarrow> err + int" where
  "optional_nonnegative_int_field raw key =
     (if \<not> dhas raw key then Inr 0 else
      rbind (from_some ValueError (as_int (dget raw key))) (\<lambda>n.
      rbind (require ValueError (0 \<le> n)) (\<lambda>_. Inr n)))"

text \<open>The value as it is when it is a number that can be used, and as a float.\<close>

definition nonnegative_finite_number :: "json \<Rightarrow> json option" where
  "nonnegative_finite_number v =
     (case finite_argument v of
        Inl _ \<Rightarrow> None
      | Inr x \<Rightarrow> if x < 0 then None else Some v)"

definition max_age_seconds :: "pyfloat option \<Rightarrow> rat" where
  "max_age_seconds v = (case v of Some (Fin x) \<Rightarrow> x | _ \<Rightarrow> DEFAULT_MAX_AGE_SECONDS)"

definition bounded_text :: "(json \<Rightarrow> string) \<Rightarrow> nat \<Rightarrow> json \<Rightarrow> json" where
  "bounded_text py_str n v = (if truthy v then JStr (take n (py_text py_str v)) else JNull)"

definition status_fields :: "dict \<Rightarrow> err + bool \<times> int \<times> int" where
  "status_fields raw =
     rbind (optional_boolean_field raw ''connected'') (\<lambda>is_connected.
     rbind (optional_nonnegative_int_field raw ''attempt'') (\<lambda>attempt.
     rbind (optional_nonnegative_int_field raw ''rendered_buffers'') (\<lambda>rendered_buffers.
     Inr (is_connected, attempt, rendered_buffers))))"

text \<open>Only an absent time is replaced by the time of reading.\<close>

definition status_observed_at :: "rat \<Rightarrow> dict \<Rightarrow> rat option" where
  "status_observed_at current raw =
     (if \<not> dhas raw ''observed_at'' then Some current else
      case nonnegative_finite_number (dget raw ''observed_at'') of
        None \<Rightarrow> None
      | Some v \<Rightarrow> (case finite_argument v of Inr x \<Rightarrow> Some x | Inl _ \<Rightarrow> None))"

text \<open>
  The report of a JSON object; \<open>max_age\<close> is what \<open>float\<close> gives for the configured age, None where it raises.
\<close>

definition gateway_status_report :: "(json \<Rightarrow> string) \<Rightarrow> rat \<Rightarrow> pyfloat option \<Rightarrow> dict \<Rightarrow> dict" where
  "gateway_status_report py_str current max_age raw =
     (let status = py_text py_str (dget_or raw ''status'' (JStr ''UNKNOWN'')) in
      if status \<notin> set ALLOWED_STATUSES then unknown_status ''STATUS_INVALID'' current else
      case status_fields raw of
        Inl _ \<Rightarrow> unknown_status ''STATUS_INVALID'' current
      | Inr (is_connected, attempt, rendered_buffers) \<Rightarrow>
          (case status_observed_at current raw of
             None \<Rightarrow> unknown_status ''STATUS_INVALID'' current
           | Some observed_at \<Rightarrow>
               if status \<notin> set TERMINAL_STATUSES \<and> 0 < max_age_seconds max_age \<and> max_age_seconds max_age < current - observed_at
               then unknown_status ''STATUS_STALE'' observed_at
               else [(''status'', JStr status), (''connected'', JBool (status = ''CONNECTED'' \<and> is_connected)),
                 (''attempt'', JInt attempt), (''reason_code'', bounded_text py_str 100 (dget raw ''reason_code'')),
                 (''rendered_buffers'', JInt rendered_buffers),
                 (''next_retry_at'', case nonnegative_finite_number (dget raw ''next_retry_at'') of None \<Rightarrow> JNull | Some v \<Rightarrow> v),
                 (''destination_scheme'', bounded_text py_str 20 (dget raw ''destination_scheme'')),
                 (''destination_host'', bounded_text py_str 253 (dget raw ''destination_host'')),
                 (''observed_at'', JTime observed_at)]))"

definition read_egress_status :: "(json \<Rightarrow> string) \<Rightarrow> json \<Rightarrow> pyfloat option \<Rightarrow> status_file \<Rightarrow> err + dict" where
  "read_egress_status py_str clock max_age f =
     rbind (status_now clock) (\<lambda>current.
     case f of
       Status_Unavailable \<Rightarrow> Inr (unknown_status ''STATUS_UNAVAILABLE'' current)
     | Status_Malformed \<Rightarrow> Inr (unknown_status ''STATUS_INVALID'' current)
     | Status_Text t \<Rightarrow>
         Inr (case Option.bind (load_json_authority t) as_obj of
                None \<Rightarrow> unknown_status ''STATUS_INVALID'' current
              | Some raw \<Rightarrow> gateway_status_report py_str current max_age raw))"

section \<open>The readers of the relay\<close>

definition EXTERNAL_RELAY_READER_TYPES :: "string list" where
  "EXTERNAL_RELAY_READER_TYPES = [''rtmpConn'', ''rtmpsConn'']"

definition relay_observed_at :: "json \<Rightarrow> err + rat" where
  "relay_observed_at = status_now"

definition external_reader :: "json \<Rightarrow> bool" where
  "external_reader reader =
     (case as_obj reader of
        None \<Rightarrow> True
      | Some d \<Rightarrow> (case as_str (dget d ''type'') of None \<Rightarrow> True | Some t \<Rightarrow> t \<in> set EXTERNAL_RELAY_READER_TYPES))"

definition external_relay_readers :: "json list \<Rightarrow> json list" where
  "external_relay_readers readers = filter external_reader readers"

definition relay_state :: "string \<Rightarrow> nat \<Rightarrow> json \<Rightarrow> rat \<Rightarrow> dict" where
  "relay_state status count reason observed_at =
     [(''status'', JStr status), (''connected'', JBool (0 < count)), (''reader_count'', JInt (int count)), (''reason_code'', reason),
      (''observed_at'', JTime observed_at)]"

text \<open>\<open>detail\<close> is the message of the failure when the media server does not answer.\<close>

definition relay_observe :: "string \<Rightarrow> string \<Rightarrow> json \<Rightarrow> api_reply \<Rightarrow> err + dict" where
  "relay_observe path detail clock reply =
     rbind (relay_observed_at clock) (\<lambda>observed_at.
     case request_json reply of
       Inl _ \<Rightarrow> Inr (relay_state ''UNKNOWN'' 0 (JStr (take 100 detail)) observed_at)
     | Inr payload \<Rightarrow>
         (case path_snapshot path payload of
            None \<Rightarrow> Inr (relay_state ''UNKNOWN'' 0 (JStr ''RELAY_SOURCE_OFFLINE'') observed_at)
          | Some p \<Rightarrow>
              if dget p ''online'' \<noteq> JBool True then Inr (relay_state ''UNKNOWN'' 0 (JStr ''RELAY_SOURCE_OFFLINE'') observed_at) else
              (case dget_or p ''readers'' (JList []) of
                 JNull \<Rightarrow> Inr (relay_state ''DISCONNECTED'' 0 JNull observed_at)
               | JList readers \<Rightarrow>
                   let external = external_relay_readers readers in
                   Inr (relay_state (if external = [] then ''DISCONNECTED'' else ''CONNECTED'') (length external) JNull observed_at)
               | _ \<Rightarrow> Inr (relay_state ''UNKNOWN'' 0 (JStr ''READER_STATE_UNAVAILABLE'') observed_at))))"

section \<open>What a report can say\<close>

text \<open>The report of the gateway has one shape whatever the file holds; only a bad clock of the Node stops it.\<close>

definition connected_report :: "dict \<Rightarrow> bool" where
  "connected_report d \<longleftrightarrow> dget d ''connected'' = JBool True"

lemma unknown_status_simps [simp]:
  "dget (unknown_status r t) ''connected'' = JBool False" "dget (unknown_status r t) ''status'' = JStr ''UNKNOWN''"
  "map fst (unknown_status r t) = [''status'', ''connected'', ''attempt'', ''reason_code'', ''rendered_buffers'', ''next_retry_at'',
     ''destination_scheme'', ''destination_host'', ''observed_at'']"
  by (simp_all add: unknown_status_def dget_def)

lemma status_now_iff: "status_now v = Inr t \<longleftrightarrow> finite_argument v = Inr t \<and> 0 \<le> t"
  by (auto simp: status_now_def split: sum.splits)

lemma nonnegative_finite_number_eq:
  "nonnegative_finite_number v = Some w \<longleftrightarrow> w = v \<and> (\<exists>x. finite_argument v = Inr x \<and> 0 \<le> x)"
  by (auto simp: nonnegative_finite_number_def split: sum.splits if_splits)

lemma status_observed_at_eq:
  "status_observed_at current raw = Some x \<longleftrightarrow>
   (if dhas raw ''observed_at'' then finite_argument (dget raw ''observed_at'') = Inr x \<and> 0 \<le> x else x = current)"
  by (auto simp: status_observed_at_def nonnegative_finite_number_def split: option.splits sum.splits if_splits)

lemma connected_fields: "status_fields raw = Inr (True, n, m) \<Longrightarrow> dget raw ''connected'' = JBool True"
  by (auto simp: status_fields_def rbind_eq_Inr optional_boolean_field_def split: if_splits)

lemma status_report_connected:
  assumes "connected_report (gateway_status_report py_str current max_age raw)"
  shows "dget raw ''connected'' = JBool True \<and> py_text py_str (dget_or raw ''status'' (JStr ''UNKNOWN'')) = ''CONNECTED'' \<and>
    (\<exists>x. status_observed_at current raw = Some x \<and> (0 < max_age_seconds max_age \<longrightarrow> current \<le> x + max_age_seconds max_age))"
  using assms connected_fields [of raw]
  by (auto simp: gateway_status_report_def Let_def connected_report_def TERMINAL_STATUSES_def dget_def [of "_ # _"]
      split: option.splits sum.splits if_splits)

text \<open>
  A report that says the stream is connected rests on a file that says so, whose time, where it has one, is recent.
\<close>

lemma connected_report_only_if:
  assumes "read_egress_status py_str clock max_age f = Inr d" and "connected_report d"
  shows "\<exists>t raw now x. f = Status_Text t \<and> load_json_authority t = Some (JObj raw) \<and> status_now clock = Inr now \<and>
    dget raw ''connected'' = JBool True \<and> py_text py_str (dget_or raw ''status'' (JStr ''UNKNOWN'')) = ''CONNECTED'' \<and>
    status_observed_at now raw = Some x \<and> (0 < max_age_seconds max_age \<longrightarrow> now \<le> x + max_age_seconds max_age)"
proof -
  from assms(1) obtain now where now: "status_now clock = Inr now" by (auto simp: read_egress_status_def rbind_eq_Inr)
  with assms obtain t raw where "f = Status_Text t" "load_json_authority t = Some (JObj raw)" "d = gateway_status_report py_str now max_age raw"
    by (auto simp: read_egress_status_def connected_report_def split: status_file.splits option.splits Option.bind_splits)
  with status_report_connected [of py_str now max_age raw] assms(2) now show ?thesis by blast
qed

lemma read_egress_status_total: "status_now clock = Inr t \<Longrightarrow> \<exists>d. read_egress_status py_str clock max_age f = Inr d"
  by (cases f) (simp_all add: read_egress_status_def)

text \<open>The relay is connected exactly if some reader is not known to be internal; then the path is online.\<close>

lemma relay_state_connected [simp]: "connected_report (relay_state status n reason t) \<longleftrightarrow> 0 < n"
  by (simp add: connected_report_def relay_state_def dget_def)

lemma relay_connected_iff:
  assumes "relay_observe path detail clock reply = Inr d"
  shows "connected_report d \<longleftrightarrow> (\<exists>payload p readers. request_json reply = Inr payload \<and> path_snapshot path payload = Some p \<and>
     dget p ''online'' = JBool True \<and> dget_or p ''readers'' (JList []) = JList readers \<and> Bex (set readers) external_reader)"
proof (cases "request_json reply")
  case (Inl e)
  then show ?thesis using assms by (auto simp: relay_observe_def rbind_eq_Inr)
next
  case (Inr payload)
  show ?thesis
  proof (cases "path_snapshot path payload")
    case None
    then show ?thesis using assms Inr by (auto simp: relay_observe_def rbind_eq_Inr)
  next
    case (Some p)
    then show ?thesis using assms Inr
      by (cases "dget_or p ''readers'' (JList [])"; cases "dget p ''online'' = JBool True")
        (auto simp: relay_observe_def rbind_eq_Inr external_relay_readers_def filter_empty_conv Let_def)
  qed
qed

end
