(* ===== verification/Node_Agent.thy ===== *)
theory Node_Agent
  imports Node_Observers Continuity
begin

text \<open>
  The agent of a media Node (\<open>agent.py\<close>): exchanging the bootstrap token, the files it writes from the answer, and
  the heartbeat.  Exchanges with the control plane are arguments (the answer of \<open>http_json\<close>), as are the texts that
  \<open>str\<close> gives for values that are no strings, the parser of IP addresses and that of UUIDs.
\<close>

section \<open>Deadlines\<close>

definition validated_deadline_time :: "json \<Rightarrow> err + rat" where
  "validated_deadline_time v =
     (case finite_argument v of
        Inl _ \<Rightarrow> Inl DeadlineClockError
      | Inr x \<Rightarrow> if x < 0 then Inl DeadlineClockError else Inr x)"

definition bootstrap_absolute_deadline :: "dict \<Rightarrow> err + rat option" where
  "bootstrap_absolute_deadline response =
     (if \<not> dhas response ''absolute_deadline'' then Inr None else
      rbind (validated_deadline_time (dget response ''absolute_deadline'')) (\<lambda>t. Inr (Some t)))"

definition deadline_remaining :: "json \<Rightarrow> rat \<Rightarrow> err + rat" where
  "deadline_remaining clock deadline = rbind (validated_deadline_time clock) (\<lambda>now. Inr (deadline - now))"

section \<open>Answers of the control plane\<close>

text \<open>What \<open>urlopen\<close> gives: a body, an HTTP error, no connection.\<close>

datatype http_reply = Http_Body "json option option" | Http_Status int | Http_Unreachable

text \<open>A body is empty (None), no JSON (\<open>Some None\<close>) or JSON.\<close>

fun http_json :: "http_reply \<Rightarrow> err + dict" where
  "http_json (Http_Body None) = Inr []"
| "http_json (Http_Body (Some None)) = Inl RuntimeError"
| "http_json (Http_Body (Some (Some v))) = Inr (case as_obj v of Some d \<Rightarrow> d | None \<Rightarrow> [])"
| "http_json (Http_Status code) = Inl (ControlPlaneHTTPError code)"
| "http_json Http_Unreachable = Inl ControlPlaneUnavailable"

section \<open>Bootstrap\<close>

record node_agent =
  na_node_id :: "string option"
  na_session_id :: "string option"
  na_deadline :: "rat option"
  na_egress_mode :: string
  na_access_token :: string

definition new_agent :: "string \<Rightarrow> node_agent" where
  "new_agent token = \<lparr>na_node_id = None, na_session_id = None, na_deadline = None, na_egress_mode = ''DIRECT_PUSH'',
     na_access_token = token\<rparr>"

definition text_field :: "(json \<Rightarrow> string) \<Rightarrow> dict \<Rightarrow> string \<Rightarrow> string option" where
  "text_field py_str response key = nonempty_text (py_text py_str (dget_or response key (JStr [])))"

definition agent_bootstrap :: "(json \<Rightarrow> string) \<Rightarrow> http_reply \<Rightarrow> node_agent \<Rightarrow> (err + dict) \<times> node_agent" where
  "agent_bootstrap py_str reply ag =
     (case http_json reply of
        Inl e \<Rightarrow> (Inl e, ag)
      | Inr response \<Rightarrow>
          let ag1 = ag\<lparr>na_node_id := text_field py_str response ''node_id'', na_session_id := text_field py_str response ''session_id''\<rparr> in
          (case bootstrap_absolute_deadline response of
             Inl e \<Rightarrow> (Inl e, ag1)
           | Inr deadline \<Rightarrow>
               let ag2 = ag1\<lparr>na_deadline := deadline\<rparr>;
                   egress_mode = py_text py_str (dget_or response ''egress_mode'' (JStr ''DIRECT_PUSH'')) in
               if text_field py_str response ''node_access_token'' \<notin> {None, Some (na_access_token ag)} then (Inl RuntimeError, ag2)
               else if egress_mode \<notin> {''DIRECT_PUSH'', ''RELAY_ONLY''} then (Inl RuntimeError, ag2)
               else
                 let ag3 = ag2\<lparr>na_egress_mode := egress_mode\<rparr> in
                 if na_node_id ag3 = None \<or> na_session_id ag3 = None \<or> na_access_token ag3 = [] then (Inl RuntimeError, ag3)
                 else (Inr response, ag3)))"

text \<open>
  One round of \<open>bootstrap_with_retry\<close>: None when it sleeps and goes on, with the time it sleeps.  \<open>deadline\<close> and
  \<open>now\<close> are readings of the monotonic clock.
\<close>

definition retry_delay :: "rat \<Rightarrow> rat \<Rightarrow> rat \<Rightarrow> rat" where
  "retry_delay retry_seconds deadline now = min retry_seconds (deadline - now)"

fun bootstrap_with_retry :: "(json \<Rightarrow> string) \<Rightarrow> rat \<Rightarrow> (http_reply \<times> rat) list \<Rightarrow> node_agent \<Rightarrow> (err + dict) option \<times> node_agent"
where
  "bootstrap_with_retry py_str deadline [] ag = (None, ag)"
| "bootstrap_with_retry py_str deadline ((reply, now) # rounds) ag =
     (case agent_bootstrap py_str reply ag of
        (Inl ControlPlaneUnavailable, ag1) \<Rightarrow>
          if deadline - now \<le> 0 then (Some (Inl ControlPlaneUnavailable), ag1)
          else bootstrap_with_retry py_str deadline rounds ag1
      | (r, ag1) \<Rightarrow> (Some r, ag1))"

section \<open>The secret files\<close>

type_synonym files = "string \<Rightarrow> string option"

text \<open>A write fails before the rename, after it, or not at all.\<close>

datatype write_fault = No_Fault | Fault_Before | Fault_After

definition atomic_write_secret :: "write_fault \<Rightarrow> string \<Rightarrow> string \<Rightarrow> files \<Rightarrow> (err + unit) \<times> files" where
  "atomic_write_secret fault name value fs =
     (case fault of
        No_Fault \<Rightarrow> (Inr (), fs(name \<mapsto> value @ [CHR 0x0A]))
      | Fault_Before \<Rightarrow> (Inl OSError, fs)
      | Fault_After \<Rightarrow> (Inl OSError, fs(name \<mapsto> value @ [CHR 0x0A])))"

definition unlink_secrets :: "files \<Rightarrow> files" where
  "unlink_secrets fs = fs(''egress_url'' := None, ''egress_verified_peer_ip'' := None)"

record peer =
  is_unspecified :: bool
  is_loopback :: bool
  is_multicast :: bool
  is_link_local :: bool

definition usable_peer :: "peer \<Rightarrow> bool" where
  "usable_peer p \<longleftrightarrow> \<not> (is_unspecified p \<or> is_loopback p \<or> is_multicast p \<or> is_link_local p)"

text \<open>The answer is whether a secret was written (its path in the code).\<close>

definition write_secret ::
  "(json \<Rightarrow> string) \<Rightarrow> (string \<Rightarrow> peer option) \<Rightarrow> write_fault \<Rightarrow> write_fault \<Rightarrow> dict \<Rightarrow> node_agent \<Rightarrow> files \<Rightarrow> (err + bool) \<times> files"
where
  "write_secret py_str ip_address fault1 fault2 response ag fs =
     (if py_text py_str (dget_or response ''egress_mode'' (JStr (na_egress_mode ag))) = ''RELAY_ONLY''
      then (Inr False, unlink_secrets fs) else
      let egress_url = py_text py_str (dget_or response ''egress_url'' (JStr [])) in
      if egress_url = [] then (Inl RuntimeError, fs) else
      let peer_ip = py_strip (py_text py_str (dget_or response ''egress_verified_peer_ip'' (JStr []))) in
      (case ip_address peer_ip of
         None \<Rightarrow> (Inl RuntimeError, fs)
       | Some p \<Rightarrow>
           if \<not> usable_peer p then (Inl RuntimeError, fs) else
           (case atomic_write_secret fault1 ''egress_url'' egress_url fs of
              (Inl e, fs1) \<Rightarrow> (Inl e, unlink_secrets fs1)
            | (Inr _, fs1) \<Rightarrow>
                (case atomic_write_secret fault2 ''egress_verified_peer_ip'' peer_ip fs1 of
                   (Inl e, fs2) \<Rightarrow> (Inl e, unlink_secrets fs2)
                 | (Inr _, fs2) \<Rightarrow> (Inr True, fs2)))))"

definition remove_secret :: "bool \<Rightarrow> files \<Rightarrow> files" where
  "remove_secret secret_path fs = (if secret_path then unlink_secrets fs else fs)"

section \<open>The first audio command\<close>

definition seed_payload :: "(string \<Rightarrow> bool) \<Rightarrow> json \<Rightarrow> dict \<Rightarrow> err + dict" where
  "seed_payload uuid_ok clock response =
     (let mode = dget_or response ''audio_mode'' (JStr ''LIVE''); version = dget_or response ''audio_version'' (JInt 0);
          command_id = dget response ''audio_command_id''; key = dget response ''audio_idempotency_key'';
          updated_at_raw = dget_or response ''audio_updated_at'' clock in
      rbind (from_some RuntimeError (as_str mode)) (\<lambda>m.
      rbind (require RuntimeError (m \<in> {''LIVE'', ''MUTED''})) (\<lambda>_.
      rbind (from_some RuntimeError (as_int version)) (\<lambda>n.
      rbind (require RuntimeError (0 \<le> n)) (\<lambda>_.
      rbind (require RuntimeError (command_id = JNull \<or> (case as_str command_id of Some c \<Rightarrow> uuid_ok c | None \<Rightarrow> False))) (\<lambda>_.
      rbind (require RuntimeError (key = JNull \<or> (case as_str key of Some k \<Rightarrow> k \<noteq> [] \<and> length k \<le> 200 | None \<Rightarrow> False))) (\<lambda>_.
      rbind (case finite_argument updated_at_raw of Inl _ \<Rightarrow> Inl RuntimeError | Inr x \<Rightarrow> Inr x) (\<lambda>updated_at.
      rbind (require RuntimeError (0 \<le> updated_at)) (\<lambda>_.
      Inr [(''audio_mode'', mode), (''version'', version), (''command_id'', command_id), (''idempotency_key'', key),
           (''updated_at'', JTime updated_at)])))))))))"

text \<open>
  \<open>control_file\<close> is None when no control state is configured.  The JSON writer replaces the file or leaves it.
\<close>

definition seed_control_state ::
  "(string \<Rightarrow> bool) \<Rightarrow> json \<Rightarrow> write_fault \<Rightarrow> dict \<Rightarrow> file_state option \<Rightarrow> (err + unit) \<times> file_state option"
where
  "seed_control_state uuid_ok clock fault response control_file =
     (if control_file \<noteq> Some Missing then (Inr (), control_file) else
      (case seed_payload uuid_ok clock response of
         Inl e \<Rightarrow> (Inl e, control_file)
       | Inr payload \<Rightarrow>
           (case json_dump (JObj payload) of
              None \<Rightarrow> (Inl RuntimeError, control_file)
            | Some t \<Rightarrow>
                (case fault of
                   No_Fault \<Rightarrow> (Inr (), Some (Text t))
                 | Fault_Before \<Rightarrow> (Inl OSError, control_file)
                 | Fault_After \<Rightarrow> (Inl OSError, Some (Text t))))))"

section \<open>The heartbeat\<close>

definition status_text :: "ingest_status \<Rightarrow> string" where
  "status_text s = (case s of OFFLINE \<Rightarrow> ''OFFLINE'' | REJECTED \<Rightarrow> ''REJECTED'' | PENDING \<Rightarrow> ''PENDING'' | WARNING \<Rightarrow> ''WARNING''
     | ACCEPTED \<Rightarrow> ''ACCEPTED'')"

text \<open>\<open>detail\<close> is the message of a failed kick.\<close>

definition observation_dict :: "policy_config \<Rightarrow> string \<Rightarrow> observation \<Rightarrow> dict" where
  "observation_dict config detail ob =
     [(''status'', JStr (status_text (ob_status ob))), (''path'', JStr (pc_path config)), (''online'', JBool (ob_online ob)),
      (''source_type'', jopt (ob_source_type ob)), (''source_id'', jopt (ob_source_id ob)),
      (''bitrate_bps'', case ob_bitrate ob of None \<Rightarrow> JNull | Some b \<Rightarrow> JFloat b), (''max_bitrate_bps'', JInt (max_bitrate_bps config)),
      (''tracks'', JList (map JObj (ob_tracks ob))), (''reasons'', JList (map JStr (ob_reasons ob))),
      (''warnings'', JList (map JStr (ob_warnings ob))), (''enforced'', JBool (ob_enforced ob)), (''observed_at'', JTime (ob_observed_at ob))] @
     (if ob_enforcement_failed ob then [(''enforcement_error'', JStr (take 160 detail))] else [])"

definition fallback_observation :: "string \<Rightarrow> rat \<Rightarrow> dict" where
  "fallback_observation path observed_at =
     [(''status'', JStr ''UNKNOWN''), (''path'', JStr path), (''online'', JBool False), (''source_type'', JNull), (''source_id'', JNull),
      (''bitrate_bps'', JNull), (''tracks'', JList []), (''reasons'', JList [JStr ''MEDIAMTX_API_UNAVAILABLE'']), (''warnings'', JList []),
      (''enforced'', JBool False), (''observed_at'', JTime observed_at)]"

text \<open>\<open>list(dict.fromkeys(values))\<close> on the warnings of an observation, which are strings.\<close>

definition fromkeys :: "json list \<Rightarrow> json list" where
  "fromkeys vs = rev (remdups (rev vs))"

definition degraded_observation :: "dict \<Rightarrow> dict" where
  "degraded_observation ob =
     (if truthy (dget ob ''online'') \<and> dget ob ''status'' \<noteq> JStr ''REJECTED''
      then
        let warnings = (case as_list (dget_or ob ''warnings'' (JList [])) of Some ws \<Rightarrow> ws | None \<Rightarrow> []);
            d = dset ob ''warnings'' (JList (fromkeys (warnings @ [JStr ''QUALITY_SAMPLER_UNAVAILABLE'']))) in
        if dget d ''status'' = JStr ''ACCEPTED'' then dset d ''status'' (JStr ''WARNING'') else d
      else ob)"

text \<open>
  \<open>inspected\<close> is what the inspector gives (None without one) and \<open>augment\<close> the quality sampler.
\<close>

definition agent_ingest_observation ::
  "string \<Rightarrow> json \<Rightarrow> (err + dict) option \<Rightarrow> (dict \<Rightarrow> err + dict) option \<Rightarrow> err + dict option"
where
  "agent_ingest_observation path clock inspected augment =
     (case inspected of
        None \<Rightarrow> Inr None
      | Some (Inl RuntimeError) \<Rightarrow>
          rbind (validated_observed_at clock) (\<lambda>t. Inr (Some (fallback_observation path t)))
      | Some (Inl e) \<Rightarrow> Inl e
      | Some (Inr ob) \<Rightarrow>
          (case augment of
             None \<Rightarrow> Inr (Some ob)
           | Some aug \<Rightarrow>
               (case aug ob of
                  Inr d \<Rightarrow> Inr (Some d)
                | Inl _ \<Rightarrow> Inr (Some (degraded_observation ob)))))"

definition agent_egress_observation :: "node_agent \<Rightarrow> (err + dict) option \<Rightarrow> err + dict option" where
  "agent_egress_observation ag status =
     (case status of
        None \<Rightarrow> Inr None
      | Some r \<Rightarrow> if na_egress_mode ag = ''RELAY_ONLY'' then Inr None else rbind r (\<lambda>d. Inr (Some d)))"

definition relay_client_observation :: "node_agent \<Rightarrow> (err + dict) option \<Rightarrow> err + dict option" where
  "relay_client_observation ag observed =
     (case observed of
        None \<Rightarrow> Inr None
      | Some r \<Rightarrow> if na_egress_mode ag \<noteq> ''RELAY_ONLY'' then Inr None else rbind r (\<lambda>d. Inr (Some d)))"

definition observed_member :: "string \<Rightarrow> dict option \<Rightarrow> dict" where
  "observed_member key d = (case d of None \<Rightarrow> [] | Some x \<Rightarrow> [(key, JObj x)])"

definition heartbeat_payload ::
  "(json \<Rightarrow> string) \<Rightarrow> string \<Rightarrow> json \<Rightarrow> dict \<Rightarrow> err + dict option \<Rightarrow> err + dict option \<Rightarrow> err + dict option \<Rightarrow> node_agent \<Rightarrow> err + dict"
where
  "heartbeat_payload py_str version clock health ingest_observed egress_observed relay_observed ag =
     rbind (require RuntimeError (na_node_id ag \<noteq> None)) (\<lambda>_.
     rbind (case na_deadline ag of None \<Rightarrow> Inr JNull | Some t \<Rightarrow> rbind (deadline_remaining clock t) (\<lambda>r. Inr (JTime (max 0 r)))) (\<lambda>remaining.
     rbind ingest_observed (\<lambda>ingest.
     rbind egress_observed (\<lambda>egress.
     rbind relay_observed (\<lambda>relay.
     Inr ([(''status'', JStr (if dget health ''media_stack'' = JStr ''running'' then ''READY'' else ''STOPPING'')),
           (''media_health'', JStr (py_text py_str (dget_or health ''media_stack'' (JStr ''unknown'')))),
           (''active_publisher'', JBool (case ingest of None \<Rightarrow> truthy (dget_or health ''active_publisher'' (JBool False))
              | Some d \<Rightarrow> truthy (dget_or d ''online'' (JBool False)))),
           (''egress_connected'', JBool (case egress of None \<Rightarrow> truthy (dget_or health ''egress_connected'' (JBool False))
              | Some d \<Rightarrow> truthy (dget_or d ''connected'' (JBool False)))),
           (''software_version'', JStr version), (''deadline_remaining_seconds'', remaining)] @
          observed_member ''ingest'' ingest @ observed_member ''egress'' egress @ observed_member ''relay_client'' relay))))))"

definition agent_heartbeat ::
  "(json \<Rightarrow> string) \<Rightarrow> string \<Rightarrow> json \<Rightarrow> dict \<Rightarrow> err + dict option \<Rightarrow> err + dict option \<Rightarrow> err + dict option \<Rightarrow> http_reply \<Rightarrow> node_agent
    \<Rightarrow> err + dict"
where
  "agent_heartbeat py_str version clock health ingest_observed egress_observed relay_observed reply ag =
     rbind (heartbeat_payload py_str version clock health ingest_observed egress_observed relay_observed ag) (\<lambda>_. http_json reply)"

section \<open>Bootstrap ends\<close>

text \<open>Successive rounds of the retry loop are at least the chosen sleep apart on the monotonic clock.\<close>

fun paced :: "rat \<Rightarrow> rat \<Rightarrow> (http_reply \<times> rat) list \<Rightarrow> bool" where
  "paced retry deadline ((r, t) # (r', t') # rounds) \<longleftrightarrow>
     t + retry_delay retry deadline t \<le> t' \<and> paced retry deadline ((r', t') # rounds)"
| "paced retry deadline rounds \<longleftrightarrow> True"

lemma retry_Cons:
  "bootstrap_with_retry py_str deadline ((reply, now) # rounds) ag =
     (let (r, ag1) = agent_bootstrap py_str reply ag in
      if r = Inl ControlPlaneUnavailable \<and> now < deadline then bootstrap_with_retry py_str deadline rounds ag1 else (Some r, ag1))"
  by (auto split: prod.splits sum.splits err.splits)

declare bootstrap_with_retry.simps(2) [simp del]

text \<open>The loop gives up or returns after \<open>timeout / retry + 1\<close> rounds, rounded up.\<close>

lemma bootstrap_with_retry_ends:
  assumes "0 < retry" and "paced retry deadline rounds" and "n < length rounds"
    and "deadline - snd (hd rounds) \<le> of_nat n * retry"
  shows "fst (bootstrap_with_retry py_str deadline rounds ag) \<noteq> None"
  using assms(2-4)
proof (induction n arbitrary: rounds ag)
  case 0
  then obtain r t rest where "rounds = (r, t) # rest" by (cases rounds) auto
  with 0 show ?case by (simp add: retry_Cons split: prod.splits)
next
  case (Suc n)
  then obtain r t r' t' rest where rounds: "rounds = (r, t) # (r', t') # rest" by (cases rounds; cases "tl rounds") force+
  have "deadline - t' \<le> of_nat n * retry"
  proof (cases "deadline - t < retry")
    case True
    then have "deadline - t' \<le> 0" using Suc.prems(1) rounds by (simp add: retry_delay_def)
    also have "0 \<le> of_nat n * retry" using assms(1) by simp
    finally show ?thesis .
  next
    case False
    then show ?thesis using Suc.prems(1,3) rounds by (simp add: retry_delay_def algebra_simps)
  qed
  then have "fst (bootstrap_with_retry py_str deadline ((r', t') # rest) ag') \<noteq> None" for ag'
    using Suc.prems rounds by (intro Suc.IH) auto
  then show ?case unfolding rounds by (simp add: retry_Cons [of _ _ r t] split: prod.splits)
qed

text \<open>An answer of the control plane is final: only a transport failure is tried again.\<close>

lemma bootstrap_absolute_deadline_error: "bootstrap_absolute_deadline response = Inl e \<Longrightarrow> e = DeadlineClockError"
  by (auto simp: bootstrap_absolute_deadline_def validated_deadline_time_def rbind_eq_Inl split: sum.splits if_splits)

lemma bootstrap_unavailable: "fst (agent_bootstrap py_str reply ag) = Inl ControlPlaneUnavailable \<longleftrightarrow> http_json reply = Inl ControlPlaneUnavailable"
  by (auto simp: agent_bootstrap_def Let_def dest: bootstrap_absolute_deadline_error split: sum.splits)

lemma definitive_answer_not_retried:
  "http_json reply \<noteq> Inl ControlPlaneUnavailable \<Longrightarrow>
   bootstrap_with_retry py_str deadline ((reply, t) # rounds) ag = apfst Some (agent_bootstrap py_str reply ag)"
  using bootstrap_unavailable [of py_str reply ag] by (auto simp: retry_Cons split: prod.splits)

lemma bootstrap_identity:
  assumes "agent_bootstrap py_str reply ag = (Inr response, ag')"
  shows "na_node_id ag' = text_field py_str response ''node_id'' \<and> na_node_id ag' \<noteq> None \<and>
    na_session_id ag' = text_field py_str response ''session_id'' \<and> na_session_id ag' \<noteq> None \<and>
    na_access_token ag' = na_access_token ag \<and> na_egress_mode ag' \<in> {''DIRECT_PUSH'', ''RELAY_ONLY''} \<and>
    bootstrap_absolute_deadline response = Inr (na_deadline ag')"
  using assms by (auto simp: agent_bootstrap_def Let_def split: sum.splits if_splits)

section \<open>The secret files are whole or absent\<close>

lemma write_secret_outcome:
  assumes "write_secret py_str ip_address fault1 fault2 response ag fs = (r, fs')"
  shows "case r of
      Inr True \<Rightarrow> \<exists>url peer_ip p. fs' = fs(''egress_url'' \<mapsto> url @ [CHR 0x0A], ''egress_verified_peer_ip'' \<mapsto> peer_ip @ [CHR 0x0A]) \<and>
        url = py_text py_str (dget_or response ''egress_url'' (JStr [])) \<and> url \<noteq> [] \<and> ip_address peer_ip = Some p \<and> usable_peer p
    | Inr False \<Rightarrow> fs' = unlink_secrets fs
    | Inl _ \<Rightarrow> fs' = fs \<or> fs' = unlink_secrets fs"
  using assms
  by (auto simp: write_secret_def atomic_write_secret_def unlink_secrets_def Let_def fun_upd_twist
      split: if_splits option.splits write_fault.splits sum.splits bool.splits)

lemma unlink_secrets_idem [simp]: "unlink_secrets (unlink_secrets fs) = unlink_secrets fs"
  by (simp add: unlink_secrets_def fun_upd_twist)

section \<open>The engine obeys the first command\<close>

definition seeded_command :: "dict \<Rightarrow> control_command \<Rightarrow> bool" where
  "seeded_command response c \<longleftrightarrow>
     dget_or response ''audio_mode'' (JStr ''LIVE'') = JStr (cc_audio_mode c) \<and>
     dget_or response ''audio_version'' (JInt 0) = JInt (cc_version c) \<and> dget response ''audio_command_id'' = jopt (cc_command_id c)"

lemma seed_payload_valid:
  assumes "seed_payload uuid_ok clock response = Inr payload"
  shows "\<exists>c. validate_control uuid_ok (JObj payload) = Inr c \<and> seeded_command response c"
  using assms
  by (auto simp: seed_payload_def validate_control_def seeded_command_def Let_def rbind_eq_Inr dget_def [of "_ # _"] finite_argument_def
      split: option.splits sum.splits)

text \<open>C30. The audio command a Node is booted with reaches its engine: when the agent has written the control state from the
  bootstrap answer, the engine reads the command of the answer from it, whatever command it had before, and a control
  state that is already there is left as it is.\<close>

theorem seeded_command_is_obeyed:
  assumes "seed_control_state uuid_ok clock fault response control_file = (Inr (), after)"
  shows "if control_file = Some Missing
    then \<exists>t c. after = Some (Text t) \<and> seeded_command response c \<and> read_control uuid_ok (Text t) last_valid = ((c, None), Some c)
    else after = control_file"
proof (cases "control_file = Some Missing")
  case True
  with assms obtain payload where p: "seed_payload uuid_ok clock response = Inr payload" "json_ok (JObj payload)"
    "after = Some (Text (text_of (JObj payload)))"
    by (auto simp: seed_control_state_def json_dump_def split: sum.splits write_fault.splits if_splits)
  with seed_payload_valid [OF p(1)] True show ?thesis by (auto simp: read_control_def load_text_of simp del: text_of.simps load_json_authority.simps)
qed (use assms in \<open>simp add: seed_control_state_def\<close>)

definition demo_answer :: dict where
  "demo_answer = [(''audio_mode'', JStr ''MUTED''), (''audio_version'', JInt 7)]"

theorem seeded_command_is_obeyed_witness:
  "\<exists>t c. snd (seed_control_state (\<lambda>_. True) (JTime 5) No_Fault demo_answer (Some Missing)) = Some (Text t) \<and>
     seeded_command demo_answer c \<and> read_control (\<lambda>_. True) (Text t) None = ((c, None), Some c)"
proof -
  have "seed_control_state (\<lambda>_. True) (JTime 5) No_Fault demo_answer (Some Missing) =
    (Inr (), snd (seed_control_state (\<lambda>_. True) (JTime 5) No_Fault demo_answer (Some Missing)))"
    by (simp add: seed_control_state_def seed_payload_def demo_answer_def dget_or_def dget_def Let_def finite_argument_def json_dump_def)
  from seeded_command_is_obeyed [OF this, of None] show ?thesis by simp
qed

end
