(* ===== verification/Node_Run.thy ===== *)
theory Node_Run
  imports Node_Agent
begin

text \<open>
  The run of a Node agent (\<open>NodeAgent.run\<close>, \<open>_stop_media_once\<close>, \<open>_deadline_watchdog\<close>): the main
  thread and the deadline watchdog as two processes that interleave with signals, the wall clock and the media stack.
  A step is what a thread does between two points where the other can be seen: a call of the supervisor or of the
  control plane takes a step to begin and one to return, and the lock of the stop is held from one to the other.
\<close>

section \<open>State\<close>

datatype thread = Main | Watchdog

text \<open>Control points of \<open>run\<close>, in the order of the source, and of the watchdog.\<close>

datatype main_pc =
    M_Boot | M_Check | M_Secret | M_Seed | M_Spawn | M_Auth | M_Authorizing | M_Guard | M_Attempt | M_Mark | M_Starting
  | M_Started | M_Stop_Late | M_Stopping_Late | M_Loop | M_Beat | M_Wait
  | M_Final | M_Stop1 | M_Stopping1 | M_Join | M_Stop2 | M_Stopping2 | M_Verdict | M_Cleanup | M_Remove | M_Done

datatype watch_pc = W_None | W_Loop | W_Stop | W_Stopping | W_Done

record agent_run =
  ar_agent :: node_agent
  ar_files :: files
  ar_control :: "file_state option"
  stop_requested :: bool
  received_signal :: bool
  shutdown_event :: bool
  media_stop_lock :: "thread option"
  media_stop_attempted :: bool
  media_started :: bool
  media_start_attempted :: bool
  media_start_finished :: bool
  media_stop_requested :: bool
  media_stop_result :: "bool option"
  media_stop_error :: bool
  ar_response :: dict
  secret_path :: bool
  media_auth_started :: bool
  ar_exit_code :: int
  ar_raised :: bool
  main_pc :: main_pc
  watch_pc :: watch_pc
  wall_clock :: json
  media_running :: bool
  raced :: bool

text \<open>
  The last four fields are the world: \<open>media_running\<close> says whether containers of the media stack run, and
  \<open>raced\<close> records that a stop succeeded while the main thread was on its way from the last look at the shutdown event
  through the start of the media stack.
\<close>

definition start_window :: "main_pc set" where
  "start_window = {M_Attempt, M_Mark, M_Starting}"

section \<open>Stopping the media stack\<close>

datatype supervision = Sup_Ok | Sup_Failed | Sup_Raised

text \<open>
  \<open>_stop_media_once\<close> up to the call of the supervisor: the new state and whether the supervisor is called, which keeps
  the lock.
\<close>

definition stop_enter :: "thread \<Rightarrow> agent_run \<Rightarrow> agent_run \<times> bool" where
  "stop_enter t s =
     (let s1 = s\<lparr>media_stop_requested := True\<rparr> in
      if \<not> media_started s1 \<and> media_start_attempted s1 \<and> \<not> media_start_finished s1 then (s1, False)
      else if media_stop_attempted s1 then (s1, False)
      else (s1\<lparr>media_stop_attempted := True, media_stop_lock := Some t\<rparr>, True))"

text \<open>What follows the call; a stop that succeeds has stopped the containers.\<close>

definition stop_return :: "supervision \<Rightarrow> agent_run \<Rightarrow> agent_run" where
  "stop_return outcome s =
     (let s1 = s\<lparr>media_stop_lock := None\<rparr> in
      case outcome of
        Sup_Ok \<Rightarrow> s1\<lparr>media_stop_result := Some True, media_started := False, media_stop_error := False, media_running := False,
          raced := raced s \<or> main_pc s \<in> start_window\<rparr>
      | Sup_Failed \<Rightarrow> s1\<lparr>media_stop_result := Some False\<rparr>
      | Sup_Raised \<Rightarrow> s1\<lparr>media_stop_error := True, media_stop_attempted := False\<rparr>)"

section \<open>The watchdog\<close>

definition deadline_reached :: "json \<Rightarrow> node_agent \<Rightarrow> bool" where
  "deadline_reached clock ag =
     (case na_deadline ag of
        None \<Rightarrow> False
      | Some t \<Rightarrow> (case deadline_remaining clock t of Inl _ \<Rightarrow> True | Inr r \<Rightarrow> r \<le> 0))"

definition watchdog_step :: "supervision \<Rightarrow> agent_run \<Rightarrow> agent_run option" where
  "watchdog_step outcome s =
     (case watch_pc s of
        W_None \<Rightarrow> None
      | W_Loop \<Rightarrow>
          if shutdown_event s then Some (s\<lparr>watch_pc := W_Stop\<rparr>)
          else if deadline_reached (wall_clock s) (ar_agent s) then Some (s\<lparr>stop_requested := True, shutdown_event := True, watch_pc := W_Stop\<rparr>)
          else Some s
      | W_Stop \<Rightarrow>
          if media_stop_lock s \<noteq> None then None
          else (case stop_enter Watchdog s of (s1, calls) \<Rightarrow> Some (s1\<lparr>watch_pc := if calls then W_Stopping else W_Done\<rparr>))
      | W_Stopping \<Rightarrow> Some ((stop_return outcome s)\<lparr>watch_pc := W_Done\<rparr>)
      | W_Done \<Rightarrow> None)"

section \<open>The main thread\<close>

text \<open>
  The agent's parameters: the functions its operations use, and whether hooks around the media stack are given.  What the
  environment answers at a step of the main thread is an \<open>answer\<close>: the rounds of the bootstrap and its deadline, the
  faults of the writers, what the supervisor, a hook and the heartbeat give, and whether the secret files can be removed.
\<close>

record agent_world =
  aw_py_str :: "json \<Rightarrow> string"
  aw_ip_address :: "string \<Rightarrow> peer option"
  aw_uuid_ok :: "string \<Rightarrow> bool"
  aw_pre_hook :: bool
  aw_post_hook :: bool

datatype answer =
    No_Answer
  | Boot_Rounds "(http_reply \<times> rat) list" rat
  | Write_Faults write_fault write_fault
  | Supervised supervision
  | Hook_Ok
  | Hook_Raised
  | Beat "err + dict"

fun boot_rounds :: "answer \<Rightarrow> (http_reply \<times> rat) list" where
  "boot_rounds (Boot_Rounds rounds deadline) = rounds"
| "boot_rounds _ = []"

fun boot_deadline :: "answer \<Rightarrow> rat" where
  "boot_deadline (Boot_Rounds rounds deadline) = deadline"
| "boot_deadline _ = 0"

fun first_fault :: "answer \<Rightarrow> write_fault" where
  "first_fault (Write_Faults f g) = f"
| "first_fault _ = No_Fault"

fun second_fault :: "answer \<Rightarrow> write_fault" where
  "second_fault (Write_Faults f g) = g"
| "second_fault _ = No_Fault"

fun supervised :: "answer \<Rightarrow> supervision" where
  "supervised (Supervised r) = r"
| "supervised _ = Sup_Raised"

fun beat :: "answer \<Rightarrow> err + dict" where
  "beat (Beat r) = r"
| "beat _ = Inl RuntimeError"

definition finish :: "agent_run \<Rightarrow> agent_run" where
  "finish s = s\<lparr>main_pc := M_Final\<rparr>"

text \<open>\<open>run\<close> from the call of the bootstrap to the start of the watchdog.\<close>

definition boot_step :: "agent_world \<Rightarrow> rat \<Rightarrow> (http_reply \<times> rat) list \<Rightarrow> agent_run \<Rightarrow> agent_run option" where
  "boot_step w deadline rounds s =
     (case bootstrap_with_retry (aw_py_str w) deadline rounds (ar_agent s) of
        (None, ag) \<Rightarrow> None
      | (Some (Inl e), ag) \<Rightarrow> Some (finish (s\<lparr>ar_agent := ag, ar_raised := True\<rparr>))
      | (Some (Inr response), ag) \<Rightarrow> Some (s\<lparr>ar_agent := ag, ar_response := response, main_pc := M_Check\<rparr>))"

definition check_step :: "agent_run \<Rightarrow> agent_run" where
  "check_step s =
     (if deadline_reached (wall_clock s) (ar_agent s)
      then finish (s\<lparr>stop_requested := True, shutdown_event := True, ar_exit_code := 1\<rparr>)
      else s\<lparr>main_pc := M_Secret\<rparr>)"

definition secret_step :: "agent_world \<Rightarrow> write_fault \<Rightarrow> write_fault \<Rightarrow> agent_run \<Rightarrow> agent_run" where
  "secret_step w fault1 fault2 s =
     (case write_secret (aw_py_str w) (aw_ip_address w) fault1 fault2 (ar_response s) (ar_agent s) (ar_files s) of
        (Inl e, fs) \<Rightarrow> finish (s\<lparr>ar_files := fs, ar_raised := True\<rparr>)
      | (Inr written, fs) \<Rightarrow> s\<lparr>ar_files := fs, secret_path := written, main_pc := M_Seed\<rparr>)"

definition seed_step :: "agent_world \<Rightarrow> write_fault \<Rightarrow> agent_run \<Rightarrow> agent_run" where
  "seed_step w fault s =
     (case seed_control_state (aw_uuid_ok w) (wall_clock s) fault (ar_response s) (ar_control s) of
        (Inl e, c) \<Rightarrow> finish (s\<lparr>ar_control := c, ar_raised := True\<rparr>)
      | (Inr _, c) \<Rightarrow> s\<lparr>ar_control := c, main_pc := M_Spawn\<rparr>)"

text \<open>The loop of heartbeats: how one is answered, and where the loop goes on.\<close>

datatype beat_result = Beat_Again | Beat_Stop | Beat_Clock_Failed | Beat_Raised

definition beat_outcome :: "(json \<Rightarrow> string) \<Rightarrow> err + dict \<Rightarrow> beat_result" where
  "beat_outcome py_str r =
     (case r of
        Inr response \<Rightarrow>
          if py_text py_str (dget_or response ''desired_state'' (JStr ''RUNNING'')) = ''STOPPED'' then Beat_Stop else Beat_Again
      | Inl DeadlineClockError \<Rightarrow> Beat_Clock_Failed
      | Inl (ControlPlaneHTTPError code) \<Rightarrow> if 400 \<le> code \<and> code < 500 then Beat_Stop else Beat_Again
      | Inl RuntimeError \<Rightarrow> Beat_Again
      | Inl ControlPlaneUnavailable \<Rightarrow> Beat_Again
      | Inl IngestObservationClockError \<Rightarrow> Beat_Again
      | Inl _ \<Rightarrow> Beat_Raised)"

definition beat_step :: "(json \<Rightarrow> string) \<Rightarrow> err + dict \<Rightarrow> agent_run \<Rightarrow> agent_run" where
  "beat_step py_str r s =
     (case beat_outcome py_str r of
        Beat_Again \<Rightarrow> s\<lparr>main_pc := M_Wait\<rparr>
      | Beat_Stop \<Rightarrow> finish (s\<lparr>stop_requested := True, shutdown_event := True\<rparr>)
      | Beat_Clock_Failed \<Rightarrow> finish (s\<lparr>stop_requested := True, shutdown_event := True, ar_exit_code := 1\<rparr>)
      | Beat_Raised \<Rightarrow> finish (s\<lparr>ar_raised := True\<rparr>))"

definition start_return :: "supervision \<Rightarrow> agent_run \<Rightarrow> agent_run" where
  "start_return outcome s =
     (case outcome of
        Sup_Ok \<Rightarrow> s\<lparr>main_pc := M_Started\<rparr>
      | _ \<Rightarrow> finish (s\<lparr>media_start_finished := True, ar_exit_code := 1\<rparr>))"

definition verdict_step :: "agent_run \<Rightarrow> agent_run" where
  "verdict_step s =
     s\<lparr>ar_exit_code := if media_stop_error s \<or> media_stop_result s = Some False then 1 else ar_exit_code s, main_pc := M_Cleanup\<rparr>"

definition cleanup_step :: "agent_world \<Rightarrow> bool \<Rightarrow> agent_run \<Rightarrow> agent_run" where
  "cleanup_step w ok s =
     s\<lparr>ar_exit_code := if (if aw_post_hook w then \<not> ok else media_auth_started s) then 1 else ar_exit_code s, main_pc := M_Remove\<rparr>"

text \<open>A call of \<open>_stop_media_once\<close> by the main thread, and its return.\<close>

definition main_stop :: "main_pc \<Rightarrow> main_pc \<Rightarrow> agent_run \<Rightarrow> agent_run option" where
  "main_stop stopping next s =
     (if media_stop_lock s \<noteq> None then None
      else (case stop_enter Main s of (s1, calls) \<Rightarrow> Some (s1\<lparr>main_pc := if calls then stopping else next\<rparr>)))"

definition main_step :: "agent_world \<Rightarrow> answer \<Rightarrow> agent_run \<Rightarrow> agent_run option" where
  "main_step w a s =
     (case main_pc s of
        M_Boot \<Rightarrow> boot_step w (boot_deadline a) (boot_rounds a) s
      | M_Check \<Rightarrow> Some (check_step s)
      | M_Secret \<Rightarrow> Some (secret_step w (first_fault a) (second_fault a) s)
      | M_Seed \<Rightarrow> Some (seed_step w (first_fault a) s)
      | M_Spawn \<Rightarrow> Some (s\<lparr>watch_pc := W_Loop, main_pc := M_Auth\<rparr>)
      | M_Auth \<Rightarrow> Some (s\<lparr>main_pc := if shutdown_event s \<or> \<not> aw_pre_hook w then M_Guard else M_Authorizing\<rparr>)
      | M_Authorizing \<Rightarrow> Some (if a = Hook_Ok then s\<lparr>media_auth_started := True, main_pc := M_Guard\<rparr> else finish (s\<lparr>ar_raised := True\<rparr>))
      | M_Guard \<Rightarrow> Some (if shutdown_event s then finish s else s\<lparr>main_pc := M_Attempt\<rparr>)
      | M_Attempt \<Rightarrow> Some (s\<lparr>media_start_attempted := True, main_pc := M_Mark\<rparr>)
      | M_Mark \<Rightarrow> if media_stop_lock s \<noteq> None then None else Some (s\<lparr>media_started := True, main_pc := M_Starting\<rparr>)
      | M_Starting \<Rightarrow> Some (start_return (supervised a) s)
      | M_Started \<Rightarrow>
          if media_stop_lock s \<noteq> None then None
          else Some (s\<lparr>media_started := True, media_start_finished := True,
            main_pc := if media_stop_requested s \<or> shutdown_event s then M_Stop_Late else M_Loop\<rparr>)
      | M_Stop_Late \<Rightarrow> main_stop M_Stopping_Late M_Loop s
      | M_Stopping_Late \<Rightarrow> Some ((stop_return (supervised a) s)\<lparr>main_pc := M_Loop\<rparr>)
      | M_Loop \<Rightarrow> Some (if shutdown_event s then finish s else s\<lparr>main_pc := M_Beat\<rparr>)
      | M_Beat \<Rightarrow> Some (beat_step (aw_py_str w) (beat a) s)
      | M_Wait \<Rightarrow> Some (s\<lparr>main_pc := M_Loop\<rparr>)
      | M_Final \<Rightarrow> Some (s\<lparr>shutdown_event := True, main_pc := M_Stop1\<rparr>)
      | M_Stop1 \<Rightarrow> main_stop M_Stopping1 M_Join s
      | M_Stopping1 \<Rightarrow> Some ((stop_return (supervised a) s)\<lparr>main_pc := M_Join\<rparr>)
      | M_Join \<Rightarrow> Some (s\<lparr>main_pc := M_Stop2\<rparr>)
      | M_Stop2 \<Rightarrow> main_stop M_Stopping2 M_Verdict s
      | M_Stopping2 \<Rightarrow> Some ((stop_return (supervised a) s)\<lparr>main_pc := M_Verdict\<rparr>)
      | M_Verdict \<Rightarrow> Some (verdict_step s)
      | M_Cleanup \<Rightarrow> Some (cleanup_step w (a = Hook_Ok) s)
      | M_Remove \<Rightarrow>
          Some (if a = Hook_Raised then s\<lparr>ar_raised := True, main_pc := M_Done\<rparr>
                else s\<lparr>ar_files := remove_secret (secret_path s) (ar_files s), main_pc := M_Done\<rparr>)
      | M_Done \<Rightarrow> None)"

section \<open>Interleavings\<close>

text \<open>
  What can happen next.  Containers come up only while the supervisor is starting them; they can go down at any time.
\<close>

datatype agent_event = Main_Step answer | Watchdog_Step supervision | Signal | Clock_Reads json | Media_Up | Media_Down

fun agent_next :: "agent_world \<Rightarrow> agent_event \<Rightarrow> agent_run \<Rightarrow> agent_run option" where
  "agent_next w (Main_Step a) s = main_step w a s"
| "agent_next w (Watchdog_Step r) s = watchdog_step r s"
| "agent_next w Signal s = Some (s\<lparr>received_signal := True, shutdown_event := True\<rparr>)"
| "agent_next w (Clock_Reads t) s = Some (s\<lparr>wall_clock := t\<rparr>)"
| "agent_next w Media_Up s = (if main_pc s = M_Starting then Some (s\<lparr>media_running := True\<rparr>) else None)"
| "agent_next w Media_Down s = Some (s\<lparr>media_running := False\<rparr>)"

definition agent_start :: "string \<Rightarrow> files \<Rightarrow> file_state option \<Rightarrow> json \<Rightarrow> bool \<Rightarrow> agent_run" where
  "agent_start token fs control clock running =
     \<lparr>ar_agent = new_agent token, ar_files = fs, ar_control = control, stop_requested = False, received_signal = False,
      shutdown_event = False, media_stop_lock = None, media_stop_attempted = False, media_started = False,
      media_start_attempted = False, media_start_finished = False, media_stop_requested = False, media_stop_result = None,
      media_stop_error = False, ar_response = [], secret_path = False, media_auth_started = False, ar_exit_code = 0,
      ar_raised = False, main_pc = M_Boot, watch_pc = W_None, wall_clock = clock, media_running = running, raced = False\<rparr>"

inductive agent_reachable :: "agent_world \<Rightarrow> agent_run \<Rightarrow> bool" for w where
  start: "agent_reachable w (agent_start token fs control clock running)"
| step: "agent_reachable w s \<Longrightarrow> agent_next w e s = Some s' \<Longrightarrow> agent_reachable w s'"

fun agent_runs :: "agent_world \<Rightarrow> agent_event list \<Rightarrow> agent_run \<Rightarrow> agent_run option" where
  "agent_runs w [] s = Some s"
| "agent_runs w (e # es) s = (case agent_next w e s of None \<Rightarrow> None | Some s' \<Rightarrow> agent_runs w es s')"

lemma agent_runs_reachable: "agent_runs w es s = Some s' \<Longrightarrow> agent_reachable w s \<Longrightarrow> agent_reachable w s'"
  by (induction es arbitrary: s) (auto split: option.splits intro: agent_reachable.step)

section \<open>The protocol of the two threads\<close>

definition main_stopping :: "main_pc set" where
  "main_stopping = {M_Stopping_Late, M_Stopping1, M_Stopping2}"

definition before_start :: "main_pc set" where
  "before_start = {M_Boot, M_Check, M_Secret, M_Seed, M_Spawn, M_Auth, M_Authorizing, M_Guard, M_Attempt}"

definition finalizing :: "main_pc set" where
  "finalizing = {M_Stop1, M_Stopping1, M_Join, M_Stop2, M_Stopping2, M_Verdict, M_Cleanup, M_Remove, M_Done}"

definition unspawned :: "main_pc set" where
  "unspawned = {M_Boot, M_Check, M_Secret, M_Seed, M_Spawn}"

text \<open>Who holds the lock, and what an attempt means.\<close>

definition lock_inv :: "agent_run \<Rightarrow> bool" where
  "lock_inv s \<longleftrightarrow>
     (main_pc s \<in> unspawned \<longrightarrow> watch_pc s = W_None) \<and>
     (media_stop_lock s = Some Main \<longleftrightarrow> main_pc s \<in> main_stopping) \<and>
     (media_stop_lock s = Some Watchdog \<longleftrightarrow> watch_pc s = W_Stopping) \<and>
     (media_stop_result s = None \<longleftrightarrow> \<not> media_stop_attempted s \<or> media_stop_lock s \<noteq> None) \<and>
     (\<not> media_stop_attempted s \<longrightarrow> media_stop_lock s = None) \<and>
     (media_stop_attempted s \<longrightarrow> media_stop_requested s)"

text \<open>How far the start is, and that whoever stops has set the shutdown event.\<close>

definition start_inv :: "agent_run \<Rightarrow> bool" where
  "start_inv s \<longleftrightarrow>
     (main_pc s \<in> before_start \<longrightarrow> \<not> media_start_attempted s) \<and>
     (media_start_attempted s \<and> main_pc s \<notin> {M_Mark, M_Starting, M_Started} \<longrightarrow> media_start_finished s) \<and>
     (main_pc s = M_Starting \<and> media_stop_result s \<noteq> Some True \<longrightarrow> media_started s) \<and>
     (media_stop_requested s \<longrightarrow> shutdown_event s) \<and>
     (watch_pc s \<in> {W_Stop, W_Stopping, W_Done} \<longrightarrow> shutdown_event s) \<and>
     (main_pc s \<in> finalizing \<union> {M_Stop_Late, M_Stopping_Late} \<longrightarrow> shutdown_event s) \<and>
     (media_stop_attempted s \<and> watch_pc s \<in> {W_None, W_Loop, W_Stop} \<longrightarrow>
        main_pc s \<in> finalizing \<union> {M_Stopping_Late, M_Loop, M_Final})"

text \<open>What is known at the end.\<close>

definition final_inv :: "agent_run \<Rightarrow> bool" where
  "final_inv s \<longleftrightarrow>
     (main_pc s \<in> finalizing - {M_Stop1} \<longrightarrow>
        (media_stop_attempted s \<and> media_stop_lock s = None) \<or> media_stop_error s \<or> media_stop_lock s = Some Main) \<and>
     (main_pc s \<in> {M_Cleanup, M_Remove, M_Done} \<and> ar_exit_code s = 0 \<longrightarrow> media_stop_result s = Some True) \<and>
     (media_stop_result s = Some True \<and> main_pc s \<in> start_window \<longrightarrow> raced s) \<and>
     (media_stop_result s = Some True \<and> \<not> raced s \<longrightarrow> \<not> media_running s) \<and>
     (main_pc s \<in> {M_Boot, M_Check, M_Secret} \<longrightarrow> \<not> secret_path s) \<and>
     (main_pc s = M_Done \<and> secret_path s \<and> \<not> ar_raised s \<longrightarrow>
        ar_files s ''egress_url'' = None \<and> ar_files s ''egress_verified_peer_ip'' = None)"

lemmas pc_sets = unspawned_def start_window_def main_stopping_def before_start_def finalizing_def

lemmas main_defs = check_step_def secret_step_def seed_step_def beat_step_def start_return_def verdict_step_def
  cleanup_step_def main_stop_def stop_enter_def stop_return_def finish_def

text \<open>The early steps of the main thread change nothing that the protocol speaks of but the control point.\<close>

lemma boot_step_cases:
  "boot_step w d rounds s = Some s' \<Longrightarrow>
   (\<exists>ag. s' = s\<lparr>ar_agent := ag, ar_raised := True, main_pc := M_Final\<rparr>) \<or>
   (\<exists>ag response. s' = s\<lparr>ar_agent := ag, ar_response := response, main_pc := M_Check\<rparr>)"
  by (auto simp: boot_step_def finish_def split: prod.splits option.splits sum.splits)

lemma secret_step_cases:
  "(\<exists>fs. secret_step w f g s = s\<lparr>ar_files := fs, ar_raised := True, main_pc := M_Final\<rparr>) \<or>
   (\<exists>fs b. secret_step w f g s = s\<lparr>ar_files := fs, secret_path := b, main_pc := M_Seed\<rparr>)"
  by (auto simp: secret_step_def finish_def split: prod.splits sum.splits)

lemma seed_step_cases:
  "(\<exists>c. seed_step w f s = s\<lparr>ar_control := c, ar_raised := True, main_pc := M_Final\<rparr>) \<or>
   (\<exists>c. seed_step w f s = s\<lparr>ar_control := c, main_pc := M_Spawn\<rparr>)"
  by (auto simp: seed_step_def finish_def split: prod.splits sum.splits)

lemmas main_splits = prod.splits sum.splits supervision.splits beat_result.splits if_split_asm

lemma lock_inv_main:
  assumes "main_step w a s = Some s'" and "lock_inv s"
  shows "lock_inv s'"
proof (cases "main_pc s = M_Boot")
  case True
  with assms(1) have "boot_step w (boot_deadline a) (boot_rounds a) s = Some s'" by (simp add: main_step_def)
  from boot_step_cases [OF this] assms(2) True show ?thesis by (elim disjE exE) (simp_all add: lock_inv_def pc_sets)
next
  case False
  with assms show ?thesis unfolding main_step_def
    by (cases "main_pc s"; simp add: main_defs Let_def split: main_splits; (elim conjE)?; hypsubst?; simp add: lock_inv_def pc_sets)
qed

lemma start_inv_main:
  assumes "main_step w a s = Some s'" and "lock_inv s" and "start_inv s"
  shows "start_inv s'"
proof (cases "main_pc s = M_Boot")
  case True
  with assms(1) have "boot_step w (boot_deadline a) (boot_rounds a) s = Some s'" by (simp add: main_step_def)
  from boot_step_cases [OF this] assms(2,3) True show ?thesis by (elim disjE exE) (simp_all add: start_inv_def lock_inv_def pc_sets)
next
  case False
  with assms show ?thesis unfolding main_step_def
    by (cases "main_pc s"; simp add: main_defs Let_def split: main_splits; (elim conjE)?; hypsubst?;
        simp add: start_inv_def lock_inv_def pc_sets; blast?)
qed

lemma final_inv_main:
  assumes "main_step w a s = Some s'" and "lock_inv s" and "start_inv s" and "final_inv s"
  shows "final_inv s'"
proof (cases "main_pc s = M_Boot")
  case True
  with assms(1) have "boot_step w (boot_deadline a) (boot_rounds a) s = Some s'" by (simp add: main_step_def)
  from boot_step_cases [OF this] assms(2-4) True show ?thesis by (elim disjE exE) (simp_all add: final_inv_def start_inv_def lock_inv_def pc_sets)
next
  case False
  with assms show ?thesis unfolding main_step_def
    by (cases "main_pc s"; simp add: main_defs Let_def split: main_splits; (elim conjE)?; hypsubst?;
        simp add: final_inv_def start_inv_def lock_inv_def pc_sets remove_secret_def unlink_secrets_def; (metis (full_types))?)
qed

definition agent_inv :: "agent_run \<Rightarrow> bool" where
  "agent_inv s \<longleftrightarrow> lock_inv s \<and> start_inv s \<and> final_inv s"

lemma watchdog_holds:
  assumes "lock_inv s" and "watch_pc s = W_Stopping"
  shows "media_stop_lock s = Some Watchdog" "main_pc s \<notin> main_stopping" "media_stop_attempted s" "media_stop_requested s"
    "media_stop_result s = None"
  using assms by (auto simp: lock_inv_def)

lemma lock_inv_watchdog:
  assumes "watchdog_step r s = Some s'" and "lock_inv s"
  shows "lock_inv s'"
proof (cases "watch_pc s = W_Stopping")
  case True
  note held = watchdog_holds [OF assms(2) True]
  from True assms(1) have "s' = (stop_return r s)\<lparr>watch_pc := W_Done\<rparr>" by (simp add: watchdog_step_def)
  with held assms(2-) True show ?thesis by (cases r) (simp_all add: stop_return_def lock_inv_def pc_sets)
next
  case False
  with assms show ?thesis unfolding watchdog_step_def
    by (cases "watch_pc s"; simp add: stop_enter_def Let_def split: if_split_asm; (elim conjE)?; hypsubst?; simp add: lock_inv_def pc_sets)
qed

lemma start_inv_watchdog:
  assumes "watchdog_step r s = Some s'" and "lock_inv s" and "start_inv s"
  shows "start_inv s'"
proof (cases "watch_pc s = W_Stopping")
  case True
  note held = watchdog_holds [OF assms(2) True]
  from True assms(1) have "s' = (stop_return r s)\<lparr>watch_pc := W_Done\<rparr>" by (simp add: watchdog_step_def)
  with held assms(2-) True show ?thesis by (cases r) (simp_all add: stop_return_def start_inv_def lock_inv_def pc_sets)
next
  case False
  with assms show ?thesis unfolding watchdog_step_def
    by (cases "watch_pc s"; simp add: stop_enter_def Let_def split: if_split_asm; (elim conjE)?; hypsubst?; simp add: start_inv_def lock_inv_def pc_sets)
qed

lemma final_inv_watchdog:
  assumes "watchdog_step r s = Some s'" and "lock_inv s" and "final_inv s"
  shows "final_inv s'"
proof (cases "watch_pc s = W_Stopping")
  case True
  note held = watchdog_holds [OF assms(2) True]
  from True assms(1) have "s' = (stop_return r s)\<lparr>watch_pc := W_Done\<rparr>" by (simp add: watchdog_step_def)
  with held assms(2-) True show ?thesis by (cases r) (simp_all add: stop_return_def final_inv_def lock_inv_def pc_sets)
next
  case False
  with assms show ?thesis unfolding watchdog_step_def
    by (cases "watch_pc s"; simp add: stop_enter_def Let_def split: if_split_asm; (elim conjE)?; hypsubst?; simp add: final_inv_def lock_inv_def pc_sets)
qed

lemma agent_inv_next: "agent_next w e s = Some s' \<Longrightarrow> agent_inv s \<Longrightarrow> agent_inv s'"
proof (induction e)
  case (Main_Step a)
  then show ?case using lock_inv_main start_inv_main final_inv_main unfolding agent_inv_def agent_next.simps by blast
next
  case (Watchdog_Step r)
  then show ?case using lock_inv_watchdog start_inv_watchdog final_inv_watchdog unfolding agent_inv_def agent_next.simps by blast
next
  case Media_Up
  then have "main_pc s = M_Starting" "s' = s\<lparr>media_running := True\<rparr>" by (simp_all split: if_split_asm)
  with Media_Up.prems(2) show ?case by (simp add: agent_inv_def final_inv_def start_inv_def lock_inv_def pc_sets)
next
  case Signal
  then have "s' = s\<lparr>received_signal := True, shutdown_event := True\<rparr>" by simp
  with Signal.prems(2) show ?case unfolding agent_inv_def by (elim conjE, intro conjI) (simp_all add: final_inv_def start_inv_def lock_inv_def)
next
  case (Clock_Reads t)
  then have "s' = s\<lparr>wall_clock := t\<rparr>" by simp
  with Clock_Reads.prems(2) show ?case unfolding agent_inv_def by (elim conjE, intro conjI) (simp_all add: final_inv_def start_inv_def lock_inv_def)
next
  case Media_Down
  then have "s' = s\<lparr>media_running := False\<rparr>" by simp
  with Media_Down.prems(2) show ?case unfolding agent_inv_def by (elim conjE, intro conjI) (simp_all add: final_inv_def start_inv_def lock_inv_def)
qed

lemma agent_inv_reachable: "agent_reachable w s \<Longrightarrow> agent_inv s"
proof (induction rule: agent_reachable.induct)
  case start
  show ?case by (simp add: agent_inv_def final_inv_def start_inv_def lock_inv_def agent_start_def pc_sets)
next
  case (step s e s')
  then show ?case using agent_inv_next by blast
qed

section \<open>Ending\<close>

text \<open>A relay Node whose Session ends at time 100, and two of its runs.\<close>

definition demo_agent_world :: agent_world where
  "demo_agent_world = \<lparr>aw_py_str = (\<lambda>_. []), aw_ip_address = (\<lambda>_. Some \<lparr>is_unspecified = False, is_loopback = False, is_multicast = False,
     is_link_local = False\<rparr>), aw_uuid_ok = (\<lambda>_. True), aw_pre_hook = False, aw_post_hook = True\<rparr>"

definition demo_boot :: "string \<Rightarrow> answer" where
  "demo_boot mode = Boot_Rounds [(Http_Body (Some (Some (JObj [(''node_id'', JStr ''n''), (''session_id'', JStr ''s''),
     (''absolute_deadline'', JInt 100), (''egress_mode'', JStr mode), (''egress_url'', JStr ''rtmp://a/b''),
     (''egress_verified_peer_ip'', JStr ''192.0.2.1'')]))), 0)] 0"

definition demo_start :: agent_run where
  "demo_start = agent_start ''t'' (\<lambda>_. None) None (JInt 50) False"

definition up_to_start :: "string \<Rightarrow> agent_event list" where
  "up_to_start mode = Main_Step (demo_boot mode) # replicate 8 (Main_Step No_Answer)"

definition demo_clean :: "agent_event list" where
  "demo_clean = up_to_start ''DIRECT_PUSH'' @ [Media_Up, Main_Step (Supervised Sup_Ok), Main_Step No_Answer, Main_Step No_Answer,
     Main_Step (Beat (Inl ControlPlaneUnavailable)), Main_Step No_Answer, Signal, Main_Step No_Answer, Main_Step No_Answer,
     Main_Step No_Answer, Main_Step (Supervised Sup_Ok)] @ replicate 3 (Main_Step No_Answer) @ [Main_Step Hook_Ok, Main_Step No_Answer]"

definition run_outcome :: "agent_run \<Rightarrow> main_pc \<times> bool \<times> int \<times> bool \<times> bool \<times> bool \<times> bool option" where
  "run_outcome s = (main_pc s, ar_raised s, ar_exit_code s, secret_path s, media_running s, raced s, media_stop_result s)"

lemma demo_outcome:
  assumes "map_option run_outcome (agent_runs w es (agent_start t fs c k b)) = Some r"
  shows "\<exists>s. agent_reachable w s \<and> run_outcome s = r \<and> agent_runs w es (agent_start t fs c k b) = Some s"
  using assms agent_runs_reachable [OF _ agent_reachable.start] by auto

lemma demo_clean_run:
  "map_option run_outcome (agent_runs demo_agent_world demo_clean demo_start) = Some (M_Done, False, 0, True, False, False, Some True)"
  by code_simp

text \<open>C28. A Node agent that ends well leaves nothing behind, unless a stop overtook the start: when the run ends with code 0,
  the supervisor has confirmed a stop and the secret files it wrote are gone; and no container of the media stack is
  left running unless that stop was confirmed while the main thread was still on its way through the start.\<close>

theorem clean_exit_leaves_nothing:
  assumes "agent_reachable w s" and "main_pc s = M_Done" and "\<not> ar_raised s" and "ar_exit_code s = 0"
  shows "media_stop_result s = Some True \<and> (secret_path s \<longrightarrow> ar_files s ''egress_url'' = None \<and> ar_files s ''egress_verified_peer_ip'' = None) \<and>
    (media_running s \<longrightarrow> raced s)"
  using agent_inv_reachable [OF assms(1)] assms(2-4) by (simp add: agent_inv_def final_inv_def) blast

theorem clean_exit_leaves_nothing_witness:
  "\<exists>s. agent_runs demo_agent_world demo_clean demo_start = Some s \<and> main_pc s = M_Done \<and> secret_path s \<and> media_stop_result s = Some True \<and>
     ar_files s ''egress_url'' = None \<and> \<not> media_running s"
proof -
  obtain s where s: "agent_reachable demo_agent_world s" "run_outcome s = (M_Done, False, 0, True, False, False, Some True)"
    "agent_runs demo_agent_world demo_clean demo_start = Some s"
    using demo_outcome [OF demo_clean_run [unfolded demo_start_def]] unfolding demo_start_def by blast
  then show ?thesis using clean_exit_leaves_nothing [OF s(1)] by (simp add: run_outcome_def)
qed

definition demo_race :: "agent_event list" where
  "demo_race = up_to_start ''RELAY_ONLY'' @ [Clock_Reads (JInt 100), Watchdog_Step Sup_Ok, Watchdog_Step Sup_Ok, Watchdog_Step Sup_Ok, Media_Up,
     Main_Step (Supervised Sup_Ok)] @ replicate 8 (Main_Step No_Answer) @ [Main_Step Hook_Ok, Main_Step No_Answer]"


text \<open>C27. The watchdog does not depend on the heartbeat: wherever the main thread is held up by the control plane or by the
  supervisor, two steps of the watchdog alone after the deadline (or after the wall clock turned invalid) put it into the
  call that stops the media stack.\<close>

theorem watchdog_stops_media:
  assumes "agent_reachable w s" and "watch_pc s = W_Loop" and "deadline_reached (wall_clock s) (ar_agent s)"
    and "main_pc s \<in> {M_Authorizing, M_Starting, M_Beat, M_Wait}"
  shows "\<exists>s'. agent_runs w [Watchdog_Step r, Watchdog_Step r'] s = Some s' \<and> watch_pc s' = W_Stopping \<and>
    media_stop_lock s' = Some Watchdog \<and> shutdown_event s' \<and> main_pc s' = main_pc s"
  using agent_inv_reachable [OF assms(1)] assms(2-4) unfolding agent_inv_def
  by (elim conjE insertE emptyE) (simp_all add: start_inv_def lock_inv_def watchdog_step_def stop_enter_def Let_def pc_sets, blast+)

theorem watchdog_stops_media_witness:
  "\<exists>s s'. agent_runs demo_agent_world (up_to_start ''RELAY_ONLY'' @ [Clock_Reads (JInt 100)]) demo_start = Some s \<and> main_pc s = M_Starting \<and>
     agent_runs demo_agent_world [Watchdog_Step Sup_Ok, Watchdog_Step Sup_Ok] s = Some s' \<and> watch_pc s' = W_Stopping \<and> main_pc s' = M_Starting"
proof -
  let ?es = "up_to_start ''RELAY_ONLY'' @ [Clock_Reads (JInt 100)]"
  have "map_option (\<lambda>s. (main_pc s, watch_pc s, deadline_reached (wall_clock s) (ar_agent s))) (agent_runs demo_agent_world ?es demo_start) =
    Some (M_Starting, W_Loop, True)" by code_simp
  then obtain s where s: "agent_runs demo_agent_world ?es demo_start = Some s" "main_pc s = M_Starting" "watch_pc s = W_Loop"
    "deadline_reached (wall_clock s) (ar_agent s)" by auto
  have "agent_reachable demo_agent_world s" using s(1) agent_reachable.start unfolding demo_start_def by (rule agent_runs_reachable)
  from watchdog_stops_media [OF this s(3,4), of Sup_Ok Sup_Ok] s show ?thesis by auto
qed

end
