(* ===== verification/Node_Supervisor.thy ===== *)
theory Node_Supervisor
  imports Node_Run
begin

text \<open>
  The supervisor of the media stack (\<open>supervisor.py\<close>).  The docker command is an argument: what it returns for a
  command line, or \<open>None\<close> when it cannot be run or does not end in time.  The JSON reader is an argument too.
\<close>

section \<open>Running docker compose\<close>

record completed =
  returncode :: int
  out_text :: string
  err_text :: string

record supervision_result =
  sr_ok :: bool
  sr_detail :: string

text \<open>A command that fails to run counts as one that ended with 127; \<open>why\<close> is the text of the exception.\<close>

definition compose_run :: "string \<Rightarrow> completed option \<Rightarrow> completed" where
  "compose_run why r = (case r of Some c \<Rightarrow> c | None \<Rightarrow> \<lparr>returncode = 127, out_text = [], err_text = why\<rparr>)"

definition egress_gateway_enabled :: "string option \<Rightarrow> bool" where
  "egress_gateway_enabled configured =
     (py_lower (py_strip (case configured of None \<Rightarrow> ''1'' | Some s \<Rightarrow> s)) \<notin> {''0'', ''false'', ''no'', ''off''})"

definition services_for_mode :: "bool \<Rightarrow> string \<Rightarrow> string list" where
  "services_for_mode gateway egress_mode =
     [''mediamtx'', ''continuity''] @ (if egress_mode \<noteq> ''RELAY_ONLY'' \<and> gateway then [''egress-gateway''] else [])"

definition detail_or :: "completed \<Rightarrow> string \<Rightarrow> string" where
  "detail_or c otherwise = (let d = py_strip (err_text c) in if d = [] then otherwise else d)"

definition preflight :: "bool \<Rightarrow> string \<Rightarrow> completed \<Rightarrow> supervision_result" where
  "preflight is_file compose_file version =
     (if \<not> is_file then \<lparr>sr_ok = False, sr_detail = ''compose file is missing: '' @ compose_file\<rparr>
      else if returncode version \<noteq> 0 then \<lparr>sr_ok = False, sr_detail = detail_or version ''docker compose is unavailable''\<rparr>
      else \<lparr>sr_ok = True, sr_detail = ''compose preflight passed''\<rparr>)"

section \<open>Reading the state of the services\<close>

definition line_break :: "char \<Rightarrow> bool" where
  "line_break c \<longleftrightarrow> of_char c \<in> {0x0A, 0x0B, 0x0C, 0x0D, 0x1C, 0x1D, 0x1E, 0x85 :: nat}"

text \<open>\<open>str.splitlines\<close>: a carriage return and the line feed after it are one break, and no line follows the last break.\<close>

fun break_lines :: "string \<Rightarrow> string \<Rightarrow> string list" where
  "break_lines acc [] = (if acc = [] then [] else [rev acc])"
| "break_lines acc (c # cs) =
     (if line_break c
      then rev acc # break_lines [] (if c = CHR 0x0D \<and> cs \<noteq> [] \<and> hd cs = CHR 0x0A then tl cs else cs)
      else break_lines (c # acc) cs)"

definition splitlines :: "string \<Rightarrow> string list" where
  "splitlines s = break_lines [] s"

definition rows_of :: "json list \<Rightarrow> err + dict list" where
  "rows_of vs = from_some ValueError (those (map as_obj vs))"

definition parse_ps :: "(string \<Rightarrow> json option) \<Rightarrow> string \<Rightarrow> err + dict list" where
  "parse_ps loads out =
     (let payload = py_strip out in
      if payload = [] then Inr []
      else if starts_with ''['' payload
      then rbind (from_some ValueError (loads payload)) (\<lambda>v. rbind (from_some ValueError (as_list v)) rows_of)
      else rbind (from_some ValueError (those (map loads (splitlines payload)))) rows_of)"

definition stack_state :: "string \<Rightarrow> bool \<Rightarrow> dict" where
  "stack_state media ok = [(''media_stack'', JStr media), (''compose_ok'', JBool ok)]"

text \<open>The last row of a service counts, as in the dict that the code builds.\<close>

definition service_row :: "(json \<Rightarrow> string) \<Rightarrow> dict list \<Rightarrow> string \<Rightarrow> dict option" where
  "service_row py_str rows service =
     find (\<lambda>row. truthy (dget row ''Service'') \<and> py_text py_str (dget row ''Service'') = service) (rev rows)"

fun services_state :: "(json \<Rightarrow> string) \<Rightarrow> dict list \<Rightarrow> string" where
  "services_state py_str [] = ''running''"
| "services_state py_str (row # rows) =
     (let state = py_lower (py_text py_str (dget_or row ''State'' (JStr [])));
          health = py_lower (py_text py_str (dget_or row ''Health'' (JStr []))) in
      if state \<noteq> ''running'' then ''stopped''
      else if health \<notin> {'''', ''healthy''} then ''starting''
      else services_state py_str rows)"

definition health_from_ps :: "(json \<Rightarrow> string) \<Rightarrow> (string \<Rightarrow> json option) \<Rightarrow> string list \<Rightarrow> completed \<Rightarrow> dict" where
  "health_from_ps py_str loads required result =
     (if returncode result \<noteq> 0 then stack_state ''unknown'' False else
      case parse_ps loads (out_text result) of
        Inl _ \<Rightarrow> stack_state ''unknown'' False
      | Inr rows \<Rightarrow>
          (case those (map (service_row py_str rows) required) of
             None \<Rightarrow> stack_state ''stopped'' True
           | Some services \<Rightarrow> stack_state (services_state py_str services) True))"

section \<open>Starting and stopping\<close>

text \<open>
  The answers of one start: whether the compose file is there, the commands \<open>version\<close>, \<open>stop\<close> and
  \<open>start\<close>, and the rounds of the health wait, each a \<open>ps\<close> and a reading of the clock.
\<close>

record start_answers =
  sa_is_file :: bool
  sa_version :: completed
  sa_disabled :: completed
  sa_started :: completed
  sa_deadline :: rat
  sa_rounds :: "(completed \<times> rat) list"

fun await_running :: "(completed \<Rightarrow> dict) \<Rightarrow> rat \<Rightarrow> (completed \<times> rat) list \<Rightarrow> (supervision_result \<times> dict) option" where
  "await_running health deadline [] = None"
| "await_running health deadline ((ps, now) # rounds) =
     (if dget (health ps) ''media_stack'' = JStr ''running''
      then Some (\<lparr>sr_ok = True, sr_detail = ''required media services are running''\<rparr>, health ps)
      else if deadline \<le> now
      then Some (\<lparr>sr_ok = False, sr_detail = ''media services did not become ready: '' @
        (case as_str (dget (health ps) ''media_stack'') of Some s \<Rightarrow> s | None \<Rightarrow> [])\<rparr>, health ps)
      else await_running health deadline rounds)"

text \<open>The result, None while it waits, with the commands that were run, and the services required from then on.\<close>

definition supervisor_start ::
  "(json \<Rightarrow> string) \<Rightarrow> (string \<Rightarrow> json option) \<Rightarrow> string \<Rightarrow> bool \<Rightarrow> string \<Rightarrow> start_answers \<Rightarrow> string list \<Rightarrow>
     supervision_result option \<times> string list list \<times> string list"
where
  "supervisor_start py_str loads compose_file gateway egress_mode sa required0 =
     (let pre = preflight (sa_is_file sa) compose_file (sa_version sa);
          asked = (if sa_is_file sa then [[''version'']] else []) in
      if \<not> sr_ok pre then (Some pre, asked, required0) else
      let required = services_for_mode gateway egress_mode;
          disable = (if ''egress-gateway'' \<in> set required then [] else [[''stop'', ''egress-gateway'']]) in
      if disable \<noteq> [] \<and> returncode (sa_disabled sa) \<noteq> 0
      then (Some \<lparr>sr_ok = False, sr_detail = detail_or (sa_disabled sa) ''cannot stop disabled egress gateway''\<rparr>, asked @ disable, required)
      else
        let commands = asked @ disable @ [''start'' # required] in
        if returncode (sa_started sa) \<noteq> 0
        then (Some \<lparr>sr_ok = False, sr_detail = detail_or (sa_started sa) ''compose start failed''\<rparr>, commands, required)
        else (map_option fst (await_running (health_from_ps py_str loads required) (sa_deadline sa) (sa_rounds sa)), commands, required))"

fun stop_attempts :: "nat \<Rightarrow> string \<Rightarrow> completed list \<Rightarrow> supervision_result" where
  "stop_attempts 0 last_detail rs = \<lparr>sr_ok = False, sr_detail = last_detail\<rparr>"
| "stop_attempts (Suc n) last_detail [] = \<lparr>sr_ok = False, sr_detail = last_detail\<rparr>"
| "stop_attempts (Suc n) last_detail (r # rs) =
     (if returncode r = 0 then \<lparr>sr_ok = True, sr_detail = detail_or r ''media services stopped''\<rparr>
      else stop_attempts n (detail_or r last_detail) rs)"

definition supervisor_stop :: "completed list \<Rightarrow> supervision_result" where
  "supervisor_stop rs = stop_attempts 3 ''media services stop failed'' rs"

definition supervisor_health :: "(json \<Rightarrow> string) \<Rightarrow> (string \<Rightarrow> json option) \<Rightarrow> bool \<Rightarrow> string list \<Rightarrow> completed \<Rightarrow> dict" where
  "supervisor_health py_str loads is_file required ps =
     (if is_file then health_from_ps py_str loads required ps else stack_state ''unknown'' False)"

section \<open>The supervisor of dry runs\<close>

record fake_supervisor =
  started_sessions :: "string list"
  started_egress_modes :: "string list"
  stopped_sessions :: "string list"
  fake_running :: bool

definition fake_start :: "string \<Rightarrow> string \<Rightarrow> fake_supervisor \<Rightarrow> supervision_result \<times> fake_supervisor" where
  "fake_start session_id egress_mode s =
     (\<lparr>sr_ok = True, sr_detail = ''fake media stack started''\<rparr>,
      s\<lparr>started_sessions := started_sessions s @ [session_id], started_egress_modes := started_egress_modes s @ [egress_mode], fake_running := True\<rparr>)"

definition fake_stop :: "string \<Rightarrow> fake_supervisor \<Rightarrow> supervision_result \<times> fake_supervisor" where
  "fake_stop session_id s =
     (\<lparr>sr_ok = True, sr_detail = ''fake media stack stopped''\<rparr>, s\<lparr>stopped_sessions := stopped_sessions s @ [session_id], fake_running := False\<rparr>)"

definition fake_health :: "fake_supervisor \<Rightarrow> dict" where
  "fake_health s = stack_state (if fake_running s then ''running'' else ''stopped'') True"

section \<open>What a result means\<close>

definition service_up :: "(json \<Rightarrow> string) \<Rightarrow> dict \<Rightarrow> bool" where
  "service_up py_str row \<longleftrightarrow>
     py_lower (py_text py_str (dget_or row ''State'' (JStr []))) = ''running'' \<and>
     py_lower (py_text py_str (dget_or row ''Health'' (JStr []))) \<in> {'''', ''healthy''}"

lemma services_state_running: "services_state py_str rows = ''running'' \<longleftrightarrow> list_all (service_up py_str) rows"
  by (induction rows) (auto simp: Let_def service_up_def)

lemma stack_state_simps [simp]: "dget (stack_state m ok) ''media_stack'' = JStr m" "dget (stack_state m ok) ''compose_ok'' = JBool ok"
  by (simp_all add: stack_state_def dget_def)

lemma those_Some_iff: "those xs = Some ys \<longleftrightarrow> xs = map Some ys"
  by (induction xs arbitrary: ys) (auto split: option.splits)

lemma health_running_iff:
  "dget (health_from_ps py_str loads required ps) ''media_stack'' = JStr ''running'' \<longleftrightarrow>
   returncode ps = 0 \<and> (\<exists>rows. parse_ps loads (out_text ps) = Inr rows \<and>
     (\<forall>service \<in> set required. \<exists>row. service_row py_str rows service = Some row \<and> service_up py_str row))"
proof -
  have up: "(\<exists>services. those (map (service_row py_str rows) required) = Some services \<and> list_all (service_up py_str) services) \<longleftrightarrow>
    (\<forall>service \<in> set required. \<exists>row. service_row py_str rows service = Some row \<and> service_up py_str row)" for rows
  proof (induction required)
    case (Cons service services)
    then show ?case by (cases "service_row py_str rows service") auto
  qed simp
  show ?thesis unfolding up [symmetric] by (auto simp: health_from_ps_def services_state_running split: sum.splits option.splits)
qed

lemma await_running_ok:
  "await_running health deadline rounds = Some (r, d) \<Longrightarrow> sr_ok r \<longleftrightarrow> dget d ''media_stack'' = JStr ''running''"
  by (induction health deadline rounds rule: await_running.induct) (auto split: if_splits)

lemma await_running_ps: "await_running health deadline rounds = Some (r, d) \<Longrightarrow> \<exists>ps. ps \<in> fst ` set rounds \<and> d = health ps"
  by (induction health deadline rounds rule: await_running.induct) (auto split: if_splits)

text \<open>The wait ends at the first reading of the clock at or after its deadline.\<close>

lemma await_running_ends: "\<exists>r \<in> set rounds. deadline \<le> snd r \<Longrightarrow> await_running health deadline rounds \<noteq> None"
  by (induction rounds) (auto, fastforce)

lemma stop_attempts_ok: "sr_ok (stop_attempts n d rs) \<longleftrightarrow> (\<exists>r \<in> set (take n rs). returncode r = 0)"
  by (induction n d rs rule: stop_attempts.induct) auto

lemma supervisor_stop_ok: "sr_ok (supervisor_stop rs) \<longleftrightarrow> (\<exists>r \<in> set (take 3 rs). returncode r = 0)"
  by (simp add: supervisor_stop_def stop_attempts_ok)


definition demo_ok :: completed where
  "demo_ok = \<lparr>returncode = 0, out_text = [], err_text = []\<rparr>"

text \<open>A reader for the one answer of the run below: two rows on two lines.\<close>

definition demo_loads :: "string \<Rightarrow> json option" where
  "demo_loads line = (if line \<in> {''mediamtx'', ''continuity''}
     then Some (JObj [(''Service'', JStr line), (''State'', JStr ''running''), (''Health'', JStr ''healthy'')]) else None)"

definition demo_answers :: start_answers where
  "demo_answers = \<lparr>sa_is_file = True, sa_version = demo_ok, sa_disabled = demo_ok, sa_started = demo_ok, sa_deadline = 30,
     sa_rounds = [(demo_ok, 0), (\<lparr>returncode = 0, out_text = ''mediamtx'' @ [CHR 0x0A] @ ''continuity'', err_text = []\<rparr>, 1)]\<rparr>"


end
