(* ===== verification/Auth_Store.thy ===== *)
theory Auth_Store
  imports Destination_Secrets "HOL-Library.Product_Lexorder"
begin

text \<open>
  Users and their login sessions (\<open>auth_store.py\<close>) and the pruning of expired sessions (\<open>auth_session_gc.py\<close>).
  PBKDF2 is a parameter \<open>kdf\<close> of password and salt, the SHA-256 hex digest a parameter \<open>digest\<close>; random
  tokens, salts and UUIDs are arguments.  Bytes are numbers.
\<close>

section \<open>Password hashes\<close>

definition PBKDF2_SALT_BYTES :: nat where
  "PBKDF2_SALT_BYTES = 16"

definition PBKDF2_DIGEST_BYTES :: nat where
  "PBKDF2_DIGEST_BYTES = 32"

definition CSRF_TOKEN_LENGTH :: nat where
  "CSRF_TOKEN_LENGTH = (24 * 4 + 2) div 3"

definition TOKEN_URLSAFE_CHARS :: string where
  "TOKEN_URLSAFE_CHARS = ''ABCDEFGHIJKLMNOPQRSTUVWXYZabcdefghijklmnopqrstuvwxyz0123456789-_''"

definition hex_char :: "nat \<Rightarrow> char" where
  "hex_char n = ''0123456789abcdef'' ! n"

definition hex_nibble :: "char \<Rightarrow> nat option" where
  "hex_nibble c =
     (let n = of_char c in
      if 48 \<le> n \<and> n \<le> 57 then Some (n - 48) else if 97 \<le> n \<and> n \<le> 102 then Some (n - 87)
      else if 65 \<le> n \<and> n \<le> 70 then Some (n - 55) else None)"

text \<open>\<open>bytes.hex\<close> and \<open>bytes.fromhex\<close>; the latter skips white space between two bytes.\<close>

definition bytes_hex :: "nat list \<Rightarrow> string" where
  "bytes_hex bs = concat (map (\<lambda>b. [hex_char (b div 16), hex_char (b mod 16)]) bs)"

fun bytes_fromhex :: "string \<Rightarrow> nat list option" where
  "bytes_fromhex [] = Some []"
| "bytes_fromhex (c # cs) =
     (if is_ascii_space c then bytes_fromhex cs else
      case cs of
        [] \<Rightarrow> None
      | d # ds \<Rightarrow>
          (case (hex_nibble c, hex_nibble d) of
             (Some h, Some l) \<Rightarrow> map_option ((#) (16 * h + l)) (bytes_fromhex ds)
           | _ \<Rightarrow> None))"

definition parse_password_hash :: "string \<Rightarrow> (nat list \<times> nat list) option" where
  "parse_password_hash value =
     (case py_split (CHR ''$'') value of
        [algorithm, iterations_raw, salt_hex, digest_hex] \<Rightarrow>
          if algorithm \<noteq> ''pbkdf2_sha256'' \<or> iterations_raw \<noteq> ''260000'' then None
          else if length salt_hex \<noteq> PBKDF2_SALT_BYTES * 2 \<or> length digest_hex \<noteq> PBKDF2_DIGEST_BYTES * 2 then None
          else (case (bytes_fromhex salt_hex, bytes_fromhex digest_hex) of
                  (Some salt, Some digest) \<Rightarrow>
                    if length salt \<noteq> PBKDF2_SALT_BYTES \<or> length digest \<noteq> PBKDF2_DIGEST_BYTES then None else Some (salt, digest)
                | _ \<Rightarrow> None)
      | _ \<Rightarrow> None)"

definition hash_password :: "(string \<Rightarrow> nat list \<Rightarrow> nat list) \<Rightarrow> string \<Rightarrow> nat list \<Rightarrow> err + string" where
  "hash_password kdf password salt =
     rbind (require ValueError (length salt = PBKDF2_SALT_BYTES)) (\<lambda>_.
     Inr (''pbkdf2_sha256$260000$'' @ bytes_hex salt @ ''$'' @ bytes_hex (kdf password salt)))"

definition verify_password :: "(string \<Rightarrow> nat list \<Rightarrow> nat list) \<Rightarrow> string \<Rightarrow> string \<Rightarrow> bool" where
  "verify_password kdf password stored =
     (case parse_password_hash stored of
        None \<Rightarrow> False
      | Some (salt, expected) \<Rightarrow> kdf password salt = expected)"

section \<open>The user file\<close>

definition default_users :: dict where
  "default_users = [(''users'', JObj []), (''email_index'', JObj [])]"

definition default_auth_sessions :: dict where
  "default_auth_sessions = [(''sessions'', JObj [])]"

definition auth_string :: "dict \<Rightarrow> string \<Rightarrow> err + string" where
  "auth_string record field =
     (case as_str (dget record field) of Some s \<Rightarrow> if s = [] then Inl AuthStateError else Inr s | None \<Rightarrow> Inl AuthStateError)"

definition auth_number :: "dict \<Rightarrow> string \<Rightarrow> err + rat" where
  "auth_number record field = (case finite_argument (dget record field) of Inr x \<Rightarrow> Inr x | Inl _ \<Rightarrow> Inl AuthStateError)"

definition auth_clock_now :: "json \<Rightarrow> err + rat" where
  "auth_clock_now candidate =
     (case finite_argument candidate of
        Inr x \<Rightarrow> if x < 0 then Inl AuthStateError else Inr x
      | Inl _ \<Rightarrow> Inl AuthStateError)"

definition normalize_user_email :: "string \<Rightarrow> string" where
  "normalize_user_email email = py_lower (py_strip email)"

definition email_shape :: "string \<Rightarrow> bool" where
  "email_shape email \<longleftrightarrow> CHR ''@'' \<in> set email \<and> hd email \<noteq> CHR ''@'' \<and> last email \<noteq> CHR ''@''"

definition validate_user :: "dict \<Rightarrow> string \<Rightarrow> json \<Rightarrow> err + unit" where
  "validate_user email_index user_id value =
     rbind (from_some AuthStateError (as_obj value)) (\<lambda>item.
     rbind (require AuthStateError (user_id \<noteq> [])) (\<lambda>_.
     rbind (auth_string item ''id'') (\<lambda>stored_id.
     rbind (auth_string item ''email'') (\<lambda>email.
     rbind (auth_string item ''password_hash'') (\<lambda>password_hash.
     rbind (auth_string item ''role'') (\<lambda>role.
     rbind (require AuthStateError (role = py_strip role)) (\<lambda>_.
     rbind (auth_string item ''status'') (\<lambda>status.
     rbind (require AuthStateError (status = ''active'')) (\<lambda>_.
     rbind (auth_number item ''created_at'') (\<lambda>created_at.
     rbind (auth_number item ''updated_at'') (\<lambda>updated_at.
     rbind (require AuthStateError (0 \<le> created_at \<and> created_at \<le> updated_at)) (\<lambda>_.
     rbind (require AuthStateError (null_or_str (dget item ''display_name''))) (\<lambda>_.
     rbind (require AuthStateError (stored_id = user_id)) (\<lambda>_.
     rbind (require AuthStateError (normalize_user_email email = email \<and> email_shape email)) (\<lambda>_.
     rbind (require AuthStateError (parse_password_hash password_hash \<noteq> None)) (\<lambda>_.
     require AuthStateError (dget email_index email = JStr user_id)))))))))))))))))"

definition validate_index_entry :: "dict \<Rightarrow> string \<Rightarrow> json \<Rightarrow> err + unit" where
  "validate_index_entry users email value =
     rbind (from_some AuthStateError (as_str value)) (\<lambda>user_id.
     rbind (from_some AuthStateError (as_obj (dget users user_id))) (\<lambda>user.
     require AuthStateError (dget user ''email'' = JStr email)))"

definition validate_users :: "dict \<Rightarrow> bool" where
  "validate_users value =
     (case (as_obj (dget value ''users''), as_obj (dget value ''email_index'')) of
        (Some users, Some email_index) \<Rightarrow>
          list_all (\<lambda>(user_id, item). is_ok (validate_user email_index user_id item)) users \<and>
          list_all (\<lambda>(email, user_id). is_ok (validate_index_entry users email user_id)) email_index
      | _ \<Rightarrow> False)"

definition users_decode :: "json \<Rightarrow> dict option" where
  "users_decode raw = Option.bind (as_obj raw) (\<lambda>d. if validate_users d then Some d else None)"

section \<open>The session file\<close>

definition csrf_token_ok :: "string \<Rightarrow> bool" where
  "csrf_token_ok value \<longleftrightarrow> length value = CSRF_TOKEN_LENGTH \<and> set value \<subseteq> set TOKEN_URLSAFE_CHARS"

definition validate_auth_session :: "string \<Rightarrow> json \<Rightarrow> err + unit" where
  "validate_auth_session token_hash value =
     rbind (from_some AuthStateError (as_obj value)) (\<lambda>item.
     rbind (require AuthStateError (is_digest token_hash)) (\<lambda>_.
     rbind (auth_string item ''user_id'') (\<lambda>_.
     rbind (auth_string item ''csrf_token'') (\<lambda>csrf_token.
     rbind (require AuthStateError (csrf_token_ok csrf_token)) (\<lambda>_.
     rbind (auth_number item ''created_at'') (\<lambda>created_at.
     rbind (auth_number item ''expires_at'') (\<lambda>expires_at.
     require AuthStateError (0 \<le> created_at \<and> created_at \<le> expires_at))))))))"

definition validate_auth_sessions :: "dict \<Rightarrow> bool" where
  "validate_auth_sessions value =
     (case as_obj (dget value ''sessions'') of
        None \<Rightarrow> False
      | Some ss \<Rightarrow> list_all (\<lambda>(token_hash, item). is_ok (validate_auth_session token_hash item)) ss)"

definition auth_sessions_decode :: "json \<Rightarrow> dict option" where
  "auth_sessions_decode raw = Option.bind (as_obj raw) (\<lambda>d. if validate_auth_sessions d then Some d else None)"

section \<open>Operations on users\<close>

record auth_files =
  users_file :: authority
  auth_sessions_file :: authority

definition users_lock :: "(dict \<Rightarrow> err + ('r \<times> dict option)) \<Rightarrow> authority \<Rightarrow> (err + 'r) \<times> authority" where
  "users_lock body = auth_locked AuthStateError False default_users users_decode (\<lambda>d. Some (JObj d)) body"

definition auth_sessions_lock :: "(dict \<Rightarrow> err + ('r \<times> dict option)) \<Rightarrow> authority \<Rightarrow> (err + 'r) \<times> authority" where
  "auth_sessions_lock body = auth_locked AuthStateError False default_auth_sessions auth_sessions_decode (\<lambda>d. Some (JObj d)) body"

definition ensure_auth_file :: "dict \<Rightarrow> (json \<Rightarrow> dict option) \<Rightarrow> authority \<Rightarrow> (err + unit) \<times> authority" where
  "ensure_auth_file pristine decode fs =
     (if payload_file fs = Missing then
        if was_initialized fs then (Inl AuthStateError, fs)
        else auth_persist AuthStateError (\<lambda>d. Some (JObj d)) pristine fs
      else (case auth_load AuthStateError True pristine decode fs of (Inl e, fs) \<Rightarrow> (Inl e, fs) | (Inr _, fs) \<Rightarrow> (Inr (), fs)))"

definition ensure_auth_state :: "auth_files \<Rightarrow> (err + unit) \<times> auth_files" where
  "ensure_auth_state fs =
     (case ensure_auth_file default_users users_decode (users_file fs) of
        (Inl e, u) \<Rightarrow> (Inl e, fs\<lparr>users_file := u\<rparr>)
      | (Inr _, u) \<Rightarrow>
          (case ensure_auth_file default_auth_sessions auth_sessions_decode (auth_sessions_file fs) of
             (r, s) \<Rightarrow> (r, fs\<lparr>users_file := u, auth_sessions_file := s\<rparr>)))"

definition public_user :: "dict \<Rightarrow> dict" where
  "public_user user =
     [(''id'', dget user ''id''), (''email'', dget user ''email''), (''display_name'', dget user ''display_name''),
      (''role'', dget_or user ''role'' (JStr ''user'')), (''status'', dget_or user ''status'' (JStr ''active'')),
      (''created_at'', dget user ''created_at''), (''updated_at'', dget user ''updated_at'')]"

definition new_user :: "string \<Rightarrow> string \<Rightarrow> string \<Rightarrow> string option \<Rightarrow> rat \<Rightarrow> dict" where
  "new_user user_id email password_hash display_name now =
     [(''id'', JStr user_id), (''email'', JStr email), (''password_hash'', JStr password_hash), (''display_name'', jopt display_name),
      (''role'', JStr ''user''), (''status'', JStr ''active''), (''created_at'', JTime now), (''updated_at'', JTime now)]"

definition add_user :: "string \<Rightarrow> string \<Rightarrow> dict \<Rightarrow> dict \<Rightarrow> dict" where
  "add_user user_id email user users =
     dset (dset users ''users'' (JObj (dset (obj_of (dget users ''users'')) user_id (JObj user))))
       ''email_index'' (JObj (dset (obj_of (dget users ''email_index'')) email (JStr user_id)))"

definition register_body :: "string \<Rightarrow> string \<Rightarrow> string \<Rightarrow> string option \<Rightarrow> rat \<Rightarrow> dict \<Rightarrow> err + dict \<times> dict option" where
  "register_body uuid normalized password_hash display_name now users =
     (if dhas (obj_of (dget users ''email_index'')) normalized then Inl EmailAlreadyRegistered else
      let user = new_user uuid normalized password_hash display_name now in
      Inr (public_user user, Some (add_user uuid normalized user users)))"

definition register_user ::
  "(string \<Rightarrow> nat list \<Rightarrow> nat list) \<Rightarrow> json \<Rightarrow> nat list \<Rightarrow> string \<Rightarrow> string \<Rightarrow> string \<Rightarrow> string option \<Rightarrow> authority \<Rightarrow> (err + dict) \<times> authority"
where
  "register_user kdf clock salt uuid email password display_name fs =
     (let normalized = normalize_user_email email in
      case rbind (require AuthError (email_shape normalized)) (\<lambda>_.
           rbind (require AuthError (8 \<le> length password)) (\<lambda>_.
           rbind (auth_clock_now clock) (\<lambda>now.
           rbind (hash_password kdf password salt) (\<lambda>password_hash. Inr (now, password_hash))))) of
        Inl e \<Rightarrow> (Inl e, fs)
      | Inr (now, password_hash) \<Rightarrow> users_lock (register_body uuid normalized password_hash display_name now) fs)"

text \<open>\<open>dummy\<close> is the fixed hash that an unknown address is verified against.\<close>

definition lookup_user :: "dict \<Rightarrow> string \<Rightarrow> dict option" where
  "lookup_user users email =
     (case as_str (dget (obj_of (dget users ''email_index'')) email) of
        None \<Rightarrow> None
      | Some user_id \<Rightarrow> if user_id = [] then None else as_obj (dget (obj_of (dget users ''users'')) user_id))"

definition authenticate_user ::
  "(string \<Rightarrow> nat list \<Rightarrow> nat list) \<Rightarrow> string \<Rightarrow> string \<Rightarrow> string \<Rightarrow> authority \<Rightarrow> (err + dict) \<times> authority"
where
  "authenticate_user kdf dummy email password fs =
     (case users_lock (\<lambda>users. Inr (lookup_user users (normalize_user_email email), None)) fs of
        (Inl e, fs) \<Rightarrow> (Inl e, fs)
      | (Inr user, fs) \<Rightarrow>
          let stored_hash = (case user of Some u \<Rightarrow> (case as_str (dget u ''password_hash'') of Some h \<Rightarrow> h | None \<Rightarrow> []) | None \<Rightarrow> dummy);
              password_ok = verify_password kdf password stored_hash in
          (case user of
             None \<Rightarrow> (Inl InvalidCredentials, fs)
           | Some u \<Rightarrow>
               if \<not> password_ok \<or> dget u ''status'' \<noteq> JStr ''active'' then (Inl InvalidCredentials, fs)
               else (Inr (public_user u), fs)))"

definition get_user :: "string \<Rightarrow> authority \<Rightarrow> (err + dict option) \<times> authority" where
  "get_user user_id = users_lock (\<lambda>users.
     Inr (Option.bind (as_obj (dget (obj_of (dget users ''users'')) user_id)) (\<lambda>user. if user = [] then None else Some (public_user user)), None))"

section \<open>Operations on sessions\<close>

definition auth_session_record :: "string \<Rightarrow> string \<Rightarrow> rat \<Rightarrow> pyfloat \<Rightarrow> dict" where
  "auth_session_record user_id csrf_token now expires_at =
     [(''user_id'', JStr user_id), (''csrf_token'', JStr csrf_token), (''created_at'', JTime now), (''expires_at'', JFloat expires_at)]"

definition put_sessions :: "dict \<Rightarrow> dict \<Rightarrow> dict" where
  "put_sessions doc records = dset doc ''sessions'' (JObj records)"

definition session_records :: "dict \<Rightarrow> dict" where
  "session_records doc = obj_of (dget doc ''sessions'')"

text \<open>\<open>now + max(ttl, 0)\<close>: the sum of a float and an int, which must fit a float.\<close>

definition session_expiry :: "rat \<Rightarrow> int \<Rightarrow> err + pyfloat" where
  "session_expiry now ttl_seconds = (case float_of_int (max ttl_seconds 0) of None \<Rightarrow> Inl OverflowError | Some t \<Rightarrow> Inr (fadd (Fin now) t))"

definition create_session ::
  "(string \<Rightarrow> string) \<Rightarrow> json \<Rightarrow> string \<Rightarrow> string \<Rightarrow> string \<Rightarrow> int \<Rightarrow> authority \<Rightarrow> (err + dict) \<times> authority"
where
  "create_session digest clock token csrf_token user_id ttl_seconds fs =
     (case rbind (auth_clock_now clock) (\<lambda>now. rbind (session_expiry now ttl_seconds) (\<lambda>expires_at. Inr (now, expires_at))) of
        Inl e \<Rightarrow> (Inl e, fs)
      | Inr (now, expires_at) \<Rightarrow>
          auth_sessions_lock (\<lambda>doc.
            Inr ([(''token'', JStr token), (''csrf_token'', JStr csrf_token), (''expires_at'', JFloat expires_at)],
              Some (put_sessions doc (dset (session_records doc) (digest token)
                (JObj (auth_session_record user_id csrf_token now expires_at)))))) fs)"

text \<open>The record of an unexpired token.\<close>

definition live_session :: "(string \<Rightarrow> string) \<Rightarrow> rat \<Rightarrow> string \<Rightarrow> dict \<Rightarrow> dict option" where
  "live_session digest current token doc =
     (case as_obj (dget (session_records doc) (digest token)) of
        None \<Rightarrow> None
      | Some rec \<Rightarrow> (case finite_argument (dget rec ''expires_at'') of Inr x \<Rightarrow> if x \<le> current then None else Some rec | Inl _ \<Rightarrow> Some rec))"

definition get_session_user :: "(string \<Rightarrow> string) \<Rightarrow> json \<Rightarrow> string \<Rightarrow> auth_files \<Rightarrow> (err + dict option) \<times> auth_files" where
  "get_session_user digest clock token fs =
     (case auth_clock_now clock of
        Inl e \<Rightarrow> (Inl e, fs)
      | Inr current \<Rightarrow>
          (case auth_sessions_lock (\<lambda>doc. Inr (live_session digest current token doc, None)) (auth_sessions_file fs) of
             (Inl e, s) \<Rightarrow> (Inl e, fs\<lparr>auth_sessions_file := s\<rparr>)
           | (Inr None, s) \<Rightarrow> (Inr None, fs\<lparr>auth_sessions_file := s\<rparr>)
           | (Inr (Some rec), s) \<Rightarrow>
               let fs1 = fs\<lparr>auth_sessions_file := s\<rparr> in
               (case get_user (case as_str (dget rec ''user_id'') of Some u \<Rightarrow> u | None \<Rightarrow> []) (users_file fs1) of
                  (Inl e, u) \<Rightarrow> (Inl e, fs1\<lparr>users_file := u\<rparr>)
                | (Inr None, u) \<Rightarrow> (Inr None, fs1\<lparr>users_file := u\<rparr>)
                | (Inr (Some user), u) \<Rightarrow>
                    (Inr (if dget user ''status'' \<noteq> JStr ''active'' then None
                          else Some [(''user'', JObj user), (''csrf_token'', dget rec ''csrf_token'')]), fs1\<lparr>users_file := u\<rparr>))))"

definition revoke_auth_session :: "(string \<Rightarrow> string) \<Rightarrow> string \<Rightarrow> authority \<Rightarrow> (err + unit) \<times> authority" where
  "revoke_auth_session digest token = auth_sessions_lock (\<lambda>doc.
     if dhas (session_records doc) (digest token)
     then Inr ((), Some (put_sessions doc (dpop (session_records doc) (digest token)))) else Inr ((), None))"

section \<open>Pruning\<close>

record prune_result =
  pr_scanned :: nat
  pr_deleted :: nat
  pr_expired_remaining :: nat
  pr_dry_run :: bool

definition prune_now :: "json \<Rightarrow> err + rat" where
  "prune_now v =
     (case finite_argument v of Inr x \<Rightarrow> if x < 0 then Inl ValueError else Inr x | Inl _ \<Rightarrow> Inl ValueError)"

definition validated_max_deletions :: "json \<Rightarrow> err + nat" where
  "validated_max_deletions v =
     (case as_int v of Some n \<Rightarrow> if n \<le> 0 \<or> 10000 < n then Inl ValueError else Inr (nat n) | None \<Rightarrow> Inl ValueError)"

definition expiry_of :: "json \<Rightarrow> rat" where
  "expiry_of value = (case as_obj value of Some d \<Rightarrow> (case finite_argument (dget d ''expires_at'') of Inr x \<Rightarrow> x | Inl _ \<Rightarrow> 0) | None \<Rightarrow> 0)"

text \<open>\<open>heapq.nsmallest\<close> gives the first of the sorted pairs.\<close>

definition expired_token_hashes :: "dict \<Rightarrow> rat \<Rightarrow> nat \<Rightarrow> string list \<times> nat" where
  "expired_token_hashes doc now max_deletions =
     (let expired = map (\<lambda>(k, v). (expiry_of v, k)) (filter (\<lambda>(k, v). expiry_of v \<le> now) (session_records doc)) in
      (map snd (take max_deletions (sort expired)), length expired))"

definition prune_body :: "rat \<Rightarrow> nat \<Rightarrow> bool \<Rightarrow> dict \<Rightarrow> err + prune_result \<times> dict option" where
  "prune_body now limit dry_run doc =
     (let (selected, expired_count) = expired_token_hashes doc now limit;
          result = \<lparr>pr_scanned = length (session_records doc), pr_deleted = if dry_run then 0 else length selected,
            pr_expired_remaining = if dry_run then expired_count else expired_count - length selected, pr_dry_run = dry_run\<rparr> in
      if selected \<noteq> [] \<and> \<not> dry_run
      then Inr (result, Some (put_sessions doc (foldl dpop (session_records doc) selected)))
      else Inr (result, None))"

definition prune_expired_sessions :: "json \<Rightarrow> json \<Rightarrow> bool \<Rightarrow> authority \<Rightarrow> (err + prune_result) \<times> authority" where
  "prune_expired_sessions clock max_deletions dry_run fs =
     (case rbind (prune_now clock) (\<lambda>now. rbind (validated_max_deletions max_deletions) (\<lambda>limit. Inr (now, limit))) of
        Inl e \<Rightarrow> (Inl e, fs)
      | Inr (now, limit) \<Rightarrow> auth_sessions_lock (prune_body now limit dry_run) fs)"

section \<open>Hashes read back\<close>

lemma hex_char_nibble: "n < 16 \<Longrightarrow> hex_nibble (hex_char n) = Some n \<and> \<not> is_ascii_space (hex_char n) \<and> hex_char n \<noteq> CHR ''$''"
proof -
  have "\<forall>n \<in> set [0..<16]. hex_nibble (hex_char n) = Some n \<and> \<not> is_ascii_space (hex_char n) \<and> hex_char n \<noteq> CHR ''$''"
    by (simp add: upt_rec hex_char_def hex_nibble_def is_ascii_space_def)
  then show "n < 16 \<Longrightarrow> ?thesis" by simp
qed

lemma bytes_hex_roundtrip: "\<forall>b \<in> set bs. b < 256 \<Longrightarrow> bytes_fromhex (bytes_hex bs) = Some bs"
proof (induction bs)
  case (Cons b bs)
  then have "b div 16 < 16" "b mod 16 < 16" by auto
  with Cons show ?case using hex_char_nibble [of "b div 16"] hex_char_nibble [of "b mod 16"] by (simp add: bytes_hex_def)
qed (simp add: bytes_hex_def)

lemma length_bytes_hex [simp]: "length (bytes_hex bs) = 2 * length bs"
  by (induction bs) (simp_all add: bytes_hex_def)

lemma bytes_hex_plain: "\<forall>b \<in> set bs. b < 256 \<Longrightarrow> CHR ''$'' \<notin> set (bytes_hex bs)"
proof (induction bs)
  case (Cons b bs)
  then have "b div 16 < 16" "b mod 16 < 16" by auto
  with Cons show ?case using hex_char_nibble [of "b div 16"] hex_char_nibble [of "b mod 16"] by (auto simp: bytes_hex_def)
qed (simp add: bytes_hex_def)

lemma py_split_none: "c \<notin> set a \<Longrightarrow> py_split c a = [a]"
  by (induction a) auto

lemma py_split_cons: "c \<notin> set a \<Longrightarrow> py_split c (a @ c # b) = a # py_split c b"
  by (induction a) auto

definition kdf_ok :: "(string \<Rightarrow> nat list \<Rightarrow> nat list) \<Rightarrow> bool" where
  "kdf_ok kdf \<longleftrightarrow> (\<forall>p s. length (kdf p s) = PBKDF2_DIGEST_BYTES \<and> (\<forall>b \<in> set (kdf p s). b < 256))"

definition salt_ok :: "nat list \<Rightarrow> bool" where
  "salt_ok salt \<longleftrightarrow> length salt = PBKDF2_SALT_BYTES \<and> (\<forall>b \<in> set salt. b < 256)"

lemma password_hash_roundtrip:
  assumes "kdf_ok kdf" and "salt_ok salt" and "hash_password kdf password salt = Inr h"
  shows "parse_password_hash h = Some (salt, kdf password salt)" and "h \<noteq> []"
proof -
  have h: "h = ''pbkdf2_sha256'' @ CHR ''$'' # ''260000'' @ CHR ''$'' # bytes_hex salt @ CHR ''$'' # bytes_hex (kdf password salt)"
    using assms(3) by (simp add: hash_password_def rbind_eq_Inr)
  have "py_split (CHR ''$'') h = [''pbkdf2_sha256'', ''260000'', bytes_hex salt, bytes_hex (kdf password salt)]"
    unfolding h using assms(1,2) bytes_hex_plain [of salt] bytes_hex_plain [of "kdf password salt"]
    by (subst py_split_cons, simp, subst py_split_cons, simp, subst py_split_cons) (auto simp: py_split_none kdf_ok_def salt_ok_def)
  then show "parse_password_hash h = Some (salt, kdf password salt)"
    using assms(1,2) bytes_hex_roundtrip [of salt] bytes_hex_roundtrip [of "kdf password salt"]
    by (simp add: parse_password_hash_def kdf_ok_def salt_ok_def)
  show "h \<noteq> []" by (simp add: h)
qed

lemma verify_hashed:
  assumes "kdf_ok kdf" and "salt_ok salt" and "hash_password kdf password salt = Inr h"
  shows "verify_password kdf password' h \<longleftrightarrow> kdf password' salt = kdf password salt"
  using password_hash_roundtrip(1) [OF assms] by (simp add: verify_password_def)

section \<open>Addresses\<close>

lemma lower_char_space: "is_space (lower_char c) = is_space c" and lower_char_idem: "lower_char (lower_char c) = lower_char c"
proof -
  have "of_char (lower_char c) = (let n = of_char c :: nat in if 65 \<le> n \<and> n \<le> 90 \<or> 192 \<le> n \<and> n \<le> 222 \<and> n \<noteq> 215 then n + 32 else n)"
    by (auto simp: lower_char_def Let_def)
  then show "is_space (lower_char c) = is_space c" "lower_char (lower_char c) = lower_char c"
    by (auto simp: is_space_def lower_char_def Let_def split: if_splits)
qed

lemma dropWhile_lower: "dropWhile is_space (map lower_char s) = map lower_char (dropWhile is_space s)"
  by (induction s) (auto simp: lower_char_space)

lemma strip_lower: "py_strip (py_lower s) = py_lower (py_strip s)"
  by (simp add: py_strip_def strip_by_def py_lower_def dropWhile_lower rev_map)

lemma strip_by_idem: "strip_by P (strip_by P s) = strip_by P s"
proof -
  define t where "t = dropWhile P s"
  define r where "r = rev (dropWhile P (rev t))"
  have t: "t = r @ rev (takeWhile P (rev t))"
    unfolding r_def by (metis rev_append rev_rev_ident takeWhile_dropWhile_id)
  have "dropWhile P r = r"
  proof (cases r)
    case (Cons c r')
    then have "dropWhile P s = c # (r' @ rev (takeWhile P (rev t)))" using t unfolding t_def by simp
    then have "\<not> P c" by (metis hd_dropWhile list.discI list.sel(1))
    then show ?thesis using Cons by simp
  qed simp
  moreover have "rev r = dropWhile P (rev t)" by (simp add: r_def)
  ultimately show ?thesis unfolding strip_by_def by (simp add: t_def [symmetric] r_def [symmetric] dropWhile_idem)
qed

lemma normalize_idem [simp]: "normalize_user_email (normalize_user_email e) = normalize_user_email e"
proof -
  have "py_lower (py_lower s) = py_lower s" for s by (simp add: py_lower_def lower_char_idem)
  moreover have "py_strip (py_strip s) = py_strip s" for s by (simp add: py_strip_def strip_by_idem)
  ultimately show ?thesis by (simp add: normalize_user_email_def strip_lower)
qed

section \<open>The files stay readable\<close>

definition users_encode :: "dict \<Rightarrow> json option" where
  "users_encode d = (if validate_users d then Some (JObj d) else None)"

definition auth_sessions_encode :: "dict \<Rightarrow> json option" where
  "auth_sessions_encode d = (if validate_auth_sessions d then Some (JObj d) else None)"

interpretation us: authority_codec AuthStateError default_users users_decode users_encode id
  by unfold_locales (auto simp: users_encode_def users_decode_def split: if_splits)

interpretation au: authority_codec AuthStateError default_auth_sessions auth_sessions_decode auth_sessions_encode id
  by unfold_locales (auto simp: auth_sessions_encode_def auth_sessions_decode_def split: if_splits)

lemma users_contents_valid: "auth_contents default_users users_decode fs = Some m \<Longrightarrow> validate_users m"
  by (auto simp: auth_contents_def users_decode_def default_users_def validate_users_def dget_def split: reading.splits bind_splits if_splits)

lemma auth_sessions_contents_valid:
  "auth_contents default_auth_sessions auth_sessions_decode fs = Some m \<Longrightarrow> validate_auth_sessions m"
  by (auto simp: auth_contents_def auth_sessions_decode_def default_auth_sessions_def validate_auth_sessions_def dget_def
      split: reading.splits bind_splits if_splits)

lemma users_lock_validates:
  assumes "\<And>m r m'. auth_contents default_users users_decode fs = Some m \<Longrightarrow> body m = Inr (r, Some m') \<Longrightarrow> validate_users m'"
  shows "users_lock body fs = auth_locked AuthStateError False default_users users_decode users_encode body fs"
  unfolding users_lock_def by (rule auth_locked_encode_cong) (use assms in \<open>simp add: users_encode_def\<close>)

lemma auth_sessions_lock_validates:
  assumes "\<And>m r m'. auth_contents default_auth_sessions auth_sessions_decode fs = Some m \<Longrightarrow> body m = Inr (r, Some m') \<Longrightarrow>
    validate_auth_sessions m'"
  shows "auth_sessions_lock body fs =
    auth_locked AuthStateError False default_auth_sessions auth_sessions_decode auth_sessions_encode body fs"
  unfolding auth_sessions_lock_def by (rule auth_locked_encode_cong) (use assms in \<open>simp add: auth_sessions_encode_def\<close>)

abbreviation user_table :: "dict \<Rightarrow> dict" where
  "user_table m \<equiv> obj_of (dget m ''users'')"

abbreviation email_table :: "dict \<Rightarrow> dict" where
  "email_table m \<equiv> obj_of (dget m ''email_index'')"

lemma validate_users_iff:
  "validate_users m \<longleftrightarrow> (\<exists>users idx. dget m ''users'' = JObj users \<and> dget m ''email_index'' = JObj idx \<and>
     (\<forall>k v. (k, v) \<in> set users \<longrightarrow> is_ok (validate_user idx k v)) \<and> (\<forall>e v. (e, v) \<in> set idx \<longrightarrow> is_ok (validate_index_entry users e v)))"
  by (auto simp: validate_users_def list_all_iff split: option.splits)

lemma validate_user_index:
  "is_ok (validate_user idx k v) \<Longrightarrow> (\<And>e. dget idx e = JStr k \<Longrightarrow> dget idx' e = JStr k) \<Longrightarrow> is_ok (validate_user idx' k v)"
  by (auto simp: validate_user_def is_ok_rbind)

lemma new_user_valid:
  assumes "uuid \<noteq> []" and "normalize_user_email email = email" and "email_shape email" and "parse_password_hash h \<noteq> None" and "h \<noteq> []"
    and "0 \<le> now" and "dget idx email = JStr uuid"
  shows "is_ok (validate_user idx uuid (JObj (new_user uuid email h display_name now)))"
proof -
  have "email \<noteq> []" using assms(3) by (auto simp: email_shape_def)
  moreover have "py_strip ''user'' = ''user''" by (simp add: py_strip_def strip_by_def is_space_def)
  ultimately show ?thesis using assms
    by (cases display_name) (simp_all add: validate_user_def new_user_def auth_string_def auth_number_def dget_def finite_argument_def null_or_str_def)
qed

lemma add_user_valid:
  assumes m: "validate_users m" and fresh: "\<not> dhas (user_table m) uuid" "\<not> dhas (email_table m) email"
    and new: "is_ok (validate_user (dset (email_table m) email (JStr uuid)) uuid (JObj user))" "dget user ''email'' = JStr email"
  shows "validate_users (add_user uuid email user m)"
proof -
  from m obtain users idx where u: "dget m ''users'' = JObj users" "dget m ''email_index'' = JObj idx"
    "\<And>k v. (k, v) \<in> set users \<Longrightarrow> is_ok (validate_user idx k v)" "\<And>e v. (e, v) \<in> set idx \<Longrightarrow> is_ok (validate_index_entry users e v)"
    by (auto simp: validate_users_iff)
  have f: "map_of users uuid = None" "map_of idx email = None" using fresh u(1,2) by (simp_all add: dhas_def)
  let ?users = "dset users uuid (JObj user)" and ?idx = "dset idx email (JStr uuid)"
  have "is_ok (validate_user ?idx k v)" if "(k, v) \<in> set ?users" for k v
  proof (cases "(k, v) \<in> set users")
    case True
    show ?thesis by (rule validate_user_index [OF u(3) [OF True]]) (use f(2) in \<open>auto simp: dget_def\<close>)
  next
    case False
    then show ?thesis using that new(1) u(2) set_dset_subset [of users uuid "JObj user"] by auto
  qed
  moreover have "is_ok (validate_index_entry ?users e v)" if "(e, v) \<in> set ?idx" for e v
  proof (cases "(e, v) \<in> set idx")
    case True
    then obtain uid user0 where v: "v = JStr uid" "dget users uid = JObj user0" "dget user0 ''email'' = JStr e"
      using u(4) [OF True] by (auto simp: validate_index_entry_def is_ok_rbind)
    have "dget users uuid = JNull" using f(1) by (simp add: dget_def)
    then have "uid \<noteq> uuid" using v(2) by auto
    then show ?thesis using v by (simp add: validate_index_entry_def)
  next
    case False
    then show ?thesis using that new(2) set_dset_subset [of idx email "JStr uuid"] by (auto simp: validate_index_entry_def)
  qed
  moreover have "dget (add_user uuid email user m) ''users'' = JObj ?users" "dget (add_user uuid email user m) ''email_index'' = JObj ?idx"
    using u(1,2) by (simp_all add: add_user_def)
  ultimately show ?thesis unfolding validate_users_iff by blast
qed

section \<open>A registered user logs in\<close>

lemma register_cases:
  assumes "register_user kdf clock salt uuid email password display_name fs = (Inr pub, fs')"
  obtains now h where "0 \<le> now" "hash_password kdf password salt = Inr h" "email_shape (normalize_user_email email)"
    "users_lock (register_body uuid (normalize_user_email email) h display_name now) fs = (Inr pub, fs')"
proof -
  have "\<exists>now h. 0 \<le> now \<and> hash_password kdf password salt = Inr h \<and> email_shape (normalize_user_email email) \<and>
    users_lock (register_body uuid (normalize_user_email email) h display_name now) fs = (Inr pub, fs')"
    using assms by (auto simp: register_user_def Let_def rbind_eq_Inr auth_clock_now_def not_less split: sum.splits if_splits)
  then show ?thesis using that by blast
qed

lemma register_body_valid:
  assumes "validate_users m" and "\<not> dhas (user_table m) uuid" and "uuid \<noteq> []" and "0 \<le> now" and "email_shape email"
    and "normalize_user_email email = email" and "parse_password_hash h \<noteq> None" and "h \<noteq> []"
    and "register_body uuid email h display_name now m = Inr (r, Some m')"
  shows "validate_users m'"
proof -
  have "\<not> dhas (email_table m) email" "m' = add_user uuid email (new_user uuid email h display_name now) m"
    using assms(9) by (auto simp: register_body_def Let_def split: if_splits)
  moreover have "is_ok (validate_user (dset (email_table m) email (JStr uuid)) uuid (JObj (new_user uuid email h display_name now)))"
    using assms by (intro new_user_valid) simp_all
  moreover have "dget (new_user uuid email h display_name now) ''email'' = JStr email" by (simp add: new_user_def dget_def)
  ultimately show ?thesis using add_user_valid [OF assms(1,2)] by blast
qed

lemma register_lock:
  assumes "auth_contents default_users users_decode fs = Some m" and "\<not> dhas (user_table m) uuid" and "uuid \<noteq> []" and "0 \<le> now"
    and "email_shape (normalize_user_email email)" and "kdf_ok kdf" and "salt_ok salt" and "hash_password kdf password salt = Inr h"
  shows "users_lock (register_body uuid (normalize_user_email email) h display_name now) fs =
    auth_locked AuthStateError False default_users users_decode users_encode (register_body uuid (normalize_user_email email) h display_name now) fs"
proof (rule users_lock_validates)
  fix m0 r m'
  assume "auth_contents default_users users_decode fs = Some m0" and b: "register_body uuid (normalize_user_email email) h display_name now m0 = Inr (r, Some m')"
  then have "m0 = m" using assms(1) by simp
  moreover have "parse_password_hash h \<noteq> None" "h \<noteq> []" using password_hash_roundtrip [OF assms(6-8)] by simp_all
  ultimately show "validate_users m'"
    using register_body_valid [OF users_contents_valid [OF assms(1)] assms(2-5) normalize_idem] b by blast
qed

text \<open>The file holds this record for the address, and these ids are not in use.\<close>

definition account_held :: "string \<Rightarrow> dict \<Rightarrow> string set \<Rightarrow> authority \<Rightarrow> bool" where
  "account_held email user unused fs \<longleftrightarrow> marker fs \<noteq> OtherMarker \<and>
     (\<exists>m. auth_contents default_users users_decode fs = Some m \<and> lookup_user m email = Some user \<and> (\<forall>i \<in> unused. \<not> dhas (user_table m) i))"

lemma register_holds:
  assumes "register_user kdf clock salt uuid email password display_name fs = (Inr pub, fs')"
    and "marker fs \<noteq> OtherMarker" and "auth_contents default_users users_decode fs = Some m" and "\<not> dhas (user_table m) uuid" and "uuid \<noteq> []"
    and "kdf_ok kdf" and "salt_ok salt" and "\<forall>i \<in> unused. i \<noteq> uuid \<and> \<not> dhas (user_table m) i"
  shows "\<exists>user h. account_held (normalize_user_email email) user unused fs' \<and> pub = public_user user \<and> dget user ''status'' = JStr ''active'' \<and>
    dget user ''password_hash'' = JStr h \<and> hash_password kdf password salt = Inr h"
proof -
  obtain now h where r: "0 \<le> now" "hash_password kdf password salt = Inr h" "email_shape (normalize_user_email email)"
    "users_lock (register_body uuid (normalize_user_email email) h display_name now) fs = (Inr pub, fs')"
    using assms(1) by (rule register_cases)
  let ?body = "register_body uuid (normalize_user_email email) h display_name now"
  let ?user = "new_user uuid (normalize_user_email email) h display_name now"
  have call: "auth_locked AuthStateError False default_users users_decode users_encode ?body fs = (Inr pub, fs')"
    using register_lock [OF assms(3-5) r(1,3) assms(6,7) r(2)] r(4) by simp
  have mk: "marker fs' \<noteq> OtherMarker" using us.locked_keeps_marker [OF assms(2), of False ?body] call by simp
  have "\<exists>m'. ?body m = Inr (pub, Some m') \<and> auth_contents default_users users_decode fs' = Some m'"
    using us.locked_cases [OF assms(2,3), of ?body False] call by (auto simp: register_body_def Let_def split: if_splits)
  then obtain m' where m': "?body m = Inr (pub, Some m')" "auth_contents default_users users_decode fs' = Some m'" by blast
  then have "pub = public_user ?user" "lookup_user m' (normalize_user_email email) = Some ?user" "\<forall>i \<in> unused. \<not> dhas (user_table m') i"
    using assms(5,8) by (auto simp: register_body_def Let_def lookup_user_def add_user_def split: if_splits)
  then have "account_held (normalize_user_email email) ?user unused fs' \<and> pub = public_user ?user"
    using mk m'(2) by (simp add: account_held_def)
  then show ?thesis using r(2) by (auto simp: new_user_def dget_def intro!: exI [of _ ?user])
qed

lemma lookup_user_kept:
  assumes "lookup_user m email = Some user" and "\<not> dhas (user_table m) uuid"
    and "register_body uuid email' h display_name now m = Inr (r, Some m')"
  shows "lookup_user m' email = Some user" and "dhas (user_table m') i \<longleftrightarrow> i = uuid \<or> dhas (user_table m) i"
proof -
  have m': "m' = add_user uuid email' (new_user uuid email' h display_name now) m" and e': "\<not> dhas (email_table m) email'"
    using assms(3) by (auto simp: register_body_def Let_def split: if_splits)
  obtain uid where uid: "dget (email_table m) email = JStr uid" "uid \<noteq> []" "dget (user_table m) uid = JObj user"
    using assms(1) by (auto simp: lookup_user_def split: option.splits if_splits)
  have "email \<noteq> email'" using uid(1) e' by (auto simp: dget_def dhas_def)
  moreover have "uid \<noteq> uuid" using uid(3) assms(2) by (auto simp: dget_def dhas_def)
  ultimately show "lookup_user m' email = Some user" using uid by (simp add: m' lookup_user_def add_user_def)
  show "dhas (user_table m') i \<longleftrightarrow> i = uuid \<or> dhas (user_table m) i" by (simp add: m' add_user_def)
qed

text \<open>A run of registrations.\<close>

record registration =
  rg_clock :: json
  rg_salt :: "nat list"
  rg_uuid :: string
  rg_email :: string
  rg_password :: string
  rg_display_name :: "string option"

definition run_registration :: "(string \<Rightarrow> nat list \<Rightarrow> nat list) \<Rightarrow> registration \<Rightarrow> authority \<Rightarrow> (err + dict) \<times> authority" where
  "run_registration kdf g = register_user kdf (rg_clock g) (rg_salt g) (rg_uuid g) (rg_email g) (rg_password g) (rg_display_name g)"

primrec run_registrations :: "(string \<Rightarrow> nat list \<Rightarrow> nat list) \<Rightarrow> registration list \<Rightarrow> authority \<Rightarrow> authority" where
  "run_registrations kdf [] fs = fs"
| "run_registrations kdf (g # gs) fs = run_registrations kdf gs (snd (run_registration kdf g fs))"

text \<open>Identifiers are fresh and the salts are what the random source gives.\<close>

definition fresh_registrations :: "registration list \<Rightarrow> bool" where
  "fresh_registrations gs \<longleftrightarrow> distinct (map rg_uuid gs) \<and> (\<forall>g \<in> set gs. rg_uuid g \<noteq> [] \<and> salt_ok (rg_salt g))"

lemma registration_keeps:
  assumes "account_held email user (insert (rg_uuid g) unused) fs" and "rg_uuid g \<notin> unused" and "rg_uuid g \<noteq> []" and "salt_ok (rg_salt g)" and "kdf_ok kdf"
  shows "account_held email user unused (snd (run_registration kdf g fs))"
proof -
  obtain m where m: "marker fs \<noteq> OtherMarker" "auth_contents default_users users_decode fs = Some m" "lookup_user m email = Some user"
    "\<not> dhas (user_table m) (rg_uuid g)" "\<forall>i \<in> unused. \<not> dhas (user_table m) i"
    using assms(1) by (auto simp: account_held_def)
  show ?thesis
  proof (cases "email_shape (normalize_user_email (rg_email g)) \<and> 8 \<le> length (rg_password g) \<and> is_ok (auth_clock_now (rg_clock g))")
    case True
    then obtain now where now: "auth_clock_now (rg_clock g) = Inr now" "0 \<le> now" "email_shape (normalize_user_email (rg_email g))"
      by (auto simp: is_ok_iff auth_clock_now_def split: sum.splits if_splits)
    obtain h where h: "hash_password kdf (rg_password g) (rg_salt g) = Inr h" using assms(4) by (simp add: hash_password_def salt_ok_def)
    let ?body = "register_body (rg_uuid g) (normalize_user_email (rg_email g)) h (rg_display_name g) now"
    have run: "run_registration kdf g fs = auth_locked AuthStateError False default_users users_decode users_encode ?body fs"
      using True now h register_lock [OF m(2,4) assms(3) now(2,3) assms(5,4) h] by (simp add: run_registration_def register_user_def Let_def)
    obtain r fs' where call: "auth_locked AuthStateError False default_users users_decode users_encode ?body fs = (r, fs')" by fastforce
    have "marker fs' \<noteq> OtherMarker \<and> (\<exists>m'. auth_contents default_users users_decode fs' = Some m' \<and>
        (lookup_user m' email = Some user \<and> (\<forall>i \<in> unused. \<not> dhas (user_table m') i)))"
    proof (rule us.locked_rel [OF m(1,2) call])
      fix v n doc
      assume "?body m = Inr (v, Some n)"
      from lookup_user_kept [OF m(3,4) this] m(5) assms(2)
      show "lookup_user (id n) email = Some user \<and> (\<forall>i \<in> unused. \<not> dhas (user_table (id n)) i)" by auto
    qed (use m in simp)
    then show ?thesis using run call by (simp add: account_held_def)
  next
    case False
    then have "snd (run_registration kdf g fs) = fs"
      by (auto simp: run_registration_def register_user_def Let_def rbind_def require_def split: sum.splits)
    then show ?thesis using assms(1) by (auto simp: account_held_def)
  qed
qed

lemma registrations_keep:
  "account_held email user (rg_uuid ` set gs) fs \<Longrightarrow> fresh_registrations gs \<Longrightarrow> kdf_ok kdf \<Longrightarrow>
   account_held email user {} (run_registrations kdf gs fs)"
proof (induction gs arbitrary: fs)
  case (Cons g gs)
  then have "account_held email user (rg_uuid ` set gs) (snd (run_registration kdf g fs))"
    by (intro registration_keeps) (auto simp: fresh_registrations_def)
  then show ?case using Cons by (simp add: fresh_registrations_def)
qed simp

lemma authenticate_held:
  assumes "account_held (normalize_user_email email) user unused fs" and "dget user ''status'' = JStr ''active''" and "dget user ''password_hash'' = JStr h"
  shows "fst (authenticate_user kdf dummy email password fs) =
    (if verify_password kdf password h then Inr (public_user user) else Inl InvalidCredentials)"
proof -
  obtain m where m: "marker fs \<noteq> OtherMarker" "auth_contents default_users users_decode fs = Some m"
    "lookup_user m (normalize_user_email email) = Some user"
    using assms(1) by (auto simp: account_held_def)
  let ?body = "\<lambda>users. Inr (lookup_user users (normalize_user_email email), None)"
  have lock: "users_lock ?body fs = auth_locked AuthStateError False default_users users_decode users_encode ?body fs"
    by (rule users_lock_validates) simp
  obtain q fs' where call: "users_lock ?body fs = (q, fs')" by fastforce
  have "q = Inr (Some user)" using us.locked_reads [OF m(1,2) call [unfolded lock], of "Inr (Some user)"] m(3) by simp
  then show ?thesis using call assms(2,3) by (simp add: authenticate_user_def)
qed

text \<open>C35. A user who has registered logs in: after a registration, and after any later registrations of others, the address
  in any spelling with the same normal form and the password give back that user, and a password gives it exactly if
  its derived key is the one of the registration.\<close>

theorem registered_user_logs_in:
  assumes "register_user kdf clock salt uuid email password display_name fs = (Inr pub, fs')"
    and "marker fs \<noteq> OtherMarker" and "auth_contents default_users users_decode fs = Some m"
    and "fresh_registrations (g # gs)" and "g = \<lparr>rg_clock = clock, rg_salt = salt, rg_uuid = uuid, rg_email = email, rg_password = password,
      rg_display_name = display_name\<rparr>"
    and "\<forall>i \<in> rg_uuid ` set (g # gs). \<not> dhas (obj_of (dget m ''users'')) i" and "kdf_ok kdf"
    and "normalize_user_email email' = normalize_user_email email"
  shows "fst (authenticate_user kdf dummy email' password' (run_registrations kdf gs fs')) =
    (if kdf password' salt = kdf password salt then Inr pub else Inl InvalidCredentials)"
proof -
  have g: "\<not> dhas (user_table m) uuid" "uuid \<noteq> []" "salt_ok salt" "fresh_registrations gs"
    "\<forall>i \<in> rg_uuid ` set gs. i \<noteq> uuid \<and> \<not> dhas (user_table m) i"
    using assms(4-6) by (auto simp: fresh_registrations_def)
  obtain user h where u: "account_held (normalize_user_email email) user (rg_uuid ` set gs) fs'" "pub = public_user user"
    "dget user ''status'' = JStr ''active''" "dget user ''password_hash'' = JStr h" "hash_password kdf password salt = Inr h"
    using register_holds [OF assms(1-3) g(1,2) assms(7) g(3,5)] by blast
  from registrations_keep [OF u(1) g(4) assms(7)] have "account_held (normalize_user_email email') user {} (run_registrations kdf gs fs')"
    using assms(8) by simp
  from authenticate_held [OF this u(3,4), of kdf dummy password'] verify_hashed [OF assms(7) g(3) u(5), of password'] u(2)
  show ?thesis by simp
qed

definition demo_kdf :: "string \<Rightarrow> nat list \<Rightarrow> nat list" where
  "demo_kdf password salt = replicate 32 (length password mod 256)"

definition demo_registration :: "string \<Rightarrow> string \<Rightarrow> registration" where
  "demo_registration uuid email = \<lparr>rg_clock = JInt 5, rg_salt = replicate 16 7, rg_uuid = uuid, rg_email = email, rg_password = ''password1'',
     rg_display_name = None\<rparr>"

definition demo_account :: dict where
  "demo_account = [(''id'', JStr ''u1''), (''email'', JStr ''a@x''), (''display_name'', JNull), (''role'', JStr ''user''),
     (''status'', JStr ''active''), (''created_at'', JTime 5), (''updated_at'', JTime 5)]"

lemma demo_registered: "fst (run_registration demo_kdf (demo_registration ''u1'' '' A@x'') fresh_authority) = Inr demo_account"
  by code_simp

theorem registered_user_logs_in_witness:
  "fst (authenticate_user demo_kdf [] ''A@X '' ''password2'' (run_registrations demo_kdf [demo_registration ''u2'' ''b@x'']
     (snd (run_registration demo_kdf (demo_registration ''u1'' '' A@x'') fresh_authority)))) = Inr demo_account"
proof -
  let ?g = "demo_registration ''u1'' '' A@x''" and ?h = "demo_registration ''u2'' ''b@x''"
  let ?fs' = "snd (run_registration demo_kdf ?g fresh_authority)"
  have r: "register_user demo_kdf (JInt 5) (replicate 16 7) ''u1'' '' A@x'' ''password1'' None fresh_authority = (Inr demo_account, ?fs')"
    using demo_registered by (simp add: run_registration_def demo_registration_def prod_eq_iff)
  have c: "auth_contents default_users users_decode fresh_authority = Some default_users"
    by (simp add: auth_contents_def read_authority_def fresh_authority_def was_initialized_def)
  have f: "fresh_registrations [?g, ?h]"
    by (simp add: fresh_registrations_def demo_registration_def salt_ok_def PBKDF2_SALT_BYTES_def)
  have k: "kdf_ok demo_kdf" by (simp add: kdf_ok_def demo_kdf_def PBKDF2_DIGEST_BYTES_def)
  have n: "normalize_user_email ''A@X '' = normalize_user_email '' A@x''" by code_simp
  have d: "\<forall>i \<in> rg_uuid ` set [?g, ?h]. \<not> dhas (obj_of (dget default_users ''users'')) i"
    by (simp add: default_users_def dget_def dhas_def)
  have "marker fresh_authority \<noteq> OtherMarker" by (simp add: fresh_authority_def)
  from registered_user_logs_in [OF r this c f _ d k n, of "[]" "''password2''"]
  show ?thesis by (simp add: demo_registration_def demo_kdf_def)
qed

section \<open>Pruning is invisible\<close>

lemma session_keys_distinct:
  assumes "auth_contents default_auth_sessions auth_sessions_decode fs = Some doc"
  shows "distinct (map fst (session_records doc))"
proof (cases "read_authority fs")
  case (Loaded raw)
  then have "unique_keys (JObj doc)"
    using assms read_authority_unique [OF Loaded] by (cases raw) (auto simp: auth_contents_def auth_sessions_decode_def split: if_splits)
  moreover obtain ss where "dget doc ''sessions'' = JObj ss"
    using auth_sessions_contents_valid [OF assms] by (auto simp: validate_auth_sessions_def split: option.splits)
  ultimately show ?thesis by (auto simp: session_records_def dget_def list_all_iff dest!: map_of_SomeD split: option.splits)
qed (use assms in \<open>auto simp: auth_contents_def default_auth_sessions_def session_records_def dget_def\<close>)

lemma valid_sessionsD:
  "validate_auth_sessions doc \<Longrightarrow> (k, v) \<in> set (session_records doc) \<Longrightarrow> is_ok (validate_auth_session k v)"
  by (auto simp: validate_auth_sessions_def session_records_def list_all_iff split: option.splits)

lemma records_put [simp]: "session_records (put_sessions doc rs) = rs"
  by (simp add: session_records_def put_sessions_def)

lemma put_sessions_valid:
  "validate_auth_sessions doc \<Longrightarrow> set rs \<subseteq> set (session_records doc) \<Longrightarrow> validate_auth_sessions (put_sessions doc rs)"
  using valid_sessionsD [of doc] by (auto simp: put_sessions_def validate_auth_sessions_def [of "dset _ _ _"] list_all_iff)

lemma foldl_dpop:
  "map_of (foldl dpop d ks) k = (if k \<in> set ks then None else map_of d k)" "set (foldl dpop d ks) \<subseteq> set d"
proof (induction ks arbitrary: d)
  case (Cons c ks)
  { case 1 show ?case using Cons(1) [of "dpop d c"] by simp }
  { case 2 show ?case using Cons(2) [of "dpop d c"] by (auto simp: set_dpop) }
qed simp_all

lemma selected_is_expired:
  assumes "k \<in> set (fst (expired_token_hashes doc now n))"
  obtains v where "(k, v) \<in> set (session_records doc)" "expiry_of v \<le> now"
proof -
  have "k \<in> snd ` set (sort (map (\<lambda>(k, v). (expiry_of v, k)) (filter (\<lambda>(k, v). expiry_of v \<le> now) (session_records doc))))"
    using assms by (auto simp: expired_token_hashes_def Let_def simp del: set_sort dest!: in_set_takeD intro!: rev_image_eqI)
  then show ?thesis using that by auto
qed

lemma expired_not_live:
  assumes "is_ok (validate_auth_session k v)" and "expiry_of v \<le> t"
  shows "\<exists>rec x. v = JObj rec \<and> finite_argument (dget rec ''expires_at'') = Inr x \<and> x \<le> t"
proof -
  from assms(1) obtain rec y where v: "v = JObj rec" "auth_number rec ''expires_at'' = Inr y"
    by (auto simp: validate_auth_session_def is_ok_rbind)
  then have "finite_argument (dget rec ''expires_at'') = Inr y" by (simp add: auth_number_def split: sum.splits)
  then show ?thesis using v(1) assms(2) by (simp add: expiry_of_def)
qed

lemma pruned_live_session:
  assumes "validate_auth_sessions doc" and "distinct (map fst (session_records doc))" and "now \<le> t"
  shows "live_session digest t token (put_sessions doc (foldl dpop (session_records doc) (fst (expired_token_hashes doc now n)))) =
    live_session digest t token doc"
proof (cases "digest token \<in> set (fst (expired_token_hashes doc now n))")
  case True
  then obtain v where v: "(digest token, v) \<in> set (session_records doc)" "expiry_of v \<le> now" by (rule selected_is_expired)
  from expired_not_live [OF valid_sessionsD [OF assms(1) v(1)] v(2)] obtain rec x
    where "v = JObj rec" "finite_argument (dget rec ''expires_at'') = Inr x" "x \<le> now" by blast
  moreover have "map_of (session_records doc) (digest token) = Some v" using v(1) assms(2) by simp
  ultimately show ?thesis using True assms(3) by (simp add: live_session_def dget_def foldl_dpop)
qed (simp add: live_session_def dget_def foldl_dpop)

text \<open>What a reader of the session file gets.\<close>

lemma session_read:
  assumes "marker fs \<noteq> OtherMarker"
  shows "fst (auth_sessions_lock (\<lambda>doc. Inr (f doc, None)) fs) =
    (case auth_contents default_auth_sessions auth_sessions_decode fs of None \<Rightarrow> Inl AuthStateError | Some doc \<Rightarrow> Inr (f doc))"
proof -
  let ?body = "\<lambda>doc. Inr (f doc, None)"
  have lock: "auth_sessions_lock ?body fs =
      auth_locked AuthStateError False default_auth_sessions auth_sessions_decode auth_sessions_encode ?body fs"
    by (rule auth_sessions_lock_validates) simp
  show ?thesis
  proof (cases "auth_contents default_auth_sessions auth_sessions_decode fs")
    case None
    then show ?thesis using au.locked_unreadable [OF assms, of False ?body] lock by simp
  next
    case (Some doc)
    then show ?thesis using au.locked_cases [OF assms Some, of ?body False] lock by auto
  qed
qed

lemma session_user_reads:
  assumes "marker s \<noteq> OtherMarker" "marker s' \<noteq> OtherMarker"
    and "map_option (live_session digest t token) (auth_contents default_auth_sessions auth_sessions_decode s) =
      map_option (live_session digest t token) (auth_contents default_auth_sessions auth_sessions_decode s')"
  shows "fst (get_session_user digest (JFloat (Fin t)) token (fs\<lparr>auth_sessions_file := s\<rparr>)) =
    fst (get_session_user digest (JFloat (Fin t)) token (fs\<lparr>auth_sessions_file := s'\<rparr>))"
proof -
  let ?read = "auth_sessions_lock (\<lambda>doc. Inr (live_session digest t token doc, None))"
  have "fst (?read s) = fst (?read s')"
    using assms(3) unfolding session_read [OF assms(1)] session_read [OF assms(2)]
    by (cases "auth_contents default_auth_sessions auth_sessions_decode s'") (auto split: option.splits)
  then obtain q s1 s2 where q: "?read s = (q, s1)" "?read s' = (q, s2)" by (metis prod.collapse)
  then show ?thesis
  proof (cases q)
    case (Inr r)
    then show ?thesis using q by (cases r) (simp_all add: get_session_user_def Let_def auth_clock_now_def finite_argument_def split: sum.splits option.splits prod.splits)
  qed (simp add: get_session_user_def auth_clock_now_def finite_argument_def)
qed

lemma locked_unreadable_keeps:
  assumes "marker fs \<noteq> OtherMarker" "auth_contents default_auth_sessions auth_sessions_decode fs = None"
  shows "auth_contents default_auth_sessions auth_sessions_decode (snd (auth_sessions_lock body fs)) = None"
proof -
  obtain r fs1 where load: "auth_load AuthStateError False default_auth_sessions auth_sessions_decode fs = (r, fs1)" by fastforce
  then have "r = Inl AuthStateError" "auth_contents default_auth_sessions auth_sessions_decode fs1 = None"
    using au.load_contents [OF assms(1), of False] au.load_keeps_contents [of False fs] assms(2) by simp_all
  then show ?thesis using load by (simp add: auth_sessions_lock_def auth_locked_def)
qed

lemma prune_body_some:
  "prune_body now limit dry_run doc = Inr (r, Some doc') \<Longrightarrow>
   doc' = put_sessions doc (foldl dpop (session_records doc) (fst (expired_token_hashes doc now limit)))"
  by (auto simp: prune_body_def Let_def split: prod.splits if_splits)

lemma prune_lock:
  "auth_sessions_lock (prune_body now limit dry_run) fs =
   auth_locked AuthStateError False default_auth_sessions auth_sessions_decode auth_sessions_encode (prune_body now limit dry_run) fs"
proof (rule auth_sessions_lock_validates)
  fix m r m'
  assume "auth_contents default_auth_sessions auth_sessions_decode fs = Some m" and "prune_body now limit dry_run m = Inr (r, Some m')"
  then show "validate_auth_sessions m'"
    using put_sessions_valid [OF auth_sessions_contents_valid foldl_dpop(2)] prune_body_some by blast
qed

text \<open>Seen through the live sessions at a time \<open>t\<close>, the file is the same before and after.\<close>

lemma pruned_file:
  assumes "marker fs \<noteq> OtherMarker" and "now \<le> t"
  shows "marker (snd (auth_sessions_lock (prune_body now limit dry_run) fs)) \<noteq> OtherMarker \<and>
    map_option (live_session digest t token) (auth_contents default_auth_sessions auth_sessions_decode (snd (auth_sessions_lock (prune_body now limit dry_run) fs))) =
    map_option (live_session digest t token) (auth_contents default_auth_sessions auth_sessions_decode fs)"
proof (cases "auth_contents default_auth_sessions auth_sessions_decode fs")
  case None
  then show ?thesis using locked_unreadable_keeps [OF assms(1) None, of "prune_body now limit dry_run"]
      au.locked_keeps_marker [OF assms(1), of False "prune_body now limit dry_run"] by (simp add: prune_lock)
next
  case (Some doc)
  obtain r fs' where call: "auth_locked AuthStateError False default_auth_sessions auth_sessions_decode auth_sessions_encode
    (prune_body now limit dry_run) fs = (r, fs')" by fastforce
  have "marker fs' \<noteq> OtherMarker \<and> (\<exists>doc'. auth_contents default_auth_sessions auth_sessions_decode fs' = Some doc' \<and>
    live_session digest t token doc' = live_session digest t token doc)"
    by (rule au.locked_rel [OF assms(1) Some call]) (auto dest!: prune_body_some
        simp: pruned_live_session [OF auth_sessions_contents_valid [OF Some] session_keys_distinct [OF Some] assms(2)])
  then show ?thesis using Some call by (auto simp: prune_lock)
qed

lemma prune_report:
  "prune_body now limit dry_run doc = Inr (report, q) \<Longrightarrow> pr_deleted report \<le> limit \<and>
   pr_deleted report + pr_expired_remaining report = length (filter (\<lambda>(k, v). expiry_of v \<le> now) (session_records doc))"
  by (auto simp: prune_body_def expired_token_hashes_def Let_def split: if_splits)

lemma locked_report:
  assumes "marker fs \<noteq> OtherMarker" and "fst (auth_sessions_lock (prune_body now limit dry_run) fs) = Inr report"
  shows "\<exists>doc q. auth_contents default_auth_sessions auth_sessions_decode fs = Some doc \<and> prune_body now limit dry_run doc = Inr (report, q)"
proof (cases "auth_contents default_auth_sessions auth_sessions_decode fs")
  case None
  then show ?thesis using au.locked_unreadable [OF assms(1) None, of False "prune_body now limit dry_run"] assms(2) by (simp add: prune_lock)
next
  case (Some doc)
  then show ?thesis using au.locked_cases [OF assms(1) Some, of "prune_body now limit dry_run" False] assms(2) by (auto simp: prune_lock)
qed

lemma prune_cases:
  assumes "prune_expired_sessions (JFloat (Fin now)) (JInt m) dry_run fs = (r, fs')"
  obtains e where "r = Inl e" "fs' = fs"
  | "0 < m" "auth_sessions_lock (prune_body now (nat m) dry_run) fs = (r, fs')"
  using assms by (auto simp: prune_expired_sessions_def prune_now_def validated_max_deletions_def finite_argument_def rbind_def split: if_splits)

text \<open>C36. Pruning logs nobody out and stays within its budget: whatever the arguments and the state of the session file, from the time of
  the pruning on a token is answered exactly as if the run had not happened, and a run that reports has deleted at most the
  permitted number of records and says how many expired ones are left.\<close>

theorem pruning_is_invisible:
  assumes "marker (auth_sessions_file fs) \<noteq> OtherMarker" and "now \<le> t"
    and "prune_expired_sessions (JFloat (Fin now)) (JInt m) dry_run (auth_sessions_file fs) = (r, s')"
  shows "fst (get_session_user digest (JFloat (Fin t)) token (fs\<lparr>auth_sessions_file := s'\<rparr>)) =
      fst (get_session_user digest (JFloat (Fin t)) token fs) \<and>
    (case r of
       Inl _ \<Rightarrow> True
     | Inr report \<Rightarrow> \<exists>doc. auth_contents default_auth_sessions auth_sessions_decode (auth_sessions_file fs) = Some doc \<and>
         int (pr_deleted report) \<le> m \<and>
         pr_deleted report + pr_expired_remaining report = length (filter (\<lambda>(k, v). expiry_of v \<le> now) (session_records doc)))"
  using assms(3)
proof (cases rule: prune_cases)
  case 2
  have "fst (get_session_user digest (JFloat (Fin t)) token (fs\<lparr>auth_sessions_file := s'\<rparr>)) =
      fst (get_session_user digest (JFloat (Fin t)) token (fs\<lparr>auth_sessions_file := auth_sessions_file fs\<rparr>))"
    using pruned_file [OF assms(1,2), of "nat m" dry_run] 2(2) assms(1) by (intro session_user_reads) simp_all
  moreover have "\<exists>doc. auth_contents default_auth_sessions auth_sessions_decode (auth_sessions_file fs) = Some doc \<and> int (pr_deleted report) \<le> m \<and>
      pr_deleted report + pr_expired_remaining report = length (filter (\<lambda>(k, v). expiry_of v \<le> now) (session_records doc))" if "r = Inr report" for report
    using locked_report [OF assms(1), of now "nat m" dry_run report] 2 that prune_report by fastforce
  ultimately show ?thesis by (auto split: sum.splits)
qed simp

definition demo_session_file :: authority where
  "demo_session_file = snd (create_session (\<lambda>t. replicate 64 (CHR ''a'')) (JInt 5) ''token'' (replicate 32 (CHR ''c'')) ''u1'' 10 fresh_authority)"

definition demo_auth_files :: auth_files where
  "demo_auth_files = \<lparr>users_file = snd (run_registration demo_kdf (demo_registration ''u1'' '' A@x'') fresh_authority),
     auth_sessions_file = demo_session_file\<rparr>"

lemma demo_live: "fst (get_session_user (\<lambda>t. replicate 64 (CHR ''a'')) (JFloat (Fin 12)) ''token'' demo_auth_files) =
  Inr (Some [(''user'', JObj demo_account), (''csrf_token'', JStr (replicate 32 (CHR ''c'')))])"
  by code_simp

theorem pruning_is_invisible_witness:
  "fst (get_session_user (\<lambda>t. replicate 64 (CHR ''a'')) (JFloat (Fin 12)) ''token''
     (demo_auth_files\<lparr>auth_sessions_file := snd (prune_expired_sessions (JFloat (Fin 11)) (JInt 10) False demo_session_file)\<rparr>)) =
   Inr (Some [(''user'', JObj demo_account), (''csrf_token'', JStr (replicate 32 (CHR ''c'')))])"
proof -
  have "marker (auth_sessions_file demo_auth_files) \<noteq> OtherMarker" by code_simp
  moreover have "prune_expired_sessions (JFloat (Fin 11)) (JInt 10) False (auth_sessions_file demo_auth_files) =
    (fst (prune_expired_sessions (JFloat (Fin 11)) (JInt 10) False demo_session_file),
     snd (prune_expired_sessions (JFloat (Fin 11)) (JInt 10) False demo_session_file))" by (simp add: demo_auth_files_def)
  ultimately have "fst (get_session_user (\<lambda>t. replicate 64 (CHR ''a'')) (JFloat (Fin 12)) ''token''
     (demo_auth_files\<lparr>auth_sessions_file := snd (prune_expired_sessions (JFloat (Fin 11)) (JInt 10) False demo_session_file)\<rparr>)) =
     fst (get_session_user (\<lambda>t. replicate 64 (CHR ''a'')) (JFloat (Fin 12)) ''token'' demo_auth_files)"
    by (intro pruning_is_invisible [THEN conjunct1, of demo_auth_files 11 12 10 False])
      (simp_all add: prod_eq_iff)
  then show ?thesis using demo_live by simp
qed

end
