(* ===== verification/Asset_Processing.thy ===== *)
theory Asset_Processing
  imports Asset_Intent "HOL-Library.Word"
begin

unbundle bit_operations_syntax

text \<open>
  The metadata boundary of uploaded images (\<open>asset_processing.py\<close>): reading the dimensions out of PNG, JPEG and WebP
  headers, the limits on them, and the records of variants.  A payload is a list of bytes, and an access beyond its end is
  the value \<open>IndexError\<close>.  SHA-256 is a parameter; CRC-32 is written out on 32-bit words.
\<close>

section \<open>Bytes\<close>

type_synonym byte = "8 word"

datatype access_error = IndexError

definition MAX_IMAGE_BYTES :: nat where
  "MAX_IMAGE_BYTES = 32 * 1024 * 1024"

definition MAX_IMAGE_PIXELS :: nat where
  "MAX_IMAGE_PIXELS = 16 * 1024 * 1024"

definition ASSET_MAX_IMAGE_DIMENSION :: nat where
  "ASSET_MAX_IMAGE_DIMENSION = 16384"

definition byte_at :: "byte list \<Rightarrow> nat \<Rightarrow> access_error + byte" where
  "byte_at p i = (if i < length p then Inr (p ! i) else Inl IndexError)"

text \<open>\<open>p[a:b]\<close>, which is shorter at the end of the payload.\<close>

definition bytes_slice :: "byte list \<Rightarrow> nat \<Rightarrow> nat \<Rightarrow> byte list" where
  "bytes_slice p a b = take (b - a) (drop a p)"

definition big_endian :: "byte list \<Rightarrow> nat" where
  "big_endian bs = foldl (\<lambda>n b. 256 * n + unat b) 0 bs"

definition little_endian :: "byte list \<Rightarrow> nat" where
  "little_endian bs = big_endian (rev bs)"

definition ascii :: "string \<Rightarrow> byte list" where
  "ascii s = map (\<lambda>c. word_of_nat (of_char c)) s"

definition begins_with :: "byte list \<Rightarrow> byte list \<Rightarrow> bool" where
  "begins_with p prefix = (take (length prefix) p = prefix)"

section \<open>CRC-32\<close>

definition crc_bit :: "32 word \<Rightarrow> 32 word" where
  "crc_bit c = (if bit c 0 then 0xEDB88320 XOR drop_bit 1 c else drop_bit 1 c)"

definition crc_byte :: "32 word \<Rightarrow> byte \<Rightarrow> 32 word" where
  "crc_byte c b = (crc_bit ^^ 8) (c XOR ucast b)"

definition crc32 :: "byte list \<Rightarrow> 32 word" where
  "crc32 bs = 0xFFFFFFFF XOR foldl crc_byte 0xFFFFFFFF bs"

section \<open>PNG\<close>

definition PNG_MAGIC :: "byte list" where
  "PNG_MAGIC = [0x89, 0x50, 0x4E, 0x47, 0x0D, 0x0A, 0x1A, 0x0A]"

definition allowed_depths :: "byte \<Rightarrow> byte list" where
  "allowed_depths color_type =
     (if color_type = 0 then [1, 2, 4, 8, 16] else if color_type = 2 then [8, 16] else if color_type = 3 then [1, 2, 4, 8]
      else if color_type = 4 then [8, 16] else if color_type = 6 then [8, 16] else [])"

definition png_dimensions :: "byte list \<Rightarrow> access_error + (nat \<times> nat) option" where
  "png_dimensions p =
     (if length p < 33 \<or> \<not> begins_with p PNG_MAGIC then Inr None
      else if bytes_slice p 8 12 \<noteq> [0, 0, 0, 13] \<or> bytes_slice p 12 16 \<noteq> ascii ''IHDR'' then Inr None
      else
        let ihdr = bytes_slice p 16 29 in
        if unat (crc32 (ascii ''IHDR'' @ ihdr)) \<noteq> big_endian (bytes_slice p 29 33) then Inr None else
        rbind (byte_at ihdr 8) (\<lambda>bit_depth.
        rbind (byte_at ihdr 9) (\<lambda>color_type.
        rbind (byte_at ihdr 10) (\<lambda>compression.
        rbind (byte_at ihdr 11) (\<lambda>filter_method.
        rbind (byte_at ihdr 12) (\<lambda>interlace.
        Inr (if bit_depth \<notin> set (allowed_depths color_type) then None
             else if compression \<noteq> 0 \<or> filter_method \<noteq> 0 \<or> interlace \<notin> {0, 1} then None
             else Some (big_endian (bytes_slice ihdr 0 4), big_endian (bytes_slice ihdr 4 8)))))))))"

section \<open>JPEG\<close>

definition JPEG_SOF_MARKERS :: "byte list" where
  "JPEG_SOF_MARKERS = [0xC0, 0xC1, 0xC2, 0xC3, 0xC5, 0xC6, 0xC7, 0xC9, 0xCA, 0xCB, 0xCD, 0xCE, 0xCF]"

text \<open>The fill bytes before a marker.\<close>

function skip_fill :: "byte list \<Rightarrow> nat \<Rightarrow> nat" where
  "skip_fill p offset = (if offset < length p \<and> p ! offset = 0xFF then skip_fill p (offset + 1) else offset)"

  by pat_completeness auto
termination
  by (relation "measure (\<lambda>(p, offset). length p - offset)") auto

declare skip_fill.simps [simp del]

definition frame_dimensions :: "byte list \<Rightarrow> nat \<Rightarrow> nat \<Rightarrow> access_error + (nat \<times> nat) option" where
  "frame_dimensions p offset segment_length =
     (if segment_length < 11 then Inr None else
      rbind (byte_at p (offset + 2)) (\<lambda>precision.
      let height = big_endian (bytes_slice p (offset + 3) (offset + 5)); width = big_endian (bytes_slice p (offset + 5) (offset + 7)) in
      rbind (byte_at p (offset + 7)) (\<lambda>component_count.
      Inr (if precision = 0 \<or> 16 < precision \<or> component_count = 0 then None
           else if segment_length \<noteq> 8 + 3 * unat component_count then None
           else Some (width, height)))))"

lemma skip_fill_ge: "offset \<le> skip_fill p offset"
  by (induction p offset rule: skip_fill.induct) (subst skip_fill.simps, auto)

text \<open>One pass of the loop at an offset: the end, a frame header, or the offset of the next pass.\<close>

datatype jpeg_step = Jpeg_End | Jpeg_Frame nat nat | Jpeg_Next nat

definition jpeg_segment :: "byte list \<Rightarrow> byte \<Rightarrow> nat \<Rightarrow> jpeg_step" where
  "jpeg_segment p mk offset =
     (if length p < offset + 2 then Jpeg_End else
      let segment_length = big_endian (bytes_slice p offset (offset + 2)) in
      if segment_length < 2 then Jpeg_End
      else if length p < offset + segment_length then Jpeg_End
      else if mk \<in> set JPEG_SOF_MARKERS then Jpeg_Frame offset segment_length
      else Jpeg_Next (offset + segment_length))"

definition jpeg_marker :: "byte list \<Rightarrow> nat \<Rightarrow> jpeg_step" where
  "jpeg_marker p offset =
     (if length p \<le> offset \<or> p ! offset \<noteq> 0xFF then Jpeg_End else
      let pos = skip_fill p offset in
      if length p \<le> pos then Jpeg_End else
      let mk = p ! pos in
      if mk = 0x00 then Jpeg_End
      else if mk = 0xD8 then Jpeg_Next (pos + 1)
      else if mk \<in> {0xD9, 0xDA} then Jpeg_End
      else if mk = 0x01 \<or> 0xD0 \<le> mk \<and> mk \<le> 0xD7 then Jpeg_Next (pos + 1)
      else jpeg_segment p mk (pos + 1))"

lemma jpeg_segment_bounds:
  "jpeg_segment p mk offset = Jpeg_Next o' \<Longrightarrow> offset < o'"
  "jpeg_segment p mk offset = Jpeg_Frame o' n \<Longrightarrow> o' + n \<le> length p"
  by (auto simp: jpeg_segment_def Let_def split: if_splits)

lemma jpeg_marker_bounds:
  "jpeg_marker p offset = Jpeg_Next o' \<Longrightarrow> offset < length p \<and> offset < o'"
  "jpeg_marker p offset = Jpeg_Frame o' n \<Longrightarrow> o' + n \<le> length p"
  using skip_fill_ge [of offset p]
  by (auto simp: jpeg_marker_def Let_def dest!: jpeg_segment_bounds split: if_splits)

function jpeg_scan :: "byte list \<Rightarrow> nat \<Rightarrow> access_error + (nat \<times> nat) option" where
  "jpeg_scan p offset =
     (case jpeg_marker p offset of
        Jpeg_End \<Rightarrow> Inr None
      | Jpeg_Frame o' segment_length \<Rightarrow> frame_dimensions p o' segment_length
      | Jpeg_Next o' \<Rightarrow> jpeg_scan p o')"
  by pat_completeness auto
termination
  by (relation "measure (\<lambda>(p, offset). length p - offset)") (auto dest: jpeg_marker_bounds)

declare jpeg_scan.simps [simp del]

definition jpeg_dimensions :: "byte list \<Rightarrow> access_error + (nat \<times> nat) option" where
  "jpeg_dimensions p = (if length p < 4 \<or> \<not> begins_with p [0xFF, 0xD8] then Inr None else jpeg_scan p 2)"

section \<open>WebP\<close>

definition webp_dimensions :: "byte list \<Rightarrow> nat \<Rightarrow> access_error + (nat \<times> nat) option" where
  "webp_dimensions p file_size =
     (if length p < 20 \<or> bytes_slice p 0 4 \<noteq> ascii ''RIFF'' \<or> bytes_slice p 8 12 \<noteq> ascii ''WEBP'' then Inr None
      else if little_endian (bytes_slice p 4 8) + 8 \<noteq> file_size then Inr None
      else
        let chunk_type = bytes_slice p 12 16; chunk_size = little_endian (bytes_slice p 16 20) in
        if file_size < 20 + (chunk_size + chunk_size mod 2) then Inr None
        else if chunk_type = ascii ''VP8X'' then
          Inr (if chunk_size \<noteq> 10 \<or> length p < 30 then None
               else Some (1 + little_endian (bytes_slice p 24 27), 1 + little_endian (bytes_slice p 27 30)))
        else if chunk_type = ascii ''VP8L'' then
          if chunk_size < 5 \<or> length p < 25 then Inr None else
          rbind (byte_at p 20) (\<lambda>signature.
          if signature \<noteq> 0x2F then Inr None else
          rbind (byte_at p 21) (\<lambda>b1. rbind (byte_at p 22) (\<lambda>b2. rbind (byte_at p 23) (\<lambda>b3. rbind (byte_at p 24) (\<lambda>b4.
          Inr (Some (1 + unat b1 + unat (b2 AND 0x3F) * 2 ^ 8,
                     1 + unat (b2 AND 0xC0) div 2 ^ 6 + unat b3 * 2 ^ 2 + unat (b4 AND 0x0F) * 2 ^ 10)))))))
        else if chunk_type = ascii ''VP8 '' then
          Inr (if chunk_size < 10 \<or> length p < 30 \<or> bytes_slice p 23 26 \<noteq> [0x9D, 0x01, 0x2A] then None
               else Some (little_endian (bytes_slice p 26 28) mod 2 ^ 14, little_endian (bytes_slice p 28 30) mod 2 ^ 14))
        else Inr None)"

section \<open>The image\<close>

definition image_type :: "byte list \<Rightarrow> string option" where
  "image_type p =
     (if begins_with p PNG_MAGIC then Some ''image/png''
      else if begins_with p [0xFF, 0xD8] then Some ''image/jpeg''
      else if bytes_slice p 0 4 = ascii ''RIFF'' \<and> bytes_slice p 8 12 = ascii ''WEBP'' then Some ''image/webp'' else None)"

definition image_dimensions :: "byte list \<Rightarrow> access_error + (nat \<times> nat) option" where
  "image_dimensions p =
     (if MAX_IMAGE_BYTES < length p then Inr None
      else if begins_with p PNG_MAGIC then png_dimensions p
      else if begins_with p [0xFF, 0xD8] then jpeg_dimensions p
      else if bytes_slice p 0 4 = ascii ''RIFF'' \<and> bytes_slice p 8 12 = ascii ''WEBP'' then webp_dimensions p (length p)
      else Inr None)"

record image_blob =
  ib_content_type :: string
  ib_width :: nat
  ib_height :: nat
  ib_size_bytes :: nat
  ib_sha256 :: string

text \<open>\<open>payload\<close> is None when it is not a bytes object; an access error would pass through.\<close>

definition normalize_image_blob :: "(byte list \<Rightarrow> string) \<Rightarrow> byte list option \<Rightarrow> access_error + (err + image_blob)" where
  "normalize_image_blob sha256 payload =
     (case payload of
        None \<Rightarrow> Inr (Inl AssetProcessingError)
      | Some data \<Rightarrow>
          if data = [] \<or> MAX_IMAGE_BYTES < length data then Inr (Inl AssetProcessingError) else
          (case image_type data of
             None \<Rightarrow> Inr (Inl AssetProcessingError)
           | Some content_type \<Rightarrow>
               rbind (image_dimensions data) (\<lambda>dimensions.
               Inr (case dimensions of
                      None \<Rightarrow> Inl AssetProcessingError
                    | Some (width, height) \<Rightarrow>
                        if width = 0 \<or> height = 0 then Inl AssetProcessingError
                        else if ASSET_MAX_IMAGE_DIMENSION < width \<or> ASSET_MAX_IMAGE_DIMENSION < height then Inl AssetProcessingError
                        else if MAX_IMAGE_PIXELS div height < width then Inl AssetProcessingError
                        else Inr \<lparr>ib_content_type = content_type, ib_width = width, ib_height = height, ib_size_bytes = length data,
                          ib_sha256 = sha256 data\<rparr>))))"

section \<open>Variants\<close>

definition PROCESSING_STATUSES :: "string list" where
  "PROCESSING_STATUSES = [''UPLOADING'', ''PROCESSING'', ''READY'', ''FAILED'', ''DELETED'']"

definition normalize_processing_status :: "json \<Rightarrow> err + string" where
  "normalize_processing_status v =
     rbind (from_some AssetProcessingError (as_str v)) (\<lambda>s. rbind (require AssetProcessingError (s \<in> set PROCESSING_STATUSES)) (\<lambda>_. Inr s))"

text \<open>A missing set is every profile; another value than a list is refused.  The order is that of the supported profiles.\<close>

fun normalize_profiles :: "json list \<Rightarrow> err + string list" where
  "normalize_profiles [] = Inr []"
| "normalize_profiles (p # ps) = rbind (normalize_variant_profile p) (\<lambda>s. rbind (normalize_profiles ps) (\<lambda>ss. Inr (s # ss)))"

definition normalize_variant_profile_set :: "json \<Rightarrow> err + string list" where
  "normalize_variant_profile_set profiles =
     (if profiles = JNull then Inr SUPPORTED_VARIANT_PROFILES else
      rbind (from_some AssetProcessingError (as_list profiles)) (\<lambda>ps.
      rbind (normalize_profiles ps) (\<lambda>normalized.
      let result = filter (\<lambda>p. p \<in> set normalized) SUPPORTED_VARIANT_PROFILES in
      if result = [] then Inl AssetProcessingError else Inr result)))"

definition build_variant_record :: "json \<Rightarrow> json \<Rightarrow> json \<Rightarrow> json \<Rightarrow> err + dict" where
  "build_variant_record profile object_key sha256 size_bytes =
     rbind (normalize_variant_profile profile) (\<lambda>p.
     rbind (require AssetProcessingError (object_key = JNull \<or> (case as_str object_key of Some k \<Rightarrow> k \<noteq> [] | None \<Rightarrow> False))) (\<lambda>_.
     rbind (require AssetProcessingError (sha256 = JNull \<or> (case as_str sha256 of Some h \<Rightarrow> hex64 h | None \<Rightarrow> False))) (\<lambda>_.
     rbind (require AssetProcessingError (size_bytes = JNull \<or> (case as_int size_bytes of Some n \<Rightarrow> 0 < n | None \<Rightarrow> False))) (\<lambda>_.
     Inr ([(''profile'', JStr p)] @ (if object_key = JNull then [] else [(''object_key'', object_key)]) @
          (if sha256 = JNull then [] else [(''sha256'', sha256)]) @ (if size_bytes = JNull then [] else [(''size_bytes'', size_bytes)]))))))"

section \<open>No access beyond the end\<close>

lemma byte_at_Inr [simp]: "i < length p \<Longrightarrow> byte_at p i = Inr (p ! i)"
  by (simp add: byte_at_def)

lemma length_slice [simp]: "length (bytes_slice p a b) = min (b - a) (length p - a)"
  by (simp add: bytes_slice_def)

lemma png_in_bounds: "\<exists>r. png_dimensions p = Inr r"
  by (cases "length p < 33") (simp_all add: png_dimensions_def Let_def)

lemma frame_in_bounds: "offset + segment_length \<le> length p \<Longrightarrow> \<exists>r. frame_dimensions p offset segment_length = Inr r"
  by (auto simp: frame_dimensions_def Let_def)

lemma jpeg_scan_in_bounds: "\<exists>r. jpeg_scan p offset = Inr r"
proof (induction p offset rule: jpeg_scan.induct)
  case (1 p offset)
  show ?case
  proof (cases "jpeg_marker p offset")
    case (Jpeg_Frame o' n)
    with frame_in_bounds [OF jpeg_marker_bounds(2)] show ?thesis by (simp add: jpeg_scan.simps)
  qed (use 1 in \<open>simp_all add: jpeg_scan.simps\<close>)
qed

lemma webp_in_bounds: "\<exists>r. webp_dimensions p n = Inr r"
  by (auto simp: webp_dimensions_def Let_def)

lemma image_in_bounds: "\<exists>r. image_dimensions p = Inr r"
  using png_in_bounds jpeg_scan_in_bounds webp_in_bounds by (auto simp: image_dimensions_def jpeg_dimensions_def)

lemma pixels_bounded: "0 < h \<Longrightarrow> \<not> m div h < w \<Longrightarrow> w * h \<le> (m :: nat)"
  by (metis div_times_less_eq_dividend le_trans linorder_not_le mult_le_mono1)


text \<open>The header of a PNG image of one pixel, and a JPEG image of 2 by 1.\<close>

definition demo_png :: "byte list" where
  "demo_png = PNG_MAGIC @ [0, 0, 0, 13, 0x49, 0x48, 0x44, 0x52, 0, 0, 0, 1, 0, 0, 0, 1, 8, 6, 0, 0, 0, 0x1F, 0x15, 0xC4, 0x89]"

definition demo_jpeg :: "byte list" where
  "demo_jpeg = [0xFF, 0xD8, 0xFF, 0xE0, 0, 4, 1, 2, 0xFF, 0xFF, 0xC0, 0, 11, 8, 0, 1, 0, 2, 1, 1, 0x11, 0]"

lemmas image_eval = image_dimensions_def MAX_IMAGE_BYTES_def begins_with_def PNG_MAGIC_def jpeg_dimensions_def jpeg_scan.simps jpeg_marker_def
  jpeg_segment_def skip_fill.simps big_endian_def bytes_slice_def JPEG_SOF_MARKERS_def frame_dimensions_def byte_at_def

lemma demo_jpeg_read: "image_dimensions demo_jpeg = Inr (Some (2, 1))"
  by (simp add: image_eval demo_jpeg_def)

lemma crc_bit_numeral: "crc_bit (numeral n) = (if bit (numeral n :: 32 word) 0 then 0xEDB88320 XOR drop_bit 1 (numeral n) else drop_bit 1 (numeral n))"
  by (simp add: crc_bit_def)

lemma crc_byte_bits: "crc_byte c b = crc_bit (crc_bit (crc_bit (crc_bit (crc_bit (crc_bit (crc_bit (crc_bit (c XOR ucast b))))))))"
  by (simp add: crc_byte_def eval_nat_numeral)

lemma demo_crc: "crc32 (ascii ''IHDR'' @ [0, 0, 0, 1, 0, 0, 0, 1, 8, 6, 0, 0, 0]) = 0x1F15C489"
  by (simp add: crc32_def ascii_def crc_byte_bits crc_bit_numeral)

lemma demo_png_read: "image_dimensions demo_png = Inr (Some (1, 1))"
proof -
  have "bytes_slice demo_png 16 29 = [0, 0, 0, 1, 0, 0, 0, 1, 8, 6, 0, 0, 0]"
    by (simp add: bytes_slice_def demo_png_def PNG_MAGIC_def)
  then show ?thesis using demo_crc
    by (simp add: image_dimensions_def MAX_IMAGE_BYTES_def png_dimensions_def begins_with_def byte_at_def big_endian_def allowed_depths_def)
      (simp add: bytes_slice_def demo_png_def PNG_MAGIC_def ascii_def Let_def allowed_depths_def big_endian_def)
qed

end
