(* ===== verification/Ingest_Api.thy ===== *)
theory Ingest_Api
  imports Revocation Ingest_Auth_Guard Node_Registry
begin

text \<open>
  Issuing ingest credentials to users and answering the authentication requests of the media server
  (\<open>ingest_api.py\<close>): handlers that combine the Session store, the credential store, the authentication guard and
  the Node registry.  The environment, the float parser, \<open>str\<close> of a JSON value that is not a string, the hash of a
  token, the clock readings and the random values are arguments; requests are typed records.
\<close>

section \<open>Programs on the four authorities\<close>

record ingest_world =
  iw_nodes :: node_world
  iw_credentials :: authority
  iw_guard :: authority

text \<open>A response with status 429 carries the delay of its \<open>Retry-After\<close> header.\<close>

datatype ingest_error = AuthBlocked int | Raised err

type_synonym 'a ingest_act = "ingest_world \<Rightarrow> (ingest_error + 'a) \<times> ingest_world"

definition iret :: "'a \<Rightarrow> 'a ingest_act" where
  "iret x w = (Inr x, w)"

definition iraise :: "ingest_error \<Rightarrow> 'a ingest_act" where
  "iraise e w = (Inl e, w)"

definition ibind :: "'a ingest_act \<Rightarrow> ('a \<Rightarrow> 'b ingest_act) \<Rightarrow> 'b ingest_act" where
  "ibind m f w = (case m w of (Inl e, w') \<Rightarrow> (Inl e, w') | (Inr x, w') \<Rightarrow> f x w')"

definition raised :: "err + 'a \<Rightarrow> ingest_error + 'a" where
  "raised r = (case r of Inl e \<Rightarrow> Inl (Raised e) | Inr x \<Rightarrow> Inr x)"

definition ilift :: "err + 'a \<Rightarrow> 'a ingest_act" where
  "ilift r w = (raised r, w)"

definition http_error :: "int \<Rightarrow> 'a ingest_act" where
  "http_error status = iraise (Raised (HTTPException status))"

definition iguard :: "int \<Rightarrow> bool \<Rightarrow> unit ingest_act" where
  "iguard status test = (if test then iret () else http_error status)"

definition with_sessions :: "(authority \<Rightarrow> (err + 'a) \<times> authority) \<Rightarrow> 'a ingest_act" where
  "with_sessions f w = (case f (nw_sessions (iw_nodes w)) of (r, fs) \<Rightarrow> (raised r, w\<lparr>iw_nodes := (iw_nodes w)\<lparr>nw_sessions := fs\<rparr>\<rparr>))"

definition with_credentials :: "(authority \<Rightarrow> (err + 'a) \<times> authority) \<Rightarrow> 'a ingest_act" where
  "with_credentials f w = (case f (iw_credentials w) of (r, fs) \<Rightarrow> (raised r, w\<lparr>iw_credentials := fs\<rparr>))"

definition with_guard :: "(authority \<Rightarrow> (err + 'a) \<times> authority) \<Rightarrow> 'a ingest_act" where
  "with_guard f w = (case f (iw_guard w) of (r, fs) \<Rightarrow> (raised r, w\<lparr>iw_guard := fs\<rparr>))"

text \<open>\<open>except KeyError\<close>\<close>

definition on_key_error :: "'a ingest_act \<Rightarrow> 'a ingest_act \<Rightarrow> 'a ingest_act" where
  "on_key_error m h w = (case m w of (Inl e, w') \<Rightarrow> (if e = Raised KeyError then h w' else (Inl e, w')) | (Inr x, w') \<Rightarrow> (Inr x, w'))"

section \<open>Configuration and connection information\<close>

record ingest_settings =
  ig_getenv :: "string \<Rightarrow> string option"
  ig_parse_float :: "string \<Rightarrow> pyfloat option"
  ig_str :: "json \<Rightarrow> string"
  ig_hash :: "string \<Rightarrow> string"
  ig_guard_env :: guard_env
  ig_guard :: guard_config

definition ACCEPTING_INGEST_STATES :: "string list" where
  "ACCEPTING_INGEST_STATES = [''READY_WAIT_INGEST'', ''LIVE'', ''DEGRADED'', ''HOLDING'']"

definition INGEST_PATH :: string where
  "INGEST_PATH = ''live/input''"

definition RELAY_PATH :: string where
  "RELAY_PATH = ''output/relay''"

definition accepting :: "dict \<Rightarrow> bool" where
  "accepting session \<longleftrightarrow> dget session ''status'' \<in> JStr ` set ACCEPTING_INGEST_STATES"

definition host_for_url :: "string \<Rightarrow> string" where
  "host_for_url host = (if CHR '':'' \<in> set host \<and> \<not> starts_with ''['' host then ''['' @ host @ '']'' else host)"

definition public_ingest_host :: "ingest_settings \<Rightarrow> dict \<Rightarrow> string" where
  "public_ingest_host cfg session =
     (let configured = py_strip (case ig_getenv cfg ''IRLIGHT_INGEST_PUBLIC_HOST'' of None \<Rightarrow> [] | Some s \<Rightarrow> s) in
      if configured \<noteq> [] then configured else
      let v = dget session ''provider_public_ipv4'' in
      if truthy v then (case v of JStr s \<Rightarrow> s | _ \<Rightarrow> ig_str cfg v) else ''127.0.0.1'')"

definition configured_port :: "ingest_settings \<Rightarrow> string \<Rightarrow> int \<Rightarrow> err + int" where
  "configured_port cfg name dflt =
     rbind (case ig_getenv cfg name of None \<Rightarrow> Inr dflt | Some raw \<Rightarrow> from_some (HTTPException 503) (int_of_str raw)) (\<lambda>port.
     rbind (require (HTTPException 503) (1 \<le> port \<and> port \<le> 65535)) (\<lambda>_. Inr port))"

record endpoint_config =
  ec_host :: string
  ec_host_for_url :: string
  ec_rtmp_port :: "int option"
  ec_rtmps_port :: "int option"
  ec_srt_port :: "int option"

text \<open>A protocol is enabled exactly if its port is given.\<close>

definition port_if :: "bool \<Rightarrow> err + int \<Rightarrow> err + int option" where
  "port_if enabled r = (if enabled then rbind r (\<lambda>p. Inr (Some p)) else Inr None)"

definition resolve_ingest_endpoint_config :: "ingest_settings \<Rightarrow> dict \<Rightarrow> string list \<Rightarrow> err + endpoint_config" where
  "resolve_ingest_endpoint_config cfg session protocols =
     (let allowed = map py_lower protocols; host = public_ingest_host cfg session; rtmp_enabled = ''rtmp'' \<in> set allowed;
          rtmps_enabled = (rtmp_enabled \<and> ig_getenv cfg ''IRLIGHT_INGEST_RTMPS_ENABLED'' = Some ''1''); srt_enabled = ''srt'' \<in> set allowed in
      rbind (port_if rtmp_enabled (configured_port cfg ''IRLIGHT_INGEST_RTMP_PORT'' 1935)) (\<lambda>rtmp_port.
      rbind (port_if rtmps_enabled (configured_port cfg ''IRLIGHT_INGEST_RTMPS_PORT'' 1936)) (\<lambda>rtmps_port.
      rbind (port_if srt_enabled (configured_port cfg ''IRLIGHT_INGEST_SRT_PORT'' 8890)) (\<lambda>srt_port.
      Inr \<lparr>ec_host = host, ec_host_for_url = host_for_url host, ec_rtmp_port = rtmp_port, ec_rtmps_port = rtmps_port, ec_srt_port = srt_port\<rparr>))))"

definition port_text :: "int \<Rightarrow> string" where
  "port_text port = nat_digits (nat port)"

definition stream_endpoint :: "string \<Rightarrow> endpoint_config \<Rightarrow> int option \<Rightarrow> string \<Rightarrow> string option \<Rightarrow> dict" where
  "stream_endpoint scheme config port username secret =
     (case port of
        None \<Rightarrow> [(''enabled'', JBool False), (''server_url'', JNull), (''username'', JNull), (''password'', JNull), (''password_available'', JBool False)]
      | Some p \<Rightarrow>
          [(''enabled'', JBool True), (''server_url'', JStr (scheme @ ''://'' @ ec_host_for_url config @ '':'' @ port_text p @ ''/'' @ INGEST_PATH)),
           (''username'', JStr username), (''password'', jopt secret), (''password_available'', JBool (secret \<noteq> None))])"

definition srt_endpoint :: "endpoint_config \<Rightarrow> string \<Rightarrow> string option \<Rightarrow> dict" where
  "srt_endpoint config username secret =
     (case ec_srt_port config of
        None \<Rightarrow> [(''enabled'', JBool False), (''host'', JNull), (''port'', JNull), (''streamid_template'', JNull), (''url'', JNull)]
      | Some p \<Rightarrow>
          [(''enabled'', JBool True), (''host'', JStr (ec_host config)), (''port'', JInt p),
           (''streamid_template'', JStr (''publish:'' @ INGEST_PATH @ '':'' @ username @ '':<credential-secret>'')),
           (''url'', case secret of None \<Rightarrow> JNull | Some s \<Rightarrow>
              JStr (''srt://'' @ ec_host_for_url config @ '':'' @ port_text p @ ''?streamid=publish:'' @ INGEST_PATH @ '':'' @ username @ '':'' @ s))])"

definition connection_info :: "endpoint_config \<Rightarrow> string \<Rightarrow> string option \<Rightarrow> dict" where
  "connection_info config username secret =
     [(''rtmp'', JObj (stream_endpoint ''rtmp'' config (ec_rtmp_port config) username secret)),
      (''rtmps'', JObj (stream_endpoint ''rtmps'' config (ec_rtmps_port config) username secret)),
      (''srt'', JObj (srt_endpoint config username secret))]"

definition resolve_relay_endpoint_config :: "ingest_settings \<Rightarrow> dict \<Rightarrow> err + string \<times> int" where
  "resolve_relay_endpoint_config cfg session =
     rbind (configured_port cfg ''IRLIGHT_RELAY_RTMP_PORT'' 1935) (\<lambda>port. Inr (host_for_url (public_ingest_host cfg session), port))"

definition relay_connection_info :: "string \<times> int \<Rightarrow> string \<Rightarrow> string option \<Rightarrow> dict" where
  "relay_connection_info config username secret =
     [(''protocol'', JStr ''rtmp''), (''server_url'', JStr (''rtmp://'' @ fst config @ '':'' @ port_text (snd config) @ ''/'' @ RELAY_PATH)),
      (''username'', JStr username), (''password'', jopt secret), (''password_available'', JBool (secret \<noteq> None))]"

section \<open>Times\<close>

definition auth_cache_max_age_seconds :: "ingest_settings \<Rightarrow> rat" where
  "auth_cache_max_age_seconds cfg = env_float (ig_parse_float cfg) (ig_getenv cfg) ''IRLIGHT_INGEST_AUTH_CACHE_MAX_AGE_SECONDS'' 300 1 3600"

definition cache_timestamp :: "json \<Rightarrow> rat option" where
  "cache_timestamp v = (case finite_argument v of Inr x \<Rightarrow> if x < 0 then None else Some x | Inl _ \<Rightarrow> None)"

definition cache_valid_until :: "ingest_settings \<Rightarrow> dict \<Rightarrow> pyfloat \<Rightarrow> rat option" where
  "cache_valid_until cfg rec now =
     (case (cache_timestamp (JFloat now), cache_timestamp (dget rec ''expires_at'')) of
        (Some current, Some credential_expires_at) \<Rightarrow>
          if credential_expires_at \<le> current then None
          else Some (case fadd (Fin current) (Fin (auth_cache_max_age_seconds cfg)) of
                       Fin limit \<Rightarrow> min credential_expires_at limit | _ \<Rightarrow> credential_expires_at)
      | _ \<Rightarrow> None)"

text \<open>\<open>_validated_ingest_clock\<close> and \<open>_validated_ingest_deadline\<close>\<close>

definition validated_ingest_time :: "json \<Rightarrow> err + rat" where
  "validated_ingest_time v = from_some (HTTPException 503) (cache_timestamp v)"

section \<open>Credentials of a user\<close>

record issue_request =
  iq_protocols :: "string list"
  iq_ttl_seconds :: int
  iq_scope :: string

definition owned_session :: "string \<Rightarrow> string \<Rightarrow> dict ingest_act" where
  "owned_session session_id user_id =
     ibind (with_sessions (get_session session_id)) (\<lambda>found.
     case found of
       None \<Rightarrow> http_error 404
     | Some session \<Rightarrow> if dget session ''user_id'' \<noteq> JStr user_id then http_error 404 else iret session)"

text \<open>The lifetime of a credential: what was asked for, but not beyond the deadline of the Session.\<close>

definition capped_ttl :: "issue_request \<Rightarrow> rat \<Rightarrow> dict \<Rightarrow> err + rat" where
  "capped_ttl request current session =
     (let ttl = rat_of_int (iq_ttl_seconds request); deadline = dget session ''absolute_deadline_at'' in
      if deadline = JNull then Inr ttl else
      rbind (validated_ingest_time deadline) (\<lambda>d.
      let remaining = d - current in
      if remaining \<le> 0 then Inl (HTTPException 409) else Inr (min ttl remaining)))"

definition username_of :: "ingest_settings \<Rightarrow> dict \<Rightarrow> string" where
  "username_of cfg rec = (case dget rec ''username'' of JStr s \<Rightarrow> s | v \<Rightarrow> ig_str cfg v)"

text \<open>The endpoint is resolved before anything is issued; what it says depends on the user name of the credential.\<close>

definition endpoint_info :: "ingest_settings \<Rightarrow> dict \<Rightarrow> issue_request \<Rightarrow> string \<Rightarrow> err + (string \<Rightarrow> dict)" where
  "endpoint_info cfg session request secret =
     (if iq_scope request = ''RELAY_CLIENT''
      then rbind (resolve_relay_endpoint_config cfg session) (\<lambda>c. Inr (\<lambda>username. relay_connection_info c username (Some secret)))
      else rbind (resolve_ingest_endpoint_config cfg session (iq_protocols request)) (\<lambda>c.
           Inr (\<lambda>username. connection_info c username (Some secret))))"

definition issue_ingest_credential ::
  "ingest_settings \<Rightarrow> pyfloat \<Rightarrow> string \<Rightarrow> string \<Rightarrow> string \<Rightarrow> string \<Rightarrow> issue_request \<Rightarrow> dict ingest_act"
where
  "issue_ingest_credential cfg clock secret uuid user_id session_id request =
     ibind (owned_session session_id user_id) (\<lambda>session.
     ibind (iguard 409 (accepting session)) (\<lambda>_.
     ibind (iguard 409 (\<not> (iq_scope request = ''RELAY_CLIENT'' \<and> iq_protocols request \<noteq> [''rtmp'']))) (\<lambda>_.
     ibind (iguard 409 (\<not> (iq_scope request = ''RELAY_CLIENT'' \<and> dget session ''egress_mode'' \<noteq> JStr ''RELAY_ONLY''))) (\<lambda>_.
     ibind (ilift (endpoint_info cfg session request secret)) (\<lambda>info.
     ibind (ilift (validated_ingest_time (JFloat clock))) (\<lambda>current.
     ibind (ilift (capped_ttl request current session)) (\<lambda>ttl.
     ibind (with_credentials (issue (ig_hash cfg) session_id user_id (iq_scope request) (iq_protocols request) (JTime ttl)
              (Some (JTime current)) clock secret uuid)) (\<lambda>(rec, secret).
     iret (dupdate rec [(''credential_secret'', JStr secret), (''connection_info'', JObj (info (username_of cfg rec)))])))))))))"

definition listed_protocols :: "ingest_settings \<Rightarrow> dict \<Rightarrow> string list" where
  "listed_protocols cfg rec =
     (case as_list (dget_or rec ''protocols'' (JList [])) of None \<Rightarrow> [] | Some vs \<Rightarrow> map (\<lambda>v. case v of JStr s \<Rightarrow> s | _ \<Rightarrow> ig_str cfg v) vs)"

text \<open>The active credential of the user, or 404.\<close>

definition own_active :: "string \<Rightarrow> string \<Rightarrow> string \<Rightarrow> pyfloat \<Rightarrow> dict ingest_act" where
  "own_active session_id user_id scope clock =
     ibind (with_credentials (active_for_session session_id None scope clock)) (\<lambda>found.
     case found of
       None \<Rightarrow> http_error 404
     | Some rec \<Rightarrow> if dget rec ''user_id'' \<noteq> JStr user_id then http_error 404 else iret rec)"

definition get_connection_info :: "ingest_settings \<Rightarrow> pyfloat \<Rightarrow> string \<Rightarrow> string \<Rightarrow> dict ingest_act" where
  "get_connection_info cfg clock user_id session_id =
     ibind (owned_session session_id user_id) (\<lambda>session.
     ibind (own_active session_id user_id ''INGEST'' clock) (\<lambda>rec.
     ibind (ilift (resolve_ingest_endpoint_config cfg session (listed_protocols cfg rec))) (\<lambda>config.
     iret [(''credential'', JObj rec), (''connection_info'', JObj (connection_info config (username_of cfg rec) None))])))"

definition get_relay_client_info :: "ingest_settings \<Rightarrow> pyfloat \<Rightarrow> string \<Rightarrow> string \<Rightarrow> dict ingest_act" where
  "get_relay_client_info cfg clock user_id session_id =
     ibind (owned_session session_id user_id) (\<lambda>session.
     ibind (iguard 409 (dget session ''egress_mode'' = JStr ''RELAY_ONLY'')) (\<lambda>_.
     ibind (own_active session_id user_id ''RELAY_CLIENT'' clock) (\<lambda>rec.
     ibind (ilift (resolve_relay_endpoint_config cfg session)) (\<lambda>config.
     iret [(''credential'', JObj rec), (''connection_info'', JObj (relay_connection_info config (username_of cfg rec) None))]))))"

definition revoke_ingest_credential :: "pyfloat \<Rightarrow> string \<Rightarrow> string \<Rightarrow> string \<Rightarrow> dict ingest_act" where
  "revoke_ingest_credential clock user_id session_id credential_id =
     ibind (owned_session session_id user_id) (\<lambda>_.
     ibind (with_credentials (get_credential credential_id)) (\<lambda>found.
     case found of
       None \<Rightarrow> http_error 404
     | Some rec \<Rightarrow>
         if dget rec ''session_id'' \<noteq> JStr session_id \<or> dget rec ''user_id'' \<noteq> JStr user_id \<or>
            dget_or rec ''scope'' (JStr ''INGEST'') \<notin> {JStr ''INGEST'', JStr ''RELAY_CLIENT''}
         then http_error 404
         else on_key_error (with_credentials (revoke credential_id (Some user_id) clock)) (http_error 404)))"

section \<open>Requests of the media server\<close>

record media_request =
  mr_user :: string
  mr_password :: string
  mr_token :: string
  mr_ip :: string
  mr_action :: string
  mr_path :: string
  mr_protocol :: string
  mr_id :: string
  mr_query :: string
  mr_user_agent :: string

text \<open>The readings of the wall clock along one request, one for each call that takes the time.\<close>

record auth_clocks =
  ck_check :: pyfloat
  ck_blocked :: pyfloat
  ck_failure :: pyfloat
  ck_event :: pyfloat
  ck_verify :: pyfloat
  ck_success :: pyfloat
  ck_cache :: pyfloat

definition raise_auth_blocked :: "guard_decision \<Rightarrow> 'a ingest_act" where
  "raise_auth_blocked decision = iraise (AuthBlocked (max 1 (retry_after_seconds decision)))"

definition optional_text :: "string \<Rightarrow> nat \<Rightarrow> json" where
  "optional_text s limit = (if s = [] then JNull else JStr (take limit s))"

definition record_session_auth_failure :: "pyfloat \<Rightarrow> media_request \<Rightarrow> guard_decision \<Rightarrow> unit ingest_act" where
  "record_session_auth_failure clock request decision =
     ibind (with_sessions (get_session (mr_user request))) (\<lambda>found.
     case found of
       None \<Rightarrow> iret ()
     | Some session \<Rightarrow>
         on_key_error
           (ibind (with_sessions (append_event (mr_user request) ''ingest.auth_failed''
                (Some (if blocked decision then ''RATE_LIMITED'' else ''INVALID_CREDENTIAL''))
                [(''node_id'', dget session ''node_id''), (''source_ip'', optional_text (mr_ip request) 128),
                 (''protocol'', JStr (take 32 (py_lower (mr_protocol request)))), (''publisher_id'', optional_text (mr_id request) 128),
                 (''locked_scopes'', JList (map JStr (locked_scopes decision)))]
                ''ingest-auth'' None clock)) (\<lambda>_. iret ()))
           (iret ()))"

definition reject_invalid_ingest_credential :: "ingest_settings \<Rightarrow> auth_clocks \<Rightarrow> media_request \<Rightarrow> 'a ingest_act" where
  "reject_invalid_ingest_credential cfg ck request =
     ibind (with_guard (record_failure (ig_guard_env cfg) (ig_guard cfg) (mr_ip request) (mr_user request) (mr_protocol request) (mr_id request)
              None (ck_failure ck))) (\<lambda>decision.
     ibind (record_session_auth_failure (ck_event ck) request decision) (\<lambda>_.
     if blocked decision then raise_auth_blocked decision else http_error 401))"

definition scope_for :: "string \<Rightarrow> string" where
  "scope_for action = (if action = ''publish'' then ''INGEST'' else ''RELAY_CLIENT'')"

text \<open>The checks on the request alone: the scope of the credential it needs.\<close>

definition request_scope :: "media_request \<Rightarrow> err + string" where
  "request_scope request =
     (let scope = scope_for (mr_action request); protocol = py_lower (mr_protocol request) in
      rbind (require (HTTPException 403) (mr_action request \<in> {''publish'', ''read''})) (\<lambda>_.
      rbind (require (HTTPException 403) (\<not> (mr_action request = ''read'' \<and> mr_path request \<noteq> RELAY_PATH))) (\<lambda>_.
      rbind (require (HTTPException 403) (\<not> (mr_action request = ''publish'' \<and> mr_path request \<noteq> INGEST_PATH))) (\<lambda>_.
      rbind (require (HTTPException 403) (protocol \<in> {''rtmp'', ''srt''})) (\<lambda>_.
      rbind (require (HTTPException 403) (\<not> (scope = ''RELAY_CLIENT'' \<and> protocol \<noteq> ''rtmp''))) (\<lambda>_.
      Inr scope))))))"

definition authorized_answer :: "ingest_settings \<Rightarrow> auth_clocks \<Rightarrow> string \<Rightarrow> dict \<Rightarrow> dict" where
  "authorized_answer cfg ck session_id rec =
     [(''authorized'', JBool True), (''session_id'', JStr session_id), (''credential_id'', dget rec ''id''),
      (''cache_valid_until'', case cache_valid_until cfg rec (ck_cache ck) of None \<Rightarrow> JNull | Some t \<Rightarrow> JTime t)]"

definition authorize_credential :: "ingest_settings \<Rightarrow> auth_clocks \<Rightarrow> media_request \<Rightarrow> string \<Rightarrow> dict ingest_act" where
  "authorize_credential cfg ck request scope =
     ibind (with_sessions (get_session (mr_user request))) (\<lambda>found.
     case found of
       None \<Rightarrow> reject_invalid_ingest_credential cfg ck request
     | Some session \<Rightarrow>
         if \<not> accepting session then reject_invalid_ingest_credential cfg ck request
         else if scope = ''RELAY_CLIENT'' \<and> dget session ''egress_mode'' \<noteq> JStr ''RELAY_ONLY'' then reject_invalid_ingest_credential cfg ck request
         else ibind (with_credentials (verify (ig_hash cfg) (mr_user request) (mr_password request) (py_lower (mr_protocol request)) None scope
                       (ck_verify ck))) (\<lambda>checked.
              case checked of
                None \<Rightarrow> reject_invalid_ingest_credential cfg ck request
              | Some rec \<Rightarrow>
                  if dget rec ''session_id'' \<noteq> JStr (mr_user request) then reject_invalid_ingest_credential cfg ck request
                  else ibind (with_guard (record_success (ig_guard_env cfg) (ig_guard cfg) (mr_user request) None (ck_success ck))) (\<lambda>_.
                       iret (authorized_answer cfg ck (mr_user request) rec))))"

definition authorize_request :: "ingest_settings \<Rightarrow> auth_clocks \<Rightarrow> media_request \<Rightarrow> dict ingest_act" where
  "authorize_request cfg ck request =
     ibind (ilift (request_scope request)) (\<lambda>scope.
     ibind (with_guard (check_guard (ig_guard_env cfg) (ig_guard cfg) (mr_ip request) (mr_user request) None (ck_check ck))) (\<lambda>decision.
     if blocked decision then
       ibind (with_guard (record_blocked (ig_guard_env cfg) (ig_guard cfg) (mr_ip request) (mr_user request) (py_lower (mr_protocol request))
                (mr_id request) None (ck_blocked ck))) (\<lambda>_. raise_auth_blocked decision)
     else authorize_credential cfg ck request scope))"

definition authorize_mediamtx_request :: "ingest_settings \<Rightarrow> auth_clocks \<Rightarrow> string option \<Rightarrow> media_request \<Rightarrow> dict ingest_act" where
  "authorize_mediamtx_request cfg ck authorization request w =
     (case require_assigned_node (ig_hash cfg) authorization (mr_user request) (iw_nodes w) of
        Inl e \<Rightarrow> (Inl (Raised e), w)
      | Inr _ \<Rightarrow> authorize_request cfg ck request w)"

section \<open>Runs of a handler\<close>

lemma ibind_Inr: "ibind m f w = (Inr y, w') \<longleftrightarrow> (\<exists>x w1. m w = (Inr x, w1) \<and> f x w1 = (Inr y, w'))"
  by (auto simp: ibind_def split: prod.splits sum.splits)

lemma raised_Inr: "raised r = Inr x \<longleftrightarrow> r = Inr x"
  by (auto simp: raised_def split: sum.splits)

lemma ilift_Inr: "ilift r w = (Inr x, w') \<longleftrightarrow> r = Inr x \<and> w' = w"
  by (auto simp: ilift_def raised_Inr)

lemma iguard_Inr: "iguard status test w = (Inr x, w') \<longleftrightarrow> test \<and> w' = w"
  by (auto simp: iguard_def http_error_def iraise_def iret_def)

lemma with_sessions_Inr:
  "with_sessions f w = (Inr x, w') \<longleftrightarrow>
   (\<exists>fs. f (nw_sessions (iw_nodes w)) = (Inr x, fs) \<and> w' = w\<lparr>iw_nodes := (iw_nodes w)\<lparr>nw_sessions := fs\<rparr>\<rparr>)"
  by (auto simp: with_sessions_def raised_Inr split: prod.splits)

lemma with_credentials_Inr:
  "with_credentials f w = (Inr x, w') \<longleftrightarrow> (\<exists>fs. f (iw_credentials w) = (Inr x, fs) \<and> w' = w\<lparr>iw_credentials := fs\<rparr>)"
  by (auto simp: with_credentials_def raised_Inr split: prod.splits)

lemma with_guard_Inr: "with_guard f w = (Inr x, w') \<longleftrightarrow> (\<exists>fs. f (iw_guard w) = (Inr x, fs) \<and> w' = w\<lparr>iw_guard := fs\<rparr>)"
  by (auto simp: with_guard_def raised_Inr split: prod.splits)

lemma raising [simp]: "http_error status w \<noteq> (Inr x, w')" "raise_auth_blocked d w \<noteq> (Inr x, w')" "iraise e w \<noteq> (Inr x, w')"
  by (simp_all add: http_error_def raise_auth_blocked_def iraise_def)

lemma iret_Inr: "iret x w = (Inr y, w') \<longleftrightarrow> y = x \<and> w' = w"
  by (auto simp: iret_def)

lemmas ingest_runs = ibind_Inr ilift_Inr iguard_Inr with_sessions_Inr with_credentials_Inr with_guard_Inr iret_Inr

lemma reject_raises [simp]: "reject_invalid_ingest_credential cfg ck request w \<noteq> (Inr x, w')"
  by (auto simp: reject_invalid_ingest_credential_def ibind_Inr split: if_splits)

section \<open>Who is let in\<close>

lemma verify_some:
  assumes st: "cstored fs cs" and call: "verify hash u secret p None sc clock fs = (Inr (Some r), fs')"
  obtains t cid rec where "clock = Fin t" "(cid, rec) \<in> set cs" "credential_matches u sc (py_lower p) (hash secret) t rec"
    "r = public_record (dset rec ''last_authenticated_at'' (JTime t))"
proof -
  obtain t where t: "runtime_timestamp None clock = Inr t" using call by (auto simp: verify_def split: sum.splits)
  then have "clock = Fin t" by (cases clock) (auto simp: runtime_timestamp_def finite_argument_def rbind_eq_Inr)
  let ?body = "\<lambda>cs. case List.find (\<lambda>q. credential_matches u sc (py_lower p) (hash secret) t (snd q)) cs of
      None \<Rightarrow> Inr (None, None)
    | Some (credential_id, record) \<Rightarrow>
        let record = dset record ''last_authenticated_at'' (JTime t)
        in Inr (Some (public_record record), Some (dset cs credential_id record))"
  have lock: "cred_lock ?body fs = (Inr (Some r), fs')"
    using call t by (auto simp: verify_def Let_def split: if_splits)
  obtain cid rec where "List.find (\<lambda>q. credential_matches u sc (py_lower p) (hash secret) t (snd q)) cs = Some (cid, rec)"
    "r = public_record (dset rec ''last_authenticated_at'' (JTime t))"
    using cred_lock_returned [OF st lock] by (auto simp: Let_def split: option.splits prod.splits)
  with \<open>clock = Fin t\<close> show thesis by (intro that [of t cid rec]) (auto simp: find_Some_iff dest: arg_cong [of _ _ snd])
qed

lemma public_record_dget: "k \<noteq> ''secret_sha256'' \<Longrightarrow> dget (public_record d) k = dget d k"
proof -
  assume "k \<noteq> ''secret_sha256''"
  then have "map_of (filter (\<lambda>p. fst p \<noteq> ''secret_sha256'') d) k = map_of d k" by (induction d) auto
  then show ?thesis by (simp add: public_record_def dget_def)
qed

lemma cache_valid_until_bounds:
  assumes "cache_valid_until cfg rec now = Some c"
  shows "\<exists>x t. finite_argument (dget rec ''expires_at'') = Inr x \<and> now = Fin t \<and> t < c \<and> c \<le> x \<and>
    (t + 3600 < float_overflow \<longrightarrow> c \<le> t + 3600)"
proof -
  obtain t x where t: "cache_timestamp (JFloat now) = Some t" "cache_timestamp (dget rec ''expires_at'') = Some x" "t < x"
    "c = (case fadd (Fin t) (Fin (auth_cache_max_age_seconds cfg)) of Fin limit \<Rightarrow> min x limit | _ \<Rightarrow> x)"
    using assms by (auto simp: cache_valid_until_def split: option.splits if_splits)
  have age: "1 \<le> auth_cache_max_age_seconds cfg" "auth_cache_max_age_seconds cfg \<le> 3600"
    by (simp_all add: auth_cache_max_age_seconds_def env_float_def Let_def)
  have n: "now = Fin t" "0 \<le> t" using t(1) by (cases now; auto simp: cache_timestamp_def finite_argument_def split: if_splits)+
  have x: "finite_argument (dget rec ''expires_at'') = Inr x" using t(2) by (auto simp: cache_timestamp_def split: sum.splits if_splits)
  have "t < c \<and> c \<le> x \<and> (t + 3600 < float_overflow \<longrightarrow> c \<le> t + 3600)"
    using t(3,4) age n(2) by (auto simp: mk_float_def split: if_splits)
  with n x show ?thesis by blast
qed

text \<open>What a request may ask for.\<close>

definition lawful_request :: "media_request \<Rightarrow> dict \<Rightarrow> bool" where
  "lawful_request request session \<longleftrightarrow>
     mr_action request = ''publish'' \<and> mr_path request = INGEST_PATH \<or>
     mr_action request = ''read'' \<and> mr_path request = RELAY_PATH \<and> py_lower (mr_protocol request) = ''rtmp'' \<and>
       dget session ''egress_mode'' = JStr ''RELAY_ONLY''"

lemma request_scope_Inr:
  assumes "request_scope request = Inr scope"
  shows "scope = scope_for (mr_action request)" "py_lower (py_lower (mr_protocol request)) = py_lower (mr_protocol request)"
    "scope = ''RELAY_CLIENT'' \<longrightarrow> dget session ''egress_mode'' = JStr ''RELAY_ONLY'' \<Longrightarrow> lawful_request request session"
proof -
  have p: "py_lower (mr_protocol request) \<in> {''rtmp'', ''srt''}" using assms by (auto simp: request_scope_def Let_def rbind_eq_Inr)
  have "py_lower ''rtmp'' = ''rtmp''" "py_lower ''srt'' = ''srt''" by code_simp+
  then show "py_lower (py_lower (mr_protocol request)) = py_lower (mr_protocol request)" using p by auto
  show "scope = scope_for (mr_action request)" using assms by (auto simp: request_scope_def Let_def rbind_eq_Inr)
  show "scope = ''RELAY_CLIENT'' \<longrightarrow> dget session ''egress_mode'' = JStr ''RELAY_ONLY'' \<Longrightarrow> lawful_request request session"
    using assms by (auto simp: request_scope_def Let_def rbind_eq_Inr lawful_request_def scope_for_def)
qed

text \<open>The steps that a request let in has passed.\<close>

lemma authorize_cases:
  assumes "authorize_mediamtx_request cfg ck authorization request w = (Inr answer, w')"
  obtains node decision session rec fs where
    "require_assigned_node (ig_hash cfg) authorization (mr_user request) (iw_nodes w) = Inr node"
    "request_scope request = Inr (scope_for (mr_action request))"
    "fst (check_guard (ig_guard_env cfg) (ig_guard cfg) (mr_ip request) (mr_user request) None (ck_check ck) (iw_guard w)) = Inr decision"
    "\<not> blocked decision" "fst (get_session (mr_user request) (nw_sessions (iw_nodes w))) = Inr (Some session)" "accepting session"
    "lawful_request request session"
    "verify (ig_hash cfg) (mr_user request) (mr_password request) (py_lower (mr_protocol request)) None (scope_for (mr_action request))
       (ck_verify ck) (iw_credentials w) = (Inr (Some rec), fs)"
    "dget rec ''session_id'' = JStr (mr_user request)" "answer = authorized_answer cfg ck (mr_user request) rec"
proof -
  obtain node where node: "require_assigned_node (ig_hash cfg) authorization (mr_user request) (iw_nodes w) = Inr node"
    and run: "authorize_request cfg ck request w = (Inr answer, w')"
    using assms by (auto simp: authorize_mediamtx_request_def split: sum.splits)
  obtain scope decision gs where scope: "request_scope request = Inr scope"
    and check: "check_guard (ig_guard_env cfg) (ig_guard cfg) (mr_ip request) (mr_user request) None (ck_check ck) (iw_guard w) = (Inr decision, gs)"
    and cred: "\<not> blocked decision" "authorize_credential cfg ck request scope (w\<lparr>iw_guard := gs\<rparr>) = (Inr answer, w')"
    using run by (auto simp: authorize_request_def ingest_runs split: if_splits)
  obtain found ss where get: "get_session (mr_user request) (nw_sessions (iw_nodes w)) = (Inr found, ss)"
    using cred(2) by (auto simp: authorize_credential_def ingest_runs)
  obtain session where found: "found = Some session" using cred(2) get by (cases found) (auto simp: authorize_credential_def ingest_runs)
  then have ok: "accepting session" "scope = ''RELAY_CLIENT'' \<longrightarrow> dget session ''egress_mode'' = JStr ''RELAY_ONLY''"
    using cred(2) get by (auto simp: authorize_credential_def ingest_runs split: if_splits)
  obtain checked cs where ver: "verify (ig_hash cfg) (mr_user request) (mr_password request) (py_lower (mr_protocol request)) None scope
      (ck_verify ck) (iw_credentials w) = (Inr checked, cs)"
    using cred(2) get found ok by (auto simp: authorize_credential_def ingest_runs split: if_splits)
  obtain rec where rec: "checked = Some rec" using cred(2) get found ok ver
    by (cases checked) (auto simp: authorize_credential_def ingest_runs split: if_splits)
  have "dget rec ''session_id'' = JStr (mr_user request) \<and> answer = authorized_answer cfg ck (mr_user request) rec"
    using cred(2) get found ok ver rec by (auto simp: authorize_credential_def ingest_runs split: if_splits)
  with node scope check cred(1) get found ok ver rec request_scope_Inr [OF scope] show thesis
    by (intro that [of node decision session rec cs]) auto
qed

text \<open>C37. A stream is let in only on a live credential: when the control plane authorises a request of the media server, the caller is the
  running Node assigned to that Session, the guard does not block the request, the Session accepts media, the request is for
  the path that its action allows (a relay reader only for a relay-only Session), and the credential file holds an
  unrevoked, unexpired credential of this Session, scope and protocol with the digest of the given password; the
  answer may be cached no longer than that credential lives, and for an hour at most.\<close>

theorem only_credentials_are_let_in:
  assumes "authorize_mediamtx_request cfg ck authorization request w = (Inr answer, w')" and "cstored (iw_credentials w) cs"
  shows "\<exists>node session cid rec t x.
    require_assigned_node (ig_hash cfg) authorization (mr_user request) (iw_nodes w) = Inr node \<and>
    fst (get_session (mr_user request) (nw_sessions (iw_nodes w))) = Inr (Some session) \<and> accepting session \<and> lawful_request request session \<and>
    (\<exists>d. fst (check_guard (ig_guard_env cfg) (ig_guard cfg) (mr_ip request) (mr_user request) None (ck_check ck) (iw_guard w)) = Inr d \<and> \<not> blocked d) \<and>
    ck_verify ck = Fin t \<and> (cid, rec) \<in> set cs \<and>
    credential_matches (mr_user request) (scope_for (mr_action request)) (py_lower (mr_protocol request)) (ig_hash cfg (mr_password request)) t rec \<and>
    dget answer ''authorized'' = JBool True \<and> dget answer ''credential_id'' = JStr cid \<and> finite_argument (dget rec ''expires_at'') = Inr x \<and>
    (\<forall>c. dget answer ''cache_valid_until'' = JTime c \<longrightarrow>
       c \<le> x \<and> (\<exists>now. ck_cache ck = Fin now \<and> (now + 3600 < float_overflow \<longrightarrow> c \<le> now + 3600)))"
  using assms(1)
proof (cases rule: authorize_cases)
  case (1 node decision session found fs)
  obtain t cid rec where v: "ck_verify ck = Fin t" "(cid, rec) \<in> set cs"
    "credential_matches (mr_user request) (scope_for (mr_action request)) (py_lower (py_lower (mr_protocol request))) (ig_hash cfg (mr_password request)) t rec"
    "found = public_record (dset rec ''last_authenticated_at'' (JTime t))"
    using verify_some [OF assms(2) 1(8)] .
  have wf: "cred_wf cid rec" using assms(2) v(2) by (auto simp: cstored_def creds_ok_def)
  then obtain x where x: "finite_argument (dget rec ''expires_at'') = Inr x" "dget rec ''id'' = JStr cid" by (auto simp: cred_wf_iff)
  have same: "dget found ''id'' = JStr cid" "dget found ''expires_at'' = dget rec ''expires_at''"
    using x(2) by (simp_all add: v(4) public_record_dget)
  have until: "c \<le> x \<and> (\<exists>now. ck_cache ck = Fin now \<and> (now + 3600 < float_overflow \<longrightarrow> c \<le> now + 3600))"
    if "dget answer ''cache_valid_until'' = JTime c" for c
    using cache_valid_until_bounds [of cfg found "ck_cache ck" c] that 1(10) same(2) x(1)
    by (auto simp: authorized_answer_def dget_def split: option.splits)
  have ans: "dget answer ''authorized'' = JBool True" "dget answer ''credential_id'' = JStr cid"
    using 1(10) same(1) by (simp_all add: authorized_answer_def dget_def)
  show ?thesis
    by (rule exI [of _ node], rule exI [of _ session], rule exI [of _ cid], rule exI [of _ rec], rule exI [of _ t], rule exI [of _ x])
      (use 1 v request_scope_Inr(2) [OF 1(2)] x until ans in auto)
qed


section \<open>How long a credential lives\<close>

lemma issue_returned:
  assumes "cstored fs cs" and "issue hash sid u sc ps (JTime ttl) (Some (JTime now)) clock secret uuid fs = (Inr (rec, s), fs')"
  obtains ns where
    "cstored fs' (dset (revoke_where (\<lambda>x. dget x ''session_id'' = JStr sid \<and> cred_scope x = JStr sc) now cs) uuid
       (new_credential uuid sid u sc (hash secret) ns now (now + ttl)))"
    "rec = public_record (new_credential uuid sid u sc (hash secret) ns now (now + ttl))"
proof -
  obtain ns where lock: "cred_lock (\<lambda>cs. let cs = revoke_where (\<lambda>existing. dget existing ''session_id'' = JStr sid \<and> cred_scope existing = JStr sc) now cs
      in Inr ((public_record (new_credential uuid sid u sc (hash secret) ns now (now + ttl)), secret),
              Some (dset cs uuid (new_credential uuid sid u sc (hash secret) ns now (now + ttl))))) fs = (Inr (rec, s), fs')"
    using assms(2)
    by (auto simp: issue_def runtime_timestamp_def finite_argument_def rbind_def require_def mk_float_def split: sum.splits if_splits)
  from cred_lock_returned [OF assms(1) lock] show thesis by (intro that [of ns]) (auto simp: Let_def)
qed

lemma only_new_matches:
  assumes "cstored fs (dset (revoke_where (\<lambda>x. dget x ''session_id'' = JStr sid \<and> cred_scope x = JStr sc) now cs) uuid d)"
    and "cstored fs0 cs" and "0 \<le> now"
    and "(cid, rec) \<in> set (dset (revoke_where (\<lambda>x. dget x ''session_id'' = JStr sid \<and> cred_scope x = JStr sc) now cs) uuid d)"
    and "credential_matches sid sc p h t rec"
  shows "rec = d"
proof (rule ccontr)
  let ?old = "revoke_where (\<lambda>x. dget x ''session_id'' = JStr sid \<and> cred_scope x = JStr sc) now cs"
  assume "rec \<noteq> d"
  have ok: "creds_ok ?old" using assms(2,3) by (auto simp: cstored_def creds_ok_revoke_where)
  then have "(cid, rec) \<in> set ?old" using assms(4) \<open>rec \<noteq> d\<close> by (auto simp: set_dset creds_ok_def)
  from credential_matches_unrevoked [OF ok this assms(5)] show False by (simp add: unrevoked_after_rotation)
qed

lemma issue_ingest_cases:
  assumes "issue_ingest_credential cfg clock secret uuid user_id session_id request w = (Inr answer, w')"
  obtains session current ttl rec s fs info where
    "fst (get_session session_id (nw_sessions (iw_nodes w))) = Inr (Some session)" "dget session ''user_id'' = JStr user_id" "accepting session"
    "clock = Fin current" "0 \<le> current" "capped_ttl request current session = Inr ttl"
    "issue (ig_hash cfg) session_id user_id (iq_scope request) (iq_protocols request) (JTime ttl) (Some (JTime current)) clock secret uuid (iw_credentials w)
       = (Inr (rec, s), fs)"
    "answer = dupdate rec [(''credential_secret'', JStr s), (''connection_info'', JObj (info (username_of cfg rec)))]" "iw_credentials w' = fs"
proof -
  obtain session w1 where own: "owned_session session_id user_id w = (Inr session, w1)" and acc: "accepting session"
    using assms by (auto simp: issue_ingest_credential_def ingest_runs)
  obtain ss where get: "get_session session_id (nw_sessions (iw_nodes w)) = (Inr (Some session), ss)" "dget session ''user_id'' = JStr user_id"
      "iw_credentials w1 = iw_credentials w"
    using own by (auto simp: owned_session_def ingest_runs split: option.splits if_splits)
  obtain info current ttl rec s fs where run: "validated_ingest_time (JFloat clock) = Inr current" "capped_ttl request current session = Inr ttl"
    "issue (ig_hash cfg) session_id user_id (iq_scope request) (iq_protocols request) (JTime ttl) (Some (JTime current)) clock secret uuid (iw_credentials w)
       = (Inr (rec, s), fs)"
    "answer = dupdate rec [(''credential_secret'', JStr s), (''connection_info'', JObj (info (username_of cfg rec)))]" "iw_credentials w' = fs"
    using assms own get(3) by (auto simp: issue_ingest_credential_def ingest_runs)
  have "clock = Fin current" "0 \<le> current" using run(1)
    by (cases clock; auto simp: validated_ingest_time_def cache_timestamp_def finite_argument_def split: if_splits)+
  with get acc run show thesis by (intro that [of session current ttl rec s fs info]) auto
qed

lemma capped_by_deadline:
  "capped_ttl request current session = Inr ttl \<Longrightarrow> finite_argument (dget session ''absolute_deadline_at'') = Inr d \<Longrightarrow> current + ttl \<le> d"
  by (auto simp: capped_ttl_def Let_def rbind_eq_Inr validated_ingest_time_def cache_timestamp_def finite_argument_def split: if_splits)


section \<open>A concrete control plane\<close>

definition demo_assigned_node :: dict where
  "demo_assigned_node = new_node ''node-0001'' ''s1'' (Some (demo_session ''LIVE'' []))
     \<lparr>br_provider_server_id = ''srv'', br_boot_id = ''b1'', br_agent_version = ''1'', br_bootstrap_request_id = ''r1'',
      br_node_access_token = ''node'', br_public_address = None, br_private_address = None\<rparr> 43205 5 (demo_digest ''node'')"

definition demo_nodes :: "authority \<Rightarrow> node_world" where
  "demo_nodes ss = snd (write_node_authority
     [(''nodes'', JObj [(''node-0001'', JObj demo_assigned_node)]), (''next_node_seq'', JInt 2), (''tokens'', JObj [])]
     \<lparr>nw_nodes = fresh_authority, nw_fuse = fresh_authority, nw_sessions = ss\<rparr>)"

abbreviation demo_live_session :: dict where
  "demo_live_session \<equiv> demo_session ''LIVE'' [(''absolute_deadline_at'', JTime 40)]"

definition demo_door :: "authority \<Rightarrow> ingest_world" where
  "demo_door creds = \<lparr>iw_nodes = demo_nodes (authority_of (demo_store ''LIVE'' [(''absolute_deadline_at'', JTime 40)])),
     iw_credentials = creds, iw_guard = fresh_authority\<rparr>"

definition demo_settings :: ingest_settings where
  "demo_settings = \<lparr>ig_getenv = (\<lambda>_. None), ig_parse_float = (\<lambda>_. None), ig_str = (\<lambda>_. []), ig_hash = demo_digest,
     ig_guard_env = demo_env, ig_guard = demo_guard\<rparr>"

definition demo_issue_request :: issue_request where
  "demo_issue_request = \<lparr>iq_protocols = [''srt''], iq_ttl_seconds = 60, iq_scope = ''INGEST''\<rparr>"

definition demo_publish :: media_request where
  "demo_publish = \<lparr>mr_user = ''s1'', mr_password = ''x'', mr_token = [], mr_ip = ''10.0.0.1'', mr_action = ''publish'', mr_path = ''live/input'',
     mr_protocol = ''SRT'', mr_id = ''p'', mr_query = [], mr_user_agent = []\<rparr>"

definition demo_clocks :: "rat \<Rightarrow> auth_clocks" where
  "demo_clocks t = \<lparr>ck_check = Fin t, ck_blocked = Fin t, ck_failure = Fin t, ck_event = Fin t, ck_verify = Fin t, ck_success = Fin t, ck_cache = Fin t\<rparr>"

lemma demo_nodes_facts:
  "nw_sessions (demo_nodes ss) = ss" "is_ok (require_assigned_node demo_digest (Some ''Bearer node'') ''s1'' (demo_nodes ss))"
  by code_simp+

lemma demo_live_facts:
  "dget demo_live_session ''user_id'' = JStr ''u1''" "accepting demo_live_session" "dget demo_live_session ''absolute_deadline_at'' = JTime 40"
  by code_simp+

lemma demo_get_live: "fst (get_session ''s1'' (nw_sessions (iw_nodes (demo_door creds)))) = Inr (Some demo_live_session)"
proof -
  let ?fs = "authority_of (demo_store ''LIVE'' [(''absolute_deadline_at'', JTime 40)])"
  have st: "stored ?fs (demo_store ''LIVE'' [(''absolute_deadline_at'', JTime 40)])"
    by (rule stored_demo) (simp_all add: SESSION_STATES_def field_defs)
  obtain r fs' where r: "get_session ''s1'' ?fs = (r, fs')" by fastforce
  from state_lock_reads [OF st r [unfolded get_session_def], of "Inr (Some demo_live_session)"] r
  show ?thesis by (simp add: demo_door_def demo_nodes_facts demo_store_def)
qed

lemma demo_guard_open:
  "map_sum id blocked (fst (check_guard demo_env demo_guard ''10.0.0.1'' ''s1'' None (Fin 7) fresh_authority)) = Inr False"
  "is_ok (fst (record_success demo_env demo_guard ''s1'' None (Fin 7) (snd (check_guard demo_env demo_guard ''10.0.0.1'' ''s1'' None (Fin 7) fresh_authority))))"
  by code_simp+

lemma demo_verified:
  "map_sum id (map_option (\<lambda>rec. (dget rec ''session_id'', dget rec ''id'')))
     (fst (verify demo_digest ''s1'' ''x'' ''srt'' None ''INGEST'' (Fin 7) (snd demo_issue))) = Inr (Some (JStr ''s1'', JStr ''c1''))"
  by code_simp

lemma demo_scope: "request_scope demo_publish = Inr ''INGEST''" "scope_for (mr_action demo_publish) = ''INGEST''" "py_lower (mr_protocol demo_publish) = ''srt''"
  by code_simp+

lemma demo_let_in:
  "\<exists>answer w'. authorize_mediamtx_request demo_settings (demo_clocks 7) (Some ''Bearer node'') demo_publish (demo_door (snd demo_issue)) = (Inr answer, w')"
proof -
  let ?w = "demo_door (snd demo_issue)"
  obtain node where node: "require_assigned_node demo_digest (Some ''Bearer node'') ''s1'' (iw_nodes ?w) = Inr node"
    using demo_nodes_facts(2) by (auto simp: demo_door_def is_ok_iff)
  obtain d gs where check: "check_guard demo_env demo_guard ''10.0.0.1'' ''s1'' None (Fin 7) fresh_authority = (Inr d, gs)" "\<not> blocked d"
    using demo_guard_open(1) by (cases "check_guard demo_env demo_guard ''10.0.0.1'' ''s1'' None (Fin 7) fresh_authority"; cases "fst (check_guard demo_env demo_guard ''10.0.0.1'' ''s1'' None (Fin 7) fresh_authority)") auto
  obtain u gs' where ok: "record_success demo_env demo_guard ''s1'' None (Fin 7) gs = (Inr u, gs')"
    using demo_guard_open(2) check(1) by (cases "record_success demo_env demo_guard ''s1'' None (Fin 7) gs") (auto simp: is_ok_iff)
  obtain ss where get: "get_session ''s1'' (nw_sessions (iw_nodes ?w)) = (Inr (Some demo_live_session), ss)"
    using demo_get_live [of "snd demo_issue"] by (metis prod.collapse)
  obtain rec cs where ver: "verify demo_digest ''s1'' ''x'' ''srt'' None ''INGEST'' (Fin 7) (snd demo_issue) = (Inr (Some rec), cs)" "dget rec ''session_id'' = JStr ''s1''"
    using demo_verified by (cases "verify demo_digest ''s1'' ''x'' ''srt'' None ''INGEST'' (Fin 7) (snd demo_issue)";
        cases "fst (verify demo_digest ''s1'' ''x'' ''srt'' None ''INGEST'' (Fin 7) (snd demo_issue))") auto
  have fields: "mr_user demo_publish = ''s1''" "mr_ip demo_publish = ''10.0.0.1''" "mr_password demo_publish = ''x''" by (simp_all add: demo_publish_def)
  have cfg: "ig_hash demo_settings = demo_digest" "ig_guard_env demo_settings = demo_env" "ig_guard demo_settings = demo_guard" by (simp_all add: demo_settings_def)
  have parts: "iw_guard ?w = fresh_authority" "iw_credentials ?w = snd demo_issue" by (simp_all add: demo_door_def)
  show ?thesis
    unfolding authorize_mediamtx_request_def authorize_request_def authorize_credential_def cfg fields demo_scope demo_clocks_def
    using node check ok get ver demo_live_facts(2) parts
    by (simp add: ibind_def ilift_def raised_def with_guard_def with_sessions_def with_credentials_def iret_def)
qed

lemma demo_issue_stored: "\<exists>cs. cstored (snd demo_issue) cs"
  using run_cred_op_single [OF cstored_fresh, of "OpIssue demo_digest ''s1'' ''u1'' ''INGEST'' [''SRT''] (JTime 60) (Some (JTime 5)) (Fin 0) ''x'' ''c1''"]
  by (auto simp: demo_issue_def single_active_def unrevoked_def)

theorem only_credentials_are_let_in_witness:
  "\<exists>answer w' cs cid rec t. authorize_mediamtx_request demo_settings (demo_clocks 7) (Some ''Bearer node'') demo_publish (demo_door (snd demo_issue)) = (Inr answer, w') \<and>
     cstored (snd demo_issue) cs \<and> (cid, rec) \<in> set cs \<and> credential_matches ''s1'' ''INGEST'' ''srt'' (demo_digest ''x'') t rec \<and>
     dget answer ''credential_id'' = JStr cid"
proof -
  obtain answer w' where run: "authorize_mediamtx_request demo_settings (demo_clocks 7) (Some ''Bearer node'') demo_publish (demo_door (snd demo_issue)) = (Inr answer, w')"
    using demo_let_in by blast
  obtain cs where cs: "cstored (snd demo_issue) cs" using demo_issue_stored by blast
  have "cstored (iw_credentials (demo_door (snd demo_issue))) cs" using cs by (simp add: demo_door_def)
  from only_credentials_are_let_in [OF run this] demo_scope show ?thesis
    using run cs by (auto simp: demo_publish_def demo_settings_def)
qed


lemma demo_endpoint: "\<exists>info. endpoint_info demo_settings demo_live_session demo_issue_request ''x'' = Inr info"
proof -
  have "''rtmp'' \<notin> set (map py_lower [''srt''])" by code_simp
  then show ?thesis
    by (simp add: endpoint_info_def demo_issue_request_def resolve_ingest_endpoint_config_def port_if_def configured_port_def demo_settings_def Let_def)
qed

lemma demo_capped: "capped_ttl demo_issue_request 6 demo_live_session = Inr 34"
  by (simp add: capped_ttl_def demo_live_facts demo_issue_request_def validated_ingest_time_def cache_timestamp_def finite_argument_def)

lemma demo_issue_ok:
  "is_ok (fst (issue demo_digest ''s1'' ''u1'' ''INGEST'' [''srt''] (JTime 34) (Some (JTime 6)) (Fin 6) ''x'' ''c1'' fresh_authority))"
  by code_simp

lemma demo_issued:
  "\<exists>answer w'. issue_ingest_credential demo_settings (Fin 6) ''x'' ''c1'' ''u1'' ''s1'' demo_issue_request (demo_door fresh_authority) = (Inr answer, w')"
proof -
  let ?w = "demo_door fresh_authority"
  obtain ss where get: "get_session ''s1'' (nw_sessions (iw_nodes ?w)) = (Inr (Some demo_live_session), ss)"
    using demo_get_live [of fresh_authority] by (metis prod.collapse)
  obtain info where info: "endpoint_info demo_settings demo_live_session demo_issue_request ''x'' = Inr info"
    using demo_endpoint by blast
  obtain rec secret fs where iss: "issue demo_digest ''s1'' ''u1'' ''INGEST'' [''srt''] (JTime 34) (Some (JTime 6)) (Fin 6) ''x'' ''c1'' fresh_authority = (Inr (rec, secret), fs)"
    using demo_issue_ok by (cases "issue demo_digest ''s1'' ''u1'' ''INGEST'' [''srt''] (JTime 34) (Some (JTime 6)) (Fin 6) ''x'' ''c1'' fresh_authority") (auto simp: is_ok_iff)
  have req: "iq_scope demo_issue_request = ''INGEST''" "iq_protocols demo_issue_request = [''srt'']" "ig_hash demo_settings = demo_digest" "iw_credentials ?w = fresh_authority"
    by (simp_all add: demo_issue_request_def demo_settings_def demo_door_def)
  have clock: "validated_ingest_time (JTime 6) = Inr 6" by (simp add: validated_ingest_time_def cache_timestamp_def finite_argument_def)
  show ?thesis
    unfolding issue_ingest_credential_def owned_session_def req
    using get info iss demo_live_facts demo_capped clock req(4)
    by (simp add: ibind_def ilift_def raised_def iguard_def with_sessions_def with_credentials_def iret_def)
qed


end
