(* ===== verification/Auth_Proxy.thy ===== *)
theory Auth_Proxy
  imports Ingest_Auth_Guard
begin

text \<open>
  The authentication proxy of a Node (\<open>ingest_auth_proxy.py\<close>): it forwards the requests of the local media server to the
  control plane, and while that cannot be reached it repeats grants to publishers from a bounded cache.  The answer of the
  control plane, the observation of the relay readers, the JSON reader, \<open>str\<close> of a value that is not a string, and the digest of
  the key fields are arguments.  One request makes at most one operation on the cache, under its lock, and makes it last;
  so requests served by several threads act on the cache like the sequence of their cache operations.
\<close>

section \<open>Configuration\<close>

record proxy_config =
  px_listen_host :: string
  px_listen_port :: int
  px_upstream_timeout_seconds :: rat
  px_cache_max_age_seconds :: rat
  px_cache_max_entries :: nat
  px_relay_max_readers :: int
  px_relay_path :: string

definition getenv_or :: "(string \<Rightarrow> string option) \<Rightarrow> string \<Rightarrow> string \<Rightarrow> string" where
  "getenv_or getenv name dflt = (case getenv name of None \<Rightarrow> dflt | Some s \<Rightarrow> s)"

definition proxy_from_env :: "(string \<Rightarrow> pyfloat option) \<Rightarrow> (string \<Rightarrow> string option) \<Rightarrow> proxy_config" where
  "proxy_from_env parse_float getenv = \<lparr>
     px_listen_host = getenv_or getenv ''NODE_INGEST_AUTH_LISTEN_HOST'' ''0.0.0.0'',
     px_listen_port = env_int getenv ''NODE_INGEST_AUTH_LISTEN_PORT'' 8090 1 65535,
     px_upstream_timeout_seconds = env_float parse_float getenv ''NODE_INGEST_AUTH_UPSTREAM_TIMEOUT_SECONDS'' 2 (1 / 10) 30,
     px_cache_max_age_seconds = env_float parse_float getenv ''NODE_INGEST_AUTH_CACHE_MAX_AGE_SECONDS'' 300 1 3600,
     px_cache_max_entries = nat (env_int getenv ''NODE_INGEST_AUTH_CACHE_MAX_ENTRIES'' 256 1 4096),
     px_relay_max_readers = env_int getenv ''NODE_RELAY_MAX_READERS'' 1 1 32,
     px_relay_path = getenv_or getenv ''NODE_RELAY_PATH'' ''output/relay''\<rparr>"

definition MAX_REQUEST_BYTES :: int where
  "MAX_REQUEST_BYTES = 16 * 1024"

definition CACHE_KEY_FIELDS :: "string list" where
  "CACHE_KEY_FIELDS = [''action'', ''path'', ''protocol'', ''user'', ''password'', ''token'']"

definition INTERNAL_MEDIA_USERNAME :: string where
  "INTERNAL_MEDIA_USERNAME = ''irlight-internal''"

type_synonym media_action = "string \<times> string \<times> string"

definition INTERNAL_MEDIA_ACTIONS :: "media_action list" where
  "INTERNAL_MEDIA_ACTIONS =
     [(''rtmp'', ''publish'', ''output/relay''), (''rtsp'', ''read'', ''live/input''), (''rtsp'', ''read'', ''output/relay'')]"

text \<open>What does not change while the proxy runs.\<close>

record proxy_env =
  pe_config :: proxy_config
  pe_str :: "json \<Rightarrow> string"
  pe_loads :: "string \<Rightarrow> json option"
  pe_key :: "string list \<Rightarrow> string"
  pe_secrets :: "(media_action \<times> string) list"

definition internal_secrets :: "(media_action \<times> string) list option \<Rightarrow> string option \<Rightarrow> (media_action \<times> string) list" where
  "internal_secrets secrets secret =
     (case secrets of
        Some m \<Rightarrow> m
      | None \<Rightarrow> (case secret of Some s \<Rightarrow> if s = [] then [] else map (\<lambda>a. (a, s)) INTERNAL_MEDIA_ACTIONS | None \<Rightarrow> []))"

section \<open>The cache of grants\<close>

text \<open>Keys with their ends, the one used last at the end.\<close>

type_synonym auth_cache = "(string \<times> rat) list"

definition payload_text :: "proxy_env \<Rightarrow> dict \<Rightarrow> string \<Rightarrow> string" where
  "payload_text env payload field = (case dget_or payload field (JStr []) of JStr s \<Rightarrow> s | v \<Rightarrow> pe_str env v)"

definition cache_key :: "proxy_env \<Rightarrow> dict \<Rightarrow> string" where
  "cache_key env payload = pe_key env (map (payload_text env payload) CACHE_KEY_FIELDS)"

definition validated_cache_time :: "json \<Rightarrow> err + rat" where
  "validated_cache_time v =
     (case finite_argument v of Inr x \<Rightarrow> if x < 0 then Inl RuntimeError else Inr x | Inl _ \<Rightarrow> Inl RuntimeError)"

definition prune_cache :: "proxy_config \<Rightarrow> rat \<Rightarrow> auth_cache \<Rightarrow> auth_cache" where
  "prune_cache config now es =
     (let live = filter (\<lambda>p. \<not> snd p \<le> now) es in drop (length live - px_cache_max_entries config) live)"

definition grant_end :: "proxy_config \<Rightarrow> rat \<Rightarrow> rat \<Rightarrow> rat" where
  "grant_end config current valid_until =
     (case fadd (Fin current) (Fin (px_cache_max_age_seconds config)) of Fin t \<Rightarrow> min valid_until t | _ \<Rightarrow> valid_until)"

definition cache_store :: "proxy_env \<Rightarrow> dict \<Rightarrow> json \<Rightarrow> json \<Rightarrow> auth_cache \<Rightarrow> (err + bool) \<times> auth_cache" where
  "cache_store env payload upstream_valid_until clock es =
     (case rbind (validated_cache_time clock) (\<lambda>current. rbind (validated_cache_time upstream_valid_until) (\<lambda>v. Inr (current, v))) of
        Inl e \<Rightarrow> (Inl e, es)
      | Inr (current, valid_until) \<Rightarrow>
          let expires_at = grant_end (pe_config env) current valid_until; key = cache_key env payload in
          if expires_at \<le> current then (Inr False, es)
          else (Inr True, prune_cache (pe_config env) current (filter (\<lambda>p. fst p \<noteq> key) es @ [(key, expires_at)])))"

definition cache_allowed :: "proxy_env \<Rightarrow> dict \<Rightarrow> json \<Rightarrow> auth_cache \<Rightarrow> (err + bool) \<times> auth_cache" where
  "cache_allowed env payload clock es =
     (case validated_cache_time clock of
        Inl e \<Rightarrow> (Inl e, es)
      | Inr current \<Rightarrow>
          let es' = prune_cache (pe_config env) current es; key = cache_key env payload in
          (case map_of es' key of
             None \<Rightarrow> (Inr False, es')
           | Some expires_at \<Rightarrow>
               if expires_at \<le> current then (Inr False, es')
               else (Inr True, filter (\<lambda>p. fst p \<noteq> key) es' @ [(key, expires_at)])))"

definition cache_evict :: "proxy_env \<Rightarrow> dict \<Rightarrow> auth_cache \<Rightarrow> auth_cache" where
  "cache_evict env payload es = filter (\<lambda>p. fst p \<noteq> cache_key env payload) es"

definition cache_size :: "proxy_env \<Rightarrow> json \<Rightarrow> auth_cache \<Rightarrow> (err + nat) \<times> auth_cache" where
  "cache_size env clock es =
     (case validated_cache_time clock of
        Inl e \<Rightarrow> (Inl e, es)
      | Inr current \<Rightarrow> let es' = prune_cache (pe_config env) current es in (Inr (length es'), es'))"

section \<open>Answering a request\<close>

datatype proxy_body = Raw_Body string | Json_Body dict

record proxy_response =
  ps_status :: int
  ps_body :: proxy_body
  ps_headers :: "(string \<times> string) list"

definition json_response :: "int \<Rightarrow> dict \<Rightarrow> (string \<times> string) list \<Rightarrow> proxy_response" where
  "json_response status payload headers = \<lparr>ps_status = status, ps_body = Json_Body payload, ps_headers = headers\<rparr>"

definition detail :: "int \<Rightarrow> string \<Rightarrow> proxy_response" where
  "detail status text = json_response status [(''detail'', JStr text)] []"

text \<open>What comes back from the control plane: a response, an HTTP error, or nothing.\<close>

datatype upstream_answer =
    Upstream_Response int string "string option"
  | Upstream_Error int string "string option"
  | Upstream_Unreachable

record proxy_call =
  pq_payload :: dict
  pq_readers :: "dict option"
  pq_upstream :: upstream_answer
  pq_clock :: json

definition authorize_internal_media :: "proxy_env \<Rightarrow> dict \<Rightarrow> proxy_response option" where
  "authorize_internal_media env payload =
     (if payload_text env payload ''user'' \<noteq> INTERNAL_MEDIA_USERNAME then None else
      let action = (py_lower (payload_text env payload ''protocol''), py_lower (payload_text env payload ''action''), payload_text env payload ''path'') in
      if action \<notin> set INTERNAL_MEDIA_ACTIONS then Some (detail 403 ''unsupported internal media action'') else
      let configured = (case map_of (pe_secrets env) action of None \<Rightarrow> [] | Some s \<Rightarrow> s) in
      if configured = [] \<or> configured \<noteq> payload_text env payload ''password'' then Some (detail 401 ''invalid internal media credential'')
      else Some (json_response 200 [(''authorized'', JBool True), (''internal'', JBool True)] []))"

definition relay_read_limited :: "proxy_env \<Rightarrow> dict option \<Rightarrow> dict \<Rightarrow> proxy_response option" where
  "relay_read_limited env observation payload =
     (if py_lower (payload_text env payload ''action'') \<noteq> ''read'' \<or> py_lower (payload_text env payload ''protocol'') \<noteq> ''rtmp'' \<or>
         payload_text env payload ''path'' \<noteq> px_relay_path (pe_config env) then None else
      let unavailable = Some (json_response 503 [(''detail'', JStr ''relay reader limiter unavailable'')] [(''Retry-After'', ''2'')]) in
      case observation of
        None \<Rightarrow> unavailable
      | Some ob \<Rightarrow>
          if dget ob ''reason_code'' = JStr ''RELAY_SOURCE_OFFLINE'' then None
          else if dget ob ''status'' = JStr ''UNKNOWN'' \<or> dget ob ''reason_code'' \<noteq> JNull then unavailable
          else (case as_int (dget ob ''reader_count'') of
                  None \<Rightarrow> unavailable
                | Some readers \<Rightarrow>
                    if readers < 0 then unavailable
                    else if px_relay_max_readers (pe_config env) \<le> readers then Some (detail 403 ''relay reader limit reached'') else None))"

definition cacheable :: "proxy_env \<Rightarrow> dict \<Rightarrow> bool" where
  "cacheable env payload \<longleftrightarrow> payload_text env payload ''action'' = ''publish''"

definition CACHED_GRANT :: proxy_response where
  "CACHED_GRANT = json_response 200 [(''authorized'', JBool True), (''cached'', JBool True)] []"

definition proxy_fallback :: "proxy_env \<Rightarrow> dict \<Rightarrow> json \<Rightarrow> auth_cache \<Rightarrow> proxy_response \<times> auth_cache" where
  "proxy_fallback env payload clock es =
     (let (allowed, es') = (if cacheable env payload then cache_allowed env payload clock es else (Inr False, es)) in
      (if allowed = Inr True then CACHED_GRANT
       else json_response 503 [(''detail'', JStr ''ingest auth upstream unavailable'')] [(''Retry-After'', ''2'')], es'))"

definition retry_header :: "string option \<Rightarrow> (string \<times> string) list" where
  "retry_header retry_after = (case retry_after of None \<Rightarrow> [] | Some v \<Rightarrow> if v = [] then [] else [(''Retry-After'', v)])"

definition body_or_empty :: "string \<Rightarrow> proxy_body" where
  "body_or_empty body = (if body = [] then Raw_Body ''{}'' else Raw_Body body)"

text \<open>A response that the control plane gave without an error.\<close>

definition upstream_success :: "proxy_env \<Rightarrow> dict \<Rightarrow> int \<Rightarrow> string \<Rightarrow> string option \<Rightarrow> json \<Rightarrow> auth_cache \<Rightarrow> proxy_response \<times> auth_cache" where
  "upstream_success env payload status body retry_after clock es =
     (if \<not> (200 \<le> status \<and> status < 300)
      then (\<lparr>ps_status = status, ps_body = body_or_empty body, ps_headers = []\<rparr>, cache_evict env payload es)
      else (case Option.bind (pe_loads env body) as_obj of
              None \<Rightarrow> (detail 502 ''invalid auth upstream response'', cache_evict env payload es)
            | Some result \<Rightarrow>
                if dget result ''authorized'' \<noteq> JBool True then (detail 502 ''invalid auth upstream response'', cache_evict env payload es)
                else (\<lparr>ps_status = status, ps_body = Raw_Body body, ps_headers = retry_header retry_after\<rparr>,
                      if cacheable env payload
                      then snd (cache_store env payload (dget_or result ''cache_valid_until'' (JTime 0)) clock es) else es)))"

definition proxy_authorize :: "proxy_env \<Rightarrow> proxy_call \<Rightarrow> auth_cache \<Rightarrow> proxy_response \<times> auth_cache" where
  "proxy_authorize env c es =
     (case authorize_internal_media env (pq_payload c) of
        Some r \<Rightarrow> (r, es)
      | None \<Rightarrow>
          (case relay_read_limited env (pq_readers c) (pq_payload c) of
             Some r \<Rightarrow> (r, es)
           | None \<Rightarrow>
               (case pq_upstream c of
                  Upstream_Unreachable \<Rightarrow> proxy_fallback env (pq_payload c) (pq_clock c) es
                | Upstream_Error status body retry_after \<Rightarrow>
                    if 400 \<le> status \<and> status < 500
                    then (\<lparr>ps_status = status, ps_body = body_or_empty body, ps_headers = retry_header retry_after\<rparr>, cache_evict env (pq_payload c) es)
                    else proxy_fallback env (pq_payload c) (pq_clock c) es
                | Upstream_Response status body retry_after \<Rightarrow>
                    upstream_success env (pq_payload c) status body retry_after (pq_clock c) es)))"

text \<open>\<open>do_POST\<close> of the local server, with the bytes that it reads after the checks of the length.\<close>

definition proxy_post :: "proxy_env \<Rightarrow> string \<Rightarrow> string option \<Rightarrow> string \<Rightarrow> (dict \<Rightarrow> proxy_call) \<Rightarrow> auth_cache \<Rightarrow> proxy_response \<times> auth_cache" where
  "proxy_post env path content_length raw call es =
     (if path \<noteq> ''/auth'' then (detail 404 ''not found'', es) else
      case int_of_str (case content_length of None \<Rightarrow> ''0'' | Some s \<Rightarrow> s) of
        None \<Rightarrow> (detail 400 ''invalid content length'', es)
      | Some n \<Rightarrow>
          if n \<le> 0 \<or> MAX_REQUEST_BYTES < n
          then (detail (if MAX_REQUEST_BYTES < n then 413 else 400) ''invalid auth request'', es)
          else (case Option.bind (pe_loads env raw) as_obj of
                  None \<Rightarrow> (detail 400 ''invalid auth request'', es)
                | Some payload \<Rightarrow> proxy_authorize env (call payload) es))"

section \<open>Grants from the cache\<close>

primrec run_proxy :: "proxy_env \<Rightarrow> proxy_call list \<Rightarrow> auth_cache \<Rightarrow> auth_cache" where
  "run_proxy env [] es = es"
| "run_proxy env (c # cs) es = run_proxy env cs (snd (proxy_authorize env c es))"

definition call_key :: "proxy_env \<Rightarrow> proxy_call \<Rightarrow> string" where
  "call_key env c = cache_key env (pq_payload c)"

text \<open>The request reached the control plane.\<close>

definition forwarded :: "proxy_env \<Rightarrow> proxy_call \<Rightarrow> bool" where
  "forwarded env c \<longleftrightarrow> authorize_internal_media env (pq_payload c) = None \<and> relay_read_limited env (pq_readers c) (pq_payload c) = None"

text \<open>A grant of the control plane, with the end it gave and the time at which it came.\<close>

definition granted :: "proxy_env \<Rightarrow> proxy_call \<Rightarrow> rat \<Rightarrow> rat \<Rightarrow> bool" where
  "granted env c valid_until current \<longleftrightarrow> forwarded env c \<and> payload_text env (pq_payload c) ''action'' = ''publish'' \<and>
     validated_cache_time (pq_clock c) = Inr current \<and>
     (\<exists>status body retry_after result. pq_upstream c = Upstream_Response status body retry_after \<and> 200 \<le> status \<and> status < 300 \<and>
        pe_loads env body = Some (JObj result) \<and> dget result ''authorized'' = JBool True \<and>
        validated_cache_time (dget_or result ''cache_valid_until'' (JTime 0)) = Inr valid_until)"

text \<open>The control plane answered, and not with a grant or a failure of its own.\<close>

definition refused :: "proxy_env \<Rightarrow> proxy_call \<Rightarrow> bool" where
  "refused env c \<longleftrightarrow> forwarded env c \<and>
     (case pq_upstream c of
        Upstream_Unreachable \<Rightarrow> False
      | Upstream_Error status _ _ \<Rightarrow> 400 \<le> status \<and> status < 500
      | Upstream_Response status body _ \<Rightarrow>
          \<not> (200 \<le> status \<and> status < 300 \<and> (\<exists>result. pe_loads env body = Some (JObj result) \<and> dget result ''authorized'' = JBool True)))"

definition backed :: "proxy_env \<Rightarrow> proxy_call list \<Rightarrow> string \<times> rat \<Rightarrow> bool" where
  "backed env calls p \<longleftrightarrow> (\<exists>before g after valid_until current.
     calls = before @ g # after \<and> call_key env g = fst p \<and> granted env g valid_until current \<and>
     snd p = grant_end (pe_config env) current valid_until \<and> (\<forall>h \<in> set after. call_key env h = fst p \<longrightarrow> \<not> refused env h))"

definition cache_backed :: "proxy_env \<Rightarrow> proxy_call list \<Rightarrow> auth_cache \<Rightarrow> bool" where
  "cache_backed env calls es \<longleftrightarrow> length es \<le> px_cache_max_entries (pe_config env) \<and> distinct (map fst es) \<and> (\<forall>p \<in> set es. backed env calls p)"

lemma backed_snoc:
  assumes "backed env calls p" and "call_key env c = fst p \<Longrightarrow> \<not> refused env c"
  shows "backed env (calls @ [c]) p"
proof -
  obtain before g after v t where g: "calls = before @ g # after" "call_key env g = fst p" "granted env g v t"
    "snd p = grant_end (pe_config env) t v" "\<forall>h \<in> set after. call_key env h = fst p \<longrightarrow> \<not> refused env h"
    using assms(1) unfolding backed_def by blast
  then have "calls @ [c] = before @ g # (after @ [c])" "\<forall>h \<in> set (after @ [c]). call_key env h = fst p \<longrightarrow> \<not> refused env h"
    using assms(2) by auto
  with g(2-4) show ?thesis unfolding backed_def by blast
qed

lemma backed_new:
  assumes "granted env c v t"
  shows "backed env (calls @ [c]) (call_key env c, grant_end (pe_config env) t v)"
  unfolding backed_def using assms by (intro exI [of _ calls] exI [of _ c] exI [of _ "[]"] exI [of _ v] exI [of _ t]) simp

lemma prune_cache_facts:
  "set (prune_cache config now es) \<subseteq> set es" "length (prune_cache config now es) \<le> px_cache_max_entries config"
  "distinct (map fst es) \<Longrightarrow> distinct (map fst (prune_cache config now es))"
  by (auto simp: prune_cache_def Let_def distinct_map_filter drop_map [symmetric] distinct_drop dest: in_set_dropD)

text \<open>The three ways in which a request changes the cache.\<close>

lemma evict_keeps:
  assumes "cache_backed env calls es"
  shows "cache_backed env (calls @ [c]) (cache_evict env (pq_payload c) es)"
  using assms unfolding cache_backed_def cache_evict_def
  by (auto simp: call_key_def distinct_map_filter intro: backed_snoc le_trans [OF length_filter_le])

lemma same_keeps:
  assumes "cache_backed env calls es" and "\<not> refused env c"
  shows "cache_backed env (calls @ [c]) es"
  using assms unfolding cache_backed_def by (auto intro: backed_snoc)

lemma pruned_backed:
  assumes "\<forall>p \<in> set es. backed env calls p" and "distinct (map fst es)"
  shows "cache_backed env calls (prune_cache (pe_config env) now es)"
  using assms prune_cache_facts(1,3) [where config = "pe_config env" and now = now and es = es]
    prune_cache_facts(2) [where config = "pe_config env" and now = now and es = es] unfolding cache_backed_def by blast

lemma move_backed:
  assumes "cache_backed env calls es" and "map_of es key = Some e"
  shows "cache_backed env calls (filter (\<lambda>p. fst p \<noteq> key) es @ [(key, e)])"
proof -
  have "(key, e) \<in> set es" using assms(2) by (rule map_of_SomeD)
  then have "length (filter (\<lambda>p. fst p \<noteq> key) es) < length es" by (intro length_filter_less) auto
  then show ?thesis using assms(1) \<open>(key, e) \<in> set es\<close> by (auto simp: cache_backed_def distinct_map_filter)
qed

lemma store_keeps:
  assumes "cache_backed env calls es" and "\<not> refused env c"
    and "\<And>v t. validated_cache_time until = Inr v \<Longrightarrow> validated_cache_time (pq_clock c) = Inr t \<Longrightarrow> granted env c v t"
  shows "cache_backed env (calls @ [c]) (snd (cache_store env (pq_payload c) until (pq_clock c) es))"
proof -
  have same: "cache_backed env (calls @ [c]) es" by (rule same_keeps [OF assms(1,2)])
  show ?thesis
  proof (cases "validated_cache_time (pq_clock c)")
    case (Inr t)
    note t = this
    show ?thesis
    proof (cases "validated_cache_time until")
      case (Inr v)
      let ?es = "filter (\<lambda>p. fst p \<noteq> call_key env c) es @ [(call_key env c, grant_end (pe_config env) t v)]"
      have "\<forall>p \<in> set ?es. backed env (calls @ [c]) p" "distinct (map fst ?es)"
        using same backed_new [OF assms(3) [OF Inr t], of calls] by (auto simp: cache_backed_def distinct_map_filter)
      from pruned_backed [OF this] show ?thesis using same t Inr by (simp add: cache_store_def Let_def call_key_def)
    qed (use same t in \<open>simp add: cache_store_def\<close>)
  qed (use same in \<open>simp add: cache_store_def\<close>)
qed

lemma allowed_keeps: "cache_backed env calls es \<Longrightarrow> cache_backed env calls (snd (cache_allowed env payload clock es))"
proof (cases "validated_cache_time clock")
  case (Inr t)
  assume b: "cache_backed env calls es"
  then have p: "cache_backed env calls (prune_cache (pe_config env) t es)" by (intro pruned_backed) (auto simp: cache_backed_def)
  then show ?thesis using Inr move_backed [OF p] by (auto simp: cache_allowed_def Let_def split: option.splits)
qed (simp add: cache_allowed_def)

lemma fallback_keeps:
  "cache_backed env calls es \<Longrightarrow> \<not> refused env c \<Longrightarrow> cache_backed env (calls @ [c]) (snd (proxy_fallback env (pq_payload c) (pq_clock c) es))"
  using allowed_keeps [OF same_keeps] same_keeps by (auto simp: proxy_fallback_def Let_def split: prod.splits) (metis snd_conv)

lemma success_keeps:
  assumes "cache_backed env calls es" and "forwarded env c" and "pq_upstream c = Upstream_Response status body retry_after"
  shows "cache_backed env (calls @ [c]) (snd (upstream_success env (pq_payload c) status body retry_after (pq_clock c) es))"
proof (cases "200 \<le> status \<and> status < 300 \<and> (\<exists>result. pe_loads env body = Some (JObj result) \<and> dget result ''authorized'' = JBool True)")
  case True
  then obtain result where r: "200 \<le> status" "status < 300" "pe_loads env body = Some (JObj result)" "dget result ''authorized'' = JBool True" by blast
  then have ok: "\<not> refused env c" using assms(3) by (simp add: refused_def)
  show ?thesis
  proof (cases "cacheable env (pq_payload c)")
    case True
    have "cache_backed env (calls @ [c]) (snd (cache_store env (pq_payload c) (dget_or result ''cache_valid_until'' (JTime 0)) (pq_clock c) es))"
      using assms(2,3) r True by (intro store_keeps [OF assms(1) ok]) (simp add: granted_def cacheable_def)
    then show ?thesis using r True by (simp add: upstream_success_def)
  next
    case False
    then show ?thesis using r same_keeps [OF assms(1) ok] by (simp add: upstream_success_def)
  qed
next
  case False
  then have "snd (upstream_success env (pq_payload c) status body retry_after (pq_clock c) es) = cache_evict env (pq_payload c) es"
    by (auto simp: upstream_success_def split: option.splits bind_splits)
  then show ?thesis using evict_keeps [OF assms(1)] by simp
qed

lemma authorize_keeps:
  assumes "cache_backed env calls es"
  shows "cache_backed env (calls @ [c]) (snd (proxy_authorize env c es))"
proof (cases "forwarded env c")
  case True
  then have f: "authorize_internal_media env (pq_payload c) = None" "relay_read_limited env (pq_readers c) (pq_payload c) = None"
    by (simp_all add: forwarded_def)
  show ?thesis
  proof (cases "pq_upstream c")
    case (Upstream_Response status body retry_after)
    then show ?thesis using f success_keeps [OF assms True] by (simp add: proxy_authorize_def)
  next
    case (Upstream_Error status body retry_after)
    then show ?thesis using f evict_keeps [OF assms, of c] fallback_keeps [OF assms, of c] by (simp add: proxy_authorize_def refused_def)
  next
    case Upstream_Unreachable
    then show ?thesis using f fallback_keeps [OF assms, of c] by (simp add: proxy_authorize_def refused_def)
  qed
next
  case False
  then have "snd (proxy_authorize env c es) = es" by (auto simp: proxy_authorize_def forwarded_def split: option.splits)
  then show ?thesis using same_keeps [OF assms, of c] False by (simp add: refused_def)
qed

lemma run_backed: "cache_backed env before es \<Longrightarrow> cache_backed env (before @ calls) (run_proxy env calls es)"
proof (induction calls arbitrary: before es)
  case (Cons c calls)
  from Cons.IH [OF authorize_keeps [OF Cons.prems, of c]] show ?case by simp
qed simp

lemma cached_grant_cases:
  assumes "proxy_authorize env c es = (CACHED_GRANT, es')"
  shows "\<not> refused env c \<and> payload_text env (pq_payload c) ''action'' = ''publish'' \<and>
    (\<exists>now e. validated_cache_time (pq_clock c) = Inr now \<and> (call_key env c, e) \<in> set es \<and> now < e)"
proof -
  have f: "authorize_internal_media env (pq_payload c) = None" "relay_read_limited env (pq_readers c) (pq_payload c) = None"
    using assms by (auto simp: proxy_authorize_def authorize_internal_media_def relay_read_limited_def CACHED_GRANT_def detail_def json_response_def Let_def
        split: option.splits if_splits)
  have fb: "proxy_fallback env (pq_payload c) (pq_clock c) es = (CACHED_GRANT, es')" "\<not> refused env c"
    using assms f by (auto simp: proxy_authorize_def upstream_success_def refused_def CACHED_GRANT_def detail_def json_response_def
        body_or_empty_def split: upstream_answer.splits option.splits if_splits)
  have a: "cacheable env (pq_payload c)" "cache_allowed env (pq_payload c) (pq_clock c) es = (Inr True, es')"
    using fb(1) by (auto simp: proxy_fallback_def CACHED_GRANT_def json_response_def split: prod.splits if_splits)
  obtain now e where "validated_cache_time (pq_clock c) = Inr now" "map_of (prune_cache (pe_config env) now es) (call_key env c) = Some e" "now < e"
    using a(2) by (auto simp: cache_allowed_def call_key_def Let_def split: sum.splits option.splits if_splits)
  moreover from this(2) have "(call_key env c, e) \<in> set es" using prune_cache_facts(1) [where config = "pe_config env" and now = now and es = es] by (auto dest: map_of_SomeD)
  ultimately show ?thesis using a(1) fb(2) by (auto simp: cacheable_def)
qed


definition demo_proxy :: proxy_env where
  "demo_proxy = \<lparr>pe_config = \<lparr>px_listen_host = [], px_listen_port = 8090, px_upstream_timeout_seconds = 2, px_cache_max_age_seconds = 30,
     px_cache_max_entries = 2, px_relay_max_readers = 1, px_relay_path = ''output/relay''\<rparr>, pe_str = (\<lambda>_. []),
     pe_loads = (\<lambda>_. Some (JObj [(''authorized'', JBool True), (''cache_valid_until'', JTime 50)])), pe_key = concat, pe_secrets = []\<rparr>"

definition demo_proxy_call :: "upstream_answer \<Rightarrow> rat \<Rightarrow> proxy_call" where
  "demo_proxy_call answer t = \<lparr>pq_payload = [(''action'', JStr ''publish''), (''user'', JStr ''s1''), (''password'', JStr ''x'')], pq_readers = None,
     pq_upstream = answer, pq_clock = JTime t\<rparr>"

lemma demo_cached:
  "fst (proxy_authorize demo_proxy (demo_proxy_call Upstream_Unreachable 49) (run_proxy demo_proxy [demo_proxy_call (Upstream_Response 200 [] None) 25] [])) = CACHED_GRANT"
  by code_simp


end
