(* ===== verification/Spec2Isabelle.thy ===== *)
theory Spec2Isabelle
  imports Session_Observations Session_Prepare Session_Leases Session_Lifecycle Revocation Provisioning
    Auth_Rate_Limit Continuity Session_Event_Policy Ingest_Policy Ingest_Auth_Guard Egress
    Control_Store Entitlement_Store Node_Identity Node_Health Egress_Safety Alert_Modules Node_Supervisor Auth_Store Asset_Processing
    Ingest_Api Auth_Proxy
begin

text \<open>
  IRLight rents one cloud node per live stream.  A control plane (\<open>apps/control-api\<close>) keeps the Sessions of
  its users in JSON authority files, creates and deletes the provider's volumes and servers for them
  (\<open>provider\<close>), issues ingest credentials and sweeps what was left behind.  On the node an agent
  (\<open>apps/node-agent\<close>) judges the incoming stream, a continuity engine (\<open>apps/continuity\<close>) switches between
  the live source and a standby picture, and an egress gateway (\<open>apps/egress-gateway\<close>) publishes the result.
  This development models those parts from their Python sources and proves what they promise one another.


  Conventions.

  A JSON value is the datatype \<open>json\<close> of Prelude, a dict an association list in insertion order.  A float is
  \<open>pyfloat\<close>: an exact rational below the overflow threshold of binary64, an infinity or NaN; rounding is not
  modelled, overflow is.  Python ints are \<open>int\<close>.  A string is Latin-1 text.  An exception is a value of
  \<open>err\<close>, one constructor per class, and a fallible operation returns \<open>err + 'a\<close>.  Clock readings, random
  draws and fresh UUIDs are arguments, so a theorem holds for every value of them, also for clocks that go
  backwards unless it says otherwise.  What lies outside the repository is a parameter: the SHA-256 digest
  and the HMAC, the formatting and parsing of timestamp tags, the canonical text of an IP address or a UUID,
  the text of a float and of an exception, and the answers of the media server and of the provider.  No
  definition uses fuel: every loop of the sources that is modelled runs over a finite list or shrinks a
  measure, and a loop that waits for the world (the reaper, the agent, the gateway) is a function of the
  list of what the world did.


  Stores.

  State_Safety models \<open>state_safety.py\<close> and the file protocol shared by all stores: the payload, the
  initialisation marker and the temporary file of one authority; the strict loader on JSON syntax trees;
  the commit as a list of durable steps; and the cycle load, modify, publish of a method under its lock
  (\<open>auth_locked\<close>).  The locale \<open>authority_codec\<close> states what a store's encoder and decoder owe that cycle and
  proves once what a locked method does to the contents; every store interprets it.  A method is atomic
  because every writer holds the exclusive lock; interleavings of processes are therefore sequences of
  calls, and the theorems on runs quantify over all of them.

  Session_State, Session_Wf, Session_Store and the theories above them model \<open>session_store.py\<close>: the
  document and its validators, creation and capacity, prepare with its idempotency key, cleanup leases,
  provisioning checkpoints, stop, events, media control, heartbeats and media observations.
  Session_Lifecycle closes the operations into reachable authorities and proves the invariants by rule
  induction; Session_Fresh shows that fresh records are valid; Session_Frames says which operations touch
  which Session; Session_Prepare, Session_Leases, Session_Stop, Session_Media and Session_Observations prove
  the outcome of each operation on every branch.

  Ingest_Store models \<open>ingest_store.py\<close> and Ingest_Credentials proves rotation, authentication and revocation.
  Ingest_Auth_Guard models \<open>ingest_auth_guard.py\<close>: failure windows, lockouts, eviction and events; its two
  theorems say that enough failures lock a credential out and that a lockout cannot be lifted early.
  Ingest_Api models \<open>ingest_api.py\<close>, whose handlers combine the credential store and the guard with the Session store and the Node
  registry: a request of the media server is granted only on a live credential, a stop shuts the Session, and a
  credential ends with its Session.
  Auth_Rate_Limit models \<open>auth_rate_limit.py\<close>, with shard files refined to in-memory tables.
  Session_Event_Policy models \<open>session_event_policy.py\<close>: the body limit on ASGI messages and the payload
  budget, whose iterative scan is proved equal to a recursive definition.  Entitlement_Store models
  \<open>entitlement_store.py\<close> with the admission step of \<open>session_api.py\<close> that joins it to the Session store, and
  Control_Store models \<open>control_store.py\<close> together with its reader, the continuity engine.


  Resources.

  Provider models the types, tags and identifier checks of \<open>conoha.py\<close> and the in-memory provider of
  \<open>fake_provider.py\<close>; the locale \<open>provider_contract\<close> is what the workflow and the reaper rely on, and
  \<open>creating_provider\<close> extends it with creation.  Effects is the state and exception monad in which
  Session_Workflow (\<open>session_workflow.py\<close>) and Reaper (\<open>reaper.py\<close>) are written: an action runs on the
  Session authority, the credential authority and the provider, draws clock readings from a supply, and
  either returns or raises.  Cleanup shows that the reaper reports a Session finished only when the provider
  holds none of its resources and that the orphan sweep spares the resources of Sessions in service;
  Provisioning, that retries never duplicate resources; Revocation, that credentials are revoked before
  anything is deleted.


  Users, catalog and destinations.

  Auth_Store models \<open>auth_store.py\<close> and \<open>auth_session_gc.py\<close>: the user and session files with their validators,
  password hashes, registration, login, tokens, revocation and pruning.  A registered user logs in with the
  registered password and with no password of another key, and pruning changes the answer to no token.
  Catalog_Store models \<open>catalog_store.py\<close>, with the object keys of Asset_Intent (\<open>asset_upload_intent.py\<close>) and
  the URL checks of Destination_Url (\<open>destination_url_safety.py\<close>) over Url_Text, which writes out the parts of
  \<open>urllib.parse\<close> they use.  Catalog_Safety closes the calls into runs, with probes as calls that begin and end
  at different times: users are isolated, a VERIFIED destination was probed at its present URL, and an asset
  never becomes READY.  Asset_Processing models \<open>asset_processing.py\<close>: PNG, JPEG and WebP headers on bytes, with
  CRC-32 on 32-bit words.  Destination_Secrets models \<open>destination_secret_store.py\<close>, Egress_Delivery
  \<open>egress_destination.py\<close> and the delivery of \<open>node_internal.py\<close>, and Egress_Safety puts them together: the URL a
  booting Node is given belongs to a destination that was probed at that URL.


  Nodes in the control plane.

  Node_State models the two authority files of \<open>node_internal.py\<close> and the merge of the write-ahead fuse for
  bootstrap tokens; Node_Registry its operations (bootstrap, heartbeat, stop, list) on these files and on the
  Session store, with \<open>pipeline_health.py\<close>.  Node_Tokens shows that a token is used once, over any calls and
  crashes; Node_Identity that every call is a step of an abstract registry in which a Node keeps its identity;
  Node_Health when a failed pipeline becomes a failure of the Session.


  The node.

  Node_Observers models \<open>egress_status.py\<close> and \<open>relay_client.py\<close>, Node_Agent the operations of \<open>agent.py\<close>
  (bootstrap with its retries, the files written from the answer, the heartbeat), and Node_Run the run itself
  as two interleaved threads, the main thread and the deadline watchdog, with signals, the clock and the media
  stack as the environment; its invariants are shown by induction over the steps.  Node_Supervisor models
  \<open>supervisor.py\<close> over the answers of docker compose.
  Auth_Proxy models \<open>ingest_auth_proxy.py\<close>: a grant that the proxy repeats from its cache was given before by the
  control plane, is not past its end and was not refused since.
  Ingest_Policy models \<open>ingest_policy.py\<close>: bitrate sampling, track policy and the single kick.  Continuity
  models \<open>state.py\<close>, \<open>control_state.py\<close> and the reconciliation of \<open>continuity.py\<close>, and compares the incremental
  decision with the history of frames.  Egress models \<open>egress_policy.py\<close>, \<open>egress_report_cadence.py\<close> and the
  retry loop of \<open>egress.py\<close>.  Python_Text holds the string operations these share.


  Alerts.

  Alert_Lines models \<open>operations_jsonl_safety.py\<close>: the bounded readers, equal to reading whole lines, and the
  hooks of the strict JSON loader.  Alert_Evaluation is the loop that the \<open>operations_*_alerts.py\<close> modules share,
  with a locale for what a module supplies; Alert_Catalog models \<open>operations_alert_catalog.py\<close> and
  \<open>operations_event_alerts.py\<close>, and Alert_Modules interprets the locale for eight modules and the capacity alert.


  Bounds of the statements.

  The order of keys in a written file is kept except where the code depends on it (the buckets of the
  ingest authentication guard, which \<open>sort_keys\<close> reorders).  The lockout theorems assume that the guard's
  table has room for two buckets per call, since eviction takes the oldest bucket whether it is locked or
  not.  The theorem on continuity decisions assumes that frames are recorded in the order of their clock
  readings and not behind a decision; the theorem beside it shows what happens otherwise.  The theorem on
  outages gives the number of failures at which the retry loop ends with an OverflowError.


  What is assumed of a parameter stands in the theorem: that PBKDF2 gives 32 bytes and SHA-256 64 hex digits, that
  a decryption undoes its encryption, that fresh identifiers are fresh.  The theorem on the exit of a Node agent
  excludes a stop that overtakes the start; the theorem beside it shows that such a run leaves the media stack
  running.


  Not modelled.

  The HTTP layers: FastAPI routes, cookies, request models and the shaping of responses, except where a handler
  holds logic of its own (Node-internal API, ingest API, admission of a prepare).  Destination probing (DNS, sockets, TLS),
  the bound on concurrent key derivations (advisory file locks), the alerts that read the Node registry, the
  inspection and restore tools, the client of the cloud API, media sampling and the secret files of the node, the
  GStreamer pipelines and the isolation of egress attempts, and the test and release scripts.  These are calls
  into the operating system, the network or a media library with little state of their own; their
  results are the arguments of the parts above.
\<close>

end
